(* ===== verification/Bridge_Prelude.thy ===== *)
theory Bridge_Prelude
  imports Main "HOL-Library.Word"
begin

text \<open>
  The prelude of the development: the machine integers and byte strings of the parachain
  code, the outcome of a fallible Rust expression, the state-and-outcome functions that the
  pallets' dispatchables become, and the generic lemmas the components share.

  Conventions.  Rust's primitive integers (\<open>u8\<close>, \<open>u32\<close>, \<open>u64\<close>, \<open>u128\<close>) are words and their
  operators wrap, because the runtime is built in the release profile and \<open>Cargo.toml\<close> does
  not turn overflow checks on.  The operators of the library type \<open>U256\<close> panic on overflow,
  and the \<open>checked_\<close> methods return \<open>None\<close>.  A hash or an address is a word too, read as
  its bytes in big-endian order.
\<close>

section \<open>Collections of facts\<close>

named_theorems ext_simps \<open>how the storage combinators run\<close>
named_theorems ok_simps \<open>when a combinator ends in Ok\<close>
named_theorems keeps_rules \<open>an invariant is kept by a composed operation\<close>
named_theorems stops_rules \<open>an outcome is not a run without end\<close>
named_theorems checked_simps \<open>checked arithmetic read as arithmetic on nat\<close>

section \<open>Integers, hashes, bytes\<close>

type_synonym u8 = "8 word"
type_synonym u16 = "16 word"
type_synonym u32 = "32 word"
type_synonym u64 = "64 word"
type_synonym u128 = "128 word"
type_synonym u256 = "256 word"
type_synonym h64 = "64 word"
type_synonym h128 = "128 word"
type_synonym h160 = "160 word"
type_synonym h256 = "256 word"
type_synonym h512 = "512 word"
type_synonym bytes = "8 word list"

definition checked_add :: "'a::len word \<Rightarrow> 'a word \<Rightarrow> 'a word option" where
  "checked_add a b = (if unat a + unat b < 2 ^ LENGTH('a) then Some (a + b) else None)"

definition checked_sub :: "'a::len word \<Rightarrow> 'a word \<Rightarrow> 'a word option" where
  "checked_sub a b = (if b \<le> a then Some (a - b) else None)"

definition checked_mul :: "'a::len word \<Rightarrow> 'a word \<Rightarrow> 'a word option" where
  "checked_mul a b = (if unat a * unat b < 2 ^ LENGTH('a) then Some (a * b) else None)"

definition checked_div :: "'a::len word \<Rightarrow> 'a word \<Rightarrow> 'a word option" where
  "checked_div a b = (if b = 0 then None else Some (a div b))"

definition saturating_add :: "'a::len word \<Rightarrow> 'a word \<Rightarrow> 'a word" where
  "saturating_add a b = (if unat a + unat b < 2 ^ LENGTH('a) then a + b else - 1)"

definition saturating_sub :: "'a::len word \<Rightarrow> 'a word \<Rightarrow> 'a word" where
  "saturating_sub a b = (if b \<le> a then a - b else 0)"

definition saturating_mul :: "'a::len word \<Rightarrow> 'a word \<Rightarrow> 'a word" where
  "saturating_mul a b = (if unat a * unat b < 2 ^ LENGTH('a) then a * b else - 1)"

text \<open>\<open>u64::checked_pow\<close> and the like.\<close>

definition checked_pow :: "'a::len word \<Rightarrow> nat \<Rightarrow> 'a word option" where
  "checked_pow a n = (if unat a ^ n < 2 ^ LENGTH('a) then Some (a ^ n) else None)"

text \<open>The big-endian bytes of a word of \<open>n\<close> bytes, and the word a byte string denotes.\<close>

definition be_bytes :: "nat \<Rightarrow> 'a::len word \<Rightarrow> bytes" where
  "be_bytes n w = map (\<lambda>i. ucast (drop_bit (8 * i) w)) (rev [0..<n])"

definition of_be_bytes :: "bytes \<Rightarrow> 'a::len word" where
  "of_be_bytes bs = foldl (\<lambda>acc b. acc * 256 + ucast b) 0 bs"

section \<open>Outcomes\<close>

text \<open>
  What evaluating a Rust expression of type \<open>Result<'a, 'e>\<close> can end in: a value, an error,
  a panic (which aborts the extrinsic), or no result at all, when a loop of the source does
  not stop.
\<close>

datatype ('e, 'a) result = Ok 'a | Err 'e | Panic | Loop

primrec bind_res :: "('e, 'a) result \<Rightarrow> ('a \<Rightarrow> ('e, 'b) result) \<Rightarrow> ('e, 'b) result" where
  "bind_res (Ok a) f = f a"
| "bind_res (Err e) f = Err e"
| "bind_res Panic f = Panic"
| "bind_res Loop f = Loop"

primrec map_err :: "('e \<Rightarrow> 'f) \<Rightarrow> ('e, 'a) result \<Rightarrow> ('f, 'a) result" where
  "map_err f (Ok a) = Ok a"
| "map_err f (Err e) = Err (f e)"
| "map_err f Panic = Panic"
| "map_err f Loop = Loop"

primrec ok_or :: "'e \<Rightarrow> 'a option \<Rightarrow> ('e, 'a) result" where
  "ok_or e None = Err e"
| "ok_or e (Some a) = Ok a"

definition ensure :: "bool \<Rightarrow> 'e \<Rightarrow> ('e, unit) result" where
  "ensure b e = (if b then Ok () else Err e)"

text \<open>An \<open>unwrap\<close> or an operator of \<open>U256\<close>: no value is a panic.\<close>

primrec unwrap :: "'a option \<Rightarrow> ('e, 'a) result" where
  "unwrap None = Panic"
| "unwrap (Some a) = Ok a"

text \<open>A search that may not stop: \<open>None\<close> stands for a run without end.\<close>

primrec must_stop :: "'a option \<Rightarrow> ('e, 'a) result" where
  "must_stop None = Loop"
| "must_stop (Some a) = Ok a"

definition is_ok :: "('e, 'a) result \<Rightarrow> bool" where
  "is_ok r = (case r of Ok _ \<Rightarrow> True | _ \<Rightarrow> False)"

text \<open>A call that comes back, with a value or an error, so that its writes are kept.\<close>

definition returns :: "('e, 'a) result \<Rightarrow> bool" where
  "returns r = (case r of Ok _ \<Rightarrow> True | Err _ \<Rightarrow> True | _ \<Rightarrow> False)"

definition stops :: "('e, 'a) result \<Rightarrow> bool" where
  "stops r \<longleftrightarrow> r \<noteq> Loop"

section \<open>Operations on storage\<close>

text \<open>
  A dispatchable reads and writes the storage and ends in an outcome.  The writes done
  before an error stay, unless the call is marked \<open>#[transactional]\<close>.
\<close>

type_synonym ('s, 'e, 'a) ext = "'s \<Rightarrow> ('e, 'a) result \<times> 's"

definition ret :: "'a \<Rightarrow> ('s, 'e, 'a) ext" where
  "ret a s = (Ok a, s)"

definition lift_res :: "('e, 'a) result \<Rightarrow> ('s, 'e, 'a) ext" where
  "lift_res r s = (r, s)"

definition bind_ext :: "('s, 'e, 'a) ext \<Rightarrow> ('a \<Rightarrow> ('s, 'e, 'b) ext) \<Rightarrow> ('s, 'e, 'b) ext" where
  "bind_ext m f s = (case m s of
       (Ok a, s') \<Rightarrow> f a s'
     | (Err e, s') \<Rightarrow> (Err e, s')
     | (Panic, s') \<Rightarrow> (Panic, s')
     | (Loop, s') \<Rightarrow> (Loop, s'))"

definition gets :: "('s \<Rightarrow> 'a) \<Rightarrow> ('s, 'e, 'a) ext" where
  "gets f s = (Ok (f s), s)"

definition modify :: "('s \<Rightarrow> 's) \<Rightarrow> ('s, 'e, unit) ext" where
  "modify f s = (Ok (), f s)"

text \<open>\<open>#[transactional]\<close>: an error takes every write back.\<close>

definition transactional :: "('s, 'e, 'a) ext \<Rightarrow> ('s, 'e, 'a) ext" where
  "transactional m s = (case m s of (Ok a, s') \<Rightarrow> (Ok a, s') | (r, _) \<Rightarrow> (r, s))"

text \<open>One storage item, or the items of one pallet, inside the whole storage.\<close>

record ('s, 'v) storage =
  sget :: "'s \<Rightarrow> 'v"
  sput :: "'v \<Rightarrow> 's \<Rightarrow> 's"

text \<open>An operation of a pallet on its own items, run on the whole storage.\<close>

definition zoom :: "('s, 'v) storage \<Rightarrow> ('v, 'e, 'a) ext \<Rightarrow> ('s, 'e, 'a) ext" where
  "zoom st m s = (case m (sget st s) of (r, v) \<Rightarrow> (r, sput st v s))"

text \<open>
  \<open>try_mutate\<close>: the closure gets the item's value and may touch other storage; only an
  \<open>Ok\<close> writes the new value back.
\<close>

definition try_mutate :: "('s, 'v) storage \<Rightarrow> ('v \<Rightarrow> ('s, 'e, 'a \<times> 'v) ext) \<Rightarrow> ('s, 'e, 'a) ext" where
  "try_mutate st f = bind_ext (gets (sget st)) (\<lambda>v. bind_ext (f v) (\<lambda>(a, v').
     bind_ext (modify (sput st v')) (\<lambda>_. ret a)))"

text \<open>\<open>map_err\<close> on an operation: the writes before the error are not touched.\<close>

definition map_err_ext :: "('e \<Rightarrow> 'f) \<Rightarrow> ('s, 'e, 'a) ext \<Rightarrow> ('s, 'f, 'a) ext" where
  "map_err_ext f m s = (case m s of (r, s') \<Rightarrow> (map_err f r, s'))"

text \<open>Every outcome that keeps its writes leaves the storage in \<open>I\<close>.\<close>

definition keeps :: "('s \<Rightarrow> bool) \<Rightarrow> ('s, 'e, 'a) ext \<Rightarrow> bool" where
  "keeps I m \<longleftrightarrow> (\<forall>s r s'. I s \<longrightarrow> m s = (r, s') \<longrightarrow> returns r \<longrightarrow> I s')"

text \<open>An error leaves the storage as it was.\<close>

definition err_unchanged :: "('s, 'e, 'a) ext \<Rightarrow> bool" where
  "err_unchanged m \<longleftrightarrow> (\<forall>s e s'. m s = (Err e, s') \<longrightarrow> s' = s)"

section \<open>Lemmas on checked arithmetic\<close>

lemma checked_add_Some_iff [checked_simps]: "checked_add a b = Some c \<longleftrightarrow> unat c = unat a + unat b"
proof
  assume "checked_add a b = Some c"
  then show "unat c = unat a + unat b"
    by (auto simp: checked_add_def unat_word_ariths split: if_splits)
next
  assume c: "unat c = unat a + unat b"
  then have l: "unat a + unat b < 2 ^ LENGTH('a)"
    by (metis unsigned_less)
  then have "c = a + b"
    using c by (intro word_unat_eq_iff [THEN iffD2]) (simp add: unat_word_ariths)
  with l show "checked_add a b = Some c"
    by (simp add: checked_add_def)
qed

lemma checked_add_None_iff [checked_simps]:
  "checked_add (a :: 'a::len word) b = None \<longleftrightarrow> 2 ^ LENGTH('a) \<le> unat a + unat b"
  by (auto simp: checked_add_def)

lemma checked_sub_Some_iff [checked_simps]: "checked_sub a b = Some c \<longleftrightarrow> unat a = unat c + unat b"
proof
  assume "checked_sub a b = Some c"
  then have "b \<le> a" "c = a - b" by (auto simp: checked_sub_def split: if_splits)
  then show "unat a = unat c + unat b"
    by (simp add: unat_sub word_le_nat_alt)
next
  assume c: "unat a = unat c + unat b"
  then have ba: "b \<le> a" by (simp add: word_le_nat_alt)
  then have "unat (a - b) = unat c" using c by (simp add: unat_sub)
  with ba show "checked_sub a b = Some c"
    by (simp add: checked_sub_def word_unat_eq_iff)
qed

lemma checked_sub_None_iff [checked_simps]: "checked_sub a b = None \<longleftrightarrow> unat a < unat b"
  by (auto simp: checked_sub_def word_le_nat_alt)

lemma checked_mul_Some_iff [checked_simps]: "checked_mul a b = Some c \<longleftrightarrow> unat c = unat a * unat b"
proof
  assume "checked_mul a b = Some c"
  then show "unat c = unat a * unat b"
    by (auto simp: checked_mul_def unat_word_ariths split: if_splits)
next
  assume c: "unat c = unat a * unat b"
  then have l: "unat a * unat b < 2 ^ LENGTH('a)"
    by (metis unsigned_less)
  then have "c = a * b"
    using c by (intro word_unat_eq_iff [THEN iffD2]) (simp add: unat_word_ariths)
  with l show "checked_mul a b = Some c"
    by (simp add: checked_mul_def)
qed

lemma checked_mul_None_iff [checked_simps]:
  "checked_mul (a :: 'a::len word) b = None \<longleftrightarrow> 2 ^ LENGTH('a) \<le> unat a * unat b"
  by (auto simp: checked_mul_def)

lemma checked_div_Some_iff [checked_simps]:
  "checked_div a b = Some c \<longleftrightarrow> b \<noteq> 0 \<and> unat c = unat a div unat b"
  by (auto simp: checked_div_def unat_div_distrib word_unat_eq_iff)

lemma unat_saturating_sub: "unat (saturating_sub a b) = unat a - unat b"
  by (auto simp: saturating_sub_def unat_sub word_le_nat_alt)

lemma unat_max_word: "unat (- 1 :: 'a::len word) = 2 ^ LENGTH('a) - 1"
  by (simp add: unsigned_minus_1_eq_mask mask_eq_exp_minus_1)

lemma unat_saturating_add:
  "unat (saturating_add (a :: 'a::len word) b) = min (unat a + unat b) (2 ^ LENGTH('a) - 1)"
  by (auto simp: saturating_add_def unat_word_ariths unat_max_word)

lemma unat_saturating_mul:
  "unat (saturating_mul (a :: 'a::len word) b) = min (unat a * unat b) (2 ^ LENGTH('a) - 1)"
  by (auto simp: saturating_mul_def unat_word_ariths unat_max_word)

lemma unat_plus_one: "(n :: 'a::len word) < m \<Longrightarrow> unat (n + 1) = unat n + 1"
proof -
  assume "n < m"
  then have "unat n < unat m" by (simp add: word_less_nat_alt)
  then have "Suc (unat n) < 2 ^ LENGTH('a)"
    by (rule le_less_trans [OF Suc_leI unsigned_less])
  then show ?thesis by (simp add: unat_word_ariths)
qed

lemma unat_succ_nonzero: "(n :: 'a::len word) + 1 \<noteq> 0 \<Longrightarrow> unat (n + 1) = unat n + 1"
  using unat_minus_one [of "n + 1"] unat_gt_0 [of "n + 1"] by simp

section \<open>Bytes\<close>

lemma unat_ucast_mod: "unat (ucast (x :: 'a::len word) :: 'b::len word) = unat x mod 2 ^ LENGTH('b)"
  by (simp only: unsigned_ucast_eq take_bit_eq_mod)

lemma unat_ucast_u128 [simp]: "unat (ucast (x :: u128) :: u256) = unat x"
  using unsigned_less [of x, where ?'a = nat] by (simp add: unat_ucast_mod)

lemma length_be_bytes [simp]: "length (be_bytes n w) = n"
  by (simp add: be_bytes_def)

lemma be_bytes_0 [simp]: "be_bytes 0 w = []"
  by (simp add: be_bytes_def)

lemma be_bytes_Suc: "be_bytes (Suc n) w = ucast (drop_bit (8 * n) w) # be_bytes n w"
  by (simp add: be_bytes_def)

lemma of_be_bytes_foldl:
  "foldl (\<lambda>acc b. acc * 256 + ucast b) (a :: 'a::len word) bs = a * 256 ^ length bs + of_be_bytes bs"
proof (induction bs arbitrary: a rule: rev_induct)
  case Nil
  then show ?case by (simp add: of_be_bytes_def)
next
  case (snoc b bs)
  have "foldl (\<lambda>acc b. acc * 256 + ucast b) a (bs @ [b]) =
    (a * 256 ^ length bs + of_be_bytes bs) * 256 + ucast b"
    by (simp only: foldl_append foldl.simps snoc)
  also have "\<dots> = a * 256 ^ length (bs @ [b]) + (of_be_bytes bs * 256 + ucast b)"
    by (simp only: length_append_singleton power_Suc2 distrib_right mult.assoc add.assoc)
  finally show ?case by (simp add: of_be_bytes_def)
qed

lemma of_be_bytes_Nil [simp]: "of_be_bytes [] = 0"
  by (simp add: of_be_bytes_def)

lemma of_be_bytes_Cons: "of_be_bytes (b # bs) = ucast b * 256 ^ length bs + of_be_bytes bs"
  using of_be_bytes_foldl [of "ucast b" bs] by (simp add: of_be_bytes_def)

lemma power_256: "(256 :: 'a::comm_semiring_1) ^ n = 2 ^ (8 * n)"
proof -
  have "(256 :: 'a) = 2 ^ 8" by simp
  then show ?thesis by (metis power_mult)
qed

lemma of_be_bytes_be_bytes: "of_be_bytes (be_bytes n w) = take_bit (8 * n) w"
proof (induction n)
  case 0
  then show ?case by simp
next
  case (Suc n)
  let ?t = "take_bit (8 * Suc n) w"
  have byte: "(ucast (ucast (drop_bit (8 * n) w) :: u8) :: 'a word) = take_bit 8 (drop_bit (8 * n) w)"
    by (simp add: unsigned_ucast_eq)
  have "?t = push_bit (8 * n) (drop_bit (8 * n) ?t) + take_bit (8 * n) ?t"
    by (rule bits_ident [symmetric])
  also have "\<dots> = push_bit (8 * n) (take_bit 8 (drop_bit (8 * n) w)) + take_bit (8 * n) w"
    by (simp add: drop_bit_take_bit)
  finally show ?case
    using Suc byte by (simp add: be_bytes_Suc of_be_bytes_Cons power_256 push_bit_eq_mult)
qed

lemma of_be_bytes_id [simp]:
  "8 * n = LENGTH('a) \<Longrightarrow> of_be_bytes (be_bytes n (w :: 'a::len word)) = w"
  by (simp add: of_be_bytes_be_bytes take_bit_word_eq_self)

lemma be_bytes_take_bit: "be_bytes n (take_bit (8 * n) w) = be_bytes n w"
proof -
  have "ucast (drop_bit (8 * i) (take_bit (8 * n) w)) = (ucast (drop_bit (8 * i) w) :: u8)"
    if "i < n" for i
  proof (rule bit_word_eqI)
    fix k assume "k < LENGTH(8)"
    then have "k < 8" by simp
    then have "8 * i + k < 8 * n" using that by linarith
    then show "bit (ucast (drop_bit (8 * i) (take_bit (8 * n) w)) :: u8) k =
      bit (ucast (drop_bit (8 * i) w) :: u8) k"
      using \<open>k < 8\<close> by (simp add: bit_ucast_iff bit_drop_bit_eq bit_take_bit_iff)
  qed
  then show ?thesis by (simp add: be_bytes_def)
qed

lemma unat_of_be_bytes_Cons:
  assumes "8 * Suc (length bs) \<le> LENGTH('a)" and y: "unat (of_be_bytes bs :: 'a::len word) < 256 ^ length bs"
  shows "unat (of_be_bytes (b # bs) :: 'a word) = unat b * 256 ^ length bs + unat (of_be_bytes bs :: 'a word)"
    and "unat (of_be_bytes (b # bs) :: 'a word) < 256 ^ Suc (length bs)"
proof -
  let ?n = "length bs" and ?y = "of_be_bytes bs :: 'a word"
  let ?v = "unat b * 256 ^ ?n + unat ?y"
  have "unat b < 256" using unsigned_less [of b, where ?'a = nat] by simp
  then have "?v < (unat b + 1) * 256 ^ ?n" using y by simp
  also have "\<dots> \<le> 256 * 256 ^ ?n" using \<open>unat b < 256\<close> by (intro mult_right_mono) auto
  finally have v: "?v < 256 ^ Suc ?n" by simp
  have "(256 :: nat) ^ Suc ?n \<le> 2 ^ LENGTH('a)"
    unfolding power_256 using assms(1) by (intro power_increasing) auto
  with v have "?v < 2 ^ LENGTH('a)" by linarith
  moreover have "of_be_bytes (b # bs) = (of_nat ?v :: 'a word)"
    by (simp add: of_be_bytes_Cons)
  ultimately show "unat (of_be_bytes (b # bs) :: 'a word) = ?v"
    by (metis unat_of_nat mod_less)
  with v show "unat (of_be_bytes (b # bs) :: 'a word) < 256 ^ Suc ?n" by simp
qed

lemma unat_of_be_bytes_bound:
  "8 * length bs \<le> LENGTH('a) \<Longrightarrow> unat (of_be_bytes bs :: 'a::len word) < 256 ^ length bs"
  by (induction bs) (use unat_of_be_bytes_Cons(2) in auto)

lemma be_bytes_mod:
  fixes w v :: "'a::len word"
  shows "unat w mod 256 ^ n = unat v mod 256 ^ n \<Longrightarrow> be_bytes n w = be_bytes n v"
proof -
  assume "unat w mod 256 ^ n = unat v mod 256 ^ n"
  then have "unat (take_bit (8 * n) w) = unat (take_bit (8 * n) v)"
    by (simp only: unsigned_take_bit_eq) (simp add: take_bit_eq_mod power_256)
  then have "take_bit (8 * n) w = take_bit (8 * n) v" by (simp only: word_unat_eq_iff)
  then show ?thesis by (metis be_bytes_take_bit)
qed

lemma be_bytes_of_be_bytes:
  "8 * length bs \<le> LENGTH('a) \<Longrightarrow> be_bytes (length bs) (of_be_bytes bs :: 'a::len word) = bs"
proof (induction bs)
  case Nil
  then show ?case by simp
next
  case (Cons b bs)
  let ?n = "length bs" and ?y = "of_be_bytes bs :: 'a word" and ?w = "of_be_bytes (b # bs) :: 'a word"
  have y: "unat ?y < 256 ^ ?n" using Cons.prems by (intro unat_of_be_bytes_bound) simp
  then have w: "unat ?w = unat b * 256 ^ ?n + unat ?y"
    using Cons.prems by (intro unat_of_be_bytes_Cons) simp_all
  then have "be_bytes ?n ?w = be_bytes ?n ?y" by (intro be_bytes_mod) simp
  moreover have "unat (drop_bit (8 * ?n) ?w) = unat ?w div 256 ^ ?n"
    by (simp only: unsigned_drop_bit_eq take_bit_nat_eq_self [OF unsigned_less])
      (simp add: drop_bit_eq_div power_256)
  with y w have "unat (drop_bit (8 * ?n) ?w) = unat b" by simp
  then have "(ucast (drop_bit (8 * ?n) ?w) :: u8) = b"
    by (metis of_nat_unat ucast_id)
  ultimately show ?case using Cons by (simp add: be_bytes_Suc)
qed

lemma be_bytes_zero [simp]: "be_bytes n 0 = replicate n 0"
  by (induction n) (simp_all add: be_bytes_Suc)

lemma be_bytes_ucast: "8 * n \<le> LENGTH('b) \<Longrightarrow> be_bytes n (ucast (w :: 'a::len word) :: 'b::len word) = be_bytes n w"
proof -
  assume n: "8 * n \<le> LENGTH('b)"
  have "(ucast (drop_bit (8 * i) (ucast w :: 'b word)) :: u8) = ucast (drop_bit (8 * i) w)" if "i < n" for i
  proof (rule bit_word_eqI)
    fix k assume "k < LENGTH(8)"
    then have "8 * i + k < LENGTH('b)" using that n by simp
    then show "bit (ucast (drop_bit (8 * i) (ucast w :: 'b word)) :: u8) k = bit (ucast (drop_bit (8 * i) w) :: u8) k"
      using \<open>k < LENGTH(8)\<close> by (simp add: bit_ucast_iff bit_drop_bit_eq)
  qed
  then show ?thesis by (simp add: be_bytes_def)
qed

lemma be_bytes_inj: "8 * n = LENGTH('a) \<Longrightarrow> be_bytes n (x :: 'a::len word) = be_bytes n y \<longleftrightarrow> x = y"
  by (metis of_be_bytes_id)

section \<open>Lemmas on outcomes and storage operations\<close>

lemma bind_res_Ok [ok_simps]: "bind_res r f = Ok b \<longleftrightarrow> (\<exists>a. r = Ok a \<and> f a = Ok b)"
  by (cases r) auto

lemma map_err_Ok [ok_simps]: "map_err f r = Ok a \<longleftrightarrow> r = Ok a"
  by (cases r) auto

lemma ok_or_Ok [ok_simps]: "ok_or e m = Ok a \<longleftrightarrow> m = Some a"
  by (cases m) auto

lemma ensure_Ok [ok_simps]: "ensure b e = Ok u \<longleftrightarrow> b"
  by (auto simp: ensure_def)

lemma unwrap_Ok [ok_simps]: "unwrap m = Ok a \<longleftrightarrow> m = Some a"
  by (cases m) auto

lemma must_stop_Ok [ok_simps]: "must_stop m = Ok a \<longleftrightarrow> m = Some a"
  by (cases m) auto

lemma returns_simps [simp]: "returns (Ok a)" "returns (Err e)" "\<not> returns Panic" "\<not> returns Loop"
  by (simp_all add: returns_def)

lemma is_ok_simps [simp]: "is_ok (Ok a)" "\<not> is_ok (Err e)" "\<not> is_ok Panic" "\<not> is_ok Loop"
  by (simp_all add: is_ok_def)

lemma stops_bind [stops_rules]: "stops r \<Longrightarrow> (\<And>a. stops (f a)) \<Longrightarrow> stops (bind_res r f)"
  by (cases r) (auto simp: stops_def)

lemma stops_basic [stops_rules]: "stops (Ok a)" "stops (Err e)" "stops Panic" "stops (ok_or e m)" "stops (ensure b e)"
  "stops (unwrap m)"
  by (simp_all add: stops_def ensure_def) (cases m, simp_all)+

lemma stops_map_err [stops_rules]: "stops r \<Longrightarrow> stops (map_err f r)"
  by (cases r) (auto simp: stops_def)

lemma stops_if [stops_rules]: "stops r \<Longrightarrow> stops r' \<Longrightarrow> stops (if b then r else r')"
  by simp

lemma stops_case_prod [stops_rules]: "(\<And>a b. stops (f a b)) \<Longrightarrow> stops (case x of (a, b) \<Rightarrow> f a b)"
  by (cases x) simp

lemma stops_case_option [stops_rules]: "stops r \<Longrightarrow> (\<And>a. stops (f a)) \<Longrightarrow> stops (case m of None \<Rightarrow> r | Some a \<Rightarrow> f a)"
  by (cases m) simp_all

lemma stops_must_stop: "m = Some a \<Longrightarrow> stops (must_stop m)"
  by (simp add: stops_def)

lemma bind_ext_run [ext_simps]:
  "m s = (Ok a, s') \<Longrightarrow> bind_ext m f s = f a s'"
  "m s = (Err e, s') \<Longrightarrow> bind_ext m f s = (Err e, s')"
  "m s = (Panic, s') \<Longrightarrow> bind_ext m f s = (Panic, s')"
  "m s = (Loop, s') \<Longrightarrow> bind_ext m f s = (Loop, s')"
  by (simp_all add: bind_ext_def)

lemma bind_ext_lift [ext_simps]:
  "bind_ext (lift_res (Ok a)) f s = f a s"
  "bind_ext (lift_res (Err e)) f s = (Err e, s)"
  "bind_ext (lift_res Panic) f s = (Panic, s)"
  "bind_ext (lift_res Loop) f s = (Loop, s)"
  by (simp_all add: bind_ext_def lift_res_def)

lemma bind_ext_basic [ext_simps]:
  "bind_ext (ret a) f s = f a s"
  "bind_ext (gets g) f s = f (g s) s"
  "bind_ext (modify h) f s = f () (h s)"
  by (simp_all add: bind_ext_def ret_def gets_def modify_def)

lemma basic_run [ext_simps]:
  "ret a s = (Ok a, s)" "lift_res r s = (r, s)" "gets g s = (Ok (g s), s)" "modify h s = (Ok (), h s)"
  by (simp_all add: ret_def lift_res_def gets_def modify_def)

lemma bind_ext_Ok [ok_simps]:
  "bind_ext m f s = (Ok b, s') \<longleftrightarrow> (\<exists>a t. m s = (Ok a, t) \<and> f a t = (Ok b, s'))"
  by (auto simp: bind_ext_def split: prod.splits result.splits)

lemma bind_ext_Err [ok_simps]:
  "bind_ext m f s = (Err e, s') \<longleftrightarrow>
     m s = (Err e, s') \<or> (\<exists>a t. m s = (Ok a, t) \<and> f a t = (Err e, s'))"
  by (auto simp: bind_ext_def split: prod.splits result.splits)

lemma ret_Ok [ok_simps]: "ret a s = (Ok b, s') \<longleftrightarrow> b = a \<and> s' = s"
  by (auto simp: ret_def)

lemma lift_res_Ok [ok_simps]: "lift_res r s = (Ok b, s') \<longleftrightarrow> r = Ok b \<and> s' = s"
  by (auto simp: lift_res_def)

lemma gets_Ok [ok_simps]: "gets g s = (Ok b, s') \<longleftrightarrow> b = g s \<and> s' = s"
  by (auto simp: gets_def)

lemma modify_Ok [ok_simps]: "modify h s = (Ok b, s') \<longleftrightarrow> s' = h s"
  by (auto simp: modify_def)

lemma transactional_Ok [ok_simps]: "transactional m s = (Ok a, s') \<longleftrightarrow> m s = (Ok a, s')"
  by (auto simp: transactional_def split: prod.splits result.splits)

lemma transactional_err_unchanged [simp]: "err_unchanged (transactional m)"
  by (auto simp: err_unchanged_def transactional_def split: prod.splits result.splits)

lemma transactional_not_Ok: "transactional m s = (r, s') \<Longrightarrow> \<not> is_ok r \<Longrightarrow> s' = s"
  by (auto simp: transactional_def split: prod.splits result.splits)

lemma zoom_Ok [ok_simps]:
  "zoom st m s = (Ok a, s') \<longleftrightarrow> (\<exists>v. m (sget st s) = (Ok a, v) \<and> s' = sput st v s)"
  by (auto simp: zoom_def split: prod.splits)

lemma fst_zoom: "fst (zoom st m s) = fst (m (sget st s))"
  by (cases "m (sget st s)") (simp add: zoom_def)

lemma map_err_ext_Ok [ok_simps]: "map_err_ext f m s = (Ok a, s') \<longleftrightarrow> m s = (Ok a, s')"
  by (auto simp: map_err_ext_def ok_simps split: prod.splits)

lemma map_err_ext_Err: "map_err_ext f m s = (Err e, s') \<longleftrightarrow> (\<exists>e'. m s = (Err e', s') \<and> e = f e')"
  by (cases "m s"; cases "fst (m s)") (auto simp: map_err_ext_def)

section \<open>Invariants of composed operations\<close>

lemma keepsI: "(\<And>s r s'. I s \<Longrightarrow> m s = (r, s') \<Longrightarrow> returns r \<Longrightarrow> I s') \<Longrightarrow> keeps I m"
  by (simp add: keeps_def)

lemma keepsD: "keeps I m \<Longrightarrow> I s \<Longrightarrow> m s = (r, s') \<Longrightarrow> returns r \<Longrightarrow> I s'"
  by (simp add: keeps_def)

lemma keeps_ret [keeps_rules]: "keeps I (ret a)"
  by (simp add: keeps_def ret_def)

lemma keeps_lift [keeps_rules]: "keeps I (lift_res r)"
  by (simp add: keeps_def lift_res_def)

lemma keeps_gets [keeps_rules]: "keeps I (gets f)"
  by (simp add: keeps_def gets_def)

lemma keeps_modify: "(\<And>s. I s \<Longrightarrow> I (f s)) \<Longrightarrow> keeps I (modify f)"
  by (simp add: keeps_def modify_def)

lemma keeps_bind [keeps_rules]: "keeps I m \<Longrightarrow> (\<And>a. keeps I (f a)) \<Longrightarrow> keeps I (bind_ext m f)"
proof (rule keepsI)
  fix s r s'
  assume m: "keeps I m" and f: "\<And>a. keeps I (f a)" and s: "I s"
    and run: "bind_ext m f s = (r, s')" and r: "returns r"
  obtain r1 t where t: "m s = (r1, t)" by (cases "m s")
  show "I s'"
  proof (cases r1)
    case (Ok a)
    then have "I t" using keepsD [OF m s t] by simp
    moreover have "f a t = (r, s')" using run t Ok by (simp add: ext_simps)
    ultimately show ?thesis using keepsD [OF f] r by blast
  next
    case (Err e)
    then show ?thesis using keepsD [OF m s t] run t by (simp add: ext_simps)
  qed (use run r t in \<open>auto simp: ext_simps\<close>)
qed

lemma keeps_transactional [keeps_rules]: "keeps I m \<Longrightarrow> keeps I (transactional m)"
  by (auto simp: keeps_def transactional_def split: prod.splits result.splits)

lemma keeps_transactionalI: "(\<And>s a s'. I s \<Longrightarrow> m s = (Ok a, s') \<Longrightarrow> I s') \<Longrightarrow> keeps I (transactional m)"
  by (auto simp: keeps_def transactional_def split: prod.splits result.splits)

lemma map_err_ext_keeps [keeps_rules]: "keeps I m \<Longrightarrow> keeps I (map_err_ext f m)"
proof (rule keepsI)
  fix s r s'
  assume "keeps I m" "I s" "map_err_ext f m s = (r, s')" "returns r"
  then show "I s'" by (cases "m s"; cases "fst (m s)") (auto simp: map_err_ext_def dest!: keepsD)
qed

lemma keeps_case_prod [keeps_rules]: "(\<And>a b. keeps I (f a b)) \<Longrightarrow> keeps I (case x of (a, b) \<Rightarrow> f a b)"
  by (cases x) simp

lemma keeps_if [keeps_rules]: "keeps I m \<Longrightarrow> keeps I n \<Longrightarrow> keeps I (if b then m else n)"
  by simp

section \<open>The contract of a storage item\<close>

text \<open>A write is what the next read returns, and writes to an item do not pile up.\<close>

locale storage_item =
  fixes st :: "('s, 'v) storage"
  assumes get_put: "sget st (sput st v s) = v"
    and put_get: "sput st (sget st s) s = s"
    and put_put: "sput st v (sput st w s) = sput st v s"
begin

lemma zoom_ret: "zoom st (ret a) = ret a"
  by (rule ext) (simp add: zoom_def ret_def put_get)

lemma zoom_keeps: "keeps I m \<Longrightarrow> keeps (\<lambda>s. I (sget st s)) (zoom st m)"
  by (auto simp: keeps_def zoom_def get_put split: prod.splits)

lemma zoom_err_unchanged: "err_unchanged m \<Longrightarrow> err_unchanged (zoom st m)"
  unfolding err_unchanged_def zoom_def by (metis (no_types, lifting) case_prod_conv prod.exhaust prod.inject put_get)

lemma try_mutate_Ok:
  "try_mutate st f s = (Ok a, s') \<longleftrightarrow>
     (\<exists>v' t. f (sget st s) s = (Ok (a, v'), t) \<and> s' = sput st v' t)"
  unfolding try_mutate_def by (auto simp: ok_simps)

lemma try_mutate_Err:
  "try_mutate st f s = (Err e, s') \<longleftrightarrow> f (sget st s) s = (Err e, s')"
  unfolding try_mutate_def by (auto simp: ok_simps basic_run)

end

end
