(* ===== verification/Eth_Primitives.thy ===== *)
theory Eth_Primitives
  imports Bridge_Prelude
begin

text \<open>
  \<open>primitives/ethereum\<close>: logs, receipts, the nodes of Ethereum's Merkle-Patricia trie and
  block headers.  The RLP codec (crate \<open>rlp\<close>) and the hash functions (\<open>sp_io\<close>) are not part
  of this repository: they are the fields of \<open>eth_lib\<close>, an argument of every definition that
  calls them.  The decoders of this crate are written over the library's view of a list item
  (\<open>iter\<close>, \<open>as_val\<close> at a base type, \<open>data\<close>, \<open>item_count\<close>), the encoder of a header as the
  sequence of calls it makes on the library's stream.
\<close>

section \<open>The libraries the crate calls\<close>

datatype decoder_error = Custom string | RlpError nat

text \<open>The calls \<open>Header::rlp\<close> makes on an \<open>RlpStream\<close>.\<close>

datatype rlp_op =
    BeginList nat
  | AppendH256 h256
  | AppendH160 h160
  | AppendBloom bytes
  | AppendU256 u256
  | AppendU64 u64
  | AppendBytes bytes
  | AppendRaw bytes nat

record eth_lib =
  rlp_iter :: "bytes \<Rightarrow> bytes list"
  rlp_item_count :: "bytes \<Rightarrow> (decoder_error, nat) result"
  rlp_as_bytes :: "bytes \<Rightarrow> (decoder_error, bytes) result"
  rlp_as_u64 :: "bytes \<Rightarrow> (decoder_error, u64) result"
  rlp_as_h160 :: "bytes \<Rightarrow> (decoder_error, h160) result"
  rlp_as_h256 :: "bytes \<Rightarrow> (decoder_error, h256) result"
  rlp_data :: "bytes \<Rightarrow> (decoder_error, bytes) result"
  rlp_out :: "rlp_op list \<Rightarrow> bytes"
  keccak_256 :: "bytes \<Rightarrow> h256"
  keccak_512 :: "bytes \<Rightarrow> h512"
  sha2_256 :: "bytes \<Rightarrow> h256"

text \<open>\<open>collect::<Result<Vec<_>, _>>()\<close>: the values, or the first error.\<close>

primrec collect_results :: "('e, 'a) result list \<Rightarrow> ('e, 'a list) result" where
  "collect_results [] = Ok []"
| "collect_results (r # rs) = bind_res r (\<lambda>a. bind_res (collect_results rs) (\<lambda>as. Ok (a # as)))"

text \<open>\<open>Rlp::as_list\<close>: every item of the list through the element's decoder.\<close>

definition rlp_as_list ::
  "eth_lib \<Rightarrow> (bytes \<Rightarrow> (decoder_error, 'a) result) \<Rightarrow> bytes \<Rightarrow> (decoder_error, 'a list) result" where
  "rlp_as_list L dec b = collect_results (map dec (rlp_iter L b))"

section \<open>Logs and receipts\<close>

record log =
  log_address :: h160
  log_topics :: "h256 list"
  log_data :: bytes

text \<open>
  \<open>iter.next()\<close> on the three items of a log, each with its decoder and the error for a list
  that is too short.
\<close>

definition next_item ::
  "string \<Rightarrow> (bytes \<Rightarrow> (decoder_error, 'a) result) \<Rightarrow> bytes list \<Rightarrow> (decoder_error, 'a \<times> bytes list) result" where
  "next_item msg dec it = (case it of
       [] \<Rightarrow> Err (Custom msg)
     | d # rest \<Rightarrow> bind_res (dec d) (\<lambda>v. Ok (v, rest)))"

definition log_decode :: "eth_lib \<Rightarrow> bytes \<Rightarrow> (decoder_error, log) result" where
  "log_decode L b =
     bind_res (next_item ''Expected log address'' (rlp_as_h160 L) (rlp_iter L b)) (\<lambda>(address, it).
     bind_res (next_item ''Expected log topics'' (rlp_as_list L (rlp_as_h256 L)) it) (\<lambda>(topics, it).
     bind_res (next_item ''Expected log data'' (rlp_data L) it) (\<lambda>(data, it).
     Ok \<lparr>log_address = address, log_topics = topics, log_data = data\<rparr>)))"

type_synonym bloom = bytes

definition bloom_default :: bloom where
  "bloom_default = replicate 256 0"

definition bloom_eq :: "bloom \<Rightarrow> bloom \<Rightarrow> bool" where
  "bloom_eq a b = list_all (\<lambda>(l, r). l = r) (zip a b)"

definition bloom_decode :: "eth_lib \<Rightarrow> bytes \<Rightarrow> (decoder_error, bloom) result" where
  "bloom_decode L b = bind_res (rlp_as_bytes L b) (\<lambda>v.
     if length v = 256 then Ok v else Err (Custom ''Expected 256 bytes''))"

record receipt =
  post_state_or_status :: bytes
  cumulative_gas_used :: u64
  bloom :: bloom
  logs :: "log list"

definition contains_log :: "receipt \<Rightarrow> log \<Rightarrow> bool" where
  "contains_log r l = (List.find (\<lambda>l'. l' = l) (logs r) \<noteq> None)"

definition receipt_decode :: "eth_lib \<Rightarrow> bytes \<Rightarrow> (decoder_error, receipt) result" where
  "receipt_decode L b =
     bind_res (next_item ''Expected receipt post state or status'' (rlp_as_bytes L) (rlp_iter L b)) (\<lambda>(st, it).
     bind_res (next_item ''Expected receipt cumulative gas used'' (rlp_as_u64 L) it) (\<lambda>(gas, it).
     bind_res (next_item ''Expected receipt bloom'' (bloom_decode L) it) (\<lambda>(bl, it).
     bind_res (next_item ''Expected receipt logs'' (rlp_as_list L (log_decode L)) it) (\<lambda>(ls, it).
     Ok \<lparr>post_state_or_status = st, cumulative_gas_used = gas, bloom = bl, logs = ls\<rparr>))))"

section \<open>Nodes of the Merkle-Patricia trie\<close>

record full_node =
  children :: "h256 option list"

record short_node =
  node_key :: bytes
  node_value :: bytes

datatype node = Short short_node | Full full_node

definition child_decode :: "eth_lib \<Rightarrow> bytes \<Rightarrow> (decoder_error, h256 option) result" where
  "child_decode L item = bind_res (rlp_as_bytes L item) (\<lambda>v.
     if length v = 0 then Ok None
     else if length v = 32 then Ok (Some (of_be_bytes v))
     else Err (Custom ''Expected 32-byte hash or empty child''))"

definition full_node_decode :: "eth_lib \<Rightarrow> bytes \<Rightarrow> (decoder_error, full_node) result" where
  "full_node_decode L b =
     bind_res (collect_results (map (child_decode L) (rlp_iter L b))) (\<lambda>cs. Ok \<lparr>children = cs\<rparr>)"

definition short_node_decode :: "eth_lib \<Rightarrow> bytes \<Rightarrow> (decoder_error, short_node) result" where
  "short_node_decode L b =
     bind_res (next_item ''Expected key bytes'' (rlp_as_bytes L) (rlp_iter L b)) (\<lambda>(k, it).
     bind_res (next_item ''Expected value bytes'' (rlp_as_bytes L) it) (\<lambda>(v, it).
     Ok \<lparr>node_key = k, node_value = v\<rparr>))"

text \<open>\<open>TryFrom<&[u8]> for Box<dyn Node>\<close>.\<close>

definition node_try_from :: "eth_lib \<Rightarrow> bytes \<Rightarrow> (decoder_error, node) result" where
  "node_try_from L b = bind_res (rlp_item_count L b) (\<lambda>n.
     if n = 2 then bind_res (short_node_decode L b) (\<lambda>sn. Ok (Short sn))
     else if n = 17 then bind_res (full_node_decode L b) (\<lambda>fn. Ok (Full fn))
     else Err (Custom ''Invalid number of list elements''))"

fun contains_hash :: "node \<Rightarrow> h256 \<Rightarrow> bool" where
  "contains_hash (Full fn) hash = (List.find (\<lambda>h. Some hash = h) (children fn) \<noteq> None)"
| "contains_hash (Short sn) hash = (node_value sn = be_bytes 32 hash)"

section \<open>Headers\<close>

record header_id =
  id_number :: u64
  id_hash :: h256

definition EMPTY_OMMERS_HASH :: h256 where
  "EMPTY_OMMERS_HASH = 0x1dcc4de8dec75d7aab85b567b6ccd41ad312451b948a7413f0a142fd40d49347"

record header =
  parent_hash :: h256
  timestamp :: u64
  number :: u64
  author :: h160
  transactions_root :: h256
  ommers_hash :: h256
  extra_data :: bytes
  state_root :: h256
  receipts_root :: h256
  logs_bloom :: bloom
  gas_used :: u256
  gas_limit :: u256
  difficulty :: u256
  seal :: "bytes list"
  base_fee :: "u256 option"

definition header_default :: header where
  "header_default = \<lparr>parent_hash = 0, timestamp = 0, number = 0, author = 0,
     transactions_root = 0, ommers_hash = 0, extra_data = [], state_root = 0, receipts_root = 0,
     logs_bloom = bloom_default, gas_used = 0, gas_limit = 0, difficulty = 0, seal = [], base_fee = None\<rparr>"

text \<open>\<open>Header::rlp\<close>: the list header, the thirteen fields, the seal when asked for, the base fee.\<close>

definition header_rlp :: "header \<Rightarrow> bool \<Rightarrow> rlp_op list" where
  "header_rlp h with_seal =
     (let stream_length_without_seal = (if base_fee h \<noteq> None then 14 else 13) in
      [BeginList (if with_seal then stream_length_without_seal + length (seal h)
                  else stream_length_without_seal),
       AppendH256 (parent_hash h),
       AppendH256 (ommers_hash h),
       AppendH160 (author h),
       AppendH256 (state_root h),
       AppendH256 (transactions_root h),
       AppendH256 (receipts_root h),
       AppendBloom (logs_bloom h),
       AppendU256 (difficulty h),
       AppendU64 (number h),
       AppendU256 (gas_limit h),
       AppendU256 (gas_used h),
       AppendU64 (timestamp h),
       AppendBytes (extra_data h)]
      @ (if with_seal then map (\<lambda>b. AppendRaw b 1) (seal h) else [])
      @ (case base_fee h of Some fee \<Rightarrow> [AppendU256 fee] | None \<Rightarrow> []))"

definition compute_hash :: "eth_lib \<Rightarrow> header \<Rightarrow> h256" where
  "compute_hash L h = keccak_256 L (rlp_out L (header_rlp h True))"

definition compute_partial_hash :: "eth_lib \<Rightarrow> header \<Rightarrow> h256" where
  "compute_partial_hash L h = keccak_256 L (rlp_out L (header_rlp h False))"

text \<open>One step of the fold of \<open>apply_merkle_proof\<close>, from the leaf towards the root.\<close>

definition proof_step :: "eth_lib \<Rightarrow> h256 option \<Rightarrow> bytes \<Rightarrow> h256 option" where
  "proof_step L maybe_hash bs = (case maybe_hash of
       None \<Rightarrow> None
     | Some expected_hash \<Rightarrow> (case node_try_from L bs of
           Ok node \<Rightarrow> if contains_hash node expected_hash then Some (keccak_256 L bs) else None
         | _ \<Rightarrow> None))"

definition apply_merkle_proof :: "eth_lib \<Rightarrow> bytes list \<Rightarrow> (h256 \<times> bytes) option" where
  "apply_merkle_proof L proof = (case rev proof of
       [] \<Rightarrow> None
     | first_bytes # rest \<Rightarrow> (case short_node_decode L first_bytes of
           Ok item_to_prove \<Rightarrow>
             map_option (\<lambda>hash. (hash, node_value item_to_prove))
               (foldl (proof_step L) (Some (keccak_256 L first_bytes)) rest)
         | _ \<Rightarrow> None))"

definition check_receipt_proof :: "eth_lib \<Rightarrow> header \<Rightarrow> bytes list \<Rightarrow> receipt option" where
  "check_receipt_proof L h proof = (case apply_merkle_proof L proof of
       Some (root, data) \<Rightarrow>
         if root = receipts_root h
         then (case receipt_decode L data of Ok r \<Rightarrow> Some r | _ \<Rightarrow> None)
         else None
     | None \<Rightarrow> None)"

definition decoded_seal_field :: "eth_lib \<Rightarrow> header \<Rightarrow> nat \<Rightarrow> nat \<Rightarrow> bytes option" where
  "decoded_seal_field L h index max_len =
     (if index < length (seal h)
      then (case rlp_as_bytes L (seal h ! index) of
              Ok bs \<Rightarrow> if length bs > max_len then None else Some bs
            | _ \<Rightarrow> None)
      else None)"

text \<open>\<open>for i in 0..size { out[width - 1 - i] = bytes[size - 1 - i]; }\<close>\<close>

definition copy_right_aligned :: "nat \<Rightarrow> bytes \<Rightarrow> bytes" where
  "copy_right_aligned width bs =
     foldl (\<lambda>out i. out[width - 1 - i := bs ! (length bs - 1 - i)]) (replicate width 0) [0..<length bs]"

definition mix_hash :: "eth_lib \<Rightarrow> header \<Rightarrow> h256 option" where
  "mix_hash L h = map_option (\<lambda>bs. of_be_bytes (copy_right_aligned 32 bs)) (decoded_seal_field L h 0 32)"

definition nonce :: "eth_lib \<Rightarrow> header \<Rightarrow> h64 option" where
  "nonce L h = map_option (\<lambda>bs. of_be_bytes (copy_right_aligned 8 bs)) (decoded_seal_field L h 1 8)"

definition has_ommers :: "header \<Rightarrow> bool" where
  "has_ommers h = (ommers_hash h \<noteq> EMPTY_OMMERS_HASH)"

section \<open>Lemmas\<close>

lemma find_eq_mem: "List.find (\<lambda>y. y = x) xs \<noteq> None \<longleftrightarrow> x \<in> set xs"
  by (auto simp: find_None_iff)

lemma contains_log_iff: "contains_log r l \<longleftrightarrow> l \<in> set (logs r)"
  unfolding contains_log_def by (rule find_eq_mem)

lemma contains_hash_Full [simp]: "contains_hash (Full fn) hash \<longleftrightarrow> Some hash \<in> set (children fn)"
  by (auto simp: find_None_iff)

declare contains_hash.simps(1) [simp del]

lemma collect_results_Ok: "collect_results rs = Ok as \<longleftrightarrow> rs = map Ok as"
  by (induction rs arbitrary: as) (auto simp: bind_res_Ok Cons_eq_map_conv)

text \<open>The seal bytes are copied to the right end of the array, with zeros before them.\<close>

lemma copy_right_aligned_prefix:
  fixes bs :: bytes
  assumes "length bs \<le> width" and "n \<le> length bs"
  shows "foldl (\<lambda>out i. out[width - 1 - i := bs ! (length bs - 1 - i)]) (replicate width 0) [0..<n]
    = replicate (width - n) 0 @ drop (length bs - n) bs"
  using assms(2)
proof (induction n)
  case 0
  then show ?case by simp
next
  case (Suc n)
  let ?k = "length bs - Suc n"
  have k: "length bs - n = Suc ?k" "?k < length bs" using Suc.prems by auto
  have "width - n = Suc (width - Suc n)" using Suc.prems assms(1) by simp
  then have w: "replicate (width - n) (0 :: u8) = replicate (width - Suc n) 0 @ [0]"
    by (simp add: replicate_append_same)
  have "drop ?k bs = bs ! ?k # drop (length bs - n) bs"
    using k by (simp add: Cons_nth_drop_Suc)
  moreover have "(replicate (width - n) 0 @ drop (length bs - n) bs)[width - 1 - n := b]
      = replicate (width - Suc n) 0 @ b # drop (length bs - n) bs" for b
    using list_update_length [of "replicate (width - Suc n) 0" 0 "drop (length bs - n) bs" b]
    by (simp only: w append_assoc append_Cons append_Nil length_replicate diff_diff_left plus_1_eq_Suc)
  ultimately show ?case using Suc by simp
qed

lemma copy_right_aligned:
  "length bs \<le> width \<Longrightarrow> copy_right_aligned width bs = replicate (width - length bs) 0 @ bs"
  unfolding copy_right_aligned_def using copy_right_aligned_prefix [of bs width "length bs"] by simp

lemma of_be_bytes_zeros [simp]: "of_be_bytes (replicate n 0 @ bs) = of_be_bytes bs"
  by (induction n) (simp_all add: of_be_bytes_Cons)

lemma decoded_seal_field_Some:
  "decoded_seal_field L h i n = Some bs \<longleftrightarrow>
     i < length (seal h) \<and> rlp_as_bytes L (seal h ! i) = Ok bs \<and> length bs \<le> n"
  by (auto simp: decoded_seal_field_def split: result.splits)

theorem seal_fields:
  "(mix_hash L h = Some m \<longleftrightarrow>
     (0 < length (seal h) \<and> (\<exists>bs. rlp_as_bytes L (seal h ! 0) = Ok bs \<and> length bs \<le> 32 \<and> m = of_be_bytes bs))) \<and>
   (nonce L h = Some k \<longleftrightarrow>
     (1 < length (seal h) \<and> (\<exists>bs. rlp_as_bytes L (seal h ! 1) = Ok bs \<and> length bs \<le> 8 \<and> k = of_be_bytes bs)))"
  by (auto simp: mix_hash_def nonce_def decoded_seal_field_Some copy_right_aligned)

section \<open>The hash of a header\<close>

lemma map_AppendRaw_inj:
  "map (\<lambda>b. AppendRaw b 1) xs @ (case f of Some v \<Rightarrow> [AppendU256 v] | None \<Rightarrow> []) =
   map (\<lambda>b. AppendRaw b 1) ys @ (case g of Some v \<Rightarrow> [AppendU256 v] | None \<Rightarrow> []) \<longleftrightarrow> xs = ys \<and> f = g"
proof (induction xs arbitrary: ys)
  case Nil
  then show ?case by (cases ys; cases f; cases g) auto
next
  case (Cons x xs)
  then show ?case by (cases ys; cases g) auto
qed

text \<open>What the stream is told about its length is the number of items that follow.\<close>

lemma header_rlp_length: "header_rlp h b = BeginList (length (header_rlp h b) - 1) # tl (header_rlp h b)"
  by (cases "base_fee h") (simp_all add: header_rlp_def Let_def)

theorem header_rlp_inj: "header_rlp h True = header_rlp h' True \<longleftrightarrow> h = h'"
proof
  assume eq: "header_rlp h True = header_rlp h' True"
  from arg_cong [where f = "drop 14", OF eq] have "seal h = seal h' \<and> base_fee h = base_fee h'"
    by (simp add: header_rlp_def Let_def map_AppendRaw_inj [simplified])
  moreover from arg_cong [where f = "take 14", OF eq] have
    "parent_hash h = parent_hash h'" "ommers_hash h = ommers_hash h'" "author h = author h'"
    "state_root h = state_root h'" "transactions_root h = transactions_root h'"
    "receipts_root h = receipts_root h'" "logs_bloom h = logs_bloom h'" "difficulty h = difficulty h'"
    "number h = number h'" "gas_limit h = gas_limit h'" "gas_used h = gas_used h'"
    "timestamp h = timestamp h'" "extra_data h = extra_data h'"
    by (simp_all add: header_rlp_def Let_def)
  ultimately show "h = h'" by (cases h; cases h') simp
qed simp

section \<open>Merkle proofs\<close>

text \<open>
  A chain of trie nodes: the last one is a short node that carries the item, every other one
  contains the hash of the node after it, and the root is the hash of the first.
\<close>

inductive proof_chain :: "eth_lib \<Rightarrow> bytes list \<Rightarrow> h256 \<Rightarrow> bytes \<Rightarrow> bool" for L where
  leaf: "short_node_decode L b = Ok sn \<Longrightarrow> proof_chain L [b] (keccak_256 L b) (node_value sn)"
| inner: "proof_chain L bs h v \<Longrightarrow> node_try_from L b = Ok nd \<Longrightarrow> contains_hash nd h \<Longrightarrow>
     proof_chain L (b # bs) (keccak_256 L b) v"

inductive_cases proof_chain_NilE: "proof_chain L [] root v"
inductive_cases proof_chain_singleE: "proof_chain L [b] root v"
inductive_cases proof_chain_ConsE: "proof_chain L (b # c # bs) root v"

lemma proof_step_Some:
  "proof_step L m b = Some r \<longleftrightarrow>
     (\<exists>h nd. m = Some h \<and> node_try_from L b = Ok nd \<and> contains_hash nd h \<and> r = keccak_256 L b)"
  by (auto simp: proof_step_def split: option.splits result.splits)

lemma apply_merkle_proof_single:
  "apply_merkle_proof L [b] = Some (root, v) \<longleftrightarrow>
     (\<exists>sn. short_node_decode L b = Ok sn \<and> root = keccak_256 L b \<and> v = node_value sn)"
  by (auto simp: apply_merkle_proof_def split: result.splits)

lemma apply_merkle_proof_Cons:
  "bs \<noteq> [] \<Longrightarrow> apply_merkle_proof L (b # bs) = Some (root, v) \<longleftrightarrow>
     (\<exists>h nd. apply_merkle_proof L bs = Some (h, v) \<and> node_try_from L b = Ok nd \<and>
        contains_hash nd h \<and> root = keccak_256 L b)"
  by (cases "rev bs") (auto simp: apply_merkle_proof_def proof_step_Some split: result.splits)

lemma apply_merkle_proof_chain: "apply_merkle_proof L proof = Some (root, v) \<longleftrightarrow> proof_chain L proof root v"
proof (induction "proof" arbitrary: root)
  case Nil
  then show ?case by (auto simp: apply_merkle_proof_def elim: proof_chain_NilE)
next
  case (Cons b bs)
  show ?case
  proof (cases bs)
    case Nil
    then show ?thesis
      by (auto simp: apply_merkle_proof_single intro: leaf elim: proof_chain_singleE proof_chain_NilE)
  next
    case (Cons c cs)
    then show ?thesis
      using Cons.IH by (auto simp: apply_merkle_proof_Cons intro: inner elim!: proof_chain_ConsE)
  qed
qed

text \<open>
  C21. apply_merkle_proof succeeds exactly on chains of trie nodes in which the last is a
  short node with the item and every other contains the hash of the next, and returns the
  hash of the first.
\<close>

theorem apply_merkle_proof_iff: "apply_merkle_proof L proof = Some (root, v) \<longleftrightarrow> proof_chain L proof root v"
  by (rule apply_merkle_proof_chain)

end
