(* ===== verification/Bridge_Core.thy ===== *)
theory Bridge_Core
  imports Eth_Primitives
begin

text \<open>
  \<open>primitives/core\<close>: the types and traits the pallets share.  A trait becomes a record of
  operations over the storage type \<open>'s\<close>; what an implementation promises its clients is a
  locale below it.  The error enums of all pallets are here, because \<open>DispatchError\<close> carries
  the error of any of them, and so are the origins of a call.
\<close>

section \<open>Errors and origins\<close>

type_synonym account_id = "256 word"

datatype light_client_error =
  AncientHeader | MissingHeader | MissingParentHeader | DuplicateHeader | HeaderNotFinalized |
  HeaderOnStaleFork | InvalidHeader | InvalidProof | Unknown

datatype assets_error = TotalIssuanceOverflow | TotalIssuanceUnderflow | BalanceOverflow | InsufficientBalance

datatype nft_error = NoAvailableTokenId | TokenNotFound | NoPermission | NumOverflow

datatype inbound_error = InvalidSourceChannel | InvalidEnvelope | InvalidNonce

datatype basic_outbound_error = BasicPayloadTooLarge | BasicQueueSizeLimitReached | BasicOverflow | NotAuthorized

datatype incentivized_outbound_error = PayloadTooLarge | QueueSizeLimitReached | NoFunds | Overflow

datatype dot_app_error = DotOverflow

datatype app_error = InvalidPayload

datatype erc721_app_error = TokenAlreadyMinted | Erc721TokenNotFound

datatype module_error =
    LightClientError light_client_error
  | AssetsError assets_error
  | NftError nft_error
  | BasicInboundError inbound_error
  | BasicOutboundError basic_outbound_error
  | IncentivizedInboundError inbound_error
  | IncentivizedOutboundError incentivized_outbound_error
  | DotAppError dot_app_error
  | EthAppError app_error
  | Erc20AppError app_error
  | Erc721AppError erc721_app_error

text \<open>
  \<open>DispatchError\<close>.  The errors of pallets outside this repository (\<open>pallet_balances\<close> and the
  like) are numbered.
\<close>

datatype dispatch_error =
    Other string
  | CannotLookup
  | BadOrigin
  | Module module_error
  | ForeignError nat

text \<open>
  The origin of a call: a signer, \<open>Root\<close>, nobody, the council with the share of its members that
  agreed, an origin of a pallet outside this repository, or an Ethereum contract whose message
  \<open>pallets/dispatch\<close> hands on.
\<close>

datatype origin =
    Root
  | Signed account_id
  | Unsigned
  | Council u32 u32
  | ForeignOrigin nat
  | DispatchOrigin h160

fun ensure_signed :: "origin \<Rightarrow> (dispatch_error, account_id) result" where
  "ensure_signed (Signed who) = Ok who"
| "ensure_signed _ = Err BadOrigin"

lemma ensure_signed_Ok [ok_simps]: "ensure_signed o1 = Ok who \<longleftrightarrow> o1 = Signed who"
  by (cases o1) auto

section \<open>Messages\<close>

datatype channel_id = Basic | Incentivized

record message_id =
  channel_id :: channel_id
  mid_nonce :: u64

record message_proof =
  block_hash :: h256
  tx_index :: u32
  proof_data :: "bytes list \<times> bytes list"

record message =
  msg_data :: bytes
  msg_proof :: message_proof

text \<open>\<open>AuxiliaryDigestItem\<close>: what a commitment leaves in the digest of the block.\<close>

datatype auxiliary_digest_item = Commitment channel_id h256

type_synonym 's verifier = "message \<Rightarrow> ('s, dispatch_error, log) ext"

text \<open>\<open>OutboundRouter::submit\<close> and \<open>MessageDispatch::dispatch\<close>.\<close>

type_synonym 's outbound_router =
  "channel_id \<Rightarrow> account_id \<Rightarrow> h160 \<Rightarrow> bytes \<Rightarrow> ('s, dispatch_error, unit) ext"

type_synonym 's message_dispatch = "h160 \<Rightarrow> message_id \<Rightarrow> bytes \<Rightarrow> ('s, dispatch_error, unit) ext"

section \<open>Assets\<close>

datatype asset_id = ETH | Token h160

record 's multi_asset =
  ma_total_issuance :: "asset_id \<Rightarrow> 's \<Rightarrow> u256"
  ma_balance :: "asset_id \<Rightarrow> account_id \<Rightarrow> 's \<Rightarrow> u256"
  ma_transfer :: "asset_id \<Rightarrow> account_id \<Rightarrow> account_id \<Rightarrow> u256 \<Rightarrow> ('s, dispatch_error, unit) ext"
  ma_withdraw :: "asset_id \<Rightarrow> account_id \<Rightarrow> u256 \<Rightarrow> ('s, dispatch_error, unit) ext"
  ma_deposit :: "asset_id \<Rightarrow> account_id \<Rightarrow> u256 \<Rightarrow> ('s, dispatch_error, unit) ext"

record 's single_asset =
  sa_total_issuance :: "'s \<Rightarrow> u256"
  sa_balance :: "account_id \<Rightarrow> 's \<Rightarrow> u256"
  sa_transfer :: "account_id \<Rightarrow> account_id \<Rightarrow> u256 \<Rightarrow> ('s, dispatch_error, unit) ext"
  sa_withdraw :: "account_id \<Rightarrow> u256 \<Rightarrow> ('s, dispatch_error, unit) ext"
  sa_deposit :: "account_id \<Rightarrow> u256 \<Rightarrow> ('s, dispatch_error, unit) ext"

section \<open>Tokens\<close>

record 'd token_info =
  owner :: account_id
  metadata :: bytes
  token_data :: 'd

record erc721_token_data =
  token_contract :: h160
  eth_token_id :: u256

record ('s, 'd) nft_ops =
  nft_mint :: "account_id \<Rightarrow> bytes \<Rightarrow> 'd \<Rightarrow> ('s, dispatch_error, u128) ext"
  nft_burn :: "account_id \<Rightarrow> u128 \<Rightarrow> ('s, dispatch_error, unit) ext"
  nft_transfer :: "account_id \<Rightarrow> account_id \<Rightarrow> u128 \<Rightarrow> ('s, dispatch_error, unit) ext"
  nft_is_owner :: "account_id \<Rightarrow> u128 \<Rightarrow> 's \<Rightarrow> bool"
  nft_get_token_data :: "u128 \<Rightarrow> 's \<Rightarrow> 'd token_info option"

section \<open>What an asset registry promises\<close>

text \<open>
  The contract of \<open>MultiAsset\<close>: a successful call moves exactly the given amount and touches
  nothing else, a failed one changes nothing, no call panics, and the balances of an asset add
  up to its issuance as long as the provider's invariant holds.
\<close>

definition issuance_sum :: "'s multi_asset \<Rightarrow> asset_id \<Rightarrow> 's \<Rightarrow> nat" where
  "issuance_sum A a s = (\<Sum>w\<in>UNIV. unat (ma_balance A a w s))"

definition others_kept :: "'s multi_asset \<Rightarrow> asset_id \<Rightarrow> account_id set \<Rightarrow> 's \<Rightarrow> 's \<Rightarrow> bool" where
  "others_kept A a ws s s' \<longleftrightarrow>
     (\<forall>b v. b \<noteq> a \<or> v \<notin> ws \<longrightarrow> ma_balance A b v s' = ma_balance A b v s) \<and>
     (\<forall>b. b \<noteq> a \<longrightarrow> ma_total_issuance A b s' = ma_total_issuance A b s)"

locale multi_asset_laws =
  fixes A :: "'s multi_asset" and inv :: "'s \<Rightarrow> bool"
  assumes deposit_ok: "inv s \<Longrightarrow> ma_deposit A a w x s = (Ok (), s') \<Longrightarrow>
      inv s' \<and> unat (ma_balance A a w s') = unat (ma_balance A a w s) + unat x \<and>
      unat (ma_total_issuance A a s') = unat (ma_total_issuance A a s) + unat x \<and> others_kept A a {w} s s'"
    and withdraw_ok: "inv s \<Longrightarrow> ma_withdraw A a w x s = (Ok (), s') \<Longrightarrow>
      inv s' \<and> unat (ma_balance A a w s) = unat (ma_balance A a w s') + unat x \<and>
      unat (ma_total_issuance A a s) = unat (ma_total_issuance A a s') + unat x \<and> others_kept A a {w} s s'"
    and transfer_ok: "inv s \<Longrightarrow> ma_transfer A a w v x s = (Ok (), s') \<Longrightarrow> w \<noteq> v \<Longrightarrow>
      inv s' \<and> unat (ma_balance A a w s) = unat (ma_balance A a w s') + unat x \<and>
      unat (ma_balance A a v s') = unat (ma_balance A a v s) + unat x \<and>
      ma_total_issuance A a s' = ma_total_issuance A a s \<and> others_kept A a {w, v} s s'"
    and transfer_self: "ma_transfer A a w w x s = (Ok (), s)"
    and deposit_err: "ma_deposit A a w x s = (r, s') \<Longrightarrow> r = Ok () \<or> (\<exists>e. r = Err e) \<and> s' = s"
    and withdraw_err: "ma_withdraw A a w x s = (r, s') \<Longrightarrow> r = Ok () \<or> (\<exists>e. r = Err e) \<and> s' = s"
    and transfer_err: "ma_transfer A a w v x s = (r, s') \<Longrightarrow> r = Ok () \<or> (\<exists>e. r = Err e) \<and> s' = s"
    and withdraw_enough: "inv s \<Longrightarrow> unat x \<le> unat (ma_balance A a w s) \<Longrightarrow> fst (ma_withdraw A a w x s) = Ok ()"
    and deposit_fits: "inv s \<Longrightarrow> unat (ma_total_issuance A a s) + unat x < 2 ^ 256 \<Longrightarrow>
      fst (ma_deposit A a w x s) = Ok ()"
    and issuance_law: "inv s \<Longrightarrow> issuance_sum A a s = unat (ma_total_issuance A a s)"
begin

lemma balance_le_issuance: "inv s \<Longrightarrow> ma_balance A a w s \<le> ma_total_issuance A a s"
proof -
  assume "inv s"
  moreover have "unat (ma_balance A a w s) \<le> issuance_sum A a s"
    unfolding issuance_sum_def by (rule member_le_sum) simp_all
  ultimately show ?thesis by (simp add: issuance_law word_le_nat_alt)
qed

lemma deposit_keeps: "keeps inv (ma_deposit A a w x)"
  by (rule keepsI) (metis deposit_err deposit_ok)

lemma withdraw_keeps: "keeps inv (ma_withdraw A a w x)"
  by (rule keepsI) (metis withdraw_err withdraw_ok)

lemma transfer_keeps: "keeps inv (ma_transfer A a w v x)"
proof (rule keepsI)
  fix s r s'
  assume "inv s" "ma_transfer A a w v x s = (r, s')" "returns r"
  then show "inv s'" by (cases "w = v") (metis prod.inject transfer_self, metis transfer_err transfer_ok)
qed

text \<open>More than the balance cannot be withdrawn.\<close>

lemma withdraw_too_much:
  assumes "inv s" "unat (ma_balance A a w s) < unat x"
  shows "\<exists>e. ma_withdraw A a w x s = (Err e, s)"
  using assms withdraw_ok [OF assms(1), of a w x] withdraw_err [of a w x s] by (cases "ma_withdraw A a w x s") fastforce

text \<open>Depositing and withdrawing the same amount restores every balance.\<close>

lemma deposit_withdraw:
  assumes s: "inv s" and d: "ma_deposit A a w x s = (Ok (), s')"
  shows "\<exists>s''. ma_withdraw A a w x s' = (Ok (), s'') \<and> (\<forall>b v. ma_balance A b v s'' = ma_balance A b v s) \<and>
    (\<forall>b. ma_total_issuance A b s'' = ma_total_issuance A b s)"
proof -
  note d' = deposit_ok [OF s d]
  obtain r s'' where w: "ma_withdraw A a w x s' = (r, s'')" by (cases "ma_withdraw A a w x s'")
  moreover have "r = Ok ()" using withdraw_enough [of s' x a w] d' w by simp
  ultimately have "ma_withdraw A a w x s' = (Ok (), s'')" by simp
  moreover from this have w': "unat (ma_balance A a w s') = unat (ma_balance A a w s'') + unat x"
      "unat (ma_total_issuance A a s') = unat (ma_total_issuance A a s'') + unat x" "others_kept A a {w} s' s''"
    using withdraw_ok d' by blast+
  then have "ma_balance A a w s'' = ma_balance A a w s" "ma_total_issuance A a s'' = ma_total_issuance A a s"
    using d' by (simp_all add: word_unat_eq_iff)
  then have "ma_balance A b v s'' = ma_balance A b v s" "ma_total_issuance A b s'' = ma_total_issuance A b s" for b v
    using d' w'(3) unfolding others_kept_def by (cases "b = a \<and> v = w"; force)+
  ultimately show ?thesis by blast
qed

end

text \<open>The same for \<open>SingleAsset\<close>, which is what \<open>SingleAssetAdaptor\<close> makes of one asset.\<close>

locale single_asset_laws =
  fixes B :: "'s single_asset" and inv :: "'s \<Rightarrow> bool"
  assumes sa_deposit_ok: "inv s \<Longrightarrow> sa_deposit B w x s = (Ok (), s') \<Longrightarrow>
      inv s' \<and> unat (sa_balance B w s') = unat (sa_balance B w s) + unat x \<and>
      unat (sa_total_issuance B s') = unat (sa_total_issuance B s) + unat x \<and>
      (\<forall>v. v \<noteq> w \<longrightarrow> sa_balance B v s' = sa_balance B v s)"
    and sa_withdraw_ok: "inv s \<Longrightarrow> sa_withdraw B w x s = (Ok (), s') \<Longrightarrow>
      inv s' \<and> unat (sa_balance B w s) = unat (sa_balance B w s') + unat x \<and>
      unat (sa_total_issuance B s) = unat (sa_total_issuance B s') + unat x \<and>
      (\<forall>v. v \<noteq> w \<longrightarrow> sa_balance B v s' = sa_balance B v s)"
    and sa_deposit_err: "sa_deposit B w x s = (r, s') \<Longrightarrow> r = Ok () \<or> (\<exists>e. r = Err e) \<and> s' = s"
    and sa_withdraw_err: "sa_withdraw B w x s = (r, s') \<Longrightarrow> r = Ok () \<or> (\<exists>e. r = Err e) \<and> s' = s"
    and sa_withdraw_enough: "inv s \<Longrightarrow> unat x \<le> unat (sa_balance B w s) \<Longrightarrow> fst (sa_withdraw B w x s) = Ok ()"
begin

lemma sa_deposit_keeps: "keeps inv (sa_deposit B w x)"
  by (rule keepsI) (metis sa_deposit_err sa_deposit_ok)

lemma sa_withdraw_keeps: "keeps inv (sa_withdraw B w x)"
  by (rule keepsI) (metis sa_withdraw_err sa_withdraw_ok)

end

end
