(* ===== verification/Channel_Core.thy ===== *)
theory Channel_Core
  imports Bridge_Core
begin

text \<open>
  What the two channels share.  The crates \<open>ethabi\<close> and \<open>parity-scale-codec\<close> are outside this
  repository: their functions are the fields of \<open>abi_lib\<close>.  The effects a pallet has outside its
  own storage (events, the block's digest, the offchain index) are the fields of \<open>sys_ops\<close>.
  Two contracts are stated as locales: a channel that accepts inbound messages by nonce, and a
  queue of outbound messages that is committed as a whole; two more say what a channel needs of
  the rest of the runtime.
\<close>

section \<open>Libraries and environment\<close>

datatype abi_token =
    TAddress h160
  | TUint u256
  | TBytes bytes
  | TFixedBytes bytes
  | TTuple "abi_token list"
  | TArray "abi_token list"
  | TOther nat

datatype param_kind = KAddress | KUint nat | KBytes

record abi_param =
  kind :: param_kind
  indexed_param :: bool

record abi_event =
  signature :: string
  inputs :: "abi_param list"
  anonymous :: bool

record abi_lib =
  abi_decode_event :: "abi_event \<Rightarrow> h256 list \<Rightarrow> bytes \<Rightarrow> abi_token list option"
  abi_encode :: "abi_token list \<Rightarrow> bytes"
  abi_encode_function :: "string \<Rightarrow> abi_token list \<Rightarrow> bytes"
  scale_account :: "account_id \<Rightarrow> bytes"
  scale_key :: "bytes \<Rightarrow> channel_id \<Rightarrow> h256 \<Rightarrow> bytes"

datatype bridge_event =
    MessageAccepted channel_id u64
  | MessageDispatched message_id "(dispatch_error, unit) result"
  | MessageRejected message_id
  | MessageDecodeFailed message_id
  | Locked account_id h160 u128
  | Unlocked h160 account_id u128
  | EthBurned account_id h160 u256
  | EthMinted h160 account_id u256
  | Erc20Burned h160 account_id h160 u256
  | Erc20Minted h160 h160 account_id u256
  | Erc721Burned h160 u256 account_id h160
  | Erc721Minted h160 u256 h160 account_id

record 's sys_ops =
  deposit_event :: "bridge_event \<Rightarrow> 's \<Rightarrow> 's"
  deposit_log :: "auxiliary_digest_item \<Rightarrow> 's \<Rightarrow> 's"
  offchain_set :: "bytes \<Rightarrow> bytes \<Rightarrow> 's \<Rightarrow> 's"

record outbound_weights =
  w_on_initialize :: "u32 \<Rightarrow> u32 \<Rightarrow> u64"
  w_non_interval :: u64
  w_no_messages :: u64

text \<open>\<open>U256::low_u64\<close>.\<close>

definition low_u64 :: "u256 \<Rightarrow> u64" where
  "low_u64 v = ucast v"

text \<open>\<open>if (now % Self::interval()).is_zero()\<close>: the remainder by zero is a panic.\<close>

definition interval_due :: "u32 \<Rightarrow> u32 \<Rightarrow> ('e, bool) result" where
  "interval_due now iv = (if iv = 0 then Panic else Ok (now mod iv = 0))"

text \<open>\<open>average_payload_size\<close>, on the lengths of the payloads.\<close>

definition average_size :: "nat list \<Rightarrow> nat" where
  "average_size ls = foldl (\<lambda>acc n. acc + n) 0 ls div length ls + 1"

lemma average_size_bound: "ls \<noteq> [] \<Longrightarrow> sum_list ls < average_size ls * length ls"
proof -
  assume "ls \<noteq> []"
  moreover have "foldl (\<lambda>acc n. acc + n) a ls = a + sum_list ls" for a by (induction ls arbitrary: a) simp_all
  ultimately show ?thesis
    unfolding average_size_def using dividend_less_times_div [of "length ls" "sum_list ls"]
    by (simp add: algebra_simps)
qed

section \<open>Inbound messages are accepted in order, once\<close>

text \<open>
  An inbound channel keeps the nonce of the last message it accepted and accepts only the next
  one.  \<open>number_of\<close> reads the nonce out of a message.
\<close>

text \<open>The messages that a sequence of calls gets accepted, and the state they lead to.\<close>

fun submit_all ::
  "(origin \<Rightarrow> message \<Rightarrow> ('s, dispatch_error, unit) ext) \<Rightarrow> (origin \<times> message) list \<Rightarrow> 's \<Rightarrow> message list \<times> 's" where
  "submit_all submit [] s = ([], s)"
| "submit_all submit ((org, m) # cs) s = (case submit org m s of
       (Ok _, s') \<Rightarrow> (case submit_all submit cs s' of (ms, s'') \<Rightarrow> (m # ms, s''))
     | _ \<Rightarrow> submit_all submit cs s)"

locale inbound_nonces =
  fixes submit :: "origin \<Rightarrow> message \<Rightarrow> ('s, dispatch_error, unit) ext"
    and nonce_of :: "'s \<Rightarrow> u64"
    and number_of :: "message \<Rightarrow> u64 option"
  assumes accepted: "submit org m s = (Ok (), s') \<Longrightarrow>
      number_of m = Some (nonce_of s + 1) \<and> nonce_of s' = nonce_of s + 1"
    and refused: "submit org m s = (Err e, s') \<Longrightarrow> s' = s"
begin

lemma submit_all_numbers:
  "submit_all submit cs s = (ms, s') \<Longrightarrow>
     map number_of ms = map (\<lambda>k. Some (nonce_of s + of_nat k)) [1..<Suc (length ms)] \<and>
     nonce_of s' = nonce_of s + of_nat (length ms)"
proof (induction cs arbitrary: s ms s')
  case (Cons c cs)
  obtain org m where c: "c = (org, m)" by (cases c)
  obtain r t where t: "submit org m s = (r, t)" by (cases "submit org m s")
  show ?case
  proof (cases "is_ok r")
    case True
    then have Ok: "submit org m s = (Ok (), t)" using t by (cases r) auto
    obtain ms1 s1 where r1: "submit_all submit cs t = (ms1, s1)" by (cases "submit_all submit cs t")
    then have ms: "ms = m # ms1" "s' = s1" using Cons.prems c Ok by simp_all
    have "[1..<Suc (length ms)] = 1 # map Suc [1..<Suc (length ms1)]"
      using ms(1) by (simp only: map_Suc_upt) (simp add: upt_conv_Cons del: upt_Suc)
    then show ?thesis using ms accepted [OF Ok] Cons.IH [OF r1] by (simp add: o_def algebra_simps)
  next
    case False
    then have "submit_all submit cs s = (ms, s')" using Cons.prems c t by (cases r) auto
    then show ?thesis by (rule Cons.IH)
  qed
qed auto

text \<open>No message gets through twice, as long as fewer than 2 ^ 64 are accepted.\<close>

lemma no_replay:
  assumes "submit_all submit cs s = (ms, s')" "length ms < 2 ^ 64"
  shows "distinct (map number_of ms)"
proof -
  have "inj_on (\<lambda>k. Some (nonce_of s + of_nat k)) (set [1..<Suc (length ms)])"
  proof (rule inj_onI)
    fix j k assume jk: "j \<in> set [1..<Suc (length ms)]" "k \<in> set [1..<Suc (length ms)]"
      and "Some (nonce_of s + of_nat j) = Some (nonce_of s + of_nat k)"
    then have "(of_nat j :: u64) = of_nat k" by simp
    then have "unat (of_nat j :: u64) = unat (of_nat k :: u64)" by simp
    moreover have "j < 2 ^ 64" "k < 2 ^ 64" using jk assms(2) by auto
    ultimately show "j = k" by (simp add: unat_of_nat)
  qed
  then show ?thesis using submit_all_numbers [OF assms(1)] by (simp add: distinct_map)
qed

lemma old_number_refused: "number_of m \<noteq> Some (nonce_of s + 1) \<Longrightarrow> \<not> is_ok (fst (submit org m s))"
  using accepted [of org m s] by (cases "submit org m s"; cases "fst (submit org m s)") auto

end

section \<open>The queue of outbound messages\<close>

text \<open>A run of submissions and commits, with the messages that were committed.\<close>

fun queue_run ::
  "(account_id \<Rightarrow> h160 \<Rightarrow> bytes \<Rightarrow> ('s, dispatch_error, unit) ext) \<Rightarrow> ('s \<Rightarrow> 's) \<Rightarrow> ('s \<Rightarrow> 'm list) \<Rightarrow>
     (account_id \<times> h160 \<times> bytes) option list \<Rightarrow> 's \<Rightarrow> 'm list \<times> 's" where
  "queue_run submit commit queue [] s = ([], s)"
| "queue_run submit commit queue (None # ops) s =
     (case queue_run submit commit queue ops (commit s) of (ms, s') \<Rightarrow> (queue s @ ms, s'))"
| "queue_run submit commit queue (Some (who, target, p) # ops) s = (case submit who target p s of
       (Ok _, s') \<Rightarrow> queue_run submit commit queue ops s'
     | (Err _, s') \<Rightarrow> queue_run submit commit queue ops s'
     | _ \<Rightarrow> queue_run submit commit queue ops s)"

locale outbound_queue =
  fixes submit :: "account_id \<Rightarrow> h160 \<Rightarrow> bytes \<Rightarrow> ('s, dispatch_error, unit) ext"
    and commit :: "'s \<Rightarrow> 's"
    and queue :: "'s \<Rightarrow> 'm list"
    and nonce_of :: "'s \<Rightarrow> u64"
    and msg_nonce :: "'m \<Rightarrow> u64"
    and msg_payload :: "'m \<Rightarrow> bytes"
    and max_messages :: nat
    and max_size :: nat
  assumes submit_ok: "submit who target p s = (Ok (), s') \<Longrightarrow> \<exists>m. queue s' = queue s @ [m] \<and>
      unat (nonce_of s') = unat (nonce_of s) + 1 \<and> msg_nonce m = nonce_of s' \<and> msg_payload m = p \<and>
      length p \<le> max_size \<and> length (queue s) < max_messages"
    and submit_err: "submit who target p s = (Err e, s') \<Longrightarrow> queue s' = queue s \<and> nonce_of s' = nonce_of s"
    and commit_clears: "queue (commit s) = [] \<and> nonce_of (commit s) = nonce_of s"
begin

text \<open>The queued messages carry the last nonces, in order, and keep to the limits.\<close>

definition queue_ok :: "'s \<Rightarrow> bool" where
  "queue_ok s \<longleftrightarrow> length (queue s) \<le> max_messages \<and> (\<forall>m \<in> set (queue s). length (msg_payload m) \<le> max_size) \<and>
     length (queue s) \<le> unat (nonce_of s) \<and>
     map (\<lambda>m. unat (msg_nonce m)) (queue s) = [Suc (unat (nonce_of s)) - length (queue s)..<Suc (unat (nonce_of s))]"

lemma submit_queue_ok: "queue_ok s \<Longrightarrow> submit who target p s = (r, s') \<Longrightarrow> returns r \<Longrightarrow> queue_ok s'"
proof (cases r)
  case (Ok u)
  assume q: "queue_ok s" and run: "submit who target p s = (r, s')"
  then obtain m where m: "queue s' = queue s @ [m]" "unat (nonce_of s') = unat (nonce_of s) + 1"
      "msg_nonce m = nonce_of s'" "msg_payload m = p" "length p \<le> max_size" "length (queue s) < max_messages"
    using submit_ok [of who target p s s'] Ok by auto
  have "[Suc (unat (nonce_of s')) - length (queue s')..<Suc (unat (nonce_of s'))] =
      [Suc (unat (nonce_of s)) - length (queue s)..<Suc (unat (nonce_of s))] @ [unat (nonce_of s')]"
    using q m(1,2) by (simp add: queue_ok_def)
  then show ?thesis using q m by (auto simp: queue_ok_def)
next
  case (Err e)
  assume "queue_ok s" "submit who target p s = (r, s')"
  then show ?thesis using submit_err Err by (simp add: queue_ok_def)
qed auto

lemma commit_queue_ok: "queue_ok (commit s)"
  using commit_clears [of s] by (simp add: queue_ok_def)

text \<open>Every accepted message is committed once and in order, or still waits in the queue.\<close>

lemma run_complete:
  "queue_run submit commit queue ops s = (ms, s') \<Longrightarrow> queue_ok s \<Longrightarrow>
     map (\<lambda>m. unat (msg_nonce m)) (ms @ queue s') = [Suc (unat (nonce_of s)) - length (queue s)..<Suc (unat (nonce_of s'))] \<and>
     unat (nonce_of s) \<le> unat (nonce_of s') \<and> queue_ok s'"
proof (induction ops arbitrary: s ms s')
  case Nil
  then show ?case by (auto simp: queue_ok_def)
next
  case (Cons op ops)
  show ?case
  proof (cases op)
    case None
    then obtain ms1 where r: "queue_run submit commit queue ops (commit s) = (ms1, s')" and ms: "ms = queue s @ ms1"
      using Cons.prems(1) by (auto split: prod.splits)
    have "map (\<lambda>m. unat (msg_nonce m)) (ms1 @ queue s') = [Suc (unat (nonce_of s))..<Suc (unat (nonce_of s'))]"
        "unat (nonce_of s) \<le> unat (nonce_of s')" "queue_ok s'"
      using Cons.IH [OF r commit_queue_ok] commit_clears [of s] by simp_all
    then show ?thesis
      using Cons.prems(2) ms upt_add_eq_append [of "Suc (unat (nonce_of s)) - length (queue s)" "Suc (unat (nonce_of s))"
          "unat (nonce_of s') - unat (nonce_of s)"]
      by (simp add: queue_ok_def)
  next
    case (Some call)
    obtain who target p where call: "call = (who, target, p)" by (cases call)
    obtain r t where t: "submit who target p s = (r, t)" by (cases "submit who target p s")
    show ?thesis
    proof (cases "returns r")
      case True
      then have ih: "map (\<lambda>m. unat (msg_nonce m)) (ms @ queue s') = [Suc (unat (nonce_of t)) - length (queue t)..<Suc (unat (nonce_of s'))]"
          "unat (nonce_of t) \<le> unat (nonce_of s')" "queue_ok s'"
        using Cons.IH [OF _ submit_queue_ok [OF Cons.prems(2) t True]] Cons.prems(1) Some call t by (cases r; auto)+
      show ?thesis
      proof (cases r)
        case (Ok u)
        then obtain m where "queue t = queue s @ [m]" "unat (nonce_of t) = unat (nonce_of s) + 1"
          using submit_ok [of who target p s t] t by auto
        then show ?thesis using ih by simp
      qed (use ih submit_err t True in auto)
    next
      case False
      then have "queue_run submit commit queue ops s = (ms, s')" using Cons.prems(1) Some call t by (cases r) auto
      then show ?thesis by (rule Cons.IH [OF _ Cons.prems(2)])
    qed
  qed
qed

end

section \<open>The environment of a channel\<close>

text \<open>
  The verifier looks at the storage and returns the log the message carries; the dispatcher ends
  without an error and does not touch the channel's own items.
\<close>

locale inbound_env = storage_item st
  for st :: "('s, 'v) storage" +
  fixes verifier :: "'s verifier" and disp :: "'s message_dispatch" and log_of :: "message \<Rightarrow> log option"
  assumes verifier_pure: "verifier m s = (r, s') \<Longrightarrow> s' = s"
    and verifier_log: "verifier m s = (Ok l, s') \<Longrightarrow> log_of m = Some l"
    and disp_no_error: "disp src i p s \<noteq> (Err e, s')"
    and disp_frame: "disp src i p s = (Ok (), s') \<Longrightarrow> sget st s' = sget st s"

text \<open>Events, digest and offchain index are not the channel's items either.\<close>

locale outbound_env = storage_item st
  for st :: "('s, 'v) storage" +
  fixes sys :: "'s sys_ops"
  assumes event_frame: "sget st (deposit_event sys e s) = sget st s"
    and log_frame: "sget st (deposit_log sys i s) = sget st s"
    and offchain_frame: "sget st (offchain_set sys k v s) = sget st s"

end
