(* ===== verification/Dispatch_Pallet.thy ===== *)
theory Dispatch_Pallet
  imports Channel_Core
begin

text \<open>
  \<open>pallets/dispatch\<close>: a message that passed a channel is decoded to a call and dispatched with
  the Ethereum contract it came from as its origin.  Decoding, the filter and the runtime's own
  dispatch are the pallet's \<open>Config\<close>.
\<close>

section \<open>The pallet\<close>

record ('s, 'c) dispatch_config =
  decode_call :: "bytes \<Rightarrow> 'c option"
  call_filter :: "'c \<Rightarrow> bool"
  call_dispatch :: "'c \<Rightarrow> origin \<Rightarrow> ('s, dispatch_error, unit) ext"
  dispatch_sys :: "'s sys_ops"

fun ensure_ethereum_account :: "origin \<Rightarrow> (dispatch_error, h160) result" where
  "ensure_ethereum_account (DispatchOrigin a) = Ok a"
| "ensure_ethereum_account _ = Err BadOrigin"

lemma ensure_ethereum_account_Ok [ok_simps]: "ensure_ethereum_account o1 = Ok a \<longleftrightarrow> o1 = DispatchOrigin a"
  by (cases o1) auto

text \<open>The outcome of the call goes into an event; only a panic of the call stops the caller.\<close>

definition dispatch :: "('s, 'c) dispatch_config \<Rightarrow> 's message_dispatch" where
  "dispatch cfg source i payload =
     (case decode_call cfg payload of
        None \<Rightarrow> modify (deposit_event (dispatch_sys cfg) (MessageDecodeFailed i))
      | Some call \<Rightarrow>
          if \<not> call_filter cfg call then modify (deposit_event (dispatch_sys cfg) (MessageRejected i))
          else (\<lambda>s. case call_dispatch cfg call (DispatchOrigin source) s of
              (Panic, s') \<Rightarrow> (Panic, s')
            | (Loop, s') \<Rightarrow> (Loop, s')
            | (res, s') \<Rightarrow> (Ok (), deposit_event (dispatch_sys cfg) (MessageDispatched i res) s')))"

section \<open>What a dispatch can do\<close>

lemma dispatch_no_error: "dispatch cfg source i payload s = (r, s') \<Longrightarrow> r = Ok () \<or> r = Panic \<or> r = Loop"
  by (auto simp: dispatch_def modify_def split: option.splits if_splits prod.splits result.splits)

lemma dispatch_cases:
  assumes "dispatch cfg source i payload s = (Ok (), s')"
  obtains (dropped) e where "s' = deposit_event (dispatch_sys cfg) e s"
    | (called) call res t where "decode_call cfg payload = Some call" "call_filter cfg call"
        "call_dispatch cfg call (DispatchOrigin source) s = (res, t)" "returns res"
        "s' = deposit_event (dispatch_sys cfg) (MessageDispatched i res) t"
  using assms
  by (auto simp: dispatch_def modify_def split: option.splits if_splits prod.splits result.splits)

text \<open>Exactly one event tells what became of the message.\<close>

theorem dispatch_reports:
  "dispatch cfg source i payload s =
     (case decode_call cfg payload of
        None \<Rightarrow> (Ok (), deposit_event (dispatch_sys cfg) (MessageDecodeFailed i) s)
      | Some call \<Rightarrow>
          if call_filter cfg call
          then (case call_dispatch cfg call (DispatchOrigin source) s of (res, t) \<Rightarrow>
             if returns res then (Ok (), deposit_event (dispatch_sys cfg) (MessageDispatched i res) t)
             else (map_err id res, t))
          else (Ok (), deposit_event (dispatch_sys cfg) (MessageRejected i) s))"
  by (auto simp: dispatch_def modify_def split: option.splits prod.splits result.splits)

text \<open>An invariant that every call from Ethereum keeps is kept by the dispatch of a message.\<close>

lemma dispatch_keeps:
  assumes "\<And>call. call_filter cfg call \<Longrightarrow> keeps I (call_dispatch cfg call (DispatchOrigin source))"
    and "\<And>e s. I s \<Longrightarrow> I (deposit_event (dispatch_sys cfg) e s)"
  shows "keeps I (dispatch cfg source i payload)"
proof (rule keepsI)
  fix s r s'
  assume I: "I s" and run: "dispatch cfg source i payload s = (r, s')" and "returns r"
  then have "dispatch cfg source i payload s = (Ok (), s')" using dispatch_no_error [OF run] by auto
  then show "I s'"
  proof (cases rule: dispatch_cases)
    case (called call res t)
    then show ?thesis using keepsD [OF assms(1) I] assms(2) by blast
  qed (use I assms(2) in simp)
qed

end
