(* ===== verification/Basic_Channel.thy ===== *)
theory Basic_Channel
  imports Channel_Core
begin

text \<open>
  \<open>pallets/basic-channel\<close>: the inbound half, which verifies a message, unpacks its envelope and
  hands it to the dispatcher, and the outbound half, a queue whose commitment goes into the
  block's digest.  Under the locales \<open>inbound_env\<close> and \<open>outbound_env\<close> of \<open>Channel_Core\<close>
  the two contracts of that theory hold for them.
\<close>

section \<open>Inbound\<close>

definition basic_event_abi :: abi_event where
  "basic_event_abi = \<lparr>signature = ''Message(address,uint64,bytes)'',
     inputs = [\<lparr>kind = KAddress, indexed_param = False\<rparr>, \<lparr>kind = KUint 64, indexed_param = False\<rparr>,
       \<lparr>kind = KBytes, indexed_param = False\<rparr>],
     anonymous = False\<rparr>"

record basic_envelope =
  benv_channel :: h160
  benv_source :: h160
  benv_nonce :: u64
  benv_payload :: bytes

definition basic_envelope_try_from :: "abi_lib \<Rightarrow> log \<Rightarrow> basic_envelope option" where
  "basic_envelope_try_from L l = (case abi_decode_event L basic_event_abi (log_topics l) (log_data l) of
       Some (TAddress source # TUint v # TBytes payload # _) \<Rightarrow>
         Some \<lparr>benv_channel = log_address l, benv_source = source, benv_nonce = low_u64 v, benv_payload = payload\<rparr>
     | _ \<Rightarrow> None)"

record basic_inbound =
  bin_source_channel :: h160
  bin_nonce :: u64

record 's basic_inbound_config =
  bin_st :: "('s, basic_inbound) storage"
  bin_abi :: abi_lib
  bin_verifier :: "'s verifier"
  bin_dispatch :: "'s message_dispatch"

abbreviation basic_in_error :: "inbound_error \<Rightarrow> dispatch_error" where
  "basic_in_error e \<equiv> Module (BasicInboundError e)"

definition bin_nonce_item :: "('s, basic_inbound) storage \<Rightarrow> ('s, u64) storage" where
  "bin_nonce_item st = \<lparr>sget = (\<lambda>s. bin_nonce (sget st s)), sput = (\<lambda>v s. sput st ((sget st s)\<lparr>bin_nonce := v\<rparr>) s)\<rparr>"

definition basic_submit :: "'s basic_inbound_config \<Rightarrow> origin \<Rightarrow> message \<Rightarrow> ('s, dispatch_error, unit) ext" where
  "basic_submit cfg org m =
     bind_ext (lift_res (ensure_signed org)) (\<lambda>_.
     bind_ext (bin_verifier cfg m) (\<lambda>l.
     bind_ext (lift_res (ok_or (basic_in_error InvalidEnvelope) (basic_envelope_try_from (bin_abi cfg) l))) (\<lambda>envelope.
     bind_ext (gets (\<lambda>s. bin_source_channel (sget (bin_st cfg) s))) (\<lambda>source_channel.
     if benv_channel envelope \<noteq> source_channel then lift_res (Err (basic_in_error InvalidSourceChannel))
     else
       bind_ext (try_mutate (bin_nonce_item (bin_st cfg)) (\<lambda>n.
         if benv_nonce envelope \<noteq> n + 1 then lift_res (Err (basic_in_error InvalidNonce))
         else ret ((), n + 1))) (\<lambda>_.
       bin_dispatch cfg (benv_source envelope) \<lparr>channel_id = Basic, mid_nonce = benv_nonce envelope\<rparr>
         (benv_payload envelope))))))"

section \<open>Outbound\<close>

record basic_message =
  bm_target :: h160
  bm_nonce :: u64
  bm_payload :: bytes

record basic_outbound =
  bout_interval :: u32
  bout_queue :: "basic_message list"
  bout_principal :: account_id
  bout_nonce :: u64

record 's basic_outbound_config =
  bout_st :: "('s, basic_outbound) storage"
  bout_sys :: "'s sys_ops"
  bout_abi :: abi_lib
  bout_encode :: "basic_message list \<Rightarrow> bytes"
  bout_prefix :: bytes
  bout_hashing :: "bytes \<Rightarrow> h256"
  bout_max_payload :: nat
  bout_max_messages :: nat
  bout_set_principal_origin :: "origin \<Rightarrow> bool"
  bout_weights :: outbound_weights

abbreviation basic_out_error :: "basic_outbound_error \<Rightarrow> dispatch_error" where
  "basic_out_error e \<equiv> Module (BasicOutboundError e)"

definition bout_nonce_item :: "('s, basic_outbound) storage \<Rightarrow> ('s, u64) storage" where
  "bout_nonce_item st = \<lparr>sget = (\<lambda>s. bout_nonce (sget st s)), sput = (\<lambda>v s. sput st ((sget st s)\<lparr>bout_nonce := v\<rparr>) s)\<rparr>"

definition bout_update :: "('s, basic_outbound) storage \<Rightarrow> (basic_outbound \<Rightarrow> basic_outbound) \<Rightarrow> 's \<Rightarrow> 's" where
  "bout_update st f s = sput st (f (sget st s)) s"

definition basic_set_principal ::
  "'s basic_outbound_config \<Rightarrow> ('d \<Rightarrow> account_id option) \<Rightarrow> origin \<Rightarrow> 'd \<Rightarrow> ('s, dispatch_error, unit) ext" where
  "basic_set_principal cfg lookup org dest =
     bind_ext (lift_res (ensure (bout_set_principal_origin cfg org) BadOrigin)) (\<lambda>_.
     bind_ext (lift_res (ok_or CannotLookup (lookup dest))) (\<lambda>p.
     modify (bout_update (bout_st cfg) (\<lambda>b. b\<lparr>bout_principal := p\<rparr>))))"

definition basic_out_submit ::
  "'s basic_outbound_config \<Rightarrow> account_id \<Rightarrow> h160 \<Rightarrow> bytes \<Rightarrow> ('s, dispatch_error, unit) ext" where
  "basic_out_submit cfg who target payload =
     bind_ext (gets (sget (bout_st cfg))) (\<lambda>b.
     bind_ext (lift_res (ensure (who = bout_principal b) (basic_out_error NotAuthorized))) (\<lambda>_.
     bind_ext (lift_res (ensure (length (bout_queue b) < bout_max_messages cfg)
       (basic_out_error BasicQueueSizeLimitReached))) (\<lambda>_.
     bind_ext (lift_res (ensure (length payload \<le> bout_max_payload cfg) (basic_out_error BasicPayloadTooLarge))) (\<lambda>_.
     try_mutate (bout_nonce_item (bout_st cfg)) (\<lambda>n.
       bind_ext (lift_res (ok_or (basic_out_error BasicOverflow) (checked_add n 1))) (\<lambda>v.
       bind_ext (modify (bout_update (bout_st cfg) (\<lambda>b. b\<lparr>bout_queue :=
         bout_queue b @ [\<lparr>bm_target = target, bm_nonce = v, bm_payload = payload\<rparr>]\<rparr>))) (\<lambda>_.
       bind_ext (modify (deposit_event (bout_sys cfg) (MessageAccepted Basic v))) (\<lambda>_.
       ret ((), v)))))))))"

definition basic_commitment_hash :: "'s basic_outbound_config \<Rightarrow> basic_message list \<Rightarrow> h256" where
  "basic_commitment_hash cfg ms = bout_hashing cfg (abi_encode (bout_abi cfg)
     [TArray (map (\<lambda>m. TTuple [TAddress (bm_target m), TUint (ucast (bm_nonce m)), TBytes (bm_payload m)]) ms)])"

definition basic_average_payload_size :: "basic_message list \<Rightarrow> nat" where
  "basic_average_payload_size ms = average_size (map (\<lambda>m. length (bm_payload m)) ms)"

definition basic_offchain_key :: "'s basic_outbound_config \<Rightarrow> h256 \<Rightarrow> bytes" where
  "basic_offchain_key cfg hash = scale_key (bout_abi cfg) (bout_prefix cfg) Basic hash"

definition basic_commit :: "'s basic_outbound_config \<Rightarrow> ('s, 'e, u64) ext" where
  "basic_commit cfg =
     bind_ext (gets (\<lambda>s. bout_queue (sget (bout_st cfg) s))) (\<lambda>messages.
     bind_ext (modify (bout_update (bout_st cfg) (\<lambda>b. b\<lparr>bout_queue := []\<rparr>))) (\<lambda>_.
     if messages = [] then ret (w_no_messages (bout_weights cfg))
     else
       let commitment_hash = basic_commitment_hash cfg messages;
           size = basic_average_payload_size messages in
       bind_ext (modify (deposit_log (bout_sys cfg) (Commitment Basic commitment_hash))) (\<lambda>_.
       bind_ext (modify (offchain_set (bout_sys cfg) (basic_offchain_key cfg commitment_hash)
         (bout_encode cfg messages))) (\<lambda>_.
       ret (w_on_initialize (bout_weights cfg) (of_nat (length messages)) (of_nat size))))))"

definition basic_on_initialize :: "'s basic_outbound_config \<Rightarrow> u32 \<Rightarrow> ('s, 'e, u64) ext" where
  "basic_on_initialize cfg now =
     bind_ext (gets (\<lambda>s. bout_interval (sget (bout_st cfg) s))) (\<lambda>iv.
     bind_ext (lift_res (interval_due now iv)) (\<lambda>due.
     if due then basic_commit cfg else ret (w_non_interval (bout_weights cfg))))"

section \<open>The contracts hold in such an environment\<close>

locale basic_inbound_env = inbound_env "bin_st cfg" "bin_verifier cfg" "bin_dispatch cfg" log_of
  for cfg :: "'s basic_inbound_config" and log_of

definition basic_number :: "abi_lib \<Rightarrow> (message \<Rightarrow> log option) \<Rightarrow> message \<Rightarrow> u64 option" where
  "basic_number L log_of m = (case log_of m of None \<Rightarrow> None
     | Some l \<Rightarrow> map_option benv_nonce (basic_envelope_try_from L l))"

lemma basic_submit_Ok:
  "basic_submit cfg org m s = (Ok (), s') \<longleftrightarrow>
     (\<exists>who l t env. org = Signed who \<and> bin_verifier cfg m s = (Ok l, t) \<and>
        basic_envelope_try_from (bin_abi cfg) l = Some env \<and>
        benv_channel env = bin_source_channel (sget (bin_st cfg) t) \<and>
        benv_nonce env = bin_nonce (sget (bin_st cfg) t) + 1 \<and>
        bin_dispatch cfg (benv_source env) \<lparr>channel_id = Basic, mid_nonce = benv_nonce env\<rparr> (benv_payload env)
          (sput (bin_st cfg) ((sget (bin_st cfg) t)\<lparr>bin_nonce := benv_nonce env\<rparr>) t) = (Ok (), s'))"
  unfolding basic_submit_def try_mutate_def bin_nonce_item_def
  by (auto simp: ok_simps split: if_splits)

sublocale basic_inbound_env \<subseteq> nonces: inbound_nonces "basic_submit cfg"
  "\<lambda>s. bin_nonce (sget (bin_st cfg) s)" "basic_number (bin_abi cfg) log_of"
proof unfold_locales
  fix org m s s'
  assume "basic_submit cfg org m s = (Ok (), s')"
  then obtain l t env where v: "bin_verifier cfg m s = (Ok l, t)"
      and env: "basic_envelope_try_from (bin_abi cfg) l = Some env" "benv_nonce env = bin_nonce (sget (bin_st cfg) t) + 1"
      and d: "bin_dispatch cfg (benv_source env) \<lparr>channel_id = Basic, mid_nonce = benv_nonce env\<rparr> (benv_payload env)
          (sput (bin_st cfg) ((sget (bin_st cfg) t)\<lparr>bin_nonce := benv_nonce env\<rparr>) t) = (Ok (), s')"
    unfolding basic_submit_Ok by blast
  have "t = s" using verifier_pure [OF v] .
  then show "basic_number (bin_abi cfg) log_of m = Some (bin_nonce (sget (bin_st cfg) s) + 1) \<and>
      bin_nonce (sget (bin_st cfg) s') = bin_nonce (sget (bin_st cfg) s) + 1"
    using verifier_log [OF v] env disp_frame [OF d] by (simp add: basic_number_def get_put)
next
  fix org m s e s'
  assume "basic_submit cfg org m s = (Err e, s')"
  then show "s' = s"
    unfolding basic_submit_def try_mutate_def bin_nonce_item_def
    by (auto simp: ok_simps basic_run disp_no_error dest!: verifier_pure split: if_splits)
qed

locale basic_outbound_env = outbound_env "bout_st cfg" "bout_sys cfg"
  for cfg :: "'s basic_outbound_config"

lemma basic_out_submit_Ok:
  "basic_out_submit cfg who target p s = (Ok (), s') \<longleftrightarrow>
     (let st = bout_st cfg; b = sget st s in
      who = bout_principal b \<and> length (bout_queue b) < bout_max_messages cfg \<and> length p \<le> bout_max_payload cfg \<and>
      (\<exists>v. checked_add (bout_nonce b) 1 = Some v \<and>
        s' = sput (bout_nonce_item st) v (deposit_event (bout_sys cfg) (MessageAccepted Basic v)
          (bout_update st (\<lambda>b. b\<lparr>bout_queue := bout_queue b @ [\<lparr>bm_target = target, bm_nonce = v, bm_payload = p\<rparr>]\<rparr>) s))))"
  unfolding basic_out_submit_def try_mutate_def Let_def by (auto simp: ok_simps bout_nonce_item_def)

lemma basic_commit_run:
  "basic_commit cfg s =
     (let ms = bout_queue (sget (bout_st cfg) s); s1 = bout_update (bout_st cfg) (\<lambda>b. b\<lparr>bout_queue := []\<rparr>) s;
          hash = basic_commitment_hash cfg ms in
      if ms = [] then (Ok (w_no_messages (bout_weights cfg)), s1)
      else (Ok (w_on_initialize (bout_weights cfg) (of_nat (length ms)) (of_nat (basic_average_payload_size ms))),
        offchain_set (bout_sys cfg) (basic_offchain_key cfg hash) (bout_encode cfg ms)
          (deposit_log (bout_sys cfg) (Commitment Basic hash) s1)))"
  by (simp add: basic_commit_def ext_simps Let_def)

sublocale basic_outbound_env \<subseteq> out: outbound_queue "basic_out_submit cfg" "\<lambda>s. snd (basic_commit cfg s)"
  "\<lambda>s. bout_queue (sget (bout_st cfg) s)" "\<lambda>s. bout_nonce (sget (bout_st cfg) s)" bm_nonce bm_payload
  "bout_max_messages cfg" "bout_max_payload cfg"
proof unfold_locales
  fix who target p s s'
  assume "basic_out_submit cfg who target p s = (Ok (), s')"
  then show "\<exists>m. bout_queue (sget (bout_st cfg) s') = bout_queue (sget (bout_st cfg) s) @ [m] \<and>
      unat (bout_nonce (sget (bout_st cfg) s')) = unat (bout_nonce (sget (bout_st cfg) s)) + 1 \<and>
      bm_nonce m = bout_nonce (sget (bout_st cfg) s') \<and> bm_payload m = p \<and>
      length p \<le> bout_max_payload cfg \<and> length (bout_queue (sget (bout_st cfg) s)) < bout_max_messages cfg"
    unfolding basic_out_submit_Ok Let_def
    by (auto simp: bout_nonce_item_def bout_update_def get_put event_frame checked_simps)
next
  fix who target p s e s'
  assume "basic_out_submit cfg who target p s = (Err e, s')"
  then have "s' = s"
    unfolding basic_out_submit_def try_mutate_def by (auto simp: ok_simps basic_run)
  then show "bout_queue (sget (bout_st cfg) s') = bout_queue (sget (bout_st cfg) s) \<and>
      bout_nonce (sget (bout_st cfg) s') = bout_nonce (sget (bout_st cfg) s)" by simp
next
  fix s
  show "bout_queue (sget (bout_st cfg) (snd (basic_commit cfg s))) = [] \<and>
      bout_nonce (sget (bout_st cfg) (snd (basic_commit cfg s))) = bout_nonce (sget (bout_st cfg) s)"
    by (simp add: basic_commit_run Let_def bout_update_def get_put log_frame offchain_frame)
qed

end
