(* ===== verification/Currency.thy ===== *)
theory Currency
  imports Bridge_Core
begin

text \<open>
  The native currency.  \<open>pallet_balances\<close> is outside this repository: the operations of its
  trait \<open>Currency\<close> that the pallets call are the fields of \<open>currency\<close>, and what its documentation
  says about them is \<open>currency_laws\<close>, a hypothesis of the theorems that need it.  An imbalance is
  its amount; dropping one adjusts the total issuance.
\<close>

section \<open>The trait\<close>

datatype existence = KeepAlive | AllowDeath

record 's currency =
  cur_free :: "account_id \<Rightarrow> 's \<Rightarrow> u128"
  cur_issuance :: "'s \<Rightarrow> u128"
  cur_minimum_balance :: u128
  cur_transfer :: "account_id \<Rightarrow> account_id \<Rightarrow> u128 \<Rightarrow> existence \<Rightarrow> ('s, dispatch_error, unit) ext"
  cur_withdraw :: "account_id \<Rightarrow> u128 \<Rightarrow> existence \<Rightarrow> ('s, dispatch_error, u128) ext"
  cur_deposit_into_existing :: "account_id \<Rightarrow> u128 \<Rightarrow> ('s, dispatch_error, u128) ext"
  cur_resolve_creating :: "account_id \<Rightarrow> u128 \<Rightarrow> 's \<Rightarrow> 's"
  cur_drop_positive :: "u128 \<Rightarrow> 's \<Rightarrow> 's"

section \<open>What the documentation promises\<close>

definition unmoved :: "'s currency \<Rightarrow> account_id set \<Rightarrow> 's \<Rightarrow> 's \<Rightarrow> bool" where
  "unmoved C ws s s' \<longleftrightarrow> (\<forall>v. v \<notin> ws \<longrightarrow> cur_free C v s' = cur_free C v s)"

text \<open>
  A transfer that need not keep the sender alive removes the account when less than the minimum balance
  would be left on it; what is left, the dust, is taken out of the issuance.
\<close>

definition transfer_law :: "'s currency \<Rightarrow> bool" where
  "transfer_law C \<longleftrightarrow> (\<forall>w v x k s r s'. cur_transfer C w v x k s = (r, s') \<longrightarrow>
     (case r of
        Ok _ \<Rightarrow> unmoved C {w, v} s s' \<and>
          (if w = v then cur_free C w s' = cur_free C w s \<and> cur_issuance C s' = cur_issuance C s
           else unat (cur_free C v s') = unat (cur_free C v s) + unat x \<and>
             (\<exists>dust. unat (cur_free C w s) = unat (cur_free C w s') + unat x + unat dust \<and>
                cur_issuance C s' = cur_issuance C s - dust \<and>
                (dust = 0 \<or> k = AllowDeath \<and> dust < cur_minimum_balance C \<and> cur_free C w s' = 0)))
      | Err _ \<Rightarrow> s' = s
      | _ \<Rightarrow> False))"

definition withdraw_law :: "'s currency \<Rightarrow> bool" where
  "withdraw_law C \<longleftrightarrow> (\<forall>w x s r s'. cur_withdraw C w x KeepAlive s = (r, s') \<longrightarrow>
     (case r of
        Ok imb \<Rightarrow> imb = x \<and> cur_issuance C s' = cur_issuance C s \<and> unmoved C {w} s s' \<and>
          unat (cur_free C w s) = unat (cur_free C w s') + unat x
      | Err _ \<Rightarrow> s' = s
      | _ \<Rightarrow> False))"

definition deposit_law :: "'s currency \<Rightarrow> bool" where
  "deposit_law C \<longleftrightarrow> (\<forall>w x s r s'. cur_deposit_into_existing C w x s = (r, s') \<longrightarrow>
     (case r of
        Ok imb \<Rightarrow> imb = x \<and> cur_issuance C s' = cur_issuance C s \<and> unmoved C {w} s s' \<and>
          unat (cur_free C w s') = unat (cur_free C w s) + unat x
      | Err _ \<Rightarrow> s' = s
      | _ \<Rightarrow> False))"

text \<open>The amount arrives, or, when the account cannot be created with it, is burned.\<close>

definition resolve_law :: "'s currency \<Rightarrow> bool" where
  "resolve_law C \<longleftrightarrow> (\<forall>w x s. let s' = cur_resolve_creating C w x s in
     (cur_issuance C s' = cur_issuance C s \<and> unmoved C {w} s s' \<and>
        unat (cur_free C w s') = unat (cur_free C w s) + unat x) \<or>
     (cur_issuance C s' = cur_issuance C s - x \<and> unmoved C {} s s'))"

definition currency_laws :: "'s currency \<Rightarrow> bool" where
  "currency_laws C \<longleftrightarrow> transfer_law C \<and> withdraw_law C \<and> deposit_law C \<and> resolve_law C"

section \<open>A ledger that meets the laws\<close>

record ledger =
  ledger_free :: "account_id \<Rightarrow> u128"
  ledger_issuance :: u128

definition ledger_currency :: "ledger currency" where
  "ledger_currency = \<lparr>
     cur_free = (\<lambda>w s. ledger_free s w),
     cur_issuance = ledger_issuance,
     cur_minimum_balance = 10,
     cur_transfer = (\<lambda>w v x k s. case checked_sub (ledger_free s w) x of
         None \<Rightarrow> (Err (ForeignError 0), s)
       | Some b \<Rightarrow> if w = v then (Ok (), s) else (case checked_add (ledger_free s v) x of
             None \<Rightarrow> (Err (ForeignError 1), s)
           | Some c \<Rightarrow>
               if 10 \<le> b then (Ok (), s\<lparr>ledger_free := (ledger_free s)(w := b, v := c)\<rparr>)
               else if k = AllowDeath
               then (Ok (), s\<lparr>ledger_free := (ledger_free s)(w := 0, v := c), ledger_issuance := ledger_issuance s - b\<rparr>)
               else (Err (ForeignError 2), s))),
     cur_withdraw = (\<lambda>w x k s. case checked_sub (ledger_free s w) x of
         None \<Rightarrow> (Err (ForeignError 0), s)
       | Some b \<Rightarrow> (Ok x, s\<lparr>ledger_free := (ledger_free s)(w := b)\<rparr>)),
     cur_deposit_into_existing = (\<lambda>w x s. case checked_add (ledger_free s w) x of
         None \<Rightarrow> (Err (ForeignError 1), s)
       | Some b \<Rightarrow> (Ok x, s\<lparr>ledger_free := (ledger_free s)(w := b)\<rparr>)),
     cur_resolve_creating = (\<lambda>w x s. case checked_add (ledger_free s w) x of
         None \<Rightarrow> s\<lparr>ledger_issuance := ledger_issuance s - x\<rparr>
       | Some b \<Rightarrow> s\<lparr>ledger_free := (ledger_free s)(w := b)\<rparr>),
     cur_drop_positive = (\<lambda>x s. s\<lparr>ledger_issuance := ledger_issuance s + x\<rparr>)\<rparr>"

lemma ledger_laws: "currency_laws ledger_currency"
  unfolding currency_laws_def
proof (intro conjI)
  show "transfer_law ledger_currency"
    unfolding transfer_law_def
  proof (intro allI impI)
    fix w v x k r and s s' :: ledger
    assume run: "cur_transfer ledger_currency w v x k s = (r, s')"
    consider "checked_sub (ledger_free s w) x = None" | b where "unat (ledger_free s w) = unat b + unat x" "checked_sub (ledger_free s w) x = Some b"
      by (metis checked_sub_Some_iff option.exhaust)
    then show "case r of
        Ok _ \<Rightarrow> unmoved ledger_currency {w, v} s s' \<and>
          (if w = v then cur_free ledger_currency w s' = cur_free ledger_currency w s \<and>
             cur_issuance ledger_currency s' = cur_issuance ledger_currency s
           else unat (cur_free ledger_currency v s') = unat (cur_free ledger_currency v s) + unat x \<and>
             (\<exists>dust. unat (cur_free ledger_currency w s) = unat (cur_free ledger_currency w s') + unat x + unat dust \<and>
                cur_issuance ledger_currency s' = cur_issuance ledger_currency s - dust \<and>
                (dust = 0 \<or> k = AllowDeath \<and> dust < cur_minimum_balance ledger_currency \<and> cur_free ledger_currency w s' = 0)))
      | Err _ \<Rightarrow> s' = s
      | _ \<Rightarrow> False"
    proof cases
      case 1
      then show ?thesis using run by (auto simp: ledger_currency_def)
    next
      case 2
      then show ?thesis using run
        by (auto simp: ledger_currency_def unmoved_def checked_add_Some_iff not_le split: option.splits if_splits)
    qed
  qed
  show "withdraw_law ledger_currency"
    by (auto simp: withdraw_law_def ledger_currency_def unmoved_def checked_simps split: option.splits)
  show "deposit_law ledger_currency"
    by (auto simp: deposit_law_def ledger_currency_def unmoved_def checked_simps split: option.splits)
  show "resolve_law ledger_currency"
    by (auto simp: resolve_law_def ledger_currency_def unmoved_def checked_simps Let_def split: option.splits)
qed

section \<open>The supply\<close>

definition free_sum :: "'s currency \<Rightarrow> 's \<Rightarrow> nat" where
  "free_sum C s = (\<Sum>w\<in>UNIV. unat (cur_free C w s))"

lemma free_sum_one:
  assumes "unmoved C {w} s s'"
  shows "free_sum C s' + unat (cur_free C w s) = free_sum C s + unat (cur_free C w s')"
proof -
  have "(\<Sum>v\<in>UNIV - {w}. unat (cur_free C v s')) = (\<Sum>v\<in>UNIV - {w}. unat (cur_free C v s))"
    using assms by (intro sum.cong) (auto simp: unmoved_def)
  then show ?thesis by (simp add: free_sum_def sum.remove [of UNIV w])
qed

end
