(* ===== verification/Incentivized_Channel.thy ===== *)
theory Incentivized_Channel
  imports Channel_Core Currency
begin

text \<open>
  \<open>pallets/incentivized-channel\<close>: like the basic channel, with a fee on every message.  Inbound,
  the fee is paid out of the bridge's account to the relayer and the treasury; outbound, it is
  withdrawn from the sender.
\<close>

section \<open>Inbound\<close>

definition incentivized_event_abi :: abi_event where
  "incentivized_event_abi = \<lparr>signature = ''Message(address,uint64,uint256,bytes)'',
     inputs = [\<lparr>kind = KAddress, indexed_param = False\<rparr>, \<lparr>kind = KUint 64, indexed_param = False\<rparr>,
       \<lparr>kind = KUint 256, indexed_param = False\<rparr>, \<lparr>kind = KBytes, indexed_param = False\<rparr>],
     anonymous = False\<rparr>"

record incentivized_envelope =
  ienv_channel :: h160
  ienv_source :: h160
  ienv_nonce :: u64
  ienv_fee :: u128
  ienv_payload :: bytes

record incentivized_inbound =
  iin_source_channel :: h160
  iin_nonce :: u64
  iin_reward_fraction :: u32

text \<open>
  A \<open>Perbill\<close> is a number of billionths; \<open>mul_ceil\<close> is a function of its library.  The fee
  converter has no value where the source's panics.
\<close>

record 's incentivized_inbound_config =
  iin_st :: "('s, incentivized_inbound) storage"
  iin_abi :: abi_lib
  iin_verifier :: "'s verifier"
  iin_dispatch :: "'s message_dispatch"
  iin_currency :: "'s currency"
  iin_source_account :: account_id
  iin_treasury_account :: account_id
  iin_fee_converter :: "u256 \<Rightarrow> u128 option"
  iin_update_origin :: "origin \<Rightarrow> bool"
  iin_mul_ceil :: "u32 \<Rightarrow> u128 \<Rightarrow> u128"

abbreviation incentivized_in_error :: "inbound_error \<Rightarrow> dispatch_error" where
  "incentivized_in_error e \<equiv> Module (IncentivizedInboundError e)"

definition incentivized_envelope_try_from ::
  "abi_lib \<Rightarrow> (u256 \<Rightarrow> u128 option) \<Rightarrow> log \<Rightarrow> (unit, incentivized_envelope) result" where
  "incentivized_envelope_try_from L conv l =
     (case abi_decode_event L incentivized_event_abi (log_topics l) (log_data l) of
        Some (TAddress source # TUint n # TUint f # rest) \<Rightarrow>
          bind_res (unwrap (conv f)) (\<lambda>fee. case rest of
            TBytes payload # _ \<Rightarrow> Ok \<lparr>ienv_channel = log_address l, ienv_source = source, ienv_nonce = low_u64 n,
              ienv_fee = fee, ienv_payload = payload\<rparr>
          | _ \<Rightarrow> Err ())
      | _ \<Rightarrow> Err ())"

definition iin_nonce_item :: "('s, incentivized_inbound) storage \<Rightarrow> ('s, u64) storage" where
  "iin_nonce_item st = \<lparr>sget = (\<lambda>s. iin_nonce (sget st s)), sput = (\<lambda>v s. sput st ((sget st s)\<lparr>iin_nonce := v\<rparr>) s)\<rparr>"

text \<open>
  \<open>imbalance.offset(rewarded).same()\<close>: what is left of the withdrawn amount after the reward, or,
  when the reward is larger, the surplus, which is dropped.
\<close>

definition handle_fee :: "'s incentivized_inbound_config \<Rightarrow> u128 \<Rightarrow> account_id \<Rightarrow> ('s, dispatch_error, unit) ext" where
  "handle_fee cfg amount relayer =
     (if amount = 0 then ret ()
      else (\<lambda>s. case cur_withdraw (iin_currency cfg) (iin_source_account cfg) amount KeepAlive s of
          (Ok imbalance, s1) \<Rightarrow>
            let reward_amount = iin_mul_ceil cfg (iin_reward_fraction (sget (iin_st cfg) s1)) amount in
            (case (case cur_deposit_into_existing (iin_currency cfg) relayer reward_amount s1 of
                     (Err _, s2) \<Rightarrow> (Ok 0, s2) | r \<Rightarrow> r) of
               (Ok rewarded, s2) \<Rightarrow>
                 if rewarded \<le> imbalance
                 then (Ok (), cur_resolve_creating (iin_currency cfg) (iin_treasury_account cfg) (imbalance - rewarded) s2)
                 else (Ok (), cur_drop_positive (iin_currency cfg) (rewarded - imbalance) s2)
             | (Err e, s2) \<Rightarrow> (Ok (), s2)
             | (Panic, s2) \<Rightarrow> (Panic, s2)
             | (Loop, s2) \<Rightarrow> (Loop, s2))
        | (Err e, s1) \<Rightarrow> (Ok (), s1)
        | (Panic, s1) \<Rightarrow> (Panic, s1)
        | (Loop, s1) \<Rightarrow> (Loop, s1)))"

definition incentivized_submit ::
  "'s incentivized_inbound_config \<Rightarrow> origin \<Rightarrow> message \<Rightarrow> ('s, dispatch_error, unit) ext" where
  "incentivized_submit cfg org m =
     bind_ext (lift_res (ensure_signed org)) (\<lambda>relayer.
     bind_ext (iin_verifier cfg m) (\<lambda>l.
     bind_ext (lift_res (map_err (\<lambda>_. incentivized_in_error InvalidEnvelope)
       (incentivized_envelope_try_from (iin_abi cfg) (iin_fee_converter cfg) l))) (\<lambda>envelope.
     bind_ext (gets (\<lambda>s. iin_source_channel (sget (iin_st cfg) s))) (\<lambda>source_channel.
     if ienv_channel envelope \<noteq> source_channel then lift_res (Err (incentivized_in_error InvalidSourceChannel))
     else
       bind_ext (try_mutate (iin_nonce_item (iin_st cfg)) (\<lambda>n.
         if ienv_nonce envelope \<noteq> n + 1 then lift_res (Err (incentivized_in_error InvalidNonce))
         else ret ((), n + 1))) (\<lambda>_.
       bind_ext (handle_fee cfg (ienv_fee envelope) relayer) (\<lambda>_.
       iin_dispatch cfg (ienv_source envelope) \<lparr>channel_id = Incentivized, mid_nonce = ienv_nonce envelope\<rparr>
         (ienv_payload envelope)))))))"

definition set_reward_fraction ::
  "'s incentivized_inbound_config \<Rightarrow> origin \<Rightarrow> u32 \<Rightarrow> ('s, dispatch_error, unit) ext" where
  "set_reward_fraction cfg org fraction =
     bind_ext (lift_res (ensure (iin_update_origin cfg org) BadOrigin)) (\<lambda>_.
     modify (\<lambda>s. sput (iin_st cfg) ((sget (iin_st cfg) s)\<lparr>iin_reward_fraction := fraction\<rparr>) s))"

section \<open>Outbound\<close>

record incentivized_message =
  im_target :: h160
  im_nonce :: u64
  im_fee :: u256
  im_payload :: bytes

record incentivized_outbound =
  iout_interval :: u32
  iout_queue :: "incentivized_message list"
  iout_nonce :: u64
  iout_fee :: u256

record 's incentivized_outbound_config =
  iout_st :: "('s, incentivized_outbound) storage"
  iout_sys :: "'s sys_ops"
  iout_abi :: abi_lib
  iout_encode :: "incentivized_message list \<Rightarrow> bytes"
  iout_prefix :: bytes
  iout_hashing :: "bytes \<Rightarrow> h256"
  iout_max_payload :: nat
  iout_max_messages :: nat
  iout_fee_currency :: "'s single_asset"
  iout_set_fee_origin :: "origin \<Rightarrow> bool"
  iout_weights :: outbound_weights

abbreviation incentivized_out_error :: "incentivized_outbound_error \<Rightarrow> dispatch_error" where
  "incentivized_out_error e \<equiv> Module (IncentivizedOutboundError e)"

definition iout_nonce_item :: "('s, incentivized_outbound) storage \<Rightarrow> ('s, u64) storage" where
  "iout_nonce_item st = \<lparr>sget = (\<lambda>s. iout_nonce (sget st s)), sput = (\<lambda>v s. sput st ((sget st s)\<lparr>iout_nonce := v\<rparr>) s)\<rparr>"

definition iout_update :: "('s, incentivized_outbound) storage \<Rightarrow> (incentivized_outbound \<Rightarrow> incentivized_outbound) \<Rightarrow> 's \<Rightarrow> 's" where
  "iout_update st f s = sput st (f (sget st s)) s"

definition set_fee :: "'s incentivized_outbound_config \<Rightarrow> origin \<Rightarrow> u256 \<Rightarrow> ('s, dispatch_error, unit) ext" where
  "set_fee cfg org amount =
     bind_ext (lift_res (ensure (iout_set_fee_origin cfg org) BadOrigin)) (\<lambda>_.
     modify (iout_update (iout_st cfg) (\<lambda>b. b\<lparr>iout_fee := amount\<rparr>)))"

definition incentivized_out_submit ::
  "'s incentivized_outbound_config \<Rightarrow> account_id \<Rightarrow> h160 \<Rightarrow> bytes \<Rightarrow> ('s, dispatch_error, unit) ext" where
  "incentivized_out_submit cfg who target payload =
     bind_ext (gets (sget (iout_st cfg))) (\<lambda>b.
     bind_ext (lift_res (ensure (length (iout_queue b) < iout_max_messages cfg)
       (incentivized_out_error QueueSizeLimitReached))) (\<lambda>_.
     bind_ext (lift_res (ensure (length payload \<le> iout_max_payload cfg) (incentivized_out_error PayloadTooLarge))) (\<lambda>_.
     try_mutate (iout_nonce_item (iout_st cfg)) (\<lambda>n.
       bind_ext (lift_res (ok_or (incentivized_out_error Overflow) (checked_add n 1))) (\<lambda>v.
       bind_ext (gets (\<lambda>s. iout_fee (sget (iout_st cfg) s))) (\<lambda>fee.
       bind_ext (map_err_ext (\<lambda>_. incentivized_out_error NoFunds) (sa_withdraw (iout_fee_currency cfg) who fee)) (\<lambda>_.
       bind_ext (modify (iout_update (iout_st cfg) (\<lambda>b. b\<lparr>iout_queue :=
         iout_queue b @ [\<lparr>im_target = target, im_nonce = v, im_fee = fee, im_payload = payload\<rparr>]\<rparr>))) (\<lambda>_.
       bind_ext (modify (deposit_event (iout_sys cfg) (MessageAccepted Incentivized v))) (\<lambda>_.
       ret ((), v))))))))))"

definition incentivized_commitment_hash :: "'s incentivized_outbound_config \<Rightarrow> incentivized_message list \<Rightarrow> h256" where
  "incentivized_commitment_hash cfg ms = iout_hashing cfg (abi_encode (iout_abi cfg)
     [TArray (map (\<lambda>m. TTuple [TAddress (im_target m), TUint (ucast (im_nonce m)), TUint (im_fee m),
        TBytes (im_payload m)]) ms)])"

definition incentivized_average_payload_size :: "incentivized_message list \<Rightarrow> nat" where
  "incentivized_average_payload_size ms = average_size (map (\<lambda>m. length (im_payload m)) ms)"

definition incentivized_offchain_key :: "'s incentivized_outbound_config \<Rightarrow> h256 \<Rightarrow> bytes" where
  "incentivized_offchain_key cfg hash = scale_key (iout_abi cfg) (iout_prefix cfg) Incentivized hash"

definition incentivized_commit :: "'s incentivized_outbound_config \<Rightarrow> ('s, 'e, u64) ext" where
  "incentivized_commit cfg =
     bind_ext (gets (\<lambda>s. iout_queue (sget (iout_st cfg) s))) (\<lambda>messages.
     bind_ext (modify (iout_update (iout_st cfg) (\<lambda>b. b\<lparr>iout_queue := []\<rparr>))) (\<lambda>_.
     if messages = [] then ret (w_no_messages (iout_weights cfg))
     else
       let commitment_hash = incentivized_commitment_hash cfg messages;
           size = incentivized_average_payload_size messages in
       bind_ext (modify (deposit_log (iout_sys cfg) (Commitment Incentivized commitment_hash))) (\<lambda>_.
       bind_ext (modify (offchain_set (iout_sys cfg) (incentivized_offchain_key cfg commitment_hash)
         (iout_encode cfg messages))) (\<lambda>_.
       ret (w_on_initialize (iout_weights cfg) (of_nat (length messages)) (of_nat size))))))"

definition incentivized_on_initialize :: "'s incentivized_outbound_config \<Rightarrow> u32 \<Rightarrow> ('s, 'e, u64) ext" where
  "incentivized_on_initialize cfg now =
     bind_ext (gets (\<lambda>s. iout_interval (sget (iout_st cfg) s))) (\<lambda>iv.
     bind_ext (lift_res (interval_due now iv)) (\<lambda>due.
     if due then incentivized_commit cfg else ret (w_non_interval (iout_weights cfg))))"

section \<open>Fees\<close>

text \<open>
  What the reward function of \<open>Perbill\<close> promises: a fraction of at most one never yields more
  than the whole.
\<close>

definition perbill_law :: "(u32 \<Rightarrow> u128 \<Rightarrow> u128) \<Rightarrow> bool" where
  "perbill_law mul \<longleftrightarrow> (\<forall>f x. unat f \<le> 10 ^ 9 \<longrightarrow> mul f x \<le> x)"

text \<open>The currency does not write into the channel's items.\<close>

definition currency_frame :: "'s currency \<Rightarrow> ('s, 'v) storage \<Rightarrow> bool" where
  "currency_frame C st \<longleftrightarrow>
     (\<forall>w x k s r s'. cur_withdraw C w x k s = (r, s') \<longrightarrow> sget st s' = sget st s) \<and>
     (\<forall>w x s r s'. cur_deposit_into_existing C w x s = (r, s') \<longrightarrow> sget st s' = sget st s) \<and>
     (\<forall>w x s. sget st (cur_resolve_creating C w x s) = sget st s) \<and>
     (\<forall>x s. sget st (cur_drop_positive C x s) = sget st s)"

lemma handle_fee_no_error: "handle_fee cfg x w s \<noteq> (Err e, s')"
  by (auto simp: handle_fee_def ret_def Let_def split: prod.splits result.splits if_splits)

lemma handle_fee_frame:
  assumes "currency_frame (iin_currency cfg) st" "handle_fee cfg x w s = (r, s')"
  shows "sget st s' = sget st s"
  using assms unfolding currency_frame_def handle_fee_def Let_def
  by (auto simp: ret_def split: prod.splits result.splits if_splits)

section \<open>Payments conserve the currency\<close>

lemma currency_frameD:
  assumes "currency_frame C st"
  shows "cur_withdraw C w x k s = (r, s') \<Longrightarrow> sget st s' = sget st s"
    and "cur_deposit_into_existing C w y s = (r', s') \<Longrightarrow> sget st s' = sget st s"
  using assms unfolding currency_frame_def by blast+

text \<open>The two steps of a payment as one: an amount leaves an account, a part of it enters another.\<close>

lemma currency_withdraw_run:
  assumes "currency_laws C" "cur_withdraw C w x KeepAlive s = (r, s')"
  shows "(r = Ok x \<and> cur_issuance C s' = cur_issuance C s \<and> free_sum C s = free_sum C s' + unat x) \<or>
    (\<exists>e. r = Err e) \<and> s' = s"
proof (cases r)
  case (Ok imb)
  then have "imb = x" "cur_issuance C s' = cur_issuance C s" "unmoved C {w} s s'"
      "unat (cur_free C w s) = unat (cur_free C w s') + unat x"
    using assms unfolding currency_laws_def withdraw_law_def by fastforce+
  then show ?thesis using Ok free_sum_one [of C w s s'] by auto
qed (use assms in \<open>fastforce simp: currency_laws_def withdraw_law_def\<close>)+

lemma deposit_existing_run:
  assumes "currency_laws C" "cur_deposit_into_existing C w x s = (r, s')"
  shows "(r = Ok x \<and> cur_issuance C s' = cur_issuance C s \<and> free_sum C s' = free_sum C s + unat x) \<or>
    (\<exists>e. r = Err e) \<and> s' = s"
proof (cases r)
  case (Ok imb)
  then have "imb = x" "cur_issuance C s' = cur_issuance C s" "unmoved C {w} s s'"
      "unat (cur_free C w s') = unat (cur_free C w s) + unat x"
    using assms unfolding currency_laws_def deposit_law_def by fastforce+
  then show ?thesis using Ok free_sum_one [of C w s s'] by auto
qed (use assms in \<open>fastforce simp: currency_laws_def deposit_law_def\<close>)+

lemma resolve_run:
  assumes "currency_laws C"
  shows "(cur_issuance C (cur_resolve_creating C w x s) = cur_issuance C s \<and>
      free_sum C (cur_resolve_creating C w x s) = free_sum C s + unat x) \<or>
    (cur_issuance C (cur_resolve_creating C w x s) = cur_issuance C s - x \<and>
      free_sum C (cur_resolve_creating C w x s) = free_sum C s)"
proof -
  let ?s' = "cur_resolve_creating C w x s"
  have "(cur_issuance C ?s' = cur_issuance C s \<and> unmoved C {w} s ?s' \<and>
      unat (cur_free C w ?s') = unat (cur_free C w s) + unat x) \<or>
    (cur_issuance C ?s' = cur_issuance C s - x \<and> unmoved C {} s ?s')"
    using assms unfolding currency_laws_def resolve_law_def Let_def by blast
  then show ?thesis using free_sum_one [of C w s ?s'] by (auto simp: unmoved_def free_sum_def)
qed

lemma handle_fee_run:
  assumes "x \<noteq> 0" "cur_withdraw (iin_currency cfg) (iin_source_account cfg) x KeepAlive s = (Ok imb, s1)"
    and "cur_deposit_into_existing (iin_currency cfg) relayer
      (iin_mul_ceil cfg (iin_reward_fraction (sget (iin_st cfg) s1)) x) s1 = (r2, s2)"
    and "r2 = Ok paid \<or> (\<exists>e. r2 = Err e) \<and> paid = 0"
  shows "handle_fee cfg x relayer s = (Ok (), if paid \<le> imb
    then cur_resolve_creating (iin_currency cfg) (iin_treasury_account cfg) (imb - paid) s2
    else cur_drop_positive (iin_currency cfg) (paid - imb) s2)"
  using assms by (auto simp: handle_fee_def Let_def)

theorem handle_fee_conserves:
  assumes laws: "currency_laws (iin_currency cfg)" and frame: "currency_frame (iin_currency cfg) (iin_st cfg)"
    and mul: "perbill_law (iin_mul_ceil cfg)" and f: "unat (iin_reward_fraction (sget (iin_st cfg) s)) \<le> 10 ^ 9"
    and run: "handle_fee cfg x relayer s = (r, s')"
  shows "r = Ok () \<and>
    (cur_issuance (iin_currency cfg) s' = cur_issuance (iin_currency cfg) s \<and>
       free_sum (iin_currency cfg) s' = free_sum (iin_currency cfg) s \<or>
     (\<exists>burned. burned \<le> x \<and> cur_issuance (iin_currency cfg) s' = cur_issuance (iin_currency cfg) s - burned \<and>
       free_sum (iin_currency cfg) s = free_sum (iin_currency cfg) s' + unat burned))"
proof -
  let ?C = "iin_currency cfg"
  show ?thesis
  proof (cases "x = 0")
    case True
    then show ?thesis using run by (simp add: handle_fee_def ret_def)
  next
    case x: False
    obtain r1 s1 where w: "cur_withdraw ?C (iin_source_account cfg) x KeepAlive s = (r1, s1)"
      by (cases "cur_withdraw ?C (iin_source_account cfg) x KeepAlive s")
    from currency_withdraw_run [OF laws w] show ?thesis
    proof (elim disjE conjE exE)
      fix e assume "r1 = Err e" "s1 = s"
      then show ?thesis using run w x by (simp add: handle_fee_def)
    next
      assume r1: "r1 = Ok x" "cur_issuance ?C s1 = cur_issuance ?C s" "free_sum ?C s = free_sum ?C s1 + unat x"
      have fr: "iin_reward_fraction (sget (iin_st cfg) s1) = iin_reward_fraction (sget (iin_st cfg) s)"
        using currency_frameD(1) [OF frame w] by simp
      define rew where "rew = iin_mul_ceil cfg (iin_reward_fraction (sget (iin_st cfg) s1)) x"
      have rew: "rew \<le> x" using mul f fr unfolding rew_def perbill_law_def by simp
      obtain r2 s2 where d: "cur_deposit_into_existing ?C relayer rew s1 = (r2, s2)"
        by (cases "cur_deposit_into_existing ?C relayer rew s1")
      obtain paid where paid: "paid \<le> x" "r2 = Ok paid \<or> (\<exists>e. r2 = Err e) \<and> paid = 0"
          "cur_issuance ?C s2 = cur_issuance ?C s" "free_sum ?C s2 + unat x = free_sum ?C s + unat paid"
        using deposit_existing_run [OF laws d] r1 rew that [of rew] that [of 0] by auto
      note run' = handle_fee_run [OF x w [unfolded r1(1)] d [unfolded rew_def] paid(2)]
      have res: "r = Ok ()" "s' = cur_resolve_creating ?C (iin_treasury_account cfg) (x - paid) s2"
        using run run' paid(1) by simp_all
      have xp: "unat (x - paid) = unat x - unat paid" "unat paid \<le> unat x" "x - paid \<le> x"
        using paid(1) by (simp_all add: unat_sub word_le_nat_alt)
      from resolve_run [OF laws, of "iin_treasury_account cfg" "x - paid" s2] show ?thesis
      proof (elim disjE conjE)
        assume "cur_issuance ?C (cur_resolve_creating ?C (iin_treasury_account cfg) (x - paid) s2) = cur_issuance ?C s2"
          "free_sum ?C (cur_resolve_creating ?C (iin_treasury_account cfg) (x - paid) s2) = free_sum ?C s2 + unat (x - paid)"
        then show ?thesis using paid res xp by simp
      next
        assume "cur_issuance ?C (cur_resolve_creating ?C (iin_treasury_account cfg) (x - paid) s2) = cur_issuance ?C s2 - (x - paid)"
          "free_sum ?C (cur_resolve_creating ?C (iin_treasury_account cfg) (x - paid) s2) = free_sum ?C s2"
        then show ?thesis using paid res xp by auto
      qed
    qed
  qed
qed

section \<open>The contracts of a channel\<close>

locale incentivized_inbound_env = inbound_env "iin_st cfg" "iin_verifier cfg" "iin_dispatch cfg" log_of
  for cfg :: "'s incentivized_inbound_config" and log_of +
  assumes fee_frame: "currency_frame (iin_currency cfg) (iin_st cfg)"

definition incentivized_number ::
  "abi_lib \<Rightarrow> (u256 \<Rightarrow> u128 option) \<Rightarrow> (message \<Rightarrow> log option) \<Rightarrow> message \<Rightarrow> u64 option" where
  "incentivized_number L conv log_of m = (case log_of m of None \<Rightarrow> None
     | Some l \<Rightarrow> (case incentivized_envelope_try_from L conv l of Ok env \<Rightarrow> Some (ienv_nonce env) | _ \<Rightarrow> None))"

lemma incentivized_submit_OkD:
  "incentivized_submit cfg org m s = (Ok (), s') \<Longrightarrow>
     (\<exists>who l t env u. org = Signed who \<and> iin_verifier cfg m s = (Ok l, t) \<and>
        incentivized_envelope_try_from (iin_abi cfg) (iin_fee_converter cfg) l = Ok env \<and>
        ienv_channel env = iin_source_channel (sget (iin_st cfg) t) \<and>
        ienv_nonce env = iin_nonce (sget (iin_st cfg) t) + 1 \<and>
        handle_fee cfg (ienv_fee env) who
          (sput (iin_st cfg) ((sget (iin_st cfg) t)\<lparr>iin_nonce := ienv_nonce env\<rparr>) t) = (Ok (), u) \<and>
        iin_dispatch cfg (ienv_source env) \<lparr>channel_id = Incentivized, mid_nonce = ienv_nonce env\<rparr>
          (ienv_payload env) u = (Ok (), s'))"
  unfolding incentivized_submit_def try_mutate_def iin_nonce_item_def
  by (auto simp: ok_simps split: if_splits)

sublocale incentivized_inbound_env \<subseteq> nonces: inbound_nonces "incentivized_submit cfg"
  "\<lambda>s. iin_nonce (sget (iin_st cfg) s)" "incentivized_number (iin_abi cfg) (iin_fee_converter cfg) log_of"
proof unfold_locales
  fix org m s s'
  assume "incentivized_submit cfg org m s = (Ok (), s')"
  then obtain who l t env u where v: "iin_verifier cfg m s = (Ok l, t)"
      and env: "incentivized_envelope_try_from (iin_abi cfg) (iin_fee_converter cfg) l = Ok env"
        "ienv_nonce env = iin_nonce (sget (iin_st cfg) t) + 1"
      and h: "handle_fee cfg (ienv_fee env) who
        (sput (iin_st cfg) ((sget (iin_st cfg) t)\<lparr>iin_nonce := ienv_nonce env\<rparr>) t) = (Ok (), u)"
      and d: "iin_dispatch cfg (ienv_source env) \<lparr>channel_id = Incentivized, mid_nonce = ienv_nonce env\<rparr>
        (ienv_payload env) u = (Ok (), s')"
    using incentivized_submit_OkD [of cfg org m s s'] by blast
  have "t = s" using verifier_pure [OF v] .
  then show "incentivized_number (iin_abi cfg) (iin_fee_converter cfg) log_of m = Some (iin_nonce (sget (iin_st cfg) s) + 1) \<and>
      iin_nonce (sget (iin_st cfg) s') = iin_nonce (sget (iin_st cfg) s) + 1"
    using verifier_log [OF v] env disp_frame [OF d] handle_fee_frame [OF fee_frame h]
    by (simp add: incentivized_number_def get_put)
next
  fix org m s e s'
  assume "incentivized_submit cfg org m s = (Err e, s')"
  then show "s' = s"
    unfolding incentivized_submit_def try_mutate_def iin_nonce_item_def
    by (auto simp: ok_simps basic_run disp_no_error handle_fee_no_error dest!: verifier_pure split: if_splits)
qed

text \<open>The fee is taken from another pallet's storage, and a failed withdrawal takes nothing.\<close>

locale incentivized_outbound_env = outbound_env "iout_st cfg" "iout_sys cfg"
  for cfg :: "'s incentivized_outbound_config" +
  assumes withdraw_frame: "sa_withdraw (iout_fee_currency cfg) w x s = (r, s') \<Longrightarrow> sget (iout_st cfg) s' = sget (iout_st cfg) s"
    and withdraw_undone: "sa_withdraw (iout_fee_currency cfg) w x s = (Err e, s') \<Longrightarrow> s' = s"

lemma incentivized_out_submit_Ok:
  "incentivized_out_submit cfg who target p s = (Ok (), s') \<longleftrightarrow>
     (let st = iout_st cfg; b = sget st s in
      length (iout_queue b) < iout_max_messages cfg \<and> length p \<le> iout_max_payload cfg \<and>
      (\<exists>v t. checked_add (iout_nonce b) 1 = Some v \<and> sa_withdraw (iout_fee_currency cfg) who (iout_fee b) s = (Ok (), t) \<and>
        s' = sput (iout_nonce_item st) v (deposit_event (iout_sys cfg) (MessageAccepted Incentivized v)
          (iout_update st (\<lambda>b'. b'\<lparr>iout_queue := iout_queue b' @
             [\<lparr>im_target = target, im_nonce = v, im_fee = iout_fee b, im_payload = p\<rparr>]\<rparr>) t))))"
  unfolding incentivized_out_submit_def try_mutate_def Let_def by (auto simp: ok_simps iout_nonce_item_def)

lemma incentivized_commit_run:
  "incentivized_commit cfg s =
     (let ms = iout_queue (sget (iout_st cfg) s); s1 = iout_update (iout_st cfg) (\<lambda>b. b\<lparr>iout_queue := []\<rparr>) s;
          hash = incentivized_commitment_hash cfg ms in
      if ms = [] then (Ok (w_no_messages (iout_weights cfg)), s1)
      else (Ok (w_on_initialize (iout_weights cfg) (of_nat (length ms)) (of_nat (incentivized_average_payload_size ms))),
        offchain_set (iout_sys cfg) (incentivized_offchain_key cfg hash) (iout_encode cfg ms)
          (deposit_log (iout_sys cfg) (Commitment Incentivized hash) s1)))"
  by (simp add: incentivized_commit_def ext_simps Let_def)

sublocale incentivized_outbound_env \<subseteq> out: outbound_queue "incentivized_out_submit cfg" "\<lambda>s. snd (incentivized_commit cfg s)"
  "\<lambda>s. iout_queue (sget (iout_st cfg) s)" "\<lambda>s. iout_nonce (sget (iout_st cfg) s)" im_nonce im_payload
  "iout_max_messages cfg" "iout_max_payload cfg"
proof unfold_locales
  fix who target p s s'
  assume "incentivized_out_submit cfg who target p s = (Ok (), s')"
  then show "\<exists>m. iout_queue (sget (iout_st cfg) s') = iout_queue (sget (iout_st cfg) s) @ [m] \<and>
      unat (iout_nonce (sget (iout_st cfg) s')) = unat (iout_nonce (sget (iout_st cfg) s)) + 1 \<and>
      im_nonce m = iout_nonce (sget (iout_st cfg) s') \<and> im_payload m = p \<and>
      length p \<le> iout_max_payload cfg \<and> length (iout_queue (sget (iout_st cfg) s)) < iout_max_messages cfg"
    unfolding incentivized_out_submit_Ok Let_def
    by (auto simp: iout_nonce_item_def iout_update_def get_put event_frame checked_simps dest!: withdraw_frame)
next
  fix who target p s e s'
  assume "incentivized_out_submit cfg who target p s = (Err e, s')"
  then have "s' = s"
    unfolding incentivized_out_submit_def try_mutate_def
    by (auto simp: ok_simps basic_run map_err_ext_Err dest: withdraw_undone)
  then show "iout_queue (sget (iout_st cfg) s') = iout_queue (sget (iout_st cfg) s) \<and>
      iout_nonce (sget (iout_st cfg) s') = iout_nonce (sget (iout_st cfg) s)" by simp
next
  fix s
  show "iout_queue (sget (iout_st cfg) (snd (incentivized_commit cfg s))) = [] \<and>
      iout_nonce (sget (iout_st cfg) (snd (incentivized_commit cfg s))) = iout_nonce (sget (iout_st cfg) s)"
    by (simp add: incentivized_commit_run Let_def iout_update_def get_put log_frame offchain_frame)
qed

end
