(* ===== verification/Eth_Difficulty.thy ===== *)
theory Eth_Difficulty
  imports Eth_Primitives
begin

text \<open>
  \<open>primitives/ethereum/src/difficulty.rs\<close>: the difficulty of a block from its parent, with the
  fork schedule of a network.  The code computes on \<open>u64\<close>, \<open>i64\<close> and \<open>U256\<close>; the reference
  below is the formula of EIP-100 and EIP-649 on unbounded integers, and the theorem of this
  theory says that the two agree on every input, errors and panics included.
\<close>

section \<open>The code\<close>

definition DIFFICULTY_BOUND_DIVISOR :: nat where
  "DIFFICULTY_BOUND_DIVISOR = 11"

definition EXP_DIFFICULTY_PERIOD :: u64 where
  "EXP_DIFFICULTY_PERIOD = 100000"

definition MINIMUM_DIFFICULTY :: u256 where
  "MINIMUM_DIFFICULTY = 131072"

datatype bomb_delay = Byzantium | Constantinople | MuirGlacier | London

fun bomb_delay_as_u64 :: "bomb_delay \<Rightarrow> u64" where
  "bomb_delay_as_u64 Byzantium = 3000000"
| "bomb_delay_as_u64 Constantinople = 5000000"
| "bomb_delay_as_u64 MuirGlacier = 9000000"
| "bomb_delay_as_u64 London = 9700000"

record difficulty_config =
  byzantium_fork_block :: u64
  constantinople_fork_block :: u64
  muir_glacier_fork_block :: u64
  london_fork_block :: u64

definition mainnet :: difficulty_config where
  "mainnet = \<lparr>byzantium_fork_block = 4370000, constantinople_fork_block = 7280000,
     muir_glacier_fork_block = 9200000, london_fork_block = 12965000\<rparr>"

definition ropsten :: difficulty_config where
  "ropsten = \<lparr>byzantium_fork_block = 1700000, constantinople_fork_block = 4230000,
     muir_glacier_fork_block = 7117117, london_fork_block = 10499401\<rparr>"

definition bomb_delay :: "difficulty_config \<Rightarrow> u64 \<Rightarrow> bomb_delay option" where
  "bomb_delay cfg block_number =
     (if block_number \<ge> london_fork_block cfg then Some London
      else if block_number \<ge> muir_glacier_fork_block cfg then Some MuirGlacier
      else if block_number \<ge> constantinople_fork_block cfg then Some Constantinople
      else if block_number \<ge> byzantium_fork_block cfg then Some Byzantium
      else None)"

text \<open>The operators of \<open>U256\<close>: a result that does not fit is a panic.\<close>

definition u256_add :: "u256 \<Rightarrow> u256 \<Rightarrow> ('e, u256) result" where
  "u256_add a b = unwrap (checked_add a b)"

definition u256_sub :: "u256 \<Rightarrow> u256 \<Rightarrow> ('e, u256) result" where
  "u256_sub a b = unwrap (checked_sub a b)"

definition u256_mul :: "u256 \<Rightarrow> u256 \<Rightarrow> ('e, u256) result" where
  "u256_mul a b = unwrap (checked_mul a b)"

definition u256_pow :: "u256 \<Rightarrow> nat \<Rightarrow> ('e, u256) result" where
  "u256_pow a n = unwrap (checked_pow a n)"

text \<open>\<open>i64::try_from\<close> on a \<open>u64\<close>, and \<open>max\<close>, \<open>abs\<close> on \<open>i64\<close> (two's complement).\<close>

definition i64_try_from :: "u64 \<Rightarrow> u64 option" where
  "i64_try_from x = (if unat x < 2 ^ 63 then Some x else None)"

definition i64_max :: "u64 \<Rightarrow> u64 \<Rightarrow> u64" where
  "i64_max a b = (if sint a < sint b then b else a)"

definition i64_abs :: "u64 \<Rightarrow> u64" where
  "i64_abs a = (if sint a < 0 then - a else a)"

definition calc_difficulty :: "difficulty_config \<Rightarrow> u64 \<Rightarrow> header \<Rightarrow> (string, u256) result" where
  "calc_difficulty cfg time parent =
     bind_res (ok_or ''Cannot calculate difficulty for block number prior to Byzantium''
       (bomb_delay cfg (number parent + 1))) (\<lambda>delay.
     bind_res (ok_or ''Invalid block time'' (checked_sub time (timestamp parent))) (\<lambda>x.
     bind_res (ok_or ''Invalid block time'' (i64_try_from (x div 9))) (\<lambda>block_time_div_9.
     let sigma2 = i64_max (if has_ommers parent then 2 - block_time_div_9 else 1 - block_time_div_9) (- 99);
         step = drop_bit DIFFICULTY_BOUND_DIVISOR (difficulty parent) in
     bind_res
       (if sint sigma2 < 0
        then bind_res (u256_mul step (ucast (i64_abs sigma2))) (u256_sub (difficulty parent))
        else bind_res (u256_mul step (ucast sigma2)) (u256_add (difficulty parent))) (\<lambda>d.
     let difficulty_without_exp = max d MINIMUM_DIFFICULTY;
         fake_block_number = saturating_sub (number parent) (bomb_delay_as_u64 delay - 1);
         period_count = fake_block_number div EXP_DIFFICULTY_PERIOD in
     if period_count \<ge> 2
     then bind_res (u256_pow 2 (unat (period_count - 2))) (u256_add difficulty_without_exp)
     else Ok difficulty_without_exp))))"

section \<open>The reference\<close>

definition bomb_delay_blocks :: "bomb_delay \<Rightarrow> nat" where
  "bomb_delay_blocks delay = unat (bomb_delay_as_u64 delay)"

text \<open>\<open>max (y - (time - parent_time) div 9) (- 99)\<close> of EIP-100.\<close>

definition adjustment_factor :: "int \<Rightarrow> header \<Rightarrow> int" where
  "adjustment_factor elapsed parent = max ((if has_ommers parent then 2 else 1) - elapsed div 9) (- 99)"

definition base_difficulty :: "int \<Rightarrow> header \<Rightarrow> int" where
  "base_difficulty elapsed parent = max 131072
     (uint (difficulty parent) + uint (difficulty parent) div 2048 * adjustment_factor elapsed parent)"

definition ice_age :: "nat \<Rightarrow> nat \<Rightarrow> int" where
  "ice_age delay parent_number =
     (let periods = (parent_number - (delay - 1)) div 100000 in if periods \<ge> 2 then 2 ^ (periods - 2) else 0)"

definition difficulty_spec :: "bomb_delay \<Rightarrow> u64 \<Rightarrow> header \<Rightarrow> int" where
  "difficulty_spec delay time parent =
     base_difficulty (uint time - uint (timestamp parent)) parent
     + ice_age (bomb_delay_blocks delay) (unat (number parent))"

section \<open>Agreement\<close>

lemma unat_bomb_delay_minus_one: "unat (bomb_delay_as_u64 d - 1) = bomb_delay_blocks d - 1"
  by (cases d) (simp_all add: bomb_delay_blocks_def)

lemma i64_try_from_div9: "i64_try_from (x div 9) = Some (x div 9)"
proof -
  have "unat x < 2 ^ 64" using unsigned_less [of x, where ?'a = nat] by simp
  then have "unat x div 9 < 2 ^ 63" by simp
  then show ?thesis by (simp add: i64_try_from_def unat_div_distrib)
qed

text \<open>A number that must fit into a \<open>U256\<close>.\<close>

definition fit :: "int \<Rightarrow> ('e, u256) result" where
  "fit v = (if v < 2 ^ 256 then Ok (word_of_int v) else Panic)"

lemma u256_add_fit: "u256_add a b = fit (uint a + uint b)"
proof -
  have "unat a + unat b < 2 ^ 256 \<longleftrightarrow> uint a + uint b < 2 ^ 256"
    by (simp flip: of_nat_less_iff [where 'a = int] add: )
  then show ?thesis by (simp add: u256_add_def checked_add_def fit_def)
qed

lemma u256_mul_fit: "u256_mul a b = fit (uint a * uint b)"
proof -
  have "unat a * unat b < 2 ^ 256 \<longleftrightarrow> uint a * uint b < 2 ^ 256"
    by (simp flip: of_nat_less_iff [where 'a = int])
  then show ?thesis by (simp add: u256_mul_def checked_mul_def fit_def)
qed

lemma u256_pow_fit: "u256_pow 2 n = fit (2 ^ n)"
proof -
  have "(2 :: nat) ^ n < 2 ^ 256 \<longleftrightarrow> (2 :: int) ^ n < 2 ^ 256"
    by (simp only: power_strict_increasing_iff)
  then show ?thesis by (simp add: u256_pow_def checked_pow_def fit_def)
qed

lemma u256_sub_fit: "uint b \<le> uint a \<Longrightarrow> u256_sub a b = Ok (word_of_int (uint a - uint b))"
  by (simp add: u256_sub_def checked_sub_def word_le_def)

lemma uint_fit: "fit v = Ok w \<Longrightarrow> 0 \<le> v \<Longrightarrow> uint w = v"
  by (auto simp: fit_def uint_word_of_int split: if_splits)

lemma uint_of_int_256: "0 \<le> v \<Longrightarrow> v < 2 ^ 256 \<Longrightarrow> uint (word_of_int v :: u256) = v"
  by (simp add: uint_word_of_int)

text \<open>The factor of the code, read as a signed number, is the factor of the reference.\<close>

lemma sint_word_of_int_u64: "- (2 ^ 63) \<le> k \<Longrightarrow> k < 2 ^ 63 \<Longrightarrow> sint (word_of_int k :: u64) = k"
  by (simp add: signed_of_int signed_take_bit_int_eq_self)

lemma sint_sub_small:
  assumes "0 \<le> k" "k \<le> (2 :: int)" "uint (q :: u64) < 2 ^ 62"
  shows "sint (word_of_int k - q) = k - uint q"
proof -
  have "k - uint q \<le> 2" using assms(2) uint_ge_0 [of q] by linarith
  then have "sint (word_of_int (k - uint q) :: u64) = k - uint q"
    using assms by (intro sint_word_of_int_u64) simp_all
  then show ?thesis by simp
qed

lemma sigma2_sint:
  assumes "uint (q :: u64) < 2 ^ 62"
  shows "sint (i64_max (if b then 2 - q else 1 - q) (- 99)) = max ((if b then 2 else 1) - uint q) (- 99)"
proof -
  have "sint (2 - q) = 2 - uint q" "sint (1 - q) = 1 - uint q"
    using sint_sub_small [of 2 q] sint_sub_small [of 1 q] assms by simp_all
  moreover have "sint (- 99 :: u64) = - 99" by simp
  ultimately show ?thesis unfolding i64_max_def by auto
qed

lemma uint_of_sint:
  assumes "0 \<le> sint (w :: u64)"
  shows "uint (ucast w :: u256) = sint w"
proof -
  have "uint w < 2 ^ 256" using uint_bounded [of w] by simp
  then have "take_bit 256 (uint w) = uint w" by (intro take_bit_int_eq_self) simp_all
  moreover have "sint w < 2 ^ 64" using sint_lt [of w] by simp
  then have "uint w = sint w" using assms by (simp add: uint_sint take_bit_int_eq_self)
  ultimately show ?thesis by (simp add: unsigned_ucast_eq)
qed

lemma eleventh_part: "0 \<le> (p :: int) \<Longrightarrow> 0 \<le> k \<Longrightarrow> k \<le> 99 \<Longrightarrow> p div 2048 * k \<le> p"
proof -
  assume p: "0 \<le> p" and k: "0 \<le> k" "k \<le> 99"
  have "p div 2048 * k \<le> p div 2048 * 2048"
    using p k by (intro mult_left_mono) (simp_all add: pos_imp_zdiv_nonneg_iff)
  also have "\<dots> \<le> p" by simp
  finally show ?thesis .
qed

text \<open>The adjusted difficulty of the parent, before the lower bound is applied.\<close>

lemma adjusted_difficulty:
  fixes pd :: u256 and sg :: u64
  assumes s: "- 99 \<le> sint sg" "sint sg \<le> 2"
  shows "(if sint sg < 0
      then bind_res (u256_mul (drop_bit 11 pd) (ucast (i64_abs sg))) (u256_sub pd)
      else bind_res (u256_mul (drop_bit 11 pd) (ucast sg)) (u256_add pd))
    = (fit (uint pd + uint pd div 2048 * sint sg) :: ('e, u256) result)"
proof -
  have pd: "0 \<le> uint pd" "uint pd < 2 ^ 256" using uint_bounded [of pd] by simp_all
  have st: "uint (drop_bit 11 pd) = uint pd div 2048" by (simp add: drop_bit_eq_div uint_div_distrib)
  note small = eleventh_part [OF pd(1)]
  show ?thesis
  proof (cases "sint sg < 0")
    case True
    have "- sg = word_of_int (- sint sg)" by simp
    then have "sint (- sg) = - sint sg"
      using True s by (simp only:) (rule sint_word_of_int_u64, simp_all)
    then have "uint (ucast (i64_abs sg) :: u256) = - sint sg"
      using True by (simp add: i64_abs_def uint_of_sint)
    moreover define m where "m = uint pd div 2048 * (- sint sg)"
    ultimately have "u256_mul (drop_bit 11 pd) (ucast (i64_abs sg)) = (fit m :: ('e, u256) result)"
      by (simp only: u256_mul_fit st)
    moreover have m: "0 \<le> m" "m \<le> uint pd"
      using True s pd small [of "- sint sg"]
      by (simp_all only: m_def) (simp_all add: pos_imp_zdiv_nonneg_iff mult_nonneg_nonpos)
    moreover have m256: "m < 2 ^ 256" using m pd by linarith
    then have "u256_sub pd (word_of_int m) = (Ok (word_of_int (uint pd - m)) :: ('e, u256) result)"
      using m by (intro trans [OF u256_sub_fit]) (simp_all add: uint_of_int_256)
    moreover have "uint pd - m < 2 ^ 256" using m pd by linarith
    moreover have "uint pd + uint pd div 2048 * sint sg = uint pd - m" by (simp add: m_def)
    ultimately show ?thesis using True m256 by (simp only: if_True fit_def bind_res.simps)
  next
    case False
    then have "uint (ucast sg :: u256) = sint sg" by (simp add: uint_of_sint)
    moreover define m where "m = uint pd div 2048 * sint sg"
    ultimately have mul: "u256_mul (drop_bit 11 pd) (ucast sg) = (fit m :: ('e, u256) result)"
      by (simp only: u256_mul_fit st)
    have m: "0 \<le> m" "m \<le> uint pd"
      using False s pd small [of "sint sg"]
      by (simp_all only: m_def) (simp_all add: pos_imp_zdiv_nonneg_iff)
    then have m256: "m < 2 ^ 256" using pd by linarith
    then have "uint (word_of_int m :: u256) = m" using m by (intro uint_of_int_256)
    then have "u256_add pd (word_of_int m) = (fit (uint pd + m) :: ('e, u256) result)"
      by (simp only: u256_add_fit)
    with m256 have "bind_res (fit m) (u256_add pd) = (fit (uint pd + m) :: ('e, u256) result)"
      by (simp only: fit_def [of m] if_True bind_res.simps)
    with mul False show ?thesis by (simp only: if_False m_def)
  qed
qed

lemma adjustment_factor_bounds: "- 99 \<le> adjustment_factor e parent" "0 \<le> e \<Longrightarrow> adjustment_factor e parent \<le> 2"
  by (auto simp: adjustment_factor_def pos_imp_zdiv_nonneg_iff)

lemma period_count_unat:
  "unat (saturating_sub (number parent) (bomb_delay_as_u64 delay - 1) div EXP_DIFFICULTY_PERIOD)
    = (unat (number parent) - (bomb_delay_blocks delay - 1)) div 100000"
  by (simp add: unat_div_distrib unat_saturating_sub unat_bomb_delay_minus_one EXP_DIFFICULTY_PERIOD_def)

lemma bomb_step:
  fixes n delay :: nat and p :: u64
  assumes p: "unat p = (n - (delay - 1)) div 100000" and d: "0 \<le> d"
  shows "bind_res (fit d) (\<lambda>w. if p \<ge> 2 then bind_res (u256_pow 2 (unat (p - 2))) (u256_add (max w 131072))
      else Ok (max w 131072)) = (fit (max 131072 d + ice_age delay n) :: ('e, u256) result)"
proof (cases "d < 2 ^ 256")
  case False
  have "0 \<le> ice_age delay n" by (simp add: ice_age_def Let_def)
  with False have "\<not> max 131072 d + ice_age delay n < 2 ^ 256" by linarith
  with False show ?thesis by (simp add: fit_def)
next
  case True
  let ?w = "word_of_int d :: u256"
  have m: "uint (max ?w 131072) = max 131072 d"
    using True d by (simp add: max_def word_le_def uint_of_int_256)
  then have mw: "max ?w 131072 = word_of_int (max 131072 d)" by (metis word_of_int_uint)
  have m256: "max 131072 d < 2 ^ 256" using True by simp
  show ?thesis
  proof (cases "p \<ge> 2")
    case False
    then have "\<not> 2 \<le> unat p" by (simp add: word_le_nat_alt)
    then have "ice_age delay n = 0" by (simp add: ice_age_def p)
    then show ?thesis using False True m256 mw by (simp add: fit_def)
  next
    case p2: True
    then have "2 \<le> unat p" "unat (p - 2) = unat p - 2" by (simp_all add: word_le_nat_alt unat_sub)
    then have i: "ice_age delay n = 2 ^ unat (p - 2)" by (simp add: ice_age_def p)
    show ?thesis
    proof (cases "(2 :: int) ^ unat (p - 2) < 2 ^ 256")
      case t: True
      then have "uint (word_of_int (2 ^ unat (p - 2)) :: u256) = 2 ^ unat (p - 2)"
        by (intro uint_of_int_256) simp_all
      then have "u256_add (max ?w 131072) (word_of_int (2 ^ unat (p - 2)))
          = (fit (max 131072 d + 2 ^ unat (p - 2)) :: ('e, u256) result)"
        by (simp only: u256_add_fit m)
      then show ?thesis using p2 True t by (simp add: u256_pow_fit i fit_def [of d] fit_def [of "2 ^ unat (p - 2)"])
    next
      case False
      then show ?thesis using p2 True by (simp add: u256_pow_fit i fit_def)
    qed
  qed
qed

lemma calc_difficulty_eq:
  "calc_difficulty cfg time parent =
    (case bomb_delay cfg (number parent + 1) of
       None \<Rightarrow> Err ''Cannot calculate difficulty for block number prior to Byzantium''
     | Some delay \<Rightarrow>
         if time < timestamp parent then Err ''Invalid block time''
         else if difficulty_spec delay time parent < 2 ^ 256
              then Ok (word_of_int (difficulty_spec delay time parent))
              else Panic)"
proof (cases "bomb_delay cfg (number parent + 1)")
  case None
  then show ?thesis by (simp add: calc_difficulty_def)
next
  case (Some delay)
  show ?thesis
  proof (cases "time < timestamp parent")
    case True
    then have "\<not> timestamp parent \<le> time" by simp
    then show ?thesis using Some True by (simp add: calc_difficulty_def checked_sub_def)
  next
    case False
    let ?x = "time - timestamp parent"
    let ?e = "uint time - uint (timestamp parent)"
    let ?sg = "i64_max (if has_ommers parent then 2 - ?x div 9 else 1 - ?x div 9) (- 99)"
    have x: "uint ?x = ?e" using False by (simp add: uint_sub_lem word_less_def not_less)
    have e: "0 \<le> ?e" using False by (simp add: word_less_def)
    have q: "uint (?x div 9) = ?e div 9" using x by (simp add: uint_div_distrib)
    have "?e < 2 ^ 64" using uint_bounded [of ?x] x by simp
    then have "uint (?x div 9) < 2 ^ 62" unfolding q by simp
    then have sg: "sint ?sg = adjustment_factor ?e parent"
      by (simp add: sigma2_sint adjustment_factor_def q)
    have sgb: "- 99 \<le> sint ?sg" "sint ?sg \<le> 2"
      unfolding sg using adjustment_factor_bounds [of _ parent] e by auto
    have d0: "0 \<le> uint (difficulty parent) + uint (difficulty parent) div 2048 * sint ?sg"
      using sg adjustment_factor_bounds [of ?e parent] e eleventh_part [of "uint (difficulty parent)" "- sint ?sg"]
      by (cases "0 \<le> sint ?sg") (simp_all add: pos_imp_zdiv_nonneg_iff)
    have "calc_difficulty cfg time parent = bind_res
        (fit (uint (difficulty parent) + uint (difficulty parent) div 2048 * sint ?sg))
        (\<lambda>w. if saturating_sub (number parent) (bomb_delay_as_u64 delay - 1) div EXP_DIFFICULTY_PERIOD \<ge> 2
          then bind_res (u256_pow 2 (unat (saturating_sub (number parent) (bomb_delay_as_u64 delay - 1)
            div EXP_DIFFICULTY_PERIOD - 2))) (u256_add (max w 131072)) else Ok (max w 131072))"
      using Some False adjusted_difficulty [of ?sg "difficulty parent", where ?'e = string] sgb
      by (simp only: calc_difficulty_def checked_sub_def i64_try_from_div9 Let_def not_less if_True
          DIFFICULTY_BOUND_DIVISOR_def MINIMUM_DIFFICULTY_def ok_or.simps bind_res.simps)
    also have "\<dots> = fit (difficulty_spec delay time parent)"
      using bomb_step [OF period_count_unat d0] by (simp add: difficulty_spec_def base_difficulty_def sg)
    finally show ?thesis using Some False by (simp add: fit_def)
  qed
qed

text \<open>
  C20. calc_difficulty, on its machine integers, is the EIP-100/EIP-649 formula on unbounded
  integers: it errs exactly for blocks before Byzantium and for a time before the parent,
  and panics exactly when the result does not fit into 256 bits.
\<close>

theorem calc_difficulty_correct:
  "calc_difficulty cfg time parent =
    (case bomb_delay cfg (number parent + 1) of
       None \<Rightarrow> Err ''Cannot calculate difficulty for block number prior to Byzantium''
     | Some delay \<Rightarrow>
         if time < timestamp parent then Err ''Invalid block time''
         else if difficulty_spec delay time parent < 2 ^ 256
              then Ok (word_of_int (difficulty_spec delay time parent))
              else Panic)"
  by (rule calc_difficulty_eq)

end
