(* ===== verification/Ethash_Data.thy ===== *)
theory Ethash_Data
  imports Bridge_Prelude
begin

text \<open>
  \<open>primitives/ethereum/src/ethashdata.rs\<close>: the Merkle roots of the Ethash DAGs of the epochs 0
  to 511, in four parts of 128 epochs.  A root is an array of sixteen bytes in the source, read
  here as the \<open>H128\<close> that \<open>dag_merkle_root\<close> makes of it.
\<close>

definition DAGS_START_EPOCH :: u64 where
  "DAGS_START_EPOCH = 0"

definition DAGS_MERKLE_ROOTS_0 :: "h128 list" where
  "DAGS_MERKLE_ROOTS_0 = [
    0x55b891e842e58f58956a847cbbf67821,
    0xfba03a3d1902b9256ebe9177d03242fe,
    0x2b186dc65b93be71780e5194fd44fc70,
    0x94c0532d49523cd9309057a847ef0dbd,
    0xf61d6da773315bdd4c79418186ebaa4a,
    0x28e89dd2e1e5e09ee3e4cf412af58a0e,
    0x54a0171c74e7336634f5b6b61f2b302c,
    0x3be685b693d9ddfc342406fcc8d98512,
    0x1887acc39d0818a7c6d47e33904a150a,
    0xe1434e68f6a9f30252e2f31be8db9658,
    0xa5e981ffaa1f770de8a1d21550f49755,
    0xf4a55238db60864330a300e1d05dba16,
    0xf4b2032ab23f95f9c9516db6d43372ce,
    0x5fa11b8f22bd56e5bbb4cb0f843b6730,
    0xad4e75d7abf04b5798d8d0c832bf6833,
    0x7df3208dec48fb446e0f89da95843d8a,
    0x250e4cae8e10486589190b68608af301,
    0xa55b182e12b1433a4935514bb729d2b2,
    0x99456d6b4f8886afbbafa6a758830a92,
    0xcfd122fe8a0b3c8984e1a603e97bae53,
    0x0d05ebdd6eae46efa4b0c7694e6db158,
    0x7e59bb58278cbd8f9470fe8636c4edee,
    0xc48e2800c2442220eb1d0a9d9d08b437,
    0x185f8beff965e31b7859b9b63fc79f97,
    0x6e6c22abdb238266d3fa0f2902f85d7c,
    0x7345950e2b649e10596ae6be11782110,
    0x0cc51bae63bfb29add017e4a0f89f97a,
    0x0a5a13ee1aea57228395fc64b8a1852e,
    0xecb847d99f761b457747886f4e0c81d7,
    0x9eaf4241ffab9b2d693b96420dbd0356,
    0x93f46416f3ef2d5ea57fe1a25c89cfea,
    0xec1ba1810cafc7c0fe76e7bf50809bb2,
    0x5ce691721774a58d63e53da2b80f0dbc,
    0xf570455f0bfca4359608d92ba076c0cc,
    0x1cdc79438ea2129bc739fc9497f53c14,
    0x52bfc78f0fc5839e04f1c729c73a1469,
    0xd711787384841b856ff7f4d53e5e42df,
    0x63dd408ecfdd6e71d45cddfd45aff23b,
    0xb0b09781e2c5249c9c248e0062a681ea,
    0x0d9d5d09f198c9637b510bbac6f33f34,
    0xb572f9b06f63d012d848174bd1191588,
    0xd7ab790f4a80e62b38d3a8ae4d170832,
    0x9184028922c8de7accdd9d72106aed6b,
    0x9d52e83fb1ccb288a8bbd7094ea25221,
    0xcb56adf452205662e1f83e51c0c496b5,
    0x761eb4593abc7603cf0b5ea95d3661bd,
    0x35ca47a1892c4524442a83fdc5231d3d,
    0x289f4c7339489b0d07c8716fbf169c74,
    0x75ec671be4712c1ce838fff26ef1122d,
    0xab650e5529ec2ce4147efe135a061eb1,
    0xe0e637747620e8c1c0ef440b99eb9ce7,
    0x94c0e63214f027f2ddd3ea463e44beb8,
    0x8548626524a60410aee37ee400d237fc,
    0xd80eb32a857a1f84b23801f6e4242459,
    0x4853cb0907651c681f1dfbab0646a828,
    0xecd1edccd4844736d8a8e01d4ab21e59,
    0xfb58a3ad252f9d576dcd1cfb23d32b89,
    0x583b5070f416adbbf796976b2ca27066,
    0x259d6fdcd7c3e46dd1a57ae64abda536,
    0xd0c6caf2ce368aa85881e8c3bca18192,
    0x7d54a3c9d517fba4ffb88cace0276c43,
    0x630201121608bdec230db5d012bacfb4,
    0x0da36e18ac524cab0cbd44ed0e70bf0e,
    0x864cf4a44dfa1f5419a85613e03340b3,
    0xd0369950eb82302e887caaca083d31b7,
    0x2993e04f04c9b8476e92871886d88d7a,
    0xdd49abb10a5bfaff4503b3a31874ac65,
    0x96f5bb80bb703cd6b940b0fab926195a,
    0x10e2c9baae90477c9be2f10365c29130,
    0x696469c514035c0cdf657865a76c8b05,
    0xe988c9b6348ae392d81e9d224c608247,
    0x81a816b9971534a48e6ec21994b78c81,
    0x5498cb9019ba94f896e2c04140cd036a,
    0x17fa73eaa092e4bce97e3ba4b770a0b8,
    0xe8c7b08816fc5215dfbe44cd46b47dec,
    0xc30789092db881251b0c5f7373e0c6f0,
    0xf397a1ac039c5e8bc374d1fd03568042,
    0x33ec1f25215eae69085a3fbf7a6b27fa,
    0xf6fdd17ce7427518d0631e269924f45b,
    0x036c902bf005559ba3082e5f2201e614,
    0x1fc45e655afc624fb90a7e0795b20b86,
    0xbc94ffd5e4f606a12f0c0425d7bf1013,
    0x21abfc7ec366c0b93e047d0d9d9df4bf,
    0xb8a9f1c0b2d0601e00bb6fa35f3970e2,
    0xd67fcb43ff2287a0cf8cf1f0a78ebc85,
    0xade2d8bdd4c48bd437b41d2a36424ef1,
    0xd5550bdc493b35a3480c7a5f5d93e939,
    0xb069c39e1059a068f9aa767b5a2c39d1,
    0xe151a181c34b360acc4ae8f41f0eb923,
    0xfa407454a0690b03f714c08ec72b3247,
    0x10ffffcebaf525fbadcbe4aa46104680,
    0x25569aef3173e2e81bd94a5e7904fc1b,
    0x28681502310381ebc0ae31947c3cb188,
    0x5db958abc1654596872a50938a0c9b24,
    0x7c744e082a52a74767b70a72ec4489a9,
    0x5b18ccdaa7efd9b3aff6bad60d547c81,
    0x86322eab36c65090a3b7fdb5d7bc091c,
    0x8423baac6908031fd9d08157f686b2dc,
    0x08a1ade53581b4c029e1c002e51ceaf3,
    0xf1ed7d196dff54c3421321acf939e08e,
    0x2752d9c907207388e62373ed510c4e88,
    0xc3c06fa841383ac60ccb91e4e05580d5,
    0xa4c95f5a9ed58116110e43e663425608,
    0x2c5bd140dff9063bba7ec0a206a3a4a0,
    0xa5848a52ea19a2e85afeb598ce50eb47,
    0xff6279dc1306e5169f95f0b060e34b39,
    0xda33c34ef46e9dd360b8dbe6531901b4,
    0x83b7e0dbe63ffc49ffc59bae4b7b683e,
    0x5c051f94fa62a73c11cfee276461fdb0,
    0x798e3ba76c500e8177f392003ed1872b,
    0x583d7265ee7126131854bbcb0de1f310,
    0x90e4980b35640a8b3bb682ef2606e476,
    0x6d431024b5bffd1270c0d041a05b815f,
    0x496322b442254a79d1dd0dfdd6f51def,
    0x92182683f38300b23bc0412e4138ac05,
    0x212df134572585d10dd251f536025085,
    0x63e2dbdb3937238a5d08cdf2b578b4e1,
    0x96b819206e1d15573307e27b6ad290db,
    0x0c54a577923b77c5a4ee726412c43be2,
    0x155b53faed668b73ad702c93296a3e01,
    0x896d7317a2f611e7363d93db93bcb72a,
    0xa39c09d3a4ba25f3ce6691b85b390f3d,
    0x7148171957df73a82553216488e35859,
    0xca049d60e60b7b69047e42f0b436ff67,
    0x6f402a4a8208e9e49d4bf06f6ce7e11e,
    0x95773e0c271ded0e10d2b47221c91e0e,
    0x80fd5388433e89d3e74da2637216e3d8,
    0xe35fe60581edd06fe880059a63952380]"

definition DAGS_MERKLE_ROOTS_1 :: "h128 list" where
  "DAGS_MERKLE_ROOTS_1 = [
    0x24a5b87aba928ac920362a8bb3a853c1,
    0x5a82f1cd0c0c58f0fbebb02c062dd029,
    0xd8a989f4d05f65c07cd4f78d4c83d6de,
    0x7e100ed69fa83cb97318cf268e063802,
    0x5f7d7cb3363d1c4b41736787c8fa3a36,
    0x03292bdeef76208a33368b1dd89c5f4f,
    0x6b619e4bfd91e47efc4c6a18d6d2ddd4,
    0x49e98cfac5039df5711f7bc82ca704fc,
    0xbd17f87c484f37449d0cb26bee85352d,
    0xb29204f91eeec3a61cf80f78d341e981,
    0x0e2806dac2236f555aa1b60d44e6bb94,
    0x84762739d031e5c2809951560a9aeaa2,
    0xdf1404d9feadf66ce9b6106bd730323f,
    0xbf36c772e3f353b177dd77ff0af7f658,
    0xc01a75724444ea62092d205d4f1faff8,
    0x0eb6c4edf01055c26f19606f80660a82,
    0xc5475e77e5b769f6e97f0aee53bb2927,
    0x3a2a5f7f0ca0c8270800aa61bf75a256,
    0xe2fbc1e07d14ac6e3a96cc9055750013,
    0x226e5bbb1137417f87d4d0a638739739,
    0x745c89d0db4461d9cf03e483f9ed2d66,
    0x70ab39feaf98c852e8fac994ca8cc297,
    0xcd9d7ebd5e7484375ec35bda9ebfad9b,
    0x080de890fd9263b983b58e52f6dee214,
    0xf67c8e857d379a60f7bf47b13ec08dc8,
    0xb0b8ce46fdfa7f8b0091182cd9e52c19,
    0x3fe2d70b44670254ddeaed4e46ba2d6a,
    0x1e0f257e0107db4a3be7208c3490f3e8,
    0xd0eb4a9ff0dc08a9149b275e3a64e93d,
    0xeeab095cfa3a4dc8de4daf9c3e5affbe,
    0xbee906bac51d709fa6c8d852834506fb,
    0x85cd74d6633623e3e09d3b2ea0e8eebd,
    0xf296dfe85523c5ab10cda4edaa513a52,
    0x7d8ced87ed7fd15b2e4bbc0264e76f99,
    0xae69988dd1df0ff853e6ee66a5fe3210,
    0x4469c4d95255369c6461be2862b915b4,
    0x5709b43c1560bff7d265cfd850627680,
    0xdeb4f8617f931348359a3811076a30eb,
    0xf881b9bdedd6f655e33220d24e1cc2eb,
    0xad903ea64fc18d570cd9a50e86bf033c,
    0x4b3ac2630be5f8aab921697d1d1404bd,
    0x07d5dd8bb48e7a72880b329cff744c4a,
    0x84567d5b5e74e94c2373574d42ade1be,
    0x63cf6b1ebbb29334730d8b9321cd264d,
    0x83094b1464a6bbf92363619af081e20e,
    0x7a93ae31b228b723301bf96ab9b0a09f,
    0x16873ac9aead7c99286cce23dd91b4ee,
    0xbf293be8af1eb38d7080957c7e1f8aeb,
    0x967668d49545810fcf18632a5a3431e9,
    0x475d5bbd6272a2695f66d2056da42bd9,
    0xafc7e6ef08b5b8dc7a2bb1027160cd9c,
    0xaa694f10ce796540ed77418cd9b35c86,
    0x8be1f7a470d0c1edbbec6728fb0ff366,
    0x7444078510fe6d9b3cf94188059a1366,
    0x3739215eb46221b4040eea02c7757573,
    0xa71b11286fff39e65eb3c8b3ac9a7219,
    0x4b48bc59af9ddec38279e60178263779,
    0x6076a0b6743690958cf040bfaefac391,
    0xbead81dbb9227ba51a02f827f8dee2c5,
    0x89508f9f01576f81853e8b92ba917838,
    0xd075a5b5dcf20971f2e70e816bbcbb7e,
    0x009554c550589a814909c9805279c743,
    0xb470cf622846d536ad7b288b9074d667,
    0xb87704373978613853240a3ec9368e8b,
    0x7127b8d0e757abd6830b787afd829201,
    0xf0cab8ea67e0a38ad606ab83ba6bc67e,
    0xa408633718e44f4817c329af0395aabb,
    0x4607a3ecef00a24da74521f22a6f8bee,
    0x917cb60d42ccc40442e48be457f51dea,
    0x90222d408a76f7f55fbb18282bef90da,
    0x481d56afbd0ba6978e0ab2ada7b3506c,
    0x604d874175bd36f8a02ce56b31ca827c,
    0x6dc7717dfba128a330ea277dca94141d,
    0x86226285351eba0c6e818826b1c562fb,
    0xae7280a5b84931846adff138820f221c,
    0xbe628492637e26e6489375f3a2938180,
    0x7559678bfebb6f78e5c8026b17eadca3,
    0xf38e7a19c004dd22688cf0079680bb1c,
    0xc3b0e6a2b106f925aa2f92aac6213f8c,
    0xeec733087a807a87a0c346de11513e12,
    0x4c6d1ee77b414dc3bc448ecc0769a376,
    0x303db177352ecf1920f09ba9fc8c6514,
    0x8e38c47ebaf4ce8dc05178f3c5a9e86b,
    0x104570237e9cbf0f4836ec8c4ff42f65,
    0x4776ebe704f27086bcb98059906e8e3a,
    0xc5aa722b23a6deef1d15a95f32dc4797,
    0xc6188b4ee8720e1efa99aebeb02c7a67,
    0x32701ac4e10f922048e0a7368e1f0452,
    0xe5988223410c1d4f4260994faaf952b3,
    0x2a92d9428c88e74bf47e545ea2025857,
    0x04ca250a42e1f227955846abb768a035,
    0x05b4a77d503468b71c0e730753fc1a56,
    0xd7caf66b03181401cda1369c123d19f6,
    0x6d3e29cb829b58d3fe90129c20dc9abb,
    0x41b4f0817f11f8016023d74dea3eec97,
    0xaeaa60d08ac92150b54908f7f8a92857,
    0xc9453b8e185fb93ea0e1282e8803eff0,
    0xe87f027df74563c88e700dfe057432ee,
    0xaf377ff39afc683033823eeb3ed0f10b,
    0xf56a0b076a6bfc3eea7b1804b946d947,
    0x69ba2470b6623fa3b9d68124e329513e,
    0x575aee5f222f5ae9cca0973be3ad572f,
    0xda97a6cd52c728a6f3bca987ebfa8cad,
    0x4b5536ec8aad2250a2e38f6bfcdf58f4,
    0x8fd3b4c5ad2c5743a6aae9f8219a60c6,
    0x145b1a9812d684da23e74fead96c8552,
    0x7617defe6ad9c021bc9bd7c809675624,
    0xd9a2e97eaf84cce6294581acce315ed7,
    0x3199b22620f39d534cd96fa8a032998b,
    0xb1ca9b7eb944ea1f16364a1222b9afcd,
    0xecd0e506f3792f650fe5a00694afc356,
    0x3b96f1eb7ad3124a51372cbe56f5c5e4,
    0x962a5ed01d20d1202172cae5c4b1c7ed,
    0xb5e9dc0e5c554931dba835dc88102421,
    0x4596b31e8bf6c1f24b122de58efc7e1b,
    0x224536fd41573a41daf7e131be8bdb09,
    0xef9661b2ac61737aa4bbba6fcad9f860,
    0x26c9661a65164390de94c2d38c1f568a,
    0xcc0b4699871953942cea3d167e8c9956,
    0x575617f32549dc68ceb014b2f69d3b80,
    0x932544c41c0e2d7af28189e513fb7ec5,
    0x4b8e46de3ce76638280b9a699dfdb620,
    0x53406aff68e56538b48fb98364e1a5a5,
    0x928ae8d7116355d36b946a8182fc9923,
    0xe30282bce7cdf44def0f840b6321e335,
    0xbeed3d40f310c0c6d0e18443f3304a60,
    0xe2725bfdbac45fa18dabf0eb892f03d9,
    0x07b43c42513772bc09aac4e471d67b16]"

definition DAGS_MERKLE_ROOTS_2 :: "h128 list" where
  "DAGS_MERKLE_ROOTS_2 = [
    0x8609ba6e215f939caae8770e47d25f8a,
    0x4287aec47a1da79aa2351f31cbd4ed0c,
    0xb033cc4424fc38cbf7992491211c84c5,
    0xcce1d898301da9cddb02d7f36181f8c2,
    0x79e12de9d9e677ac2322705cc8a922b1,
    0xc448a85e856037d8e88f672979a551eb,
    0x467403ae25f597deb3c1094a2d33d413,
    0xd7e03948dfccb6abb773409bd4a3c930,
    0x674a8c75924d08965e7039c2e41f7940,
    0x9220bbcb1742381fd5936662dee7210f,
    0x505e4a4e5a49243957ee68bcf2ddb9e4,
    0x85952e0b3c1032f7cad908bbd3a2b8a3,
    0xf6e25da02626214f2dca471706a057d0,
    0xdc7efbb16d990fb6db9e68efbc7fe740,
    0xa3231a207b1daf19693a1a5ad18c6ac4,
    0x90c5a0bbbc65a3fe44f2be3f860c5f0e,
    0x3d8f53b6024c3b33b9097cc678de9a28,
    0x1ad8cb3b8d1d4e04bb25330acd10b3e7,
    0xc4830b15a969f30d1592527eda63bf82,
    0x9d51b6f0c5be845ef775b6b900f0c993,
    0xabdb6ff729edfa1fdf81725236fe166c,
    0xf92a2b3fb5ebe93ee6fdac51e55f58d0,
    0xbad463d68b2067ee099b35bc976d4262,
    0x8a326abf1bf139fd19a9931aad716e2b,
    0x21a32ae99babd87319e21b115291fa93,
    0xaed51baf66ff4910f3b84c6dddd277d0,
    0x65c3bbb3015925ae57d939a67bb3e1a2,
    0x97bc9538e14c7d221d3fba271fe1a9a3,
    0x6394e2557149a2acf674610e834f02a7,
    0x280dcfe6935188046eefb81a77e043db,
    0x313d0d27a7b82f6e85b32037b3458025,
    0xaf7416b95834809dc8619c24d9f70575,
    0x9e14b1882ac75f1b7ac8735e89bd1dcf,
    0xf770f4047a86f36727fcde69c0cb8b68,
    0x004610125634efd77979c429a95f16e9,
    0x9fb78c563cc2617353fb943c5c6029d9,
    0xaddc6c96bafb15254e0e2c2a21f6eca0,
    0xb2e1d71c4419cf35d2ccb202727e9006,
    0x22c2cf6192e5f767d518ba32d2628f27,
    0xd4a9a8dedeaa916c20451f72d868e54c,
    0xe15c7e3a6935f188aab577be046518f8,
    0xd00f06b2b19fb192d885586001624318,
    0x3c1133d7e7085944fa800c1365d4b4f3,
    0x3963a16de74721a202e7f10d66278fe4,
    0x2f886a0a39058911d72b46e15bc34672,
    0xbf8c454a96a689eb71c30d9639aaecee,
    0x761b3e46118bc24bc62987107f3d12c6,
    0x891583dc69ff4a5e64070d942aaa435f,
    0xd8b34532a52763f1afd495aa3e36b2ef,
    0x2f9e4d03913cd937e09c451b3ed20dcb,
    0x93d22323cd8c06ec945733ee811d8ac8,
    0x2a9d9c385dc260a178c9dd5902499f7e,
    0x45e79066792ee537ae6106b3c897d44c,
    0x4e00df4f849deba8f05284dba1a8daf6,
    0x9ed2f8a53f69dee1e9b2d4a332ac80d5,
    0xb0cb763b4c0e4bddbdeab130195681bb,
    0xc25c64f479521ed7a68cb75637498e67,
    0xa66e88f5a0279ebbfc9063d5d7fc9681,
    0x97f23e83e5a2c1e6209a1e0baa4c9048,
    0x08efb5ef7d86b52c486f88ea92865e2e,
    0x750b98718c4d7f9b63a0fe4135a00143,
    0xbd71d4d32938661a8e4e8e198f6e3c71,
    0xdac6dce2e49f253706ee5ea4549abb67,
    0x1dfa7fc8cff2108f4de96a6f6404321b,
    0x58fa94796612dacc2f2a60fbac5f85d6,
    0xaf4a599a7afc59244662fb56a32f38cb,
    0x7b2920aac8c076c5fccfdf3325fc8455,
    0xb3328f0b1057958da28bab59330133a7,
    0xad4e0add9ad103421f47d88eeb5c711f,
    0x4825b9d42589e834f61e6ef705641713,
    0x3da44d4f1d8bb790537ec42ba2af168c,
    0x87db7dab6b1aa2857fcf861273b9a58d,
    0xc32c902e1389ebda24a09ae882575370,
    0xcf17c3f198e852d5123942c402918656,
    0x9f1cf97072ee00922c301340a19c91b7,
    0xb3e163f4cbeac4437a962c84a85a1e5b,
    0xa70314ea9655ebf03ee78a4a320d1ecc,
    0x2ab485395195fd37e0fd5b2336f0a00a,
    0x9f77060b503e1fbccf8b682215821b07,
    0xa4fd17b615f2794b3fbb98ac81e0c5e7,
    0x3e7faa44b3e919bf089ce8962a41596b,
    0xf1cb06f527cfdb2bfb3e3341c878101d,
    0xfe8cedf87702d7b090a0f07571607d86,
    0xf569a8f30771d73544ad99fb1610b174,
    0x1e332a7f9b33fc91369ba33503353023,
    0xe04c52de8e81749474a0a3ef746c4c9d,
    0xe961634b1721573ccbaf4c195ece7bd4,
    0xc50b42bd793d49f0505df93353c4acde,
    0xf8a9ea7fd860ad32e03ed50aebeb92f2,
    0xf6a622025cb1659a5bce3c4cc7ed0680,
    0xb6a78250c0253c2a8a985beb3ed16309,
    0xd2ba47f421049058107969e08458e7bc,
    0x66809b4880f156c8f539441829d11b90,
    0x980b88f3b17ad1bf46ddc89356df550c,
    0x083177d975088d3b3acb85c5e767948f,
    0x07a3e31da3988ccc22a48cb61890ed83,
    0x12c4f7a7402ada8fac7c2ddc784ca2cb,
    0xa7bd8cdd867b4b3812f3066b3db3c006,
    0xaa098d01c41cc948c138f864a8a62481,
    0x18457233e28062083f7d23b2e481189d,
    0x1702cda0b76772ba09cea0edc5e5746e,
    0xdb200270afe9e05cba79d94ff6d2da8c,
    0xb93ce415bb6beb51157141149e34bd0e,
    0x6266741ef0b85a2fd5ac4a1fb816835b,
    0x8dba28245cf055574881b05fef9953a6,
    0xe4af90f7979c2c631633131d642dd8bd,
    0x97f98f4275be120a445cd0275e2cd73a,
    0x150a9c0526b11752453a23d8b18a8f3b,
    0x010bbf6895ade2375c8478a0c3151ce5,
    0x355796530fdacf6d87bcc370f17fc71e,
    0x9a404317c26f415ed025f32dfabe8598,
    0x15d2eb783afced72c733f6ce90bf7349,
    0xfb9f445a7acf24b91e6cbe8f9489a7c2,
    0x6f03e5d4ef52a7c05a5a5fd28b159b5b,
    0x2466fb6d4eb8aa1c700e728fded218df,
    0x676cfafe2fbcffd070ddb236d2bb0021,
    0x91e33a111622283750412eea13c83f35,
    0x88b1f25057c3bac8ee1eeca2ff2209a3,
    0xc10d6e9c953ebdc8ece36c5cd6223387,
    0x1fb01164b818aa63387a0ec14be5e3e7,
    0xaca8367a8bfd04541cc836e293255b77,
    0x8b74b13c0d49da16c37a8de608c18e7e,
    0x79e4197b401889e0756cedda74f46812,
    0xfdfc1643dbd6ad08bd6a4eba37a0e3c3,
    0x3c4b6a74dd034b4e72bc84652a09a3ff,
    0x2f31fab52ef05919d280c2abcf422fab,
    0x4a2f98048e8605e4d439ff8554ab6e63,
    0x3b7e760d63c75a4c368dd53425084427]"

definition DAGS_MERKLE_ROOTS_3 :: "h128 list" where
  "DAGS_MERKLE_ROOTS_3 = [
    0xdbd55facc2eed4edae760a2ba92b4f39,
    0x43b123b7bca43b561fc26e423bcef939,
    0xb6305a7b627bc5973e579f6984661e92,
    0xec1c177be3ea3294f799a7431bddc5ed,
    0xdb89f09027441e9465a797737c5a647a,
    0x56dd88789701e0e1c682d8ad251dbeb3,
    0x569403a8edac9edce0cf1e8876c53174,
    0x7713e55406eb2a9076398f94d0a58692,
    0xc1f88b2f71fa2e1a988038cf9d3df04f,
    0xd81ef241ea5de4b34aaf39ab1b083642,
    0xd375d23cdd8026becba44bba2b294c3f,
    0x1b7eee6c46118d885bcaaaabb2f9badb,
    0x89558455a420ed8268a592b0eaf204c6,
    0xb17d6916a9d0db09432db599e90327d7,
    0xe1b36f36682b4fae32da6979590cc499,
    0x612373badc313851be94e09ccff61c5a,
    0xfaf60883e0085e9672e6521bcdb86f5a,
    0x7784f2c8187dddb17dc42deeb335b625,
    0xe53fa1a5071b726701e5eae987891d4f,
    0x5c8291e6ac0b0abeac024d54547aec5b,
    0x6462d16fbb1f465357418796773abc49,
    0xcab6e515313f84de7345574d91480771,
    0x5f64f987085767b41be43f261a8ba025,
    0xd6c688f958dbe3b9a333041c25e067f9,
    0x80f05a86da8eb6a002c54c1305d5dc21,
    0x60bfbb201ce2fb723edf4a6e2433b6d7,
    0xebc37a445da40d345532a1b9bad5445c,
    0xd47c63b0619011b6bf65c269a047def5,
    0x1aba33a3d2b769a78bd6ff673be3b632,
    0x04b7d271316b4c31a58f21d31ddb5fd0,
    0x3226afaecb913b1380a2c4220efcf329,
    0xdc0605dbfafa3292db3e030284dae0c9,
    0x42cb016d792a792545f5d3628d280b86,
    0x209c20b1a337f22459ddfe9cb9cc5616,
    0xf136ac0b645a83514ba9e2b5dd6b33f6,
    0x93d1365bf44fee8d78521c97ba8fe6a5,
    0x9500fa38f25ee9bd5140db4f3f9ca585,
    0x3dc470c2bf7dbd809c66c922c31b673d,
    0xd03478b8608f6d68335d25256c9ddecb,
    0xe696ad7c49a89b837a68bf8aad0670e6,
    0x8c4a01a4de7453ea9d5e01851b68c624,
    0x0064ee1b40e9947a06f5692a367cfcf7,
    0x44a780519b6751d1ce84c01dfd26919a,
    0x810e0008a42674b8503ccee1e487359b,
    0x14f37bbb397085efd87ca8d08f73745c,
    0xa4531df9fb35ffeb48f433aec36d2644,
    0xebbcecd01539dbbf24f6f918afb8c8f5,
    0xe594f29d5159f01eb37b4de961edf17f,
    0x435fb4690bd8681ce2e7aa577fe88428,
    0xc685712dda4ca735a9336290c19e6757,
    0x76fa7c02c91a2acd4feac2c8b7e79241,
    0x6ded6bbb2b6ac1a8bf368ec35f8c0004,
    0x853104204b4e7dd21f1891a57dc99bda,
    0x016c939b9fad1bc914827b81b63f8f8a,
    0x0aad21f534784ce6e55bc860be909ff8,
    0xd892c0ed69e87bbcb0b75e954629415e,
    0x6e00495d56c440a0bfe596a261856dc3,
    0x12c24ed58e08eb9d84123af23954338c,
    0xb253ed770e7a12a526eb55524e9b2d78,
    0x867143a311b72df9301212469856d6e8,
    0x30645981186d86d7f453b627474bb186,
    0x628df7191dbce185c3894f83b4b100bc,
    0xabf05f494a51a66d0be185be6f9b55ab,
    0x23b6a4e817837ea9bc1e8cf4d12432b5,
    0xeedbaa71b581216e1bb14b5b6e370cfe,
    0x6571c261d0d1d9ac6ec81ef3c5579738,
    0x90ca319d7900ab33585929f87f87f4f7,
    0x3aaad6c72aba1f9bbeb03ddca6716189,
    0xe2c1d3bd988d38bc6baaa7572d4b33a3,
    0x2b06afc482dc2a2814244c0ddb85172d,
    0x311d1fdee66191a759777222b885042a,
    0xd32037774ed016be27a05110188f33f5,
    0x8bbe9d2540a8548c6e837c1ca1be1736,
    0x97d081a75c821656392370b91f0551e7,
    0x6cdb7e28fad3da3419f3bdbfda3670ef,
    0x0eef01ab63f2fea60d800a3e50ce7f4d,
    0x26de913e72381b29ae92553c5dd56026,
    0xc010b7c20f4e8eb014c9e14ae5a2cfe7,
    0x36349c7a4f4419889ac51938e01dd562,
    0x62a66c09d10bb962a9482a274fdd1ad6,
    0x0ca8993c5f9e9441ee476186e825fd02,
    0x32720f4423f0c648aa43f00eec2faa7d,
    0xa5a0c7c7cd1643d0ed59990e9aaab8e1,
    0x75a4421dc20eb16958d5cc74d0018376,
    0xd18f3989a5ad09f60559eb953918ce96,
    0xbc1b06b4746555e1da474d99578e1bd8,
    0xc156a24e9e9461df6a7b38135e15251d,
    0xa86706531ea8351a7ab7e346af0f29c3,
    0x1e09fb83c81c2e837ec8182d573fb9d3,
    0x6056b80049473d253538113d651825fe,
    0x48aecd0743c8149eb5f9aec60f347f7d,
    0xa028808b3199d97d3fc40436bde64c56,
    0x9c84842024616e12f5733c3c64877d8f,
    0x61a39835bde221a5e1ceef6f92b8ab78,
    0xa9705493cafe59c707acd9d03b91f648,
    0x0bc0761a4c3ec1f871638dbdd7786fe1,
    0xa798e4c2b322a4e64cbe4a1f86ab3721,
    0x5c36cd452450b556692b4958b5c64d2c,
    0xfcbcc2f7cb02c16981037e57c8a6aac6,
    0x68b580e09ca06432272557e38d2cb250,
    0x8166a9706fdf02dfb2548852b0080cde,
    0xf5bf78f8ea50a5cc718e8cfd22f96013,
    0xf78d251520533f415055ec2f705d050f,
    0xc4ae15a70fa1e873e3ea7c747b7eb2df,
    0x219aea4518c67efe0389e5b3eb083d3a,
    0x92eedded99e1bb261e106a9d23bb6b97,
    0xe6c5f02b94e81da315deffa12bbf5f8f,
    0xbeea81cbe3ebf59d893c325dababaa8c,
    0xd838adeb0ac44aeb59d09eede9074d14,
    0xfabaa47e5558692b9b17621a26549da7,
    0xef9da8f942af3ee8bf2803c65e25e51a,
    0x200211848e159a56eeb6cec602ed583c,
    0x83b04a1330ad921447fc3ded47ff75f0,
    0xcdba71a13a331d9fb32e16e103bd5dc6,
    0x6d261a84b2e3f0f45f945982000a07db,
    0xf607a8685065a531fa2a7198ca2181b7,
    0x7f636cf604a13da02fc30d632feb1088,
    0x717a02b8df54a19dc814b7fc875ecfdb,
    0x828188a8255344756d3763267c145ee6,
    0x7cf82d8169205840fb432bf99543f39a,
    0x47409b2432ff64f26c16f3bafccacfc8,
    0xb0266545e832b14a2a70aa9f64bfee3c,
    0xa27425aabc0a1193e41c8a25da150268,
    0xf631b7ec97e689f418d953ab50c6eea2,
    0xcdd6e178da5a864c0f4efcaf2f09a7a1,
    0x8dfb54b631c611bdd3d9b8ea1a139351,
    0x75c92c082a8a3b145cae31cf00f84fa3,
    0x7a9010568819de327a24fa495029adcb]"

definition DAGS_MERKLE_ROOTS :: "h128 list" where
  "DAGS_MERKLE_ROOTS = DAGS_MERKLE_ROOTS_0 @ DAGS_MERKLE_ROOTS_1 @ DAGS_MERKLE_ROOTS_2 @ DAGS_MERKLE_ROOTS_3"

lemma length_DAGS_MERKLE_ROOTS [simp]: "length DAGS_MERKLE_ROOTS = 512"
  by (simp add: DAGS_MERKLE_ROOTS_def DAGS_MERKLE_ROOTS_0_def DAGS_MERKLE_ROOTS_1_def
      DAGS_MERKLE_ROOTS_2_def DAGS_MERKLE_ROOTS_3_def)

end
