(* ===== verification/Ethash_Proof.thy ===== *)
theory Ethash_Proof
  imports Eth_Primitives Ethash_Data "HOL-Library.Product_Lexorder" "HOL-Library.Multiset"
begin

text \<open>
  \<open>primitives/ethereum/src/ethashproof.rs\<close>: the Merkle proofs of DAG nodes, the cache of DAG
  caches, and the prover that runs Ethash's mixing loop over nodes that come with proofs.  The
  crate \<open>ethash\<close> is outside this repository: its functions are the fields of \<open>ethash_lib\<close>.  The
  mixing loop calls back into this crate for every DAG node it needs; the callback counts its
  calls and records whether a proof failed, so it is a function on that state here, and an
  index past the end of the proofs, a panic in the source, is \<open>None\<close>.
\<close>

section \<open>The code\<close>

definition EPOCH_LENGTH :: u64 where "EPOCH_LENGTH = 30000"

definition MIX_BYTES :: nat where "MIX_BYTES = 128"

definition HASH_BYTES :: nat where "HASH_BYTES = 64"

definition ACCESSES :: nat where "ACCESSES = 64"

text \<open>The callback's state: how many nodes were asked for, and whether every proof held so far.\<close>

type_synonym lookup_state = "nat \<times> bool"

type_synonym 'x lookup = "nat \<Rightarrow> 'x \<Rightarrow> (h512 \<times> 'x) option"

record ethash_lib =
  get_full_size :: "u32 \<Rightarrow> nat"
  hashimoto_with_hasher :: "h256 \<Rightarrow> h64 \<Rightarrow> nat \<Rightarrow> lookup_state lookup \<Rightarrow> (bytes \<Rightarrow> h256) \<Rightarrow> (bytes \<Rightarrow> h512) \<Rightarrow>
    lookup_state \<Rightarrow> ((h256 \<times> h256) \<times> lookup_state) option"
  lib_hashimoto_light :: "h256 \<Rightarrow> h64 \<Rightarrow> nat \<Rightarrow> bytes \<Rightarrow> h256 \<times> h256"
  get_seedhash :: "u32 \<Rightarrow> h256"
  get_cache_size :: "u32 \<Rightarrow> nat"
  make_cache :: "nat \<Rightarrow> h256 \<Rightarrow> bytes"
  cross_boundary :: "u256 \<Rightarrow> u256"

record double_node =
  dag_nodes :: "h512 \<times> h512"
  dag_proof :: "h128 list"

definition truncate_to_h128 :: "h256 \<Rightarrow> h128" where
  "truncate_to_h128 arr = of_be_bytes (drop 16 (be_bytes 32 arr))"

definition hash_h128 :: "eth_lib \<Rightarrow> h128 \<Rightarrow> h128 \<Rightarrow> h128" where
  "hash_h128 L l r = truncate_to_h128 (sha2_256 L
     (replicate 16 0 @ be_bytes 16 l @ replicate 16 0 @ be_bytes 16 r))"

text \<open>\<open>u64::checked_shr\<close>: a shift by the width or more has no result.\<close>

definition checked_shr :: "u64 \<Rightarrow> nat \<Rightarrow> u64 option" where
  "checked_shr x i = (if i < 64 then Some (drop_bit i x) else None)"

text \<open>The loop of \<open>apply_merkle_proof\<close> from position \<open>i\<close> on.\<close>

fun merkle_loop :: "eth_lib \<Rightarrow> u64 \<Rightarrow> nat \<Rightarrow> h128 list \<Rightarrow> h128 \<Rightarrow> (string, h128) result" where
  "merkle_loop L index i [] leaf = Ok leaf"
| "merkle_loop L index i (p # ps) leaf =
     bind_res (ok_or ''Failed to shift index'' (checked_shr index i)) (\<lambda>index_shifted.
     merkle_loop L index (Suc i) ps
       (if index_shifted mod 2 = 0 then hash_h128 L leaf p else hash_h128 L p leaf))"

definition dag_apply_merkle_proof :: "eth_lib \<Rightarrow> double_node \<Rightarrow> u64 \<Rightarrow> (string, h128) result" where
  "dag_apply_merkle_proof L n index =
     merkle_loop L index 0 (dag_proof n)
       (truncate_to_h128 (sha2_256 L (be_bytes 64 (fst (dag_nodes n)) @ be_bytes 64 (snd (dag_nodes n)))))"

subsection \<open>The cache\<close>

record ethash_cache =
  max_capacity :: nat
  caches_by_epoch :: "u64 \<rightharpoonup> bytes"
  recently_accessed_epochs :: "(u64 \<times> u64) list"
  cache_gen_fn :: "u32 \<Rightarrow> bytes"

definition get_cache_for_epoch :: "ethash_lib \<Rightarrow> u32 \<Rightarrow> bytes" where
  "get_cache_for_epoch E epoch = make_cache E (get_cache_size E epoch) (get_seedhash E epoch)"

definition ethash_cache_new :: "ethash_lib \<Rightarrow> nat \<Rightarrow> ('e, ethash_cache) result" where
  "ethash_cache_new E mx = (if mx > 0
     then Ok \<lparr>max_capacity = mx, caches_by_epoch = Map.empty, recently_accessed_epochs = [],
            cache_gen_fn = get_cache_for_epoch E\<rparr>
     else Panic)"

definition with_generator :: "ethash_lib \<Rightarrow> nat \<Rightarrow> (u32 \<Rightarrow> bytes) \<Rightarrow> ('e, ethash_cache) result" where
  "with_generator E mx g = bind_res (ethash_cache_new E mx) (\<lambda>c. Ok (c\<lparr>cache_gen_fn := g\<rparr>))"

text \<open>\<open>iter_mut().find(\<dots>).unwrap()\<close> and the assignment to the timestamp that was found.\<close>

fun touch :: "u64 \<Rightarrow> u64 \<Rightarrow> (u64 \<times> u64) list \<Rightarrow> (u64 \<times> u64) list option" where
  "touch epoch t [] = None"
| "touch epoch t ((t', e) # rest) =
     (if e = epoch then Some ((t, e) # rest)
      else map_option (\<lambda>rest'. (t', e) # rest') (touch epoch t rest))"

definition cache_get :: "ethash_cache \<Rightarrow> u64 \<Rightarrow> u64 \<Rightarrow> ('e, bytes \<times> ethash_cache) result" where
  "cache_get c epoch t =
     bind_res
       (if caches_by_epoch c epoch \<noteq> None
        then bind_res (unwrap (touch epoch t (recently_accessed_epochs c))) (\<lambda>acc.
             Ok (c\<lparr>recently_accessed_epochs := acc\<rparr>))
        else bind_res
          (if length (recently_accessed_epochs c) = max_capacity c
           then (case recently_accessed_epochs c of
                   [] \<Rightarrow> Panic
                 | (t', e) # rest \<Rightarrow> Ok (c\<lparr>caches_by_epoch := (caches_by_epoch c)(e := None),
                                         recently_accessed_epochs := (t, epoch) # rest\<rparr>))
           else Ok (c\<lparr>recently_accessed_epochs := recently_accessed_epochs c @ [(t, epoch)]\<rparr>)) (\<lambda>c1.
        Ok (c1\<lparr>caches_by_epoch := (caches_by_epoch c1)(epoch \<mapsto> cache_gen_fn c1 (ucast epoch))\<rparr>))) (\<lambda>c2.
     let c3 = c2\<lparr>recently_accessed_epochs := sort (recently_accessed_epochs c2)\<rparr> in
     bind_res (unwrap (caches_by_epoch c3 epoch)) (\<lambda>d. Ok (d, c3)))"

subsection \<open>The prover\<close>

datatype ethash_error = EpochOutOfRange | InvalidMerkleProof | UnexpectedNumberOfNodes

record ethash_prover =
  dags_cache :: "ethash_cache option"

definition ethash_prover_new :: ethash_prover where
  "ethash_prover_new = \<lparr>dags_cache = None\<rparr>"

definition with_hashimoto_light :: "ethash_lib \<Rightarrow> nat \<Rightarrow> ('e, ethash_prover) result" where
  "with_hashimoto_light E mx = bind_res (ethash_cache_new E mx) (\<lambda>c. Ok \<lparr>dags_cache = Some c\<rparr>)"

definition dag_merkle_root :: "u64 \<Rightarrow> h128 option" where
  "dag_merkle_root epoch =
     (let i = unat (ucast (epoch - DAGS_START_EPOCH) :: u32) in
      if i < length DAGS_MERKLE_ROOTS then Some (DAGS_MERKLE_ROOTS ! i) else None)"

text \<open>\<open>data[..32].reverse(); data[32..].reverse();\<close>\<close>

definition reverse_halves :: "h512 \<Rightarrow> h512" where
  "reverse_halves n = (let d = be_bytes 64 n in of_be_bytes (rev (take 32 d) @ rev (drop 32 d)))"

text \<open>The closure that \<open>hashimoto_merkle\<close> hands to the mixing loop.\<close>

definition proof_lookup :: "eth_lib \<Rightarrow> h128 \<Rightarrow> double_node list \<Rightarrow> lookup_state lookup" where
  "proof_lookup L merkle_root nodes offset = (\<lambda>(idx, success).
     if idx div 2 < length nodes
     then (let node = nodes ! (idx div 2);
               success' = (if idx mod 2 = 0
                 then (case dag_apply_merkle_proof L node (of_nat (offset div 2)) of
                         Ok computed_root \<Rightarrow> if merkle_root \<noteq> computed_root then False else success
                       | _ \<Rightarrow> False)
                 else success)
           in Some (reverse_halves (if idx mod 2 = 0 then fst (dag_nodes node) else snd (dag_nodes node)),
                    (idx + 1, success')))
     else None)"

definition hashimoto_merkle :: "eth_lib \<Rightarrow> ethash_lib \<Rightarrow> h256 \<Rightarrow> h64 \<Rightarrow> u64 \<Rightarrow> double_node list \<Rightarrow>
    (ethash_error, h256 \<times> h256) result" where
  "hashimoto_merkle L E header_hash nonce0 header_number nodes =
     (if length nodes \<noteq> (MIX_BYTES div HASH_BYTES) * ACCESSES div 2 then Err UnexpectedNumberOfNodes
      else
        let epoch = header_number div EPOCH_LENGTH in
        bind_res (ok_or EpochOutOfRange (dag_merkle_root epoch)) (\<lambda>merkle_root.
        let full_size = get_full_size E (ucast epoch) in
        case hashimoto_with_hasher E header_hash nonce0 full_size (proof_lookup L merkle_root nodes)
               (keccak_256 L) (keccak_512 L) (0, True) of
          None \<Rightarrow> Panic
        | Some (results, (_, success)) \<Rightarrow> if success then Ok results else Err InvalidMerkleProof))"

definition hashimoto_light ::
  "ethash_lib \<Rightarrow> ethash_prover \<Rightarrow> h256 \<Rightarrow> h64 \<Rightarrow> u64 \<Rightarrow> ('e, (h256 \<times> h256) \<times> ethash_prover) result" where
  "hashimoto_light E p header_hash nonce0 header_number =
     (let epoch = header_number div EPOCH_LENGTH in
      case dags_cache p of
        None \<Rightarrow> Panic
      | Some c \<Rightarrow> bind_res (cache_get c epoch header_number) (\<lambda>(cache, c').
          Ok (lib_hashimoto_light E header_hash nonce0 (get_full_size E (ucast epoch)) cache,
              \<lparr>dags_cache = Some c'\<rparr>)))"

section \<open>The cache returns generated data and stays within its capacity\<close>

definition cache_inv :: "ethash_cache \<Rightarrow> bool" where
  "cache_inv c \<longleftrightarrow> 0 < max_capacity c \<and> length (recently_accessed_epochs c) \<le> max_capacity c \<and>
     distinct (map snd (recently_accessed_epochs c)) \<and>
     dom (caches_by_epoch c) = snd ` set (recently_accessed_epochs c) \<and>
     (\<forall>e d. caches_by_epoch c e = Some d \<longrightarrow> d = cache_gen_fn c (ucast e)) \<and>
     sorted (recently_accessed_epochs c)"

text \<open>The entries that an access to \<open>epoch\<close> leaves beside the accessed one.\<close>

definition kept_entries :: "ethash_cache \<Rightarrow> u64 \<Rightarrow> (u64 \<times> u64) list" where
  "kept_entries c epoch =
     (if epoch \<in> dom (caches_by_epoch c)
      then filter (\<lambda>(_, e). e \<noteq> epoch) (recently_accessed_epochs c)
      else if length (recently_accessed_epochs c) = max_capacity c then tl (recently_accessed_epochs c)
      else recently_accessed_epochs c)"

lemma cache_new_inv: "0 < mx \<Longrightarrow> \<exists>c. ethash_cache_new E mx = Ok c \<and> cache_inv c"
  by (simp add: ethash_cache_new_def cache_inv_def)

lemma touch_Some:
  assumes "epoch \<in> snd ` set xs" "distinct (map snd xs)"
  shows "\<exists>ys. touch epoch t xs = Some ys \<and> map snd ys = map snd xs \<and>
    set ys = insert (t, epoch) (set (filter (\<lambda>(_, e). e \<noteq> epoch) xs))"
  using assms
proof (induction xs)
  case Nil
  then show ?case by simp
next
  case (Cons p xs)
  obtain t' e where p: "p = (t', e)" by (cases p)
  show ?case
  proof (cases "e = epoch")
    case True
    then have "epoch \<notin> snd ` set xs" using Cons.prems(2) p by auto
    then have "filter (\<lambda>(_, e). e \<noteq> epoch) xs = xs" by (intro filter_True) force
    then show ?thesis using True p by simp
  next
    case False
    then show ?thesis using Cons p by (auto simp: image_iff)
  qed
qed

lemma sort_map_snd_distinct: "distinct (map snd (sort xs)) \<longleftrightarrow> distinct (map snd xs)"
proof -
  have "mset (map snd (sort xs)) = mset (map snd xs)" by simp
  then show ?thesis by (rule mset_eq_imp_distinct_iff)
qed

lemma cache_sorted_inv:
  assumes "0 < max_capacity c" "length xs \<le> max_capacity c" "distinct (map snd xs)"
    "dom m = snd ` set xs" "\<forall>e d. m e = Some d \<longrightarrow> d = cache_gen_fn c (ucast e)"
  shows "cache_inv (c\<lparr>caches_by_epoch := m, recently_accessed_epochs := sort xs\<rparr>)"
  using assms by (simp add: cache_inv_def sort_map_snd_distinct)

text \<open>
  C40. On a DAG cache that satisfies its invariant (positive capacity, not exceeded; one
  entry per cached epoch, with the generated data), an access returns the generated data of
  the epoch, keeps the cache within its capacity with sorted, distinct entries, and evicts
  the entry with the oldest access only when a new epoch meets a full cache.
\<close>

theorem cache_get_correct:
  assumes "cache_inv c"
  shows "\<exists>c'. cache_get c epoch t = Ok (cache_gen_fn c (ucast epoch), c') \<and> cache_inv c' \<and>
    max_capacity c' = max_capacity c \<and> cache_gen_fn c' = cache_gen_fn c \<and>
    set (recently_accessed_epochs c') = insert (t, epoch) (set (kept_entries c epoch))"
proof -
  let ?rec = "recently_accessed_epochs c" and ?m = "caches_by_epoch c" and ?g = "cache_gen_fn c"
  have inv: "0 < max_capacity c" "length ?rec \<le> max_capacity c" "distinct (map snd ?rec)"
      "dom ?m = snd ` set ?rec" "\<And>e d. ?m e = Some d \<Longrightarrow> d = ?g (ucast e)"
    using assms by (auto simp: cache_inv_def)
  show ?thesis
  proof (cases "epoch \<in> dom ?m")
    case True
    then obtain d where d: "?m epoch = Some d" by blast
    from True inv(3,4) obtain ys where ys: "touch epoch t ?rec = Some ys" "map snd ys = map snd ?rec"
        "set ys = insert (t, epoch) (set (filter (\<lambda>(_, e). e \<noteq> epoch) ?rec))"
      using touch_Some [of epoch ?rec t] by metis
    have img: "snd ` set ys = snd ` set ?rec" and len: "length ys = length ?rec"
      using ys(2) by (metis set_map, metis length_map)
    have "cache_inv (c\<lparr>caches_by_epoch := ?m, recently_accessed_epochs := sort ys\<rparr>)"
      using inv ys img len by (intro cache_sorted_inv) auto
    then show ?thesis using True d ys inv(5) [OF d] by (simp add: cache_get_def kept_entries_def Let_def)
  next
    case False
    then have none: "?m epoch = None" by auto
    have fresh: "epoch \<notin> snd ` set ?rec" using False inv(4) by simp
    show ?thesis
    proof (cases "length ?rec = max_capacity c")
      case True
      then obtain t0 e0 rest where rec: "?rec = (t0, e0) # rest"
        using inv(1) by (cases ?rec) auto
      have "cache_inv (c\<lparr>caches_by_epoch := (?m(e0 := None))(epoch \<mapsto> ?g (ucast epoch)),
          recently_accessed_epochs := sort ((t, epoch) # rest)\<rparr>)"
        using inv fresh rec by (intro cache_sorted_inv) (auto simp: image_iff)
      then show ?thesis using True False none rec by (simp add: cache_get_def kept_entries_def Let_def set_insort_key)
    next
      case notfull: False
      have "cache_inv (c\<lparr>caches_by_epoch := ?m(epoch \<mapsto> ?g (ucast epoch)),
          recently_accessed_epochs := sort (?rec @ [(t, epoch)])\<rparr>)"
        using inv fresh notfull by (intro cache_sorted_inv) auto
      then show ?thesis using notfull False none by (simp add: cache_get_def kept_entries_def Let_def)
    qed
  qed
qed

section \<open>The mixing loop runs on nodes of the DAG\<close>

text \<open>
  How the library's loop uses its callback: \<open>n\<close> lookups one after the other, each at an offset
  that depends on the nodes seen so far.
\<close>

primrec run_lookups :: "nat \<Rightarrow> (h512 list \<Rightarrow> nat) \<Rightarrow> 'x lookup \<Rightarrow> h512 list \<Rightarrow> 'x \<Rightarrow> (h512 list \<times> 'x) option" where
  "run_lookups 0 nxt lookup vals x = Some (vals, x)"
| "run_lookups (Suc n) nxt lookup vals x = (case lookup (nxt vals) x of
      None \<Rightarrow> None
    | Some (v, x') \<Rightarrow> run_lookups n nxt lookup (vals @ [v]) x')"

text \<open>
  The Ethash specification's \<open>hashimoto\<close>: 64 accesses of one mix each, a mix being the two
  consecutive nodes from an even offset on; the result is a function of the nodes.
\<close>

definition ethash_accesses :: "ethash_lib \<Rightarrow> bool" where
  "ethash_accesses E \<longleftrightarrow> (\<forall>hh nc size k256 k512. \<exists>nxt fin.
     (\<forall>vals. even (length vals) \<longrightarrow> even (nxt vals)) \<and>
     (\<forall>vals v. even (length vals) \<longrightarrow> nxt (vals @ [v]) = nxt vals + 1) \<and>
     (\<forall>lookup x. hashimoto_with_hasher E hh nc size lookup k256 k512 x =
        map_option (\<lambda>(vals, x'). (fin vals, x')) (run_lookups 128 nxt lookup [] x)))"

definition dag_lookup :: "(nat \<Rightarrow> h512) \<Rightarrow> 'x lookup" where
  "dag_lookup dag offset x = Some (reverse_halves (dag offset), x)"

text \<open>\<open>root\<close> commits to \<open>dag\<close>: only the nodes of \<open>dag\<close> have a proof that leads to \<open>root\<close>.\<close>

definition commits :: "eth_lib \<Rightarrow> h128 \<Rightarrow> (nat \<Rightarrow> h512) \<Rightarrow> bool" where
  "commits L root dag \<longleftrightarrow> (\<forall>n off. even off \<longrightarrow>
     dag_apply_merkle_proof L n (of_nat (off div 2)) = Ok root \<longrightarrow> dag_nodes n = (dag off, dag (off + 1)))"

lemma proof_lookup_even:
  assumes "even idx" "idx div 2 < length nodes"
  shows "proof_lookup L root nodes off (idx, ok) =
    Some (reverse_halves (fst (dag_nodes (nodes ! (idx div 2)))),
      (idx + 1, ok \<and> dag_apply_merkle_proof L (nodes ! (idx div 2)) (of_nat (off div 2)) = Ok root))"
  using assms by (auto simp: proof_lookup_def Let_def even_iff_mod_2_eq_zero split: result.splits)

lemma proof_lookup_odd:
  assumes "even idx" "idx div 2 < length nodes"
  shows "proof_lookup L root nodes off (Suc idx, ok) =
    Some (reverse_halves (snd (dag_nodes (nodes ! (idx div 2)))), (idx + 2, ok))"
proof -
  have "Suc idx mod 2 = 1" "Suc idx div 2 = idx div 2" using assms(1) by (auto elim!: evenE)
  then show ?thesis using assms(2) by (simp add: proof_lookup_def Let_def)
qed

lemma run_proof_lookup_total:
  "even (length vals) \<Longrightarrow> length vals div 2 + m \<le> length nodes \<Longrightarrow>
    \<exists>vals' ok'. run_lookups (2 * m) nxt (proof_lookup L root nodes) vals (length vals, ok) =
      Some (vals', (length vals + 2 * m, ok'))"
proof (induction m arbitrary: vals ok)
  case (Suc m)
  let ?i = "length vals div 2"
  let ?v0 = "reverse_halves (fst (dag_nodes (nodes ! ?i)))" and ?v1 = "reverse_halves (snd (dag_nodes (nodes ! ?i)))"
  have "?i < length nodes" using Suc.prems by simp
  then show ?case
    using Suc.prems Suc.IH [of "vals @ [?v0, ?v1]"]
    by (simp add: proof_lookup_even proof_lookup_odd)
qed simp

lemma run_proof_lookup_sound:
  assumes c: "commits L root dag"
    and nxt: "\<And>vals. even (length vals) \<Longrightarrow> even (nxt vals)"
      "\<And>vals v. even (length vals) \<Longrightarrow> nxt (vals @ [v]) = nxt vals + 1"
  shows "even (length vals) \<Longrightarrow> length vals div 2 + m \<le> length nodes \<Longrightarrow>
    run_lookups (2 * m) nxt (proof_lookup L root nodes) vals (length vals, ok) = Some (vals', (k, True)) \<Longrightarrow>
    ok \<and> run_lookups (2 * m) nxt (dag_lookup dag) vals x = Some (vals', x)"
proof (induction m arbitrary: vals ok)
  case (Suc m)
  let ?n = "nodes ! (length vals div 2)"
  let ?v0 = "reverse_halves (fst (dag_nodes ?n))" and ?v1 = "reverse_halves (snd (dag_nodes ?n))"
  let ?good = "ok \<and> dag_apply_merkle_proof L ?n (of_nat (nxt vals div 2)) = Ok root"
  have i: "length vals div 2 < length nodes" using Suc.prems by simp
  then have "run_lookups (2 * m) nxt (proof_lookup L root nodes) (vals @ [?v0, ?v1])
      (length (vals @ [?v0, ?v1]), ?good) = Some (vals', (k, True))"
    using Suc.prems by (simp add: proof_lookup_even proof_lookup_odd)
  then have ih: "?good \<and> run_lookups (2 * m) nxt (dag_lookup dag) (vals @ [?v0, ?v1]) x = Some (vals', x)"
    using Suc.prems by (intro Suc.IH) simp_all
  then have "dag_nodes ?n = (dag (nxt vals), dag (nxt vals + 1))"
    using c nxt(1) Suc.prems(1) by (auto simp: commits_def)
  moreover have "nxt (vals @ [v]) = Suc (nxt vals)" for v using nxt(2) [OF Suc.prems(1)] by simp
  ultimately show ?case
    using ih by (simp add: dag_lookup_def [of dag "nxt vals"] dag_lookup_def [of dag "Suc (nxt vals)"])
qed (simp add: dag_lookup_def)

lemma hashimoto_merkle_Ok_nodes:
  "hashimoto_merkle L E hh nc num nodes = Ok r \<Longrightarrow> length nodes = 64"
  by (auto simp: hashimoto_merkle_def MIX_BYTES_def HASH_BYTES_def ACCESSES_def split: if_splits)

text \<open>
  C19. hashimoto_merkle never indexes past the given nodes: with the 128 lookups of the
  specification it returns a value or an error.
\<close>

theorem hashimoto_merkle_returns:
  assumes "ethash_accesses E"
  shows "returns (hashimoto_merkle L E hh nc num nodes)"
proof (cases "length nodes = 64 \<and> dag_merkle_root (num div EPOCH_LENGTH) \<noteq> None")
  case True
  then obtain root where root: "dag_merkle_root (num div EPOCH_LENGTH) = Some root" by blast
  let ?size = "get_full_size E (ucast (num div EPOCH_LENGTH))"
  from assms obtain nxt fin where "\<And>lookup x. hashimoto_with_hasher E hh nc ?size lookup (keccak_256 L) (keccak_512 L) x =
      map_option (\<lambda>(vals, x'). (fin vals, x')) (run_lookups 128 nxt lookup [] x)"
    unfolding ethash_accesses_def by metis
  with run_proof_lookup_total [of "[]" 64 nodes nxt L root True] True root show ?thesis
    by (auto simp: hashimoto_merkle_def Let_def MIX_BYTES_def HASH_BYTES_def ACCESSES_def)
next
  case False
  then show ?thesis
    by (auto simp: hashimoto_merkle_def Let_def MIX_BYTES_def HASH_BYTES_def ACCESSES_def)
qed

text \<open>
  C18. When the Merkle root of the epoch commits to a DAG, the values that hashimoto_merkle
  accepts are those that the mixing loop computes over that DAG.
\<close>

theorem hashimoto_merkle_sound:
  assumes E: "ethash_accesses E"
    and root: "dag_merkle_root (num div EPOCH_LENGTH) = Some root" and c: "commits L root dag"
    and r: "hashimoto_merkle L E hh nc num nodes = Ok r"
  shows "hashimoto_with_hasher E hh nc (get_full_size E (ucast (num div EPOCH_LENGTH))) (dag_lookup dag)
    (keccak_256 L) (keccak_512 L) x = Some (r, x)"
proof -
  let ?size = "get_full_size E (ucast (num div EPOCH_LENGTH))"
  from E obtain nxt fin where nxt: "\<And>vals. even (length vals) \<Longrightarrow> even (nxt vals)"
      "\<And>vals v. even (length vals) \<Longrightarrow> nxt (vals @ [v]) = nxt vals + 1"
    and run: "\<And>lookup x. hashimoto_with_hasher E hh nc ?size lookup (keccak_256 L) (keccak_512 L) x =
      map_option (\<lambda>(vals, x'). (fin vals, x')) (run_lookups 128 nxt lookup [] x)"
    unfolding ethash_accesses_def by (metis (no_types))
  from r hashimoto_merkle_Ok_nodes [OF r] root obtain vals k where
    vals: "run_lookups 128 nxt (proof_lookup L root nodes) [] (0, True) = Some (vals, (k, True))" "r = fin vals"
    by (auto simp: hashimoto_merkle_def Let_def run MIX_BYTES_def HASH_BYTES_def ACCESSES_def
        split: if_splits option.splits)
  have "run_lookups (2 * 64) nxt (dag_lookup dag) [] x = Some (vals, x)"
    using run_proof_lookup_sound [OF c nxt, of "[]" 64 nodes True vals k x] vals hashimoto_merkle_Ok_nodes [OF r]
    by simp
  then show ?thesis using run vals(2) by simp
qed

section \<open>Instances of the hypotheses\<close>

text \<open>
  A library whose mixing loop reads 128 consecutive nodes and returns fixed values, a hash with
  one preimage of the root of epoch 0, and the DAG of zeros that this root commits to.  The
  header hash of the sample library is made of the block number and the timestamp; its RLP items
  are a log, the leaf of a proof, a receipt with that log, and the receipt's list of logs.
\<close>

definition sample_lib :: eth_lib where
  "sample_lib = \<lparr>rlp_iter = (\<lambda>bs. if bs = [1] then [[10], [20], [30]] else if bs = [2] then [[5], [6]]
       else if bs = [6] then [[0], [0], replicate 256 0, [40]] else if bs = [40] then [[1]] else []),
     rlp_item_count = (\<lambda>_. Ok 0), rlp_as_bytes = Ok,
     rlp_as_u64 = (\<lambda>_. Ok 0), rlp_as_h160 = (\<lambda>_. Ok 0), rlp_as_h256 = (\<lambda>_. Ok 0), rlp_data = Ok,
     rlp_out = (\<lambda>ops. case (drop 9 ops, drop 12 ops) of
       (AppendU64 n # _, AppendU64 t # _) \<Rightarrow> be_bytes 8 n @ be_bytes 8 t | _ \<Rightarrow> []),
     keccak_256 = (\<lambda>bs. of_be_bytes bs + 1), keccak_512 = (\<lambda>_. 0),
     sha2_256 = (\<lambda>bs. if bs = replicate 128 0 then 0x55b891e842e58f58956a847cbbf67821 else 0)\<rparr>"

definition linear_ethash :: ethash_lib where
  "linear_ethash = \<lparr>get_full_size = (\<lambda>_. 1024),
     hashimoto_with_hasher = (\<lambda>hh nc size lookup k256 k512 x.
       map_option (\<lambda>(vals, x'). ((7, 8), x')) (run_lookups 128 length lookup [] x)),
     lib_hashimoto_light = (\<lambda>_ _ _ _. (7, 8)), get_seedhash = (\<lambda>_. 0), get_cache_size = unat,
     make_cache = (\<lambda>n _. replicate n 0), cross_boundary = (\<lambda>_. - 1)\<rparr>"

definition zero_nodes :: "double_node list" where
  "zero_nodes = replicate 64 \<lparr>dag_nodes = (0, 0), dag_proof = []\<rparr>"

lemma linear_ethash_accesses: "ethash_accesses linear_ethash"
  unfolding ethash_accesses_def linear_ethash_def by (fastforce intro!: exI [of _ length] exI [of _ "\<lambda>_. (7, 8)"])

lemma run_lookups_all_proved:
  assumes "\<And>n i. n \<in> set nodes \<Longrightarrow> dag_apply_merkle_proof L n i = Ok root"
  shows "even (length vals) \<Longrightarrow> length vals div 2 + m \<le> length nodes \<Longrightarrow>
    \<exists>vals'. run_lookups (2 * m) nxt (proof_lookup L root nodes) vals (length vals, True) =
      Some (vals', (length vals + 2 * m, True))"
proof (induction m arbitrary: vals)
  case (Suc m)
  let ?n = "nodes ! (length vals div 2)"
  let ?v0 = "reverse_halves (fst (dag_nodes ?n))" and ?v1 = "reverse_halves (snd (dag_nodes ?n))"
  have "length vals div 2 < length nodes" using Suc.prems by simp
  moreover from this have "?n \<in> set nodes" by simp
  ultimately show ?case
    using Suc.prems Suc.IH [of "vals @ [?v0, ?v1]"] assms
    by (simp add: proof_lookup_even proof_lookup_odd)
qed simp

lemma truncate_zero [simp]: "truncate_to_h128 0 = 0"
  using of_be_bytes_zeros [of 16 "[]"] by (simp add: truncate_to_h128_def)

lemma truncate_to_h128_ucast: "truncate_to_h128 w = ucast w"
proof -
  have "drop 16 (be_bytes 32 w) = be_bytes 16 w"
    by (simp add: be_bytes_def drop_map drop_rev)
  then have "truncate_to_h128 w = of_be_bytes (be_bytes 16 (ucast w :: h128))"
    by (simp add: truncate_to_h128_def be_bytes_ucast)
  then show ?thesis by simp
qed

lemma zero_lib_root: "dag_merkle_root (0 div EPOCH_LENGTH) = Some 0x55b891e842e58f58956a847cbbf67821"
  by (simp add: dag_merkle_root_def DAGS_START_EPOCH_def EPOCH_LENGTH_def Let_def DAGS_MERKLE_ROOTS_def
      DAGS_MERKLE_ROOTS_0_def)

lemma zero_lib_hash_h128: "hash_h128 sample_lib l r = 0"
proof -
  have "replicate 16 0 @ be_bytes 16 l @ replicate 16 0 @ be_bytes 16 r \<noteq> replicate 128 0" (is "?a \<noteq> ?b")
  proof
    assume "?a = ?b"
    then have "length ?a = length ?b" by metis
    then show False by simp
  qed
  then show ?thesis by (simp add: hash_h128_def sample_lib_def)
qed

lemma zero_lib_loop: "merkle_loop sample_lib index i (p # ps) leaf = Ok r \<Longrightarrow> r = 0"
  by (induction ps arbitrary: i p leaf) (auto simp: bind_res_Ok ok_or_Ok zero_lib_hash_h128)

lemma zero_lib_leaf:
  "dag_apply_merkle_proof sample_lib n i = Ok 0x55b891e842e58f58956a847cbbf67821 \<Longrightarrow> dag_nodes n = (0, 0)"
proof (cases "dag_proof n")
  case Nil
  assume "dag_apply_merkle_proof sample_lib n i = Ok 0x55b891e842e58f58956a847cbbf67821"
  with Nil have "be_bytes 64 (fst (dag_nodes n)) @ be_bytes 64 (snd (dag_nodes n)) = replicate 64 0 @ replicate 64 0"
    by (simp add: dag_apply_merkle_proof_def sample_lib_def replicate_add [symmetric] split: if_splits)
  then have "be_bytes 64 (fst (dag_nodes n)) = be_bytes 64 (0 :: h512)" "be_bytes 64 (snd (dag_nodes n)) = be_bytes 64 (0 :: h512)"
    by simp_all
  then have "fst (dag_nodes n) = 0" "snd (dag_nodes n) = 0"
    by (simp_all only: be_bytes_inj [where 'a = 512, of 64, simplified])
  then show ?thesis by (simp add: prod_eq_iff)
next
  case (Cons p ps)
  assume "dag_apply_merkle_proof sample_lib n i = Ok 0x55b891e842e58f58956a847cbbf67821"
  with Cons zero_lib_loop show ?thesis by (fastforce simp: dag_apply_merkle_proof_def)
qed

lemma zero_lib_commits: "commits sample_lib 0x55b891e842e58f58956a847cbbf67821 (\<lambda>_. 0)"
  using zero_lib_leaf by (simp add: commits_def)

lemma zero_nodes_accepted:
  assumes "num div EPOCH_LENGTH = 0"
  shows "hashimoto_merkle sample_lib linear_ethash hh nc num zero_nodes = Ok (7, 8)"
proof -
  have p: "dag_apply_merkle_proof sample_lib n i = Ok 0x55b891e842e58f58956a847cbbf67821" if "n \<in> set zero_nodes" for n i
    using that by (simp add: zero_nodes_def dag_apply_merkle_proof_def sample_lib_def
        truncate_to_h128_ucast replicate_add [symmetric])
  note root = zero_lib_root [unfolded EPOCH_LENGTH_def, simplified]
  from run_lookups_all_proved [OF p, of zero_nodes "[]" 64 length] show ?thesis
    using assms by (auto simp: hashimoto_merkle_def root Let_def linear_ethash_def zero_nodes_def
        MIX_BYTES_def HASH_BYTES_def ACCESSES_def)
qed

theorem hashimoto_merkle_returns_witness:
  "returns (hashimoto_merkle sample_lib linear_ethash 1 2 0 zero_nodes)"
  by (rule hashimoto_merkle_returns [OF linear_ethash_accesses])

theorem hashimoto_merkle_sound_witness:
  "hashimoto_with_hasher linear_ethash 1 2 (get_full_size linear_ethash (ucast (0 div EPOCH_LENGTH))) (dag_lookup (\<lambda>_. 0))
     (keccak_256 sample_lib) (keccak_512 sample_lib) (0, True) = Some ((7, 8), (0, True))"
  by (rule hashimoto_merkle_sound [OF linear_ethash_accesses zero_lib_root zero_lib_commits zero_nodes_accepted])
    (simp add: EPOCH_LENGTH_def)

theorem cache_get_correct_witness:
  "\<exists>c'. cache_get \<lparr>max_capacity = 1, caches_by_epoch = [3 \<mapsto> [3]], recently_accessed_epochs = [(90000, 3)],
       cache_gen_fn = \<lambda>e. [ucast e]\<rparr> 4 120000 = Ok ([4], c') \<and>
     set (recently_accessed_epochs c') = {(120000, 4)}"
proof -
  let ?c = "\<lparr>max_capacity = 1, caches_by_epoch = [3 \<mapsto> [3]], recently_accessed_epochs = [(90000, 3)],
    cache_gen_fn = \<lambda>e. [ucast e]\<rparr> :: ethash_cache"
  have "cache_inv ?c" by (simp add: cache_inv_def)
  from cache_get_correct [OF this, of 4 120000] show ?thesis by (auto simp: kept_entries_def)
qed

end
