(* ===== verification/Light_Client.thy ===== *)
theory Light_Client
  imports Bridge_Core Eth_Difficulty Ethash_Proof
begin

text \<open>
  \<open>pallets/ethereum-light-client\<close>: the header store, the import of a header with its validation,
  the choice of the finalized block, pruning, and the verification of a message against a
  finalized header.  The constants of the pallet's \<open>Config\<close> and the two libraries it calls are
  the fields of \<open>lc_config\<close>, an argument of every operation.
\<close>

section \<open>State\<close>

definition FINALIZED_HEADERS_TO_KEEP :: u64 where
  "FINALIZED_HEADERS_TO_KEEP = 50000"

definition HEADERS_TO_PRUNE_IN_SINGLE_IMPORT :: u64 where
  "HEADERS_TO_PRUNE_IN_SINGLE_IMPORT = 8"

record stored_header =
  submitter :: "account_id option"
  sh_header :: header
  total_difficulty :: u256
  finalized :: bool

record pruning_range =
  oldest_unpruned_block :: u64
  oldest_block_to_keep :: u64

record lc_config =
  lc_lib :: eth_lib
  lc_ethash :: ethash_lib
  descendants_until_finalized :: u8
  lc_difficulty :: difficulty_config
  verify_pow :: bool

type_synonym header_store = "h256 \<rightharpoonup> stored_header"

record light_client =
  best_block :: "header_id \<times> u256"
  blocks_to_prune :: pruning_range
  finalized_block :: header_id
  headers :: header_store
  headers_by_number :: "u64 \<rightharpoonup> h256 list"

definition empty_light_client :: light_client where
  "empty_light_client = \<lparr>best_block = (\<lparr>id_number = 0, id_hash = 0\<rparr>, 0),
     blocks_to_prune = \<lparr>oldest_unpruned_block = 0, oldest_block_to_keep = 0\<rparr>,
     finalized_block = \<lparr>id_number = 0, id_hash = 0\<rparr>, headers = Map.empty, headers_by_number = Map.empty\<rparr>"

abbreviation lc_error :: "light_client_error \<Rightarrow> dispatch_error" where
  "lc_error e \<equiv> Module (LightClientError e)"

abbreviation hash_of :: "lc_config \<Rightarrow> header \<Rightarrow> h256" where
  "hash_of cfg h \<equiv> compute_hash (lc_lib cfg) h"

section \<open>Ancestry\<close>

text \<open>
  The iterator \<open>ancestry\<close> follows parent hashes through the store.  \<open>find\<close> on it may run without
  end, so the search is a partial function (\<open>None\<close> is a run that does not stop); the n-th
  element is what \<open>enumerate().find_map(\<dots>)\<close> asks for.
\<close>

partial_function (option) ancestry_find ::
  "header_store \<Rightarrow> (header \<Rightarrow> bool) \<Rightarrow> h256 \<Rightarrow> (h256 \<times> header) option option" where
  [code]: "ancestry_find H P hash = (case H hash of
       None \<Rightarrow> Some None
     | Some sh \<Rightarrow>
         if P (sh_header sh) then Some (Some (hash, sh_header sh))
         else ancestry_find H P (parent_hash (sh_header sh)))"

primrec ancestry_nth :: "header_store \<Rightarrow> nat \<Rightarrow> h256 \<Rightarrow> (h256 \<times> header) option" where
  "ancestry_nth H 0 hash = map_option (\<lambda>sh. (hash, sh_header sh)) (H hash)"
| "ancestry_nth H (Suc n) hash = (case H hash of
       None \<Rightarrow> None
     | Some sh \<Rightarrow> ancestry_nth H n (parent_hash (sh_header sh)))"

section \<open>Validation\<close>

definition and_then :: "bool \<Rightarrow> ('e, bool) result \<Rightarrow> ('e, bool) result" where
  "and_then b r = (if b then r else Ok False)"

text \<open>The conjunction under Yellow Paper formula (50), evaluated from left to right.\<close>

definition basic_checks :: "header \<Rightarrow> header \<Rightarrow> ('e, bool) result" where
  "basic_checks parent h =
     and_then (gas_used h \<le> gas_limit h)
     (bind_res (u256_mul (gas_limit parent) 1025) (\<lambda>hi.
      and_then (gas_limit h < hi div 1024)
     (bind_res (u256_mul (gas_limit parent) 1023) (\<lambda>lo.
      and_then (gas_limit h > lo div 1024)
     (and_then (gas_limit h \<ge> 5000)
     (and_then (timestamp h > timestamp parent)
     (and_then (number h = number parent + 1)
      (Ok (length (extra_data h) \<le> 32)))))))))"

definition validate_pow :: "lc_config \<Rightarrow> header \<Rightarrow> double_node list \<Rightarrow> (dispatch_error, unit) result" where
  "validate_pow cfg h proof =
     bind_res (ok_or (lc_error InvalidHeader) (mix_hash (lc_lib cfg) h)) (\<lambda>header_mix_hash.
     bind_res (ok_or (lc_error InvalidHeader) (nonce (lc_lib cfg) h)) (\<lambda>header_nonce.
     bind_res (map_err (\<lambda>_. lc_error InvalidHeader)
       (hashimoto_merkle (lc_lib cfg) (lc_ethash cfg) (compute_partial_hash (lc_lib cfg) h) header_nonce
          (number h) proof)) (\<lambda>(mix, res).
     ensure (mix = header_mix_hash \<and> res < cross_boundary (lc_ethash cfg) (difficulty h))
       (lc_error InvalidHeader))))"

definition validate_header_to_import ::
  "lc_config \<Rightarrow> header \<Rightarrow> double_node list \<Rightarrow> light_client \<Rightarrow> (dispatch_error, unit) result" where
  "validate_header_to_import cfg h proof s =
     bind_res (ensure (headers s (hash_of cfg h) = None) (lc_error DuplicateHeader)) (\<lambda>_.
     bind_res (ok_or (lc_error MissingParentHeader) (headers s (parent_hash h))) (\<lambda>stored_parent.
     let parent = sh_header stored_parent; finalized_header_id = finalized_block s in
     bind_res (ensure (number h > id_number finalized_header_id) (lc_error AncientHeader)) (\<lambda>_.
     bind_res (must_stop (ancestry_find (headers s) (\<lambda>a. number a = id_number finalized_header_id) (parent_hash h)))
       (\<lambda>ancestor_at_finalized_number.
     bind_res (ok_or (lc_error Unknown) ancestor_at_finalized_number) (\<lambda>(hash, _).
     bind_res (ensure (hash = id_hash finalized_header_id) (lc_error HeaderOnStaleFork)) (\<lambda>_.
     if \<not> verify_pow cfg then Ok ()
     else
       bind_res (basic_checks parent h) (\<lambda>good.
       bind_res (ensure good (lc_error InvalidHeader)) (\<lambda>_.
       bind_res (map_err (\<lambda>_. lc_error InvalidHeader) (calc_difficulty (lc_difficulty cfg) (timestamp h) parent))
         (\<lambda>header_difficulty.
       bind_res (ensure (difficulty h = header_difficulty) (lc_error InvalidHeader)) (\<lambda>_.
       validate_pow cfg h proof))))))))))"

section \<open>Finality and pruning\<close>

definition get_best_finalized_header ::
  "lc_config \<Rightarrow> header_id \<Rightarrow> header_id \<Rightarrow> light_client \<Rightarrow> (dispatch_error, header_id) result" where
  "get_best_finalized_header cfg best_block_id finalized_block_id s =
     (case ancestry_nth (headers s) (unat (descendants_until_finalized cfg)) (id_hash best_block_id) of
        Some (hash, h) \<Rightarrow>
          if number h > id_number finalized_block_id then Ok \<lparr>id_number = number h, id_hash = hash\<rparr>
          else if hash \<noteq> id_hash finalized_block_id then Err (lc_error Unknown)
          else Ok finalized_block_id
      | None \<Rightarrow> Ok finalized_block_id)"

text \<open>
  The loop over the hashes at one height: it returns the hashes it did not get to (the source's
  \<open>remainder\<close>), the number of headers removed so far and the store.
\<close>

fun prune_hashes :: "u64 \<Rightarrow> h256 list \<Rightarrow> u64 \<Rightarrow> header_store \<Rightarrow> h256 list \<times> u64 \<times> header_store" where
  "prune_hashes mx [] pruned H = ([], pruned, H)"
| "prune_hashes mx (hash # rest) pruned H =
     (if pruned + 1 = mx then (rest, pruned + 1, H(hash := None))
      else prune_hashes mx rest (pruned + 1) (H(hash := None)))"

text \<open>The loop \<open>for number in start..end\<close>, with the current value of \<open>oldest_unpruned_block\<close>.\<close>

function prune_loop :: "u64 \<Rightarrow> u64 \<Rightarrow> u64 \<Rightarrow> u64 \<Rightarrow> u64 \<Rightarrow> light_client \<Rightarrow> u64 \<times> light_client" where
  "prune_loop mx stop n pruned oldest s =
     (if n < stop \<and> pruned \<noteq> mx
      then (case headers_by_number s n of
              Some hashes_at_number \<Rightarrow>
                (case prune_hashes mx hashes_at_number pruned (headers s) of (remainder, pruned', H') \<Rightarrow>
                   prune_loop mx stop (n + 1) pruned' (if remainder = [] then n + 1 else oldest)
                     (s\<lparr>headers := H',
                        headers_by_number := (headers_by_number s)
                          (n := if remainder = [] then None else Some remainder)\<rparr>))
            | None \<Rightarrow> prune_loop mx stop (n + 1) pruned (n + 1) s)
      else (oldest, s))"
  by pat_completeness auto

lemma loop_step_decreases: "(n :: u64) < e \<Longrightarrow> unat e - unat (n + 1) < unat e - unat n"
  by (simp add: unat_plus_one word_less_nat_alt)

termination prune_loop
  by (relation "measure (\<lambda>(mx, e, n, p, r, s). unat e - unat n)") (simp_all add: loop_step_decreases)

declare prune_loop.simps [simp del]

definition prune_header_range ::
  "pruning_range \<Rightarrow> u64 \<Rightarrow> u64 \<Rightarrow> light_client \<Rightarrow> pruning_range \<times> light_client" where
  "prune_header_range pr max_headers_to_prune prune_end s =
     (let keep = (if prune_end > oldest_block_to_keep pr then prune_end else oldest_block_to_keep pr) in
      case prune_loop max_headers_to_prune keep (oldest_unpruned_block pr) 0 (oldest_unpruned_block pr) s of
        (oldest, s') \<Rightarrow> (\<lparr>oldest_unpruned_block = oldest, oldest_block_to_keep = keep\<rparr>, s'))"

section \<open>Import\<close>

text \<open>\<open>HeadersByNumber\<close>: push to the hashes at a height, or start them.\<close>

definition push_hash :: "u64 \<Rightarrow> h256 \<Rightarrow> light_client \<Rightarrow> light_client" where
  "push_hash n hash s = s\<lparr>headers_by_number := (headers_by_number s)(n \<mapsto>
     (case headers_by_number s n of Some hashes \<Rightarrow> hashes @ [hash] | None \<Rightarrow> [hash]))\<rparr>"

definition mark_finalized :: "h256 \<Rightarrow> (light_client, dispatch_error, unit) ext" where
  "mark_finalized hash s = (case headers s hash of
       Some sh \<Rightarrow> (Ok (), s\<lparr>headers := (headers s)(hash \<mapsto> sh\<lparr>finalized := True\<rparr>)\<rparr>)
     | None \<Rightarrow> (Err (lc_error Unknown), s))"

definition prune_step :: "u64 \<Rightarrow> light_client \<Rightarrow> light_client" where
  "prune_step finalized_number s =
     (case prune_header_range (blocks_to_prune s) HEADERS_TO_PRUNE_IN_SINGLE_IMPORT
             (saturating_sub finalized_number FINALIZED_HEADERS_TO_KEEP) s of
        (new_range, s') \<Rightarrow> if new_range \<noteq> blocks_to_prune s then s'\<lparr>blocks_to_prune := new_range\<rparr> else s')"

text \<open>What follows once the imported header is the new best block.\<close>

definition advance_best ::
  "lc_config \<Rightarrow> header_id \<Rightarrow> u256 \<Rightarrow> (light_client, dispatch_error, unit) ext" where
  "advance_best cfg best_block_id td =
     bind_ext (modify (\<lambda>s. s\<lparr>best_block := (best_block_id, td)\<rparr>)) (\<lambda>_.
     bind_ext (gets finalized_block) (\<lambda>finalized_block_id.
     bind_ext (\<lambda>s. (get_best_finalized_header cfg best_block_id finalized_block_id s, s)) (\<lambda>new_finalized_block_id.
     bind_ext
       (if new_finalized_block_id \<noteq> finalized_block_id
        then bind_ext (modify (\<lambda>s. s\<lparr>finalized_block := new_finalized_block_id\<rparr>)) (\<lambda>_.
             mark_finalized (id_hash new_finalized_block_id))
        else ret ()) (\<lambda>_.
     modify (prune_step (id_number new_finalized_block_id))))))"

definition import_validated_header ::
  "lc_config \<Rightarrow> account_id \<Rightarrow> header \<Rightarrow> (light_client, dispatch_error, unit) ext" where
  "import_validated_header cfg sender h =
     (let hash = hash_of cfg h in
      bind_ext (gets (\<lambda>s. headers s (parent_hash h))) (\<lambda>parent.
      bind_ext (lift_res (ok_or (lc_error MissingParentHeader) parent)) (\<lambda>stored_parent.
      bind_ext (lift_res (ok_or (Other ''Total difficulty overflow'')
        (checked_add (total_difficulty stored_parent) (difficulty h)))) (\<lambda>td.
      bind_ext (modify (\<lambda>s. s\<lparr>headers := (headers s)(hash \<mapsto>
        \<lparr>submitter = Some sender, sh_header = h, total_difficulty = td, finalized = False\<rparr>)\<rparr>)) (\<lambda>_.
      bind_ext (modify (push_hash (number h) hash)) (\<lambda>_.
      bind_ext (gets (\<lambda>s. snd (best_block s))) (\<lambda>highest_difficulty.
      if td > highest_difficulty \<or> (\<not> verify_pow cfg \<and> td = 0)
      then advance_best cfg \<lparr>id_number = number h, id_hash = hash\<rparr> td
      else ret ())))))))"

definition import_header ::
  "lc_config \<Rightarrow> origin \<Rightarrow> header \<Rightarrow> double_node list \<Rightarrow> (light_client, dispatch_error, unit) ext" where
  "import_header cfg org h proof =
     bind_ext (lift_res (ensure_signed org)) (\<lambda>sender.
     bind_ext (\<lambda>s. (validate_header_to_import cfg h proof s, s)) (\<lambda>_.
     import_validated_header cfg sender h))"

section \<open>Verification of messages\<close>

definition verify_receipt_inclusion ::
  "lc_config \<Rightarrow> message_proof \<Rightarrow> light_client \<Rightarrow> (dispatch_error, receipt) result" where
  "verify_receipt_inclusion cfg p s =
     bind_res (ok_or (lc_error MissingHeader) (headers s (block_hash p))) (\<lambda>sh.
     bind_res (ensure (finalized sh) (lc_error HeaderNotFinalized)) (\<lambda>_.
     ok_or (lc_error InvalidProof) (check_receipt_proof (lc_lib cfg) (sh_header sh) (snd (proof_data p)))))"

definition verify :: "lc_config \<Rightarrow> light_client verifier" where
  "verify cfg m s =
     (bind_res (verify_receipt_inclusion cfg (msg_proof m) s) (\<lambda>receipt.
      bind_res (map_err (\<lambda>_. lc_error InvalidProof) (log_decode (lc_lib cfg) (msg_data m))) (\<lambda>l.
      if \<not> contains_log receipt l then Err (lc_error InvalidProof) else Ok l)), s)"

section \<open>Initialization\<close>

definition insert_header_fn :: "lc_config \<Rightarrow> header \<Rightarrow> u256 \<Rightarrow> light_client \<Rightarrow> light_client" where
  "insert_header_fn cfg h td s =
     (let hash = hash_of cfg h in
      push_hash (number h) hash (s\<lparr>headers := (headers s)(hash \<mapsto>
        \<lparr>submitter = None, sh_header = h, total_difficulty = td, finalized = False\<rparr>)\<rparr>))"

text \<open>The loop over the headers after the first, with the number of the previous one and the best so far.\<close>

fun initialize_rest :: "lc_config \<Rightarrow> u64 \<Rightarrow> header list \<Rightarrow> header_id \<times> u256 \<Rightarrow>
    (light_client, string, header_id \<times> u256) ext" where
  "initialize_rest cfg prev [] best = ret best"
| "initialize_rest cfg prev (h # hs) (best_id, best_td) =
     bind_ext (lift_res (ensure (number h = prev \<or> number h = prev + 1) ''Headers must be in order'')) (\<lambda>_.
     bind_ext (gets (\<lambda>s. headers s (parent_hash h))) (\<lambda>p.
     bind_ext (lift_res (ok_or ''Missing parent header'' p)) (\<lambda>parent.
     bind_ext (lift_res (u256_add (total_difficulty parent) (difficulty h))) (\<lambda>td.
     bind_ext (modify (insert_header_fn cfg h td)) (\<lambda>_.
     initialize_rest cfg (number h) hs
       (if td > best_td then (\<lparr>id_number = number h, id_hash = hash_of cfg h\<rparr>, td) else (best_id, best_td)))))))"

text \<open>The \<open>loop\<close> that marks the finalized header and all its ancestors; \<open>None\<close> if it does not stop.\<close>

partial_function (option) finalize_ancestors :: "header_store \<Rightarrow> h256 \<Rightarrow> header_store option" where
  [code]: "finalize_ancestors H hash = (case H hash of
       None \<Rightarrow> Some H
     | Some sh \<Rightarrow> finalize_ancestors (H(hash \<mapsto> sh\<lparr>finalized := True\<rparr>)) (parent_hash (sh_header sh)))"

definition initialize_storage ::
  "lc_config \<Rightarrow> header list \<Rightarrow> u256 \<Rightarrow> u8 \<Rightarrow> (light_client, string, unit) ext" where
  "initialize_storage cfg hs initial_difficulty descendants_until_final =
     (case hs of
        [] \<Rightarrow> lift_res (Err ''Need at least one header'')
      | oldest # rest \<Rightarrow>
          bind_ext (modify (insert_header_fn cfg oldest initial_difficulty)) (\<lambda>_.
          bind_ext (initialize_rest cfg (number oldest) rest
            (\<lparr>id_number = number oldest, id_hash = hash_of cfg oldest\<rparr>, initial_difficulty)) (\<lambda>best.
          bind_ext (modify (\<lambda>s. s\<lparr>best_block := best\<rparr>)) (\<lambda>_.
          bind_ext (gets (\<lambda>s. ancestry_nth (headers s) (unat descendants_until_final) (id_hash (fst best)))) (\<lambda>anc.
          case anc of
            None \<Rightarrow> ret ()
          | Some (hash, h) \<Rightarrow>
              bind_ext (modify (\<lambda>s. s\<lparr>finalized_block := \<lparr>id_number = number h, id_hash = hash\<rparr>\<rparr>)) (\<lambda>_.
              bind_ext (\<lambda>s. (must_stop (finalize_ancestors (headers s) hash), s)) (\<lambda>H.
              modify (\<lambda>s. s\<lparr>headers := H\<rparr>))))))))"

text \<open>The genesis build: the initial header, finalized at once, and an empty pruning range.\<close>

definition lc_genesis :: "lc_config \<Rightarrow> header \<Rightarrow> u256 \<Rightarrow> (light_client, string, unit) ext" where
  "lc_genesis cfg initial_header initial_difficulty =
     bind_ext (\<lambda>s. case initialize_storage cfg [initial_header] initial_difficulty 0 s of
         (Err _, s') \<Rightarrow> (Panic, s') | r \<Rightarrow> r) (\<lambda>_.
     modify (\<lambda>s. s\<lparr>blocks_to_prune := \<lparr>oldest_unpruned_block = number initial_header,
       oldest_block_to_keep = number initial_header\<rparr>\<rparr>))"

end
