(* ===== verification/Nft_Pallet.thy ===== *)
theory Nft_Pallet
  imports Bridge_Core
begin

text \<open>
  \<open>pallets/nft\<close>: a registry of tokens with an index by owner.  The contract that clients of the
  trait \<open>Nft\<close> rely on is a locale, interpreted on the pallet.
\<close>

section \<open>State and operations\<close>

record 'd nft =
  next_token_id :: u128
  tokens :: "u128 \<rightharpoonup> 'd token_info"
  tokens_by_owner :: "(account_id \<times> u128) set"

definition empty_nft :: "'d nft" where
  "empty_nft = \<lparr>next_token_id = 0, tokens = Map.empty, tokens_by_owner = {}\<rparr>"

abbreviation nft_err :: "nft_error \<Rightarrow> dispatch_error" where
  "nft_err e \<equiv> Module (NftError e)"

definition next_token_item :: "('d nft, u128) storage" where
  "next_token_item = \<lparr>sget = next_token_id, sput = (\<lambda>v s. s\<lparr>next_token_id := v\<rparr>)\<rparr>"

text \<open>An entry of \<open>Tokens\<close>; writing \<open>None\<close> removes it (\<open>try_mutate_exists\<close>).\<close>

definition token_item :: "u128 \<Rightarrow> ('d nft, 'd token_info option) storage" where
  "token_item t = \<lparr>sget = (\<lambda>s. tokens s t), sput = (\<lambda>v s. s\<lparr>tokens := (tokens s)(t := v)\<rparr>)\<rparr>"

definition put_owned :: "account_id \<Rightarrow> u128 \<Rightarrow> 'd nft \<Rightarrow> 'd nft" where
  "put_owned w t s = s\<lparr>tokens_by_owner := insert (w, t) (tokens_by_owner s)\<rparr>"

definition remove_owned :: "account_id \<Rightarrow> u128 \<Rightarrow> 'd nft \<Rightarrow> 'd nft" where
  "remove_owned w t s = s\<lparr>tokens_by_owner := tokens_by_owner s - {(w, t)}\<rparr>"

definition mint :: "account_id \<Rightarrow> bytes \<Rightarrow> 'd \<Rightarrow> ('d nft, dispatch_error, u128) ext" where
  "mint who meta data =
     try_mutate next_token_item (\<lambda>token_id.
       bind_ext (lift_res (ok_or (nft_err NumOverflow) (checked_add token_id 1))) (\<lambda>next_id.
       bind_ext (modify (sput (token_item token_id) (Some \<lparr>owner = who, metadata = meta, token_data = data\<rparr>))) (\<lambda>_.
       bind_ext (modify (put_owned who token_id)) (\<lambda>_.
       ret (token_id, next_id)))))"

definition burn :: "account_id \<Rightarrow> u128 \<Rightarrow> ('d nft, dispatch_error, unit) ext" where
  "burn who token =
     try_mutate (token_item token) (\<lambda>info.
       bind_ext (lift_res (ok_or (nft_err TokenNotFound) info)) (\<lambda>t.
       bind_ext (lift_res (ensure (owner t = who) (nft_err NoPermission))) (\<lambda>_.
       bind_ext (modify (remove_owned who token)) (\<lambda>_.
       ret ((), None)))))"

definition nft_transfer_token :: "account_id \<Rightarrow> account_id \<Rightarrow> u128 \<Rightarrow> ('d nft, dispatch_error, unit) ext" where
  "nft_transfer_token src dest token =
     try_mutate (token_item token) (\<lambda>info.
       bind_ext (lift_res (ok_or (nft_err TokenNotFound) info)) (\<lambda>t.
       bind_ext (lift_res (ensure (owner t = src) (nft_err NoPermission))) (\<lambda>_.
       if src = dest then ret ((), Some t)
       else
         bind_ext (modify (remove_owned src token)) (\<lambda>_.
         bind_ext (modify (put_owned dest token)) (\<lambda>_.
         ret ((), Some (t\<lparr>owner := dest\<rparr>)))))))"

definition is_owner :: "account_id \<Rightarrow> u128 \<Rightarrow> 'd nft \<Rightarrow> bool" where
  "is_owner who token s = ((who, token) \<in> tokens_by_owner s)"

definition get_token_data :: "u128 \<Rightarrow> 'd nft \<Rightarrow> 'd token_info option" where
  "get_token_data token s = tokens s token"

text \<open>The genesis build mints every configured token and panics if that fails.\<close>

fun nft_genesis :: "(account_id \<times> bytes \<times> 'd) list \<Rightarrow> ('d nft, dispatch_error, unit) ext" where
  "nft_genesis [] = ret ()"
| "nft_genesis ((who, meta, data) # rest) =
     bind_ext (\<lambda>s. case mint who meta data s of (Err _, s') \<Rightarrow> (Panic, s') | r \<Rightarrow> r) (\<lambda>_. nft_genesis rest)"

definition nft_pallet :: "('d nft, 'd) nft_ops" where
  "nft_pallet = \<lparr>nft_mint = mint, nft_burn = burn, nft_transfer = nft_transfer_token,
     nft_is_owner = is_owner, nft_get_token_data = get_token_data\<rparr>"

section \<open>The contract of a token registry\<close>

locale nft_laws =
  fixes N :: "('s, 'd) nft_ops" and inv :: "'s \<Rightarrow> bool"
  assumes mint_ok: "inv s \<Longrightarrow> nft_mint N w m d s = (Ok t, s') \<Longrightarrow>
      inv s' \<and> nft_get_token_data N t s = None \<and>
      nft_get_token_data N t s' = Some \<lparr>owner = w, metadata = m, token_data = d\<rparr> \<and>
      (\<forall>u. u \<noteq> t \<longrightarrow> nft_get_token_data N u s' = nft_get_token_data N u s)"
    and burn_ok: "inv s \<Longrightarrow> nft_burn N w t s = (Ok (), s') \<Longrightarrow>
      inv s' \<and> (\<exists>i. nft_get_token_data N t s = Some i \<and> owner i = w) \<and> nft_get_token_data N t s' = None \<and>
      (\<forall>u. u \<noteq> t \<longrightarrow> nft_get_token_data N u s' = nft_get_token_data N u s)"
    and burn_total: "inv s \<Longrightarrow> nft_get_token_data N t s = Some i \<Longrightarrow> owner i = w \<Longrightarrow>
      fst (nft_burn N w t s) = Ok ()"
    and transfer_ok: "inv s \<Longrightarrow> nft_transfer N w v t s = (Ok (), s') \<Longrightarrow>
      inv s' \<and> (\<exists>i. nft_get_token_data N t s = Some i \<and> owner i = w \<and>
        nft_get_token_data N t s' = Some (i\<lparr>owner := v\<rparr>)) \<and>
      (\<forall>u. u \<noteq> t \<longrightarrow> nft_get_token_data N u s' = nft_get_token_data N u s)"
    and owner_law: "inv s \<Longrightarrow> nft_is_owner N w t s \<longleftrightarrow> (\<exists>i. nft_get_token_data N t s = Some i \<and> owner i = w)"
    and mint_err: "nft_mint N w m d s = (q, s') \<Longrightarrow> is_ok q \<or> (\<exists>e. q = Err e) \<and> s' = s"
    and burn_err: "nft_burn N w t s = (r, s') \<Longrightarrow> is_ok r \<or> (\<exists>e. r = Err e) \<and> s' = s"
    and transfer_err: "nft_transfer N w v t s = (r, s') \<Longrightarrow> is_ok r \<or> (\<exists>e. r = Err e) \<and> s' = s"
begin

text \<open>A token has one owner, and only the owner can burn it.\<close>

lemma one_owner: "inv s \<Longrightarrow> nft_is_owner N w t s \<Longrightarrow> nft_is_owner N v t s \<Longrightarrow> w = v"
  by (auto simp: owner_law)

lemma burn_needs_owner: "inv s \<Longrightarrow> \<not> nft_is_owner N w t s \<Longrightarrow> \<exists>e. nft_burn N w t s = (Err e, s)"
  using burn_ok [of s w t] burn_err [of w t s] owner_law [of s w t]
  by (cases "nft_burn N w t s") (auto simp: is_ok_def split: result.splits)

text \<open>What is minted can be burned by its owner, and nothing else has changed then.\<close>

lemma mint_burn:
  assumes i: "inv s" and m: "nft_mint N w md d s = (Ok t, s')"
  shows "\<exists>s''. nft_burn N w t s' = (Ok (), s'') \<and> (\<forall>u. nft_get_token_data N u s'' = nft_get_token_data N u s)"
proof -
  note m' = mint_ok [OF i m]
  obtain r s'' where b: "nft_burn N w t s' = (r, s'')" by (cases "nft_burn N w t s'")
  then have b': "nft_burn N w t s' = (Ok (), s'')" using burn_total [of s' t _ w] m' by fastforce
  moreover have "nft_get_token_data N u s'' = nft_get_token_data N u s" for u
    using burn_ok [OF _ b'] m' by (cases "u = t") auto
  ultimately show ?thesis by blast
qed

lemma mint_keeps: "keeps inv (nft_mint N w m d)"
proof (rule keepsI)
  fix s r s'
  assume "inv s" "nft_mint N w m d s = (r, s')" "returns r"
  then show "inv s'" using mint_ok [of s w m d _ s'] mint_err by (cases r) fastforce+
qed

lemma burn_keeps: "keeps inv (nft_burn N w t)"
proof (rule keepsI)
  fix s r s'
  assume "inv s" "nft_burn N w t s = (r, s')" "returns r"
  then show "inv s'" using burn_ok [of s w t s'] burn_err by (cases r) fastforce+
qed

end

section \<open>The pallet meets the contract\<close>

definition nft_inv :: "'d nft \<Rightarrow> bool" where
  "nft_inv s \<longleftrightarrow> (\<forall>w t. (w, t) \<in> tokens_by_owner s \<longleftrightarrow> (\<exists>i. tokens s t = Some i \<and> owner i = w)) \<and>
     (\<forall>t i. tokens s t = Some i \<longrightarrow> t < next_token_id s)"

lemma empty_nft_inv: "nft_inv empty_nft"
  by (simp add: nft_inv_def empty_nft_def)

lemma nft_item_simps [simp]:
  "sget next_token_item s = next_token_id s" "sput next_token_item v s = s\<lparr>next_token_id := v\<rparr>"
  "sget (token_item t) s = tokens s t" "sput (token_item t) i s = s\<lparr>tokens := (tokens s)(t := i)\<rparr>"
  by (simp_all add: next_token_item_def token_item_def)

interpretation next_token: storage_item next_token_item
  by unfold_locales simp_all

interpretation token: storage_item "token_item t" for t
  by unfold_locales (simp_all add: fun_upd_idem)

lemma mint_run:
  "mint w m d s = (case checked_add (next_token_id s) 1 of
       None \<Rightarrow> (Err (nft_err NumOverflow), s)
     | Some n \<Rightarrow> (Ok (next_token_id s), s\<lparr>next_token_id := n,
         tokens := (tokens s)(next_token_id s \<mapsto> \<lparr>owner = w, metadata = m, token_data = d\<rparr>),
         tokens_by_owner := insert (w, next_token_id s) (tokens_by_owner s)\<rparr>))"
  by (auto simp: mint_def try_mutate_def ext_simps put_owned_def split: option.splits)

lemma burn_run:
  "burn w t s = (case tokens s t of
       None \<Rightarrow> (Err (nft_err TokenNotFound), s)
     | Some i \<Rightarrow> if owner i = w
         then (Ok (), s\<lparr>tokens := (tokens s)(t := None), tokens_by_owner := tokens_by_owner s - {(w, t)}\<rparr>)
         else (Err (nft_err NoPermission), s))"
  by (auto simp: burn_def try_mutate_def ext_simps remove_owned_def ensure_def split: option.splits)

lemma nft_transfer_run:
  "nft_transfer_token w v t s = (case tokens s t of
       None \<Rightarrow> (Err (nft_err TokenNotFound), s)
     | Some i \<Rightarrow> if owner i \<noteq> w then (Err (nft_err NoPermission), s)
         else if w = v then (Ok (), s)
         else (Ok (), s\<lparr>tokens := (tokens s)(t \<mapsto> i\<lparr>owner := v\<rparr>),
           tokens_by_owner := insert (v, t) (tokens_by_owner s - {(w, t)})\<rparr>))"
  by (auto simp: nft_transfer_token_def try_mutate_def ext_simps remove_owned_def put_owned_def ensure_def
      fun_upd_idem split: option.splits)

lemma next_id_fresh: "nft_inv s \<Longrightarrow> tokens s (next_token_id s) = None"
  unfolding nft_inv_def by (metis not_Some_eq order.irrefl)

lemma mint_inv:
  assumes "nft_inv s" "unat n = unat (next_token_id s) + 1"
  shows "nft_inv (s\<lparr>next_token_id := n, tokens := (tokens s)(next_token_id s \<mapsto> \<lparr>owner = w, metadata = m, token_data = d\<rparr>),
    tokens_by_owner := insert (w, next_token_id s) (tokens_by_owner s)\<rparr>)"
proof -
  have "next_token_id s < n" using assms(2) by (simp add: word_less_nat_alt)
  moreover have "t < n" if "t < next_token_id s" for t using that calculation by (rule order.strict_trans)
  ultimately show ?thesis using assms(1) next_id_fresh [OF assms(1)] unfolding nft_inv_def by auto
qed

lemmas nft_runs = mint_run burn_run nft_transfer_run

interpretation nft_contract: nft_laws nft_pallet nft_inv
proof unfold_locales
  fix s :: "'d nft" and w m d t s'
  assume i: "nft_inv s" and "nft_mint nft_pallet w m d s = (Ok t, s')"
  then show "nft_inv s' \<and> nft_get_token_data nft_pallet t s = None \<and>
      nft_get_token_data nft_pallet t s' = Some \<lparr>owner = w, metadata = m, token_data = d\<rparr> \<and>
      (\<forall>u. u \<noteq> t \<longrightarrow> nft_get_token_data nft_pallet u s' = nft_get_token_data nft_pallet u s)"
    using next_id_fresh [OF i] by (auto simp: nft_pallet_def mint_run get_token_data_def checked_simps
        intro!: mint_inv [OF i] split: option.splits)
next
  fix s :: "'d nft" and w t s'
  assume "nft_inv s" "nft_burn nft_pallet w t s = (Ok (), s')"
  then show "nft_inv s' \<and> (\<exists>i. nft_get_token_data nft_pallet t s = Some i \<and> owner i = w) \<and>
      nft_get_token_data nft_pallet t s' = None \<and>
      (\<forall>u. u \<noteq> t \<longrightarrow> nft_get_token_data nft_pallet u s' = nft_get_token_data nft_pallet u s)"
    by (auto simp: nft_pallet_def burn_run get_token_data_def nft_inv_def split: option.splits if_splits)
next
  fix s :: "'d nft" and w v t s'
  assume "nft_inv s" "nft_transfer nft_pallet w v t s = (Ok (), s')"
  then show "nft_inv s' \<and> (\<exists>i. nft_get_token_data nft_pallet t s = Some i \<and> owner i = w \<and>
        nft_get_token_data nft_pallet t s' = Some (i\<lparr>owner := v\<rparr>)) \<and>
      (\<forall>u. u \<noteq> t \<longrightarrow> nft_get_token_data nft_pallet u s' = nft_get_token_data nft_pallet u s)"
    by (auto simp: nft_pallet_def nft_transfer_run get_token_data_def nft_inv_def split: option.splits if_splits)
next
  fix s :: "'d nft" and w t
  assume "nft_inv s"
  then show "nft_is_owner nft_pallet w t s \<longleftrightarrow> (\<exists>i. nft_get_token_data nft_pallet t s = Some i \<and> owner i = w)"
    by (simp add: nft_pallet_def is_owner_def get_token_data_def nft_inv_def)
qed (auto simp: nft_pallet_def nft_runs get_token_data_def split: option.splits if_splits)

section \<open>The registry inside a larger storage\<close>

definition zoom_nft :: "('s, 'v) storage \<Rightarrow> ('v, 'd) nft_ops \<Rightarrow> ('s, 'd) nft_ops" where
  "zoom_nft st N = \<lparr>nft_mint = (\<lambda>w m d. zoom st (nft_mint N w m d)), nft_burn = (\<lambda>w t. zoom st (nft_burn N w t)),
     nft_transfer = (\<lambda>w v t. zoom st (nft_transfer N w v t)),
     nft_is_owner = (\<lambda>w t s. nft_is_owner N w t (sget st s)),
     nft_get_token_data = (\<lambda>t s. nft_get_token_data N t (sget st s))\<rparr>"

locale stored_nft = storage_item st + nft_laws N inv
  for st :: "('s, 'v) storage" and N :: "('v, 'd) nft_ops" and inv
begin

lemma zoom_nft_moves:
  assumes "zoom st m s = (r, s')"
  obtains t where "m (sget st s) = (r, t)" "s' = sput st t s" "sget st s' = t"
  using assms by (cases "m (sget st s)") (auto simp: zoom_def get_put)

lemma zoom_nft_unmoved: "(\<And>t r t'. m t = (r, t') \<Longrightarrow> is_ok r \<or> (\<exists>e. r = Err e) \<and> t' = t) \<Longrightarrow>
    zoom st m s = (r, s') \<Longrightarrow> is_ok r \<or> (\<exists>e. r = Err e) \<and> s' = s"
  by (erule zoom_nft_moves) (metis put_get)

end

sublocale stored_nft \<subseteq> whole: nft_laws "zoom_nft st N" "\<lambda>s. inv (sget st s)"
proof unfold_locales
  fix s w m d t s'
  assume i: "inv (sget st s)" and "nft_mint (zoom_nft st N) w m d s = (Ok t, s')"
  then obtain v where "nft_mint N w m d (sget st s) = (Ok t, v)" "sget st s' = v"
    by (auto simp: zoom_nft_def elim: zoom_nft_moves)
  with mint_ok [OF i] show "inv (sget st s') \<and> nft_get_token_data (zoom_nft st N) t s = None \<and>
      nft_get_token_data (zoom_nft st N) t s' = Some \<lparr>owner = w, metadata = m, token_data = d\<rparr> \<and>
      (\<forall>u. u \<noteq> t \<longrightarrow> nft_get_token_data (zoom_nft st N) u s' = nft_get_token_data (zoom_nft st N) u s)"
    by (simp add: zoom_nft_def)
next
  fix s w t s'
  assume i: "inv (sget st s)" and "nft_burn (zoom_nft st N) w t s = (Ok (), s')"
  then obtain v where "nft_burn N w t (sget st s) = (Ok (), v)" "sget st s' = v"
    by (auto simp: zoom_nft_def elim: zoom_nft_moves)
  with burn_ok [OF i] show "inv (sget st s') \<and> (\<exists>i. nft_get_token_data (zoom_nft st N) t s = Some i \<and> owner i = w) \<and>
      nft_get_token_data (zoom_nft st N) t s' = None \<and>
      (\<forall>u. u \<noteq> t \<longrightarrow> nft_get_token_data (zoom_nft st N) u s' = nft_get_token_data (zoom_nft st N) u s)"
    by (simp add: zoom_nft_def)
next
  fix s w v t s'
  assume i: "inv (sget st s)" and "nft_transfer (zoom_nft st N) w v t s = (Ok (), s')"
  then obtain u where "nft_transfer N w v t (sget st s) = (Ok (), u)" "sget st s' = u"
    by (auto simp: zoom_nft_def elim: zoom_nft_moves)
  with transfer_ok [OF i] show "inv (sget st s') \<and> (\<exists>i. nft_get_token_data (zoom_nft st N) t s = Some i \<and> owner i = w \<and>
        nft_get_token_data (zoom_nft st N) t s' = Some (i\<lparr>owner := v\<rparr>)) \<and>
      (\<forall>u. u \<noteq> t \<longrightarrow> nft_get_token_data (zoom_nft st N) u s' = nft_get_token_data (zoom_nft st N) u s)"
    by (simp add: zoom_nft_def)
next
  fix s t i w
  assume "inv (sget st s)" "nft_get_token_data (zoom_nft st N) t s = Some i" "owner i = w"
  then show "fst (nft_burn (zoom_nft st N) w t s) = Ok ()"
    using burn_total [of "sget st s" t i w] by (simp add: zoom_nft_def fst_zoom)
next
  fix w m d s q s'
  assume "nft_mint (zoom_nft st N) w m d s = (q, s')"
  then show "is_ok q \<or> (\<exists>e. q = Err e) \<and> s' = s"
    using zoom_nft_unmoved [of "nft_mint N w m d"] mint_err by (simp add: zoom_nft_def)
next
  fix w t s r s'
  assume "nft_burn (zoom_nft st N) w t s = (r, s')"
  then show "is_ok r \<or> (\<exists>e. r = Err e) \<and> s' = s"
    using zoom_nft_unmoved [of "nft_burn N w t"] burn_err by (simp add: zoom_nft_def)
next
  fix w v t s r s'
  assume "nft_transfer (zoom_nft st N) w v t s = (r, s')"
  then show "is_ok r \<or> (\<exists>e. r = Err e) \<and> s' = s"
    using zoom_nft_unmoved [of "nft_transfer N w v t"] transfer_err by (simp add: zoom_nft_def)
qed (simp add: zoom_nft_def owner_law)

section \<open>Properties of the pallet\<close>

lemma mint_keeps_inv: "keeps nft_inv (mint w m d)"
  using nft_contract.mint_keeps by (simp add: nft_pallet_def)

lemma genesis_step_keeps:
  "keeps nft_inv (\<lambda>s. case mint w m d s of (Err _, s') \<Rightarrow> (Panic, s') | r \<Rightarrow> r)"
proof (rule keepsI)
  fix s r s'
  assume "nft_inv s" "(case mint w m d s of (Err _, s') \<Rightarrow> (Panic, s') | r \<Rightarrow> r) = (r, s')" "returns r"
  then show "nft_inv s'"
    using keepsD [OF mint_keeps_inv, of s w m d] by (auto split: prod.splits result.splits)
qed

text \<open>
  C29. Minting, burning, transferring and the genesis build keep the NFT storage well-
  formed: the owner index lists exactly the owned tokens, and all identifiers are below the
  next one.
\<close>

theorem nft_index_invariant:
  "keeps (nft_inv :: 'd nft \<Rightarrow> bool) (mint w m d) \<and> keeps (nft_inv :: 'd nft \<Rightarrow> bool) (burn w t) \<and>
   keeps (nft_inv :: 'd nft \<Rightarrow> bool) (nft_transfer_token w v t) \<and> keeps (nft_inv :: 'd nft \<Rightarrow> bool) (nft_genesis es)"
proof -
  have "keeps nft_inv (nft_transfer_token w v t :: ('d nft, dispatch_error, unit) ext)"
  proof (rule keepsI)
    fix s :: "'d nft" and r s'
    assume "nft_inv s" "nft_transfer_token w v t s = (r, s')" "returns r"
    then show "nft_inv s'"
      using nft_contract.transfer_ok [of s w v t s'] nft_contract.transfer_err [of w v t s r s']
      by (cases r) (auto simp: nft_pallet_def)
  qed
  moreover have "keeps nft_inv (nft_genesis es :: ('d nft, dispatch_error, unit) ext)"
  proof (induction es)
    case (Cons e es)
    then show ?case by (cases e) (simp add: keeps_bind genesis_step_keeps)
  qed (simp add: keeps_rules)
  moreover have "keeps nft_inv (burn w t :: ('d nft, dispatch_error, unit) ext)"
    using nft_contract.burn_keeps [of w t, where 'a = 'd] by (simp add: nft_pallet_def)
  ultimately show ?thesis using mint_keeps_inv [of w m d] by blast
qed

theorem only_owner_burns:
  assumes "nft_inv s"
  shows "burn w t s =
    (if is_owner w t s then (Ok (), s\<lparr>tokens := (tokens s)(t := None), tokens_by_owner := tokens_by_owner s - {(w, t)}\<rparr>)
     else (Err (nft_err (if tokens s t = None then TokenNotFound else NoPermission)), s))"
  using assms by (auto simp: burn_run is_owner_def nft_inv_def split: option.splits)

theorem minted_id_is_new:
  assumes "nft_inv s" "mint w m d s = (Ok t, s')"
  shows "tokens s t = None \<and> is_owner w t s' \<and> (\<forall>v. is_owner v t s' \<longrightarrow> v = w) \<and>
    t < next_token_id s' \<and> (\<forall>u. u \<noteq> t \<longrightarrow> tokens s' u = tokens s u)"
proof -
  have m: "nft_mint nft_pallet w m d s = (Ok t, s')" using assms(2) by (simp add: nft_pallet_def)
  have s': "nft_inv s'" "tokens s t = None" "tokens s' t = Some \<lparr>owner = w, metadata = m, token_data = d\<rparr>"
      "\<forall>u. u \<noteq> t \<longrightarrow> tokens s' u = tokens s u"
    using nft_contract.mint_ok [OF assms(1) m] by (simp_all add: nft_pallet_def get_token_data_def)
  then show ?thesis by (auto simp: nft_inv_def is_owner_def)
qed

definition sample_nft :: "nat nft" where
  "sample_nft = \<lparr>next_token_id = 1, tokens = [0 \<mapsto> \<lparr>owner = 7, metadata = [], token_data = 3\<rparr>], tokens_by_owner = {(7, 0)}\<rparr>"

lemma sample_nft_inv: "nft_inv sample_nft"
  by (auto simp: nft_inv_def sample_nft_def split: if_splits)

theorem only_owner_burns_witness: "burn 8 0 sample_nft = (Err (nft_err NoPermission), sample_nft)"
  using only_owner_burns [OF sample_nft_inv, of 8 0] by (simp add: is_owner_def sample_nft_def)

theorem minted_id_is_new_witness: "\<exists>s'. mint 9 [1] 4 sample_nft = (Ok 1, s') \<and> is_owner 9 1 s' \<and> tokens s' 0 = tokens sample_nft 0"
proof -
  obtain s' where m: "mint 9 [1] 4 sample_nft = (Ok 1, s')"
    by (simp add: mint_run sample_nft_def checked_add_def)
  then show ?thesis using minted_id_is_new [OF sample_nft_inv m] by simp
qed

end
