(* ===== verification/App_Core.thy ===== *)
theory App_Core
  imports Channel_Core
begin

text \<open>
  What the applications share: what they ask of the router that takes their outbound messages.
  The router belongs to the runtime, so the requirements are locales here and are interpreted
  where the runtime is put together.  They are apart because the applications need different
  things: all need that the router leaves their own items alone, and those that burn assets
  need to know what it charges for a message.
\<close>

section \<open>The router\<close>

locale router_frame =
  fixes router :: "'s outbound_router" and view :: "'s \<Rightarrow> 'v"
  assumes router_view: "router c w target p s = (Ok (), s') \<Longrightarrow> view s' = view s"

text \<open>A message costs its sender a fee in Ether, at most; no other balance moves.\<close>

definition charged :: "'s multi_asset \<Rightarrow> account_id \<Rightarrow> nat \<Rightarrow> 's \<Rightarrow> 's \<Rightarrow> bool" where
  "charged A w fee s s' \<longleftrightarrow>
     unat (ma_balance A ETH w s) = unat (ma_balance A ETH w s') + fee \<and>
     unat (ma_total_issuance A ETH s) = unat (ma_total_issuance A ETH s') + fee \<and>
     others_kept A ETH {w} s s'"

locale router_fee = multi_asset_laws A inv
  for A :: "'s multi_asset" and inv +
  fixes router :: "'s outbound_router" and sys :: "'s sys_ops"
  assumes router_charge: "inv s \<Longrightarrow> router c w target p s = (Ok (), s') \<Longrightarrow> inv s' \<and> (\<exists>fee. charged A w fee s s')"
    and event_assets: "inv s \<Longrightarrow> inv (deposit_event sys e s) \<and> ma_balance A a v (deposit_event sys e s) = ma_balance A a v s \<and>
      ma_total_issuance A a (deposit_event sys e s) = ma_total_issuance A a s"
begin

text \<open>
  The pattern of every application that burns an asset: withdraw, hand the message to the
  router, report.  Exactly the amount and the fee are gone then.
\<close>

definition burn_pattern :: "asset_id \<Rightarrow> account_id \<Rightarrow> u256 \<Rightarrow> channel_id \<Rightarrow> ('s \<Rightarrow> h160) \<Rightarrow> bytes \<Rightarrow> bridge_event \<Rightarrow> ('s, dispatch_error, unit) ext" where
  "burn_pattern a w x c target p e =
     bind_ext (ma_withdraw A a w x) (\<lambda>_.
     bind_ext (gets target) (\<lambda>t.
     bind_ext (router c w t p) (\<lambda>_. modify (deposit_event sys e))))"

lemma burn_pattern_ok:
  assumes "inv s" "burn_pattern a w x c target p e s = (Ok (), s')"
  shows "inv s' \<and> (\<exists>fee. \<forall>b v.
      unat (ma_balance A b v s) = unat (ma_balance A b v s') +
        (if v = w then (if b = a then unat x else 0) + (if b = ETH then fee else 0) else 0) \<and>
      unat (ma_total_issuance A b s) = unat (ma_total_issuance A b s') +
        ((if b = a then unat x else 0) + (if b = ETH then fee else 0)))"
proof -
  obtain s1 s2 where w: "ma_withdraw A a w x s = (Ok (), s1)" and r: "router c w (target s1) p s1 = (Ok (), s2)"
      and s': "s' = deposit_event sys e s2"
    using assms(2) by (auto simp: burn_pattern_def ok_simps)
  note w' = withdraw_ok [OF assms(1) w]
  obtain fee where f: "inv s2" "charged A w fee s1 s2" using router_charge [OF _ r] w' by blast
  have "inv s'" using event_assets f(1) s' by blast
  moreover have "unat (ma_balance A b v s) = unat (ma_balance A b v s') +
      (if v = w then (if b = a then unat x else 0) + (if b = ETH then fee else 0) else 0)" for b v
    using w' f event_assets [OF f(1)] s' by (auto simp: charged_def others_kept_def split: if_splits)
  moreover have "unat (ma_total_issuance A b s) = unat (ma_total_issuance A b s') +
      ((if b = a then unat x else 0) + (if b = ETH then fee else 0))" for b
    using w' f event_assets [OF f(1)] s' by (auto simp: charged_def others_kept_def split: if_splits)
  ultimately show ?thesis by blast
qed

text \<open>The pattern of every application that mints: deposit and report.\<close>

lemma mint_pattern_ok:
  assumes "inv s" "bind_ext (ma_deposit A a w x) (\<lambda>_. modify (deposit_event sys e)) s = (Ok (), s')"
  shows "inv s' \<and> (\<forall>b v.
      unat (ma_balance A b v s') = unat (ma_balance A b v s) + (if v = w \<and> b = a then unat x else 0) \<and>
      unat (ma_total_issuance A b s') = unat (ma_total_issuance A b s) + (if b = a then unat x else 0))"
proof -
  obtain s1 where d: "ma_deposit A a w x s = (Ok (), s1)" and s': "s' = deposit_event sys e s1"
    using assms(2) by (auto simp: ok_simps)
  note d' = deposit_ok [OF assms(1) d]
  then show ?thesis using event_assets [of s1] s' by (auto simp: others_kept_def)
qed

end

end
