(* ===== verification/Dot_App.thy ===== *)
theory Dot_App
  imports App_Core Currency
begin

text \<open>
  \<open>pallets/dot-app\<close>: the native currency is locked in the pallet's account against wrapped
  tokens on Ethereum, which have 18 decimals, and unlocked when they are burned there.
\<close>

section \<open>Conversion between native and wrapped amounts\<close>

text \<open>\<open>u64::checked_pow(10, 18 - decimals)\<close>; the difference of the two \<open>u32\<close> wraps.\<close>

definition granularity :: "u32 \<Rightarrow> u256 option" where
  "granularity decimals = map_option ucast (checked_pow (10 :: u64) (unat (18 - decimals)))"

text \<open>\<open>primitives::unwrap\<close>; the balance is a \<open>u128\<close>, so that \<open>checked_into\<close> keeps the value.\<close>

definition unwrap_dot :: "u256 \<Rightarrow> u32 \<Rightarrow> u128 option" where
  "unwrap_dot v decimals = (case granularity decimals of
       None \<Rightarrow> None
     | Some g \<Rightarrow> (case checked_div v g of None \<Rightarrow> None | Some unwrapped \<Rightarrow> Some (ucast unwrapped)))"

definition wrap_dot :: "u128 \<Rightarrow> u32 \<Rightarrow> u256 option" where
  "wrap_dot v decimals = (case granularity decimals of
       None \<Rightarrow> None
     | Some g \<Rightarrow> checked_mul (ucast v) g)"

section \<open>The pallet\<close>

record dot_payload =
  dp_sender :: account_id
  dp_recipient :: h160
  dp_amount :: u256

definition dot_payload_encode :: "abi_lib \<Rightarrow> dot_payload \<Rightarrow> bytes" where
  "dot_payload_encode L p = abi_encode_function L ''mint(bytes32,address,uint256)''
     [TFixedBytes (scale_account L (dp_sender p)), TAddress (dp_recipient p), TUint (dp_amount p)]"

record ('s, 'd) dot_config =
  dot_address :: "('s, h160) storage"
  dot_currency :: "'s currency"
  dot_router :: "'s outbound_router"
  dot_call_origin :: "origin \<Rightarrow> (dispatch_error, h160) result"
  dot_account_id :: account_id
  dot_decimals :: u32
  dot_lookup :: "'d \<Rightarrow> account_id option"
  dot_abi :: abi_lib
  dot_sys :: "'s sys_ops"

abbreviation dot_error :: "dot_app_error \<Rightarrow> dispatch_error" where
  "dot_error e \<equiv> Module (DotAppError e)"

definition dot_integrity_test :: "('s, 'd) dot_config \<Rightarrow> bool" where
  "dot_integrity_test cfg = (dot_decimals cfg \<in> set [10, 12])"

definition dot_genesis :: "('s, 'd) dot_config \<Rightarrow> h160 \<Rightarrow> 's \<Rightarrow> 's" where
  "dot_genesis cfg address = sput (dot_address cfg) address"

definition lock :: "('s, 'd) dot_config \<Rightarrow> origin \<Rightarrow> channel_id \<Rightarrow> h160 \<Rightarrow> u128 \<Rightarrow> ('s, dispatch_error, unit) ext" where
  "lock cfg org channel recipient amount = transactional (
     bind_ext (lift_res (ensure_signed org)) (\<lambda>who.
     bind_ext (cur_transfer (dot_currency cfg) who (dot_account_id cfg) amount AllowDeath) (\<lambda>_.
     bind_ext (lift_res (ok_or (dot_error DotOverflow) (wrap_dot amount (dot_decimals cfg)))) (\<lambda>amount_wrapped.
     let message = \<lparr>dp_sender = who, dp_recipient = recipient, dp_amount = amount_wrapped\<rparr> in
     bind_ext (gets (sget (dot_address cfg))) (\<lambda>address.
     bind_ext (dot_router cfg channel who address (dot_payload_encode (dot_abi cfg) message)) (\<lambda>_.
     modify (deposit_event (dot_sys cfg) (Locked who recipient amount))))))))"

definition unlock :: "('s, 'd) dot_config \<Rightarrow> origin \<Rightarrow> h160 \<Rightarrow> 'd \<Rightarrow> u256 \<Rightarrow> ('s, dispatch_error, unit) ext" where
  "unlock cfg org sender recipient amount = transactional (
     bind_ext (lift_res (dot_call_origin cfg org)) (\<lambda>who.
     bind_ext (gets (sget (dot_address cfg))) (\<lambda>address.
     if who \<noteq> address then lift_res (Err BadOrigin)
     else
       bind_ext (lift_res (ok_or (dot_error DotOverflow) (unwrap_dot amount (dot_decimals cfg)))) (\<lambda>amount_unwrapped.
       bind_ext (lift_res (ok_or CannotLookup (dot_lookup cfg recipient))) (\<lambda>recipient'.
       bind_ext (cur_transfer (dot_currency cfg) (dot_account_id cfg) recipient' amount_unwrapped KeepAlive) (\<lambda>_.
       modify (deposit_event (dot_sys cfg) (Unlocked sender recipient' amount_unwrapped))))))))"

section \<open>Conversions\<close>

lemma granularity_le_18:
  assumes "unat d \<le> 18"
  obtains g where "granularity d = Some g" "unat g = 10 ^ (18 - unat d)"
proof -
  have n: "unat (18 - d) = 18 - unat d" using assms by (simp add: unat_sub word_le_nat_alt)
  have le: "(10 :: nat) ^ (18 - unat d) \<le> 10 ^ 18" by (rule power_increasing) simp_all
  then have lt: "(10 :: nat) ^ (18 - unat d) < 2 ^ 64" by simp
  then have g: "granularity d = Some (ucast ((10 :: u64) ^ (18 - unat d)))"
    by (simp add: granularity_def checked_pow_def n)
  have "(10 :: u64) ^ (18 - unat d) = of_nat (10 ^ (18 - unat d))" by simp
  then have "unat ((10 :: u64) ^ (18 - unat d)) = 10 ^ (18 - unat d)"
    using lt by (simp only: unat_of_nat) simp
  then show thesis using that [OF g] lt by (simp add: unat_ucast_mod)
qed

lemma wrap_value:
  assumes d: "unat d \<le> 18"
  obtains w where "wrap_dot x d = Some w" "unat w = unat x * 10 ^ (18 - unat d)"
proof -
  obtain g where g: "granularity d = Some g" "unat g = 10 ^ (18 - unat d)" by (rule granularity_le_18 [OF d])
  have "(10 :: nat) ^ (18 - unat d) \<le> 10 ^ 18" by (rule power_increasing) simp_all
  moreover have "unat x < 2 ^ 128" using unsigned_less [of x, where ?'a = nat] by simp
  ultimately have "unat x * 10 ^ (18 - unat d) \<le> 2 ^ 128 * 10 ^ 18" by (intro mult_mono) simp_all
  then have "unat x * unat g < 2 ^ 256" unfolding g(2) by (rule le_less_trans) simp
  then have "checked_mul (ucast x) g = Some (ucast x * g)" by (simp add: checked_mul_def)
  moreover from this have "unat (ucast x * g) = unat x * unat g" by (simp only: checked_simps) simp
  ultimately show thesis using that [of "ucast x * g"] g by (simp add: wrap_dot_def)
qed

lemma unwrap_value:
  assumes d: "unat d \<le> 18"
  obtains x where "unwrap_dot v d = Some x" "unat x = (unat v div 10 ^ (18 - unat d)) mod 2 ^ 128"
proof -
  obtain g where g: "granularity d = Some g" "unat g = 10 ^ (18 - unat d)" by (rule granularity_le_18 [OF d])
  then have "g \<noteq> 0" by auto
  then have "checked_div v g = Some (v div g)" by (simp add: checked_div_def)
  then have "unwrap_dot v d = Some (ucast (v div g))" using g by (simp add: unwrap_dot_def)
  moreover have "unat (ucast (v div g) :: u128) = (unat v div 10 ^ (18 - unat d)) mod 2 ^ 128"
    using g(2) by (simp add: unat_ucast_mod unat_div_distrib)
  ultimately show thesis using that by blast
qed

lemma wrap_then_unwrap:
  assumes "unat d \<le> 18"
  obtains w where "wrap_dot x d = Some w" "unat w = unat x * 10 ^ (18 - unat d)" "unwrap_dot w d = Some x"
proof -
  obtain w where w: "wrap_dot x d = Some w" "unat w = unat x * 10 ^ (18 - unat d)" by (rule wrap_value [OF assms])
  obtain y where y: "unwrap_dot w d = Some y" "unat y = (unat w div 10 ^ (18 - unat d)) mod 2 ^ 128"
    by (rule unwrap_value [OF assms])
  have "unat y = unat x" using y(2) w(2) unsigned_less [of x, where ?'a = nat] by simp
  then have "y = x" by (simp only: word_unat_eq_iff)
  then show thesis using that w y by simp
qed

text \<open>
  C27. With at most 18 decimals every native amount can be wrapped, is scaled by the right
  power of ten, and is recovered by unwrapping.
\<close>

theorem wrap_unwrap:
  assumes "unat d \<le> 18"
  shows "\<exists>w. wrap_dot x d = Some w \<and> unat w = unat x * 10 ^ (18 - unat d) \<and> unwrap_dot w d = Some x"
  by (rule wrap_then_unwrap [OF assms]) blast

theorem wrap_unwrap_witness: "\<exists>w. wrap_dot 7 10 = Some w \<and> unat w = 700000000 \<and> unwrap_dot w 10 = Some 7"
  using wrap_unwrap [of 10 7] by simp

text \<open>
  C28. With at most 18 decimals unwrapping never fails: it returns the scaled amount modulo
  2^128, which is less than the scaled amount whenever that does not fit into 128 bits.
\<close>

theorem unwrap_drops_high_bits:
  assumes "unat d \<le> 18"
  shows "\<exists>x. unwrap_dot v d = Some x \<and> unat x = (unat v div 10 ^ (18 - unat d)) mod 2 ^ 128 \<and>
    (2 ^ 128 \<le> unat v div 10 ^ (18 - unat d) \<longrightarrow> unat x < unat v div 10 ^ (18 - unat d))"
proof -
  obtain x where x: "unwrap_dot v d = Some x" "unat x = (unat v div 10 ^ (18 - unat d)) mod 2 ^ 128" by (rule unwrap_value [OF assms])
  moreover have "n mod 2 ^ 128 < n" if "2 ^ 128 \<le> n" for n :: nat
    by (rule less_le_trans [OF mod_less_divisor that]) simp
  ultimately show ?thesis by (auto simp: x)
qed

theorem unwrap_drops_high_bits_witness:
  "unwrap_dot (2 ^ 128 * 10 ^ 8 + 10 ^ 8) 10 = Some 1"
  using unwrap_drops_high_bits [of 10 "2 ^ 128 * 10 ^ 8 + 10 ^ 8"] by (auto simp: word_unat_eq_iff)

section \<open>Locking and unlocking\<close>

lemma lock_Ok:
  "lock cfg org c recipient x s = (Ok (), s') \<longleftrightarrow>
     (\<exists>who w t u. org = Signed who \<and> cur_transfer (dot_currency cfg) who (dot_account_id cfg) x AllowDeath s = (Ok (), t) \<and>
        wrap_dot x (dot_decimals cfg) = Some w \<and>
        dot_router cfg c who (sget (dot_address cfg) t) (dot_payload_encode (dot_abi cfg)
          \<lparr>dp_sender = who, dp_recipient = recipient, dp_amount = w\<rparr>) t = (Ok (), u) \<and>
        s' = deposit_event (dot_sys cfg) (Locked who recipient x) u)"
  unfolding lock_def by (auto simp: ok_simps Let_def)

lemma unlock_Ok:
  "unlock cfg org sender recipient v s = (Ok (), s') \<longleftrightarrow>
     (\<exists>x w t. dot_call_origin cfg org = Ok (sget (dot_address cfg) s) \<and> unwrap_dot v (dot_decimals cfg) = Some x \<and>
        dot_lookup cfg recipient = Some w \<and> cur_transfer (dot_currency cfg) (dot_account_id cfg) w x KeepAlive s = (Ok (), t) \<and>
        s' = deposit_event (dot_sys cfg) (Unlocked sender w x) t)"
  unfolding unlock_def by (auto simp: ok_simps split: if_splits)

text \<open>What locking and unlocking do to the balances, in a runtime whose router does not touch them.\<close>

locale dot_env = router_frame "dot_router cfg" "\<lambda>s v. cur_free (dot_currency cfg) v s"
  for cfg :: "('s, 'd) dot_config" +
  assumes event_free: "cur_free (dot_currency cfg) v (deposit_event (dot_sys cfg) e s) = cur_free (dot_currency cfg) v s"
begin

lemma lock_moves:
  assumes C: "transfer_law (dot_currency cfg)" and run: "lock cfg (Signed who) c recipient x s = (Ok (), s')"
    and who: "who \<noteq> dot_account_id cfg"
  shows "(\<exists>dust. unat (cur_free (dot_currency cfg) who s) = unat (cur_free (dot_currency cfg) who s') + unat x + unat dust \<and>
      (dust = 0 \<or> dust < cur_minimum_balance (dot_currency cfg) \<and> cur_free (dot_currency cfg) who s' = 0)) \<and>
    unat (cur_free (dot_currency cfg) (dot_account_id cfg) s') = unat (cur_free (dot_currency cfg) (dot_account_id cfg) s) + unat x \<and>
    unmoved (dot_currency cfg) {who, dot_account_id cfg} s s'"
proof -
  obtain w t u where t: "cur_transfer (dot_currency cfg) who (dot_account_id cfg) x AllowDeath s = (Ok (), t)"
      and u: "dot_router cfg c who (sget (dot_address cfg) t) (dot_payload_encode (dot_abi cfg)
        \<lparr>dp_sender = who, dp_recipient = recipient, dp_amount = w\<rparr>) t = (Ok (), u)"
      and s': "s' = deposit_event (dot_sys cfg) (Locked who recipient x) u"
    using run unfolding lock_Ok by auto
  have "cur_free (dot_currency cfg) v s' = cur_free (dot_currency cfg) v t" for v
    using router_view [OF u] s' event_free by metis
  then show ?thesis using C t who unfolding transfer_law_def by (fastforce simp: unmoved_def)
qed

lemma unlock_moves:
  assumes C: "transfer_law (dot_currency cfg)" and run: "unlock cfg org sender recipient v s = (Ok (), s')"
    and w: "dot_lookup cfg recipient = Some w" "w \<noteq> dot_account_id cfg" and d: "unat (dot_decimals cfg) \<le> 18"
    and v: "unat v div 10 ^ (18 - unat (dot_decimals cfg)) < 2 ^ 128"
  shows "unat (cur_free (dot_currency cfg) w s') =
      unat (cur_free (dot_currency cfg) w s) + unat v div 10 ^ (18 - unat (dot_decimals cfg)) \<and>
    unat (cur_free (dot_currency cfg) (dot_account_id cfg) s) =
      unat (cur_free (dot_currency cfg) (dot_account_id cfg) s') + unat v div 10 ^ (18 - unat (dot_decimals cfg)) \<and>
    unmoved (dot_currency cfg) {w, dot_account_id cfg} s s'"
proof -
  obtain x where x: "unwrap_dot v (dot_decimals cfg) = Some x" "unat x = (unat v div 10 ^ (18 - unat (dot_decimals cfg))) mod 2 ^ 128"
    by (rule unwrap_value [OF d])
  then obtain t where t: "cur_transfer (dot_currency cfg) (dot_account_id cfg) w x KeepAlive s = (Ok (), t)"
      and s': "s' = deposit_event (dot_sys cfg) (Unlocked sender w x) t"
    using run w(1) unfolding unlock_Ok by auto
  have "unat x = unat v div 10 ^ (18 - unat (dot_decimals cfg))" using x(2) v by simp
  moreover have "cur_free (dot_currency cfg) v s' = cur_free (dot_currency cfg) v t" for v
    using s' event_free by simp
  ultimately show ?thesis using C t w(2) unfolding transfer_law_def by (fastforce simp: unmoved_def)
qed

end

lemma only_peer_unlocks:
  assumes "unlock cfg org sender recipient v s = (r, s')"
  shows "(r = Ok () \<longrightarrow> dot_call_origin cfg org = Ok (sget (dot_address cfg) s)) \<and> (r \<noteq> Ok () \<longrightarrow> s' = s)"
proof -
  have "r \<noteq> Ok () \<Longrightarrow> s' = s"
    using assms transactional_not_Ok unfolding unlock_def by (cases r) fastforce+
  then show ?thesis using assms unlock_Ok [of cfg org sender recipient v s s'] by auto
qed

end
