(* ===== verification/Assets_Pallet.thy ===== *)
theory Assets_Pallet
  imports Bridge_Core
begin

text \<open>
  \<open>pallets/assets\<close>: issuance and balances of bridged assets, with the operations of the
  traits \<open>MultiAsset\<close> and \<open>SingleAsset\<close>, the extrinsic \<open>transfer\<close> and the genesis build.  The
  invariant is that the balances of an asset sum up to its total issuance.
\<close>

section \<open>State and operations\<close>

record assets =
  total_issuance :: "asset_id \<Rightarrow> u256"
  balances :: "asset_id \<Rightarrow> account_id \<Rightarrow> u256"

definition empty_assets :: assets where
  "empty_assets = \<lparr>total_issuance = (\<lambda>_. 0), balances = (\<lambda>_ _. 0)\<rparr>"

abbreviation assets_error :: "assets_error \<Rightarrow> dispatch_error" where
  "assets_error e \<equiv> Module (AssetsError e)"

text \<open>The items \<open>Balances(asset, who)\<close> and \<open>TotalIssuance(asset)\<close>.\<close>

definition balance_item :: "asset_id \<Rightarrow> account_id \<Rightarrow> (assets, u256) storage" where
  "balance_item a w = \<lparr>sget = (\<lambda>s. balances s a w),
     sput = (\<lambda>v s. s\<lparr>balances := (balances s)(a := (balances s a)(w := v))\<rparr>)\<rparr>"

definition put_issuance :: "asset_id \<Rightarrow> u256 \<Rightarrow> assets \<Rightarrow> assets" where
  "put_issuance a v s = s\<lparr>total_issuance := (total_issuance s)(a := v)\<rparr>"

definition deposit :: "asset_id \<Rightarrow> account_id \<Rightarrow> u256 \<Rightarrow> (assets, dispatch_error, unit) ext" where
  "deposit a who amount =
     (if amount = 0 then ret ()
      else try_mutate (balance_item a who) (\<lambda>balance.
        bind_ext (gets (\<lambda>s. total_issuance s a)) (\<lambda>current_total_issuance.
        bind_ext (lift_res (ok_or (assets_error TotalIssuanceOverflow) (checked_add current_total_issuance amount)))
          (\<lambda>new_total_issuance.
        bind_ext (lift_res (ok_or (assets_error BalanceOverflow) (checked_add balance amount))) (\<lambda>balance'.
        bind_ext (modify (put_issuance a new_total_issuance)) (\<lambda>_.
        ret ((), balance')))))))"

definition withdraw :: "asset_id \<Rightarrow> account_id \<Rightarrow> u256 \<Rightarrow> (assets, dispatch_error, unit) ext" where
  "withdraw a who amount =
     (if amount = 0 then ret ()
      else try_mutate (balance_item a who) (\<lambda>balance.
        bind_ext (gets (\<lambda>s. total_issuance s a)) (\<lambda>current_total_issuance.
        bind_ext (lift_res (ok_or (assets_error TotalIssuanceUnderflow) (checked_sub current_total_issuance amount)))
          (\<lambda>new_total_issuance.
        bind_ext (lift_res (ok_or (assets_error InsufficientBalance) (checked_sub balance amount))) (\<lambda>balance'.
        bind_ext (modify (put_issuance a new_total_issuance)) (\<lambda>_.
        ret ((), balance')))))))"

definition transfer :: "asset_id \<Rightarrow> account_id \<Rightarrow> account_id \<Rightarrow> u256 \<Rightarrow> (assets, dispatch_error, unit) ext" where
  "transfer a src dest amount =
     (if amount = 0 \<or> src = dest then ret ()
      else try_mutate (balance_item a src) (\<lambda>from_balance.
        bind_ext (try_mutate (balance_item a dest) (\<lambda>to_balance.
          bind_ext (lift_res (ok_or (assets_error InsufficientBalance) (checked_sub from_balance amount))) (\<lambda>from_balance'.
          bind_ext (lift_res (ok_or (assets_error BalanceOverflow) (checked_add to_balance amount))) (\<lambda>to_balance'.
          ret (from_balance', to_balance'))))) (\<lambda>from_balance'.
        ret ((), from_balance'))))"

text \<open>The extrinsic; \<open>lookup\<close> is the runtime's \<open>Lookup\<close>, which may not know the destination.\<close>

definition transfer_call ::
  "('d \<Rightarrow> account_id option) \<Rightarrow> origin \<Rightarrow> asset_id \<Rightarrow> 'd \<Rightarrow> u256 \<Rightarrow> (assets, dispatch_error, unit) ext" where
  "transfer_call lookup org a dest amount =
     bind_ext (lift_res (ensure_signed org)) (\<lambda>who.
     bind_ext (lift_res (ok_or CannotLookup (lookup dest))) (\<lambda>dest'.
     transfer a who dest' amount))"

fun assets_genesis :: "(asset_id \<times> account_id \<times> u256) list \<Rightarrow> (assets, dispatch_error, unit) ext" where
  "assets_genesis [] = ret ()"
| "assets_genesis ((a, who, amount) # rest) =
     bind_ext (gets (\<lambda>s. total_issuance s a)) (\<lambda>ti.
     bind_ext (lift_res (unwrap (checked_add ti amount))) (\<lambda>ti'.
     bind_ext (modify (put_issuance a ti')) (\<lambda>_.
     bind_ext (modify (sput (balance_item a who) amount)) (\<lambda>_.
     assets_genesis rest))))"

text \<open>The pallet as a \<open>MultiAsset\<close>, and \<open>SingleAssetAdaptor\<close>.\<close>

definition assets_multi :: "assets multi_asset" where
  "assets_multi = \<lparr>ma_total_issuance = (\<lambda>a s. total_issuance s a), ma_balance = (\<lambda>a w s. balances s a w),
     ma_transfer = transfer, ma_withdraw = withdraw, ma_deposit = deposit\<rparr>"

definition single_asset_adaptor :: "'s multi_asset \<Rightarrow> asset_id \<Rightarrow> 's single_asset" where
  "single_asset_adaptor A a = \<lparr>sa_total_issuance = ma_total_issuance A a, sa_balance = ma_balance A a,
     sa_transfer = ma_transfer A a, sa_withdraw = ma_withdraw A a, sa_deposit = ma_deposit A a\<rparr>"

section \<open>What the operations do, branch by branch\<close>

abbreviation set_balance :: "asset_id \<Rightarrow> account_id \<Rightarrow> u256 \<Rightarrow> assets \<Rightarrow> assets" where
  "set_balance a w \<equiv> sput (balance_item a w)"

interpretation balance: storage_item "balance_item a w" for a w
  by unfold_locales (simp_all add: balance_item_def)

lemma balance_item_simps [simp]:
  "sget (balance_item a w) s = balances s a w"
  "balances (set_balance a w v s) = (balances s)(a := (balances s a)(w := v))"
  "total_issuance (set_balance a w v s) = total_issuance s"
  "balances (put_issuance a v s) = balances s"
  "total_issuance (put_issuance a v s) = (total_issuance s)(a := v)"
  by (simp_all add: balance_item_def put_issuance_def)

lemma deposit_run:
  "deposit a w x s =
     (if x = 0 then (Ok (), s)
      else case checked_add (total_issuance s a) x of
        None \<Rightarrow> (Err (assets_error TotalIssuanceOverflow), s)
      | Some ti \<Rightarrow> (case checked_add (balances s a w) x of
          None \<Rightarrow> (Err (assets_error BalanceOverflow), s)
        | Some b \<Rightarrow> (Ok (), set_balance a w b (put_issuance a ti s))))"
  by (auto simp: deposit_def try_mutate_def ext_simps split: option.splits)

lemma withdraw_run:
  "withdraw a w x s =
     (if x = 0 then (Ok (), s)
      else case checked_sub (total_issuance s a) x of
        None \<Rightarrow> (Err (assets_error TotalIssuanceUnderflow), s)
      | Some ti \<Rightarrow> (case checked_sub (balances s a w) x of
          None \<Rightarrow> (Err (assets_error InsufficientBalance), s)
        | Some b \<Rightarrow> (Ok (), set_balance a w b (put_issuance a ti s))))"
  by (auto simp: withdraw_def try_mutate_def ext_simps split: option.splits)

lemma transfer_run:
  "transfer a w v x s =
     (if x = 0 \<or> w = v then (Ok (), s)
      else case checked_sub (balances s a w) x of
        None \<Rightarrow> (Err (assets_error InsufficientBalance), s)
      | Some b \<Rightarrow> (case checked_add (balances s a v) x of
          None \<Rightarrow> (Err (assets_error BalanceOverflow), s)
        | Some c \<Rightarrow> (Ok (), set_balance a w b (set_balance a v c s))))"
  by (auto simp: transfer_def try_mutate_def ext_simps split: option.splits)

section \<open>Conservation\<close>

definition assets_inv :: "assets \<Rightarrow> bool" where
  "assets_inv s \<longleftrightarrow> (\<forall>a. (\<Sum>w\<in>UNIV. unat (balances s a w)) = unat (total_issuance s a))"

lemma sum_balance_upd:
  fixes f :: "account_id \<Rightarrow> u256"
  shows "(\<Sum>v\<in>UNIV. unat ((f(w := b)) v)) + unat (f w) = (\<Sum>v\<in>UNIV. unat (f v)) + unat b"
proof -
  have "(\<Sum>v\<in>UNIV - {w}. unat ((f(w := b)) v)) = (\<Sum>v\<in>UNIV - {w}. unat (f v))" by (rule sum.cong) auto
  then show ?thesis by (simp add: sum.remove [of UNIV w])
qed

lemma balance_le_sum: "unat (balances s a w) \<le> (\<Sum>v\<in>UNIV. unat (balances s a v))"
  by (rule member_le_sum) simp_all

lemma balance_le: "assets_inv s \<Longrightarrow> unat (balances s a w) \<le> unat (total_issuance s a)"
  using balance_le_sum [of s a w] by (simp add: assets_inv_def)

lemma two_balances_le:
  assumes "assets_inv s" "w \<noteq> v"
  shows "unat (balances s a w) + unat (balances s a v) \<le> unat (total_issuance s a)"
proof -
  have "(\<Sum>u\<in>{w, v}. unat (balances s a u)) \<le> (\<Sum>u\<in>UNIV. unat (balances s a u))" by (rule sum_mono2) simp_all
  then show ?thesis using assms by (simp add: assets_inv_def)
qed

lemma empty_assets_inv: "assets_inv empty_assets"
  by (simp add: assets_inv_def empty_assets_def)

lemma set_issued_inv:
  assumes "assets_inv s" "unat ti + unat (balances s a w) = unat (total_issuance s a) + unat b"
  shows "assets_inv (set_balance a w b (put_issuance a ti s))"
  using assms sum_balance_upd [of "balances s a" w b] by (auto simp: assets_inv_def)

lemma moved_inv:
  assumes "assets_inv s" "w \<noteq> v" "unat b + unat c = unat (balances s a w) + unat (balances s a v)"
  shows "assets_inv (set_balance a w b (set_balance a v c s))"
  using assms sum_balance_upd [of "(balances s a)(v := c)" w b] sum_balance_upd [of "balances s a" v c]
  by (auto simp: assets_inv_def)

lemmas assets_runs = deposit_run withdraw_run transfer_run

interpretation assets_laws: multi_asset_laws assets_multi assets_inv
proof unfold_locales
  fix s s' a w x
  assume "assets_inv s" "ma_deposit assets_multi a w x s = (Ok (), s')"
  then show "assets_inv s' \<and> unat (ma_balance assets_multi a w s') = unat (ma_balance assets_multi a w s) + unat x \<and>
      unat (ma_total_issuance assets_multi a s') = unat (ma_total_issuance assets_multi a s) + unat x \<and>
      others_kept assets_multi a {w} s s'"
    by (auto simp: assets_multi_def deposit_run checked_simps others_kept_def intro!: set_issued_inv
        split: if_splits option.splits)
next
  fix s s' a w x
  assume "assets_inv s" "ma_withdraw assets_multi a w x s = (Ok (), s')"
  then show "assets_inv s' \<and> unat (ma_balance assets_multi a w s) = unat (ma_balance assets_multi a w s') + unat x \<and>
      unat (ma_total_issuance assets_multi a s) = unat (ma_total_issuance assets_multi a s') + unat x \<and>
      others_kept assets_multi a {w} s s'"
    by (auto simp: assets_multi_def withdraw_run checked_simps others_kept_def intro!: set_issued_inv
        split: if_splits option.splits)
next
  fix s s' a w v x
  assume "assets_inv s" "ma_transfer assets_multi a w v x s = (Ok (), s')" "w \<noteq> v"
  then show "assets_inv s' \<and> unat (ma_balance assets_multi a w s) = unat (ma_balance assets_multi a w s') + unat x \<and>
      unat (ma_balance assets_multi a v s') = unat (ma_balance assets_multi a v s) + unat x \<and>
      ma_total_issuance assets_multi a s' = ma_total_issuance assets_multi a s \<and> others_kept assets_multi a {w, v} s s'"
    by (auto simp: assets_multi_def transfer_run checked_simps others_kept_def intro!: moved_inv
        split: if_splits option.splits)
next
  fix s :: assets and x :: u256 and a w
  assume i: "assets_inv s" and x: "unat x \<le> unat (ma_balance assets_multi a w s)"
  then show "fst (ma_withdraw assets_multi a w x s) = Ok ()"
    using balance_le [OF i, of a w] by (auto simp: assets_multi_def withdraw_run checked_simps split: option.splits)
next
  fix s :: assets and x :: u256 and a w
  assume i: "assets_inv s" and x: "unat (ma_total_issuance assets_multi a s) + unat x < 2 ^ 256"
  then show "fst (ma_deposit assets_multi a w x s) = Ok ()"
    using balance_le [OF i, of a w] by (auto simp: assets_multi_def deposit_run checked_simps split: option.splits)
next
  fix s a
  assume "assets_inv s"
  then show "issuance_sum assets_multi a s = unat (ma_total_issuance assets_multi a s)"
    by (simp add: issuance_sum_def assets_multi_def assets_inv_def)
qed (auto simp: assets_multi_def assets_runs split: if_splits option.splits)

text \<open>One asset of a registry is a \<open>SingleAsset\<close>.\<close>

sublocale multi_asset_laws \<subseteq> single: single_asset_laws "single_asset_adaptor A a" inv for a
proof unfold_locales
  fix s s' w x
  assume "inv s" "sa_deposit (single_asset_adaptor A a) w x s = (Ok (), s')"
  then show "inv s' \<and> unat (sa_balance (single_asset_adaptor A a) w s') = unat (sa_balance (single_asset_adaptor A a) w s) + unat x \<and>
      unat (sa_total_issuance (single_asset_adaptor A a) s') = unat (sa_total_issuance (single_asset_adaptor A a) s) + unat x \<and>
      (\<forall>v. v \<noteq> w \<longrightarrow> sa_balance (single_asset_adaptor A a) v s' = sa_balance (single_asset_adaptor A a) v s)"
    using deposit_ok by (auto simp: single_asset_adaptor_def others_kept_def)
next
  fix s s' w x
  assume "inv s" "sa_withdraw (single_asset_adaptor A a) w x s = (Ok (), s')"
  then show "inv s' \<and> unat (sa_balance (single_asset_adaptor A a) w s) = unat (sa_balance (single_asset_adaptor A a) w s') + unat x \<and>
      unat (sa_total_issuance (single_asset_adaptor A a) s) = unat (sa_total_issuance (single_asset_adaptor A a) s') + unat x \<and>
      (\<forall>v. v \<noteq> w \<longrightarrow> sa_balance (single_asset_adaptor A a) v s' = sa_balance (single_asset_adaptor A a) v s)"
    using withdraw_ok by (auto simp: single_asset_adaptor_def others_kept_def)
qed (auto simp: single_asset_adaptor_def dest: deposit_err withdraw_err intro: withdraw_enough)

section \<open>The registry inside a larger storage\<close>

definition zoom_multi :: "('s, 'v) storage \<Rightarrow> 'v multi_asset \<Rightarrow> 's multi_asset" where
  "zoom_multi st A = \<lparr>ma_total_issuance = (\<lambda>a s. ma_total_issuance A a (sget st s)),
     ma_balance = (\<lambda>a w s. ma_balance A a w (sget st s)),
     ma_transfer = (\<lambda>a w v x. zoom st (ma_transfer A a w v x)),
     ma_withdraw = (\<lambda>a w x. zoom st (ma_withdraw A a w x)),
     ma_deposit = (\<lambda>a w x. zoom st (ma_deposit A a w x))\<rparr>"

locale stored_assets = storage_item st + multi_asset_laws A inv
  for st :: "('s, 'v) storage" and A :: "'v multi_asset" and inv
begin

lemma zoom_moves:
  assumes "zoom st m s = (r, s')"
  obtains t where "m (sget st s) = (r, t)" "s' = sput st t s" "sget st s' = t"
  using assms by (cases "m (sget st s)") (auto simp: zoom_def get_put)

lemma zoom_unmoved: "(\<And>t r t'. m t = (r, t') \<Longrightarrow> r = Ok () \<or> (\<exists>e. r = Err e) \<and> t' = t) \<Longrightarrow>
    zoom st m s = (r, s') \<Longrightarrow> r = Ok () \<or> (\<exists>e. r = Err e) \<and> s' = s"
  by (erule zoom_moves) (metis put_get)

end

sublocale stored_assets \<subseteq> whole: multi_asset_laws "zoom_multi st A" "\<lambda>s. inv (sget st s)"
proof unfold_locales
  fix s s' a w x
  assume i: "inv (sget st s)" and run: "ma_deposit (zoom_multi st A) a w x s = (Ok (), s')"
  then obtain t where "ma_deposit A a w x (sget st s) = (Ok (), t)" "sget st s' = t"
    by (auto simp: zoom_multi_def elim: zoom_moves)
  with deposit_ok [OF i] show "inv (sget st s') \<and>
      unat (ma_balance (zoom_multi st A) a w s') = unat (ma_balance (zoom_multi st A) a w s) + unat x \<and>
      unat (ma_total_issuance (zoom_multi st A) a s') = unat (ma_total_issuance (zoom_multi st A) a s) + unat x \<and>
      others_kept (zoom_multi st A) a {w} s s'"
    by (simp add: zoom_multi_def others_kept_def)
next
  fix s s' a w x
  assume i: "inv (sget st s)" and run: "ma_withdraw (zoom_multi st A) a w x s = (Ok (), s')"
  then obtain t where "ma_withdraw A a w x (sget st s) = (Ok (), t)" "sget st s' = t"
    by (auto simp: zoom_multi_def elim: zoom_moves)
  with withdraw_ok [OF i] show "inv (sget st s') \<and>
      unat (ma_balance (zoom_multi st A) a w s) = unat (ma_balance (zoom_multi st A) a w s') + unat x \<and>
      unat (ma_total_issuance (zoom_multi st A) a s) = unat (ma_total_issuance (zoom_multi st A) a s') + unat x \<and>
      others_kept (zoom_multi st A) a {w} s s'"
    by (simp add: zoom_multi_def others_kept_def)
next
  fix s s' a w v x
  assume i: "inv (sget st s)" and run: "ma_transfer (zoom_multi st A) a w v x s = (Ok (), s')" and ne: "w \<noteq> v"
  then obtain t where "ma_transfer A a w v x (sget st s) = (Ok (), t)" "sget st s' = t"
    by (auto simp: zoom_multi_def elim: zoom_moves)
  with transfer_ok [OF i _ ne] show "inv (sget st s') \<and>
      unat (ma_balance (zoom_multi st A) a w s) = unat (ma_balance (zoom_multi st A) a w s') + unat x \<and>
      unat (ma_balance (zoom_multi st A) a v s') = unat (ma_balance (zoom_multi st A) a v s) + unat x \<and>
      ma_total_issuance (zoom_multi st A) a s' = ma_total_issuance (zoom_multi st A) a s \<and>
      others_kept (zoom_multi st A) a {w, v} s s'"
    by (simp add: zoom_multi_def others_kept_def)
next
  fix a w x s r s'
  assume "ma_deposit (zoom_multi st A) a w x s = (r, s')"
  then show "r = Ok () \<or> (\<exists>e. r = Err e) \<and> s' = s"
    using zoom_unmoved [of "ma_deposit A a w x"] deposit_err by (simp add: zoom_multi_def)
next
  fix a w x s r s'
  assume "ma_withdraw (zoom_multi st A) a w x s = (r, s')"
  then show "r = Ok () \<or> (\<exists>e. r = Err e) \<and> s' = s"
    using zoom_unmoved [of "ma_withdraw A a w x"] withdraw_err by (simp add: zoom_multi_def)
next
  fix a w v x s r s'
  assume "ma_transfer (zoom_multi st A) a w v x s = (r, s')"
  then show "r = Ok () \<or> (\<exists>e. r = Err e) \<and> s' = s"
    using zoom_unmoved [of "ma_transfer A a w v x"] transfer_err by (simp add: zoom_multi_def)
next
  fix s and x :: u256 and a w
  assume "inv (sget st s)" "unat x \<le> unat (ma_balance (zoom_multi st A) a w s)"
  then show "fst (ma_withdraw (zoom_multi st A) a w x s) = Ok ()"
    using withdraw_enough [of "sget st s" x a w] by (simp add: zoom_multi_def fst_zoom)
next
  fix s and x :: u256 and a w
  assume "inv (sget st s)" "unat (ma_total_issuance (zoom_multi st A) a s) + unat x < 2 ^ 256"
  then show "fst (ma_deposit (zoom_multi st A) a w x s) = Ok ()"
    using deposit_fits [of "sget st s" a x w] by (simp add: zoom_multi_def fst_zoom)
qed (simp_all add: zoom_multi_def zoom_def transfer_self put_get issuance_sum_def
    issuance_law [unfolded issuance_sum_def])

section \<open>Properties of the pallet\<close>

theorem assets_keep_issuance:
  "keeps assets_inv (deposit a w x) \<and> keeps assets_inv (withdraw a w x) \<and>
   keeps assets_inv (transfer_call lk org a d x)"
proof -
  have "keeps assets_inv (transfer a w v x)" for a w v x
    using assets_laws.transfer_keeps by (simp add: assets_multi_def)
  then have "keeps assets_inv (transfer_call lk org a d x)"
    unfolding transfer_call_def by (intro keeps_rules)
  then show ?thesis
    using assets_laws.deposit_keeps assets_laws.withdraw_keeps by (simp add: assets_multi_def)
qed

text \<open>
  C38. On assets whose balances add up to the issuance, a transfer between different
  accounts moves exactly the amount and changes nothing else, or fails with
  InsufficientBalance, exactly when the sender has less, and changes nothing: the error for
  an overflow of the recipient does not occur.
\<close>

theorem transfer_correct:
  assumes "assets_inv s" "w \<noteq> v"
  shows "transfer a w v x s =
    (if balances s a w < x then (Err (assets_error InsufficientBalance), s)
     else (Ok (), s\<lparr>balances := (balances s)(a := (balances s a)
            (w := balances s a w - x, v := balances s a v + x))\<rparr>))"
proof (cases "balances s a w < x")
  case True
  then have "x \<noteq> 0" "checked_sub (balances s a w) x = None" by (auto simp: checked_sub_def)
  then show ?thesis using True assms(2) by (simp add: transfer_run)
next
  case False
  then have le: "x \<le> balances s a w" by simp
  then have "unat x \<le> unat (balances s a w)" by (simp add: word_le_nat_alt)
  then have "unat (balances s a v) + unat x < 2 ^ 256"
    using two_balances_le [OF assms, of a] unsigned_less [of "total_issuance s a", where ?'a = nat] by simp
  then have "checked_add (balances s a v) x = Some (balances s a v + x)"
    "checked_sub (balances s a w) x = Some (balances s a w - x)"
    using le by (simp_all add: checked_add_def checked_sub_def)
  then show ?thesis
    using False assms(2) by (cases "x = 0") (auto simp: transfer_run balance_item_def fun_upd_twist)
qed

theorem deposit_then_withdraw:
  assumes "deposit a w x s = (Ok (), s')"
  shows "withdraw a w x s' = (Ok (), s)"
proof (cases "x = 0")
  case True
  then show ?thesis using assms by (simp add: assets_runs)
next
  case False
  then obtain ti b where d: "checked_add (total_issuance s a) x = Some ti" "checked_add (balances s a w) x = Some b"
      "s' = set_balance a w b (put_issuance a ti s)"
    using assms by (auto simp: deposit_run split: option.splits)
  then have "checked_sub ti x = Some (total_issuance s a)" "checked_sub b x = Some (balances s a w)"
    by (simp_all add: checked_simps)
  then show ?thesis using False d(3) by (simp add: withdraw_run balance_item_def put_issuance_def)
qed

lemma genesis_distinct_inv:
  assumes "assets_genesis es s = (Ok (), s')" "assets_inv s" "distinct (map (\<lambda>(a, w, x). (a, w)) es)"
    and "\<And>a w x. (a, w, x) \<in> set es \<Longrightarrow> balances s a w = 0"
  shows "assets_inv s'"
  using assms
proof (induction es arbitrary: s)
  case (Cons e es)
  obtain a w x where e: "e = (a, w, x)" by (cases e)
  from Cons.prems(1) obtain ti where ti: "checked_add (total_issuance s a) x = Some ti"
    and rest: "assets_genesis es (set_balance a w x (put_issuance a ti s)) = (Ok (), s')"
    by (auto simp: e ok_simps)
  have "unat ti = unat (total_issuance s a) + unat x" using ti by (simp add: checked_simps)
  then have inv: "assets_inv (set_balance a w x (put_issuance a ti s))"
    using Cons.prems(2) Cons.prems(4) [of a w x] by (intro set_issued_inv) (simp_all add: e)
  have fresh: "balances (set_balance a w x (put_issuance a ti s)) b v = 0" if "(b, v, y) \<in> set es" for b v y
  proof -
    have "(b, v) \<noteq> (a, w)" using Cons.prems(3) that unfolding e by force
    then show ?thesis using Cons.prems(4) [of b v y] that by auto
  qed
  show ?case using Cons.IH [OF rest inv _ fresh] Cons.prems(3) by simp
qed (simp add: ret_def)

theorem genesis_keeps_issuance:
  assumes "assets_genesis es empty_assets = (Ok (), s')" "distinct (map (\<lambda>(a, w, x). (a, w)) es)"
  shows "assets_inv s'"
  by (rule genesis_distinct_inv [OF assms(1) empty_assets_inv assms(2)]) (simp add: empty_assets_def)

theorem genesis_duplicate_entry:
  "\<exists>s. assets_genesis [(ETH, 1, 5), (ETH, 1, 7)] empty_assets = (Ok (), s) \<and>
     total_issuance s ETH = 12 \<and> (\<Sum>w\<in>UNIV. unat (balances s ETH w)) = 7"
proof -
  let ?s = "set_balance ETH 1 7 (put_issuance ETH 12 (set_balance ETH 1 5 (put_issuance ETH 5 empty_assets)))"
  have "assets_genesis [(ETH, 1, 5), (ETH, 1, 7)] empty_assets = (Ok (), ?s)"
    by (simp add: ext_simps checked_add_def empty_assets_def)
  moreover have "total_issuance ?s ETH = 12" by simp
  moreover have "balances ?s ETH = (\<lambda>_. 0)(1 := 7)" by (simp add: empty_assets_def)
  then have "(\<Sum>w\<in>UNIV. unat (balances ?s ETH w)) = 7"
    using sum_balance_upd [of "\<lambda>_. 0" 1 7] by simp
  ultimately show ?thesis by blast
qed

definition sample_assets :: assets where
  "sample_assets = set_balance ETH 1 5 (put_issuance ETH 5 empty_assets)"

lemma sample_assets_inv: "assets_inv sample_assets"
  unfolding sample_assets_def by (rule set_issued_inv [OF empty_assets_inv]) (simp add: empty_assets_def)

theorem transfer_correct_witness:
  "\<exists>s. transfer ETH 1 2 3 sample_assets = (Ok (), s) \<and> balances s ETH 1 = 2 \<and> balances s ETH 2 = 3"
  using transfer_correct [OF sample_assets_inv, of 1 2 ETH 3] by (simp add: sample_assets_def empty_assets_def)

theorem deposit_then_withdraw_witness:
  "\<exists>s'. deposit ETH 1 9 sample_assets = (Ok (), s') \<and> withdraw ETH 1 9 s' = (Ok (), sample_assets)"
proof -
  have "\<exists>s'. deposit ETH 1 9 sample_assets = (Ok (), s')"
    by (simp add: deposit_run checked_add_def sample_assets_def empty_assets_def)
  then show ?thesis using deposit_then_withdraw by blast
qed

theorem genesis_keeps_issuance_witness:
  "\<exists>s'. assets_genesis [(ETH, 1, 5), (Token 9, 1, 7)] empty_assets = (Ok (), s') \<and> assets_inv s'"
proof -
  have "\<exists>s'. assets_genesis [(ETH, 1, 5), (Token 9, 1, 7)] empty_assets = (Ok (), s')"
    by (simp add: ext_simps checked_add_def empty_assets_def)
  then show ?thesis using genesis_keeps_issuance [of "[(ETH, 1, 5), (Token 9, 1, 7)]"] by auto
qed

end
