(* ===== verification/Eth_App.thy ===== *)
theory Eth_App
  imports App_Core Assets_Pallet
begin

text \<open>
  \<open>pallets/eth-app\<close>: wrapped Ether.  Burning it here sends a message that unlocks Ether on
  Ethereum; a message of the peer contract mints it.
\<close>

section \<open>The pallet\<close>

record eth_payload =
  ep_sender :: account_id
  ep_recipient :: h160
  ep_amount :: u256

definition eth_payload_encode :: "abi_lib \<Rightarrow> eth_payload \<Rightarrow> bytes" where
  "eth_payload_encode L p = abi_encode_function L ''unlock(bytes32,address,uint256)''
     [TFixedBytes (scale_account L (ep_sender p)), TAddress (ep_recipient p), TUint (ep_amount p)]"

record ('s, 'd) eth_config =
  eth_address :: "('s, h160) storage"
  eth_asset :: "'s single_asset"
  eth_router :: "'s outbound_router"
  eth_call_origin :: "origin \<Rightarrow> (dispatch_error, h160) result"
  eth_lookup :: "'d \<Rightarrow> account_id option"
  eth_abi :: abi_lib
  eth_sys :: "'s sys_ops"

text \<open>The storage item \<open>Address\<close> is set from the genesis configuration.\<close>

definition eth_genesis :: "('s, 'd) eth_config \<Rightarrow> h160 \<Rightarrow> 's \<Rightarrow> 's" where
  "eth_genesis cfg address = sput (eth_address cfg) address"

definition eth_burn :: "('s, 'd) eth_config \<Rightarrow> origin \<Rightarrow> channel_id \<Rightarrow> h160 \<Rightarrow> u256 \<Rightarrow> ('s, dispatch_error, unit) ext" where
  "eth_burn cfg org channel recipient amount = transactional (
     bind_ext (lift_res (ensure_signed org)) (\<lambda>who.
     bind_ext (sa_withdraw (eth_asset cfg) who amount) (\<lambda>_.
     let message = \<lparr>ep_sender = who, ep_recipient = recipient, ep_amount = amount\<rparr> in
     bind_ext (gets (sget (eth_address cfg))) (\<lambda>address.
     bind_ext (eth_router cfg channel who address (eth_payload_encode (eth_abi cfg) message)) (\<lambda>_.
     modify (deposit_event (eth_sys cfg) (EthBurned who recipient amount)))))))"

definition eth_mint :: "('s, 'd) eth_config \<Rightarrow> origin \<Rightarrow> h160 \<Rightarrow> 'd \<Rightarrow> u256 \<Rightarrow> ('s, dispatch_error, unit) ext" where
  "eth_mint cfg org sender recipient amount = transactional (
     bind_ext (lift_res (eth_call_origin cfg org)) (\<lambda>who.
     bind_ext (gets (sget (eth_address cfg))) (\<lambda>address.
     if who \<noteq> address then lift_res (Err BadOrigin)
     else
       bind_ext (lift_res (ok_or CannotLookup (eth_lookup cfg recipient))) (\<lambda>recipient'.
       bind_ext (sa_deposit (eth_asset cfg) recipient' amount) (\<lambda>_.
       modify (deposit_event (eth_sys cfg) (EthMinted sender recipient' amount)))))))"

section \<open>Burning and minting\<close>

lemma eth_mint_Ok:
  "eth_mint cfg org sender recipient x s = (Ok (), s') \<longleftrightarrow>
     (\<exists>w. eth_call_origin cfg org = Ok (sget (eth_address cfg) s) \<and> eth_lookup cfg recipient = Some w \<and>
        bind_ext (sa_deposit (eth_asset cfg) w x) (\<lambda>_. modify (deposit_event (eth_sys cfg) (EthMinted sender w x))) s = (Ok (), s'))"
  unfolding eth_mint_def by (auto simp: ok_simps split: if_splits)

locale eth_env = router_fee A inv "eth_router cfg" "eth_sys cfg"
  for A :: "'s multi_asset" and inv and cfg :: "('s, 'd) eth_config" +
  assumes eth_asset: "eth_asset cfg = single_asset_adaptor A ETH"
begin

lemma eth_burn_pattern: "eth_burn cfg (Signed w) c recipient x = transactional
    (burn_pattern ETH w x c (sget (eth_address cfg)) (eth_payload_encode (eth_abi cfg)
       \<lparr>ep_sender = w, ep_recipient = recipient, ep_amount = x\<rparr>) (EthBurned w recipient x))"
  unfolding eth_burn_def
  by (rule arg_cong [where f = transactional], rule HOL.ext)
    (simp add: burn_pattern_def eth_asset single_asset_adaptor_def ext_simps)

lemma eth_burn_ok:
  assumes "inv s" "eth_burn cfg (Signed w) c recipient x s = (Ok (), s')"
  shows "inv s' \<and> (\<exists>fee.
      unat (ma_balance A ETH w s) = unat (ma_balance A ETH w s') + unat x + fee \<and>
      unat (ma_total_issuance A ETH s) = unat (ma_total_issuance A ETH s') + unat x + fee \<and>
      others_kept A ETH {w} s s')"
proof -
  obtain fee where "inv s'" and f: "\<And>b v. unat (ma_balance A b v s) = unat (ma_balance A b v s') +
        (if v = w then (if b = ETH then unat x else 0) + (if b = ETH then fee else 0) else 0)"
      "\<And>b. unat (ma_total_issuance A b s) = unat (ma_total_issuance A b s') +
        ((if b = ETH then unat x else 0) + (if b = ETH then fee else 0))"
    using burn_pattern_ok [OF assms(1) assms(2) [unfolded eth_burn_pattern transactional_Ok]] by auto
  moreover have "others_kept A ETH {w} s s'"
    unfolding others_kept_def using f by (auto simp: word_unat_eq_iff)
  ultimately show ?thesis using f(1) [of ETH w] f(2) [of ETH] by auto
qed

lemma eth_mint_ok:
  assumes "inv s" "eth_mint cfg org sender recipient x s = (Ok (), s')"
  shows "inv s' \<and> eth_call_origin cfg org = Ok (sget (eth_address cfg) s) \<and> (\<exists>w. eth_lookup cfg recipient = Some w \<and>
      (\<forall>b v. unat (ma_balance A b v s') = unat (ma_balance A b v s) + (if v = w \<and> b = ETH then unat x else 0) \<and>
        unat (ma_total_issuance A b s') = unat (ma_total_issuance A b s) + (if b = ETH then unat x else 0)))"
  using assms mint_pattern_ok [OF assms(1), of ETH] unfolding eth_mint_Ok eth_asset single_asset_adaptor_def by fastforce

end

end
