(* ===== verification/Erc20_App.thy ===== *)
theory Erc20_App
  imports App_Core Assets_Pallet
begin

text \<open>
  \<open>pallets/erc20-app\<close>: wrapped ERC20 tokens, one asset of the registry per token contract.
\<close>

section \<open>The pallet\<close>

record erc20_payload =
  e20p_token :: h160
  e20p_sender :: account_id
  e20p_recipient :: h160
  e20p_amount :: u256

definition erc20_payload_encode :: "abi_lib \<Rightarrow> erc20_payload \<Rightarrow> bytes" where
  "erc20_payload_encode L p = abi_encode_function L ''unlock(address,bytes32,address,uint256)''
     [TAddress (e20p_token p), TFixedBytes (scale_account L (e20p_sender p)), TAddress (e20p_recipient p), TUint (e20p_amount p)]"

record ('s, 'd) erc20_config =
  erc20_address :: "('s, h160) storage"
  erc20_assets :: "'s multi_asset"
  erc20_router :: "'s outbound_router"
  erc20_call_origin :: "origin \<Rightarrow> (dispatch_error, h160) result"
  erc20_lookup :: "'d \<Rightarrow> account_id option"
  erc20_abi :: abi_lib
  erc20_sys :: "'s sys_ops"

text \<open>The storage item \<open>Address\<close> is set from the genesis configuration.\<close>

definition erc20_genesis :: "('s, 'd) erc20_config \<Rightarrow> h160 \<Rightarrow> 's \<Rightarrow> 's" where
  "erc20_genesis cfg address = sput (erc20_address cfg) address"

definition erc20_burn :: "('s, 'd) erc20_config \<Rightarrow> origin \<Rightarrow> channel_id \<Rightarrow> h160 \<Rightarrow> h160 \<Rightarrow> u256 \<Rightarrow> ('s, dispatch_error, unit) ext" where
  "erc20_burn cfg org channel token recipient amount = transactional (
     bind_ext (lift_res (ensure_signed org)) (\<lambda>who.
     bind_ext (ma_withdraw (erc20_assets cfg) (Token token) who amount) (\<lambda>_.
     let message = \<lparr>e20p_token = token, e20p_sender = who, e20p_recipient = recipient, e20p_amount = amount\<rparr> in
     bind_ext (gets (sget (erc20_address cfg))) (\<lambda>address.
     bind_ext (erc20_router cfg channel who address (erc20_payload_encode (erc20_abi cfg) message)) (\<lambda>_.
     modify (deposit_event (erc20_sys cfg) (Erc20Burned token who recipient amount)))))))"

definition erc20_mint :: "('s, 'd) erc20_config \<Rightarrow> origin \<Rightarrow> h160 \<Rightarrow> h160 \<Rightarrow> 'd \<Rightarrow> u256 \<Rightarrow> ('s, dispatch_error, unit) ext" where
  "erc20_mint cfg org token sender recipient amount = transactional (
     bind_ext (lift_res (erc20_call_origin cfg org)) (\<lambda>who.
     bind_ext (gets (sget (erc20_address cfg))) (\<lambda>address.
     if who \<noteq> address then lift_res (Err BadOrigin)
     else
       bind_ext (lift_res (ok_or CannotLookup (erc20_lookup cfg recipient))) (\<lambda>recipient'.
       bind_ext (ma_deposit (erc20_assets cfg) (Token token) recipient' amount) (\<lambda>_.
       modify (deposit_event (erc20_sys cfg) (Erc20Minted token sender recipient' amount)))))))"

section \<open>Burning and minting\<close>

lemma erc20_mint_Ok:
  "erc20_mint cfg org token sender recipient x s = (Ok (), s') \<longleftrightarrow>
     (\<exists>w. erc20_call_origin cfg org = Ok (sget (erc20_address cfg) s) \<and> erc20_lookup cfg recipient = Some w \<and>
        bind_ext (ma_deposit (erc20_assets cfg) (Token token) w x) (\<lambda>_. modify (deposit_event (erc20_sys cfg) (Erc20Minted token sender w x))) s = (Ok (), s'))"
  unfolding erc20_mint_def by (auto simp: ok_simps split: if_splits)

locale erc20_env = router_fee A inv "erc20_router cfg" "erc20_sys cfg"
  for A :: "'s multi_asset" and inv and cfg :: "('s, 'd) erc20_config" +
  assumes erc20_assets: "erc20_assets cfg = A"
begin

lemma erc20_burn_pattern: "erc20_burn cfg (Signed w) c token recipient x = transactional
    (burn_pattern (Token token) w x c (sget (erc20_address cfg)) (erc20_payload_encode (erc20_abi cfg)
       \<lparr>e20p_token = token, e20p_sender = w, e20p_recipient = recipient, e20p_amount = x\<rparr>) (Erc20Burned token w recipient x))"
  unfolding erc20_burn_def
  by (rule arg_cong [where f = transactional], rule HOL.ext)
    (simp add: burn_pattern_def erc20_assets ext_simps)

lemma erc20_burn_ok:
  assumes "inv s" "erc20_burn cfg (Signed w) c token recipient x s = (Ok (), s')"
  shows "inv s' \<and> unat (ma_balance A (Token token) w s) = unat (ma_balance A (Token token) w s') + unat x \<and>
    unat (ma_total_issuance A (Token token) s) = unat (ma_total_issuance A (Token token) s') + unat x \<and>
    (\<forall>b v. b \<notin> {ETH, Token token} \<or> v \<noteq> w \<longrightarrow> ma_balance A b v s' = ma_balance A b v s) \<and>
    (\<forall>b. b \<notin> {ETH, Token token} \<longrightarrow> ma_total_issuance A b s' = ma_total_issuance A b s)"
proof -
  obtain fee where "inv s'" and f: "\<And>b v. unat (ma_balance A b v s) = unat (ma_balance A b v s') +
        (if v = w then (if b = Token token then unat x else 0) + (if b = ETH then fee else 0) else 0)"
      "\<And>b. unat (ma_total_issuance A b s) = unat (ma_total_issuance A b s') +
        ((if b = Token token then unat x else 0) + (if b = ETH then fee else 0))"
    using burn_pattern_ok [OF assms(1) assms(2) [unfolded erc20_burn_pattern transactional_Ok]] by auto
  then show ?thesis using f(1) [of "Token token" w] f(2) [of "Token token"] by (auto simp: word_unat_eq_iff)
qed

lemma erc20_mint_ok:
  assumes "inv s" "erc20_mint cfg org token sender recipient x s = (Ok (), s')"
  shows "inv s' \<and> erc20_call_origin cfg org = Ok (sget (erc20_address cfg) s) \<and> (\<exists>w. erc20_lookup cfg recipient = Some w \<and>
      (\<forall>b v. unat (ma_balance A b v s') = unat (ma_balance A b v s) + (if v = w \<and> b = Token token then unat x else 0) \<and>
        unat (ma_total_issuance A b s') = unat (ma_total_issuance A b s) + (if b = Token token then unat x else 0)))"
  using assms mint_pattern_ok [OF assms(1), of "Token token"] unfolding erc20_mint_Ok erc20_assets by fastforce

end

end
