(* ===== verification/Erc721_App.thy ===== *)
theory Erc721_App
  imports App_Core Nft_Pallet
begin

text \<open>
  \<open>pallets/erc721-app\<close>: wrapped ERC721 tokens.  A map from the token's name on Ethereum to its
  name in the registry keeps a token from being minted twice; the two are inverse to each
  other as long as the application alone mints and burns.
\<close>

section \<open>The pallet\<close>

record erc721_payload =
  e721p_token_contract :: h160
  e721p_token_id :: u256
  e721p_sender :: account_id
  e721p_recipient :: h160

definition erc721_payload_encode :: "abi_lib \<Rightarrow> erc721_payload \<Rightarrow> bytes" where
  "erc721_payload_encode L p = abi_encode_function L ''unlock(address,uint256,bytes32,address)''
     [TAddress (e721p_token_contract p), TUint (e721p_token_id p),
      TFixedBytes (scale_account L (e721p_sender p)), TAddress (e721p_recipient p)]"

record erc721_app =
  erc721_address :: h160
  tokens_by_erc721_id :: "h160 \<times> u256 \<rightharpoonup> u128"

record ('s, 'd) erc721_config =
  erc721_st :: "('s, erc721_app) storage"
  erc721_nft :: "('s, erc721_token_data) nft_ops"
  erc721_router :: "'s outbound_router"
  erc721_call_origin :: "origin \<Rightarrow> (dispatch_error, h160) result"
  erc721_lookup :: "'d \<Rightarrow> account_id option"
  erc721_abi :: abi_lib
  erc721_sys :: "'s sys_ops"

abbreviation erc721_error :: "erc721_app_error \<Rightarrow> dispatch_error" where
  "erc721_error e \<equiv> Module (Erc721AppError e)"

definition erc721_put :: "('s, 'd) erc721_config \<Rightarrow> (erc721_app \<Rightarrow> erc721_app) \<Rightarrow> 's \<Rightarrow> 's" where
  "erc721_put cfg f s = sput (erc721_st cfg) (f (sget (erc721_st cfg) s)) s"

definition erc721_genesis :: "('s, 'd) erc721_config \<Rightarrow> h160 \<Rightarrow> 's \<Rightarrow> 's" where
  "erc721_genesis cfg address = erc721_put cfg (\<lambda>a. a\<lparr>erc721_address := address\<rparr>)"

definition erc721_burn :: "('s, 'd) erc721_config \<Rightarrow> origin \<Rightarrow> channel_id \<Rightarrow> u128 \<Rightarrow> h160 \<Rightarrow> ('s, dispatch_error, unit) ext" where
  "erc721_burn cfg org channel token recipient = transactional (
     bind_ext (lift_res (ensure_signed org)) (\<lambda>who.
     bind_ext (gets (nft_get_token_data (erc721_nft cfg) token)) (\<lambda>found.
     bind_ext (lift_res (ok_or (erc721_error Erc721TokenNotFound) found)) (\<lambda>info.
     let contract = token_contract (token_data info); token_id = eth_token_id (token_data info) in
     bind_ext (nft_burn (erc721_nft cfg) who token) (\<lambda>_.
     bind_ext (modify (erc721_put cfg (\<lambda>a. a\<lparr>tokens_by_erc721_id := (tokens_by_erc721_id a)((contract, token_id) := None)\<rparr>))) (\<lambda>_.
     let message = \<lparr>e721p_token_contract = contract, e721p_token_id = token_id, e721p_sender = who,
       e721p_recipient = recipient\<rparr> in
     bind_ext (gets (\<lambda>s. erc721_address (sget (erc721_st cfg) s))) (\<lambda>address.
     bind_ext (erc721_router cfg channel who address (erc721_payload_encode (erc721_abi cfg) message)) (\<lambda>_.
     modify (deposit_event (erc721_sys cfg) (Erc721Burned contract token_id who recipient))))))))))"

definition erc721_mint ::
  "('s, 'd) erc721_config \<Rightarrow> origin \<Rightarrow> h160 \<Rightarrow> 'd \<Rightarrow> h160 \<Rightarrow> u256 \<Rightarrow> bytes \<Rightarrow> ('s, dispatch_error, unit) ext" where
  "erc721_mint cfg org sender recipient contract token_id token_uri = transactional (
     bind_ext (lift_res (erc721_call_origin cfg org)) (\<lambda>who.
     bind_ext (gets (sget (erc721_st cfg))) (\<lambda>app.
     if who \<noteq> erc721_address app then lift_res (Err BadOrigin)
     else if tokens_by_erc721_id app (contract, token_id) \<noteq> None then lift_res (Err (erc721_error TokenAlreadyMinted))
     else
       bind_ext (lift_res (ok_or CannotLookup (erc721_lookup cfg recipient))) (\<lambda>recipient'.
       bind_ext (nft_mint (erc721_nft cfg) recipient' token_uri
         \<lparr>token_contract = contract, eth_token_id = token_id\<rparr>) (\<lambda>nft_token_id.
       bind_ext (modify (erc721_put cfg (\<lambda>a. a\<lparr>tokens_by_erc721_id :=
         (tokens_by_erc721_id a)((contract, token_id) \<mapsto> nft_token_id)\<rparr>))) (\<lambda>_.
       modify (deposit_event (erc721_sys cfg) (Erc721Minted contract token_id sender recipient'))))))))"

section \<open>Burning and minting\<close>

definition eth_name :: "erc721_token_data token_info \<Rightarrow> h160 \<times> u256" where
  "eth_name i = (token_contract (token_data i), eth_token_id (token_data i))"

lemma erc721_burn_Ok:
  "erc721_burn cfg org c token recipient s = (Ok (), s') \<longleftrightarrow>
     (\<exists>who i t u. org = Signed who \<and> nft_get_token_data (erc721_nft cfg) token s = Some i \<and>
        nft_burn (erc721_nft cfg) who token s = (Ok (), t) \<and>
        (let t' = erc721_put cfg (\<lambda>a. a\<lparr>tokens_by_erc721_id := (tokens_by_erc721_id a)(eth_name i := None)\<rparr>) t in
         erc721_router cfg c who (erc721_address (sget (erc721_st cfg) t')) (erc721_payload_encode (erc721_abi cfg)
          \<lparr>e721p_token_contract = fst (eth_name i), e721p_token_id = snd (eth_name i), e721p_sender = who,
            e721p_recipient = recipient\<rparr>) t' = (Ok (), u)) \<and>
        s' = deposit_event (erc721_sys cfg) (Erc721Burned (fst (eth_name i)) (snd (eth_name i)) who recipient) u)"
  unfolding erc721_burn_def eth_name_def by (auto simp: ok_simps Let_def)

lemma erc721_mint_Ok:
  "erc721_mint cfg org sender recipient contract tid uri s = (Ok (), s') \<longleftrightarrow>
     (\<exists>w n t. erc721_call_origin cfg org = Ok (erc721_address (sget (erc721_st cfg) s)) \<and>
        tokens_by_erc721_id (sget (erc721_st cfg) s) (contract, tid) = None \<and> erc721_lookup cfg recipient = Some w \<and>
        nft_mint (erc721_nft cfg) w uri \<lparr>token_contract = contract, eth_token_id = tid\<rparr> s = (Ok n, t) \<and>
        s' = deposit_event (erc721_sys cfg) (Erc721Minted contract tid sender w) (erc721_put cfg (\<lambda>a. a\<lparr>tokens_by_erc721_id :=
          (tokens_by_erc721_id a)((contract, tid) \<mapsto> n)\<rparr>) t))"
  unfolding erc721_mint_def by (auto simp: ok_simps split: if_splits)

text \<open>The map and the registry are inverse to each other.\<close>

definition erc721_linked :: "(h160 \<times> u256 \<rightharpoonup> u128) \<Rightarrow> (u128 \<rightharpoonup> erc721_token_data token_info) \<Rightarrow> bool" where
  "erc721_linked m ts \<longleftrightarrow> (\<forall>k t. m k = Some t \<longleftrightarrow> (\<exists>i. ts t = Some i \<and> eth_name i = k))"

lemma linked_one_token: "erc721_linked m ts \<Longrightarrow> ts t = Some i \<Longrightarrow> ts u = Some j \<Longrightarrow> eth_name i = eth_name j \<Longrightarrow> t = u"
  unfolding erc721_linked_def by (metis option.inject)

lemma linked_remove:
  assumes l: "erc721_linked m ts" and t: "ts t = Some i"
  shows "erc721_linked (m(eth_name i := None)) (ts(t := None))"
proof -
  have iff: "m k = Some u \<longleftrightarrow> (\<exists>j. ts u = Some j \<and> eth_name j = k)" for k u using l unfolding erc721_linked_def by blast
  have uniq: "u = t" if "ts u = Some j" "eth_name j = eth_name i" for u j
    by (rule linked_one_token [OF l that(1) t that(2)])
  show ?thesis unfolding erc721_linked_def by (auto simp: iff t dest: uniq)
qed

lemma linked_add:
  assumes l: "erc721_linked m ts" and i: "m (eth_name i) = None" and t: "ts t = None"
  shows "erc721_linked (m(eth_name i \<mapsto> t)) (ts(t \<mapsto> i))"
proof -
  have iff: "m k = Some u \<longleftrightarrow> (\<exists>j. ts u = Some j \<and> eth_name j = k)" for k u using l unfolding erc721_linked_def by blast
  have new: False if "ts u = Some j" "eth_name j = eth_name i" for u j
    using iff [of "eth_name i" u] i that by auto
  show ?thesis unfolding erc721_linked_def by (auto simp: iff t dest: new)
qed

locale erc721_env = storage_item "erc721_st cfg" + nft_laws "erc721_nft cfg" inv +
    router_frame "erc721_router cfg" "\<lambda>s. (sget (erc721_st cfg) s, \<lambda>t. nft_get_token_data (erc721_nft cfg) t s)"
  for cfg :: "('s, 'd) erc721_config" and inv +
  assumes mint_app: "nft_mint (erc721_nft cfg) w m d s = (q, s') \<Longrightarrow> sget (erc721_st cfg) s' = sget (erc721_st cfg) s"
    and burn_app: "nft_burn (erc721_nft cfg) w t s = (r, s') \<Longrightarrow> sget (erc721_st cfg) s' = sget (erc721_st cfg) s"
    and put_nft: "nft_get_token_data (erc721_nft cfg) t (sput (erc721_st cfg) a s) = nft_get_token_data (erc721_nft cfg) t s"
    and put_inv: "inv (sput (erc721_st cfg) a s) = inv s"
    and router_inv: "inv s \<Longrightarrow> erc721_router cfg c w target p s = (Ok (), s') \<Longrightarrow> inv s'"
    and event_nft: "nft_get_token_data (erc721_nft cfg) t (deposit_event (erc721_sys cfg) e s) = nft_get_token_data (erc721_nft cfg) t s"
    and event_app: "sget (erc721_st cfg) (deposit_event (erc721_sys cfg) e s) = sget (erc721_st cfg) s"
    and event_inv: "inv (deposit_event (erc721_sys cfg) e s) = inv s"
begin

definition linked :: "'s \<Rightarrow> bool" where
  "linked s \<longleftrightarrow> inv s \<and> erc721_linked (tokens_by_erc721_id (sget (erc721_st cfg) s)) (\<lambda>t. nft_get_token_data (erc721_nft cfg) t s)"

lemma others_upd: "(\<And>u. u \<noteq> t \<Longrightarrow> f u = g u) \<Longrightarrow> f t = x \<Longrightarrow> f = g(t := x)"
  by auto

lemma erc721_burn_effect:
  assumes "inv s" "erc721_burn cfg org c token recipient s = (Ok (), s')"
  obtains who i where "org = Signed who" "nft_get_token_data (erc721_nft cfg) token s = Some i" "owner i = who" "inv s'"
    "sget (erc721_st cfg) s' = (sget (erc721_st cfg) s)\<lparr>tokens_by_erc721_id :=
       (tokens_by_erc721_id (sget (erc721_st cfg) s))(eth_name i := None)\<rparr>"
    "(\<lambda>t. nft_get_token_data (erc721_nft cfg) t s') = (\<lambda>t. nft_get_token_data (erc721_nft cfg) t s)(token := None)"
proof -
  obtain who i t u t' where o: "org = Signed who" and i: "nft_get_token_data (erc721_nft cfg) token s = Some i"
      and b: "nft_burn (erc721_nft cfg) who token s = (Ok (), t)"
      and t': "t' = erc721_put cfg (\<lambda>a. a\<lparr>tokens_by_erc721_id := (tokens_by_erc721_id a)(eth_name i := None)\<rparr>) t"
      and r: "erc721_router cfg c who (erc721_address (sget (erc721_st cfg) t')) (erc721_payload_encode (erc721_abi cfg)
          \<lparr>e721p_token_contract = fst (eth_name i), e721p_token_id = snd (eth_name i), e721p_sender = who,
            e721p_recipient = recipient\<rparr>) t' = (Ok (), u)"
      and s': "s' = deposit_event (erc721_sys cfg) (Erc721Burned (fst (eth_name i)) (snd (eth_name i)) who recipient) u"
    using assms(2) unfolding erc721_burn_Ok Let_def by blast
  note b' = burn_ok [OF assms(1) b]
  have "inv t'" using b' t' by (simp add: erc721_put_def put_inv)
  then have "inv s'" using router_inv [OF _ r] s' event_inv by simp
  moreover have "owner i = who" using b' i by auto
  moreover have "sget (erc721_st cfg) s' = (sget (erc721_st cfg) s)\<lparr>tokens_by_erc721_id :=
       (tokens_by_erc721_id (sget (erc721_st cfg) s))(eth_name i := None)\<rparr>"
    using router_view [OF r] s' t' burn_app [OF b] by (simp add: event_app erc721_put_def get_put)
  moreover have "nft_get_token_data (erc721_nft cfg) v s' = nft_get_token_data (erc721_nft cfg) v t" for v
  proof -
    have "nft_get_token_data (erc721_nft cfg) v u = nft_get_token_data (erc721_nft cfg) v t'"
      using router_view [OF r] by (simp add: fun_eq_iff)
    then show ?thesis using s' t' by (simp add: event_nft erc721_put_def put_nft)
  qed
  then have "(\<lambda>t. nft_get_token_data (erc721_nft cfg) t s') = (\<lambda>t. nft_get_token_data (erc721_nft cfg) t s)(token := None)"
    using b' by (intro others_upd) auto
  ultimately show thesis using that o i by blast
qed

lemma erc721_mint_effect:
  assumes "inv s" "erc721_mint cfg org sender recipient contract tid uri s = (Ok (), s')"
  obtains w n i where "erc721_call_origin cfg org = Ok (erc721_address (sget (erc721_st cfg) s))"
    "tokens_by_erc721_id (sget (erc721_st cfg) s) (contract, tid) = None" "erc721_lookup cfg recipient = Some w"
    "nft_get_token_data (erc721_nft cfg) n s = None" "owner i = w" "eth_name i = (contract, tid)" "inv s'"
    "sget (erc721_st cfg) s' = (sget (erc721_st cfg) s)\<lparr>tokens_by_erc721_id :=
       (tokens_by_erc721_id (sget (erc721_st cfg) s))((contract, tid) \<mapsto> n)\<rparr>"
    "(\<lambda>t. nft_get_token_data (erc721_nft cfg) t s') = (\<lambda>t. nft_get_token_data (erc721_nft cfg) t s)(n \<mapsto> i)"
proof -
  obtain w n t where o: "erc721_call_origin cfg org = Ok (erc721_address (sget (erc721_st cfg) s))"
      and k: "tokens_by_erc721_id (sget (erc721_st cfg) s) (contract, tid) = None" and l: "erc721_lookup cfg recipient = Some w"
      and m: "nft_mint (erc721_nft cfg) w uri \<lparr>token_contract = contract, eth_token_id = tid\<rparr> s = (Ok n, t)"
      and s': "s' = deposit_event (erc721_sys cfg) (Erc721Minted contract tid sender w) (erc721_put cfg (\<lambda>a. a\<lparr>tokens_by_erc721_id :=
          (tokens_by_erc721_id a)((contract, tid) \<mapsto> n)\<rparr>) t)"
    using assms(2) unfolding erc721_mint_Ok by blast
  define i where "i = \<lparr>owner = w, metadata = uri, token_data = \<lparr>token_contract = contract, eth_token_id = tid\<rparr>\<rparr>"
  note m' = mint_ok [OF assms(1) m]
  have "inv s'" using m' s' by (simp add: event_inv erc721_put_def put_inv)
  moreover have "sget (erc721_st cfg) s' = (sget (erc721_st cfg) s)\<lparr>tokens_by_erc721_id :=
       (tokens_by_erc721_id (sget (erc721_st cfg) s))((contract, tid) \<mapsto> n)\<rparr>"
    using s' mint_app [OF m] by (simp add: event_app erc721_put_def get_put)
  moreover have "nft_get_token_data (erc721_nft cfg) v s' = nft_get_token_data (erc721_nft cfg) v t" for v
    using s' by (simp add: event_nft erc721_put_def put_nft)
  then have "(\<lambda>t. nft_get_token_data (erc721_nft cfg) t s') = (\<lambda>t. nft_get_token_data (erc721_nft cfg) t s)(n \<mapsto> i)"
    using m' by (intro others_upd) (auto simp: i_def)
  moreover have "owner i = w" "eth_name i = (contract, tid)" by (simp_all add: i_def eth_name_def)
  ultimately show thesis using that o k l m' by blast
qed

text \<open>Every call keeps the two inverse to each other.\<close>

lemma erc721_burn_linked: "keeps linked (erc721_burn cfg org c token recipient)"
proof -
  have "linked s'" if "linked s" "erc721_burn cfg org c token recipient s = (Ok a, s')" for s a s'
  proof -
    have "inv s" "erc721_burn cfg org c token recipient s = (Ok (), s')" using that by (simp_all add: linked_def)
    then show ?thesis
    proof (rule erc721_burn_effect)
      fix who i
      assume "nft_get_token_data (erc721_nft cfg) token s = Some i" "inv s'"
        "sget (erc721_st cfg) s' = (sget (erc721_st cfg) s)\<lparr>tokens_by_erc721_id :=
           (tokens_by_erc721_id (sget (erc721_st cfg) s))(eth_name i := None)\<rparr>"
        "(\<lambda>t. nft_get_token_data (erc721_nft cfg) t s') = (\<lambda>t. nft_get_token_data (erc721_nft cfg) t s)(token := None)"
      then show ?thesis using that(1) linked_remove [of _ _ token i] unfolding linked_def by simp
    qed
  qed
  then show ?thesis unfolding erc721_burn_def by (intro keeps_transactionalI) (simp add: transactional_Ok)
qed

lemma erc721_mint_linked: "keeps linked (erc721_mint cfg org sender recipient contract tid uri)"
proof -
  have "linked s'" if "linked s" "erc721_mint cfg org sender recipient contract tid uri s = (Ok a, s')" for s a s'
  proof -
    have "inv s" "erc721_mint cfg org sender recipient contract tid uri s = (Ok (), s')" using that by (simp_all add: linked_def)
    then show ?thesis
    proof (rule erc721_mint_effect)
      fix w n i
      assume "tokens_by_erc721_id (sget (erc721_st cfg) s) (contract, tid) = None"
        "nft_get_token_data (erc721_nft cfg) n s = None" "eth_name i = (contract, tid)" "inv s'"
        "sget (erc721_st cfg) s' = (sget (erc721_st cfg) s)\<lparr>tokens_by_erc721_id :=
           (tokens_by_erc721_id (sget (erc721_st cfg) s))((contract, tid) \<mapsto> n)\<rparr>"
        "(\<lambda>t. nft_get_token_data (erc721_nft cfg) t s') = (\<lambda>t. nft_get_token_data (erc721_nft cfg) t s)(n \<mapsto> i)"
      then show ?thesis using that(1) linked_add [of _ _ i n] unfolding linked_def by auto
    qed
  qed
  then show ?thesis unfolding erc721_mint_def by (intro keeps_transactionalI) (simp add: transactional_Ok)
qed

end

end
