(* ===== verification/Xcm_Support.thy ===== *)
theory Xcm_Support
  imports Assets_Pallet
begin

text \<open>
  \<open>primitives/xcm-support\<close>: the adapter through which messages from other chains deposit and
  withdraw bridged assets.  The types of the crate \<open>xcm\<close> are given as far as the adapter looks at
  them; the decoder of an asset's name, the conversion of a location to an account and the text
  of an error are library functions.
\<close>

section \<open>The adapter\<close>

datatype junction = GeneralKey bytes | OtherJunction nat

type_synonym multi_location = "junction list"

datatype xcm_asset = ConcreteFungible multi_location u128 | OtherAsset nat

datatype xcm_error = AssetNotFound | FailedToTransactAsset string

record xcm_lib =
  xcm_decode_asset_id :: "bytes \<Rightarrow> asset_id option"
  xcm_account :: "multi_location \<Rightarrow> account_id option"
  xcm_error_text :: "dispatch_error \<Rightarrow> string"

definition last_junction :: "multi_location \<Rightarrow> junction option" where
  "last_junction l = (if l = [] then None else Some (last l))"

definition match_assets :: "xcm_lib \<Rightarrow> xcm_asset \<Rightarrow> (xcm_error, asset_id \<times> u256) result" where
  "match_assets L a = (case a of
       ConcreteFungible i amount \<Rightarrow> (case last_junction i of
           Some (GeneralKey key) \<Rightarrow>
             bind_res (ok_or (FailedToTransactAsset ''AssetIdConversionFailed'') (xcm_decode_asset_id L key))
               (\<lambda>asset_id. Ok (asset_id, ucast amount))
         | _ \<Rightarrow> Err AssetNotFound)
     | _ \<Rightarrow> Err AssetNotFound)"

definition deposit_asset :: "xcm_lib \<Rightarrow> 's multi_asset \<Rightarrow> xcm_asset \<Rightarrow> multi_location \<Rightarrow> ('s, xcm_error, unit) ext" where
  "deposit_asset L A a location =
     bind_ext (lift_res (match_assets L a)) (\<lambda>(asset_id, amount).
     bind_ext (lift_res (ok_or (FailedToTransactAsset ''AccountIdConversionFailed'') (xcm_account L location))) (\<lambda>who.
     map_err_ext (\<lambda>e. FailedToTransactAsset (xcm_error_text L e)) (ma_deposit A asset_id who amount)))"

definition withdraw_asset :: "xcm_lib \<Rightarrow> 's multi_asset \<Rightarrow> xcm_asset \<Rightarrow> multi_location \<Rightarrow> ('s, xcm_error, xcm_asset) ext" where
  "withdraw_asset L A a location =
     bind_ext (lift_res (match_assets L a)) (\<lambda>(asset_id, amount).
     bind_ext (lift_res (ok_or (FailedToTransactAsset ''AccountIdConversionFailed'') (xcm_account L location))) (\<lambda>who.
     bind_ext (map_err_ext (\<lambda>e. FailedToTransactAsset (xcm_error_text L e)) (ma_withdraw A asset_id who amount)) (\<lambda>_.
     ret a)))"

section \<open>Deposits and withdrawals\<close>

text \<open>The asset and the amount a fungible with a key at the end of its location stands for.\<close>

lemma match_assets_Ok:
  "match_assets L a = Ok (b, x) \<longleftrightarrow>
     (\<exists>l key amount. a = ConcreteFungible (l @ [GeneralKey key]) amount \<and> xcm_decode_asset_id L key = Some b \<and> x = ucast amount)"
proof -
  have "last_junction l = Some j \<longleftrightarrow> (\<exists>l'. l = l' @ [j])" for l j
    by (cases l rule: rev_cases) (auto simp: last_junction_def)
  moreover have "last_junction l = None \<longleftrightarrow> l = []" for l by (simp add: last_junction_def)
  ultimately show ?thesis
    unfolding match_assets_def by (auto simp: ok_simps split: xcm_asset.splits option.splits junction.splits)
qed

lemma deposit_asset_Ok:
  "deposit_asset L A a location s = (Ok (), s') \<longleftrightarrow>
     (\<exists>b x w. match_assets L a = Ok (b, x) \<and> xcm_account L location = Some w \<and> ma_deposit A b w x s = (Ok (), s'))"
  unfolding deposit_asset_def by (auto simp: ok_simps split: prod.splits)

lemma withdraw_asset_Ok:
  "withdraw_asset L A a location s = (Ok y, s') \<longleftrightarrow>
     y = a \<and> (\<exists>b x w. match_assets L a = Ok (b, x) \<and> xcm_account L location = Some w \<and> ma_withdraw A b w x s = (Ok (), s'))"
  unfolding withdraw_asset_def by (auto simp: ok_simps split: prod.splits)

context multi_asset_laws
begin

lemma xcm_keeps: "keeps inv (deposit_asset L A a location)" "keeps inv (withdraw_asset L A a location)"
  unfolding deposit_asset_def withdraw_asset_def
  by (intro keeps_rules deposit_keeps withdraw_keeps)+

text \<open>A withdrawal followed by a deposit at the same location changes no balance.\<close>

lemma xcm_withdraw_deposit:
  assumes "inv s" "withdraw_asset L A a location s = (Ok y, s')"
  shows "\<exists>s''. deposit_asset L A y location s' = (Ok (), s'') \<and> (\<forall>b v. ma_balance A b v s'' = ma_balance A b v s)"
proof -
  obtain b x w where y: "y = a" and m: "match_assets L a = Ok (b, x)" "xcm_account L location = Some w"
      and wd: "ma_withdraw A b w x s = (Ok (), s')"
    using assms(2) unfolding withdraw_asset_Ok by blast
  note wd' = withdraw_ok [OF assms(1) wd]
  have "unat (ma_total_issuance A b s') + unat x < 2 ^ 256"
    using wd' unsigned_less [of "ma_total_issuance A b s", where ?'a = nat] by simp
  then obtain s'' where d: "ma_deposit A b w x s' = (Ok (), s'')"
    using deposit_fits [of s' b x w] wd' by (metis prod.exhaust_sel)
  note d' = deposit_ok [OF _ d]
  have "ma_balance A c v s'' = ma_balance A c v s" for c v
  proof (cases "c = b \<and> v = w")
    case True
    then have "unat (ma_balance A c v s'') = unat (ma_balance A c v s)" using wd' d' by simp
    then show ?thesis by (simp only: word_unat_eq_iff)
  qed (use wd' d' in \<open>auto simp: others_kept_def\<close>)
  then show ?thesis using d m y unfolding deposit_asset_Ok by blast
qed

end

end
