(* ===== verification/Runtime_Weights.thy ===== *)
theory Runtime_Weights
  imports Basic_Channel Incentivized_Channel
begin

text \<open>
  \<open>runtime/snowbridge/src/weights\<close> and \<open>runtime/rococo/src/weights\<close>: the weights of the bridge's
  calls and hooks as the two runtimes set them, and \<open>build_block_weights\<close> of \<open>runtime/common\<close>.  A
  weight is a \<open>u64\<close> in picoseconds; \<open>RuntimeDbWeight\<close> multiplies with saturation.
\<close>

section \<open>Database and block weights\<close>

record runtime_db_weight =
  db_read :: u64
  db_write :: u64

definition reads :: "runtime_db_weight \<Rightarrow> u64 \<Rightarrow> u64" where
  "reads db n = saturating_mul (db_read db) n"

definition writes :: "runtime_db_weight \<Rightarrow> u64 \<Rightarrow> u64" where
  "writes db n = saturating_mul (db_write db) n"

abbreviation WEIGHT_PER_MICROS :: u64 where
  "WEIGHT_PER_MICROS \<equiv> 1000000"

abbreviation WEIGHT_PER_MILLIS :: u64 where
  "WEIGHT_PER_MILLIS \<equiv> 1000000000"

abbreviation WEIGHT_PER_SECOND :: u64 where
  "WEIGHT_PER_SECOND \<equiv> 1000000000000"

text \<open>
  \<open>build_block_weights\<close> fills in a builder of the framework; \<open>build\<close> stands for the framework's
  validation and \<open>mul\<close> for the product of a \<open>Perbill\<close> and a weight.
\<close>

record block_weights_builder =
  bw_base_block :: u64
  bw_base_extrinsic :: u64
  bw_normal_max_total :: u64
  bw_operational_max_total :: u64
  bw_operational_reserved :: u64
  bw_avg_block_initialization_percent :: nat

definition build_block_weights ::
  "(block_weights_builder \<Rightarrow> 'w option) \<Rightarrow> ('p \<Rightarrow> u64 \<Rightarrow> u64) \<Rightarrow> u64 \<Rightarrow> u64 \<Rightarrow> u64 \<Rightarrow> 'p \<Rightarrow> ('e, 'w) result" where
  "build_block_weights build mul base_block_weight base_extrinsic_weight expected_block_weight normal_ratio =
     (let normal_weight = mul normal_ratio expected_block_weight in
      unwrap (build \<lparr>bw_base_block = base_block_weight, bw_base_extrinsic = base_extrinsic_weight,
        bw_normal_max_total = normal_weight, bw_operational_max_total = expected_block_weight,
        bw_operational_reserved = expected_block_weight - normal_weight,
        bw_avg_block_initialization_percent = 10\<rparr>))"

definition MAXIMUM_BLOCK_WEIGHT :: u64 where
  "MAXIMUM_BLOCK_WEIGHT = WEIGHT_PER_SECOND div 2"

section \<open>Snowbridge\<close>

definition snowbridge_BlockExecutionWeight :: u64 where
  "snowbridge_BlockExecutionWeight = 9 * WEIGHT_PER_MILLIS"

definition snowbridge_ExtrinsicBaseWeight :: u64 where
  "snowbridge_ExtrinsicBaseWeight = 298 * WEIGHT_PER_MICROS"

definition snowbridge_db_weight :: runtime_db_weight where
  "snowbridge_db_weight = \<lparr>db_read = 27 * WEIGHT_PER_MICROS, db_write = 99 * WEIGHT_PER_MICROS\<rparr>"

definition snowbridge_assets_transfer :: "u64" where
  "snowbridge_assets_transfer = saturating_add (saturating_add 23882000 (reads snowbridge_db_weight 2)) (writes snowbridge_db_weight 2)"

definition snowbridge_basic_in_submit :: "u64" where
  "snowbridge_basic_in_submit = saturating_add (saturating_add 177159000 (reads snowbridge_db_weight 6)) (writes snowbridge_db_weight 3)"

definition snowbridge_basic_out_on_initialize :: "u32 \<Rightarrow> u32 \<Rightarrow> u64" where
  "snowbridge_basic_out_on_initialize m p = saturating_add (saturating_add (saturating_add (saturating_add 0 (saturating_mul 25845000 (ucast m))) (saturating_mul 907000 (ucast p))) (reads snowbridge_db_weight 3)) (writes snowbridge_db_weight 2)"

definition snowbridge_basic_out_on_initialize_non_interval :: "u64" where
  "snowbridge_basic_out_on_initialize_non_interval = saturating_add 5091000 (reads snowbridge_db_weight 1)"

definition snowbridge_basic_out_on_initialize_no_messages :: "u64" where
  "snowbridge_basic_out_on_initialize_no_messages = saturating_add 8651000 (reads snowbridge_db_weight 2)"

definition snowbridge_basic_out_set_principal :: "u64" where
  "snowbridge_basic_out_set_principal = saturating_add 3000000 (writes snowbridge_db_weight 1)"

definition snowbridge_incentivized_in_submit :: "u64" where
  "snowbridge_incentivized_in_submit = saturating_add (saturating_add 257424000 (reads snowbridge_db_weight 8)) (writes snowbridge_db_weight 4)"

definition snowbridge_incentivized_in_set_reward_fraction :: "u64" where
  "snowbridge_incentivized_in_set_reward_fraction = saturating_add 2961000 (writes snowbridge_db_weight 1)"

definition snowbridge_incentivized_out_on_initialize :: "u32 \<Rightarrow> u32 \<Rightarrow> u64" where
  "snowbridge_incentivized_out_on_initialize m p = saturating_add (saturating_add (saturating_add (saturating_add 0 (saturating_mul 25845000 (ucast m))) (saturating_mul 907000 (ucast p))) (reads snowbridge_db_weight 3)) (writes snowbridge_db_weight 2)"

definition snowbridge_incentivized_out_on_initialize_non_interval :: "u64" where
  "snowbridge_incentivized_out_on_initialize_non_interval = saturating_add 5091000 (reads snowbridge_db_weight 1)"

definition snowbridge_incentivized_out_on_initialize_no_messages :: "u64" where
  "snowbridge_incentivized_out_on_initialize_no_messages = saturating_add 8651000 (reads snowbridge_db_weight 2)"

definition snowbridge_incentivized_out_set_fee :: "u64" where
  "snowbridge_incentivized_out_set_fee = saturating_add 3000000 (writes snowbridge_db_weight 1)"

definition snowbridge_light_client_import_header :: "u64" where
  "snowbridge_light_client_import_header = saturating_add (saturating_add 1433779000 (reads snowbridge_db_weight 17)) (writes snowbridge_db_weight 22)"

definition snowbridge_light_client_import_header_not_new_finalized_with_max_prune :: "u64" where
  "snowbridge_light_client_import_header_not_new_finalized_with_max_prune = saturating_add (saturating_add 1398977000 (reads snowbridge_db_weight 16)) (writes snowbridge_db_weight 20)"

definition snowbridge_light_client_import_header_new_finalized_with_single_prune :: "u64" where
  "snowbridge_light_client_import_header_new_finalized_with_single_prune = saturating_add (saturating_add 1355714000 (reads snowbridge_db_weight 10)) (writes snowbridge_db_weight 8)"

definition snowbridge_light_client_import_header_not_new_finalized_with_single_prune :: "u64" where
  "snowbridge_light_client_import_header_not_new_finalized_with_single_prune = saturating_add (saturating_add 1321282000 (reads snowbridge_db_weight 9)) (writes snowbridge_db_weight 6)"

definition snowbridge_dot_app_lock :: "u64" where
  "snowbridge_dot_app_lock = saturating_add (saturating_add 171400000 (reads snowbridge_db_weight 4)) (writes snowbridge_db_weight 3)"

definition snowbridge_dot_app_unlock :: "u64" where
  "snowbridge_dot_app_unlock = saturating_add (saturating_add 103146000 (reads snowbridge_db_weight 3)) (writes snowbridge_db_weight 2)"

definition snowbridge_eth_app_burn :: "u64" where
  "snowbridge_eth_app_burn = saturating_add (saturating_add 86445000 (reads snowbridge_db_weight 5)) (writes snowbridge_db_weight 4)"

definition snowbridge_eth_app_mint :: "u64" where
  "snowbridge_eth_app_mint = saturating_add (saturating_add 48462000 (reads snowbridge_db_weight 3)) (writes snowbridge_db_weight 2)"

definition snowbridge_erc20_app_burn :: "u64" where
  "snowbridge_erc20_app_burn = saturating_add (saturating_add 92825000 (reads snowbridge_db_weight 5)) (writes snowbridge_db_weight 4)"

definition snowbridge_erc20_app_mint :: "u64" where
  "snowbridge_erc20_app_mint = saturating_add (saturating_add 50722000 (reads snowbridge_db_weight 3)) (writes snowbridge_db_weight 2)"

section \<open>Rococo\<close>

definition rococo_BlockExecutionWeight :: u64 where
  "rococo_BlockExecutionWeight = 9 * WEIGHT_PER_MILLIS"

definition rococo_ExtrinsicBaseWeight :: u64 where
  "rococo_ExtrinsicBaseWeight = 297 * WEIGHT_PER_MICROS"

definition rococo_db_weight :: runtime_db_weight where
  "rococo_db_weight = \<lparr>db_read = 27 * WEIGHT_PER_MICROS, db_write = 107 * WEIGHT_PER_MICROS\<rparr>"

definition rococo_assets_transfer :: "u64" where
  "rococo_assets_transfer = saturating_add (saturating_add 24051000 (reads rococo_db_weight 2)) (writes rococo_db_weight 2)"

definition rococo_basic_in_submit :: "u64" where
  "rococo_basic_in_submit = saturating_add (saturating_add 176439000 (reads rococo_db_weight 6)) (writes rococo_db_weight 3)"

definition rococo_basic_out_on_initialize :: "u32 \<Rightarrow> u32 \<Rightarrow> u64" where
  "rococo_basic_out_on_initialize m p = saturating_add (saturating_add (saturating_add (saturating_add 0 (saturating_mul 25845000 (ucast m))) (saturating_mul 907000 (ucast p))) (reads rococo_db_weight 3)) (writes rococo_db_weight 2)"

definition rococo_basic_out_on_initialize_non_interval :: "u64" where
  "rococo_basic_out_on_initialize_non_interval = saturating_add 5091000 (reads rococo_db_weight 1)"

definition rococo_basic_out_on_initialize_no_messages :: "u64" where
  "rococo_basic_out_on_initialize_no_messages = saturating_add 8651000 (reads rococo_db_weight 2)"

definition rococo_basic_out_set_principal :: "u64" where
  "rococo_basic_out_set_principal = saturating_add 3000000 (writes rococo_db_weight 1)"

definition rococo_incentivized_in_submit :: "u64" where
  "rococo_incentivized_in_submit = saturating_add (saturating_add 256924000 (reads rococo_db_weight 8)) (writes rococo_db_weight 4)"

definition rococo_incentivized_in_set_reward_fraction :: "u64" where
  "rococo_incentivized_in_set_reward_fraction = saturating_add 3000000 (writes rococo_db_weight 1)"

definition rococo_incentivized_out_on_initialize :: "u32 \<Rightarrow> u32 \<Rightarrow> u64" where
  "rococo_incentivized_out_on_initialize m p = saturating_add (saturating_add (saturating_add (saturating_add 0 (saturating_mul 25162000 (ucast m))) (saturating_mul 948000 (ucast p))) (reads rococo_db_weight 3)) (writes rococo_db_weight 2)"

definition rococo_incentivized_out_on_initialize_non_interval :: "u64" where
  "rococo_incentivized_out_on_initialize_non_interval = saturating_add 5021000 (reads rococo_db_weight 1)"

definition rococo_incentivized_out_on_initialize_no_messages :: "u64" where
  "rococo_incentivized_out_on_initialize_no_messages = saturating_add 8561000 (reads rococo_db_weight 2)"

definition rococo_incentivized_out_set_fee :: "u64" where
  "rococo_incentivized_out_set_fee = saturating_add 3000000 (writes rococo_db_weight 1)"

definition rococo_light_client_import_header :: "u64" where
  "rococo_light_client_import_header = saturating_add (saturating_add 1399655000 (reads rococo_db_weight 17)) (writes rococo_db_weight 22)"

definition rococo_light_client_import_header_not_new_finalized_with_max_prune :: "u64" where
  "rococo_light_client_import_header_not_new_finalized_with_max_prune = saturating_add (saturating_add 1354413000 (reads rococo_db_weight 16)) (writes rococo_db_weight 20)"

definition rococo_light_client_import_header_new_finalized_with_single_prune :: "u64" where
  "rococo_light_client_import_header_new_finalized_with_single_prune = saturating_add (saturating_add 1321962000 (reads rococo_db_weight 10)) (writes rococo_db_weight 8)"

definition rococo_light_client_import_header_not_new_finalized_with_single_prune :: "u64" where
  "rococo_light_client_import_header_not_new_finalized_with_single_prune = saturating_add (saturating_add 1282699000 (reads rococo_db_weight 9)) (writes rococo_db_weight 6)"

definition rococo_dot_app_lock :: "u64" where
  "rococo_dot_app_lock = saturating_add (saturating_add 168259000 (reads rococo_db_weight 4)) (writes rococo_db_weight 3)"

definition rococo_dot_app_unlock :: "u64" where
  "rococo_dot_app_unlock = saturating_add (saturating_add 101556000 (reads rococo_db_weight 3)) (writes rococo_db_weight 2)"

definition rococo_eth_app_burn :: "u64" where
  "rococo_eth_app_burn = saturating_add (saturating_add 85554000 (reads rococo_db_weight 5)) (writes rococo_db_weight 4)"

definition rococo_eth_app_mint :: "u64" where
  "rococo_eth_app_mint = saturating_add (saturating_add 47663000 (reads rococo_db_weight 3)) (writes rococo_db_weight 2)"

definition rococo_erc20_app_burn :: "u64" where
  "rococo_erc20_app_burn = saturating_add (saturating_add 91495000 (reads rococo_db_weight 5)) (writes rococo_db_weight 4)"

definition rococo_erc20_app_mint :: "u64" where
  "rococo_erc20_app_mint = saturating_add (saturating_add 49762000 (reads rococo_db_weight 3)) (writes rococo_db_weight 2)"

lemmas snowbridge_weights =
  snowbridge_db_weight_def reads_def writes_def
  snowbridge_assets_transfer_def snowbridge_basic_in_submit_def snowbridge_basic_out_on_initialize_def
  snowbridge_basic_out_on_initialize_non_interval_def snowbridge_basic_out_on_initialize_no_messages_def snowbridge_basic_out_set_principal_def
  snowbridge_incentivized_in_submit_def snowbridge_incentivized_in_set_reward_fraction_def snowbridge_incentivized_out_on_initialize_def
  snowbridge_incentivized_out_on_initialize_non_interval_def snowbridge_incentivized_out_on_initialize_no_messages_def snowbridge_incentivized_out_set_fee_def
  snowbridge_light_client_import_header_def snowbridge_light_client_import_header_not_new_finalized_with_max_prune_def snowbridge_light_client_import_header_new_finalized_with_single_prune_def
  snowbridge_light_client_import_header_not_new_finalized_with_single_prune_def snowbridge_dot_app_lock_def snowbridge_dot_app_unlock_def
  snowbridge_eth_app_burn_def snowbridge_eth_app_mint_def snowbridge_erc20_app_burn_def
  snowbridge_erc20_app_mint_def

lemmas rococo_weights =
  rococo_db_weight_def reads_def writes_def
  rococo_assets_transfer_def rococo_basic_in_submit_def rococo_basic_out_on_initialize_def
  rococo_basic_out_on_initialize_non_interval_def rococo_basic_out_on_initialize_no_messages_def rococo_basic_out_set_principal_def
  rococo_incentivized_in_submit_def rococo_incentivized_in_set_reward_fraction_def rococo_incentivized_out_on_initialize_def
  rococo_incentivized_out_on_initialize_non_interval_def rococo_incentivized_out_on_initialize_no_messages_def rococo_incentivized_out_set_fee_def
  rococo_light_client_import_header_def rococo_light_client_import_header_not_new_finalized_with_max_prune_def rococo_light_client_import_header_new_finalized_with_single_prune_def
  rococo_light_client_import_header_not_new_finalized_with_single_prune_def rococo_dot_app_lock_def rococo_dot_app_unlock_def
  rococo_eth_app_burn_def rococo_eth_app_mint_def rococo_erc20_app_burn_def
  rococo_erc20_app_mint_def

section \<open>The hooks of the channels\<close>

definition snowbridge_basic_weights :: outbound_weights where
  "snowbridge_basic_weights = \<lparr>w_on_initialize = snowbridge_basic_out_on_initialize,
     w_non_interval = snowbridge_basic_out_on_initialize_non_interval,
     w_no_messages = snowbridge_basic_out_on_initialize_no_messages\<rparr>"

definition snowbridge_incentivized_weights :: outbound_weights where
  "snowbridge_incentivized_weights = \<lparr>w_on_initialize = snowbridge_incentivized_out_on_initialize,
     w_non_interval = snowbridge_incentivized_out_on_initialize_non_interval,
     w_no_messages = snowbridge_incentivized_out_on_initialize_no_messages\<rparr>"

definition rococo_basic_weights :: outbound_weights where
  "rococo_basic_weights = \<lparr>w_on_initialize = rococo_basic_out_on_initialize,
     w_non_interval = rococo_basic_out_on_initialize_non_interval,
     w_no_messages = rococo_basic_out_on_initialize_no_messages\<rparr>"

definition rococo_incentivized_weights :: outbound_weights where
  "rococo_incentivized_weights = \<lparr>w_on_initialize = rococo_incentivized_out_on_initialize,
     w_non_interval = rococo_incentivized_out_on_initialize_non_interval,
     w_no_messages = rococo_incentivized_out_on_initialize_no_messages\<rparr>"

lemma average_size_le: "ls \<noteq> [] \<Longrightarrow> (\<And>n. n \<in> set ls \<Longrightarrow> n \<le> k) \<Longrightarrow> average_size ls \<le> Suc k"
proof -
  assume ls: "ls \<noteq> []" and k: "\<And>n. n \<in> set ls \<Longrightarrow> n \<le> k"
  have "sum_list ls \<le> k * length ls" using k by (induction ls) (fastforce simp: algebra_simps)+
  moreover have "foldl (\<lambda>acc n. acc + n) a ls = a + sum_list ls" for a by (induction ls arbitrary: a) simp_all
  ultimately show ?thesis
    using ls div_le_mono [of "sum_list ls" "k * length ls" "length ls"] by (simp add: average_size_def)
qed

lemma sat_le:
  "unat (saturating_add a b) \<le> unat a + unat b" "unat (saturating_mul a b) \<le> unat a * unat b"
  by (simp_all add: unat_saturating_add unat_saturating_mul)

text \<open>No weight function saturates, so each is the linear function it is written as, at most.\<close>

definition linear_hook :: "outbound_weights \<Rightarrow> bool" where
  "linear_hook W \<longleftrightarrow> (\<forall>m p. unat (w_on_initialize W m p) \<le> 25845000 * unat m + 948000 * unat p + 295000000) \<and>
     unat (w_non_interval W) \<le> 295000000 \<and> unat (w_no_messages W) \<le> 295000000"

lemma hook_sum_le:
  fixes m p :: u32 and b c a r w :: u64
  shows "unat (saturating_add (saturating_add (saturating_add (saturating_add a (saturating_mul b (ucast m))) (saturating_mul c (ucast p))) r) w)
    \<le> unat a + unat b * unat m + unat c * unat p + unat r + unat w"
proof -
  have "unat (ucast m :: u64) = unat m" "unat (ucast p :: u64) = unat p"
    using unsigned_less [of m, where ?'a = nat] unsigned_less [of p, where ?'a = nat] by (simp_all add: unat_ucast_mod)
  then show ?thesis
    using sat_le(2) [of b "ucast m"] sat_le(2) [of c "ucast p"] by (simp add: unat_saturating_add)
qed

lemma hook_bound:
  fixes m p :: u32 and b c r w :: u64
  assumes "unat b \<le> 25845000" "unat c \<le> 948000" "unat r + unat w \<le> 295000000"
  shows "unat (saturating_add (saturating_add (saturating_add (saturating_add 0 (saturating_mul b (ucast m))) (saturating_mul c (ucast p))) r) w)
    \<le> 25845000 * unat m + 948000 * unat p + 295000000"
proof -
  have "unat b * unat m \<le> 25845000 * unat m" "unat c * unat p \<le> 948000 * unat p"
    using assms by (intro mult_right_mono; simp)+
  moreover have "unat (0 :: u64) = 0" by simp
  ultimately show ?thesis using hook_sum_le [of 0 b m c p r w] assms(3) by linarith
qed

lemmas hook_simps = linear_hook_def outbound_weights.select_convs

lemma snowbridge_hooks: "linear_hook snowbridge_basic_weights" "linear_hook snowbridge_incentivized_weights"
  unfolding hook_simps snowbridge_basic_weights_def snowbridge_incentivized_weights_def snowbridge_weights
  by (intro conjI allI hook_bound; simp add: unat_saturating_mul unat_saturating_add)+

lemma rococo_hooks: "linear_hook rococo_basic_weights" "linear_hook rococo_incentivized_weights"
  unfolding hook_simps rococo_basic_weights_def rococo_incentivized_weights_def rococo_weights
  by (intro conjI allI hook_bound; simp add: unat_saturating_mul unat_saturating_add)+

text \<open>What a full commit costs under such weights.\<close>

lemma linear_hook_full:
  assumes W: "linear_hook W" and n: "n \<le> 20" and k: "k \<le> 257"
  shows "unat (w_on_initialize W (of_nat n) (of_nat k)) \<le> 1056000000"
proof -
  have "unat (of_nat n :: u32) = n" "unat (of_nat k :: u32) = k" using n k by (simp_all add: unat_of_nat)
  then have "unat (w_on_initialize W (of_nat n) (of_nat k)) \<le> 25845000 * n + 948000 * k + 295000000"
    using W unfolding linear_hook_def by metis
  then show ?thesis using n k by linarith
qed

lemma linear_hook_small:
  assumes "linear_hook W"
  shows "unat (w_non_interval W) \<le> 1056000000" "unat (w_no_messages W) \<le> 1056000000"
  using assms unfolding linear_hook_def by linarith+

lemma basic_hook_bound:
  assumes W: "linear_hook (bout_weights cfg)" and q: "length (bout_queue (sget (bout_st cfg) s)) \<le> 20"
    and p: "\<And>m. m \<in> set (bout_queue (sget (bout_st cfg) s)) \<Longrightarrow> length (bm_payload m) \<le> 256"
    and iv: "bout_interval (sget (bout_st cfg) s) \<noteq> 0"
  shows "\<exists>w. fst (basic_on_initialize cfg now s) = Ok w \<and> unat w \<le> 1056000000"
proof -
  let ?ms = "bout_queue (sget (bout_st cfg) s)"
  have "\<exists>w. fst (basic_commit cfg s) = Ok w \<and> unat w \<le> 1056000000"
  proof (cases "?ms = []")
    case False
    then have "basic_average_payload_size ?ms \<le> Suc 256"
      unfolding basic_average_payload_size_def using p by (intro average_size_le) auto
    then show ?thesis
      using linear_hook_full [OF W q, of "basic_average_payload_size ?ms"] False by (simp add: basic_commit_run Let_def)
  qed (use linear_hook_small [OF W] in \<open>simp add: basic_commit_run Let_def\<close>)
  then show ?thesis
    using iv linear_hook_small [OF W] by (auto simp: basic_on_initialize_def ext_simps interval_due_def)
qed

lemma incentivized_hook_bound:
  assumes W: "linear_hook (iout_weights cfg)" and q: "length (iout_queue (sget (iout_st cfg) s)) \<le> 20"
    and p: "\<And>m. m \<in> set (iout_queue (sget (iout_st cfg) s)) \<Longrightarrow> length (im_payload m) \<le> 256"
    and iv: "iout_interval (sget (iout_st cfg) s) \<noteq> 0"
  shows "\<exists>w. fst (incentivized_on_initialize cfg now s) = Ok w \<and> unat w \<le> 1056000000"
proof -
  let ?ms = "iout_queue (sget (iout_st cfg) s)"
  have "\<exists>w. fst (incentivized_commit cfg s) = Ok w \<and> unat w \<le> 1056000000"
  proof (cases "?ms = []")
    case False
    then have "incentivized_average_payload_size ?ms \<le> Suc 256"
      unfolding incentivized_average_payload_size_def using p by (intro average_size_le) auto
    then show ?thesis
      using linear_hook_full [OF W q, of "incentivized_average_payload_size ?ms"] False
      by (simp add: incentivized_commit_run Let_def)
  qed (use linear_hook_small [OF W] in \<open>simp add: incentivized_commit_run Let_def\<close>)
  then show ?thesis
    using iv linear_hook_small [OF W] by (auto simp: incentivized_on_initialize_def ext_simps interval_due_def)
qed

section \<open>The calls fit into a block\<close>

theorem bridge_calls_fit_block:
  "list_all (\<lambda>w. unat w + unat snowbridge_ExtrinsicBaseWeight + unat snowbridge_BlockExecutionWeight
       \<le> unat MAXIMUM_BLOCK_WEIGHT div 10)
     [snowbridge_assets_transfer, snowbridge_basic_in_submit,
       snowbridge_basic_out_set_principal, snowbridge_incentivized_in_submit,
       snowbridge_incentivized_in_set_reward_fraction, snowbridge_incentivized_out_set_fee,
       snowbridge_light_client_import_header, snowbridge_light_client_import_header_not_new_finalized_with_max_prune,
       snowbridge_light_client_import_header_new_finalized_with_single_prune, snowbridge_light_client_import_header_not_new_finalized_with_single_prune,
       snowbridge_dot_app_lock, snowbridge_dot_app_unlock,
       snowbridge_eth_app_burn, snowbridge_eth_app_mint,
       snowbridge_erc20_app_burn, snowbridge_erc20_app_mint] \<and>
   list_all (\<lambda>w. unat w + unat rococo_ExtrinsicBaseWeight + unat rococo_BlockExecutionWeight
       \<le> unat MAXIMUM_BLOCK_WEIGHT div 10)
     [rococo_assets_transfer, rococo_basic_in_submit,
       rococo_basic_out_set_principal, rococo_incentivized_in_submit,
       rococo_incentivized_in_set_reward_fraction, rococo_incentivized_out_set_fee,
       rococo_light_client_import_header, rococo_light_client_import_header_not_new_finalized_with_max_prune,
       rococo_light_client_import_header_new_finalized_with_single_prune, rococo_light_client_import_header_not_new_finalized_with_single_prune,
       rococo_dot_app_lock, rococo_dot_app_unlock,
       rococo_eth_app_burn, rococo_eth_app_mint,
       rococo_erc20_app_burn, rococo_erc20_app_mint]"
  unfolding snowbridge_weights rococo_weights MAXIMUM_BLOCK_WEIGHT_def snowbridge_ExtrinsicBaseWeight_def
    snowbridge_BlockExecutionWeight_def rococo_ExtrinsicBaseWeight_def rococo_BlockExecutionWeight_def
  by (simp add: unat_saturating_mul unat_saturating_add unat_div_distrib)

end
