(* ===== verification/Runtime.thy ===== *)
theory Runtime
  imports Dispatch_Pallet Basic_Channel Incentivized_Channel Light_Client Nft_Pallet Dot_App Eth_App Erc20_App
    Erc721_App Xcm_Support Runtime_Weights
begin

text \<open>
  \<open>runtime/common\<close> and the runtimes \<open>snowbridge\<close>, \<open>rococo\<close> and \<open>local\<close>: the pallets put together.
  The storage of the bridge's pallets is a record; all other pallets' storage is one field of
  it, of a type that stays open.  The libraries and the pallets outside this repository are
  the fields of \<open>runtime_lib\<close>, an argument throughout; what distinguishes the three runtimes is
  \<open>runtime_constants\<close>.
\<close>

section \<open>Storage\<close>

record 'b runtime =
  rt_basic_in :: basic_inbound
  rt_basic_out :: basic_outbound
  rt_incentivized_in :: incentivized_inbound
  rt_incentivized_out :: incentivized_outbound
  rt_light_client :: light_client
  rt_assets :: assets
  rt_nft :: "erc721_token_data nft"
  rt_dot_address :: h160
  rt_eth_address :: h160
  rt_erc20_address :: h160
  rt_erc721 :: erc721_app
  rt_events :: "bridge_event list"
  rt_digest :: "auxiliary_digest_item list"
  rt_offchain :: "(bytes \<times> bytes) list"
  rt_foreign :: 'b

definition basic_in_st :: "('b runtime, basic_inbound) storage" where
  "basic_in_st = \<lparr>sget = rt_basic_in, sput = (\<lambda>v s. s\<lparr>rt_basic_in := v\<rparr>)\<rparr>"

definition basic_out_st :: "('b runtime, basic_outbound) storage" where
  "basic_out_st = \<lparr>sget = rt_basic_out, sput = (\<lambda>v s. s\<lparr>rt_basic_out := v\<rparr>)\<rparr>"

definition incentivized_in_st :: "('b runtime, incentivized_inbound) storage" where
  "incentivized_in_st = \<lparr>sget = rt_incentivized_in, sput = (\<lambda>v s. s\<lparr>rt_incentivized_in := v\<rparr>)\<rparr>"

definition incentivized_out_st :: "('b runtime, incentivized_outbound) storage" where
  "incentivized_out_st = \<lparr>sget = rt_incentivized_out, sput = (\<lambda>v s. s\<lparr>rt_incentivized_out := v\<rparr>)\<rparr>"

definition light_client_st :: "('b runtime, light_client) storage" where
  "light_client_st = \<lparr>sget = rt_light_client, sput = (\<lambda>v s. s\<lparr>rt_light_client := v\<rparr>)\<rparr>"

definition assets_st :: "('b runtime, assets) storage" where
  "assets_st = \<lparr>sget = rt_assets, sput = (\<lambda>v s. s\<lparr>rt_assets := v\<rparr>)\<rparr>"

definition nft_st :: "('b runtime, erc721_token_data nft) storage" where
  "nft_st = \<lparr>sget = rt_nft, sput = (\<lambda>v s. s\<lparr>rt_nft := v\<rparr>)\<rparr>"

definition dot_address_st :: "('b runtime, h160) storage" where
  "dot_address_st = \<lparr>sget = rt_dot_address, sput = (\<lambda>v s. s\<lparr>rt_dot_address := v\<rparr>)\<rparr>"

definition eth_address_st :: "('b runtime, h160) storage" where
  "eth_address_st = \<lparr>sget = rt_eth_address, sput = (\<lambda>v s. s\<lparr>rt_eth_address := v\<rparr>)\<rparr>"

definition erc20_address_st :: "('b runtime, h160) storage" where
  "erc20_address_st = \<lparr>sget = rt_erc20_address, sput = (\<lambda>v s. s\<lparr>rt_erc20_address := v\<rparr>)\<rparr>"

definition erc721_app_st :: "('b runtime, erc721_app) storage" where
  "erc721_app_st = \<lparr>sget = rt_erc721, sput = (\<lambda>v s. s\<lparr>rt_erc721 := v\<rparr>)\<rparr>"

definition foreign_st :: "('b runtime, 'b) storage" where
  "foreign_st = \<lparr>sget = rt_foreign, sput = (\<lambda>v s. s\<lparr>rt_foreign := v\<rparr>)\<rparr>"

definition rt_sys :: "'b runtime sys_ops" where
  "rt_sys = \<lparr>deposit_event = (\<lambda>e s. s\<lparr>rt_events := rt_events s @ [e]\<rparr>),
     deposit_log = (\<lambda>i s. s\<lparr>rt_digest := rt_digest s @ [i]\<rparr>),
     offchain_set = (\<lambda>k v s. s\<lparr>rt_offchain := rt_offchain s @ [(k, v)]\<rparr>)\<rparr>"

section \<open>Calls\<close>

text \<open>
  \<open>construct_runtime!\<close>: the calls of the pallets that are listed with \<open>Call\<close>.  The outbound
  channels are not, so that their extrinsics \<open>set_principal\<close> and \<open>set_fee\<close> have no call.  A call
  of a pallet outside this repository carries the calls that it may dispatch (as \<open>batch\<close>, \<open>sudo\<close> or
  a council proposal do).
\<close>

datatype ('d, 'f) call =
    BasicInboundSubmit message
  | IncentivizedInboundSubmit message
  | SetRewardFraction u32
  | ImportHeader header "double_node list"
  | AssetsTransfer asset_id 'd u256
  | DotLock channel_id h160 u128
  | DotUnlock h160 'd u256
  | EthBurn channel_id h160 u256
  | EthMint h160 'd u256
  | Erc20Burn channel_id h160 h160 u256
  | Erc20Mint h160 h160 'd u256
  | Erc721Burn channel_id u128 h160
  | Erc721Mint h160 'd h160 u256 bytes
  | ForeignCall 'f "('d, 'f) call list"

text \<open>
  What a pallet outside this repository does when called, as far as the bridge can tell: it
  works on its own storage and dispatches some of the calls it carries, each with an origin it
  is entitled to, possibly several in one storage transaction (as \<open>batch_all\<close> does), and it may
  move bridged assets by way of the XCM adapter.  No such pallet can make an Ethereum origin.
  Called by an Ethereum origin, which is not an account, it can only pass that origin on.
  Left out are the calls by which root replaces storage or code as such (\<open>set_storage\<close>,
  \<open>kill_storage\<close>, \<open>kill_prefix\<close> and \<open>set_code\<close> of \<open>frame_system\<close>): after them the storage is
  whatever root has chosen.
\<close>

datatype native_origin = NRoot | NSigned account_id | NUnsigned | NCouncil u32 u32 | NForeign nat

fun of_native :: "native_origin \<Rightarrow> origin" where
  "of_native NRoot = Root"
| "of_native (NSigned w) = Signed w"
| "of_native NUnsigned = Unsigned"
| "of_native (NCouncil n m) = Council n m"
| "of_native (NForeign k) = ForeignOrigin k"

datatype 'b plan =
    Finish "(dispatch_error, unit) result" 'b
  | Nested nat native_origin 'b "(dispatch_error, unit) result \<times> 'b \<Rightarrow> 'b plan"
  | Atomic "'b plan" 'b "(dispatch_error, unit) result \<times> 'b \<Rightarrow> 'b plan"
  | XcmDeposit xcm_asset multi_location 'b "(xcm_error, unit) result \<times> 'b \<Rightarrow> 'b plan"
  | XcmWithdraw xcm_asset multi_location 'b "(xcm_error, xcm_asset) result \<times> 'b \<Rightarrow> 'b plan"

datatype 'b ethereum_plan =
    EFinish "(dispatch_error, unit) result" 'b
  | ENested nat 'b "(dispatch_error, unit) result \<times> 'b \<Rightarrow> 'b ethereum_plan"
  | EAtomic "'b ethereum_plan" 'b "(dispatch_error, unit) result \<times> 'b \<Rightarrow> 'b ethereum_plan"

record ('b, 'd, 'f) runtime_lib =
  rl_abi :: abi_lib
  rl_eth :: eth_lib
  rl_ethash :: ethash_lib
  rl_xcm :: xcm_lib
  rl_currency :: "'b currency"
  rl_lookup :: "'d \<Rightarrow> account_id option"
  rl_decode_call :: "bytes \<Rightarrow> ('d, 'f) call option"
  rl_encode_basic :: "basic_message list \<Rightarrow> bytes"
  rl_encode_incentivized :: "incentivized_message list \<Rightarrow> bytes"
  rl_keccak256 :: "bytes \<Rightarrow> h256"
  rl_mul_ceil :: "u32 \<Rightarrow> u128 \<Rightarrow> u128"
  rl_into_account :: "string \<Rightarrow> account_id"
  rl_foreign_call :: "'f \<Rightarrow> native_origin \<Rightarrow> 'b \<Rightarrow> 'b plan"
  rl_foreign_ethereum_call :: "'f \<Rightarrow> h160 \<Rightarrow> 'b \<Rightarrow> 'b ethereum_plan"

section \<open>The constants of the runtimes\<close>

definition INDEXING_PREFIX :: bytes where
  "INDEXING_PREFIX = map (\<lambda>c. of_nat (of_char c)) ''commitment''"

definition Ether :: asset_id where
  "Ether = ETH"

definition MaxMessagePayloadSize :: nat where
  "MaxMessagePayloadSize = 256"

definition MaxMessagesPerCommit :: nat where
  "MaxMessagesPerCommit = 20"

definition TreasuryPalletId :: string where
  "TreasuryPalletId = ''s/treasy''"

definition DotPalletId :: string where
  "DotPalletId = ''s/dotapp''"

record runtime_constants =
  rc_descendants :: u8
  rc_difficulty :: difficulty_config
  rc_verify_pow :: bool
  rc_decimals :: u32
  rc_basic_weights :: outbound_weights
  rc_incentivized_weights :: outbound_weights

definition snowbridge :: runtime_constants where
  "snowbridge = \<lparr>rc_descendants = 3, rc_difficulty = mainnet, rc_verify_pow = True, rc_decimals = 10,
     rc_basic_weights = snowbridge_basic_weights, rc_incentivized_weights = snowbridge_incentivized_weights\<rparr>"

definition rococo :: runtime_constants where
  "rococo = \<lparr>rc_descendants = 3, rc_difficulty = ropsten, rc_verify_pow = True, rc_decimals = 12,
     rc_basic_weights = rococo_basic_weights, rc_incentivized_weights = rococo_incentivized_weights\<rparr>"

text \<open>The local runtime takes \<open>impl WeightInfo for ()\<close>, where every weight is zero.\<close>

definition unit_weights :: outbound_weights where
  "unit_weights = \<lparr>w_on_initialize = (\<lambda>_ _. 0), w_non_interval = 0, w_no_messages = 0\<rparr>"

definition local_runtime :: runtime_constants where
  "local_runtime = \<lparr>rc_descendants = 1, rc_difficulty = ropsten, rc_verify_pow = False, rc_decimals = 12,
     rc_basic_weights = unit_weights, rc_incentivized_weights = unit_weights\<rparr>"

section \<open>The configuration of the pallets\<close>

fun ensure_root_or_half_local_council :: "origin \<Rightarrow> bool" where
  "ensure_root_or_half_local_council Root = True"
| "ensure_root_or_half_local_council (Council n m) = (unat n * 2 > unat m)"
| "ensure_root_or_half_local_council _ = False"

definition call_filter_all :: "('d, 'f) call \<Rightarrow> bool" where
  "call_filter_all c = True"

definition zoom_currency :: "('s, 'v) storage \<Rightarrow> 'v currency \<Rightarrow> 's currency" where
  "zoom_currency st C = \<lparr>cur_free = (\<lambda>w s. cur_free C w (sget st s)), cur_issuance = (\<lambda>s. cur_issuance C (sget st s)),
     cur_minimum_balance = cur_minimum_balance C,
     cur_transfer = (\<lambda>w v x k. zoom st (cur_transfer C w v x k)),
     cur_withdraw = (\<lambda>w x k. zoom st (cur_withdraw C w x k)),
     cur_deposit_into_existing = (\<lambda>w x. zoom st (cur_deposit_into_existing C w x)),
     cur_resolve_creating = (\<lambda>w x s. sput st (cur_resolve_creating C w x (sget st s)) s),
     cur_drop_positive = (\<lambda>x s. sput st (cur_drop_positive C x (sget st s)) s)\<rparr>"

definition rt_currency :: "('b, 'd, 'f) runtime_lib \<Rightarrow> 'b runtime currency" where
  "rt_currency L = zoom_currency foreign_st (rl_currency L)"

definition rt_multi_asset :: "'b runtime multi_asset" where
  "rt_multi_asset = zoom_multi assets_st assets_multi"

definition rt_nft_ops :: "('b runtime, erc721_token_data) nft_ops" where
  "rt_nft_ops = zoom_nft nft_st nft_pallet"

definition lc_cfg :: "('b, 'd, 'f) runtime_lib \<Rightarrow> runtime_constants \<Rightarrow> lc_config" where
  "lc_cfg L K = \<lparr>lc_lib = rl_eth L, lc_ethash = rl_ethash L, descendants_until_finalized = rc_descendants K,
     lc_difficulty = rc_difficulty K, verify_pow = rc_verify_pow K\<rparr>"

definition rt_verifier :: "('b, 'd, 'f) runtime_lib \<Rightarrow> runtime_constants \<Rightarrow> 'b runtime verifier" where
  "rt_verifier L K m = zoom light_client_st (verify (lc_cfg L K) m)"

text \<open>\<open>FeeConverter\<close>: no value where the \<open>expect\<close> panics.\<close>

definition fee_converter :: "runtime_constants \<Rightarrow> u256 \<Rightarrow> u128 option" where
  "fee_converter K amount = unwrap_dot amount (rc_decimals K)"

definition basic_out_cfg :: "('b, 'd, 'f) runtime_lib \<Rightarrow> runtime_constants \<Rightarrow> 'b runtime basic_outbound_config" where
  "basic_out_cfg L K = \<lparr>bout_st = basic_out_st, bout_sys = rt_sys, bout_abi = rl_abi L, bout_encode = rl_encode_basic L,
     bout_prefix = INDEXING_PREFIX, bout_hashing = rl_keccak256 L, bout_max_payload = MaxMessagePayloadSize,
     bout_max_messages = MaxMessagesPerCommit, bout_set_principal_origin = ensure_root_or_half_local_council,
     bout_weights = rc_basic_weights K\<rparr>"

definition incentivized_out_cfg :: "('b, 'd, 'f) runtime_lib \<Rightarrow> runtime_constants \<Rightarrow> 'b runtime incentivized_outbound_config" where
  "incentivized_out_cfg L K = \<lparr>iout_st = incentivized_out_st, iout_sys = rt_sys, iout_abi = rl_abi L,
     iout_encode = rl_encode_incentivized L, iout_prefix = INDEXING_PREFIX, iout_hashing = rl_keccak256 L,
     iout_max_payload = MaxMessagePayloadSize, iout_max_messages = MaxMessagesPerCommit,
     iout_fee_currency = single_asset_adaptor rt_multi_asset Ether,
     iout_set_fee_origin = ensure_root_or_half_local_council, iout_weights = rc_incentivized_weights K\<rparr>"

text \<open>\<open>OutboundRouter::submit\<close>.\<close>

definition rt_router :: "('b, 'd, 'f) runtime_lib \<Rightarrow> runtime_constants \<Rightarrow> 'b runtime outbound_router" where
  "rt_router L K c = (case c of
       Basic \<Rightarrow> basic_out_submit (basic_out_cfg L K)
     | Incentivized \<Rightarrow> incentivized_out_submit (incentivized_out_cfg L K))"

definition dot_cfg :: "('b, 'd, 'f) runtime_lib \<Rightarrow> runtime_constants \<Rightarrow> ('b runtime, 'd) dot_config" where
  "dot_cfg L K = \<lparr>dot_address = dot_address_st, dot_currency = rt_currency L, dot_router = rt_router L K,
     dot_call_origin = ensure_ethereum_account, dot_account_id = rl_into_account L DotPalletId,
     dot_decimals = rc_decimals K, dot_lookup = rl_lookup L, dot_abi = rl_abi L, dot_sys = rt_sys\<rparr>"

definition eth_cfg :: "('b, 'd, 'f) runtime_lib \<Rightarrow> runtime_constants \<Rightarrow> ('b runtime, 'd) eth_config" where
  "eth_cfg L K = \<lparr>eth_address = eth_address_st, eth_asset = single_asset_adaptor rt_multi_asset ETH,
     eth_router = rt_router L K, eth_call_origin = ensure_ethereum_account, eth_lookup = rl_lookup L,
     eth_abi = rl_abi L, eth_sys = rt_sys\<rparr>"

definition erc20_cfg :: "('b, 'd, 'f) runtime_lib \<Rightarrow> runtime_constants \<Rightarrow> ('b runtime, 'd) erc20_config" where
  "erc20_cfg L K = \<lparr>erc20_address = erc20_address_st, erc20_assets = rt_multi_asset, erc20_router = rt_router L K,
     erc20_call_origin = ensure_ethereum_account, erc20_lookup = rl_lookup L, erc20_abi = rl_abi L, erc20_sys = rt_sys\<rparr>"

definition erc721_cfg :: "('b, 'd, 'f) runtime_lib \<Rightarrow> runtime_constants \<Rightarrow> ('b runtime, 'd) erc721_config" where
  "erc721_cfg L K = \<lparr>erc721_st = erc721_app_st, erc721_nft = rt_nft_ops, erc721_router = rt_router L K,
     erc721_call_origin = ensure_ethereum_account, erc721_lookup = rl_lookup L, erc721_abi = rl_abi L, erc721_sys = rt_sys\<rparr>"

text \<open>The inbound channels dispatch the calls they decode with \<open>inner\<close>.\<close>

definition dispatch_cfg ::
  "('b, 'd, 'f) runtime_lib \<Rightarrow> (('d, 'f) call \<Rightarrow> origin \<Rightarrow> ('b runtime, dispatch_error, unit) ext) \<Rightarrow>
     ('b runtime, ('d, 'f) call) dispatch_config" where
  "dispatch_cfg L inner = \<lparr>decode_call = rl_decode_call L, call_filter = call_filter_all, call_dispatch = inner,
     dispatch_sys = rt_sys\<rparr>"

definition basic_in_cfg ::
  "('b, 'd, 'f) runtime_lib \<Rightarrow> runtime_constants \<Rightarrow> (('d, 'f) call \<Rightarrow> origin \<Rightarrow> ('b runtime, dispatch_error, unit) ext) \<Rightarrow>
     'b runtime basic_inbound_config" where
  "basic_in_cfg L K inner = \<lparr>bin_st = basic_in_st, bin_abi = rl_abi L, bin_verifier = rt_verifier L K,
     bin_dispatch = dispatch (dispatch_cfg L inner)\<rparr>"

definition incentivized_in_cfg ::
  "('b, 'd, 'f) runtime_lib \<Rightarrow> runtime_constants \<Rightarrow> (('d, 'f) call \<Rightarrow> origin \<Rightarrow> ('b runtime, dispatch_error, unit) ext) \<Rightarrow>
     'b runtime incentivized_inbound_config" where
  "incentivized_in_cfg L K inner = \<lparr>iin_st = incentivized_in_st, iin_abi = rl_abi L, iin_verifier = rt_verifier L K,
     iin_dispatch = dispatch (dispatch_cfg L inner), iin_currency = rt_currency L,
     iin_source_account = rl_into_account L DotPalletId, iin_treasury_account = rl_into_account L TreasuryPalletId,
     iin_fee_converter = fee_converter K, iin_update_origin = ensure_root_or_half_local_council,
     iin_mul_ceil = rl_mul_ceil L\<rparr>"

section \<open>Dispatch\<close>

primrec run_plan ::
  "xcm_lib \<Rightarrow> (origin \<Rightarrow> ('b runtime, dispatch_error, unit) ext) list \<Rightarrow> 'b plan \<Rightarrow> ('b runtime, dispatch_error, unit) ext" where
  "run_plan X hs (Finish r b) = (\<lambda>s. (r, s\<lparr>rt_foreign := b\<rparr>))"
| "run_plan X hs (Nested i org b k) = (\<lambda>s.
     if i < length hs then
       (case (hs ! i) (of_native org) (s\<lparr>rt_foreign := b\<rparr>) of (r, s') \<Rightarrow>
          if returns r then run_plan X hs (k (r, rt_foreign s')) s' else (r, s'))
     else (Panic, s))"
| "run_plan X hs (Atomic p b k) = (\<lambda>s.
     case transactional (run_plan X hs p) (s\<lparr>rt_foreign := b\<rparr>) of (r, s') \<Rightarrow>
       if returns r then run_plan X hs (k (r, rt_foreign s')) s' else (r, s'))"
| "run_plan X hs (XcmDeposit a l b k) = (\<lambda>s.
     case deposit_asset X rt_multi_asset a l (s\<lparr>rt_foreign := b\<rparr>) of (r, s') \<Rightarrow>
       if returns r then run_plan X hs (k (r, rt_foreign s')) s' else (Panic, s'))"
| "run_plan X hs (XcmWithdraw a l b k) = (\<lambda>s.
     case withdraw_asset X rt_multi_asset a l (s\<lparr>rt_foreign := b\<rparr>) of (r, s') \<Rightarrow>
       if returns r then run_plan X hs (k (r, rt_foreign s')) s' else (Panic, s'))"

primrec run_ethereum_plan ::
  "h160 \<Rightarrow> (origin \<Rightarrow> ('b runtime, dispatch_error, unit) ext) list \<Rightarrow> 'b ethereum_plan \<Rightarrow> ('b runtime, dispatch_error, unit) ext" where
  "run_ethereum_plan a hs (EFinish r b) = (\<lambda>s. (r, s\<lparr>rt_foreign := b\<rparr>))"
| "run_ethereum_plan a hs (ENested i b k) = (\<lambda>s.
     if i < length hs then
       (case (hs ! i) (DispatchOrigin a) (s\<lparr>rt_foreign := b\<rparr>) of (r, s') \<Rightarrow>
          if returns r then run_ethereum_plan a hs (k (r, rt_foreign s')) s' else (r, s'))
     else (Panic, s))"
| "run_ethereum_plan a hs (EAtomic p b k) = (\<lambda>s.
     case transactional (run_ethereum_plan a hs p) (s\<lparr>rt_foreign := b\<rparr>) of (r, s') \<Rightarrow>
       if returns r then run_ethereum_plan a hs (k (r, rt_foreign s')) s' else (r, s'))"

fun to_native :: "origin \<Rightarrow> native_origin + h160" where
  "to_native Root = Inl NRoot"
| "to_native (Signed w) = Inl (NSigned w)"
| "to_native Unsigned = Inl NUnsigned"
| "to_native (Council n m) = Inl (NCouncil n m)"
| "to_native (ForeignOrigin k) = Inl (NForeign k)"
| "to_native (DispatchOrigin a) = Inr a"

definition run_foreign ::
  "('b, 'd, 'f) runtime_lib \<Rightarrow> 'f \<Rightarrow> (origin \<Rightarrow> ('b runtime, dispatch_error, unit) ext) list \<Rightarrow> origin \<Rightarrow>
     ('b runtime, dispatch_error, unit) ext" where
  "run_foreign L f hs org s = (case to_native org of
       Inl n \<Rightarrow> run_plan (rl_xcm L) hs (rl_foreign_call L f n (rt_foreign s)) s
     | Inr a \<Rightarrow> run_ethereum_plan a hs (rl_foreign_ethereum_call L f a (rt_foreign s)) s)"

text \<open>A call of the runtime, where \<open>inner\<close> dispatches the calls that arrive in messages.\<close>

primrec run_call ::
  "('b, 'd, 'f) runtime_lib \<Rightarrow> runtime_constants \<Rightarrow> (('d, 'f) call \<Rightarrow> origin \<Rightarrow> ('b runtime, dispatch_error, unit) ext) \<Rightarrow>
     ('d, 'f) call \<Rightarrow> origin \<Rightarrow> ('b runtime, dispatch_error, unit) ext" where
  "run_call L K inner (BasicInboundSubmit m) = (\<lambda>org. basic_submit (basic_in_cfg L K inner) org m)"
| "run_call L K inner (IncentivizedInboundSubmit m) = (\<lambda>org. incentivized_submit (incentivized_in_cfg L K inner) org m)"
| "run_call L K inner (SetRewardFraction f) = (\<lambda>org. set_reward_fraction (incentivized_in_cfg L K inner) org f)"
| "run_call L K inner (ImportHeader h p) = (\<lambda>org. zoom light_client_st (import_header (lc_cfg L K) org h p))"
| "run_call L K inner (AssetsTransfer a d x) = (\<lambda>org. zoom assets_st (transfer_call (rl_lookup L) org a d x))"
| "run_call L K inner (DotLock c recipient x) = (\<lambda>org. lock (dot_cfg L K) org c recipient x)"
| "run_call L K inner (DotUnlock sender d x) = (\<lambda>org. unlock (dot_cfg L K) org sender d x)"
| "run_call L K inner (EthBurn c recipient x) = (\<lambda>org. eth_burn (eth_cfg L K) org c recipient x)"
| "run_call L K inner (EthMint sender d x) = (\<lambda>org. eth_mint (eth_cfg L K) org sender d x)"
| "run_call L K inner (Erc20Burn c t recipient x) = (\<lambda>org. erc20_burn (erc20_cfg L K) org c t recipient x)"
| "run_call L K inner (Erc20Mint t sender d x) = (\<lambda>org. erc20_mint (erc20_cfg L K) org t sender d x)"
| "run_call L K inner (Erc721Burn c t recipient) = (\<lambda>org. erc721_burn (erc721_cfg L K) org c t recipient)"
| "run_call L K inner (Erc721Mint sender d ct i uri) = (\<lambda>org. erc721_mint (erc721_cfg L K) org sender d ct i uri)"
| "run_call L K inner (ForeignCall f cs) = run_foreign L f (map (run_call L K inner) cs)"

text \<open>
  A call in a message may be a submission of another message.  The number of such levels is the
  fuel; that two are enough is shown below.
\<close>

primrec dispatch_level ::
  "('b, 'd, 'f) runtime_lib \<Rightarrow> runtime_constants \<Rightarrow> nat \<Rightarrow> ('d, 'f) call \<Rightarrow> origin \<Rightarrow> ('b runtime, dispatch_error, unit) ext" where
  "dispatch_level L K 0 = (\<lambda>c org s. (Loop, s))"
| "dispatch_level L K (Suc n) = run_call L K (dispatch_level L K n)"

definition runtime_dispatch ::
  "('b, 'd, 'f) runtime_lib \<Rightarrow> runtime_constants \<Rightarrow> ('d, 'f) call \<Rightarrow> origin \<Rightarrow> ('b runtime, dispatch_error, unit) ext" where
  "runtime_dispatch L K = dispatch_level L K 2"

end
