(* ===== verification/Runtime_Contracts.thy ===== *)
theory Runtime_Contracts
  imports Runtime
begin

text \<open>
  The runtime meets the contracts the pallets are stated against: every locale of the library
  is interpreted here on the runtime's storage and configurations.  Before that, the nesting of
  calls: a call that arrives in a message cannot bring in another message, so two levels of
  \<open>dispatch_level\<close> are all there is.
\<close>

section \<open>Two levels of dispatch are enough\<close>

lemma run_ethereum_plan_cong:
  "list_all2 (\<lambda>h h'. h (DispatchOrigin a) = h' (DispatchOrigin a)) hs hs' \<Longrightarrow>
     run_ethereum_plan a hs p = run_ethereum_plan a hs' p"
proof (induction p)
  case (ENested i b k)
  then show ?case by (auto simp: list_all2_conv_all_nth intro!: HOL.ext split: prod.splits)
next
  case (EAtomic p b k)
  then have "run_ethereum_plan a hs p = run_ethereum_plan a hs' p" "\<And>q. run_ethereum_plan a hs (k q) = run_ethereum_plan a hs' (k q)"
    by auto
  then show ?case by (auto intro!: HOL.ext split: prod.splits)
qed simp

lemma ethereum_call_inner:
  "run_call L K inner c (DispatchOrigin a) = run_call L K inner' c (DispatchOrigin a)"
proof (induction c)
  case (ForeignCall f cs)
  then have "list_all2 (\<lambda>h h'. h (DispatchOrigin a) = h' (DispatchOrigin a)) (map (run_call L K inner) cs) (map (run_call L K inner') cs)"
    by (simp add: list_all2_conv_all_nth)
  from run_ethereum_plan_cong [OF this] show ?case by (auto simp: run_foreign_def intro!: HOL.ext)
qed (auto simp: basic_submit_def incentivized_submit_def set_reward_fraction_def incentivized_in_cfg_def ensure_def
    ext_simps intro!: HOL.ext)

lemma dispatch_inner_cong:
  assumes "\<And>c a. inner c (DispatchOrigin a) = inner' c (DispatchOrigin a)"
  shows "dispatch (dispatch_cfg L inner) = dispatch (dispatch_cfg L inner')"
  using assms by (intro HOL.ext) (auto simp: dispatch_def dispatch_cfg_def split: option.splits prod.splits result.splits)

lemma run_call_inner_cong:
  assumes "\<And>c a. inner c (DispatchOrigin a) = inner' c (DispatchOrigin a)"
  shows "run_call L K inner = run_call L K inner'"
proof
  fix c
  note d = dispatch_inner_cong [where inner = inner and inner' = inner', OF assms]
  show "run_call L K inner c = run_call L K inner' c"
  proof (induction c)
    case (ForeignCall f cs)
    then have "map (run_call L K inner) cs = map (run_call L K inner') cs" by simp
    then show ?case by (simp only: run_call.simps)
  qed (simp_all add: basic_in_cfg_def incentivized_in_cfg_def d set_reward_fraction_def)
qed

lemma dispatch_level_more: "dispatch_level L K (Suc (Suc n)) = dispatch_level L K 2"
proof -
  have "dispatch_level L K (Suc n) c (DispatchOrigin a) = dispatch_level L K (Suc 0) c (DispatchOrigin a)" for n c a
    by (simp only: dispatch_level.simps) (rule ethereum_call_inner)
  then have "run_call L K (dispatch_level L K (Suc n)) = run_call L K (dispatch_level L K (Suc 0))"
    by (intro run_call_inner_cong)
  then show ?thesis by (simp add: numeral_2_eq_2)
qed

lemma runtime_dispatch_fix: "runtime_dispatch L K = run_call L K (runtime_dispatch L K)"
proof -
  have "run_call L K (runtime_dispatch L K) = dispatch_level L K (Suc (Suc (Suc 0)))"
    by (simp add: runtime_dispatch_def numeral_2_eq_2)
  then show ?thesis by (simp only: dispatch_level_more runtime_dispatch_def)
qed

section \<open>Storage items\<close>

lemmas st_defs = basic_in_st_def basic_out_st_def incentivized_in_st_def incentivized_out_st_def light_client_st_def
  assets_st_def nft_st_def dot_address_st_def eth_address_st_def erc20_address_st_def erc721_app_st_def foreign_st_def

lemmas cfg_defs = basic_out_cfg_def incentivized_out_cfg_def dot_cfg_def eth_cfg_def erc20_cfg_def erc721_cfg_def
  basic_in_cfg_def incentivized_in_cfg_def dispatch_cfg_def

interpretation basic_in_item: storage_item basic_in_st by unfold_locales (simp_all add: st_defs)

interpretation basic_out_item: storage_item basic_out_st by unfold_locales (simp_all add: st_defs)

interpretation incentivized_in_item: storage_item incentivized_in_st by unfold_locales (simp_all add: st_defs)

interpretation incentivized_out_item: storage_item incentivized_out_st by unfold_locales (simp_all add: st_defs)

interpretation light_client_item: storage_item light_client_st by unfold_locales (simp_all add: st_defs)

interpretation assets_item: storage_item assets_st by unfold_locales (simp_all add: st_defs)

interpretation nft_item: storage_item nft_st by unfold_locales (simp_all add: st_defs)

interpretation erc721_item: storage_item erc721_app_st by unfold_locales (simp_all add: st_defs)

interpretation foreign_item: storage_item foreign_st by unfold_locales (simp_all add: st_defs)

section \<open>Registries\<close>

interpretation rt_assets_reg: stored_assets assets_st assets_multi assets_inv
  by (intro stored_assets.intro assets_item.storage_item_axioms assets_laws.multi_asset_laws_axioms)

interpretation rt_nft_reg: stored_nft nft_st nft_pallet nft_inv
  by (intro stored_nft.intro nft_item.storage_item_axioms nft_contract.nft_laws_axioms)

section \<open>Outbound channels and the router\<close>

interpretation rt_basic_out: basic_outbound_env "basic_out_cfg L K" for L :: "('b, 'd, 'f) runtime_lib" and K
  by unfold_locales (simp_all add: cfg_defs st_defs rt_sys_def)

interpretation rt_incentivized_out: incentivized_outbound_env "incentivized_out_cfg L K" for L :: "('b, 'd, 'f) runtime_lib" and K
proof unfold_locales
  fix w x and s :: "'b runtime" and r s'
  assume "sa_withdraw (iout_fee_currency (incentivized_out_cfg L K)) w x s = (r, s')"
  then show "sget (iout_st (incentivized_out_cfg L K)) s' = sget (iout_st (incentivized_out_cfg L K)) s"
    by (auto simp: cfg_defs st_defs single_asset_adaptor_def rt_multi_asset_def zoom_multi_def zoom_def split: prod.splits)
next
  fix w x and s :: "'b runtime" and e s'
  assume "sa_withdraw (iout_fee_currency (incentivized_out_cfg L K)) w x s = (Err e, s')"
  then show "s' = s"
    using rt_assets_reg.whole.withdraw_err [of Ether w x s]
    by (auto simp: cfg_defs single_asset_adaptor_def rt_multi_asset_def)
qed (simp_all add: cfg_defs st_defs rt_sys_def)

text \<open>What a submission changes: the queue it goes to, the events, and for the fee the assets.\<close>

lemma basic_router_effect:
  assumes "rt_router L K Basic w target p s = (Ok (), s')"
  obtains bo ev where "s' = s\<lparr>rt_basic_out := bo, rt_events := ev\<rparr>"
proof -
  obtain v where v: "s' = sput (bout_nonce_item basic_out_st) v (deposit_event rt_sys (MessageAccepted Basic v)
      (bout_update basic_out_st (\<lambda>b. b\<lparr>bout_queue := bout_queue b @ [\<lparr>bm_target = target, bm_nonce = v, bm_payload = p\<rparr>]\<rparr>) s))"
    using assms by (auto simp: rt_router_def basic_out_submit_Ok Let_def cfg_defs)
  then have "s' = s\<lparr>rt_basic_out := rt_basic_out s', rt_events := rt_events s'\<rparr>"
    by (intro runtime.equality) (simp_all add: st_defs rt_sys_def bout_nonce_item_def bout_update_def)
  then show thesis by (rule that)
qed

lemma incentivized_router_effect:
  assumes "rt_router L K Incentivized w target p s = (Ok (), s')"
  obtains io ev A where "s' = s\<lparr>rt_incentivized_out := io, rt_events := ev, rt_assets := A\<rparr>"
    "withdraw ETH w (iout_fee (rt_incentivized_out s)) (rt_assets s) = (Ok (), A)"
proof -
  have r: "incentivized_out_submit (incentivized_out_cfg L K) w target p s = (Ok (), s')"
    using assms by (simp add: rt_router_def)
  obtain v t where w: "sa_withdraw (iout_fee_currency (incentivized_out_cfg L K)) w (iout_fee (rt_incentivized_out s)) s = (Ok (), t)"
      and s': "s' = sput (iout_nonce_item incentivized_out_st) v (deposit_event rt_sys (MessageAccepted Incentivized v)
        (iout_update incentivized_out_st (\<lambda>b. b\<lparr>iout_queue := iout_queue b @ [\<lparr>im_target = target, im_nonce = v,
           im_fee = iout_fee (rt_incentivized_out s), im_payload = p\<rparr>]\<rparr>) t))"
    using r unfolding incentivized_out_submit_Ok by (auto simp: Let_def cfg_defs st_defs)
  obtain A where A: "withdraw ETH w (iout_fee (rt_incentivized_out s)) (rt_assets s) = (Ok (), A)" "t = s\<lparr>rt_assets := A\<rparr>"
    using w by (auto simp: cfg_defs single_asset_adaptor_def rt_multi_asset_def zoom_multi_def zoom_def st_defs
        assets_multi_def Ether_def split: prod.splits)
  then have "s' = s\<lparr>rt_incentivized_out := rt_incentivized_out s', rt_events := rt_events s', rt_assets := A\<rparr>"
    using s' by (intro runtime.equality) (simp_all add: st_defs rt_sys_def iout_nonce_item_def iout_update_def)
  then show thesis using A(1) by (rule that)
qed

lemma router_effect:
  assumes "rt_router L K c w target p s = (Ok (), s')"
  obtains bo io ev A where "s' = s\<lparr>rt_basic_out := bo, rt_incentivized_out := io, rt_events := ev, rt_assets := A\<rparr>"
    "\<exists>fee. withdraw ETH w fee (rt_assets s) = (Ok (), A)"
proof (cases c)
  case Basic
  then obtain bo ev where "s' = s\<lparr>rt_basic_out := bo, rt_events := ev\<rparr>" using assms basic_router_effect by metis
  moreover have "withdraw ETH w 0 (rt_assets s) = (Ok (), rt_assets s)" by (simp add: withdraw_run)
  ultimately show thesis using that [where bo = bo and io = "rt_incentivized_out s" and ev = ev and A = "rt_assets s"] by fastforce
next
  case Incentivized
  then obtain io ev A where "s' = s\<lparr>rt_incentivized_out := io, rt_events := ev, rt_assets := A\<rparr>"
      "withdraw ETH w (iout_fee (rt_incentivized_out s)) (rt_assets s) = (Ok (), A)"
    using assms incentivized_router_effect by metis
  then show thesis using that [where bo = "rt_basic_out s" and io = io and ev = ev and A = A] by auto
qed

lemmas rt_asset_simps = rt_multi_asset_def zoom_multi_def assets_multi_def st_defs

interpretation rt_fee: router_fee rt_multi_asset "\<lambda>s. assets_inv (rt_assets s)" "rt_router L K" rt_sys
  for L :: "('b, 'd, 'f) runtime_lib" and K
proof -
  have laws: "multi_asset_laws (rt_multi_asset :: 'b runtime multi_asset) (\<lambda>s. assets_inv (rt_assets s))"
    using rt_assets_reg.whole.multi_asset_laws_axioms by (simp add: rt_multi_asset_def st_defs)
  show "router_fee rt_multi_asset (\<lambda>s. assets_inv (rt_assets s)) (rt_router L K) rt_sys"
  proof (intro router_fee.intro laws router_fee_axioms.intro)
    fix s s' :: "'b runtime" and c w target p
    assume inv: "assets_inv (rt_assets s)" and "rt_router L K c w target p s = (Ok (), s')"
    then obtain A fee where A: "rt_assets s' = A" "withdraw ETH w fee (rt_assets s) = (Ok (), A)"
      by (elim router_effect) auto
    note wd = assets_laws.withdraw_ok [OF inv, of ETH w fee A]
    then show "assets_inv (rt_assets s') \<and> (\<exists>fee. charged rt_multi_asset w fee s s')"
      using A by (auto simp: charged_def others_kept_def rt_asset_simps)
  qed (simp_all add: rt_asset_simps rt_sys_def)
qed

interpretation rt_eth: eth_env rt_multi_asset "\<lambda>s. assets_inv (rt_assets s)" "eth_cfg L K"
  for L :: "('b, 'd, 'f) runtime_lib" and K
  using rt_fee.router_fee_axioms [of L K] by (intro eth_env.intro eth_env_axioms.intro) (simp_all add: eth_cfg_def)

interpretation rt_erc20: erc20_env rt_multi_asset "\<lambda>s. assets_inv (rt_assets s)" "erc20_cfg L K"
  for L :: "('b, 'd, 'f) runtime_lib" and K
  using rt_fee.router_fee_axioms [of L K] by (intro erc20_env.intro erc20_env_axioms.intro) (simp_all add: erc20_cfg_def)

interpretation rt_dot: dot_env "dot_cfg L K" for L :: "('b, 'd, 'f) runtime_lib" and K
proof unfold_locales
  fix c w target p and s s' :: "'b runtime"
  assume "dot_router (dot_cfg L K) c w target p s = (Ok (), s')"
  then have "rt_foreign s' = rt_foreign s" by (auto simp: dot_cfg_def elim: router_effect)
  then show "(\<lambda>v. cur_free (dot_currency (dot_cfg L K)) v s') = (\<lambda>v. cur_free (dot_currency (dot_cfg L K)) v s)"
    by (simp add: dot_cfg_def rt_currency_def zoom_currency_def st_defs)
qed (simp add: dot_cfg_def rt_currency_def zoom_currency_def st_defs rt_sys_def)

interpretation rt_erc721: erc721_env "erc721_cfg L K" "\<lambda>s. nft_inv (rt_nft s)"
  for L :: "('b, 'd, 'f) runtime_lib" and K
proof -
  have item: "storage_item (erc721_st (erc721_cfg L K))"
    by (simp add: erc721_cfg_def erc721_item.storage_item_axioms)
  have laws: "nft_laws (erc721_nft (erc721_cfg L K)) (\<lambda>s. nft_inv (rt_nft s))"
    using rt_nft_reg.whole.nft_laws_axioms by (simp add: erc721_cfg_def rt_nft_ops_def st_defs)
  have frame: "router_frame (erc721_router (erc721_cfg L K))
      (\<lambda>s. (sget (erc721_st (erc721_cfg L K)) s, \<lambda>t. nft_get_token_data (erc721_nft (erc721_cfg L K)) t s))"
    by unfold_locales (auto simp: erc721_cfg_def rt_nft_ops_def zoom_nft_def st_defs elim!: router_effect)
  have "rt_nft s' = rt_nft s" if "erc721_router (erc721_cfg L K) c w target p s = (Ok (), s')" for c w target p s s'
    using that by (auto simp: erc721_cfg_def elim: router_effect)
  then have "erc721_env_axioms (erc721_cfg L K) (\<lambda>s. nft_inv (rt_nft s))"
    by unfold_locales (auto simp: erc721_cfg_def rt_nft_ops_def zoom_nft_def zoom_def st_defs rt_sys_def split: prod.splits)
  then show "erc721_env (erc721_cfg L K) (\<lambda>s. nft_inv (rt_nft s))"
    using item laws frame by (intro erc721_env.intro)
qed

end
