(* ===== verification/Runtime_Invariants.thy ===== *)
theory Runtime_Invariants
  imports Runtime_Contracts
begin

text \<open>
  How a property of the runtime's storage is shown to survive its calls.  \<open>ethereum_invariant\<close>
  lists the only changes a call from an Ethereum contract can make, \<open>runtime_invariant\<close> those any
  call can make; a property closed under them holds after every dispatch.  With the first, the
  inbound channels meet their contract.
\<close>

section \<open>Calls from Ethereum\<close>

locale ethereum_invariant =
  fixes a :: h160 and I :: "'b runtime \<Rightarrow> bool"
  assumes on_foreign: "I s \<Longrightarrow> I (s\<lparr>rt_foreign := b\<rparr>)"
    and on_event: "I s \<Longrightarrow> I (s\<lparr>rt_events := ev\<rparr>)"
    and on_eth: "I s \<Longrightarrow> rt_eth_address s = a \<Longrightarrow> deposit ETH w x (rt_assets s) = (Ok (), A) \<Longrightarrow> I (s\<lparr>rt_assets := A\<rparr>)"
    and on_erc20: "I s \<Longrightarrow> rt_erc20_address s = a \<Longrightarrow> deposit (Token t) w x (rt_assets s) = (Ok (), A) \<Longrightarrow> I (s\<lparr>rt_assets := A\<rparr>)"
    and on_erc721: "I s \<Longrightarrow> erc721_address (rt_erc721 s) = a \<Longrightarrow> tokens_by_erc721_id (rt_erc721 s) k = None \<Longrightarrow>
      mint w uri \<lparr>token_contract = fst k, eth_token_id = snd k\<rparr> (rt_nft s) = (Ok n, N) \<Longrightarrow>
      I (s\<lparr>rt_nft := N, rt_erc721 := (rt_erc721 s)\<lparr>tokens_by_erc721_id := (tokens_by_erc721_id (rt_erc721 s))(k \<mapsto> n)\<rparr>\<rparr>)"

lemma unlock_effect:
  assumes "unlock (dot_cfg L K) org sender d x s = (Ok (), s')"
  obtains b ev where "s' = s\<lparr>rt_foreign := b, rt_events := ev\<rparr>"
  using assms by (auto simp: unlock_Ok dot_cfg_def rt_currency_def zoom_currency_def ok_simps st_defs rt_sys_def)

lemma eth_mint_effect:
  assumes "eth_mint (eth_cfg L K) org sender d x s = (Ok (), s')"
  obtains w A ev where "ensure_ethereum_account org = Ok (rt_eth_address s)" "deposit ETH w x (rt_assets s) = (Ok (), A)"
    "s' = s\<lparr>rt_assets := A, rt_events := ev\<rparr>"
  using assms by (auto simp: eth_mint_Ok eth_cfg_def single_asset_adaptor_def rt_asset_simps rt_sys_def ok_simps)

lemma erc20_mint_effect:
  assumes "erc20_mint (erc20_cfg L K) org t sender d x s = (Ok (), s')"
  obtains w A ev where "ensure_ethereum_account org = Ok (rt_erc20_address s)" "deposit (Token t) w x (rt_assets s) = (Ok (), A)"
    "s' = s\<lparr>rt_assets := A, rt_events := ev\<rparr>"
  using assms by (auto simp: erc20_mint_Ok erc20_cfg_def rt_asset_simps rt_sys_def ok_simps)

lemma erc721_mint_run:
  assumes "erc721_mint (erc721_cfg L K) org sender d ct i uri s = (Ok (), s')"
  obtains w n N ev where "ensure_ethereum_account org = Ok (erc721_address (rt_erc721 s))"
    "tokens_by_erc721_id (rt_erc721 s) (ct, i) = None"
    "mint w uri \<lparr>token_contract = ct, eth_token_id = i\<rparr> (rt_nft s) = (Ok n, N)"
    "s' = s\<lparr>rt_nft := N, rt_erc721 := (rt_erc721 s)\<lparr>tokens_by_erc721_id := (tokens_by_erc721_id (rt_erc721 s))((ct, i) \<mapsto> n)\<rparr>,
       rt_events := ev\<rparr>"
  using assms by (auto simp: erc721_mint_Ok erc721_cfg_def rt_nft_ops_def zoom_nft_def nft_pallet_def ok_simps st_defs
      rt_sys_def erc721_put_def)

lemma keeps_OkI:
  assumes "err_unchanged m" "\<And>s u s'. I s \<Longrightarrow> m s = (Ok u, s') \<Longrightarrow> I s'"
  shows "keeps I m"
proof (rule keepsI)
  fix s r s'
  assume "I s" "m s = (r, s')" "returns r"
  then show "I s'" using assms by (cases r) (auto simp: err_unchanged_def)
qed

lemma app_calls_unchanged:
  "err_unchanged (unlock cfg1 org sender d x)" "err_unchanged (lock cfg1 org c rc y)"
  "err_unchanged (eth_mint cfg2 org sender d x)" "err_unchanged (eth_burn cfg2 org c rc x)"
  "err_unchanged (erc20_mint cfg3 org t sender d x)" "err_unchanged (erc20_burn cfg3 org c t rc x)"
  "err_unchanged (erc721_mint cfg4 org sender d ct i uri)" "err_unchanged (erc721_burn cfg4 org c n rc)"
  by (simp_all add: unlock_def lock_def eth_mint_def eth_burn_def erc20_mint_def erc20_burn_def erc721_mint_def erc721_burn_def)

lemma run_ethereum_plan_keeps:
  assumes "\<And>s b. I s \<Longrightarrow> I (s\<lparr>rt_foreign := b\<rparr>)" "\<And>h. h \<in> set hs \<Longrightarrow> keeps I (h (DispatchOrigin a))"
  shows "keeps I (run_ethereum_plan a hs p)"
proof (induction p)
  case (EFinish r b)
  then show ?case by (simp add: keeps_def assms(1))
next
  case (ENested i b k)
  show ?case
  proof (rule keepsI)
    fix s r s'
    assume s: "I s" and run: "run_ethereum_plan a hs (ENested i b k) s = (r, s')" and r: "returns r"
    then have i: "i < length hs" by (auto split: if_splits)
    obtain r1 t where t: "(hs ! i) (DispatchOrigin a) (s\<lparr>rt_foreign := b\<rparr>) = (r1, t)"
      by (cases "(hs ! i) (DispatchOrigin a) (s\<lparr>rt_foreign := b\<rparr>)")
    then have r1: "returns r1" "run_ethereum_plan a hs (k (r1, rt_foreign t)) t = (r, s')"
      using run i r by (auto split: if_splits)
    have "keeps I ((hs ! i) (DispatchOrigin a))" using i by (intro assms(2)) simp
    from keepsD [OF this assms(1) [OF s] t r1(1)] have "I t" .
    then show "I s'" using keepsD [OF ENested.IH _ r1(2) r] by simp
  qed
next
  case (EAtomic p b k)
  show ?case
  proof (rule keepsI)
    fix s r s'
    assume s: "I s" and run: "run_ethereum_plan a hs (EAtomic p b k) s = (r, s')" and r: "returns r"
    obtain r1 t where t: "transactional (run_ethereum_plan a hs p) (s\<lparr>rt_foreign := b\<rparr>) = (r1, t)"
      by (cases "transactional (run_ethereum_plan a hs p) (s\<lparr>rt_foreign := b\<rparr>)")
    then have r1: "returns r1" "run_ethereum_plan a hs (k (r1, rt_foreign t)) t = (r, s')"
      using run r by (auto split: if_splits)
    from keepsD [OF keeps_transactional [OF EAtomic.IH(1)] assms(1) [OF s] t r1(1)] have "I t" .
    then show "I s'" using keepsD [OF EAtomic.IH(2) _ r1(2) r] by simp
  qed
qed

context ethereum_invariant
begin

lemma ethereum_call_keeps: "keeps I (run_call L K inner c (DispatchOrigin a))"
proof (induction c)
  case (DotUnlock sender d x)
  show ?case by (auto intro!: keeps_OkI app_calls_unchanged on_foreign on_event elim!: unlock_effect)
next
  case (EthMint sender d x)
  show ?case by (auto intro!: keeps_OkI app_calls_unchanged on_event on_eth elim!: eth_mint_effect)
next
  case (Erc20Mint t sender d x)
  show ?case by (auto intro!: keeps_OkI app_calls_unchanged on_event on_erc20 elim!: erc20_mint_effect)
next
  case (Erc721Mint sender d ct i uri)
  have "I s'" if s: "I s" and run: "erc721_mint (erc721_cfg L K) (DispatchOrigin a) sender d ct i uri s = (Ok (), s')" for s s'
    using run on_event on_erc721 [OF s, of "(ct, i)"] by (auto elim!: erc721_mint_run)
  then show ?case by (auto intro!: keeps_OkI app_calls_unchanged)
next
  case (ForeignCall f cs)
  have k: "keeps I (run_ethereum_plan a (map (run_call L K inner) cs) p)" for p
    by (rule run_ethereum_plan_keeps) (use ForeignCall on_foreign in auto)
  show ?case by (rule keepsI) (simp add: run_foreign_def, erule keepsD [OF k])
next
  case (SetRewardFraction f)
  show ?case by (simp add: set_reward_fraction_def incentivized_in_cfg_def ensure_def keeps_def ext_simps)
qed (simp_all add: keeps_def basic_submit_def incentivized_submit_def import_header_def transfer_call_def lock_def eth_burn_def
    erc20_burn_def erc721_burn_def transactional_def zoom_def st_defs ext_simps)

lemma runtime_dispatch_ethereum: "keeps I (runtime_dispatch L K c (DispatchOrigin a))"
  by (subst runtime_dispatch_fix) (rule ethereum_call_keeps)

text \<open>The dispatch of a message from \<open>a\<close>.\<close>

lemma message_keeps: "keeps I (dispatch (dispatch_cfg L (runtime_dispatch L K)) a i p)"
  by (rule dispatch_keeps) (simp_all add: dispatch_cfg_def runtime_dispatch_ethereum rt_sys_def on_event)

end

section \<open>Inbound channels\<close>

text \<open>The log a message carries, whatever the state of the light client.\<close>

definition message_log :: "('b, 'd, 'f) runtime_lib \<Rightarrow> message \<Rightarrow> log option" where
  "message_log L m = (case log_decode (rl_eth L) (msg_data m) of Ok l \<Rightarrow> Some l | _ \<Rightarrow> None)"

lemma rt_verifier_run: "rt_verifier L K m s = (fst (verify (lc_cfg L K) m (rt_light_client s)), s)"
  by (simp add: rt_verifier_def zoom_def verify_def st_defs)

lemma rt_verifier_log: "rt_verifier L K m s = (Ok l, s') \<Longrightarrow> message_log L m = Some l"
  by (auto simp: rt_verifier_run verify_def message_log_def lc_cfg_def ok_simps split: if_splits result.splits)

interpretation eth_basic_in: ethereum_invariant a "\<lambda>s :: 'b runtime. rt_basic_in s = v" for a v
  by unfold_locales simp_all

interpretation eth_incentivized_in: ethereum_invariant a "\<lambda>s :: 'b runtime. rt_incentivized_in s = v" for a v
  by unfold_locales simp_all

lemma dispatch_Ok_keeps:
  "keeps I (dispatch cfg a i p) \<Longrightarrow> I s \<Longrightarrow> dispatch cfg a i p s = (Ok (), s') \<Longrightarrow> I s'"
  by (rule keepsD [OF _ _ _ returns_simps(1)])

abbreviation rt_basic_in_cfg where
  "rt_basic_in_cfg L K \<equiv> basic_in_cfg L K (runtime_dispatch L K)"

abbreviation rt_incentivized_in_cfg where
  "rt_incentivized_in_cfg L K \<equiv> incentivized_in_cfg L K (runtime_dispatch L K)"

interpretation rt_basic_inbound: basic_inbound_env "rt_basic_in_cfg L K" "message_log L"
  for L :: "('b, 'd, 'f) runtime_lib" and K
proof unfold_locales
  fix src i p and s s' :: "'b runtime"
  assume "bin_dispatch (rt_basic_in_cfg L K) src i p s = (Ok (), s')"
  then show "sget (bin_st (rt_basic_in_cfg L K)) s' = sget (bin_st (rt_basic_in_cfg L K)) s"
    using dispatch_Ok_keeps [OF eth_basic_in.message_keeps, of s "rt_basic_in s" L K src i p s']
    by (simp add: basic_in_cfg_def st_defs)
next
  fix src i p and s s' :: "'b runtime" and e
  show "bin_dispatch (rt_basic_in_cfg L K) src i p s \<noteq> (Err e, s')"
    using dispatch_no_error [of "dispatch_cfg L (runtime_dispatch L K)" src i p s "Err e" s'] by (auto simp: basic_in_cfg_def)
qed (auto simp: basic_in_cfg_def st_defs rt_verifier_run rt_verifier_log)

interpretation rt_incentivized_inbound: incentivized_inbound_env "rt_incentivized_in_cfg L K" "message_log L"
  for L :: "('b, 'd, 'f) runtime_lib" and K
proof unfold_locales
  fix src i p and s s' :: "'b runtime"
  assume "iin_dispatch (rt_incentivized_in_cfg L K) src i p s = (Ok (), s')"
  then show "sget (iin_st (rt_incentivized_in_cfg L K)) s' = sget (iin_st (rt_incentivized_in_cfg L K)) s"
    using dispatch_Ok_keeps [OF eth_incentivized_in.message_keeps, of s "rt_incentivized_in s" L K src i p s']
    by (simp add: incentivized_in_cfg_def st_defs)
next
  fix src i p and s s' :: "'b runtime" and e
  show "iin_dispatch (rt_incentivized_in_cfg L K) src i p s \<noteq> (Err e, s')"
    using dispatch_no_error [of "dispatch_cfg L (runtime_dispatch L K)" src i p s "Err e" s'] by (auto simp: incentivized_in_cfg_def)
next
  show "currency_frame (iin_currency (rt_incentivized_in_cfg L K)) (iin_st (rt_incentivized_in_cfg L K))"
    by (auto simp: currency_frame_def incentivized_in_cfg_def rt_currency_def zoom_currency_def zoom_def st_defs split: prod.splits)
qed (auto simp: incentivized_in_cfg_def st_defs rt_verifier_run rt_verifier_log)

section \<open>Calls of any origin\<close>

text \<open>What calls that carry no message do; \<open>runtime_invariant\<close> adds what messages do.\<close>

locale native_invariant =
  fixes L :: "('b, 'd, 'f) runtime_lib" and K :: runtime_constants and I :: "'b runtime \<Rightarrow> bool"
  assumes at_foreign: "I s \<Longrightarrow> I (s\<lparr>rt_foreign := b\<rparr>)"
    and at_event: "I s \<Longrightarrow> I (s\<lparr>rt_events := ev\<rparr>)"
    and at_withdraw: "I s \<Longrightarrow> withdraw ast w x (rt_assets s) = (Ok (), A) \<Longrightarrow> I (s\<lparr>rt_assets := A\<rparr>)"
    and at_transfer: "I s \<Longrightarrow> transfer ast w v x (rt_assets s) = (Ok (), A) \<Longrightarrow> I (s\<lparr>rt_assets := A\<rparr>)"
    and at_import: "I s \<Longrightarrow> import_header (lc_cfg L K) org h p (rt_light_client s) = (r, C) \<Longrightarrow> returns r \<Longrightarrow>
      I (s\<lparr>rt_light_client := C\<rparr>)"
    and at_reward: "I s \<Longrightarrow> ensure_root_or_half_local_council org \<Longrightarrow>
      I (s\<lparr>rt_incentivized_in := (rt_incentivized_in s)\<lparr>iin_reward_fraction := f\<rparr>\<rparr>)"
    and at_router: "I s \<Longrightarrow> rt_router L K c w target q s = (Ok (), s') \<Longrightarrow> I s'"
    and at_erc721_burn: "I s \<Longrightarrow> erc721_burn (erc721_cfg L K) org c t recipient s = (Ok (), s') \<Longrightarrow> I s'"

locale runtime_invariant = native_invariant L K I
  for L :: "('b, 'd, 'f) runtime_lib" and K :: runtime_constants and I :: "'b runtime \<Rightarrow> bool" +
  assumes at_deposit: "I s \<Longrightarrow> deposit ast w x (rt_assets s) = (Ok (), A) \<Longrightarrow> I (s\<lparr>rt_assets := A\<rparr>)"
    and at_basic_nonce: "I s \<Longrightarrow> I (s\<lparr>rt_basic_in := (rt_basic_in s)\<lparr>bin_nonce := n\<rparr>\<rparr>)"
    and at_incentivized_nonce: "I s \<Longrightarrow> I (s\<lparr>rt_incentivized_in := (rt_incentivized_in s)\<lparr>iin_nonce := n\<rparr>\<rparr>)"
    and at_erc721_mint: "I s \<Longrightarrow> tokens_by_erc721_id (rt_erc721 s) k = None \<Longrightarrow>
      mint w uri \<lparr>token_contract = fst k, eth_token_id = snd k\<rparr> (rt_nft s) = (Ok nt, N) \<Longrightarrow>
      I (s\<lparr>rt_nft := N, rt_erc721 := (rt_erc721 s)\<lparr>tokens_by_erc721_id := (tokens_by_erc721_id (rt_erc721 s))(k \<mapsto> nt)\<rparr>\<rparr>)"

sublocale runtime_invariant \<subseteq> ethereum: ethereum_invariant a I for a
  by unfold_locales (fact at_foreign at_event | blast intro: at_deposit at_erc721_mint)+

lemma keeps_try_mutate:
  "(\<And>v. keeps I (f v)) \<Longrightarrow> (\<And>s v. I s \<Longrightarrow> I (sput st v s)) \<Longrightarrow> keeps I (try_mutate st f)"
  unfolding try_mutate_def by (intro keeps_rules keeps_modify)

text \<open>Fees are paid in a currency outside the bridge's storage.\<close>

lemma handle_fee_foreign:
  assumes "handle_fee (incentivized_in_cfg L K inner) x w s = (r, s')"
  shows "\<exists>b. s' = s\<lparr>rt_foreign := b\<rparr>"
proof (cases "x = 0")
  case True
  then have "s' = s\<lparr>rt_foreign := rt_foreign s\<rparr>" using assms by (simp add: handle_fee_def ret_def)
  then show ?thesis ..
next
  case False
  then show ?thesis
    using assms unfolding handle_fee_def incentivized_in_cfg_def rt_currency_def zoom_currency_def zoom_def st_defs Let_def
    by (auto split: prod.splits result.splits if_splits)
qed

lemma deposit_asset_keeps:
  fixes I :: "'b runtime \<Rightarrow> bool"
  assumes "\<And>s ast w x A. I s \<Longrightarrow> deposit ast w x (rt_assets s) = (Ok (), A) \<Longrightarrow> I (s\<lparr>rt_assets := A\<rparr>)"
  shows "keeps I (deposit_asset X rt_multi_asset a l)"
proof -
  have "err_unchanged (ma_deposit (rt_multi_asset :: 'b runtime multi_asset) ast w x)" for ast w x
    using rt_fee.deposit_err unfolding err_unchanged_def by fastforce
  moreover have "I s'" if "I s" "ma_deposit rt_multi_asset ast w x s = (Ok u, s')" for ast w x s u s'
    using that assms by (auto simp: rt_asset_simps ok_simps)
  ultimately have "keeps I (ma_deposit rt_multi_asset ast w x)" for ast w x by (intro keeps_OkI)
  then show ?thesis unfolding deposit_asset_def by (intro keeps_rules)
qed

lemma withdraw_asset_keeps:
  fixes I :: "'b runtime \<Rightarrow> bool"
  assumes "\<And>s ast w x A. I s \<Longrightarrow> withdraw ast w x (rt_assets s) = (Ok (), A) \<Longrightarrow> I (s\<lparr>rt_assets := A\<rparr>)"
  shows "keeps I (withdraw_asset X rt_multi_asset a l)"
proof -
  have "err_unchanged (ma_withdraw (rt_multi_asset :: 'b runtime multi_asset) ast w x)" for ast w x
    using rt_fee.withdraw_err unfolding err_unchanged_def by fastforce
  moreover have "I s'" if "I s" "ma_withdraw rt_multi_asset ast w x s = (Ok u, s')" for ast w x s u s'
    using that assms by (auto simp: rt_asset_simps ok_simps)
  ultimately have "keeps I (ma_withdraw rt_multi_asset ast w x)" for ast w x by (intro keeps_OkI)
  then show ?thesis unfolding withdraw_asset_def by (intro keeps_rules)
qed

lemma transfer_call_Ok:
  "transfer_call lk org ast d x s = (Ok (), s') \<longleftrightarrow> (\<exists>w v. org = Signed w \<and> lk d = Some v \<and> transfer ast w v x s = (Ok (), s'))"
  unfolding transfer_call_def by (auto simp: ok_simps)

lemma transfer_call_err: "err_unchanged (transfer_call lk org ast d x)"
proof -
  have "s' = s" if "transfer a' w v x s = (Err e, s')" for a' w v s e s'
    using assets_laws.transfer_err [of a' w v x s "Err e" s'] that by (simp add: assets_multi_def)
  then show ?thesis unfolding err_unchanged_def transfer_call_def by (auto simp: ok_simps basic_run)
qed

lemma lock_effect:
  assumes "lock (dot_cfg L K) org c recipient x s = (Ok (), s')"
  obtains who b q u e where "rt_router L K c who (rt_dot_address s) q (s\<lparr>rt_foreign := b\<rparr>) = (Ok (), u)" "s' = deposit_event rt_sys e u"
  using assms by (auto simp: lock_Ok dot_cfg_def rt_currency_def zoom_currency_def ok_simps st_defs)

lemma eth_burn_effect:
  assumes "eth_burn (eth_cfg L K) org c recipient x s = (Ok (), s')"
  obtains who A q u e where "withdraw ETH who x (rt_assets s) = (Ok (), A)"
    "rt_router L K c who (rt_eth_address s) q (s\<lparr>rt_assets := A\<rparr>) = (Ok (), u)" "s' = deposit_event rt_sys e u"
  using assms by (auto simp: eth_burn_def eth_cfg_def single_asset_adaptor_def rt_asset_simps ok_simps Let_def)

lemma erc20_burn_effect:
  assumes "erc20_burn (erc20_cfg L K) org c t recipient x s = (Ok (), s')"
  obtains who A q u e where "withdraw (Token t) who x (rt_assets s) = (Ok (), A)"
    "rt_router L K c who (rt_erc20_address s) q (s\<lparr>rt_assets := A\<rparr>) = (Ok (), u)" "s' = deposit_event rt_sys e u"
  using assms by (auto simp: erc20_burn_def erc20_cfg_def rt_asset_simps ok_simps Let_def)

lemma run_plan_step_keeps:
  assumes I: "\<And>s b. I s \<Longrightarrow> I (s\<lparr>rt_foreign := b\<rparr>)" and m: "keeps I m" and k: "\<And>q. keeps I (run_plan X hs (k q))"
    and s: "I s" and run: "(case m (s\<lparr>rt_foreign := b\<rparr>) of (r1, t) \<Rightarrow>
      if returns r1 then run_plan X hs (k (r1, rt_foreign t)) t else (z r1, t)) = (r, s')"
    and r: "returns r" and z: "\<And>r1. \<not> returns r1 \<Longrightarrow> \<not> returns (z r1)"
  shows "I s'"
proof -
  obtain r1 t where t: "m (s\<lparr>rt_foreign := b\<rparr>) = (r1, t)" by (cases "m (s\<lparr>rt_foreign := b\<rparr>)")
  then have r1: "returns r1" "run_plan X hs (k (r1, rt_foreign t)) t = (r, s')"
    using run r z by (auto split: if_splits)
  from keepsD [OF m I [OF s] t r1(1)] have "I t" .
  from keepsD [OF k this r1(2) r] show ?thesis .
qed

lemma native_plan_keeps:
  assumes foreign: "\<And>s b. I s \<Longrightarrow> I (s\<lparr>rt_foreign := b\<rparr>)"
    and hs: "\<And>h org. h \<in> set hs \<Longrightarrow> keeps I (h (of_native org))"
    and dep: "\<And>a l. keeps I (deposit_asset X rt_multi_asset a l)" and wd: "\<And>a l. keeps I (withdraw_asset X rt_multi_asset a l)"
  shows "keeps I (run_plan X hs p)"
proof (induction p)
  case (Finish r b)
  then show ?case by (simp add: keeps_def foreign)
next
  case (Nested i org b k)
  show ?case
  proof (rule keepsI)
    fix s r s'
    assume s: "I s" and run: "run_plan X hs (Nested i org b k) s = (r, s')" and r: "returns r"
    then have i: "i < length hs" by (auto split: if_splits)
    show "I s'"
    proof (rule run_plan_step_keeps [where m = "(hs ! i) (of_native org)" and k = k and b = b and z = "\<lambda>r. r", OF foreign _ _ s _ r])
      show "keeps I ((hs ! i) (of_native org))" using i hs by simp
      show "keeps I (run_plan X hs (k q))" for q by (rule Nested.IH) simp
    qed (use run i in auto)
  qed
next
  case (Atomic p b k)
  show ?case
  proof (rule keepsI)
    fix s r s'
    assume s: "I s" and run: "run_plan X hs (Atomic p b k) s = (r, s')" and r: "returns r"
    show "I s'"
    proof (rule run_plan_step_keeps [where m = "transactional (run_plan X hs p)" and k = k and b = b and z = "\<lambda>r. r", OF foreign _ _ s _ r])
      show "keeps I (transactional (run_plan X hs p))" by (rule keeps_transactional) (rule Atomic.IH(1))
      show "keeps I (run_plan X hs (k q))" for q by (rule Atomic.IH(2)) simp
    qed (use run in auto)
  qed
next
  case (XcmDeposit a l b k)
  show ?case
  proof (rule keepsI)
    fix s r s'
    assume s: "I s" and run: "run_plan X hs (XcmDeposit a l b k) s = (r, s')" and r: "returns r"
    show "I s'"
    proof (rule run_plan_step_keeps [where m = "deposit_asset X rt_multi_asset a l" and k = k and b = b and z = "\<lambda>_. Panic", OF foreign dep _ s _ r])
      show "keeps I (run_plan X hs (k q))" for q by (rule XcmDeposit.IH) simp
    qed (use run in auto)
  qed
next
  case (XcmWithdraw a l b k)
  show ?case
  proof (rule keepsI)
    fix s r s'
    assume s: "I s" and run: "run_plan X hs (XcmWithdraw a l b k) s = (r, s')" and r: "returns r"
    show "I s'"
    proof (rule run_plan_step_keeps [where m = "withdraw_asset X rt_multi_asset a l" and k = k and b = b and z = "\<lambda>_. Panic", OF foreign wd _ s _ r])
      show "keeps I (run_plan X hs (k q))" for q by (rule XcmWithdraw.IH) simp
    qed (use run in auto)
  qed
qed

text \<open>The calls that neither mint nor carry another call or a message.\<close>

primrec plain_call :: "('d, 'f) call \<Rightarrow> bool" where
  "plain_call (BasicInboundSubmit m) \<longleftrightarrow> False"
| "plain_call (IncentivizedInboundSubmit m) \<longleftrightarrow> False"
| "plain_call (SetRewardFraction f) \<longleftrightarrow> True"
| "plain_call (ImportHeader h p) \<longleftrightarrow> True"
| "plain_call (AssetsTransfer a d x) \<longleftrightarrow> True"
| "plain_call (DotLock c recipient y) \<longleftrightarrow> True"
| "plain_call (DotUnlock sender d x) \<longleftrightarrow> True"
| "plain_call (EthBurn c recipient x) \<longleftrightarrow> True"
| "plain_call (EthMint sender d x) \<longleftrightarrow> False"
| "plain_call (Erc20Burn c t recipient x) \<longleftrightarrow> True"
| "plain_call (Erc20Mint t sender d x) \<longleftrightarrow> False"
| "plain_call (Erc721Burn c n recipient) \<longleftrightarrow> True"
| "plain_call (Erc721Mint sender d ct i uri) \<longleftrightarrow> False"
| "plain_call (ForeignCall f cs) \<longleftrightarrow> False"

lemma native_mint_fails:
  "eth_mint (eth_cfg L K) (of_native org) sender d x s = (r, s') \<Longrightarrow> s' = s"
  "erc20_mint (erc20_cfg L K) (of_native org) t sender d x s = (r, s') \<Longrightarrow> s' = s"
  "erc721_mint (erc721_cfg L K) (of_native org) sender d ct i uri s = (r, s') \<Longrightarrow> s' = s"
  by (cases org; auto simp: eth_mint_def erc20_mint_def erc721_mint_def eth_cfg_def erc20_cfg_def erc721_cfg_def transactional_def ext_simps)+

context native_invariant
begin

lemma at_deposit_event: "I s \<Longrightarrow> I (deposit_event rt_sys e s)"
  by (simp add: rt_sys_def at_event)

lemma plain_call_keeps:
  assumes "plain_call c"
  shows "keeps I (run_call L K inner c org)"
  using assms
proof (cases c)
  case (SetRewardFraction f)
  show ?thesis unfolding SetRewardFraction
    by (rule keepsI) (auto simp: set_reward_fraction_def incentivized_in_cfg_def ensure_def ext_simps st_defs
        intro: at_reward split: if_splits)
next
  case (ImportHeader h p)
  show ?thesis unfolding ImportHeader by (rule keepsI) (auto simp: zoom_def st_defs intro: at_import split: prod.splits)
next
  case (AssetsTransfer a d x)
  show ?thesis unfolding AssetsTransfer
    using assets_item.zoom_err_unchanged [OF transfer_call_err]
    by (auto intro!: keeps_OkI simp: ok_simps transfer_call_Ok st_defs at_transfer)
next
  case (DotLock c recipient x)
  have "I s'" if "I s" "lock (dot_cfg L K) org c recipient x s = (Ok (), s')" for s s'
    using that(2) at_router [OF at_foreign [OF that(1)]] by (elim lock_effect) (simp add: at_deposit_event)
  then show ?thesis unfolding DotLock by (auto intro!: keeps_OkI app_calls_unchanged)
next
  case (DotUnlock sender d x)
  show ?thesis unfolding DotUnlock by (auto intro!: keeps_OkI app_calls_unchanged at_foreign at_event elim!: unlock_effect)
next
  case (EthBurn c recipient x)
  have "I s'" if "I s" "eth_burn (eth_cfg L K) org c recipient x s = (Ok (), s')" for s s'
    using that(2) at_router [OF at_withdraw [OF that(1)]] by (elim eth_burn_effect) (simp add: at_deposit_event)
  then show ?thesis unfolding EthBurn by (auto intro!: keeps_OkI app_calls_unchanged)
next
  case (Erc20Burn c t recipient x)
  have "I s'" if "I s" "erc20_burn (erc20_cfg L K) org c t recipient x s = (Ok (), s')" for s s'
    using that(2) at_router [OF at_withdraw [OF that(1)]] by (elim erc20_burn_effect) (simp add: at_deposit_event)
  then show ?thesis unfolding Erc20Burn by (auto intro!: keeps_OkI app_calls_unchanged)
next
  case (Erc721Burn c t recipient)
  show ?thesis unfolding Erc721Burn by (auto intro!: keeps_OkI app_calls_unchanged intro: at_erc721_burn)
qed simp_all

end

context runtime_invariant
begin

lemma run_plan_keeps:
  assumes hs: "\<And>h org. h \<in> set hs \<Longrightarrow> keeps I (h org)"
  shows "keeps I (run_plan X hs p)"
  by (rule native_plan_keeps) (fact at_foreign | erule hs | rule deposit_asset_keeps withdraw_asset_keeps, erule (1) at_deposit at_withdraw)+

lemma basic_submit_keeps: "keeps I (basic_submit (rt_basic_in_cfg L K) org m)"
proof -
  have v: "keeps I (bin_verifier (rt_basic_in_cfg L K) m)"
    by (simp add: keeps_def basic_in_cfg_def rt_verifier_run)
  have d: "keeps I (bin_dispatch (rt_basic_in_cfg L K) src i p)" for src i p
    by (simp add: basic_in_cfg_def ethereum.message_keeps)
  have n: "I (sput (bin_nonce_item (bin_st (rt_basic_in_cfg L K))) v s)" if "I s" for v s
    using that by (simp add: basic_in_cfg_def bin_nonce_item_def st_defs at_basic_nonce)
  show ?thesis unfolding basic_submit_def by (intro keeps_rules keeps_try_mutate v d n)
qed

lemma incentivized_submit_keeps: "keeps I (incentivized_submit (rt_incentivized_in_cfg L K) org m)"
proof -
  have h: "keeps I (handle_fee (rt_incentivized_in_cfg L K) x w)" for x w
    using at_foreign by (intro keepsI) (auto dest!: handle_fee_foreign)
  have v: "keeps I (iin_verifier (rt_incentivized_in_cfg L K) m)"
    by (simp add: keeps_def incentivized_in_cfg_def rt_verifier_run)
  have d: "keeps I (iin_dispatch (rt_incentivized_in_cfg L K) src i p)" for src i p
    by (simp add: incentivized_in_cfg_def ethereum.message_keeps)
  have n: "I (sput (iin_nonce_item (iin_st (rt_incentivized_in_cfg L K))) v s)" if "I s" for v s
    using that by (simp add: incentivized_in_cfg_def iin_nonce_item_def st_defs at_incentivized_nonce)
  show ?thesis unfolding incentivized_submit_def by (intro keeps_rules keeps_try_mutate v d n h)
qed

text \<open>Every call, with any origin, keeps the property.\<close>

lemma call_keeps: "keeps I (run_call L K (runtime_dispatch L K) c org)"
proof (induction c arbitrary: org)
  case (BasicInboundSubmit m)
  show ?case by (simp add: basic_submit_keeps)
next
  case (IncentivizedInboundSubmit m)
  show ?case by (simp add: incentivized_submit_keeps)
next
  case (EthMint sender d x)
  show ?case by (auto intro!: keeps_OkI app_calls_unchanged at_event at_deposit elim!: eth_mint_effect)
next
  case (Erc20Mint t sender d x)
  show ?case by (auto intro!: keeps_OkI app_calls_unchanged at_event at_deposit elim!: erc20_mint_effect)
next
  case (Erc721Mint sender d ct i uri)
  have "I s'" if s: "I s" and run: "erc721_mint (erc721_cfg L K) org sender d ct i uri s = (Ok (), s')" for s s'
    using run at_event at_erc721_mint [OF s, of "(ct, i)"] by (auto elim!: erc721_mint_run)
  then show ?case by (auto intro!: keeps_OkI app_calls_unchanged)
next
  case (ForeignCall f cs)
  have hs: "keeps I (h o1)" if "h \<in> set (map (run_call L K (runtime_dispatch L K)) cs)" for h o1
    using that ForeignCall by auto
  have p: "keeps I (run_plan (rl_xcm L) (map (run_call L K (runtime_dispatch L K)) cs) p)" for p
    by (rule run_plan_keeps) (rule hs)
  have e: "keeps I (run_ethereum_plan a (map (run_call L K (runtime_dispatch L K)) cs) p)" for a p
    by (rule run_ethereum_plan_keeps) (fact at_foreign hs)+
  show ?case
    by (rule keepsI) (auto simp: run_foreign_def split: sum.splits elim: keepsD [OF p] keepsD [OF e])
qed (rule plain_call_keeps, simp)+

lemma runtime_dispatch_keeps: "keeps I (runtime_dispatch L K c org)"
  by (subst runtime_dispatch_fix) (rule call_keeps)

end

end
