(* ===== verification/Light_Client_Inv.thy ===== *)
theory Light_Client_Inv
  imports Light_Client
begin

text \<open>
  What the light client guarantees: the shape of the header store (every stored header one
  above its stored parent, the index by number exact), termination of the walks over
  ancestors, and the invariant of the whole state that every import keeps, with its
  consequences for finality and for the verification of messages.
\<close>

section \<open>Chains of stored headers\<close>

definition linked :: "header_store \<Rightarrow> bool" where
  "linked H \<longleftrightarrow> (\<forall>h sh p. H h = Some sh \<longrightarrow> H (parent_hash (sh_header sh)) = Some p \<longrightarrow>
     unat (number (sh_header sh)) = unat (number (sh_header p)) + 1 \<and>
     unat (total_difficulty sh) = unat (total_difficulty p) + unat (difficulty (sh_header sh)))"

text \<open>\<open>g\<close> is \<open>h\<close> or an ancestor of \<open>h\<close>, along stored headers.\<close>

definition descends :: "header_store \<Rightarrow> h256 \<Rightarrow> h256 \<Rightarrow> bool" where
  "descends H h g \<longleftrightarrow> (\<exists>k gh. ancestry_nth H k h = Some (g, gh))"

definition number_at :: "header_store \<Rightarrow> h256 \<Rightarrow> u64 \<Rightarrow> bool" where
  "number_at H h n \<longleftrightarrow> (\<exists>sh. H h = Some sh \<and> number (sh_header sh) = n)"

definition indexed :: "header_store \<Rightarrow> (u64 \<rightharpoonup> h256 list) \<Rightarrow> bool" where
  "indexed H N \<longleftrightarrow> (\<forall>n. case N n of
       None \<Rightarrow> (\<forall>h. \<not> number_at H h n)
     | Some hs \<Rightarrow> hs \<noteq> [] \<and> distinct hs \<and> (\<forall>h. h \<in> set hs \<longleftrightarrow> number_at H h n))"

lemma linkedD:
  "linked H \<Longrightarrow> H h = Some sh \<Longrightarrow> H (parent_hash (sh_header sh)) = Some p \<Longrightarrow>
     unat (number (sh_header sh)) = unat (number (sh_header p)) + 1"
  by (simp add: linked_def)

lemma ancestry_nth_stored: "ancestry_nth H k h = Some (g, gh) \<Longrightarrow> \<exists>sh. H g = Some sh \<and> sh_header sh = gh"
  by (induction k arbitrary: h) (auto split: option.splits)

lemma ancestry_nth_start: "ancestry_nth H k h = Some r \<Longrightarrow> \<exists>sh. H h = Some sh"
  by (cases k) (auto split: option.splits)

lemma ancestry_nth_add:
  "ancestry_nth H j h = Some (g, gh) \<Longrightarrow> ancestry_nth H (j + k) h = ancestry_nth H k g"
  by (induction j arbitrary: h) (auto split: option.splits)

lemma ancestry_nth_parent:
  "H h = Some sh \<Longrightarrow> ancestry_nth H k (parent_hash (sh_header sh)) = Some r \<Longrightarrow> ancestry_nth H (Suc k) h = Some r"
  by simp

lemma descends_refl: "H h = Some sh \<Longrightarrow> descends H h h"
  unfolding descends_def by (rule exI [of _ 0]) simp

lemma descends_trans: "descends H a b \<Longrightarrow> descends H b c \<Longrightarrow> descends H a c"
  unfolding descends_def by (metis ancestry_nth_add)

lemma descends_parent:
  "H h = Some sh \<Longrightarrow> descends H (parent_hash (sh_header sh)) g \<Longrightarrow> descends H h g"
  unfolding descends_def by (metis ancestry_nth_parent)

lemma ancestry_nth_number:
  assumes "linked H"
  shows "H h = Some sh \<Longrightarrow> ancestry_nth H k h = Some (g, gh) \<Longrightarrow>
    unat (number (sh_header sh)) = unat (number gh) + k"
proof (induction k arbitrary: h sh)
  case (Suc k)
  then obtain p where p: "H (parent_hash (sh_header sh)) = Some p"
    using ancestry_nth_start by fastforce
  with Suc linkedD [OF assms Suc.prems(1) p] show ?case by simp
qed auto

text \<open>On one chain, the header with the larger number descends from the other.\<close>

lemma descends_by_number:
  assumes l: "linked H" and a: "ancestry_nth H j h = Some (a, ah)" and b: "ancestry_nth H k h = Some (b, bh)"
    and n: "number bh \<le> number ah"
  shows "descends H a b"
proof -
  obtain sh where sh: "H h = Some sh" using ancestry_nth_start [OF a] by blast
  have "j \<le> k"
    using ancestry_nth_number [OF l sh a] ancestry_nth_number [OF l sh b] n by (simp add: word_le_nat_alt)
  then have "ancestry_nth H (k - j) a = Some (b, bh)"
    using ancestry_nth_add [OF a, of "k - j"] b by simp
  then show ?thesis by (auto simp: descends_def)
qed

lemma ancestor_unique:
  assumes l: "linked H" and a: "ancestry_nth H j h = Some (a, ah)" and b: "ancestry_nth H k h = Some (b, bh)"
    and n: "number ah = number bh"
  shows "a = b"
proof -
  obtain sh where sh: "H h = Some sh" using ancestry_nth_start [OF a] by blast
  have "j = k" using ancestry_nth_number [OF l sh a] ancestry_nth_number [OF l sh b] n by simp
  then show ?thesis using a b by simp
qed

section \<open>The search for an ancestor\<close>

lemma ancestry_find_Some:
  assumes "ancestry_find H P h = Some (Some (g, gh))"
  shows "P gh \<and> (\<exists>k. ancestry_nth H k h = Some (g, gh))"
proof -
  let ?Q = "\<lambda>((H, P), h) r. \<forall>g gh. r = Some (g, gh) \<longrightarrow> P gh \<and> (\<exists>k. ancestry_nth H k h = Some (g, gh))"
  have "?Q ((H, P), h) (Some (g, gh))"
  proof (rule ancestry_find.raw_induct [where Pa = ?Q, OF _ assms], goal_cases)
    case (1 af H P h r)
    show ?case
    proof (cases "H h")
      case None
      then show ?thesis using 1(2) by simp
    next
      case (Some sh)
      show ?thesis
      proof (cases "P (sh_header sh)")
        case True
        then show ?thesis using 1(2) Some by (auto intro!: exI [of _ 0])
      next
        case False
        then have "af H P (parent_hash (sh_header sh)) = Some r" using 1(2) Some by simp
        from 1(1) [OF this] have "\<forall>g gh. r = Some (g, gh) \<longrightarrow> P gh \<and>
            (\<exists>k. ancestry_nth H k (parent_hash (sh_header sh)) = Some (g, gh))" by simp
        then show ?thesis using ancestry_nth_parent [of H h sh, OF Some] by (simp only: prod.case) blast
      qed
    qed
  qed
  then show ?thesis by simp
qed

section \<open>Changes of the store\<close>

text \<open>The walk only looks at the headers themselves.\<close>

lemma ancestry_nth_cong:
  "(\<And>x. map_option sh_header (H x) = map_option sh_header (H' x)) \<Longrightarrow> ancestry_nth H k h = ancestry_nth H' k h"
proof (induction k arbitrary: h)
  case 0
  from 0 [of h] show ?case by (cases "H h"; cases "H' h") auto
next
  case (Suc k)
  from Suc.prems [of h] Suc.IH [OF Suc.prems] show ?case by (cases "H h"; cases "H' h") auto
qed

lemma ancestry_nth_mono: "H \<subseteq>\<^sub>m H' \<Longrightarrow> ancestry_nth H k h = Some r \<Longrightarrow> ancestry_nth H' k h = Some r"
proof (induction k arbitrary: h)
  case 0
  then show ?case by (auto simp: map_le_def dom_def)
next
  case (Suc k)
  then obtain sh where "H h = Some sh" by (auto split: option.splits)
  moreover from this have "H' h = Some sh" using Suc.prems(1) by (auto simp: map_le_def dom_def)
  ultimately show ?case using Suc by simp
qed

lemma descends_mono: "H \<subseteq>\<^sub>m H' \<Longrightarrow> descends H h g \<Longrightarrow> descends H' h g"
  unfolding descends_def by (metis ancestry_nth_mono)

text \<open>Removing headers below an ancestor does not cut the chain to it.\<close>

lemma ancestry_nth_restrict:
  assumes l: "linked H"
    and keep: "\<And>x sh. H x = Some sh \<Longrightarrow> number gh < number (sh_header sh) \<Longrightarrow> H' x = Some sh"
    and g: "H' g = H g"
  shows "ancestry_nth H k h = Some (g, gh) \<Longrightarrow> ancestry_nth H' k h = Some (g, gh)"
proof (induction k arbitrary: h)
  case 0
  then show ?case using g by auto
next
  case (Suc k)
  then obtain sh where sh: "H h = Some sh" and k: "ancestry_nth H k (parent_hash (sh_header sh)) = Some (g, gh)"
    by (auto split: option.splits)
  have "number gh < number (sh_header sh)"
    using ancestry_nth_number [OF l sh Suc.prems] by (simp add: word_less_nat_alt)
  then have "H' h = Some sh" using keep sh by simp
  then show ?case using Suc.IH [OF k] by simp
qed

section \<open>Pruning\<close>

lemma succ_le_if_less: "(n :: u64) < m \<Longrightarrow> n + 1 \<le> m"
  by (simp add: word_le_nat_alt word_less_nat_alt unat_plus_one)

text \<open>One height: the hashes that were removed come first, and the budget is not exceeded.\<close>

lemma prune_hashes_spec:
  "prune_hashes mx hs pruned H = (remainder, pruned', H') \<Longrightarrow> pruned < mx \<Longrightarrow>
    \<exists>gone. hs = gone @ remainder \<and> H' = H |` (- set gone) \<and>
      unat pruned' = unat pruned + length gone \<and> pruned' \<le> mx \<and> (remainder = [] \<or> pruned' = mx)"
proof (induction mx hs pruned H rule: prune_hashes.induct)
  case (1 mx pruned H)
  then show ?case by (auto simp: restrict_map_def)
next
  case (2 mx hash rest pruned H)
  have step: "unat (pruned + 1) = unat pruned + 1" using 2(3) by (rule unat_plus_one)
  have del: "(H(hash := None)) |` (- set gone) = H |` (- set (hash # gone))" for gone
    by (auto simp: restrict_map_def fun_eq_iff)
  show ?case
  proof (cases "pruned + 1 = mx")
    case True
    have "H(hash := None) = H |` (- set [hash])" by (auto simp: restrict_map_def)
    then show ?thesis using True 2(2) step by (intro exI [of _ "[hash]"]) auto
  next
    case False
    have "pruned + 1 < mx"
      using False 2(3) succ_le_if_less [of pruned mx] by simp
    moreover have "prune_hashes mx rest (pruned + 1) (H(hash := None)) = (remainder, pruned', H')"
      using 2(2) False by (simp only: prune_hashes.simps if_False)
    ultimately obtain gone where
      "rest = gone @ remainder" "H' = (H(hash := None)) |` (- set gone)" "unat pruned' = unat (pruned + 1) + length gone"
      "pruned' \<le> mx" "remainder = [] \<or> pruned' = mx" using 2(1) [OF False] by blast
    then show ?thesis using step del by (intro exI [of _ "hash # gone"]) auto
  qed
qed

lemma number_at_restrict: "number_at (H |` (- set gone)) h n \<longleftrightarrow> h \<notin> set gone \<and> number_at H h n"
  by (auto simp: number_at_def restrict_map_def)

lemma number_at_unique: "number_at H h n \<Longrightarrow> number_at H h m \<Longrightarrow> n = m"
  by (auto simp: number_at_def)

lemma indexed_None: "indexed H N \<Longrightarrow> N n = None \<Longrightarrow> \<not> number_at H h n"
  unfolding indexed_def by (drule spec [of _ n]) simp

lemma indexed_Some:
  "indexed H N \<Longrightarrow> N n = Some hs \<Longrightarrow> hs \<noteq> [] \<and> distinct hs \<and> (\<forall>h. h \<in> set hs \<longleftrightarrow> number_at H h n)"
  unfolding indexed_def by (drule spec [of _ n]) simp

lemma indexed_prune:
  assumes i: "indexed H N" and n: "N n = Some (gone @ remainder)"
  shows "indexed (H |` (- set gone)) (N(n := if remainder = [] then None else Some remainder))"
proof -
  have at_n: "distinct (gone @ remainder)" "\<And>h. h \<in> set gone \<or> h \<in> set remainder \<longleftrightarrow> number_at H h n"
    using indexed_Some [OF i n] by auto
  then have at: "number_at (H |` (- set gone)) h m \<longleftrightarrow> (if m = n then h \<in> set remainder else number_at H h m)" for h m
    using number_at_unique [of H h n m] by (auto simp: number_at_restrict)
  show ?thesis unfolding indexed_def at
  proof
    fix m
    show "case (N(n := if remainder = [] then None else Some remainder)) m of
        None \<Rightarrow> \<forall>h. \<not> (if m = n then h \<in> set remainder else number_at H h m)
      | Some hs \<Rightarrow> hs \<noteq> [] \<and> distinct hs \<and>
          (\<forall>h. h \<in> set hs \<longleftrightarrow> (if m = n then h \<in> set remainder else number_at H h m))"
      using at_n(1) indexed_None [OF i, of m] indexed_Some [OF i, of m]
      by (cases "m = n") (auto split: option.splits)
  qed
qed

text \<open>
  A run of the loop: \<open>R\<close> lists the removed hashes.  Headers above the new bound are untouched,
  none is left below it.
\<close>

definition pruned_store :: "u64 \<Rightarrow> u64 \<Rightarrow> header_store \<Rightarrow> header_store \<Rightarrow> h256 list \<Rightarrow> bool" where
  "pruned_store stop oldest H H' R \<longleftrightarrow> H' = H |` (- set R) \<and>
     (\<forall>h sh. H' h = Some sh \<longrightarrow> oldest \<le> number (sh_header sh)) \<and>
     (\<forall>h sh. H h = Some sh \<longrightarrow> oldest < number (sh_header sh) \<or> stop \<le> number (sh_header sh) \<longrightarrow> H' h = Some sh)"

lemma pruned_store_step:
  assumes "pruned_store stop oldest (H |` (- set gone)) H' R"
    and "\<And>h. h \<in> set gone \<Longrightarrow> number_at H h n" and "n < stop" and "n \<le> oldest"
  shows "pruned_store stop oldest H H' (gone @ R)"
proof -
  have "h \<notin> set gone" if "H h = Some sh" "oldest < number (sh_header sh) \<or> stop \<le> number (sh_header sh)" for h sh
  proof
    assume "h \<in> set gone"
    then have "number (sh_header sh) = n" using assms(2) [of h] that(1) by (auto simp: number_at_def)
    then show False using assms(3,4) that(2) by auto
  qed
  then have "(H |` (- set gone)) h = Some sh"
    if "H h = Some sh" "oldest < number (sh_header sh) \<or> stop \<le> number (sh_header sh)" for h sh
    using that by (simp add: restrict_map_def)
  moreover have "H |` (- set gone) |` (- set R) = H |` (- set (gone @ R))" by (simp add: Int_commute)
  ultimately show ?thesis using assms(1) unfolding pruned_store_def by metis
qed

lemma indexed_none_at:
  assumes "indexed H N" "N n = None" "\<And>h sh. H h = Some sh \<Longrightarrow> n \<le> number (sh_header sh)" "n < stop" "H h = Some sh"
  shows "n + 1 \<le> number (sh_header sh)"
proof -
  have "number (sh_header sh) \<noteq> n" using indexed_None [OF assms(1,2), of h] assms(5) by (auto simp: number_at_def)
  then have "n < number (sh_header sh)" using assms(3,5) by force
  then show ?thesis by (rule succ_le_if_less)
qed

theorem prune_loop_spec:
  assumes "prune_loop mx stop n pruned oldest s = (oldest', s')"
    and "indexed (headers s) (headers_by_number s)"
    and "\<And>h sh. headers s h = Some sh \<Longrightarrow> oldest \<le> number (sh_header sh)"
    and "pruned \<le> mx" and "pruned \<noteq> mx \<Longrightarrow> oldest = n" and "oldest \<le> stop"
  shows "\<exists>R. pruned_store stop oldest' (headers s) (headers s') R \<and> length R + unat pruned \<le> unat mx \<and>
    indexed (headers s') (headers_by_number s') \<and> oldest \<le> oldest' \<and> oldest' \<le> stop \<and>
    s' = s\<lparr>headers := headers s', headers_by_number := headers_by_number s'\<rparr>"
  using assms
proof (induction mx stop n pruned oldest s arbitrary: oldest' s' rule: prune_loop.induct)
  case (1 mx stop n pruned oldest s)
  let ?H = "headers s" and ?N = "headers_by_number s"
  show ?case
  proof (cases "n < stop \<and> pruned \<noteq> mx")
    case False
    then have "prune_loop mx stop n pruned oldest s = (oldest, s)"
      by (subst prune_loop.simps) (rule if_not_P)
    then have s': "s' = s" "oldest' = oldest" using 1(3) by simp_all
    show ?thesis
      using s' 1(4-8) by (intro exI [of _ "[]"]) (auto simp: pruned_store_def restrict_map_def word_le_nat_alt)
  next
    case True
    then have o: "oldest = n" using 1(7) by simp
    have n1: "n + 1 \<le> stop" using True by (simp add: succ_le_if_less)
    have nn1: "n \<le> n + 1" using True by (simp add: word_le_nat_alt unat_plus_one [of n stop])
    show ?thesis
    proof (cases "?N n")
      case None
      have ge: "n + 1 \<le> number (sh_header sh)" if "?H h = Some sh" for h sh
        using indexed_none_at [OF 1(4) None _ _ that] True 1(5) o by blast
      from None True 1(3) have "prune_loop mx stop (n + 1) pruned (n + 1) s = (oldest', s')"
        by (simp add: prune_loop.simps [of mx stop n])
      from 1(1) [OF True None this 1(4) _ 1(6) _ n1] ge obtain R where
        "pruned_store stop oldest' ?H (headers s') R" "length R + unat pruned \<le> unat mx"
        "indexed (headers s') (headers_by_number s')" "n + 1 \<le> oldest'" "oldest' \<le> stop"
        "s' = s\<lparr>headers := headers s', headers_by_number := headers_by_number s'\<rparr>" by blast
      then show ?thesis using o nn1 by (intro exI [of _ R]) auto
    next
      case (Some hs)
      obtain remainder pruned' H' where p: "prune_hashes mx hs pruned ?H = (remainder, pruned', H')"
        by (cases "prune_hashes mx hs pruned ?H") auto
      let ?s1 = "s\<lparr>headers := H', headers_by_number := ?N(n := if remainder = [] then None else Some remainder)\<rparr>"
      let ?o1 = "if remainder = [] then n + 1 else oldest"
      have "pruned < mx" using True 1(6) by (simp add: order.strict_iff_order)
      then obtain gone where g: "hs = gone @ remainder" "H' = ?H |` (- set gone)"
          "unat pruned' = unat pruned + length gone" "pruned' \<le> mx" "remainder = [] \<or> pruned' = mx"
        using prune_hashes_spec [OF p] by blast
      have at_n: "number_at ?H h n \<longleftrightarrow> h \<in> set hs" for h using indexed_Some [OF 1(4) Some] by simp
      have i1: "indexed H' (?N(n := if remainder = [] then None else Some remainder))"
        using indexed_prune [OF 1(4)] Some g(1,2) by simp
      have ge1: "?o1 \<le> number (sh_header sh)" if "H' h = Some sh" for h sh
      proof (cases "remainder = []")
        case True
        then have "number (sh_header sh) \<noteq> n"
          using that g(1,2) at_n [of h] by (auto simp: number_at_def restrict_map_def split: if_splits)
        moreover have "n \<le> number (sh_header sh)" using that 1(5) o g(2) by (auto simp: restrict_map_def split: if_splits)
        ultimately show ?thesis using True succ_le_if_less by simp
      next
        case False
        then show ?thesis using that 1(5) g(2) by (auto simp: restrict_map_def split: if_splits)
      qed
      from Some True p 1(3) have "prune_loop mx stop (n + 1) pruned' ?o1 ?s1 = (oldest', s')"
        by (simp add: prune_loop.simps [of mx stop n])
      note ih = 1(2) [OF True Some p [symmetric] refl this]
      have "\<exists>R. pruned_store stop oldest' (headers ?s1) (headers s') R \<and> length R + unat pruned' \<le> unat mx \<and>
          indexed (headers s') (headers_by_number s') \<and> ?o1 \<le> oldest' \<and> oldest' \<le> stop \<and>
          s' = ?s1\<lparr>headers := headers s', headers_by_number := headers_by_number s'\<rparr>"
      proof (rule ih)
        show "indexed (headers ?s1) (headers_by_number ?s1)" using i1 by simp
        show "?o1 \<le> number (sh_header sh)" if "headers ?s1 h = Some sh" for h sh using ge1 [of h sh] that by simp
        show "?o1 = n + 1" if "pruned' \<noteq> mx" using that g(5) by simp
        show "?o1 \<le> stop" using n1 1(8) by simp
      qed (rule g(4))
      then obtain R where R: "pruned_store stop oldest' H' (headers s') R" "length R + unat pruned' \<le> unat mx"
        "indexed (headers s') (headers_by_number s')" "?o1 \<le> oldest'" "oldest' \<le> stop"
        "s' = s\<lparr>headers := headers s', headers_by_number := headers_by_number s'\<rparr>"
        by (elim exE conjE) simp
      have le: "n \<le> oldest'" using R(4) nn1 o by (cases "remainder = []") auto
      have "pruned_store stop oldest' ?H (headers s') (gone @ R)"
        using R(1) at_n g True le by (intro pruned_store_step [where n = n]) auto
      then show ?thesis using R g(3) o le by (intro exI [of _ "gone @ R"]) auto
    qed
  qed
qed

section \<open>The invariant\<close>

text \<open>
  The store: headers under their own hashes, linked and indexed; the finalized block stored and
  flagged; every flagged header the finalized block or one of its ancestors; nothing stored
  below the pruning range, which ends at or below the finalized block.
\<close>

definition lc_store :: "lc_config \<Rightarrow> light_client \<Rightarrow> bool" where
  "lc_store cfg s \<longleftrightarrow>
     (\<forall>h sh. headers s h = Some sh \<longrightarrow> hash_of cfg (sh_header sh) = h) \<and>
     linked (headers s) \<and> indexed (headers s) (headers_by_number s) \<and>
     (\<exists>fh. headers s (id_hash (finalized_block s)) = Some fh \<and> finalized fh \<and>
        number (sh_header fh) = id_number (finalized_block s)) \<and>
     (\<forall>h sh. headers s h = Some sh \<longrightarrow> finalized sh \<longrightarrow> descends (headers s) (id_hash (finalized_block s)) h) \<and>
     oldest_unpruned_block (blocks_to_prune s) \<le> oldest_block_to_keep (blocks_to_prune s) \<and>
     oldest_block_to_keep (blocks_to_prune s) \<le> id_number (finalized_block s) \<and>
     (\<forall>h sh. headers s h = Some sh \<longrightarrow> oldest_unpruned_block (blocks_to_prune s) \<le> number (sh_header sh))"

text \<open>The best block: stored, with its total difficulty, a descendant of the finalized block.\<close>

definition lc_best :: "light_client \<Rightarrow> bool" where
  "lc_best s \<longleftrightarrow>
     (\<exists>bh. headers s (id_hash (fst (best_block s))) = Some bh \<and>
        number (sh_header bh) = id_number (fst (best_block s)) \<and> total_difficulty bh = snd (best_block s)) \<and>
     descends (headers s) (id_hash (fst (best_block s))) (id_hash (finalized_block s))"

text \<open>No stored header has more total difficulty than \<open>td\<close>.\<close>

definition lc_heaviest :: "u256 \<Rightarrow> light_client \<Rightarrow> bool" where
  "lc_heaviest td s \<longleftrightarrow> (\<forall>h sh. headers s h = Some sh \<longrightarrow> total_difficulty sh \<le> td)"

definition lc_inv :: "lc_config \<Rightarrow> light_client \<Rightarrow> bool" where
  "lc_inv cfg s \<longleftrightarrow> lc_store cfg s \<and> lc_best s \<and> lc_heaviest (snd (best_block s)) s"

lemma lc_storeD:
  assumes "lc_store cfg s"
  shows "\<And>h sh. headers s h = Some sh \<Longrightarrow> hash_of cfg (sh_header sh) = h"
    and "linked (headers s)" and "indexed (headers s) (headers_by_number s)"
    and "\<exists>fh. headers s (id_hash (finalized_block s)) = Some fh \<and> finalized fh \<and>
        number (sh_header fh) = id_number (finalized_block s)"
    and "\<And>h sh. headers s h = Some sh \<Longrightarrow> finalized sh \<Longrightarrow> descends (headers s) (id_hash (finalized_block s)) h"
    and "oldest_unpruned_block (blocks_to_prune s) \<le> oldest_block_to_keep (blocks_to_prune s)"
    and "oldest_block_to_keep (blocks_to_prune s) \<le> id_number (finalized_block s)"
    and "\<And>h sh. headers s h = Some sh \<Longrightarrow> oldest_unpruned_block (blocks_to_prune s) \<le> number (sh_header sh)"
  using assms by (auto simp: lc_store_def)

lemma fresh_map_le: "H hash = None \<Longrightarrow> H \<subseteq>\<^sub>m H(hash \<mapsto> x)"
  by (auto simp: map_le_def dom_def)

subsection \<open>Inserting a header\<close>

lemma linked_insert:
  assumes l: "linked H" and new: "H hash = None"
    and p: "H (parent_hash (sh_header x)) = Some p"
      "unat (number (sh_header x)) = unat (number (sh_header p)) + 1"
      "unat (total_difficulty x) = unat (total_difficulty p) + unat (difficulty (sh_header x))"
    and orphan: "\<And>h sh. H h = Some sh \<Longrightarrow> parent_hash (sh_header sh) \<noteq> hash"
  shows "linked (H(hash \<mapsto> x))"
proof -
  have "parent_hash (sh_header x) \<noteq> hash" using new p(1) by auto
  then show ?thesis using l p orphan unfolding linked_def by auto
qed

lemma indexed_insert:
  assumes i: "indexed H N" and new: "H hash = None"
  shows "indexed (H(hash \<mapsto> x)) (N(number (sh_header x) \<mapsto>
    (case N (number (sh_header x)) of Some hs \<Rightarrow> hs @ [hash] | None \<Rightarrow> [hash])))"
proof -
  have at: "number_at (H(hash \<mapsto> x)) h m \<longleftrightarrow> (if h = hash then m = number (sh_header x) else number_at H h m)" for h m
    by (auto simp: number_at_def)
  have "\<not> number_at H hash m" for m using new by (simp add: number_at_def)
  then have out: "hash \<notin> set hs" if "N m = Some hs" for m hs using indexed_Some [OF i that] by blast
  show ?thesis unfolding indexed_def at
  proof
    fix m
    show "case (N(number (sh_header x) \<mapsto> case N (number (sh_header x)) of Some hs \<Rightarrow> hs @ [hash] | None \<Rightarrow> [hash])) m of
        None \<Rightarrow> \<forall>h. \<not> (if h = hash then m = number (sh_header x) else number_at H h m)
      | Some hs \<Rightarrow> hs \<noteq> [] \<and> distinct hs \<and>
          (\<forall>h. h \<in> set hs \<longleftrightarrow> (if h = hash then m = number (sh_header x) else number_at H h m))"
      using indexed_None [OF i, of m] indexed_Some [OF i, of m] out [of m]
      by (cases "m = number (sh_header x)") (auto split: option.splits)
  qed
qed

lemma lc_store_insert:
  assumes s: "lc_store cfg s" and new: "headers s hash = None"
    and x: "hash_of cfg (sh_header x) = hash" "\<not> finalized x"
      "id_number (finalized_block s) < number (sh_header x)"
    and p: "headers s (parent_hash (sh_header x)) = Some p"
      "unat (number (sh_header x)) = unat (number (sh_header p)) + 1"
      "unat (total_difficulty x) = unat (total_difficulty p) + unat (difficulty (sh_header x))"
    and orphan: "\<And>h sh. headers s h = Some sh \<Longrightarrow> parent_hash (sh_header sh) \<noteq> hash"
  shows "lc_store cfg (push_hash (number (sh_header x)) hash (s\<lparr>headers := (headers s)(hash \<mapsto> x)\<rparr>))"
proof -
  note s' = lc_storeD [OF s]
  have le: "headers s \<subseteq>\<^sub>m (headers s)(hash \<mapsto> x)" using new by (rule fresh_map_le)
  have "id_hash (finalized_block s) \<noteq> hash" using s'(4) new by auto
  moreover have "linked ((headers s)(hash \<mapsto> x))" using linked_insert [OF s'(2) new p orphan] .
  moreover note indexed_insert [OF s'(3) new, of x]
  moreover have "oldest_unpruned_block (blocks_to_prune s) \<le> number (sh_header x)"
    using s'(6,7) x(3) by (meson less_imp_le order.trans)
  ultimately show ?thesis
    using s' x descends_mono [OF le] unfolding lc_store_def push_hash_def by auto
qed

subsection \<open>Finalizing a header\<close>

lemma linked_mark:
  assumes l: "linked H" and sh: "H hash = Some sh"
  shows "linked (H(hash \<mapsto> sh\<lparr>finalized := True\<rparr>))"
proof -
  have old: "\<exists>x'. H h = Some x' \<and> sh_header x' = sh_header x \<and> total_difficulty x' = total_difficulty x"
    if "(H(hash \<mapsto> sh\<lparr>finalized := True\<rparr>)) h = Some x" for h x
    using that sh by (cases "h = hash") auto
  show ?thesis unfolding linked_def
  proof (intro allI impI)
    fix h x p
    assume x: "(H(hash \<mapsto> sh\<lparr>finalized := True\<rparr>)) h = Some x"
      and p: "(H(hash \<mapsto> sh\<lparr>finalized := True\<rparr>)) (parent_hash (sh_header x)) = Some p"
    obtain x' p' where "H h = Some x'" "sh_header x' = sh_header x" "total_difficulty x' = total_difficulty x"
      "H (parent_hash (sh_header x)) = Some p'" "sh_header p' = sh_header p" "total_difficulty p' = total_difficulty p"
      using old [OF x] old [OF p] by blast
    then show "unat (number (sh_header x)) = unat (number (sh_header p)) + 1 \<and>
        unat (total_difficulty x) = unat (total_difficulty p) + unat (difficulty (sh_header x))"
      using l unfolding linked_def by metis
  qed
qed

lemma lc_store_finalize:
  assumes s: "lc_store cfg s" and sh: "headers s hash = Some sh" "number (sh_header sh) = n"
    and n: "id_number (finalized_block s) < n"
    and d: "descends (headers s) hash (id_hash (finalized_block s))"
  shows "lc_store cfg (s\<lparr>finalized_block := \<lparr>id_number = n, id_hash = hash\<rparr>,
    headers := (headers s)(hash \<mapsto> sh\<lparr>finalized := True\<rparr>)\<rparr>)"
proof -
  note s' = lc_storeD [OF s]
  let ?H = "(headers s)(hash \<mapsto> sh\<lparr>finalized := True\<rparr>)"
  have nth: "ancestry_nth ?H k h = ancestry_nth (headers s) k h" for k h
    using sh(1) by (intro ancestry_nth_cong) auto
  then have desc: "descends ?H a b = descends (headers s) a b" for a b by (simp add: descends_def)
  have "linked ?H" using linked_mark [OF s'(2) sh(1)] .
  moreover have at: "number_at ?H a m = number_at (headers s) a m" for a m using sh(1) by (auto simp: number_at_def)
  have "indexed ?H (headers_by_number s)" using s'(3) unfolding indexed_def at .
  moreover have "descends (headers s) hash h" if "?H h = Some sh'" "finalized sh'" for h sh'
  proof (cases "h = hash")
    case True
    then show ?thesis using descends_refl [of "headers s" hash sh] sh(1) by simp
  next
    case False
    then have "headers s h = Some sh'" using that(1) by simp
    then show ?thesis using s'(5) [OF _ that(2)] d descends_trans by blast
  qed
  moreover have "oldest_block_to_keep (blocks_to_prune s) \<le> n" using s'(7) n by simp
  ultimately show ?thesis
    using s' sh unfolding lc_store_def by (auto simp: desc split: if_splits)
qed

subsection \<open>Pruning\<close>

text \<open>The range after a pruning step ends at or below the finalized block.\<close>

lemma prune_step_spec:
  assumes s: "lc_store cfg s"
  shows "\<exists>R stop. let s' = prune_step (id_number (finalized_block s)) s in
    pruned_store stop (oldest_unpruned_block (blocks_to_prune s')) (headers s) (headers s') R \<and>
    length R \<le> 8 \<and> indexed (headers s') (headers_by_number s') \<and>
    oldest_unpruned_block (blocks_to_prune s') \<le> stop \<and> stop \<le> id_number (finalized_block s) \<and>
    oldest_block_to_keep (blocks_to_prune s') = stop \<and>
    finalized_block s' = finalized_block s \<and> best_block s' = best_block s"
proof -
  note s' = lc_storeD [OF s]
  let ?pr = "blocks_to_prune s" and ?fin = "id_number (finalized_block s)"
  define pe where "pe = saturating_sub ?fin FINALIZED_HEADERS_TO_KEEP"
  define stop where "stop = (if pe > oldest_block_to_keep ?pr then pe else oldest_block_to_keep ?pr)"
  have "pe \<le> ?fin" unfolding pe_def by (simp add: word_le_nat_alt unat_saturating_sub)
  then have stop: "stop \<le> ?fin" "oldest_unpruned_block ?pr \<le> stop"
    using s'(6,7) unfolding stop_def by (auto intro: order.trans)
  obtain oldest t where run: "prune_loop HEADERS_TO_PRUNE_IN_SINGLE_IMPORT stop (oldest_unpruned_block ?pr) 0
      (oldest_unpruned_block ?pr) s = (oldest, t)" by (cases "prune_loop HEADERS_TO_PRUNE_IN_SINGLE_IMPORT stop
      (oldest_unpruned_block ?pr) 0 (oldest_unpruned_block ?pr) s") auto
  have eight: "unat HEADERS_TO_PRUNE_IN_SINGLE_IMPORT = 8" by (simp add: HEADERS_TO_PRUNE_IN_SINGLE_IMPORT_def)
  obtain R where R: "pruned_store stop oldest (headers s) (headers t) R" "length R \<le> 8"
      "indexed (headers t) (headers_by_number t)" "oldest \<le> stop"
      "t = s\<lparr>headers := headers t, headers_by_number := headers_by_number t\<rparr>"
  proof -
    have "\<exists>R. pruned_store stop oldest (headers s) (headers t) R \<and>
      length R + unat (0 :: u64) \<le> unat HEADERS_TO_PRUNE_IN_SINGLE_IMPORT \<and>
      indexed (headers t) (headers_by_number t) \<and> oldest_unpruned_block ?pr \<le> oldest \<and> oldest \<le> stop \<and>
      t = s\<lparr>headers := headers t, headers_by_number := headers_by_number t\<rparr>"
      by (rule prune_loop_spec [OF run s'(3)]) (use s'(8) stop(2) in auto)
    then show thesis using that eight by auto
  qed
  have t: "blocks_to_prune t = ?pr" "finalized_block t = finalized_block s" "best_block t = best_block s"
    by (subst R(5), simp)+
  have "prune_step ?fin s = t\<lparr>blocks_to_prune := \<lparr>oldest_unpruned_block = oldest, oldest_block_to_keep = stop\<rparr>\<rparr>"
    using run t(1) unfolding prune_step_def prune_header_range_def Let_def pe_def [symmetric] stop_def [symmetric]
    by auto
  then show ?thesis using R stop t by (intro exI [of _ R] exI [of _ stop]) simp
qed

section \<open>Every import keeps the invariant\<close>

lemma pruned_store_map_le: "pruned_store stop oldest H H' R \<Longrightarrow> H' \<subseteq>\<^sub>m H"
  by (auto simp: pruned_store_def map_le_def restrict_map_def dom_def)

lemma pruned_store_stored: "pruned_store stop oldest H H' R \<Longrightarrow> H' h = Some sh \<Longrightarrow> H h = Some sh"
  using pruned_store_map_le [of stop oldest H H' R] by (auto simp: map_le_def dom_def)

lemma linked_map_le: "linked H \<Longrightarrow> H' \<subseteq>\<^sub>m H \<Longrightarrow> linked H'"
  unfolding linked_def map_le_def dom_def by (metis (mono_tags) mem_Collect_eq option.distinct(1))

lemma pruned_descends:
  assumes l: "linked H" and p: "pruned_store stop oldest H H' R" and d: "descends H h g"
    and g: "H' g = Some gs" "oldest \<le> number (sh_header gs)"
  shows "descends H' h g"
proof -
  obtain k gh where k: "ancestry_nth H k h = Some (g, gh)" using d by (auto simp: descends_def)
  have gH: "H g = Some gs" using pruned_store_stored [OF p g(1)] .
  then have "sh_header gs = gh" using ancestry_nth_stored [OF k] by auto
  then have "H' x = Some sh" if "H x = Some sh" "number gh < number (sh_header sh)" for x sh
    using p that g(2) unfolding pruned_store_def by (meson order.strict_trans1)
  then have "ancestry_nth H' k h = Some (g, gh)"
    using ancestry_nth_restrict [OF l _ _ k] g(1) gH by simp
  then show ?thesis by (auto simp: descends_def)
qed

lemma prune_step_keeps:
  assumes s: "lc_store cfg s" and b: "lc_best s" and w: "lc_heaviest td s"
  defines "s' \<equiv> prune_step (id_number (finalized_block s)) s"
  shows "lc_store cfg s' \<and> lc_best s' \<and> lc_heaviest td s' \<and>
    finalized_block s' = finalized_block s \<and> best_block s' = best_block s"
proof -
  note st = lc_storeD [OF s]
  let ?fin = "finalized_block s" and ?lo = "oldest_unpruned_block (blocks_to_prune s')"
  obtain R stop where R: "pruned_store stop ?lo (headers s) (headers s') R"
      "indexed (headers s') (headers_by_number s')" "?lo \<le> stop" "stop \<le> id_number ?fin"
      "oldest_block_to_keep (blocks_to_prune s') = stop"
      and same: "finalized_block s' = ?fin" "best_block s' = best_block s"
    using prune_step_spec [OF s] unfolding s'_def [symmetric] Let_def by blast
  note old = pruned_store_stored [OF R(1)]
  have ge: "?lo \<le> number (sh_header sh)" if "headers s' h = Some sh" for h sh
    using R(1) that unfolding pruned_store_def by blast
  have kept: "headers s' h = Some sh" if "headers s h = Some sh" "stop \<le> number (sh_header sh)" for h sh
    using R(1) that unfolding pruned_store_def by blast
  obtain fh where fh: "headers s (id_hash ?fin) = Some fh" "finalized fh" "number (sh_header fh) = id_number ?fin"
    using st(4) by blast
  have fh': "headers s' (id_hash ?fin) = Some fh" using kept fh R(4) by simp
  obtain bh where bh: "headers s (id_hash (fst (best_block s))) = Some bh"
      "number (sh_header bh) = id_number (fst (best_block s))" "total_difficulty bh = snd (best_block s)"
      and bd: "descends (headers s) (id_hash (fst (best_block s))) (id_hash ?fin)"
    using b unfolding lc_best_def by blast
  have bd': "descends (headers s') (id_hash (fst (best_block s))) (id_hash ?fin)"
    using pruned_descends [OF st(2) R(1) bd fh'] fh(3) R(3,4) by simp
  then have "headers s' (id_hash (fst (best_block s))) = Some bh"
    using ancestry_nth_start bh(1) old unfolding descends_def by fastforce
  then have "lc_best s'" using bd' bh same unfolding lc_best_def by auto
  moreover have "descends (headers s') (id_hash ?fin) h" if "headers s' h = Some sh" "finalized sh" for h sh
    using pruned_descends [OF st(2) R(1) st(5) [OF old [OF that(1)] that(2)] that(1)] ge [OF that(1)] by simp
  then have "lc_store cfg s'"
    using st(1) old linked_map_le [OF st(2) pruned_store_map_le [OF R(1)]] R fh fh' ge same
    unfolding lc_store_def by auto
  moreover have "lc_heaviest td s'" using w old unfolding lc_heaviest_def by blast
  ultimately show ?thesis using same by simp
qed

text \<open>What a passed validation says.\<close>

lemma basic_checks_Ok:
  "basic_checks parent h = Ok b \<Longrightarrow> b \<Longrightarrow> gas_used h \<le> gas_limit h \<and> 5000 \<le> gas_limit h \<and>
     timestamp parent < timestamp h \<and> number h = number parent + 1 \<and> length (extra_data h) \<le> 32"
  by (auto simp: basic_checks_def and_then_def ok_simps split: if_splits)

theorem validate_header_Ok:
  "validate_header_to_import cfg h proof s = Ok () \<longleftrightarrow>
     headers s (hash_of cfg h) = None \<and> id_number (finalized_block s) < number h \<and>
     (\<exists>p fh. headers s (parent_hash h) = Some p \<and>
        ancestry_find (headers s) (\<lambda>a. number a = id_number (finalized_block s)) (parent_hash h) =
          Some (Some (id_hash (finalized_block s), fh)) \<and>
        (verify_pow cfg \<longrightarrow> basic_checks (sh_header p) h = (Ok True :: (dispatch_error, bool) result) \<and>
           calc_difficulty (lc_difficulty cfg) (timestamp h) (sh_header p) = Ok (difficulty h) \<and>
           validate_pow cfg h proof = Ok ()))"
  unfolding validate_header_to_import_def Let_def by (auto simp: ok_simps split: if_splits)

text \<open>
  The hash of the header to import is not the parent hash of a header stored already: a stored
  header's parent was stored when it was imported and has been pruned since if it is missing, so
  only a collision of hashes could make it a header above the finalized block.
\<close>

definition no_stored_child :: "lc_config \<Rightarrow> header \<Rightarrow> light_client \<Rightarrow> bool" where
  "no_stored_child cfg h s \<longleftrightarrow> (\<forall>x sh. headers s x = Some sh \<longrightarrow> parent_hash (sh_header sh) \<noteq> hash_of cfg h)"

text \<open>The state after the header has been written and before the best block is looked at.\<close>

definition stored_import :: "lc_config \<Rightarrow> account_id \<Rightarrow> header \<Rightarrow> u256 \<Rightarrow> light_client \<Rightarrow> light_client" where
  "stored_import cfg sender h td s = push_hash (number h) (hash_of cfg h) (s\<lparr>headers := (headers s)(hash_of cfg h \<mapsto>
     \<lparr>submitter = Some sender, sh_header = h, total_difficulty = td, finalized = False\<rparr>)\<rparr>)"

lemma stored_import_simps [simp]:
  "best_block (stored_import cfg sender h td s) = best_block s"
  "finalized_block (stored_import cfg sender h td s) = finalized_block s"
  "headers (stored_import cfg sender h td s) = (headers s)(hash_of cfg h \<mapsto>
     \<lparr>submitter = Some sender, sh_header = h, total_difficulty = td, finalized = False\<rparr>)"
  by (simp_all add: stored_import_def push_hash_def)

lemma import_validated_header_run:
  "headers s (parent_hash h) = Some p \<Longrightarrow> import_validated_header cfg sender h s =
     (case checked_add (total_difficulty p) (difficulty h) of
        None \<Rightarrow> (Err (Other ''Total difficulty overflow''), s)
      | Some td \<Rightarrow>
          if td > snd (best_block s) \<or> \<not> verify_pow cfg \<and> td = 0
          then advance_best cfg \<lparr>id_number = number h, id_hash = hash_of cfg h\<rparr> td (stored_import cfg sender h td s)
          else (Ok (), stored_import cfg sender h td s))"
  unfolding import_validated_header_def Let_def
  by (cases "checked_add (total_difficulty p) (difficulty h)")
    (simp_all add: ext_simps stored_import_def push_hash_def)

text \<open>The step after a new best block, case by case.\<close>

lemma advance_best_run:
  "advance_best cfg bid td s =
     (let s1 = s\<lparr>best_block := (bid, td)\<rparr>; fin = finalized_block s in
      case get_best_finalized_header cfg bid fin s1 of
        Ok new \<Rightarrow>
          if new \<noteq> fin
          then (case headers s (id_hash new) of
                  Some sh \<Rightarrow> (Ok (), prune_step (id_number new) (s1\<lparr>finalized_block := new,
                      headers := (headers s)(id_hash new \<mapsto> sh\<lparr>finalized := True\<rparr>)\<rparr>))
                | None \<Rightarrow> (Err (lc_error Unknown), s1\<lparr>finalized_block := new\<rparr>))
          else (Ok (), prune_step (id_number fin) s1)
      | Err e \<Rightarrow> (Err e, s1)
      | Panic \<Rightarrow> (Panic, s1)
      | Loop \<Rightarrow> (Loop, s1))"
  unfolding advance_best_def mark_finalized_def Let_def
  by (auto simp: bind_ext_def modify_def gets_def ret_def split: result.splits option.splits)

section \<open>Finality\<close>

lemma lc_store_best_irrelevant [simp]: "lc_store cfg (s\<lparr>best_block := b\<rparr>) = lc_store cfg s"
  by (simp add: lc_store_def)

lemma lc_heaviest_best_irrelevant [simp]: "lc_heaviest td (s\<lparr>best_block := b\<rparr>) = lc_heaviest td s"
  by (simp add: lc_heaviest_def)

text \<open>The candidate for finality, when it is above the finalized block, descends from it.\<close>

lemma best_finalized_cases:
  assumes s: "lc_store cfg s" and d: "descends (headers s) (id_hash bid) (id_hash (finalized_block s))"
  shows "get_best_finalized_header cfg bid (finalized_block s) (s\<lparr>best_block := b\<rparr>) \<in>
      {Ok (finalized_block s), Err (lc_error Unknown)} \<or>
    (\<exists>hash sh. get_best_finalized_header cfg bid (finalized_block s) (s\<lparr>best_block := b\<rparr>) =
         Ok \<lparr>id_number = number (sh_header sh), id_hash = hash\<rparr> \<and>
       headers s hash = Some sh \<and> id_number (finalized_block s) < number (sh_header sh) \<and>
       descends (headers s) (id_hash bid) hash \<and> descends (headers s) hash (id_hash (finalized_block s)))"
proof (cases "ancestry_nth (headers s) (unat (descendants_until_finalized cfg)) (id_hash bid)")
  case None
  then show ?thesis by (simp add: get_best_finalized_header_def)
next
  case (Some r)
  obtain hash gh where r: "r = (hash, gh)" by (cases r)
  obtain sh where sh: "headers s hash = Some sh" "sh_header sh = gh"
    using ancestry_nth_stored Some r by blast
  obtain k fh where k: "ancestry_nth (headers s) k (id_hash bid) = Some (id_hash (finalized_block s), fh)"
    using d by (auto simp: descends_def)
  have fh: "number fh = id_number (finalized_block s)"
    using lc_storeD(4) [OF s] ancestry_nth_stored [OF k] by auto
  show ?thesis
  proof (cases "id_number (finalized_block s) < number gh")
    case True
    then have "descends (headers s) hash (id_hash (finalized_block s))"
      using descends_by_number [OF lc_storeD(2) [OF s] _ k] Some r fh by simp
    moreover have "descends (headers s) (id_hash bid) hash" using Some r by (auto simp: descends_def)
    ultimately show ?thesis using True Some r sh by (auto simp: get_best_finalized_header_def)
  next
    case False
    then show ?thesis using Some r by (simp add: get_best_finalized_header_def)
  qed
qed

lemma advance_best_keeps:
  assumes s: "lc_store cfg s" and w: "lc_heaviest td s"
    and b: "headers s (id_hash bid) = Some bh" "number (sh_header bh) = id_number bid" "total_difficulty bh = td"
    and d: "descends (headers s) (id_hash bid) (id_hash (finalized_block s))"
    and run: "advance_best cfg bid td s = (r, s')"
  shows "r \<in> {Ok (), Err (lc_error Unknown)} \<and> lc_inv cfg s' \<and> best_block s' = (bid, td) \<and>
    (finalized_block s' = finalized_block s \<or>
     id_number (finalized_block s) < id_number (finalized_block s') \<and>
     descends (headers s) (id_hash (finalized_block s')) (id_hash (finalized_block s)))"
proof -
  let ?s1 = "s\<lparr>best_block := (bid, td)\<rparr>"
  have b1: "lc_best ?s1" using b d by (simp add: lc_best_def)
  note run' = run [unfolded advance_best_run Let_def]
  from best_finalized_cases [OF s d, of "(bid, td)"] show ?thesis
  proof (elim disjE exE conjE)
    assume "get_best_finalized_header cfg bid (finalized_block s) ?s1 \<in> {Ok (finalized_block s), Err (lc_error Unknown)}"
    then consider "r = Err (lc_error Unknown)" "s' = ?s1"
      | "r = Ok ()" "s' = prune_step (id_number (finalized_block s)) ?s1"
      using run' by auto
    then show ?thesis
    proof cases
      case 1
      then show ?thesis using s b1 w by (simp add: lc_inv_def)
    next
      case 2
      then show ?thesis using prune_step_keeps [of cfg ?s1 td] s b1 w by (simp add: lc_inv_def)
    qed
  next
    fix hash sh
    assume g: "get_best_finalized_header cfg bid (finalized_block s) ?s1 =
        Ok \<lparr>id_number = number (sh_header sh), id_hash = hash\<rparr>"
      and sh: "headers s hash = Some sh" "id_number (finalized_block s) < number (sh_header sh)"
      and bd: "descends (headers s) (id_hash bid) hash" and fd: "descends (headers s) hash (id_hash (finalized_block s))"
    let ?H = "(headers s)(hash \<mapsto> sh\<lparr>finalized := True\<rparr>)"
    let ?s2 = "?s1\<lparr>finalized_block := \<lparr>id_number = number (sh_header sh), id_hash = hash\<rparr>, headers := ?H\<rparr>"
    have "\<lparr>id_number = number (sh_header sh), id_hash = hash\<rparr> \<noteq> finalized_block s"
      using sh(2) by (metis header_id.select_convs(1) order.irrefl)
    then have r: "r = Ok ()" "s' = prune_step (id_number (finalized_block ?s2)) ?s2"
      using run' g sh(1) by auto
    have st: "lc_store cfg ?s2" using lc_store_finalize [of cfg ?s1 hash sh] s sh fd by simp
    have "ancestry_nth ?H k h = ancestry_nth (headers s) k h" for k h
      using sh(1) by (intro ancestry_nth_cong) auto
    then have "descends ?H (id_hash bid) hash" using bd by (simp add: descends_def)
    moreover have "\<exists>x. ?H (id_hash bid) = Some x \<and> number (sh_header x) = id_number bid \<and> total_difficulty x = td"
      using b sh(1) by auto
    ultimately have "lc_best ?s2" by (simp add: lc_best_def)
    moreover have "lc_heaviest td ?s2" using w sh(1) by (auto simp: lc_heaviest_def)
    ultimately show ?thesis
      using prune_step_keeps [OF st, of td] r sh(2) fd unfolding lc_inv_def by simp
  qed
qed

text \<open>The facts that a validated header brings to the import.\<close>

lemma validated_header_facts:
  assumes s: "lc_store cfg s" and pow: "verify_pow cfg"
    and v: "validate_header_to_import cfg h proof s = Ok ()"
  obtains p where "headers s (hash_of cfg h) = None" "headers s (parent_hash h) = Some p"
    "id_number (finalized_block s) < number h" "unat (number h) = unat (number (sh_header p)) + 1"
    "descends (headers s) (parent_hash h) (id_hash (finalized_block s))"
proof -
  from v pow obtain p fh where p: "headers s (hash_of cfg h) = None" "headers s (parent_hash h) = Some p"
      "id_number (finalized_block s) < number h" "number h = number (sh_header p) + 1"
      "ancestry_find (headers s) (\<lambda>a. number a = id_number (finalized_block s)) (parent_hash h) =
        Some (Some (id_hash (finalized_block s), fh))"
    using basic_checks_Ok by (fastforce simp: validate_header_Ok)
  have "number h \<noteq> 0" using p(3) by auto
  then have "unat (number h) = unat (number (sh_header p)) + 1" using p(4) unat_succ_nonzero by metis
  moreover have "descends (headers s) (parent_hash h) (id_hash (finalized_block s))"
    using ancestry_find_Some [OF p(5)] by (auto simp: descends_def)
  ultimately show thesis using that p by blast
qed

lemma import_validated_keeps:
  assumes inv: "lc_inv cfg s" and pow: "verify_pow cfg" and fresh: "no_stored_child cfg h s"
    and v: "validate_header_to_import cfg h proof s = Ok ()"
    and run: "import_validated_header cfg sender h s = (r, s')"
  shows "returns r \<and> lc_inv cfg s' \<and> snd (best_block s) \<le> snd (best_block s') \<and>
    (finalized_block s' = finalized_block s \<or>
     id_number (finalized_block s) < id_number (finalized_block s') \<and>
     (\<exists>x. sh_header x = h \<and> descends ((headers s)(hash_of cfg h \<mapsto> x)) (id_hash (finalized_block s')) (id_hash (finalized_block s))))"
proof -
  have st: "lc_store cfg s" using inv by (simp add: lc_inv_def)
  obtain p where p: "headers s (hash_of cfg h) = None" "headers s (parent_hash h) = Some p"
    "id_number (finalized_block s) < number h" "unat (number h) = unat (number (sh_header p)) + 1"
    "descends (headers s) (parent_hash h) (id_hash (finalized_block s))"
    using validated_header_facts [OF st pow v] .
  show ?thesis
  proof (cases "checked_add (total_difficulty p) (difficulty h)")
    case None
    then show ?thesis using run inv by (auto simp: import_validated_header_run [OF p(2)])
  next
    case (Some td)
    let ?x = "\<lparr>submitter = Some sender, sh_header = h, total_difficulty = td, finalized = False\<rparr>"
    let ?s1 = "stored_import cfg sender h td s" and ?H = "(headers s)(hash_of cfg h \<mapsto> ?x)"
    have td: "unat td = unat (total_difficulty p) + unat (difficulty h)" using Some by (simp add: checked_simps)
    have st1: "lc_store cfg ?s1"
      using lc_store_insert [OF st p(1), of ?x p] p td fresh unfolding stored_import_def no_stored_child_def by simp
    have le: "headers s \<subseteq>\<^sub>m ?H" using p(1) by (rule fresh_map_le)
    have d: "descends ?H (hash_of cfg h) (id_hash (finalized_block s))"
      using descends_parent [of ?H "hash_of cfg h" ?x] descends_mono [OF le p(5)] by simp
    show ?thesis
    proof (cases "td > snd (best_block s)")
      case True
      have "lc_heaviest td ?s1"
        using inv True unfolding lc_inv_def lc_heaviest_def by simp (meson le_less_trans less_imp_le)
      moreover have "advance_best cfg \<lparr>id_number = number h, id_hash = hash_of cfg h\<rparr> td ?s1 = (r, s')"
        using run True Some by (simp add: import_validated_header_run [OF p(2)])
      ultimately show ?thesis
        using advance_best_keeps [OF st1, of td "\<lparr>id_number = number h, id_hash = hash_of cfg h\<rparr>" ?x r s'] d True
        by (auto intro!: exI [of _ ?x])
    next
      case False
      then have "r = Ok ()" "s' = ?s1" using run Some pow by (simp_all add: import_validated_header_run [OF p(2)])
      moreover have "lc_best ?s1"
        using inv p(1) descends_mono [OF le] unfolding lc_inv_def lc_best_def by auto
      moreover have "lc_heaviest (snd (best_block s)) ?s1"
        using inv False unfolding lc_inv_def lc_heaviest_def by auto
      ultimately show ?thesis using st1 by (simp add: lc_inv_def)
    qed
  qed
qed

end
