(* ===== verification/Light_Client_Finality.thy ===== *)
theory Light_Client_Finality
  imports Light_Client_Inv
begin

text \<open>
  What an import does to the store and to the finalized block, with proof-of-work or without: the runtime for local
  networks does not check it, and with it goes the check of block numbers.  From this follow that the walk over
  ancestors ends, that the number of the finalized block does not fall, and that a block which finality has passed over is
  never accepted.
\<close>

section \<open>The effect of an import\<close>

lemma prune_hashes_less: "prune_hashes mx hs pruned H = (remainder, pruned', H') \<Longrightarrow> H' \<subseteq>\<^sub>m H"
proof (induction mx hs pruned H rule: prune_hashes.induct)
  case (2 mx hash rest pruned H)
  have "H(hash := None) \<subseteq>\<^sub>m H" by (simp add: map_le_def)
  then show ?case using 2 map_le_trans by (fastforce split: if_splits)
qed simp

lemma prune_loop_less:
  "headers (snd (prune_loop mx stop n pruned oldest s)) \<subseteq>\<^sub>m headers s \<and>
   finalized_block (snd (prune_loop mx stop n pruned oldest s)) = finalized_block s"
proof (induction mx stop n pruned oldest s rule: prune_loop.induct)
  case (1 mx stop n pruned oldest s)
  show ?case
  proof (cases "n < stop \<and> pruned \<noteq> mx")
    case True
    show ?thesis
    proof (cases "headers_by_number s n")
      case None
      then show ?thesis using 1 True by (subst (1 2) prune_loop.simps) simp
    next
      case (Some hs)
      obtain rest pruned' H where p: "prune_hashes mx hs pruned (headers s) = (rest, pruned', H)" by (cases "prune_hashes mx hs pruned (headers s)") auto
      show ?thesis
        using 1(2) [OF True Some p [symmetric] refl] Some p True prune_hashes_less [OF p] map_le_trans
        by (subst (1 2) prune_loop.simps) (fastforce simp: Let_def)
    qed
  next
    case False
    then show ?thesis by (subst (1 2) prune_loop.simps) auto
  qed
qed

lemma prune_step_less:
  "headers (prune_step n s) \<subseteq>\<^sub>m headers s" "finalized_block (prune_step n s) = finalized_block s"
  using prune_loop_less by (auto simp: prune_step_def prune_header_range_def Let_def split_beta)

text \<open>An import keeps the store, or adds the header; it may then move the finalized block up, flag it, and drop old headers.\<close>

lemma import_validated_effect:
  assumes run: "import_validated_header cfg sender h s = (r, s')" and p: "headers s (parent_hash h) = Some p"
  obtains (kept) "s' = s" "returns r"
    | (stored) x where "sh_header x = h" "\<not> finalized x" "headers s' \<subseteq>\<^sub>m (headers s)(hash_of cfg h \<mapsto> x)"
        "finalized_block s' = finalized_block s" "returns r"
    | (advanced) x g sh where "sh_header x = h" "\<not> finalized x" "((headers s)(hash_of cfg h \<mapsto> x)) g = Some sh"
        "headers s' \<subseteq>\<^sub>m (headers s)(hash_of cfg h \<mapsto> x, g \<mapsto> sh\<lparr>finalized := True\<rparr>)"
        "id_number (finalized_block s) < number (sh_header sh)"
        "finalized_block s' = \<lparr>id_number = number (sh_header sh), id_hash = g\<rparr>" "returns r"
proof (cases "checked_add (total_difficulty p) (difficulty h)")
  case None
  then have "s' = s" "returns r" using run by (auto simp: import_validated_header_run [OF p] returns_def)
  then show thesis by (rule kept)
next
  case (Some td)
  let ?x = "\<lparr>submitter = Some sender, sh_header = h, total_difficulty = td, finalized = False\<rparr>"
  let ?H = "(headers s)(hash_of cfg h \<mapsto> ?x)" and ?s1 = "stored_import cfg sender h td s"
  let ?id = "\<lparr>id_number = number h, id_hash = hash_of cfg h\<rparr>"
  show thesis
  proof (cases "td > snd (best_block s) \<or> \<not> verify_pow cfg \<and> td = 0")
    case False
    then have "s' = ?s1" "returns r" using run Some by (auto simp: import_validated_header_run [OF p] returns_def)
    then show thesis using stored [of ?x] by simp
  next
    case True
    then have adv: "advance_best cfg ?id td ?s1 = (r, s')" using run Some by (simp add: import_validated_header_run [OF p])
    have same: thesis if "s' = ?s1\<lparr>best_block := b\<rparr> \<or> s' = prune_step n (?s1\<lparr>best_block := b\<rparr>)" "returns r" for b n
      using that stored [of ?x] prune_step_less [of n "?s1\<lparr>best_block := b\<rparr>"] by auto
    show thesis
    proof (cases "ancestry_nth ?H (unat (descendants_until_finalized cfg)) (hash_of cfg h)")
      case None
      then show thesis
        using adv by (intro same [of "(?id, td)" "id_number (finalized_block s)"])
          (auto simp: advance_best_run get_best_finalized_header_def Let_def returns_def)
    next
      case (Some a)
      obtain g gh where a: "a = (g, gh)" by (cases a)
      obtain sh where sh: "?H g = Some sh" "sh_header sh = gh" using ancestry_nth_stored Some a by blast
      note get = advance_best_run get_best_finalized_header_def Let_def Some a
      show thesis
      proof (cases "id_number (finalized_block s) < number gh")
        case True
        let ?new = "\<lparr>id_number = number gh, id_hash = g\<rparr>"
        let ?s2 = "?s1\<lparr>best_block := (?id, td), finalized_block := ?new, headers := ?H(g \<mapsto> sh\<lparr>finalized := True\<rparr>)\<rparr>"
        have "?new \<noteq> finalized_block s" using True by (metis header_id.select_convs(1) order_less_irrefl)
        then have "s' = prune_step (number gh) ?s2" "returns r" using adv sh True by (auto simp: get returns_def)
        then show thesis using advanced [of ?x g sh] sh True prune_step_less [of "number gh" ?s2] by simp
      next
        case False
        then show thesis
          using adv by (intro same [of "(?id, td)" "id_number (finalized_block s)"]) (auto simp: get returns_def split: if_splits)
      qed
    qed
  qed
qed

lemma import_header_cases:
  assumes "import_header cfg org h proof s = (r, s')"
  obtains (rejected) "s' = s" "\<not> is_ok r"
    | (imported) sender where "org = Signed sender" "validate_header_to_import cfg h proof s = Ok ()"
        "import_validated_header cfg sender h s = (r, s')"
proof (cases "ensure_signed org")
  case (Ok sender)
  then have "import_header cfg org h proof s = (case validate_header_to_import cfg h proof s of
      Ok _ \<Rightarrow> import_validated_header cfg sender h s | Err e \<Rightarrow> (Err e, s) | Panic \<Rightarrow> (Panic, s) | Loop \<Rightarrow> (Loop, s))"
    by (cases "validate_header_to_import cfg h proof s") (simp_all add: import_header_def ext_simps bind_ext_def)
  then show thesis
    using assms Ok imported [of sender] rejected
    by (cases "validate_header_to_import cfg h proof s") (fastforce simp: ensure_signed_Ok)+
qed (use assms rejected in \<open>auto simp: import_header_def ext_simps\<close>)

lemma import_effect:
  assumes "import_header cfg org h proof s = (r, s')"
  obtains (kept) "s' = s"
    | (stored) x where "validate_header_to_import cfg h proof s = Ok ()" "sh_header x = h" "\<not> finalized x"
        "headers s' \<subseteq>\<^sub>m (headers s)(hash_of cfg h \<mapsto> x)" "finalized_block s' = finalized_block s"
    | (advanced) x g sh where "validate_header_to_import cfg h proof s = Ok ()" "sh_header x = h" "\<not> finalized x"
        "((headers s)(hash_of cfg h \<mapsto> x)) g = Some sh"
        "headers s' \<subseteq>\<^sub>m (headers s)(hash_of cfg h \<mapsto> x, g \<mapsto> sh\<lparr>finalized := True\<rparr>)"
        "id_number (finalized_block s) < number (sh_header sh)"
        "finalized_block s' = \<lparr>id_number = number (sh_header sh), id_hash = g\<rparr>"
  using assms
proof (cases rule: import_header_cases)
  case (imported sender)
  then obtain p where "headers s (parent_hash h) = Some p" by (auto simp: validate_header_Ok)
  note from_kept = kept and from_stored = stored [OF imported(2)] and from_advanced = advanced [OF imported(2)]
  from imported(3) \<open>headers s (parent_hash h) = Some p\<close> show thesis
  proof (cases rule: import_validated_effect)
    case kept
    then show ?thesis by (intro from_kept)
  next
    case (stored x)
    then show ?thesis by (intro from_stored)
  next
    case (advanced x g sh)
    then show ?thesis by (intro from_advanced)
  qed
qed (rule kept)

lemma finalized_number_grows:
  assumes "import_header cfg org h proof s = (r, s')"
  shows "finalized_block s' = finalized_block s \<or> id_number (finalized_block s) < id_number (finalized_block s')"
  using assms by (rule import_effect) simp_all

section \<open>Walks over ancestors end\<close>

text \<open>Parents come before their children in some order, whatever the block numbers say.\<close>

definition ranked :: "header_store \<Rightarrow> bool" where
  "ranked H \<longleftrightarrow> (\<exists>rank :: h256 \<Rightarrow> nat. \<forall>k sh. H k = Some sh \<and> H (parent_hash (sh_header sh)) \<noteq> None \<longrightarrow>
     rank (parent_hash (sh_header sh)) < rank k)"

lemma ranked_find_stops:
  assumes "ranked H"
  shows "\<exists>r. ancestry_find H P h = Some r"
proof -
  obtain rank :: "h256 \<Rightarrow> nat" where r: "\<And>k sh. H k = Some sh \<Longrightarrow> H (parent_hash (sh_header sh)) \<noteq> None \<Longrightarrow>
      rank (parent_hash (sh_header sh)) < rank k"
    using assms unfolding ranked_def by blast
  show ?thesis
  proof (induction h rule: measure_induct_rule [of rank])
    case (less h)
    show ?case
    proof (cases "H h")
      case (Some sh)
      have "\<exists>r. ancestry_find H P (parent_hash (sh_header sh)) = Some r"
      proof (cases "H (parent_hash (sh_header sh))")
        case None
        then show ?thesis by (subst ancestry_find.simps) simp
      next
        case (Some p)
        then show ?thesis using less r [OF \<open>H h = Some sh\<close>] by simp
      qed
      then show ?thesis using Some by (subst ancestry_find.simps) auto
    qed (subst ancestry_find.simps, simp)
  qed
qed

lemma ranked_less:
  assumes "ranked H" "\<And>k sh. H' k = Some sh \<Longrightarrow> \<exists>sh'. H k = Some sh' \<and> sh_header sh' = sh_header sh"
  shows "ranked H'"
proof -
  obtain rank :: "h256 \<Rightarrow> nat" where r: "\<forall>k sh. H k = Some sh \<and> H (parent_hash (sh_header sh)) \<noteq> None \<longrightarrow> rank (parent_hash (sh_header sh)) < rank k"
    using assms(1) unfolding ranked_def by blast
  have "rank (parent_hash (sh_header sh)) < rank k" if k: "H' k = Some sh" and p: "H' (parent_hash (sh_header sh)) \<noteq> None" for k sh
    using assms(2) [OF k] assms(2) [of "parent_hash (sh_header sh)"] p r by (metis not_None_eq)
  then show ?thesis unfolding ranked_def by blast
qed

lemma ranked_insert:
  assumes "ranked H" "H k = None" "parent_hash (sh_header x) \<noteq> k" "\<And>j sh. H j = Some sh \<Longrightarrow> parent_hash (sh_header sh) \<noteq> k"
  shows "ranked (H(k \<mapsto> x))"
proof -
  obtain rank :: "h256 \<Rightarrow> nat" where r: "\<forall>k sh. H k = Some sh \<and> H (parent_hash (sh_header sh)) \<noteq> None \<longrightarrow> rank (parent_hash (sh_header sh)) < rank k"
    using assms(1) unfolding ranked_def by blast
  let ?rank = "rank(k := Suc (rank (parent_hash (sh_header x))))"
  have "?rank (parent_hash (sh_header sh)) < ?rank j" if "(H(k \<mapsto> x)) j = Some sh" "(H(k \<mapsto> x)) (parent_hash (sh_header sh)) \<noteq> None" for j sh
    using that r assms(2-4) by (auto split: if_splits)
  then show ?thesis unfolding ranked_def by blast
qed

lemma import_ranked:
  assumes "ranked (headers s)" "no_stored_child cfg h s" "import_header cfg org h proof s = (r, s')"
  shows "ranked (headers s')"
proof -
  have new: "ranked ((headers s)(hash_of cfg h \<mapsto> x))" if "validate_header_to_import cfg h proof s = Ok ()" "sh_header x = h" for x
    using that assms(2) by (intro ranked_insert [OF assms(1)]) (auto simp: validate_header_Ok no_stored_child_def)
  from assms(3) show ?thesis
  proof (cases rule: import_effect)
    case (stored x)
    show ?thesis by (rule ranked_less [OF new [OF stored(1,2)]]) (use stored(4) in \<open>force simp: map_le_def dom_def\<close>)
  next
    case (advanced x g sh)
    show ?thesis
    proof (rule ranked_less [OF new [OF advanced(1,2)]])
      fix k sh' assume "headers s' k = Some sh'"
      then have "((headers s)(hash_of cfg h \<mapsto> x, g \<mapsto> sh\<lparr>finalized := True\<rparr>)) k = Some sh'"
        using advanced(5) by (auto simp: map_le_def dom_def)
      then show "\<exists>sh''. ((headers s)(hash_of cfg h \<mapsto> x)) k = Some sh'' \<and> sh_header sh'' = sh_header sh'"
        using advanced(4) by (cases "k = g") auto
    qed
  qed (simp add: assms(1))
qed

section \<open>Blocks that finality has passed over\<close>

text \<open>Any sequence of imports, with proof-of-work or without.\<close>

definition client_import :: "lc_config \<Rightarrow> light_client \<Rightarrow> light_client \<Rightarrow> bool" where
  "client_import cfg C C' \<longleftrightarrow> (\<exists>org h p r. import_header cfg org h p C = (r, C') \<and> returns r)"

definition passed_over :: "h256 \<Rightarrow> u64 \<Rightarrow> light_client \<Rightarrow> bool" where
  "passed_over k n s \<longleftrightarrow> n \<le> id_number (finalized_block s) \<and>
     (\<forall>sh. headers s k = Some sh \<longrightarrow> \<not> finalized sh \<and> number (sh_header sh) = n)"

lemma import_passed_over:
  assumes "passed_over k n s" "\<And>h. hash_of cfg h = k \<Longrightarrow> number h = n" "import_header cfg org h proof s = (r, s')"
  shows "passed_over k n s'"
proof -
  have old: "n \<le> id_number (finalized_block s)" "\<And>sh. headers s k = Some sh \<Longrightarrow> \<not> finalized sh \<and> number (sh_header sh) = n"
    using assms(1) by (simp_all add: passed_over_def)
  have new: "hash_of cfg h \<noteq> k" if "validate_header_to_import cfg h proof s = Ok ()"
    using that assms(2) [of h] old(1) by (auto simp: validate_header_Ok)
  from assms(3) show ?thesis
  proof (cases rule: import_effect)
    case (stored x)
    then show ?thesis using old new [OF stored(1)] by (auto simp: passed_over_def map_le_def dom_def)
  next
    case (advanced x g sh)
    have "g \<noteq> k" using advanced(4,6) old new [OF advanced(1)] by auto
    then show ?thesis
      using advanced(5-7) old new [OF advanced(1)] by (force simp: passed_over_def map_le_def dom_def)
  qed (simp add: assms(1))
qed

lemma imports_passed_over:
  assumes "(client_import cfg)\<^sup>*\<^sup>* s s'" "passed_over k n s" "\<And>h. hash_of cfg h = k \<Longrightarrow> number h = n"
  shows "passed_over k n s'"
  using assms(1,2) by (induction rule: rtranclp_induct) (auto simp: client_import_def intro: import_passed_over assms(3))

end
