(* ===== verification/Light_Client_Props.thy ===== *)
theory Light_Client_Props
  imports Light_Client_Finality
begin

text \<open>
  The properties of the light client as a running system: the states it reaches from its genesis
  by imports, the invariant on all of them, finality that never goes back, and what a verified
  message amounts to.
\<close>

section \<open>Reachable states\<close>

text \<open>A call that returns keeps its writes, whether it succeeded or not.\<close>

inductive lc_step :: "lc_config \<Rightarrow> light_client \<Rightarrow> light_client \<Rightarrow> bool" for cfg where
  import: "import_header cfg org h proof s = (r, s') \<Longrightarrow> returns r \<Longrightarrow> no_stored_child cfg h s \<Longrightarrow> lc_step cfg s s'"

inductive lc_reachable :: "lc_config \<Rightarrow> light_client \<Rightarrow> bool" for cfg where
  genesis: "lc_genesis cfg h d empty_light_client = (Ok (), s) \<Longrightarrow> parent_hash h \<noteq> hash_of cfg h \<Longrightarrow>
    lc_reachable cfg s"
| step: "lc_reachable cfg s \<Longrightarrow> lc_step cfg s s' \<Longrightarrow> lc_reachable cfg s'"

inductive_cases lc_stepE: "lc_step cfg s s'"

definition genesis_state :: "lc_config \<Rightarrow> header \<Rightarrow> u256 \<Rightarrow> light_client" where
  "genesis_state cfg h d =
     \<lparr>best_block = (\<lparr>id_number = number h, id_hash = hash_of cfg h\<rparr>, d),
      blocks_to_prune = \<lparr>oldest_unpruned_block = number h, oldest_block_to_keep = number h\<rparr>,
      finalized_block = \<lparr>id_number = number h, id_hash = hash_of cfg h\<rparr>,
      headers = [hash_of cfg h \<mapsto> \<lparr>submitter = None, sh_header = h, total_difficulty = d, finalized = True\<rparr>],
      headers_by_number = [number h \<mapsto> [hash_of cfg h]]\<rparr>"

lemma lc_genesis_run:
  assumes "parent_hash h \<noteq> hash_of cfg h"
  shows "lc_genesis cfg h d empty_light_client = (Ok (), genesis_state cfg h d)"
proof -
  let ?x = "\<lparr>submitter = None, sh_header = h, total_difficulty = d, finalized = False\<rparr>"
  have "finalize_ancestors [hash_of cfg h \<mapsto> ?x] (hash_of cfg h) = Some [hash_of cfg h \<mapsto> ?x\<lparr>finalized := True\<rparr>]"
    using assms by (subst finalize_ancestors.simps, subst finalize_ancestors.simps) simp
  then show ?thesis
    by (simp add: lc_genesis_def initialize_storage_def insert_header_fn_def push_hash_def empty_light_client_def
        genesis_state_def ext_simps bind_ext_def modify_def gets_def ret_def Let_def)
qed

lemma genesis_state_inv:
  assumes "parent_hash h \<noteq> hash_of cfg h"
  shows "lc_inv cfg (genesis_state cfg h d)"
proof -
  let ?H = "headers (genesis_state cfg h d)"
  have "descends ?H (hash_of cfg h) (hash_of cfg h)" by (rule descends_refl) (simp add: genesis_state_def)
  moreover have "linked ?H" using assms by (auto simp: linked_def genesis_state_def split: if_splits)
  moreover have "indexed ?H (headers_by_number (genesis_state cfg h d))"
    by (auto simp: indexed_def number_at_def genesis_state_def split: if_splits option.splits)
  ultimately show ?thesis
    by (auto simp: lc_inv_def lc_store_def lc_best_def lc_heaviest_def genesis_state_def split: if_splits)
qed

section \<open>The invariant on every reachable state\<close>

lemma import_inv:
  assumes "lc_inv cfg s" "verify_pow cfg" "no_stored_child cfg h s"
    and "import_header cfg org h proof s = (r, s')"
  shows "lc_inv cfg s'"
  using assms(4)
proof (cases rule: import_header_cases)
  case rejected
  then show ?thesis using assms(1) by simp
next
  case (imported sender)
  then show ?thesis using import_validated_keeps [OF assms(1-3)] by blast
qed

lemma reachable_inv:
  assumes "lc_reachable cfg s" "verify_pow cfg"
  shows "lc_inv cfg s"
  using assms(1)
proof (induction rule: lc_reachable.induct)
  case (genesis h d s)
  then show ?case using genesis_state_inv lc_genesis_run by (metis prod.inject)
next
  case (step s s')
  then show ?case using import_inv assms(2) by (blast elim: lc_stepE)
qed

text \<open>
  C9. On every state of the light client that imports reach from its genesis, with proof-of-
  work checked, the header store is linked and exactly indexed by number, the finalized
  block is stored and flagged, every flagged header is the finalized block or an ancestor of
  it, the best block is stored, descends from the finalized block and has the largest total
  difficulty, and nothing below the pruning range is stored.
\<close>

theorem lc_reachable_inv:
  assumes "lc_reachable cfg s" "verify_pow cfg"
  shows "lc_inv cfg s"
  using reachable_inv assms .

section \<open>Finality\<close>

text \<open>
  C10. On any state and in every configuration, an import leaves the finalized block alone
  or moves it to a block with a larger number, whatever the outcome of the call. When the
  client checks proof-of-work (runtime/snowbridge and runtime/rococo, not runtime/local),
  the state satisfies the invariant of the reachable states, and no stored header names the
  hash of the imported one as its parent (which only a collision of hashes could bring
  about), the new finalized block is moreover a descendant of the old one in the store with
  the imported header added.
\<close>

theorem finality_never_reverts:
  assumes "import_header cfg org h proof s = (r, s')"
  shows "(finalized_block s' = finalized_block s \<or> id_number (finalized_block s) < id_number (finalized_block s')) \<and>
    (lc_inv cfg s \<and> verify_pow cfg \<and> no_stored_child cfg h s \<longrightarrow> finalized_block s' = finalized_block s \<or>
      (\<exists>x. sh_header x = h \<and>
        descends ((headers s)(hash_of cfg h \<mapsto> x)) (id_hash (finalized_block s')) (id_hash (finalized_block s))))"
proof (intro conjI impI)
  assume "lc_inv cfg s \<and> verify_pow cfg \<and> no_stored_child cfg h s"
  from assms show "finalized_block s' = finalized_block s \<or> (\<exists>x. sh_header x = h \<and>
      descends ((headers s)(hash_of cfg h \<mapsto> x)) (id_hash (finalized_block s')) (id_hash (finalized_block s)))"
  proof (cases rule: import_header_cases)
    case (imported sender)
    then show ?thesis using import_validated_keeps [of cfg s h] \<open>lc_inv cfg s \<and> verify_pow cfg \<and> no_stored_child cfg h s\<close> by blast
  qed simp
qed (use finalized_number_grows [OF assms] in blast)

text \<open>
  C11. With proof-of-work checked (runtime/snowbridge and runtime/rococo, not
  runtime/local), on every state that imports reach from the genesis, where no import brings
  a header that a stored one names as its parent already, no two stored headers with the
  same block number are both flagged final, so messages can be verified against one chain
  only.
\<close>

theorem finalized_headers_agree:
  assumes "lc_reachable cfg s" "verify_pow cfg"
    and a: "headers s a = Some x" "finalized x" and b: "headers s b = Some y" "finalized y"
    and n: "number (sh_header x) = number (sh_header y)"
  shows "a = b"
proof -
  have s: "lc_store cfg s" using reachable_inv assms by (auto simp: lc_inv_def)
  obtain j ah k bh where j: "ancestry_nth (headers s) j (id_hash (finalized_block s)) = Some (a, ah)"
    and k: "ancestry_nth (headers s) k (id_hash (finalized_block s)) = Some (b, bh)"
    using lc_storeD(5) [OF s] a b by (meson descends_def)
  then have "number ah = number bh" using ancestry_nth_stored [OF j] ancestry_nth_stored [OF k] a b n by auto
  then show ?thesis using ancestor_unique [OF lc_storeD(2) [OF s] j k] by simp
qed

section \<open>Imports come back\<close>

lemma basic_checks_stops [stops_rules]: "stops (basic_checks p h)"
  unfolding basic_checks_def and_then_def u256_mul_def by (intro stops_rules)

lemma calc_difficulty_stops [stops_rules]: "stops (calc_difficulty cfg t p)"
  unfolding calc_difficulty_def Let_def u256_mul_def u256_sub_def u256_add_def u256_pow_def by (intro stops_rules)

lemma hashimoto_merkle_stops [stops_rules]: "stops (hashimoto_merkle L E hh nc n nodes)"
  unfolding hashimoto_merkle_def Let_def by (intro stops_rules)

lemma validate_stops:
  assumes "ranked (headers s)"
  shows "stops (validate_header_to_import cfg h proof s)"
proof -
  have "stops (must_stop (ancestry_find (headers s) P x))" for P x
  proof -
    obtain r where "ancestry_find (headers s) P x = Some r" using ranked_find_stops [OF assms] by blast
    then show ?thesis by (rule stops_must_stop)
  qed
  then show ?thesis
    unfolding validate_header_to_import_def validate_pow_def Let_def by (intro stops_rules)
qed

lemma import_validated_stops:
  assumes "validate_header_to_import cfg h proof s = Ok ()"
  shows "stops (fst (import_validated_header cfg sender h s))"
proof -
  obtain p where "headers s (parent_hash h) = Some p" using assms by (auto simp: validate_header_Ok)
  moreover obtain r s' where "import_validated_header cfg sender h s = (r, s')" by fastforce
  ultimately have "returns r" by (auto elim: import_validated_effect)
  then show ?thesis using \<open>import_validated_header cfg sender h s = (r, s')\<close> by (cases r) (simp_all add: stops_def)
qed

lemma reachable_ranked: "lc_reachable cfg s \<Longrightarrow> ranked (headers s)"
proof (induction rule: lc_reachable.induct)
  case (genesis h d s)
  then have "s = genesis_state cfg h d" using lc_genesis_run by (metis prod.inject)
  then show ?case using genesis(2) by (auto simp: ranked_def genesis_state_def split: if_splits)
qed (blast elim: lc_stepE intro: import_ranked)

text \<open>
  C13. With proof-of-work checked or not, on every state that imports reach from a genesis
  header that is not its own parent, where no earlier import brought a header that a stored
  one named as its parent already (which only a collision of hashes could bring about), the
  import of any header comes to an end: the walk over ancestors during validation, which
  follows parent hashes through the store, stops, and so does the rest of the import.
\<close>

theorem import_header_terminates:
  assumes "lc_reachable cfg s"
  shows "stops (fst (import_header cfg org h proof s))"
  using validate_stops [OF reachable_ranked [OF assms], of cfg h "proof"] import_validated_stops [of cfg h "proof" s]
  by (cases org; cases "validate_header_to_import cfg h proof s")
    (auto simp: import_header_def ext_simps bind_ext_def stops_def)

section \<open>Messages\<close>

lemma check_receipt_proof_Some:
  "check_receipt_proof L h proof = Some r \<longleftrightarrow>
     (\<exists>v. proof_chain L proof (receipts_root h) v \<and> receipt_decode L v = Ok r)"
  unfolding check_receipt_proof_def apply_merkle_proof_chain [symmetric]
  by (auto split: option.splits result.splits)

lemma verify_Ok_iff:
  "fst (verify cfg m s) = Ok l \<longleftrightarrow>
     (\<exists>sh v rc. headers s (block_hash (msg_proof m)) = Some sh \<and> finalized sh \<and>
        proof_chain (lc_lib cfg) (snd (proof_data (msg_proof m))) (receipts_root (sh_header sh)) v \<and>
        receipt_decode (lc_lib cfg) v = Ok rc \<and>
        log_decode (lc_lib cfg) (msg_data m) = Ok l \<and> l \<in> set (logs rc))"
  unfolding verify_def verify_receipt_inclusion_def
  by (auto simp: ok_simps check_receipt_proof_Some contains_log_iff split: if_splits)

lemma verified_final:
  assumes "lc_reachable cfg s" "verify_pow cfg" and v: "verify cfg m s = (Ok l, s')"
  shows "s' = s \<and> descends (headers s) (id_hash (finalized_block s)) (block_hash (msg_proof m))"
proof -
  have "lc_store cfg s" using reachable_inv assms by (auto simp: lc_inv_def)
  moreover have "fst (verify cfg m s) = Ok l" using v by simp
  ultimately show ?thesis using lc_storeD(5) v unfolding verify_Ok_iff by (auto simp: verify_def)
qed

text \<open>
  C12. verify returns a log exactly when the named block is stored and flagged final, the
  proof is a chain of trie nodes from its receipts root to a value that decodes to a
  receipt, and the log the message decodes to is one of that receipt.
\<close>

theorem verify_sound:
  "fst (verify cfg m s) = Ok l \<longleftrightarrow>
     (\<exists>sh v rc. headers s (block_hash (msg_proof m)) = Some sh \<and> finalized sh \<and>
        proof_chain (lc_lib cfg) (snd (proof_data (msg_proof m))) (receipts_root (sh_header sh)) v \<and>
        receipt_decode (lc_lib cfg) v = Ok rc \<and>
        log_decode (lc_lib cfg) (msg_data m) = Ok l \<and> l \<in> set (logs rc))"
  by (rule verify_Ok_iff)

section \<open>A sample chain\<close>

definition sample_cfg :: lc_config where
  "sample_cfg = \<lparr>lc_lib = sample_lib, lc_ethash = linear_ethash, descendants_until_finalized = 1,
     lc_difficulty = \<lparr>byzantium_fork_block = 0, constantinople_fork_block = 0, muir_glacier_fork_block = 0,
       london_fork_block = 0\<rparr>, verify_pow = True\<rparr>"

definition sample_header :: "h256 \<Rightarrow> u64 \<Rightarrow> u64 \<Rightarrow> u256 \<Rightarrow> header" where
  "sample_header p n t d = header_default\<lparr>parent_hash := p, number := n, timestamp := t, difficulty := d,
     ommers_hash := EMPTY_OMMERS_HASH, gas_limit := 10000000, receipts_root := 3, seal := [[7], [2]]\<rparr>"

lemma sample_header_simps [simp]:
  "parent_hash (sample_header p n t d) = p" "number (sample_header p n t d) = n"
  "timestamp (sample_header p n t d) = t" "difficulty (sample_header p n t d) = d"
  "gas_limit (sample_header p n t d) = 10000000" "gas_used (sample_header p n t d) = 0"
  "extra_data (sample_header p n t d) = []" "seal (sample_header p n t d) = [[7], [2]]"
  "receipts_root (sample_header p n t d) = 3" "\<not> has_ommers (sample_header p n t d)"
  by (simp_all add: sample_header_def header_default_def has_ommers_def)

lemma of_be_bytes_append: "of_be_bytes (xs @ ys) = of_be_bytes xs * 256 ^ length ys + of_be_bytes ys"
  using of_be_bytes_foldl [of "of_be_bytes xs" ys] by (simp add: of_be_bytes_def)

lemma of_be_bytes_u64: "of_be_bytes (be_bytes 8 (n :: u64)) = (ucast n :: h256)"
proof -
  have "of_be_bytes (be_bytes 8 n) = (take_bit (8 * 8) (ucast n) :: h256)"
    using of_be_bytes_be_bytes [of 8 "ucast n :: h256"] be_bytes_ucast [of 8 n, where 'b = 256] by simp
  moreover have "take_bit 64 (ucast n) = (ucast n :: h256)"
    by (rule bit_word_eqI) (auto simp: bit_take_bit_iff bit_ucast_iff dest: bit_imp_le_length)
  ultimately show ?thesis by simp
qed

lemma sample_hash [simp]:
  "compute_hash sample_lib (sample_header p n t d) = ucast n * 18446744073709551616 + ucast t + 1"
  by (simp add: compute_hash_def header_rlp_def Let_def sample_lib_def of_be_bytes_append of_be_bytes_u64)

lemma sample_libs [simp]: "rlp_as_bytes sample_lib = Ok" "cross_boundary linear_ethash d = - 1"
  "lc_lib sample_cfg = sample_lib" "lc_ethash sample_cfg = linear_ethash" "verify_pow sample_cfg"
  "unat (descendants_until_finalized sample_cfg) = 1"
  by (simp_all add: sample_lib_def linear_ethash_def sample_cfg_def)

lemma sample_pow [simp]:
  "n < 30000 \<Longrightarrow> validate_pow sample_cfg (sample_header p n t d) zero_nodes = Ok ()"
proof -
  assume "n < 30000"
  then have "n div EPOCH_LENGTH = 0" by (simp add: EPOCH_LENGTH_def word_less_nat_alt word_unat_eq_iff unat_div_distrib)
  then show ?thesis
    by (simp add: validate_pow_def zero_nodes_accepted mix_hash_def nonce_def decoded_seal_field_def
      copy_right_aligned of_be_bytes_Cons ensure_def)
qed

definition sample_s0 :: light_client where
  "sample_s0 = genesis_state sample_cfg (sample_header 0 0 0 131072) 0"

lemma sample_s0_inv: "lc_inv sample_cfg sample_s0"
  unfolding sample_s0_def by (rule genesis_state_inv) simp

lemma sample_s0_reachable: "lc_reachable sample_cfg sample_s0"
  unfolding sample_s0_def by (rule lc_reachable.genesis [OF lc_genesis_run]) simp_all

definition sample_h1 :: header where "sample_h1 = sample_header 1 1 10 131072"

lemma sample_h1_valid: "validate_header_to_import sample_cfg sample_h1 zero_nodes sample_s0 = Ok ()"
proof -
  have "basic_checks (sample_header 0 0 0 131072) sample_h1 = (Ok True :: (dispatch_error, bool) result)"
    by (simp add: basic_checks_def and_then_def sample_h1_def u256_mul_def checked_mul_def)
  moreover have "calc_difficulty (lc_difficulty sample_cfg) 10 (sample_header 0 0 0 131072) = Ok 131072"
    by (simp add: calc_difficulty_eq bomb_delay_def sample_cfg_def difficulty_spec_def base_difficulty_def
        adjustment_factor_def ice_age_def bomb_delay_blocks_def)
  moreover have "ancestry_find (headers sample_s0) (\<lambda>a. number a = 0) 1 = Some (Some (1, sample_header 0 0 0 131072))"
    by (subst ancestry_find.simps) (simp add: sample_s0_def genesis_state_def)
  ultimately show ?thesis
    by (simp add: validate_header_Ok sample_s0_def genesis_state_def sample_h1_def)
qed

lemma prune_step_idle:
  assumes "oldest_unpruned_block (blocks_to_prune s) = oldest_block_to_keep (blocks_to_prune s)"
    and "n \<le> FINALIZED_HEADERS_TO_KEEP"
  shows "prune_step n s = s"
proof -
  have "saturating_sub n FINALIZED_HEADERS_TO_KEEP = 0" using assms(2) by (auto simp: saturating_sub_def)
  then show ?thesis using assms(1)
    by (cases "blocks_to_prune s") (simp add: prune_step_def prune_header_range_def prune_loop.simps)
qed

lemmas import_eval = ext_simps import_header_def import_validated_header_run advance_best_run
  stored_import_def push_hash_def get_best_finalized_header_def checked_add_def prune_step_idle
  FINALIZED_HEADERS_TO_KEEP_def Let_def

definition sample_s1 :: light_client where
  "sample_s1 = sample_s0\<lparr>best_block := (\<lparr>id_number = 1, id_hash = 18446744073709551627\<rparr>, 131072),
     headers := (headers sample_s0)(18446744073709551627 \<mapsto> \<lparr>submitter = Some 5, sh_header = sample_h1,
       total_difficulty = 131072, finalized = False\<rparr>),
     headers_by_number := (headers_by_number sample_s0)(1 \<mapsto> [18446744073709551627])\<rparr>"

lemma sample_run1: "import_header sample_cfg (Signed 5) sample_h1 zero_nodes sample_s0 = (Ok (), sample_s1)"
proof -
  have "headers sample_s0 (parent_hash sample_h1) = Some \<lparr>submitter = None, sh_header = sample_header 0 0 0 131072,
      total_difficulty = 0, finalized = True\<rparr>"
    by (simp add: sample_s0_def genesis_state_def sample_h1_def)
  note run = import_validated_header_run [OF this]
  show ?thesis
    by (simp add: import_header_def bind_ext_def lift_res_def sample_h1_valid run)
      (simp add: import_eval sample_s1_def sample_s0_def genesis_state_def sample_h1_def)
qed

lemma sample_s0_fresh: "no_stored_child sample_cfg sample_h1 sample_s0"
  by (auto simp: no_stored_child_def sample_s0_def genesis_state_def sample_h1_def split: if_splits)

lemma sample_s1_reachable: "lc_reachable sample_cfg sample_s1"
  by (rule lc_reachable.step [OF sample_s0_reachable lc_step.import [OF sample_run1 _ sample_s0_fresh]]) simp

theorem lc_reachable_inv_witness: "lc_inv sample_cfg sample_s1"
  by (rule lc_reachable_inv [OF sample_s1_reachable]) simp

definition sample_h2 :: header where "sample_h2 = sample_header 18446744073709551627 2 20 131072"

lemma sample_h2_valid: "validate_header_to_import sample_cfg sample_h2 zero_nodes sample_s1 = Ok ()"
proof -
  have "basic_checks sample_h1 sample_h2 = (Ok True :: (dispatch_error, bool) result)"
    by (simp add: basic_checks_def and_then_def sample_h1_def sample_h2_def u256_mul_def checked_mul_def)
  moreover have "calc_difficulty (lc_difficulty sample_cfg) 20 sample_h1 = Ok 131072"
    by (simp add: calc_difficulty_eq bomb_delay_def sample_cfg_def difficulty_spec_def base_difficulty_def
        adjustment_factor_def ice_age_def bomb_delay_blocks_def sample_h1_def)
  moreover have "ancestry_find (headers sample_s1) (\<lambda>a. number a = 0) 18446744073709551627 =
      Some (Some (1, sample_header 0 0 0 131072))"
    by (subst ancestry_find.simps, simp add: sample_s1_def sample_s0_def genesis_state_def sample_h1_def)
      (subst ancestry_find.simps, simp)
  ultimately show ?thesis
    by (simp add: validate_header_Ok sample_s1_def sample_s0_def genesis_state_def sample_h2_def)
qed

definition sample_s2 :: light_client where
  "sample_s2 = sample_s1\<lparr>best_block := (\<lparr>id_number = 2, id_hash = 36893488147419103253\<rparr>, 262144),
     finalized_block := \<lparr>id_number = 1, id_hash = 18446744073709551627\<rparr>,
     headers := (headers sample_s1)(36893488147419103253 \<mapsto> \<lparr>submitter = Some 5, sh_header = sample_h2,
         total_difficulty = 262144, finalized = False\<rparr>,
       18446744073709551627 \<mapsto> \<lparr>submitter = Some 5, sh_header = sample_h1,
         total_difficulty = 131072, finalized = True\<rparr>),
     headers_by_number := (headers_by_number sample_s1)(2 \<mapsto> [36893488147419103253])\<rparr>"

lemma sample_run2: "import_header sample_cfg (Signed 5) sample_h2 zero_nodes sample_s1 = (Ok (), sample_s2)"
proof -
  have "headers sample_s1 (parent_hash sample_h2) = Some \<lparr>submitter = Some 5, sh_header = sample_h1,
      total_difficulty = 131072, finalized = False\<rparr>"
    by (simp add: sample_s1_def sample_h2_def)
  note run = import_validated_header_run [OF this]
  show ?thesis
    by (simp add: import_header_def bind_ext_def lift_res_def sample_h2_valid run)
      (simp add: import_eval sample_s2_def sample_s1_def sample_s0_def genesis_state_def sample_h1_def sample_h2_def)
qed

lemma sample_s1_fresh: "no_stored_child sample_cfg sample_h2 sample_s1"
  by (auto simp: no_stored_child_def sample_s1_def sample_s0_def genesis_state_def sample_h1_def sample_h2_def
      split: if_splits)

lemma sample_s2_reachable: "lc_reachable sample_cfg sample_s2"
  by (rule lc_reachable.step [OF sample_s1_reachable lc_step.import [OF sample_run2 _ sample_s1_fresh]]) simp

theorem finality_never_reverts_witness:
  "id_number (finalized_block sample_s1) < id_number (finalized_block sample_s2) \<and>
   (\<exists>x. sh_header x = sample_h2 \<and> descends ((headers sample_s1)(hash_of sample_cfg sample_h2 \<mapsto> x))
      (id_hash (finalized_block sample_s2)) (id_hash (finalized_block sample_s1)))"
proof -
  have "finalized_block sample_s2 \<noteq> finalized_block sample_s1"
    by (simp add: sample_s2_def sample_s1_def sample_s0_def genesis_state_def)
  then show ?thesis
    using finality_never_reverts [OF sample_run2] reachable_inv [OF sample_s1_reachable] sample_s1_fresh by simp
qed

theorem finalized_headers_agree_witness:
  "\<exists>x. headers sample_s2 18446744073709551627 = Some x \<and> finalized x \<and>
    (\<forall>b y. headers sample_s2 b = Some y \<and> finalized y \<and> number (sh_header y) = 1 \<longrightarrow> 18446744073709551627 = b)"
proof -
  have x: "headers sample_s2 18446744073709551627 = Some \<lparr>submitter = Some 5, sh_header = sample_h1,
      total_difficulty = 131072, finalized = True\<rparr>" by (simp add: sample_s2_def)
  show ?thesis
    using finalized_headers_agree [OF sample_s2_reachable _ x] by (auto simp: x sample_h1_def)
qed

section \<open>A reorganization of two blocks at once\<close>

definition dev_cfg :: lc_config where
  "dev_cfg = sample_cfg\<lparr>verify_pow := False\<rparr>"

definition import_all :: "lc_config \<Rightarrow> header list \<Rightarrow> light_client \<Rightarrow> light_client" where
  "import_all cfg hs s = foldl (\<lambda>s h. snd (import_header cfg (Signed 5) h [] s)) s hs"

definition reorg_state :: light_client where
  "reorg_state = import_all dev_cfg
     [sample_header 1 1 50 10, sample_header 1 1 1 1, sample_header 18446744073709551618 2 2 1,
      sample_header 36893488147419103235 3 3 100]
     (genesis_state dev_cfg (sample_header 0 0 0 0) 0)"

definition reorg_message :: message where
  "reorg_message = \<lparr>msg_data = [1], msg_proof = \<lparr>block_hash = 18446744073709551618, tx_index = 0, proof_data = ([], [[2]])\<rparr>\<rparr>"

lemma dev_cfg_simps [simp]: "lc_lib dev_cfg = sample_lib" "\<not> verify_pow dev_cfg"
  "unat (descendants_until_finalized dev_cfg) = 1"
  by (simp_all add: dev_cfg_def)

text \<open>The states of the run, with the hashes of the two forks.\<close>

abbreviation hG :: h256 where
  "hG \<equiv> 1"

abbreviation hA :: h256 where
  "hA \<equiv> 18446744073709551667"

abbreviation hB1 :: h256 where
  "hB1 \<equiv> 18446744073709551618"

abbreviation hB2 :: h256 where
  "hB2 \<equiv> 36893488147419103235"

abbreviation hB3 :: h256 where
  "hB3 \<equiv> 55340232221128654852"


definition dev_entry :: "header \<Rightarrow> u256 \<Rightarrow> bool \<Rightarrow> stored_header" where
  "dev_entry h td f = \<lparr>submitter = Some 5, sh_header = h, total_difficulty = td, finalized = f\<rparr>"

definition dev_state :: "header_id \<times> u256 \<Rightarrow> header_id \<Rightarrow> header_store \<Rightarrow> (u64 \<rightharpoonup> h256 list) \<Rightarrow> light_client" where
  "dev_state b f H N = \<lparr>best_block = b, blocks_to_prune = \<lparr>oldest_unpruned_block = 0, oldest_block_to_keep = 0\<rparr>,
     finalized_block = f, headers = H, headers_by_number = N\<rparr>"

lemma dev_import:
  assumes "headers s (hash_of dev_cfg h) = None" "id_number (finalized_block s) < number h"
    and p: "headers s (parent_hash h) = Some p"
    and "ancestry_find (headers s) (\<lambda>a. number a = id_number (finalized_block s)) (parent_hash h) =
      Some (Some (id_hash (finalized_block s), fh))"
  shows "import_header dev_cfg (Signed 5) h [] s = import_validated_header dev_cfg 5 h s"
proof -
  have "validate_header_to_import dev_cfg h [] s = Ok ()"
    unfolding validate_header_Ok using assms by auto
  then show ?thesis by (simp add: import_header_def bind_ext_def lift_res_def)
qed

abbreviation dev_genesis :: stored_header where
  "dev_genesis \<equiv> \<lparr>submitter = None, sh_header = sample_header 0 0 0 0, total_difficulty = 0, finalized = True\<rparr>"

definition store_A :: header_store where
  "store_A = [hG \<mapsto> dev_genesis, hA \<mapsto> dev_entry (sample_header 1 1 50 10) 10 False]"

definition store_B1 :: header_store where
  "store_B1 = store_A(hB1 \<mapsto> dev_entry (sample_header 1 1 1 1) 1 False)"

definition store_B2 :: header_store where
  "store_B2 = store_B1(hB2 \<mapsto> dev_entry (sample_header hB1 2 2 1) 2 False)"

definition store_B3 :: header_store where
  "store_B3 = store_B2(hB3 \<mapsto> dev_entry (sample_header hB2 3 3 100) 102 False,
     hB2 \<mapsto> dev_entry (sample_header hB1 2 2 1) 2 True)"

lemmas dev_stores = store_A_def store_B1_def store_B2_def store_B3_def dev_entry_def dev_state_def

abbreviation best_A :: "header_id \<times> u256" where
  "best_A \<equiv> (\<lparr>id_number = 1, id_hash = hA\<rparr>, 10)"

abbreviation fin_G :: header_id where
  "fin_G \<equiv> \<lparr>id_number = 0, id_hash = hG\<rparr>"

lemma dev_find_genesis:
  "ancestry_find [hG \<mapsto> dev_genesis] (\<lambda>a. number a = 0) hG = Some (Some (hG, sample_header 0 0 0 0))"
  "ancestry_find store_A (\<lambda>a. number a = 0) hG = Some (Some (hG, sample_header 0 0 0 0))"
  "ancestry_find store_B1 (\<lambda>a. number a = 0) hG = Some (Some (hG, sample_header 0 0 0 0))"
  "ancestry_find store_B2 (\<lambda>a. number a = 0) hG = Some (Some (hG, sample_header 0 0 0 0))"
  by (subst ancestry_find.simps, simp add: dev_stores)+

lemma dev_find_B1:
  "ancestry_find store_B1 (\<lambda>a. number a = 0) hB1 = Some (Some (hG, sample_header 0 0 0 0))"
  "ancestry_find store_B2 (\<lambda>a. number a = 0) hB1 = Some (Some (hG, sample_header 0 0 0 0))"
  by (subst ancestry_find.simps, use dev_find_genesis in \<open>simp add: dev_stores\<close>)+

lemma dev_find_B2:
  "ancestry_find store_B2 (\<lambda>a. number a = 0) hB2 = Some (Some (hG, sample_header 0 0 0 0))"
  by (subst ancestry_find.simps, use dev_find_B1 in \<open>simp add: dev_stores\<close>)

lemma reorg_run1:
  "import_header dev_cfg (Signed 5) (sample_header hG 1 50 10) [] (genesis_state dev_cfg (sample_header 0 0 0 0) 0) =
   (Ok (), dev_state best_A fin_G store_A [0 \<mapsto> [hG], 1 \<mapsto> [hA]])"
  by (subst dev_import, use dev_find_genesis in \<open>simp_all add: genesis_state_def\<close>) (simp add: import_eval dev_stores)

lemma reorg_run2:
  "import_header dev_cfg (Signed 5) (sample_header hG 1 1 1) [] (dev_state best_A fin_G store_A [0 \<mapsto> [hG], 1 \<mapsto> [hA]]) =
   (Ok (), dev_state best_A fin_G store_B1 [0 \<mapsto> [hG], 1 \<mapsto> [hA, hB1]])"
  by (subst dev_import, use dev_find_genesis in \<open>simp_all add: dev_stores\<close>) (simp add: import_eval)

lemma reorg_run3:
  "import_header dev_cfg (Signed 5) (sample_header hB1 2 2 1) [] (dev_state best_A fin_G store_B1 [0 \<mapsto> [hG], 1 \<mapsto> [hA, hB1]]) =
   (Ok (), dev_state best_A fin_G store_B2 [0 \<mapsto> [hG], 1 \<mapsto> [hA, hB1], 2 \<mapsto> [hB2]])"
  by (subst dev_import, use dev_find_B1 in \<open>simp_all add: dev_stores\<close>) (simp add: import_eval)

lemma reorg_run4:
  "import_header dev_cfg (Signed 5) (sample_header hB2 3 3 100) []
     (dev_state best_A fin_G store_B2 [0 \<mapsto> [hG], 1 \<mapsto> [hA, hB1], 2 \<mapsto> [hB2]]) =
   (Ok (), dev_state (\<lparr>id_number = 3, id_hash = hB3\<rparr>, 102) \<lparr>id_number = 2, id_hash = hB2\<rparr> store_B3
      [0 \<mapsto> [hG], 1 \<mapsto> [hA, hB1], 2 \<mapsto> [hB2], 3 \<mapsto> [hB3]])"
  by (subst dev_import, use dev_find_B2 in \<open>simp_all add: dev_stores\<close>) (simp add: import_eval)

lemma reorg_state_eq:
  "reorg_state = dev_state (\<lparr>id_number = 3, id_hash = hB3\<rparr>, 102) \<lparr>id_number = 2, id_hash = hB2\<rparr> store_B3
     [0 \<mapsto> [hG], 1 \<mapsto> [hA, hB1], 2 \<mapsto> [hB2], 3 \<mapsto> [hB3]]"
  by (simp add: reorg_state_def import_all_def reorg_run1 reorg_run2 reorg_run3 reorg_run4)

lemma dev_reachable: "lc_reachable dev_cfg (dev_state best_A fin_G store_A [0 \<mapsto> [hG], 1 \<mapsto> [hA]])"
proof (rule lc_reachable.step [OF _ lc_step.import [OF reorg_run1]])
  show "lc_reachable dev_cfg (genesis_state dev_cfg (sample_header 0 0 0 0) 0)"
    by (rule lc_reachable.genesis [OF lc_genesis_run]) simp_all
  show "no_stored_child dev_cfg (sample_header hG 1 50 10) (genesis_state dev_cfg (sample_header 0 0 0 0) 0)"
    by (auto simp: no_stored_child_def genesis_state_def split: if_splits)
qed simp

theorem import_header_terminates_witness:
  "stops (fst (import_header sample_cfg (Signed 5) sample_h2 zero_nodes sample_s1)) \<and>
   stops (fst (import_header dev_cfg (Signed 5) (sample_header hG 1 1 1) [] (dev_state best_A fin_G store_A [0 \<mapsto> [hG], 1 \<mapsto> [hA]])))"
  using import_header_terminates [OF sample_s1_reachable] import_header_terminates [OF dev_reachable] by blast

section \<open>Blocks that finality has passed over\<close>

text \<open>
  C37. A block that is stored without the final flag at or below the number of the finalized
  block is passed over for good, with proof-of-work or without: after any further imports a
  message that names it is refused with HeaderNotFinalized, or with MissingHeader once the
  block is pruned, provided headers with the hash of that block have its number (no
  collision of hashes). This holds for the blocks of other forks, and also for an ancestor
  of the finalized block that finality has skipped, which the witness shows in the
  configuration of runtime/local.
\<close>

theorem passed_block_never_accepted:
  assumes "headers s k = Some sh" "\<not> finalized sh" "number (sh_header sh) \<le> id_number (finalized_block s)"
    and "\<And>h. hash_of cfg h = k \<Longrightarrow> number h = number (sh_header sh)"
    and "(client_import cfg)\<^sup>*\<^sup>* s s'" "block_hash (msg_proof m) = k"
  shows "fst (verify cfg m s') = Err (lc_error (if headers s' k = None then MissingHeader else HeaderNotFinalized))"
proof -
  have "passed_over k (number (sh_header sh)) s" using assms(1-3) by (simp add: passed_over_def)
  from imports_passed_over [OF assms(5) this assms(4)]
  have "\<not> finalized x" if "headers s' k = Some x" for x using that by (simp add: passed_over_def)
  then show ?thesis
    using assms(6) by (cases "headers s' k") (auto simp: verify_def verify_receipt_inclusion_def ensure_def)
qed

text \<open>In the sample library a hash determines the number.\<close>

lemma sample_hash_number:
  assumes "compute_hash sample_lib h = hB1"
  shows "number h = 1"
proof -
  have "compute_hash sample_lib h = ucast (number h) * 18446744073709551616 + ucast (timestamp h) + 1"
    by (simp add: compute_hash_def header_rlp_def Let_def sample_lib_def of_be_bytes_append of_be_bytes_u64)
  then have "ucast (number h) * 18446744073709551616 + ucast (timestamp h) = (18446744073709551617 :: h256)" using assms by simp
  then have "unat (ucast (number h) * 18446744073709551616 + ucast (timestamp h) :: h256) = 18446744073709551617" by simp
  moreover have b: "unat (number h) < 18446744073709551616" "unat (timestamp h) < 18446744073709551616"
    using unsigned_less [of "number h", where 'a = nat] unsigned_less [of "timestamp h", where 'a = nat] by simp_all
  moreover have "unat (ucast (number h) * 18446744073709551616 + ucast (timestamp h) :: h256) =
      unat (number h) * 18446744073709551616 + unat (timestamp h)"
    using b by (simp add: unat_word_ariths unsigned_ucast_eq take_bit_nat_eq_self)
  ultimately have "unat (number h) = 1" by linarith
  then show ?thesis by (simp add: word_unat_eq_iff)
qed

text \<open>A reorganization that moves finality by two blocks: the block in between is an ancestor of the finalized one and is passed over.\<close>

theorem passed_block_never_accepted_witness:
  "finalized_block reorg_state = \<lparr>id_number = 2, id_hash = hB2\<rparr> \<and>
   ancestry_nth (headers reorg_state) 1 hB2 = Some (hB1, sample_header hG 1 1 1) \<and>
   fst (verify dev_cfg reorg_message reorg_state) = Err (lc_error HeaderNotFinalized)"
proof -
  have s: "finalized_block reorg_state = \<lparr>id_number = 2, id_hash = hB2\<rparr>"
      "ancestry_nth (headers reorg_state) 1 hB2 = Some (hB1, sample_header hG 1 1 1)"
      "headers reorg_state hB1 = Some (dev_entry (sample_header hG 1 1 1) 1 False)"
    by (simp_all add: reorg_state_eq dev_stores)
  have "fst (verify dev_cfg reorg_message reorg_state) =
      Err (lc_error (if headers reorg_state hB1 = None then MissingHeader else HeaderNotFinalized))"
    by (rule passed_block_never_accepted [OF s(3) _ _ _ rtranclp.rtrancl_refl])
      (use s(1) sample_hash_number in \<open>simp_all add: dev_entry_def reorg_message_def\<close>)
  then show ?thesis using s by simp
qed

end
