(* ===== verification/Runtime_System.thy ===== *)
theory Runtime_System
  imports Runtime_Invariants Light_Client_Props
begin

text \<open>
  The runtime as a running system: its genesis, the steps of a block (calls, the hooks of the
  outbound channels, and whatever the pallets outside this repository do), the states it can
  reach, and an invariant that ties the registries and the queues together on all of them.
\<close>

section \<open>The invariant\<close>

definition queue_wf :: "u64 \<Rightarrow> u64 list \<Rightarrow> bytes list \<Rightarrow> bool" where
  "queue_wf final ns ps \<longleftrightarrow> length ns \<le> MaxMessagesPerCommit \<and> list_all (\<lambda>p. length p \<le> MaxMessagePayloadSize) ps \<and>
     length ns \<le> unat final \<and> map unat ns = [Suc (unat final) - length ns..<Suc (unat final)]"

definition basic_queue_wf :: "basic_outbound \<Rightarrow> bool" where
  "basic_queue_wf b = queue_wf (bout_nonce b) (map bm_nonce (bout_queue b)) (map bm_payload (bout_queue b))"

definition incentivized_queue_wf :: "incentivized_outbound \<Rightarrow> bool" where
  "incentivized_queue_wf b = queue_wf (iout_nonce b) (map im_nonce (iout_queue b)) (map im_payload (iout_queue b))"

definition rt_inv :: "'b runtime \<Rightarrow> bool" where
  "rt_inv s \<longleftrightarrow> assets_inv (rt_assets s) \<and> nft_inv (rt_nft s) \<and>
     erc721_linked (tokens_by_erc721_id (rt_erc721 s)) (tokens (rt_nft s)) \<and>
     basic_queue_wf (rt_basic_out s) \<and> incentivized_queue_wf (rt_incentivized_out s)"

lemma basic_queue_ok_iff: "rt_basic_out.out.queue_ok TYPE(_) TYPE(_) L K s \<longleftrightarrow> basic_queue_wf (rt_basic_out s)"
  unfolding rt_basic_out.out.queue_ok_def basic_queue_wf_def queue_wf_def
  by (simp add: cfg_defs st_defs list_all_iff o_def del: upt_Suc)

lemma incentivized_queue_ok_iff: "rt_incentivized_out.out.queue_ok TYPE(_) TYPE(_) L K s \<longleftrightarrow> incentivized_queue_wf (rt_incentivized_out s)"
  unfolding rt_incentivized_out.out.queue_ok_def incentivized_queue_wf_def queue_wf_def
  by (simp add: cfg_defs st_defs list_all_iff o_def del: upt_Suc)

lemma router_queue_wf:
  assumes "rt_router L K c w target p s = (Ok (), s')" "basic_queue_wf (rt_basic_out s)" "incentivized_queue_wf (rt_incentivized_out s)"
  shows "basic_queue_wf (rt_basic_out s') \<and> incentivized_queue_wf (rt_incentivized_out s')"
proof (cases c)
  case Basic
  then have "basic_out_submit (basic_out_cfg L K) w target p s = (Ok (), s')" using assms(1) by (simp add: rt_router_def)
  then have "basic_queue_wf (rt_basic_out s')"
    using rt_basic_out.out.submit_queue_ok [of L K s w target p "Ok ()" s'] assms(2) by (simp add: basic_queue_ok_iff)
  moreover have "rt_incentivized_out s' = rt_incentivized_out s"
    using assms(1) unfolding Basic by (auto elim: basic_router_effect)
  ultimately show ?thesis using assms(3) by simp
next
  case Incentivized
  then have "incentivized_out_submit (incentivized_out_cfg L K) w target p s = (Ok (), s')" using assms(1) by (simp add: rt_router_def)
  then have "incentivized_queue_wf (rt_incentivized_out s')"
    using rt_incentivized_out.out.submit_queue_ok [of L K s w target p "Ok ()" s'] assms(3) by (simp add: incentivized_queue_ok_iff)
  moreover have "rt_basic_out s' = rt_basic_out s"
    using assms(1) unfolding Incentivized by (auto elim: incentivized_router_effect)
  ultimately show ?thesis using assms(2) by simp
qed

lemma erc721_linked_iff: "rt_erc721.linked TYPE(_) TYPE(_) L K s \<longleftrightarrow>
    nft_inv (rt_nft s) \<and> erc721_linked (tokens_by_erc721_id (rt_erc721 s)) (tokens (rt_nft s))"
  unfolding rt_erc721.linked_def
  by (simp add: erc721_cfg_def rt_nft_ops_def zoom_nft_def nft_pallet_def get_token_data_def st_defs)

lemma erc721_burn_frame:
  assumes "erc721_burn (erc721_cfg L K) org c t recipient s = (Ok (), s')" "basic_queue_wf (rt_basic_out s)"
    "incentivized_queue_wf (rt_incentivized_out s)" "assets_inv (rt_assets s)"
  shows "basic_queue_wf (rt_basic_out s') \<and> incentivized_queue_wf (rt_incentivized_out s') \<and> assets_inv (rt_assets s')"
proof -
  obtain who q ev tgt N E u where r: "rt_router L K c who tgt q (s\<lparr>rt_nft := N, rt_erc721 := E\<rparr>) = (Ok (), u)"
      and s': "s' = deposit_event rt_sys ev u"
    using assms(1) unfolding erc721_burn_Ok
    by (auto simp: Let_def erc721_cfg_def rt_nft_ops_def zoom_nft_def ok_simps st_defs erc721_put_def)
  show ?thesis
    using router_queue_wf [OF r] rt_fee.router_charge [OF _ r] assms(2-4) s' by (simp add: rt_sys_def)
qed

lemma assets_moves_inv:
  "assets_inv s \<Longrightarrow> deposit ast w x s = (Ok (), A) \<Longrightarrow> assets_inv A"
  "assets_inv s \<Longrightarrow> withdraw ast w x s = (Ok (), A) \<Longrightarrow> assets_inv A"
  "assets_inv s \<Longrightarrow> transfer ast w v x s = (Ok (), A) \<Longrightarrow> assets_inv A"
  using keepsD [OF assets_laws.deposit_keeps, of s ast w x "Ok ()" A] keepsD [OF assets_laws.withdraw_keeps, of s ast w x "Ok ()" A]
    keepsD [OF assets_laws.transfer_keeps, of s ast w v x "Ok ()" A]
  by (simp_all add: assets_multi_def)

interpretation rt_inv: runtime_invariant L K "rt_inv :: 'b runtime \<Rightarrow> bool" for L :: "('b, 'd, 'f) runtime_lib" and K
proof unfold_locales
  fix s s' :: "'b runtime" and c w target q
  assume i: "rt_inv s" and r: "rt_router L K c w target q s = (Ok (), s')"
  have "rt_nft s' = rt_nft s" "rt_erc721 s' = rt_erc721 s" by (rule router_effect [OF r]; simp)+
  then show "rt_inv s'" using i router_queue_wf [OF r] rt_fee.router_charge [OF _ r] by (simp add: rt_inv_def)
next
  fix s s' :: "'b runtime" and org c t recipient
  assume i: "rt_inv s" and r: "erc721_burn (erc721_cfg L K) org c t recipient s = (Ok (), s')"
  have "rt_erc721.linked TYPE(_) TYPE(_) L K s'"
    using keepsD [OF rt_erc721.erc721_burn_linked _ r] i by (simp add: rt_inv_def erc721_linked_iff)
  then show "rt_inv s'" using erc721_burn_frame [OF r] i by (simp add: rt_inv_def erc721_linked_iff)
next
  fix s :: "'b runtime" and k w uri nt N
  assume i: "rt_inv s" and new: "tokens_by_erc721_id (rt_erc721 s) k = None"
    and m: "mint w uri \<lparr>token_contract = fst k, eth_token_id = snd k\<rparr> (rt_nft s) = (Ok nt, N)"
  then show "rt_inv (s\<lparr>rt_nft := N, rt_erc721 := (rt_erc721 s)\<lparr>tokens_by_erc721_id := (tokens_by_erc721_id (rt_erc721 s))(k \<mapsto> nt)\<rparr>\<rparr>)"
    using keepsD [OF mint_keeps_inv _ m] next_id_fresh [of "rt_nft s"] linked_add [of _ "tokens (rt_nft s)"
        "\<lparr>owner = w, metadata = uri, token_data = \<lparr>token_contract = fst k, eth_token_id = snd k\<rparr>\<rparr>" nt]
    by (auto simp: rt_inv_def mint_run eth_name_def split: option.splits)
qed (auto simp: rt_inv_def dest: assets_moves_inv)

section \<open>Steps and reachable states\<close>

text \<open>
  A call of an extrinsic never has an Ethereum origin.  \<open>foreign\<close> covers the hooks and inherents
  of the pallets outside this repository, and the messages that arrive from other chains.
\<close>

inductive rt_body :: "('b, 'd, 'f) runtime_lib \<Rightarrow> runtime_constants \<Rightarrow> 'b runtime \<Rightarrow> 'b runtime \<Rightarrow> bool" for L K where
  extrinsic: "runtime_dispatch L K c (of_native org) s = (r, s') \<Longrightarrow> returns r \<Longrightarrow> rt_body L K s s'"
| foreign: "run_plan (rl_xcm L) (map (runtime_dispatch L K) cs) p s = (r, s') \<Longrightarrow> returns r \<Longrightarrow> rt_body L K s s'"

text \<open>A block starts with neither events nor digest items.\<close>

definition initialize :: "'b runtime \<Rightarrow> 'b runtime" where
  "initialize s = s\<lparr>rt_events := [], rt_digest := []\<rparr>"

inductive rt_step :: "('b, 'd, 'f) runtime_lib \<Rightarrow> runtime_constants \<Rightarrow> 'b runtime \<Rightarrow> 'b runtime \<Rightarrow> bool" for L K where
  initialize: "rt_step L K s (initialize s)"
| basic_hook: "basic_on_initialize (basic_out_cfg L K) now s = (Ok w :: (dispatch_error, u64) result, s') \<Longrightarrow> rt_step L K s s'"
| incentivized_hook: "incentivized_on_initialize (incentivized_out_cfg L K) now s = (Ok w :: (dispatch_error, u64) result, s') \<Longrightarrow> rt_step L K s s'"
| body: "rt_body L K s s' \<Longrightarrow> rt_step L K s s'"

text \<open>The storage after the genesis build, from the items of the chain specification.\<close>

record genesis_config =
  g_basic_source :: h160
  g_basic_interval :: u32
  g_principal :: account_id
  g_incentivized_source :: h160
  g_reward_fraction :: u32
  g_incentivized_interval :: u32
  g_fee :: u256
  g_assets :: "(asset_id \<times> account_id \<times> u256) list"
  g_initial_header :: header
  g_initial_difficulty :: u256
  g_dot_address :: h160
  g_eth_address :: h160
  g_erc20_address :: h160
  g_erc721_address :: h160

definition blank_runtime :: "'b \<Rightarrow> 'b runtime" where
  "blank_runtime b = \<lparr>rt_basic_in = \<lparr>bin_source_channel = 0, bin_nonce = 0\<rparr>,
     rt_basic_out = \<lparr>bout_interval = 0, bout_queue = [], bout_principal = 0, bout_nonce = 0\<rparr>,
     rt_incentivized_in = \<lparr>iin_source_channel = 0, iin_nonce = 0, iin_reward_fraction = 0\<rparr>,
     rt_incentivized_out = \<lparr>iout_interval = 0, iout_queue = [], iout_nonce = 0, iout_fee = 0\<rparr>,
     rt_light_client = empty_light_client, rt_assets = empty_assets, rt_nft = empty_nft,
     rt_dot_address = 0, rt_eth_address = 0, rt_erc20_address = 0,
     rt_erc721 = \<lparr>erc721_address = 0, tokens_by_erc721_id = Map.empty\<rparr>,
     rt_events = [], rt_digest = [], rt_offchain = [], rt_foreign = b\<rparr>"

text \<open>The errors of the light client's build are texts; they do not occur, because it panics instead.\<close>

definition rt_genesis :: "('b, 'd, 'f) runtime_lib \<Rightarrow> runtime_constants \<Rightarrow> genesis_config \<Rightarrow> ('b runtime, dispatch_error, unit) ext" where
  "rt_genesis L K g =
     bind_ext (modify (\<lambda>s. s\<lparr>rt_basic_in := (rt_basic_in s)\<lparr>bin_source_channel := g_basic_source g\<rparr>,
       rt_basic_out := (rt_basic_out s)\<lparr>bout_interval := g_basic_interval g, bout_principal := g_principal g\<rparr>,
       rt_incentivized_in := (rt_incentivized_in s)\<lparr>iin_source_channel := g_incentivized_source g,
         iin_reward_fraction := g_reward_fraction g\<rparr>,
       rt_incentivized_out := (rt_incentivized_out s)\<lparr>iout_interval := g_incentivized_interval g, iout_fee := g_fee g\<rparr>\<rparr>)) (\<lambda>_.
     bind_ext (zoom assets_st (assets_genesis (g_assets g))) (\<lambda>_.
     bind_ext (zoom nft_st (nft_genesis [])) (\<lambda>_.
     bind_ext (zoom light_client_st (map_err_ext Other (lc_genesis (lc_cfg L K) (g_initial_header g) (g_initial_difficulty g)))) (\<lambda>_.
     modify (\<lambda>s. erc721_genesis (erc721_cfg L K) (g_erc721_address g) (erc20_genesis (erc20_cfg L K) (g_erc20_address g)
       (eth_genesis (eth_cfg L K) (g_eth_address g) (dot_genesis (dot_cfg L K) (g_dot_address g) s))))))))"

definition genesis_ok :: "('b, 'd, 'f) runtime_lib \<Rightarrow> runtime_constants \<Rightarrow> genesis_config \<Rightarrow> bool" where
  "genesis_ok L K g \<longleftrightarrow> distinct (map (\<lambda>(a, w, x). (a, w)) (g_assets g)) \<and>
     g_basic_interval g \<noteq> 0 \<and> g_incentivized_interval g \<noteq> 0 \<and>
     parent_hash (g_initial_header g) \<noteq> hash_of (lc_cfg L K) (g_initial_header g)"

inductive rt_reachable :: "('b, 'd, 'f) runtime_lib \<Rightarrow> runtime_constants \<Rightarrow> 'b runtime \<Rightarrow> bool" for L K where
  start: "rt_genesis L K g (blank_runtime b) = (Ok (), s) \<Longrightarrow> genesis_ok L K g \<Longrightarrow> rt_reachable L K s"
| step: "rt_reachable L K s \<Longrightarrow> rt_step L K s s' \<Longrightarrow> rt_reachable L K s'"

context runtime_invariant
begin

lemma body_keeps:
  assumes s: "I s" and st: "rt_body L K s s'"
  shows "I s'"
  using st
proof (cases rule: rt_body.cases)
  case (extrinsic c org r)
  show ?thesis by (rule keepsD [OF runtime_dispatch_keeps s extrinsic])
next
  case (foreign cs p r)
  have "keeps I (run_plan (rl_xcm L) (map (runtime_dispatch L K) cs) p)"
    by (rule run_plan_keeps) (auto simp: runtime_dispatch_keeps)
  from keepsD [OF this s foreign] show ?thesis .
qed

text \<open>A property that the hooks and the start of a block keep as well is kept by every step.\<close>

lemma step_keeps:
  assumes basic: "\<And>s t now w. I s \<Longrightarrow> basic_on_initialize (basic_out_cfg L K) now s = (Ok w :: (dispatch_error, u64) result, t) \<Longrightarrow> I t"
    and inc: "\<And>s t now w. I s \<Longrightarrow> incentivized_on_initialize (incentivized_out_cfg L K) now s = (Ok w :: (dispatch_error, u64) result, t) \<Longrightarrow> I t"
    and init: "\<And>s. I s \<Longrightarrow> I (initialize s)"
    and s: "I s" and st: "rt_step L K s s'"
  shows "I s'"
  using st
proof (cases rule: rt_step.cases)
  case (basic_hook now w)
  then show ?thesis using basic s by blast
next
  case (incentivized_hook now w)
  then show ?thesis using inc s by blast
qed (use init s body_keeps in auto)

end

section \<open>The hooks\<close>

lemma basic_hook_effect:
  assumes "basic_on_initialize (basic_out_cfg L K) now s = (Ok w :: (dispatch_error, u64) result, t)"
  obtains "t = s" | dg oc where "t = s\<lparr>rt_basic_out := (rt_basic_out s)\<lparr>bout_queue := []\<rparr>, rt_digest := dg, rt_offchain := oc\<rparr>"
proof (cases "t = s")
  case False
  then have "basic_commit (basic_out_cfg L K) s = (Ok w :: (dispatch_error, u64) result, t)"
    using assms by (auto simp: basic_on_initialize_def ext_simps ok_simps split: if_splits)
  then have "t = s\<lparr>rt_basic_out := (rt_basic_out s)\<lparr>bout_queue := []\<rparr>, rt_digest := rt_digest t, rt_offchain := rt_offchain t\<rparr>"
    by (intro runtime.equality) (auto simp: basic_commit_run Let_def cfg_defs st_defs rt_sys_def bout_update_def split: if_splits)
  then show thesis by (rule that(2))
qed (rule that(1))

lemma incentivized_hook_effect:
  assumes "incentivized_on_initialize (incentivized_out_cfg L K) now s = (Ok w :: (dispatch_error, u64) result, t)"
  obtains "t = s" | dg oc where "t = s\<lparr>rt_incentivized_out := (rt_incentivized_out s)\<lparr>iout_queue := []\<rparr>, rt_digest := dg, rt_offchain := oc\<rparr>"
proof (cases "t = s")
  case False
  then have "incentivized_commit (incentivized_out_cfg L K) s = (Ok w :: (dispatch_error, u64) result, t)"
    using assms by (auto simp: incentivized_on_initialize_def ext_simps ok_simps split: if_splits)
  then have "t = s\<lparr>rt_incentivized_out := (rt_incentivized_out s)\<lparr>iout_queue := []\<rparr>, rt_digest := rt_digest t, rt_offchain := rt_offchain t\<rparr>"
    by (intro runtime.equality) (auto simp: incentivized_commit_run Let_def cfg_defs st_defs rt_sys_def iout_update_def split: if_splits)
  then show thesis by (rule that(2))
qed (rule that(1))

lemma empty_queues_wf: "basic_queue_wf (b\<lparr>bout_queue := []\<rparr>)" "incentivized_queue_wf (i\<lparr>iout_queue := []\<rparr>)"
  by (simp_all add: basic_queue_wf_def incentivized_queue_wf_def queue_wf_def)

lemma rt_inv_step: "rt_inv s \<Longrightarrow> rt_step L K s s' \<Longrightarrow> rt_inv s'"
  by (rule rt_inv.step_keeps [of L K]) (auto simp: rt_inv_def empty_queues_wf initialize_def elim!: basic_hook_effect incentivized_hook_effect)

section \<open>Reachable states satisfy the invariant\<close>

lemma genesis_run:
  assumes "rt_genesis L K g (blank_runtime b) = (Ok (), s)"
  shows "assets_genesis (g_assets g) empty_assets = (Ok (), rt_assets s) \<and> rt_nft s = empty_nft \<and>
    tokens_by_erc721_id (rt_erc721 s) = Map.empty \<and> bout_queue (rt_basic_out s) = [] \<and> iout_queue (rt_incentivized_out s) = [] \<and>
    bout_interval (rt_basic_out s) = g_basic_interval g \<and> iout_interval (rt_incentivized_out s) = g_incentivized_interval g \<and>
    lc_genesis (lc_cfg L K) (g_initial_header g) (g_initial_difficulty g) empty_light_client = (Ok (), rt_light_client s)"
  using assms unfolding rt_genesis_def
  by (auto simp: ok_simps st_defs blank_runtime_def erc721_genesis_def erc721_put_def erc20_genesis_def eth_genesis_def
      dot_genesis_def cfg_defs ret_def)

lemma genesis_inv:
  assumes "rt_genesis L K g (blank_runtime b) = (Ok (), s)" "genesis_ok L K g"
  shows "rt_inv s"
proof -
  note g = genesis_run [OF assms(1)]
  have "assets_inv (rt_assets s)"
    using genesis_distinct_inv [of "g_assets g" empty_assets "rt_assets s"] g assms(2) empty_assets_inv
    by (simp add: genesis_ok_def empty_assets_def)
  moreover have "erc721_linked Map.empty (tokens (empty_nft :: erc721_token_data nft))"
    by (simp add: erc721_linked_def empty_nft_def)
  ultimately show ?thesis
    using g by (simp add: rt_inv_def empty_nft_inv basic_queue_wf_def incentivized_queue_wf_def queue_wf_def)
qed

lemma rt_reachable_rt_inv: "rt_reachable L K s \<Longrightarrow> rt_inv s"
  by (induction rule: rt_reachable.induct) (auto intro: genesis_inv rt_inv_step)

section \<open>What no step changes\<close>

text \<open>The contracts the bridge talks to, the account that may use the basic channel, and the fee.\<close>

definition rt_config :: "'b runtime \<Rightarrow> h160 list \<times> account_id \<times> u256 \<times> u32 \<times> u32" where
  "rt_config s = ([bin_source_channel (rt_basic_in s), iin_source_channel (rt_incentivized_in s), rt_dot_address s,
     rt_eth_address s, rt_erc20_address s, erc721_address (rt_erc721 s)],
     bout_principal (rt_basic_out s), iout_fee (rt_incentivized_out s), bout_interval (rt_basic_out s),
     iout_interval (rt_incentivized_out s))"

lemma router_config:
  assumes "rt_router L K c w target p s = (Ok (), s')"
  shows "rt_config s' = rt_config s"
proof (cases c)
  case Basic
  then show ?thesis
    using assms by (auto simp: rt_router_def basic_out_submit_Ok Let_def cfg_defs st_defs rt_sys_def bout_nonce_item_def
        bout_update_def rt_config_def)
next
  case Incentivized
  then show ?thesis
    using assms by (auto simp: rt_router_def incentivized_out_submit_Ok Let_def cfg_defs st_defs rt_sys_def iout_nonce_item_def
        iout_update_def rt_config_def single_asset_adaptor_def rt_multi_asset_def zoom_multi_def ok_simps)
qed

lemma erc721_burn_router:
  assumes "erc721_burn (erc721_cfg L K) org c t recipient s = (Ok (), s')"
  obtains who q ev tgt N m u where "s' = deposit_event rt_sys ev u" "burn who t (rt_nft s) = (Ok (), N)"
    "rt_router L K c who tgt q (s\<lparr>rt_nft := N, rt_erc721 := (rt_erc721 s)\<lparr>tokens_by_erc721_id := m\<rparr>\<rparr>) = (Ok (), u)"
  using assms unfolding erc721_burn_Ok
  by (auto simp: Let_def erc721_cfg_def rt_nft_ops_def zoom_nft_def nft_pallet_def ok_simps st_defs erc721_put_def)

lemma erc721_burn_config: "erc721_burn (erc721_cfg L K) org c t recipient s = (Ok (), s') \<Longrightarrow> rt_config s' = rt_config s"
  by (erule erc721_burn_router) (drule router_config, simp add: rt_config_def rt_sys_def)

interpretation rt_fixed: runtime_invariant L K "\<lambda>s :: 'b runtime. rt_config s = v" for L :: "('b, 'd, 'f) runtime_lib" and K v
  by unfold_locales (auto simp: router_config erc721_burn_config, auto simp: rt_config_def)

lemma rt_config_step: "rt_step L K s s' \<Longrightarrow> rt_config s' = rt_config s"
  by (rule rt_fixed.step_keeps [where L = L and K = K])
    (auto simp: rt_config_def initialize_def elim!: basic_hook_effect incentivized_hook_effect)

end
