(* ===== verification/Chain_Spec.thy ===== *)
theory Chain_Spec
  imports Runtime_System
begin

text \<open>
  \<open>src/chain_spec\<close>: the genesis of the three chains and the properties their specifications
  show to wallets.  Keys and accounts are derived from seeds by the crates of the framework, and the code of
  the runtime is made by the build; both are arguments.
\<close>

section \<open>Specifications\<close>

record 'k spec_genesis =
  sg_code :: bytes
  sg_balances :: "(account_id \<times> u128) list"
  sg_sudo :: account_id
  sg_council :: "account_id list"
  sg_bridge :: genesis_config
  sg_para_id :: u32
  sg_authorities :: "'k list"

text \<open>\<open>Extensions\<close> are the relay chain and the number of the parachain.\<close>

record 'k chain_spec =
  cs_name :: string
  cs_id :: string
  cs_genesis :: "(dispatch_error, 'k spec_genesis) result"
  cs_token_symbol :: string
  cs_token_decimals :: nat
  cs_relay_chain :: string
  cs_para_id :: u32

text \<open>
  \<open>sr25519_public\<close> and \<open>aura_public\<close> give the public key of the pair that a secret URI names, if
  it is one.
\<close>

record ('p, 'k) seed_lib =
  sr25519_public :: "string \<Rightarrow> 'p option"
  aura_public :: "string \<Rightarrow> 'k option"
  account_of :: "'p \<Rightarrow> account_id"
  wasm_binary :: "bytes option"

definition get_from_seed :: "(string \<Rightarrow> 'a option) \<Rightarrow> string \<Rightarrow> (dispatch_error, 'a) result" where
  "get_from_seed public_key seed = unwrap (public_key (''//'' @ seed))"

definition get_account_id_from_seed :: "('p, 'k) seed_lib \<Rightarrow> string \<Rightarrow> (dispatch_error, account_id) result" where
  "get_account_id_from_seed S seed = bind_res (get_from_seed (sr25519_public S) seed) (\<lambda>k. Ok (account_of S k))"

primrec map_res :: "('a \<Rightarrow> ('e, 'b) result) \<Rightarrow> 'a list \<Rightarrow> ('e, 'b list) result" where
  "map_res f [] = Ok []"
| "map_res f (x # xs) = bind_res (f x) (\<lambda>y. bind_res (map_res f xs) (\<lambda>ys. Ok (y # ys)))"

text \<open>\<open>Perbill::from_percent\<close>, in parts per billion.\<close>

definition from_percent :: "u32 \<Rightarrow> u32" where
  "from_percent x = (if x > 100 then 100 else x) * 10000000"

section \<open>Snowbridge\<close>

definition snowbridge_testnet_genesis ::
  "('p, 'k) seed_lib \<Rightarrow> 'k list \<Rightarrow> account_id list \<Rightarrow> u32 \<Rightarrow> (dispatch_error, 'k spec_genesis) result" where
  "snowbridge_testnet_genesis S initial_authorities endowed_accounts para_id =
     bind_res (unwrap (wasm_binary S)) (\<lambda>code.
     bind_res (get_account_id_from_seed S ''Alice'') (\<lambda>alice.
     bind_res (map_res (get_account_id_from_seed S) [''Alice'', ''Bob'', ''Charlie'', ''Dave'']) (\<lambda>council.
     bind_res (get_account_id_from_seed S ''Ferdie'') (\<lambda>ferdie.
     Ok \<lparr>sg_code = code,
       sg_balances = map (\<lambda>k. (k, push_bit 60 1)) endowed_accounts,
       sg_sudo = alice,
       sg_council = council,
       sg_bridge = \<lparr>g_basic_source = 0xb1185ede04202fe62d38f5db72f71e38ff3e8305, g_basic_interval = 1,
         g_principal = alice,
         g_incentivized_source = 0x8cf6147918a5cbb672703f879f385036f8793a24, g_reward_fraction = from_percent 80,
         g_incentivized_interval = 1, g_fee = 10000000000000000,
         g_assets = [(ETH, ferdie, 1000000000000000000)],
         g_initial_header = header_default, g_initial_difficulty = 0,
         g_dot_address = 0x3f839e70117c64744930de8567ae7a5363487ca3,
         g_eth_address = 0x3f0839385db9cbea8e73ada6fa0cfe07e321f61d,
         g_erc20_address = 0x440edffa1352b13227e8ee646f3ea37456dec701,
         g_erc721_address = 0xf67eff5250cd974e6e86c9b53dc5290905bd8916\<rparr>,
       sg_para_id = para_id, sg_authorities = initial_authorities\<rparr>))))"

definition snowbridge_get_chain_spec :: "('p, 'k) seed_lib \<Rightarrow> u32 \<Rightarrow> 'k chain_spec" where
  "snowbridge_get_chain_spec S para_id =
     \<lparr>cs_name = ''Snowbridge Local Testnet'', cs_id = ''local_testnet'',
       cs_genesis =
         bind_res (map_res (get_from_seed (aura_public S)) [''Alice'', ''Bob'']) (\<lambda>authorities.
         bind_res (map_res (get_account_id_from_seed S) [''Alice'', ''Bob'', ''Charlie'', ''Dave'', ''Eve'', ''Ferdie'', ''Relay'',
           ''Alice//stash'', ''Bob//stash'', ''Charlie//stash'', ''Dave//stash'', ''Eve//stash'', ''Ferdie//stash'']) (\<lambda>endowed.
         snowbridge_testnet_genesis S authorities endowed para_id)),
       cs_token_symbol = ''DOT'', cs_token_decimals = 12, cs_relay_chain = ''rococo-local'', cs_para_id = para_id\<rparr>"

section \<open>Rococo\<close>

definition rococo_testnet_genesis ::
  "('p, 'k) seed_lib \<Rightarrow> 'k list \<Rightarrow> account_id list \<Rightarrow> u32 \<Rightarrow> (dispatch_error, 'k spec_genesis) result" where
  "rococo_testnet_genesis S initial_authorities endowed_accounts para_id =
     bind_res (unwrap (wasm_binary S)) (\<lambda>code.
     bind_res (get_account_id_from_seed S ''Alice'') (\<lambda>alice.
     bind_res (map_res (get_account_id_from_seed S) [''Alice'', ''Bob'', ''Charlie'', ''Dave'']) (\<lambda>council.
     bind_res (get_account_id_from_seed S ''Ferdie'') (\<lambda>ferdie.
     Ok \<lparr>sg_code = code,
       sg_balances = map (\<lambda>k. (k, push_bit 60 1)) endowed_accounts,
       sg_sudo = alice,
       sg_council = council,
       sg_bridge = \<lparr>g_basic_source = 0xb1185ede04202fe62d38f5db72f71e38ff3e8305, g_basic_interval = 1,
         g_principal = alice,
         g_incentivized_source = 0x8cf6147918a5cbb672703f879f385036f8793a24, g_reward_fraction = from_percent 80,
         g_incentivized_interval = 1, g_fee = 10000000000000000,
         g_assets = [(ETH, ferdie, 1000000000000000000)],
         g_initial_header = header_default, g_initial_difficulty = 0,
         g_dot_address = 0x3f839e70117c64744930de8567ae7a5363487ca3,
         g_eth_address = 0x3f0839385db9cbea8e73ada6fa0cfe07e321f61d,
         g_erc20_address = 0x440edffa1352b13227e8ee646f3ea37456dec701,
         g_erc721_address = 0xf67eff5250cd974e6e86c9b53dc5290905bd8916\<rparr>,
       sg_para_id = para_id, sg_authorities = initial_authorities\<rparr>))))"

definition rococo_get_chain_spec :: "('p, 'k) seed_lib \<Rightarrow> u32 \<Rightarrow> 'k chain_spec" where
  "rococo_get_chain_spec S para_id =
     \<lparr>cs_name = ''Snowbridge Local Testnet'', cs_id = ''local_testnet'',
       cs_genesis =
         bind_res (map_res (get_from_seed (aura_public S)) [''Alice'', ''Bob'']) (\<lambda>authorities.
         bind_res (map_res (get_account_id_from_seed S) [''Alice'', ''Bob'', ''Charlie'', ''Dave'', ''Eve'', ''Ferdie'', ''Relay'',
           ''Alice//stash'', ''Bob//stash'', ''Charlie//stash'', ''Dave//stash'', ''Eve//stash'', ''Ferdie//stash'']) (\<lambda>endowed.
         rococo_testnet_genesis S authorities endowed para_id)),
       cs_token_symbol = ''ROC'', cs_token_decimals = 12, cs_relay_chain = ''rococo-local'', cs_para_id = para_id\<rparr>"

section \<open>Local\<close>

definition local_testnet_genesis ::
  "('p, 'k) seed_lib \<Rightarrow> 'k list \<Rightarrow> account_id list \<Rightarrow> u32 \<Rightarrow> (dispatch_error, 'k spec_genesis) result" where
  "local_testnet_genesis S initial_authorities endowed_accounts para_id =
     bind_res (unwrap (wasm_binary S)) (\<lambda>code.
     bind_res (get_account_id_from_seed S ''Alice'') (\<lambda>alice.
     bind_res (map_res (get_account_id_from_seed S) [''Alice'', ''Bob'', ''Charlie'', ''Dave'']) (\<lambda>council.
     bind_res (get_account_id_from_seed S ''Ferdie'') (\<lambda>ferdie.
     Ok \<lparr>sg_code = code,
       sg_balances = map (\<lambda>k. (k, push_bit 60 1)) endowed_accounts,
       sg_sudo = alice,
       sg_council = council,
       sg_bridge = \<lparr>g_basic_source = 0xf8f7758fbcefd546eaeff7de24aff666b6228e73, g_basic_interval = 1,
         g_principal = alice,
         g_incentivized_source = 0xee9170abfbf9421ad6dd07f6bdec9d89f2b581e0, g_reward_fraction = from_percent 80,
         g_incentivized_interval = 1, g_fee = 10000000000000000,
         g_assets = [(ETH, ferdie, 1000000000000000000)],
         g_initial_header = header_default, g_initial_difficulty = 0,
         g_dot_address = 0x8cf6147918a5cbb672703f879f385036f8793a24,
         g_eth_address = 0xb1185ede04202fe62d38f5db72f71e38ff3e8305,
         g_erc20_address = 0x3f0839385db9cbea8e73ada6fa0cfe07e321f61d,
         g_erc721_address = 0x54d6643762e46036b3448659791adaf554225541\<rparr>,
       sg_para_id = para_id, sg_authorities = initial_authorities\<rparr>))))"

definition local_get_chain_spec :: "('p, 'k) seed_lib \<Rightarrow> u32 \<Rightarrow> 'k chain_spec" where
  "local_get_chain_spec S para_id =
     \<lparr>cs_name = ''Snowbridge Local Testnet'', cs_id = ''local_testnet'',
       cs_genesis =
         bind_res (map_res (get_from_seed (aura_public S)) [''Alice'', ''Bob'']) (\<lambda>authorities.
         bind_res (map_res (get_account_id_from_seed S) [''Alice'', ''Bob'', ''Charlie'', ''Dave'', ''Eve'', ''Ferdie'', ''Relay'',
           ''Alice//stash'', ''Bob//stash'', ''Charlie//stash'', ''Dave//stash'', ''Eve//stash'', ''Ferdie//stash'']) (\<lambda>endowed.
         local_testnet_genesis S authorities endowed para_id)),
       cs_token_symbol = ''DEV'', cs_token_decimals = 12, cs_relay_chain = ''rococo-local'', cs_para_id = para_id\<rparr>"

section \<open>The chains start\<close>

definition runtime_specs :: "(runtime_constants \<times> (('p, 'k) seed_lib \<Rightarrow> u32 \<Rightarrow> 'k chain_spec)) list" where
  "runtime_specs = [(snowbridge, snowbridge_get_chain_spec), (rococo, rococo_get_chain_spec), (local_runtime, local_get_chain_spec)]"

lemmas spec_defs = snowbridge_get_chain_spec_def rococo_get_chain_spec_def local_get_chain_spec_def
  snowbridge_testnet_genesis_def rococo_testnet_genesis_def local_testnet_genesis_def

lemma rt_genesis_run:
  assumes a: "assets_genesis (g_assets g) empty_assets = (Ok (), A)"
    and h: "parent_hash (g_initial_header g) \<noteq> hash_of (lc_cfg L K) (g_initial_header g)"
  shows "\<exists>s. rt_genesis L K g (blank_runtime b) = (Ok (), s) \<and> rt_assets s = A \<and>
    fst (rt_config s) = [g_basic_source g, g_incentivized_source g, g_dot_address g, g_eth_address g, g_erc20_address g, g_erc721_address g]"
  unfolding rt_genesis_def blank_runtime_def
  by (simp add: ext_simps zoom_def st_defs a map_err_ext_def lc_genesis_run [OF h] rt_config_def
      erc721_genesis_def erc721_put_def erc20_genesis_def eth_genesis_def dot_genesis_def cfg_defs)

lemma spec_assets:
  "\<exists>A. assets_genesis [(ETH, w, x)] empty_assets = (Ok (), A) \<and> total_issuance A ETH = x \<and> balances A ETH w = x"
  using unsigned_less [of x, where ?'a = nat]
  by (auto simp: empty_assets_def ext_simps checked_add_def put_issuance_def balance_item_def)

definition spec_ok :: "account_id \<Rightarrow> genesis_config \<Rightarrow> bool" where
  "spec_ok ferdie g \<longleftrightarrow> g_assets g = [(ETH, ferdie, 10 ^ 18)] \<and> g_initial_header g = header_default \<and>
     g_basic_interval g = 1 \<and> g_incentivized_interval g = 1 \<and> g_fee g = 10 ^ 16 \<and>
     [g_dot_address g, g_eth_address g, g_erc20_address g] \<in> {
       [0x3f839e70117c64744930de8567ae7a5363487ca3, 0x3f0839385db9cbea8e73ada6fa0cfe07e321f61d, 0x440edffa1352b13227e8ee646f3ea37456dec701],
       [0x8cf6147918a5cbb672703f879f385036f8793a24, 0xb1185ede04202fe62d38f5db72f71e38ff3e8305, 0x3f0839385db9cbea8e73ada6fa0cfe07e321f61d]} \<and>
     distinct [g_basic_source g, g_incentivized_source g, g_dot_address g, g_eth_address g, g_erc20_address g, g_erc721_address g]"

text \<open>The seeds that the specifications derive accounts and authorities from.\<close>

definition dev_seeds :: "string list" where
  "dev_seeds = [''Alice'', ''Bob'', ''Charlie'', ''Dave'', ''Eve'', ''Ferdie'', ''Relay'',
     ''Alice//stash'', ''Bob//stash'', ''Charlie//stash'', ''Dave//stash'', ''Eve//stash'', ''Ferdie//stash'']"

definition seeds_valid :: "('p, 'k) seed_lib \<Rightarrow> bool" where
  "seeds_valid S \<longleftrightarrow> list_all (\<lambda>seed. sr25519_public S (''//'' @ seed) \<noteq> None) dev_seeds \<and>
     list_all (\<lambda>seed. aura_public S (''//'' @ seed) \<noteq> None) [''Alice'', ''Bob'']"

lemma map_res_Ok: "(\<And>x. x \<in> set xs \<Longrightarrow> \<exists>y. f x = Ok y) \<Longrightarrow> \<exists>ys. map_res f xs = Ok ys"
  by (induction xs) fastforce+

lemma dev_account: "seeds_valid S \<Longrightarrow> seed \<in> set dev_seeds \<Longrightarrow> \<exists>w. get_account_id_from_seed S seed = Ok w"
  by (auto simp: seeds_valid_def list_all_iff get_account_id_from_seed_def get_from_seed_def)

lemma runtime_specs_ok:
  assumes "(K, spec) \<in> set runtime_specs" "wasm_binary S = Some code" "seeds_valid S"
  shows "\<exists>g ferdie. get_account_id_from_seed S ''Ferdie'' = Ok ferdie \<and> cs_genesis (spec S para_id) = Ok g \<and> spec_ok ferdie (sg_bridge g)"
proof -
  obtain alice ferdie where "get_account_id_from_seed S ''Alice'' = Ok alice" "get_account_id_from_seed S ''Ferdie'' = Ok ferdie"
    using dev_account [OF assms(3), of "''Alice''"] dev_account [OF assms(3), of "''Ferdie''"] by (auto simp: dev_seeds_def)
  moreover have "\<exists>ks. map_res (get_account_id_from_seed S) seeds = Ok ks" if "set seeds \<subseteq> set dev_seeds" for seeds
    using that by (intro map_res_Ok dev_account [OF assms(3)]) blast
  from this [of dev_seeds] this [of "[''Alice'', ''Bob'', ''Charlie'', ''Dave'']"]
  have "\<exists>endowed. map_res (get_account_id_from_seed S) dev_seeds = Ok endowed"
      "\<exists>council. map_res (get_account_id_from_seed S) [''Alice'', ''Bob'', ''Charlie'', ''Dave''] = Ok council"
    by (simp_all add: dev_seeds_def del: map_res.simps)
  moreover have "\<exists>authorities. map_res (get_from_seed (aura_public S)) [''Alice'', ''Bob''] = Ok authorities"
    using assms(3) by (intro map_res_Ok) (auto simp: seeds_valid_def get_from_seed_def)
  ultimately show ?thesis
    using assms(1,2) by (auto simp: runtime_specs_def spec_defs spec_ok_def dev_seeds_def simp del: map_res.simps)
qed

lemma spec_genesis:
  assumes "(K, spec) \<in> set runtime_specs" "wasm_binary S = Some code" "seeds_valid S" "compute_hash (rl_eth L) header_default \<noteq> 0"
  obtains g s ferdie where "get_account_id_from_seed S ''Ferdie'' = Ok ferdie" "cs_genesis (spec S para_id) = Ok g"
    "spec_ok ferdie (sg_bridge g)" "rt_genesis L K (sg_bridge g) (blank_runtime b) = (Ok (), s)" "genesis_ok L K (sg_bridge g)"
    "total_issuance (rt_assets s) ETH = 10 ^ 18" "balances (rt_assets s) ETH ferdie = 10 ^ 18" "distinct (fst (rt_config s))"
proof -
  obtain g ferdie where f: "get_account_id_from_seed S ''Ferdie'' = Ok ferdie"
      and g: "cs_genesis (spec S para_id) = Ok g" "spec_ok ferdie (sg_bridge g)"
    using runtime_specs_ok [OF assms(1-3)] by blast
  have h: "parent_hash (g_initial_header (sg_bridge g)) \<noteq> hash_of (lc_cfg L K) (g_initial_header (sg_bridge g))"
    using g(2) assms(4) by (simp add: spec_ok_def lc_cfg_def header_default_def)
  obtain A where A: "assets_genesis (g_assets (sg_bridge g)) empty_assets = (Ok (), A)" "total_issuance A ETH = 10 ^ 18"
      "balances A ETH ferdie = 10 ^ 18"
    using spec_assets g(2) unfolding spec_ok_def by metis
  obtain s where s: "rt_genesis L K (sg_bridge g) (blank_runtime b) = (Ok (), s)" "rt_assets s = A" "distinct (fst (rt_config s))"
    using rt_genesis_run [OF A(1) h] g(2) unfolding spec_ok_def by metis
  have "genesis_ok L K (sg_bridge g)" using g(2) h by (simp add: genesis_ok_def spec_ok_def)
  then show thesis using that [OF f g s(1)] A s by simp
qed

text \<open>
  C30. The genesis of each of the three chain specifications builds without a panic and
  gives a reachable state with six distinct peer contracts and one ether, held by Ferdie.
\<close>

theorem chain_specs_start:
  assumes "(K, spec) \<in> set runtime_specs" "wasm_binary S = Some code" "seeds_valid S" "compute_hash (rl_eth L) header_default \<noteq> 0"
  shows "\<exists>g s ferdie. get_account_id_from_seed S ''Ferdie'' = Ok ferdie \<and> cs_genesis (spec S para_id) = Ok g \<and>
    rt_genesis L K (sg_bridge g) (blank_runtime b) = (Ok (), s) \<and> rt_reachable L K s \<and> distinct (fst (rt_config s)) \<and>
    ma_total_issuance rt_multi_asset ETH s = 10 ^ 18 \<and> ma_balance rt_multi_asset ETH ferdie s = 10 ^ 18"
  by (rule spec_genesis [OF assms]) (use rt_reachable.start in \<open>fastforce simp: rt_asset_simps\<close>)

theorem snowbridge_spec_decimals:
  "cs_token_decimals (snowbridge_get_chain_spec S para_id) = 12 \<and> rc_decimals snowbridge = 10 \<and>
   cs_token_decimals (rococo_get_chain_spec S para_id) = unat (rc_decimals rococo) \<and>
   cs_token_decimals (local_get_chain_spec S para_id) = unat (rc_decimals local_runtime) \<and>
   wrap_dot (10 ^ cs_token_decimals (snowbridge_get_chain_spec S para_id)) (rc_decimals snowbridge) = Some (100 * 10 ^ 18)"
  by (simp add: spec_defs snowbridge_def rococo_def local_runtime_def wrap_dot_def granularity_def checked_pow_def checked_mul_def)

end
