(* ===== verification/Runtime_Samples.thy ===== *)
theory Runtime_Samples
  imports Chain_Spec
begin

text \<open>
  A small instance of the libraries and a chain that starts on it.  The properties of the runtime
  are evaluated on it: account 1 holds Ether and a token and is the principal of the basic
  channel; the message of the sample light client is, on the basic channel, one of contract 77 to
  mint Ether and, on the incentivized channel, one of contract 79 to mint a token.
\<close>

definition sample_abi :: abi_lib where
  "sample_abi = \<lparr>abi_decode_event = (\<lambda>e _ _. if e = basic_event_abi then Some [TAddress 77, TUint 1, TBytes [9]]
       else Some [TAddress 79, TUint 1, TUint 1000000000, TBytes [8]]),
     abi_encode = (\<lambda>ts. [of_nat (length ts)]), abi_encode_function = (\<lambda>f ts. [of_nat (length ts)]),
     scale_account = (\<lambda>w. []), scale_key = (\<lambda>p c h. p)\<rparr>"

definition sample_rl :: "(ledger, account_id, unit) runtime_lib" where
  "sample_rl = \<lparr>rl_abi = sample_abi, rl_eth = sample_lib, rl_ethash = linear_ethash,
     rl_xcm = \<lparr>xcm_decode_asset_id = (\<lambda>bs. if bs = [1] then Some ETH else None), xcm_account = (\<lambda>_. Some 1),
       xcm_error_text = (\<lambda>_. [])\<rparr>,
     rl_currency = ledger_currency, rl_lookup = Some, rl_decode_call = (\<lambda>bs. if bs = [9] then Some (EthMint 5 2 42)
       else if bs = [8] then Some (Erc721Mint 5 2 88 6 []) else None),
     rl_encode_basic = (\<lambda>ms. [of_nat (length ms)]), rl_encode_incentivized = (\<lambda>ms. [of_nat (length ms)]),
     rl_keccak256 = (\<lambda>bs. of_nat (length bs)), rl_mul_ceil = (\<lambda>f x. if unat f \<le> 10 ^ 9 then x div 2 else x),
     rl_into_account = (\<lambda>i. if i = DotPalletId then 50 else 60),
     rl_foreign_call = (\<lambda>_ _ b. Finish (Ok ()) b), rl_foreign_ethereum_call = (\<lambda>_ _ b. EFinish (Ok ()) b)\<rparr>"

definition sample_genesis :: genesis_config where
  "sample_genesis = \<lparr>g_basic_source = 0, g_basic_interval = 5, g_principal = 1, g_incentivized_source = 0,
     g_reward_fraction = 800000000, g_incentivized_interval = 5, g_fee = 3,
     g_assets = [(ETH, 1, 100), (Token 9, 1, 50)], g_initial_header = sample_header 0 0 0 0, g_initial_difficulty = 0,
     g_dot_address = 76, g_eth_address = 77, g_erc20_address = 78, g_erc721_address = 79\<rparr>"

definition sample_ledger :: ledger where
  "sample_ledger = \<lparr>ledger_free = (\<lambda>_. 0)(1 := 1000, 50 := 500), ledger_issuance = 1500\<rparr>"

definition sample_rt_assets :: assets where
  "sample_rt_assets = set_balance (Token 9) 1 50 (put_issuance (Token 9) 50 (set_balance ETH 1 100 (put_issuance ETH 100 empty_assets)))"

definition sample_rt :: "ledger runtime" where
  "sample_rt = \<lparr>rt_basic_in = \<lparr>bin_source_channel = 0, bin_nonce = 0\<rparr>,
     rt_basic_out = \<lparr>bout_interval = 5, bout_queue = [], bout_principal = 1, bout_nonce = 0\<rparr>,
     rt_incentivized_in = \<lparr>iin_source_channel = 0, iin_nonce = 0, iin_reward_fraction = 800000000\<rparr>,
     rt_incentivized_out = \<lparr>iout_interval = 5, iout_queue = [], iout_nonce = 0, iout_fee = 3\<rparr>,
     rt_light_client = genesis_state (lc_cfg sample_rl snowbridge) (sample_header 0 0 0 0) 0, rt_assets = sample_rt_assets, rt_nft = empty_nft,
     rt_dot_address = 76, rt_eth_address = 77, rt_erc20_address = 78,
     rt_erc721 = \<lparr>erc721_address = 79, tokens_by_erc721_id = Map.empty\<rparr>,
     rt_events = [], rt_digest = [], rt_offchain = [], rt_foreign = sample_ledger\<rparr>"

lemma sample_assets_genesis: "assets_genesis (g_assets sample_genesis) empty_assets = (Ok (), sample_rt_assets)"
  by (simp add: sample_genesis_def sample_rt_assets_def empty_assets_def ext_simps checked_add_def)

lemma sample_rl_simps [simp]:
  "rl_abi sample_rl = sample_abi" "rl_eth sample_rl = sample_lib" "rl_currency sample_rl = ledger_currency"
  "rl_lookup sample_rl = Some" "rl_into_account sample_rl DotPalletId = 50" "rl_into_account sample_rl TreasuryPalletId = 60"
  "lc_lib (lc_cfg sample_rl K) = sample_lib"
  by (simp_all add: sample_rl_def lc_cfg_def DotPalletId_def TreasuryPalletId_def)

lemma sample_genesis_run: "rt_genesis sample_rl snowbridge sample_genesis (blank_runtime sample_ledger) = (Ok (), sample_rt)"
proof -
  have "lc_genesis (lc_cfg sample_rl snowbridge) (sample_header 0 0 0 0) 0 empty_light_client =
      (Ok (), genesis_state (lc_cfg sample_rl snowbridge) (sample_header 0 0 0 0) 0)"
    by (rule lc_genesis_run) simp
  then show ?thesis
    using sample_assets_genesis unfolding rt_genesis_def blank_runtime_def sample_genesis_def
    by (simp add: ext_simps zoom_def st_defs map_err_ext_def erc721_genesis_def erc721_put_def erc20_genesis_def eth_genesis_def
      dot_genesis_def cfg_defs sample_rt_def)
qed

lemma sample_reachable: "rt_reachable sample_rl snowbridge sample_rt"
  by (rule rt_reachable.start [OF sample_genesis_run]) (simp add: genesis_ok_def sample_genesis_def)

lemma sample_rt_inv: "rt_inv sample_rt"
  by (rule rt_reachable_rt_inv [OF sample_reachable])

definition sample_seeds :: "(nat, nat) seed_lib" where
  "sample_seeds = \<lparr>sr25519_public = (\<lambda>uri. Some (length uri)), aura_public = (\<lambda>uri. Some (length uri)), account_of = of_nat,
     wasm_binary = Some [0]\<rparr>"

definition sample_mint :: message where
  "sample_mint = \<lparr>msg_data = [1], msg_proof = \<lparr>block_hash = 1, tx_index = 0, proof_data = ([], [[2]])\<rparr>\<rparr>"

lemma sample_rt_headers:
  "headers (rt_light_client sample_rt) = [1 \<mapsto> \<lparr>submitter = None, sh_header = sample_header 0 0 0 0, total_difficulty = 0, finalized = True\<rparr>]"
  by (simp add: sample_rt_def genesis_state_def)

lemma sample_mint_verified:
  "verify (lc_cfg sample_rl snowbridge) sample_mint (rt_light_client sample_rt) =
     (Ok \<lparr>log_address = 0, log_topics = [], log_data = [30]\<rparr>, rt_light_client sample_rt)"
  by (simp add: verify_def verify_receipt_inclusion_def sample_mint_def sample_rt_headers ensure_def
      check_receipt_proof_def apply_merkle_proof_def short_node_decode_def sample_lib_def next_item_def of_be_bytes_Cons
      receipt_decode_def bloom_decode_def log_decode_def rlp_as_list_def contains_log_def)

end
