(* ===== verification/Framework_Weights.thy ===== *)
theory Framework_Weights
  imports Runtime_Weights
begin

text \<open>
  The other half of \<open>runtime/snowbridge/src/weights\<close> and \<open>runtime/rococo/src/weights\<close>: the weights the
  runtimes set for the pallets of the framework (system, balances, collective, timestamp, utility), and
  what the limits of the local council make of them.  The rococo runtime does not use its file for
  the collective pallet.
\<close>

section \<open>Snowbridge\<close>

definition snowbridge_system_remark :: "u32 \<Rightarrow> u64" where
  "snowbridge_system_remark b = 1531000"

definition snowbridge_system_remark_with_event :: "u32 \<Rightarrow> u64" where
  "snowbridge_system_remark_with_event b = saturating_add 19771000 (saturating_mul 1000 (ucast b))"

definition snowbridge_system_set_heap_pages :: "u64" where
  "snowbridge_system_set_heap_pages = saturating_add 2160000 (writes snowbridge_db_weight 1)"

definition snowbridge_system_set_changes_trie_config :: "u64" where
  "snowbridge_system_set_changes_trie_config = saturating_add (saturating_add 8511000 (reads snowbridge_db_weight 1)) (writes snowbridge_db_weight 2)"

definition snowbridge_system_set_storage :: "u32 \<Rightarrow> u64" where
  "snowbridge_system_set_storage i = saturating_add (saturating_add 0 (saturating_mul 870000 (ucast i))) (writes snowbridge_db_weight (saturating_mul 1 (ucast i)))"

definition snowbridge_system_kill_storage :: "u32 \<Rightarrow> u64" where
  "snowbridge_system_kill_storage i = saturating_add (saturating_add 4586000 (saturating_mul 653000 (ucast i))) (writes snowbridge_db_weight (saturating_mul 1 (ucast i)))"

definition snowbridge_system_kill_prefix :: "u32 \<Rightarrow> u64" where
  "snowbridge_system_kill_prefix p = saturating_add (saturating_add 7364000 (saturating_mul 1161000 (ucast p))) (writes snowbridge_db_weight (saturating_mul 1 (ucast p)))"

definition snowbridge_balances_transfer :: "u64" where
  "snowbridge_balances_transfer = saturating_add (saturating_add 114256000 (reads snowbridge_db_weight 1)) (writes snowbridge_db_weight 1)"

definition snowbridge_balances_transfer_keep_alive :: "u64" where
  "snowbridge_balances_transfer_keep_alive = saturating_add (saturating_add 83604000 (reads snowbridge_db_weight 1)) (writes snowbridge_db_weight 1)"

definition snowbridge_balances_set_balance_creating :: "u64" where
  "snowbridge_balances_set_balance_creating = saturating_add (saturating_add 42902000 (reads snowbridge_db_weight 1)) (writes snowbridge_db_weight 1)"

definition snowbridge_balances_set_balance_killing :: "u64" where
  "snowbridge_balances_set_balance_killing = saturating_add (saturating_add 51962000 (reads snowbridge_db_weight 1)) (writes snowbridge_db_weight 1)"

definition snowbridge_balances_force_transfer :: "u64" where
  "snowbridge_balances_force_transfer = saturating_add (saturating_add 112716000 (reads snowbridge_db_weight 2)) (writes snowbridge_db_weight 2)"

definition snowbridge_balances_transfer_all :: "u64" where
  "snowbridge_balances_transfer_all = saturating_add (saturating_add 118901000 (reads snowbridge_db_weight 1)) (writes snowbridge_db_weight 1)"

definition snowbridge_collective_set_members :: "u32 \<Rightarrow> u32 \<Rightarrow> u32 \<Rightarrow> u64" where
  "snowbridge_collective_set_members m n p = saturating_add (saturating_add (saturating_add (saturating_add (saturating_add (saturating_add 0 (saturating_mul 19985000 (ucast m))) (saturating_mul 10603000 (ucast p))) (reads snowbridge_db_weight 2)) (reads snowbridge_db_weight (saturating_mul 1 (ucast p)))) (writes snowbridge_db_weight 2)) (writes snowbridge_db_weight (saturating_mul 1 (ucast p)))"

definition snowbridge_collective_execute :: "u32 \<Rightarrow> u32 \<Rightarrow> u64" where
  "snowbridge_collective_execute b m = saturating_add (saturating_add (saturating_add 32188000 (saturating_mul 4000 (ucast b))) (saturating_mul 118000 (ucast m))) (reads snowbridge_db_weight 1)"

definition snowbridge_collective_propose_execute :: "u32 \<Rightarrow> u32 \<Rightarrow> u64" where
  "snowbridge_collective_propose_execute b m = saturating_add (saturating_add (saturating_add 39471000 (saturating_mul 4000 (ucast b))) (saturating_mul 302000 (ucast m))) (reads snowbridge_db_weight 2)"

definition snowbridge_collective_propose_proposed :: "u32 \<Rightarrow> u32 \<Rightarrow> u32 \<Rightarrow> u64" where
  "snowbridge_collective_propose_proposed b m p = saturating_add (saturating_add (saturating_add (saturating_add (saturating_add 61614000 (saturating_mul 10000 (ucast b))) (saturating_mul 139000 (ucast m))) (saturating_mul 709000 (ucast p))) (reads snowbridge_db_weight 4)) (writes snowbridge_db_weight 4)"

definition snowbridge_collective_vote :: "u32 \<Rightarrow> u64" where
  "snowbridge_collective_vote m = saturating_add (saturating_add (saturating_add 55811000 (saturating_mul 699000 (ucast m))) (reads snowbridge_db_weight 2)) (writes snowbridge_db_weight 1)"

definition snowbridge_collective_close_early_disapproved :: "u32 \<Rightarrow> u32 \<Rightarrow> u64" where
  "snowbridge_collective_close_early_disapproved m p = saturating_add (saturating_add (saturating_add (saturating_add 56088000 (saturating_mul 873000 (ucast m))) (saturating_mul 692000 (ucast p))) (reads snowbridge_db_weight 3)) (writes snowbridge_db_weight 3)"

definition snowbridge_collective_close_early_approved :: "u32 \<Rightarrow> u32 \<Rightarrow> u32 \<Rightarrow> u64" where
  "snowbridge_collective_close_early_approved b m p = saturating_add (saturating_add (saturating_add (saturating_add (saturating_add 85526000 (saturating_mul 6000 (ucast b))) (saturating_mul 617000 (ucast m))) (saturating_mul 704000 (ucast p))) (reads snowbridge_db_weight 4)) (writes snowbridge_db_weight 3)"

definition snowbridge_collective_close_disapproved :: "u32 \<Rightarrow> u32 \<Rightarrow> u64" where
  "snowbridge_collective_close_disapproved m p = saturating_add (saturating_add (saturating_add (saturating_add 58989000 (saturating_mul 1273000 (ucast m))) (saturating_mul 716000 (ucast p))) (reads snowbridge_db_weight 4)) (writes snowbridge_db_weight 3)"

definition snowbridge_collective_close_approved :: "u32 \<Rightarrow> u32 \<Rightarrow> u32 \<Rightarrow> u64" where
  "snowbridge_collective_close_approved b m p = saturating_add (saturating_add (saturating_add (saturating_add (saturating_add 91350000 (saturating_mul 6000 (ucast b))) (saturating_mul 686000 (ucast m))) (saturating_mul 709000 (ucast p))) (reads snowbridge_db_weight 5)) (writes snowbridge_db_weight 3)"

definition snowbridge_collective_disapprove_proposal :: "u32 \<Rightarrow> u64" where
  "snowbridge_collective_disapprove_proposal p = saturating_add (saturating_add (saturating_add 36629000 (saturating_mul 666000 (ucast p))) (reads snowbridge_db_weight 1)) (writes snowbridge_db_weight 3)"

definition snowbridge_timestamp_set :: "u64" where
  "snowbridge_timestamp_set = saturating_add (saturating_add 12990000 (reads snowbridge_db_weight 2)) (writes snowbridge_db_weight 1)"

definition snowbridge_timestamp_on_finalize :: "u64" where
  "snowbridge_timestamp_on_finalize = 6571000"

definition snowbridge_utility_batch :: "u32 \<Rightarrow> u64" where
  "snowbridge_utility_batch c = saturating_add 16319000 (saturating_mul 2323000 (ucast c))"

definition snowbridge_utility_as_derivative :: "u64" where
  "snowbridge_utility_as_derivative = 5310000"

definition snowbridge_utility_batch_all :: "u32 \<Rightarrow> u64" where
  "snowbridge_utility_batch_all c = saturating_add 16128000 (saturating_mul 2332000 (ucast c))"

section \<open>Rococo\<close>

definition rococo_system_remark :: "u32 \<Rightarrow> u64" where
  "rococo_system_remark b = 1421000"

definition rococo_system_remark_with_event :: "u32 \<Rightarrow> u64" where
  "rococo_system_remark_with_event b = saturating_add 21068000 (saturating_mul 1000 (ucast b))"

definition rococo_system_set_heap_pages :: "u64" where
  "rococo_system_set_heap_pages = saturating_add 2120000 (writes rococo_db_weight 1)"

definition rococo_system_set_changes_trie_config :: "u64" where
  "rococo_system_set_changes_trie_config = saturating_add (saturating_add 9051000 (reads rococo_db_weight 1)) (writes rococo_db_weight 2)"

definition rococo_system_set_storage :: "u32 \<Rightarrow> u64" where
  "rococo_system_set_storage i = saturating_add (saturating_add 0 (saturating_mul 839000 (ucast i))) (writes rococo_db_weight (saturating_mul 1 (ucast i)))"

definition rococo_system_kill_storage :: "u32 \<Rightarrow> u64" where
  "rococo_system_kill_storage i = saturating_add (saturating_add 6255000 (saturating_mul 638000 (ucast i))) (writes rococo_db_weight (saturating_mul 1 (ucast i)))"

definition rococo_system_kill_prefix :: "u32 \<Rightarrow> u64" where
  "rococo_system_kill_prefix p = saturating_add (saturating_add 2310000 (saturating_mul 1211000 (ucast p))) (writes rococo_db_weight (saturating_mul 1 (ucast p)))"

definition rococo_balances_transfer :: "u64" where
  "rococo_balances_transfer = saturating_add (saturating_add 111286000 (reads rococo_db_weight 1)) (writes rococo_db_weight 1)"

definition rococo_balances_transfer_keep_alive :: "u64" where
  "rococo_balances_transfer_keep_alive = saturating_add (saturating_add 81974000 (reads rococo_db_weight 1)) (writes rococo_db_weight 1)"

definition rococo_balances_set_balance_creating :: "u64" where
  "rococo_balances_set_balance_creating = saturating_add (saturating_add 42292000 (reads rococo_db_weight 1)) (writes rococo_db_weight 1)"

definition rococo_balances_set_balance_killing :: "u64" where
  "rococo_balances_set_balance_killing = saturating_add (saturating_add 51333000 (reads rococo_db_weight 1)) (writes rococo_db_weight 1)"

definition rococo_balances_force_transfer :: "u64" where
  "rococo_balances_force_transfer = saturating_add (saturating_add 111276000 (reads rococo_db_weight 2)) (writes rococo_db_weight 2)"

definition rococo_balances_transfer_all :: "u64" where
  "rococo_balances_transfer_all = saturating_add (saturating_add 118901000 (reads rococo_db_weight 1)) (writes rococo_db_weight 1)"

definition rococo_collective_set_members :: "u32 \<Rightarrow> u32 \<Rightarrow> u32 \<Rightarrow> u64" where
  "rococo_collective_set_members m n p = saturating_add (saturating_add (saturating_add (saturating_add (saturating_add (saturating_add (saturating_add 0 (saturating_mul 19824000 (ucast m))) (saturating_mul 391000 (ucast n))) (saturating_mul 10318000 (ucast p))) (reads rococo_db_weight 2)) (reads rococo_db_weight (saturating_mul 1 (ucast p)))) (writes rococo_db_weight 2)) (writes rococo_db_weight (saturating_mul 1 (ucast p)))"

definition rococo_collective_execute :: "u32 \<Rightarrow> u32 \<Rightarrow> u64" where
  "rococo_collective_execute b m = saturating_add (saturating_add (saturating_add 31301000 (saturating_mul 4000 (ucast b))) (saturating_mul 140000 (ucast m))) (reads rococo_db_weight 1)"

definition rococo_collective_propose_execute :: "u32 \<Rightarrow> u32 \<Rightarrow> u64" where
  "rococo_collective_propose_execute b m = saturating_add (saturating_add (saturating_add 38501000 (saturating_mul 4000 (ucast b))) (saturating_mul 304000 (ucast m))) (reads rococo_db_weight 2)"

definition rococo_collective_propose_proposed :: "u32 \<Rightarrow> u32 \<Rightarrow> u32 \<Rightarrow> u64" where
  "rococo_collective_propose_proposed b m p = saturating_add (saturating_add (saturating_add (saturating_add (saturating_add 59505000 (saturating_mul 10000 (ucast b))) (saturating_mul 229000 (ucast m))) (saturating_mul 693000 (ucast p))) (reads rococo_db_weight 4)) (writes rococo_db_weight 4)"

definition rococo_collective_vote :: "u32 \<Rightarrow> u64" where
  "rococo_collective_vote m = saturating_add (saturating_add (saturating_add 57440000 (saturating_mul 494000 (ucast m))) (reads rococo_db_weight 2)) (writes rococo_db_weight 1)"

definition rococo_collective_close_early_disapproved :: "u32 \<Rightarrow> u32 \<Rightarrow> u64" where
  "rococo_collective_close_early_disapproved m p = saturating_add (saturating_add (saturating_add (saturating_add 55501000 (saturating_mul 686000 (ucast m))) (saturating_mul 739000 (ucast p))) (reads rococo_db_weight 3)) (writes rococo_db_weight 3)"

definition rococo_collective_close_early_approved :: "u32 \<Rightarrow> u32 \<Rightarrow> u32 \<Rightarrow> u64" where
  "rococo_collective_close_early_approved b m p = saturating_add (saturating_add (saturating_add (saturating_add (saturating_add 86458000 (saturating_mul 2000 (ucast b))) (saturating_mul 760000 (ucast m))) (saturating_mul 669000 (ucast p))) (reads rococo_db_weight 4)) (writes rococo_db_weight 3)"

definition rococo_collective_close_disapproved :: "u32 \<Rightarrow> u32 \<Rightarrow> u64" where
  "rococo_collective_close_disapproved m p = saturating_add (saturating_add (saturating_add (saturating_add 62231000 (saturating_mul 749000 (ucast m))) (saturating_mul 737000 (ucast p))) (reads rococo_db_weight 4)) (writes rococo_db_weight 3)"

definition rococo_collective_close_approved :: "u32 \<Rightarrow> u32 \<Rightarrow> u32 \<Rightarrow> u64" where
  "rococo_collective_close_approved b m p = saturating_add (saturating_add (saturating_add (saturating_add (saturating_add 86754000 (saturating_mul 5000 (ucast b))) (saturating_mul 1205000 (ucast m))) (saturating_mul 682000 (ucast p))) (reads rococo_db_weight 5)) (writes rococo_db_weight 3)"

definition rococo_collective_disapprove_proposal :: "u32 \<Rightarrow> u64" where
  "rococo_collective_disapprove_proposal p = saturating_add (saturating_add (saturating_add 34756000 (saturating_mul 718000 (ucast p))) (reads rococo_db_weight 1)) (writes rococo_db_weight 3)"

definition rococo_timestamp_set :: "u64" where
  "rococo_timestamp_set = saturating_add (saturating_add 12821000 (reads rococo_db_weight 2)) (writes rococo_db_weight 1)"

definition rococo_timestamp_on_finalize :: "u64" where
  "rococo_timestamp_on_finalize = 6630000"

definition rococo_utility_batch :: "u32 \<Rightarrow> u64" where
  "rococo_utility_batch c = saturating_add 19444000 (saturating_mul 2291000 (ucast c))"

definition rococo_utility_as_derivative :: "u64" where
  "rococo_utility_as_derivative = 5170000"

definition rococo_utility_batch_all :: "u32 \<Rightarrow> u64" where
  "rococo_utility_batch_all c = saturating_add 20252000 (saturating_mul 2300000 (ucast c))"


section \<open>Limits of the runtimes\<close>

definition LocalCouncilMaxProposals :: u32 where
  "LocalCouncilMaxProposals = 100"

definition LocalCouncilMaxMembers :: u32 where
  "LocalCouncilMaxMembers = 8"

text \<open>\<open>BlockLength\<close>: three quarters of five MiB are for normal extrinsics.\<close>

definition max_normal_length :: nat where
  "max_normal_length = 5 * 1024 * 1024 * 75 div 100"

text \<open>The weights as sums, bounded term by term.\<close>

lemma add_le: "unat a \<le> A \<Longrightarrow> unat b \<le> B \<Longrightarrow> unat (saturating_add a b) \<le> A + B"
  using sat_le(1) [of a b] by linarith

lemma mul_le:
  assumes "unat x \<le> X" "unat c \<le> C"
  shows "unat (saturating_mul c (ucast (x :: u32) :: u64)) \<le> C * X"
proof -
  have "unat (ucast x :: u64) = unat x" using unsigned_less [of x, where ?'a = nat] by (simp add: unat_ucast_mod)
  then show ?thesis using sat_le(2) [of c "ucast x"] mult_le_mono [OF assms(2,1)] by simp
qed

lemma db_le: "unat x \<le> X \<Longrightarrow> unat (db_read db) \<le> D \<Longrightarrow> unat (reads db x) \<le> D * X"
  "unat x \<le> X \<Longrightarrow> unat (db_write db) \<le> D \<Longrightarrow> unat (writes db x) \<le> D * X"
  using sat_le(2) [of "db_read db" x] sat_le(2) [of "db_write db" x] mult_le_mono [of "unat (db_read db)" D "unat x" X]
    mult_le_mono [of "unat (db_write db)" D "unat x" X]
  by (simp_all add: reads_def writes_def)

section \<open>The council\<close>

lemmas council_weights =
  snowbridge_collective_set_members_def snowbridge_collective_execute_def
  snowbridge_collective_propose_execute_def snowbridge_collective_propose_proposed_def
  snowbridge_collective_vote_def snowbridge_collective_close_early_disapproved_def
  snowbridge_collective_close_early_approved_def snowbridge_collective_close_disapproved_def
  snowbridge_collective_close_approved_def snowbridge_collective_disapprove_proposal_def
  rococo_collective_set_members_def rococo_collective_execute_def rococo_collective_propose_execute_def
  rococo_collective_propose_proposed_def rococo_collective_vote_def
  rococo_collective_close_early_disapproved_def rococo_collective_close_early_approved_def
  rococo_collective_close_disapproved_def rococo_collective_close_approved_def
  rococo_collective_disapprove_proposal_def

definition snowbridge_council_calls :: "u32 \<Rightarrow> u32 \<Rightarrow> u32 \<Rightarrow> u32 \<Rightarrow> u64 list" where
  "snowbridge_council_calls m n p b =
     [snowbridge_collective_set_members m n p, snowbridge_collective_execute b m,
       snowbridge_collective_propose_execute b m, snowbridge_collective_propose_proposed b m p,
       snowbridge_collective_vote m, snowbridge_collective_close_early_disapproved m p,
       snowbridge_collective_close_early_approved b m p, snowbridge_collective_close_disapproved m p,
       snowbridge_collective_close_approved b m p, snowbridge_collective_disapprove_proposal p]"

definition rococo_council_calls :: "u32 \<Rightarrow> u32 \<Rightarrow> u32 \<Rightarrow> u32 \<Rightarrow> u64 list" where
  "rococo_council_calls m n p b =
     [rococo_collective_set_members m n p, rococo_collective_execute b m,
       rococo_collective_propose_execute b m, rococo_collective_propose_proposed b m p,
       rococo_collective_vote m, rococo_collective_close_early_disapproved m p,
       rococo_collective_close_early_approved b m p, rococo_collective_close_disapproved m p,
       rococo_collective_close_approved b m p, rococo_collective_disapprove_proposal p]"

lemma council_bounds:
  assumes "unat m \<le> 8" "unat n \<le> 8" "unat p \<le> 100" "unat b \<le> 3932160"
  shows "list_all (\<lambda>w. unat w \<le> 100000000000) (snowbridge_council_calls m n p b)"
    "list_all (\<lambda>w. unat w \<le> 100000000000) (rococo_council_calls m n p b)"
  unfolding snowbridge_council_calls_def rococo_council_calls_def council_weights list.pred_inject(2)
  by (intro conjI list.pred_inject(1), (rule order_trans, (rule add_le mul_le db_le assms order_refl)+,
      simp add: snowbridge_db_weight_def rococo_db_weight_def)+)+

theorem council_calls_fit_block:
  assumes "m \<le> LocalCouncilMaxMembers" "n \<le> LocalCouncilMaxMembers" "p \<le> LocalCouncilMaxProposals"
    and "unat b \<le> max_normal_length"
  shows "list_all (\<lambda>w. unat w + unat snowbridge_ExtrinsicBaseWeight + unat snowbridge_BlockExecutionWeight
       \<le> unat MAXIMUM_BLOCK_WEIGHT div 4) (snowbridge_council_calls m n p b) \<and>
    list_all (\<lambda>w. unat w + unat rococo_ExtrinsicBaseWeight + unat rococo_BlockExecutionWeight
       \<le> unat MAXIMUM_BLOCK_WEIGHT div 4) (rococo_council_calls m n p b)"
proof (rule conjI)
  have b: "unat m \<le> 8" "unat n \<le> 8" "unat p \<le> 100" "unat b \<le> 3932160"
    using assms by (simp_all add: word_le_nat_alt LocalCouncilMaxMembers_def LocalCouncilMaxProposals_def max_normal_length_def)
  show "list_all (\<lambda>w. unat w + unat snowbridge_ExtrinsicBaseWeight + unat snowbridge_BlockExecutionWeight
       \<le> unat MAXIMUM_BLOCK_WEIGHT div 4) (snowbridge_council_calls m n p b)"
    by (rule list.pred_mono_strong [OF council_bounds(1) [OF b]])
      (simp add: snowbridge_ExtrinsicBaseWeight_def snowbridge_BlockExecutionWeight_def MAXIMUM_BLOCK_WEIGHT_def unat_div_distrib)
  show "list_all (\<lambda>w. unat w + unat rococo_ExtrinsicBaseWeight + unat rococo_BlockExecutionWeight
       \<le> unat MAXIMUM_BLOCK_WEIGHT div 4) (rococo_council_calls m n p b)"
    by (rule list.pred_mono_strong [OF council_bounds(2) [OF b]])
      (simp add: rococo_ExtrinsicBaseWeight_def rococo_BlockExecutionWeight_def MAXIMUM_BLOCK_WEIGHT_def unat_div_distrib)
qed

theorem council_calls_fit_block_witness:
  "(8 :: u32) \<le> LocalCouncilMaxMembers \<and> (100 :: u32) \<le> LocalCouncilMaxProposals \<and> unat (1000 :: u32) \<le> max_normal_length \<and>
   list_all (\<lambda>w. unat w + unat snowbridge_ExtrinsicBaseWeight + unat snowbridge_BlockExecutionWeight
     \<le> unat MAXIMUM_BLOCK_WEIGHT div 4) (snowbridge_council_calls 8 8 100 1000)"
proof -
  have "(8 :: u32) \<le> LocalCouncilMaxMembers" "(100 :: u32) \<le> LocalCouncilMaxProposals" "unat (1000 :: u32) \<le> max_normal_length"
    by (simp_all add: LocalCouncilMaxMembers_def LocalCouncilMaxProposals_def max_normal_length_def)
  then show ?thesis using council_calls_fit_block [of 8 8 100 1000] by simp
qed

end
