(* ===== verification/Runtime_Props.thy ===== *)
theory Runtime_Props
  imports Runtime_Samples Framework_Weights
begin

text \<open>
  Properties of the runtime as a whole, over every state it reaches: what its calls and hooks keep,
  what a message from Ethereum can bring about and under which conditions, and what becomes of the
  messages to Ethereum.
\<close>

section \<open>Reachable states\<close>

text \<open>
  C1. On every state the runtime reaches from its genesis, the balances of each bridged
  asset add up to its issuance, the owner index of the NFT pallet is exact, the index of
  Ethereum tokens and the bridged tokens name each other, and both outbound queues hold
  consecutive nonces within their size limits.
\<close>

theorem rt_reachable_inv:
  assumes "rt_reachable L K s"
  shows "(\<forall>a. (\<Sum>w\<in>UNIV. unat (balances (rt_assets s) a w)) = unat (total_issuance (rt_assets s) a)) \<and>
    nft_inv (rt_nft s) \<and> erc721_linked (tokens_by_erc721_id (rt_erc721 s)) (tokens (rt_nft s)) \<and>
    basic_queue_wf (rt_basic_out s) \<and> incentivized_queue_wf (rt_incentivized_out s)"
  using rt_reachable_rt_inv [OF assms] by (auto simp: rt_inv_def assets_inv_def)

theorem rt_reachable_inv_witness:
  "(\<Sum>w\<in>UNIV. unat (balances (rt_assets sample_rt) ETH w)) = 100"
proof -
  have "total_issuance (rt_assets sample_rt) ETH = 100" by (simp add: sample_rt_def sample_rt_assets_def)
  then show ?thesis using rt_reachable_inv [OF sample_reachable] by simp
qed

text \<open>
  C22. No call, hook or message changes the peer contracts, the principal of the basic
  channel, the fee of the incentivized channel or the commit intervals (storage written by
  root as such is left out of the model): the extrinsics set_principal and set_fee are not
  reachable.
\<close>

theorem configuration_is_fixed:
  assumes "(rt_step L K)\<^sup>*\<^sup>* s s'"
  shows "rt_config s' = rt_config s"
  using assms by (induction rule: rtranclp_induct) (auto dest: rt_config_step)

lemma sample_step: "rt_step sample_rl snowbridge sample_rt (sample_rt\<lparr>rt_foreign := sample_ledger\<lparr>ledger_issuance := 1\<rparr>\<rparr>)"
  by (rule rt_step.body, rule rt_body.foreign [where cs = "[]" and p = "Finish (Ok ()) (sample_ledger\<lparr>ledger_issuance := 1\<rparr>)" and r = "Ok ()"]) simp_all

theorem configuration_is_fixed_witness:
  "rt_config (sample_rt\<lparr>rt_foreign := sample_ledger\<lparr>ledger_issuance := 1\<rparr>\<rparr>) = rt_config sample_rt"
  using configuration_is_fixed [OF r_into_rtranclp [of "rt_step sample_rl snowbridge", OF sample_step]] .

section \<open>The light client inside the runtime\<close>




section \<open>Messages from Ethereum\<close>

lemma runtime_calls:
  "runtime_dispatch L K (BasicInboundSubmit m) = (\<lambda>org. basic_submit (rt_basic_in_cfg L K) org m)"
  "runtime_dispatch L K (IncentivizedInboundSubmit m) = (\<lambda>org. incentivized_submit (rt_incentivized_in_cfg L K) org m)"
  "runtime_dispatch L K (EthMint sender d x) = (\<lambda>org. eth_mint (eth_cfg L K) org sender d x)"
  "runtime_dispatch L K (EthBurn c recipient x) = (\<lambda>org. eth_burn (eth_cfg L K) org c recipient x)"
  "runtime_dispatch L K (Erc20Burn c t recipient x) = (\<lambda>org. erc20_burn (erc20_cfg L K) org c t recipient x)"
  "runtime_dispatch L K (DotLock c recipient y) = (\<lambda>org. lock (dot_cfg L K) org c recipient y)"
  "runtime_dispatch L K (DotUnlock sender d x) = (\<lambda>org. unlock (dot_cfg L K) org sender d x)"
  by (subst runtime_dispatch_fix; simp)+

definition peers :: "'b runtime \<Rightarrow> h160 set" where
  "peers s = {rt_eth_address s, rt_erc20_address s, erc721_address (rt_erc721 s)}"

interpretation eth_stranger: ethereum_invariant a
  "\<lambda>s :: 'b runtime. a \<notin> peers s0 \<and> (\<exists>b ev. s = s0\<lparr>rt_foreign := b, rt_events := ev\<rparr>)" for a s0
proof unfold_locales
  fix s :: "'b runtime" and b
  assume "a \<notin> peers s0 \<and> (\<exists>b ev. s = s0\<lparr>rt_foreign := b, rt_events := ev\<rparr>)"
  then obtain b' ev where "a \<notin> peers s0" "s = s0\<lparr>rt_foreign := b', rt_events := ev\<rparr>" by blast
  then have "s\<lparr>rt_foreign := b\<rparr> = s0\<lparr>rt_foreign := b, rt_events := ev\<rparr>" by simp
  then show "a \<notin> peers s0 \<and> (\<exists>b' ev. s\<lparr>rt_foreign := b\<rparr> = s0\<lparr>rt_foreign := b', rt_events := ev\<rparr>)"
    using \<open>a \<notin> peers s0\<close> by blast
next
  fix s :: "'b runtime" and ev
  assume "a \<notin> peers s0 \<and> (\<exists>b ev. s = s0\<lparr>rt_foreign := b, rt_events := ev\<rparr>)"
  then obtain b ev' where "a \<notin> peers s0" "s = s0\<lparr>rt_foreign := b, rt_events := ev'\<rparr>" by blast
  then have "s\<lparr>rt_events := ev\<rparr> = s0\<lparr>rt_foreign := b, rt_events := ev\<rparr>" by simp
  then show "a \<notin> peers s0 \<and> (\<exists>b ev'. s\<lparr>rt_events := ev\<rparr> = s0\<lparr>rt_foreign := b, rt_events := ev'\<rparr>)"
    using \<open>a \<notin> peers s0\<close> by blast
qed (auto simp: peers_def)

text \<open>
  C5. A message from an Ethereum contract that is none of the ETH, ERC20 and ERC721 apps
  leaves the whole storage of the bridge alone, events apart, whatever call it carries: only
  the storage of the framework pallets may change (which includes native tokens that the DOT
  app unlocks).
\<close>

theorem stranger_changes_nothing:
  assumes "dispatch (dispatch_cfg L (runtime_dispatch L K)) a i p s = (r, s')" "returns r" "a \<notin> peers s"
  shows "\<exists>b ev. s' = s\<lparr>rt_foreign := b, rt_events := ev\<rparr>"
proof -
  have "a \<notin> peers s \<and> (\<exists>b ev. s = s\<lparr>rt_foreign := b, rt_events := ev\<rparr>)"
    using assms(3) by (intro conjI exI [of _ "rt_foreign s"] exI [of _ "rt_events s"]) simp_all
  from keepsD [OF eth_stranger.message_keeps this assms(1,2)] show ?thesis by blast
qed

theorem stranger_changes_nothing_witness:
  "\<exists>r s' b ev. dispatch (dispatch_cfg sample_rl (runtime_dispatch sample_rl snowbridge)) 1 \<lparr>channel_id = Basic, mid_nonce = 1\<rparr> [9] sample_rt = (r, s') \<and>
     returns r \<and> 1 \<notin> peers sample_rt \<and> s' = sample_rt\<lparr>rt_foreign := b, rt_events := ev\<rparr>"
proof -
  let ?d = "dispatch (dispatch_cfg sample_rl (runtime_dispatch sample_rl snowbridge)) 1 \<lparr>channel_id = Basic, mid_nonce = 1\<rparr> [9] sample_rt"
  obtain r s' where d: "?d = (r, s')" "returns r"
    by (simp add: dispatch_def dispatch_cfg_def sample_rl_def call_filter_all_def runtime_calls eth_mint_def
        transactional_def eth_cfg_def st_defs sample_rt_def ext_simps)
  have "1 \<notin> peers sample_rt" by (simp add: peers_def sample_rt_def)
  then show ?thesis using stranger_changes_nothing [OF d] d by blast
qed

section \<open>New assets are backed by messages\<close>

definition peer_of :: "'b runtime \<Rightarrow> asset_id \<Rightarrow> h160" where
  "peer_of s a = (case a of ETH \<Rightarrow> rt_eth_address s | Token _ \<Rightarrow> rt_erc20_address s)"

interpretation eth_growth: ethereum_invariant a
  "\<lambda>s :: 'b runtime. (a = peer_of s b \<or> total_issuance (rt_assets s) b = x) \<and> peer_of s b = p" for a b x p
  by unfold_locales (auto simp: peer_of_def deposit_run split: if_splits option.splits asset_id.splits)

interpretation eth_tokens: ethereum_invariant a
  "\<lambda>s :: 'b runtime. (a = p \<or> rt_nft s = N) \<and> erc721_address (rt_erc721 s) = p" for a p N
  by unfold_locales auto

text \<open>Without a message neither issuance grows nor a token appears.\<close>

lemma withdraw_shrinks: "withdraw a w x A = (Ok (), A') \<Longrightarrow> total_issuance A' b \<le> total_issuance A b"
  by (auto simp: withdraw_run checked_sub_def word_le_nat_alt unat_sub split: if_splits option.splits)

lemma transfer_issuance: "transfer a w v x A = (Ok (), A') \<Longrightarrow> total_issuance A' b = total_issuance A b"
  by (auto simp: transfer_def try_mutate_def balance_item_def ok_simps split: if_splits)

interpretation native_growth: native_invariant L K
  "\<lambda>s :: 'b runtime. total_issuance (rt_assets s) b \<le> x \<and> (tokens (rt_nft s) t = None \<or> q)" for L :: "('b, 'd, 'f) runtime_lib" and K b x t q
proof unfold_locales
  fix s s' :: "'b runtime" and c w target p
  assume "total_issuance (rt_assets s) b \<le> x \<and> (tokens (rt_nft s) t = None \<or> q)" "rt_router L K c w target p s = (Ok (), s')"
  then show "total_issuance (rt_assets s') b \<le> x \<and> (tokens (rt_nft s') t = None \<or> q)"
    by (auto elim!: router_effect dest!: withdraw_shrinks [where b = b])
next
  fix s s' :: "'b runtime" and org c n recipient
  assume I: "total_issuance (rt_assets s) b \<le> x \<and> (tokens (rt_nft s) t = None \<or> q)"
    and "erc721_burn (erc721_cfg L K) org c n recipient s = (Ok (), s')"
  then show "total_issuance (rt_assets s') b \<le> x \<and> (tokens (rt_nft s') t = None \<or> q)"
    by (auto simp: rt_sys_def burn_run elim!: erc721_burn_router router_effect dest!: withdraw_shrinks [where b = b]
        split: option.splits if_splits)
qed (auto dest!: withdraw_shrinks [where b = b] transfer_issuance [where b = b])

lemma basic_accepted:
  assumes "runtime_dispatch L K (BasicInboundSubmit m) org s = (Ok (), s')"
  obtains who l env where "org = Signed who" "verify (lc_cfg L K) m (rt_light_client s) = (Ok l, rt_light_client s)"
    "basic_envelope_try_from (rl_abi L) l = Some env" "benv_channel env = bin_source_channel (rt_basic_in s)"
    "benv_nonce env = bin_nonce (rt_basic_in s) + 1"
    "dispatch (dispatch_cfg L (runtime_dispatch L K)) (benv_source env) \<lparr>channel_id = Basic, mid_nonce = benv_nonce env\<rparr> (benv_payload env)
       (s\<lparr>rt_basic_in := (rt_basic_in s)\<lparr>bin_nonce := benv_nonce env\<rparr>\<rparr>) = (Ok (), s')"
proof -
  have "snd (verify (lc_cfg L K) m c) = c" for c by (simp add: verify_def)
  then show thesis
    using assms that unfolding runtime_calls basic_submit_Ok
    by (auto simp: basic_in_cfg_def rt_verifier_run st_defs prod_eq_iff)
qed

lemma incentivized_accepted:
  assumes "runtime_dispatch L K (IncentivizedInboundSubmit m) org s = (Ok (), s')"
  obtains l env b where "verify (lc_cfg L K) m (rt_light_client s) = (Ok l, rt_light_client s)"
    "incentivized_envelope_try_from (rl_abi L) (fee_converter K) l = Ok env" "ienv_channel env = iin_source_channel (rt_incentivized_in s)"
    "ienv_nonce env = iin_nonce (rt_incentivized_in s) + 1"
    "dispatch (dispatch_cfg L (runtime_dispatch L K)) (ienv_source env) \<lparr>channel_id = Incentivized, mid_nonce = ienv_nonce env\<rparr> (ienv_payload env)
       (s\<lparr>rt_incentivized_in := (rt_incentivized_in s)\<lparr>iin_nonce := ienv_nonce env\<rparr>, rt_foreign := b\<rparr>) = (Ok (), s')"
proof -
  obtain who l t env u where v: "iin_verifier (rt_incentivized_in_cfg L K) m s = (Ok l, t)"
      and env: "incentivized_envelope_try_from (rl_abi L) (fee_converter K) l = Ok env"
        "ienv_channel env = iin_source_channel (rt_incentivized_in t)" "ienv_nonce env = iin_nonce (rt_incentivized_in t) + 1"
      and h: "handle_fee (rt_incentivized_in_cfg L K) (ienv_fee env) who
        (t\<lparr>rt_incentivized_in := (rt_incentivized_in t)\<lparr>iin_nonce := ienv_nonce env\<rparr>\<rparr>) = (Ok (), u)"
      and d: "dispatch (dispatch_cfg L (runtime_dispatch L K)) (ienv_source env) \<lparr>channel_id = Incentivized, mid_nonce = ienv_nonce env\<rparr>
        (ienv_payload env) u = (Ok (), s')"
    using incentivized_submit_OkD [OF assms [unfolded runtime_calls]] by (auto simp: incentivized_in_cfg_def st_defs)
  have t: "t = s" "verify (lc_cfg L K) m (rt_light_client s) = (Ok l, rt_light_client s)"
    using v by (auto simp: incentivized_in_cfg_def rt_verifier_run verify_def)
  obtain b where "u = s\<lparr>rt_incentivized_in := (rt_incentivized_in s)\<lparr>iin_nonce := ienv_nonce env\<rparr>, rt_foreign := b\<rparr>"
    using handle_fee_foreign [OF h] t(1) by auto
  with that [OF t(2) env(1)] env d t(1) show thesis by simp
qed

text \<open>
  The message's data is a log of a receipt under the receipts root of the block it names: the proof is a chain of trie nodes from that root to the
  receipt.
\<close>

definition logged :: "eth_lib \<Rightarrow> header_store \<Rightarrow> message \<Rightarrow> log \<Rightarrow> bool" where
  "logged E H m l \<longleftrightarrow> (\<exists>sh v rc. H (block_hash (msg_proof m)) = Some sh \<and>
     proof_chain E (snd (proof_data (msg_proof m))) (receipts_root (sh_header sh)) v \<and> receipt_decode E v = Ok rc \<and>
     log_decode E (msg_data m) = Ok l \<and> l \<in> set (logs rc))"

text \<open>
  The call submits a message whose log the channel's contract has emitted in a final block,
  from the contract \<open>src\<close>, with the next nonce of the channel.
\<close>

definition backed :: "('b, 'd, 'f) runtime_lib \<Rightarrow> runtime_constants \<Rightarrow> 'b runtime \<Rightarrow> ('d, 'f) call \<Rightarrow> h160 \<Rightarrow> bool" where
  "backed L K s c src \<longleftrightarrow> (\<exists>m l. logged (rl_eth L) (headers (rt_light_client s)) m l \<and>
     descends (headers (rt_light_client s)) (id_hash (finalized_block (rt_light_client s))) (block_hash (msg_proof m)) \<and>
     ((\<exists>env. c = BasicInboundSubmit m \<and> basic_envelope_try_from (rl_abi L) l = Some env \<and>
         log_address l = bin_source_channel (rt_basic_in s) \<and> benv_source env = src \<and> benv_nonce env = bin_nonce (rt_basic_in s) + 1) \<or>
      (\<exists>env. c = IncentivizedInboundSubmit m \<and> incentivized_envelope_try_from (rl_abi L) (fee_converter K) l = Ok env \<and>
         log_address l = iin_source_channel (rt_incentivized_in s) \<and> ienv_source env = src \<and>
         ienv_nonce env = iin_nonce (rt_incentivized_in s) + 1)))"

lemma envelope_channels:
  "basic_envelope_try_from A l = Some env \<Longrightarrow> benv_channel env = log_address l"
  "incentivized_envelope_try_from A f l = Ok env' \<Longrightarrow> ienv_channel env' = log_address l"
  subgoal by (auto simp: basic_envelope_try_from_def split: option.splits list.splits abi_token.splits)
  subgoal
    unfolding incentivized_envelope_try_from_def
    apply (clarsimp simp: ok_simps split: option.split_asm list.split_asm abi_token.split_asm)
    subgoal for _ _ rest by (cases rest; cases "hd rest"; auto)
    done
  done

lemma verified_log:
  assumes "lc_reachable (lc_cfg L K) C" "rc_verify_pow K" "verify (lc_cfg L K) m C = (Ok l, C)"
  shows "logged (rl_eth L) (headers C) m l \<and> descends (headers C) (id_hash (finalized_block C)) (block_hash (msg_proof m))"
proof
  have "fst (verify (lc_cfg L K) m C) = Ok l" "lc_lib (lc_cfg L K) = rl_eth L" using assms(3) by (simp_all add: lc_cfg_def)
  then show "logged (rl_eth L) (headers C) m l" unfolding verify_Ok_iff logged_def by metis
  show "descends (headers C) (id_hash (finalized_block C)) (block_hash (msg_proof m))"
    using verified_final [OF assms(1) _ assms(3)] assms(2) by (simp add: lc_cfg_def)
qed

text \<open>A submission that changes an issuance, or the tokens, is backed.\<close>

lemma basic_growth:
  assumes "lc_reachable (lc_cfg L K) (rt_light_client s)" "rc_verify_pow K"
    and "runtime_dispatch L K (BasicInboundSubmit m) org s = (Ok (), s')"
  shows "total_issuance (rt_assets s') b \<noteq> total_issuance (rt_assets s) b \<Longrightarrow> backed L K s (BasicInboundSubmit m) (peer_of s b)"
    and "rt_nft s' \<noteq> rt_nft s \<Longrightarrow> backed L K s (BasicInboundSubmit m) (erc721_address (rt_erc721 s))"
proof -
  obtain l env where v: "verify (lc_cfg L K) m (rt_light_client s) = (Ok l, rt_light_client s)"
      and env: "basic_envelope_try_from (rl_abi L) l = Some env" "benv_channel env = bin_source_channel (rt_basic_in s)"
        "benv_nonce env = bin_nonce (rt_basic_in s) + 1"
      and d: "dispatch (dispatch_cfg L (runtime_dispatch L K)) (benv_source env) \<lparr>channel_id = Basic, mid_nonce = benv_nonce env\<rparr>
        (benv_payload env) (s\<lparr>rt_basic_in := (rt_basic_in s)\<lparr>bin_nonce := benv_nonce env\<rparr>\<rparr>) = (Ok (), s')"
    using assms(3) by (rule basic_accepted)
  have b: "backed L K s (BasicInboundSubmit m) (benv_source env)"
    using verified_log [OF assms(1,2) v] env envelope_channels(1) [OF env(1)] unfolding backed_def by metis
  have "benv_source env = peer_of s b \<or> total_issuance (rt_assets s') b = total_issuance (rt_assets s) b"
    using dispatch_Ok_keeps [OF eth_growth.message_keeps _ d, of b "total_issuance (rt_assets s) b" "peer_of s b"]
    by (auto simp: peer_of_def split: asset_id.splits)
  then show "total_issuance (rt_assets s') b \<noteq> total_issuance (rt_assets s) b \<Longrightarrow> backed L K s (BasicInboundSubmit m) (peer_of s b)"
    using b by auto
  have "benv_source env = erc721_address (rt_erc721 s) \<or> rt_nft s' = rt_nft s"
    using dispatch_Ok_keeps [OF eth_tokens.message_keeps _ d, of "erc721_address (rt_erc721 s)" "rt_nft s"] by auto
  then show "rt_nft s' \<noteq> rt_nft s \<Longrightarrow> backed L K s (BasicInboundSubmit m) (erc721_address (rt_erc721 s))" using b by auto
qed

lemma incentivized_growth:
  assumes "lc_reachable (lc_cfg L K) (rt_light_client s)" "rc_verify_pow K"
    and "runtime_dispatch L K (IncentivizedInboundSubmit m) org s = (Ok (), s')"
  shows "total_issuance (rt_assets s') b \<noteq> total_issuance (rt_assets s) b \<Longrightarrow> backed L K s (IncentivizedInboundSubmit m) (peer_of s b)"
    and "rt_nft s' \<noteq> rt_nft s \<Longrightarrow> backed L K s (IncentivizedInboundSubmit m) (erc721_address (rt_erc721 s))"
proof -
  obtain l env f where v: "verify (lc_cfg L K) m (rt_light_client s) = (Ok l, rt_light_client s)"
      and env: "incentivized_envelope_try_from (rl_abi L) (fee_converter K) l = Ok env" "ienv_channel env = iin_source_channel (rt_incentivized_in s)"
        "ienv_nonce env = iin_nonce (rt_incentivized_in s) + 1"
      and d: "dispatch (dispatch_cfg L (runtime_dispatch L K)) (ienv_source env) \<lparr>channel_id = Incentivized, mid_nonce = ienv_nonce env\<rparr>
        (ienv_payload env) (s\<lparr>rt_incentivized_in := (rt_incentivized_in s)\<lparr>iin_nonce := ienv_nonce env\<rparr>, rt_foreign := f\<rparr>) = (Ok (), s')"
    using assms(3) by (rule incentivized_accepted)
  have b: "backed L K s (IncentivizedInboundSubmit m) (ienv_source env)"
    using verified_log [OF assms(1,2) v] env envelope_channels(2) [OF env(1)] unfolding backed_def by metis
  have "ienv_source env = peer_of s b \<or> total_issuance (rt_assets s') b = total_issuance (rt_assets s) b"
    using dispatch_Ok_keeps [OF eth_growth.message_keeps _ d, of b "total_issuance (rt_assets s) b" "peer_of s b"]
    by (auto simp: peer_of_def split: asset_id.splits)
  then show "total_issuance (rt_assets s') b \<noteq> total_issuance (rt_assets s) b \<Longrightarrow> backed L K s (IncentivizedInboundSubmit m) (peer_of s b)"
    using b by auto
  have "ienv_source env = erc721_address (rt_erc721 s) \<or> rt_nft s' = rt_nft s"
    using dispatch_Ok_keeps [OF eth_tokens.message_keeps _ d, of "erc721_address (rt_erc721 s)" "rt_nft s"] by auto
  then show "rt_nft s' \<noteq> rt_nft s \<Longrightarrow> backed L K s (IncentivizedInboundSubmit m) (erc721_address (rt_erc721 s))" using b by auto
qed

text \<open>
  C4. When a call other than a foreign one, dispatched by a native origin on a state whose
  light client was reached by imports with proof-of-work (runtime/snowbridge and
  runtime/rococo), makes the issuance of an asset grow or a non-fungible token appear, it is
  a submission on one of the two channels. Its log is in a receipt that a chain of trie
  nodes proves to be under the receipts root of the block the message names; that block is
  the finalized block or an ancestor of it; the address of the log is the configured channel
  contract, its source the configured peer contract of that asset (ETH app, ERC20 app or
  ERC721 app), and its nonce the next one.
\<close>

theorem growth_is_backed:
  assumes "lc_reachable (lc_cfg L K) (rt_light_client s)" "rc_verify_pow K"
    and "runtime_dispatch L K c (of_native org) s = (r, s')" "returns r" "\<And>f cs. c \<noteq> ForeignCall f cs"
  shows "(total_issuance (rt_assets s) b < total_issuance (rt_assets s') b \<longrightarrow> backed L K s c (peer_of s b)) \<and>
    (tokens (rt_nft s) t = None \<and> tokens (rt_nft s') t \<noteq> None \<longrightarrow> backed L K s c (erc721_address (rt_erc721 s)))"
proof (cases "s' = s \<or> plain_call c")
  have run: "run_call L K (runtime_dispatch L K) c (of_native org) s = (r, s')"
    using assms(3) by (subst (asm) runtime_dispatch_fix)
  case True
  then have "total_issuance (rt_assets s') b \<le> total_issuance (rt_assets s) b \<and> (tokens (rt_nft s') t = None \<or> tokens (rt_nft s) t \<noteq> None)"
  proof
    assume "plain_call c"
    from keepsD [OF native_growth.plain_call_keeps [OF this] _ run assms(4)]
    show ?thesis by blast
  qed auto
  then show ?thesis by auto
next
  have run: "run_call L K (runtime_dispatch L K) c (of_native org) s = (r, s')"
    using assms(3) by (subst (asm) runtime_dispatch_fix)
  case False
  have Err: "r = Ok ()" if "\<And>e. r = Err e \<Longrightarrow> s' = s" using that False assms(4) by (cases r) (auto simp: returns_def)
  from False have "(\<exists>m. c = BasicInboundSubmit m) \<or> (\<exists>m. c = IncentivizedInboundSubmit m)"
    using run assms(5) by (cases c) (auto dest: native_mint_fails)
  then show ?thesis
  proof (elim disjE exE)
    fix m assume m: "c = BasicInboundSubmit m"
    have "r = Ok ()" using assms(3) rt_basic_inbound.nonces.refused by (intro Err) (auto simp: m runtime_calls)
    with basic_growth [OF assms(1,2), of m "of_native org" s'] assms(3) m show ?thesis by (metis order_less_irrefl)
  next
    fix m assume m: "c = IncentivizedInboundSubmit m"
    have "r = Ok ()" using assms(3) rt_incentivized_inbound.nonces.refused by (intro Err) (auto simp: m runtime_calls)
    with incentivized_growth [OF assms(1,2), of m "of_native org" s'] assms(3) m show ?thesis by (metis order_less_irrefl)
  qed
qed

lemma sample_client: "lc_reachable (lc_cfg sample_rl snowbridge) (rt_light_client sample_rt)"
  unfolding sample_rt_def by (simp, rule lc_reachable.genesis [OF lc_genesis_run]) simp_all

lemma sample_mint_run:
  "\<exists>s'. runtime_dispatch sample_rl snowbridge (BasicInboundSubmit sample_mint) (Signed 3) sample_rt = (Ok (), s') \<and>
     total_issuance (rt_assets s') ETH = 142 \<and> balances (rt_assets s') ETH 2 = 42"
proof -
  have env: "basic_envelope_try_from sample_abi \<lparr>log_address = 0, log_topics = [], log_data = [30]\<rparr> =
      Some \<lparr>benv_channel = 0, benv_source = 77, benv_nonce = 1, benv_payload = [9]\<rparr>"
    by (simp add: basic_envelope_try_from_def sample_abi_def low_u64_def)
  have call: "rl_decode_call sample_rl [9] = Some (EthMint 5 2 42)" by (simp add: sample_rl_def)
  let ?s = "sample_rt\<lparr>rt_basic_in := \<lparr>bin_source_channel = 0, bin_nonce = 1\<rparr>\<rparr>"
  have "\<exists>s'. eth_mint (eth_cfg sample_rl snowbridge) (DispatchOrigin 77) 5 2 42 ?s = (Ok (), s') \<and>
      total_issuance (rt_assets s') ETH = 142 \<and> balances (rt_assets s') ETH 2 = 42"
    by (simp add: eth_mint_def transactional_def eth_cfg_def single_asset_adaptor_def rt_asset_simps zoom_def ext_simps
        deposit_run checked_add_def sample_rt_def sample_rt_assets_def empty_assets_def rt_sys_def)
  then obtain s' where s': "eth_mint (eth_cfg sample_rl snowbridge) (DispatchOrigin 77) 5 2 42 ?s = (Ok (), s')"
      "total_issuance (rt_assets s') ETH = 142" "balances (rt_assets s') ETH 2 = 42" by blast
  have d: "dispatch (dispatch_cfg sample_rl (runtime_dispatch sample_rl snowbridge)) 77 \<lparr>channel_id = Basic, mid_nonce = 1\<rparr> [9] ?s =
      (Ok (), deposit_event rt_sys (MessageDispatched \<lparr>channel_id = Basic, mid_nonce = 1\<rparr> (Ok ())) s')"
    using call s'(1) by (simp add: dispatch_def dispatch_cfg_def call_filter_all_def runtime_calls)
  have bin: "rt_basic_in sample_rt = \<lparr>bin_source_channel = 0, bin_nonce = 0\<rparr>" by (simp add: sample_rt_def)
  have "runtime_dispatch sample_rl snowbridge (BasicInboundSubmit sample_mint) (Signed 3) sample_rt =
      (Ok (), deposit_event rt_sys (MessageDispatched \<lparr>channel_id = Basic, mid_nonce = 1\<rparr> (Ok ())) s')"
    unfolding runtime_calls basic_submit_Ok
    using env d bin by (simp add: basic_in_cfg_def rt_verifier_run sample_mint_verified st_defs)
  then show ?thesis using s' by (simp add: rt_sys_def)
qed

theorem growth_is_backed_witness:
  "\<exists>s'. runtime_dispatch sample_rl snowbridge (BasicInboundSubmit sample_mint) (Signed 3) sample_rt = (Ok (), s') \<and>
     total_issuance (rt_assets sample_rt) ETH = 100 \<and> total_issuance (rt_assets s') ETH = 142 \<and>
     backed sample_rl snowbridge sample_rt (BasicInboundSubmit sample_mint) 77"
proof -
  obtain s' where s': "runtime_dispatch sample_rl snowbridge (BasicInboundSubmit sample_mint) (of_native (NSigned 3)) sample_rt = (Ok (), s')"
      "total_issuance (rt_assets s') ETH = 142"
    using sample_mint_run by auto
  have k: "rc_verify_pow snowbridge" "total_issuance (rt_assets sample_rt) ETH = 100" "peer_of sample_rt ETH = 77"
    by (simp_all add: snowbridge_def sample_rt_def sample_rt_assets_def peer_of_def)
  have "backed sample_rl snowbridge sample_rt (BasicInboundSubmit sample_mint) (peer_of sample_rt ETH)"
    using growth_is_backed [OF sample_client k(1) s'(1), of ETH] s'(2) k(2) by auto
  with s' k show ?thesis by auto
qed

end
