(* ===== verification/Runtime_Flows.thy ===== *)
theory Runtime_Flows
  imports Runtime_Props
begin

text \<open>
  How messages and funds flow through the runtime: inbound messages are taken in order, outbound
  messages are committed in order and in time, the hooks that do so stay within their weights,
  and the applications move exactly what they announce.
\<close>

section \<open>Inbound messages\<close>

lemma basic_messages_in_order:
  assumes "submit_all (\<lambda>org m. runtime_dispatch L K (BasicInboundSubmit m) org) cs s = (ms, s')"
  shows "map (basic_number (rl_abi L) (message_log L)) ms =
      map (\<lambda>k. Some (bin_nonce (rt_basic_in s) + of_nat k)) [1..<Suc (length ms)] \<and>
    bin_nonce (rt_basic_in s') = bin_nonce (rt_basic_in s) + of_nat (length ms) \<and>
    (length ms < 2 ^ 64 \<longrightarrow> distinct ms)"
proof -
  have run: "submit_all (basic_submit (rt_basic_in_cfg L K)) cs s = (ms, s')"
    using assms by (simp add: runtime_calls)
  have "distinct ms" if "length ms < 2 ^ 64"
    using rt_basic_inbound.nonces.no_replay [OF run that] by (simp add: distinct_map)
  then show ?thesis
    using rt_basic_inbound.nonces.submit_all_numbers [OF run] by (simp add: basic_in_cfg_def st_defs del: upt_Suc)
qed

lemma incentivized_messages_in_order:
  assumes "submit_all (\<lambda>org m. runtime_dispatch L K (IncentivizedInboundSubmit m) org) cs s = (ms, s')"
  shows "map (incentivized_number (rl_abi L) (fee_converter K) (message_log L)) ms =
      map (\<lambda>k. Some (iin_nonce (rt_incentivized_in s) + of_nat k)) [1..<Suc (length ms)] \<and>
    iin_nonce (rt_incentivized_in s') = iin_nonce (rt_incentivized_in s) + of_nat (length ms) \<and>
    (length ms < 2 ^ 64 \<longrightarrow> distinct ms)"
proof -
  have run: "submit_all (incentivized_submit (rt_incentivized_in_cfg L K)) cs s = (ms, s')"
    using assms by (simp add: runtime_calls)
  have "distinct ms" if "length ms < 2 ^ 64"
    using rt_incentivized_inbound.nonces.no_replay [OF run that] by (simp add: distinct_map)
  then show ?thesis
    using rt_incentivized_inbound.nonces.submit_all_numbers [OF run] by (simp add: incentivized_in_cfg_def st_defs del: upt_Suc)
qed

text \<open>
  C6. Of any sequence of submissions to the basic or to the incentivized inbound channel,
  the accepted messages carry consecutive nonces from the stored one on, in the order of
  submission, and none is accepted twice.
\<close>

theorem inbound_messages_in_order:
  "(submit_all (\<lambda>org m. runtime_dispatch L K (BasicInboundSubmit m) org) cs s = (ms, s') \<longrightarrow>
      map (basic_number (rl_abi L) (message_log L)) ms =
      map (\<lambda>k. Some (bin_nonce (rt_basic_in s) + of_nat k)) [1..<Suc (length ms)] \<and>
    bin_nonce (rt_basic_in s') = bin_nonce (rt_basic_in s) + of_nat (length ms) \<and>
    (length ms < 2 ^ 64 \<longrightarrow> distinct ms)) \<and>
   (submit_all (\<lambda>org m. runtime_dispatch L K (IncentivizedInboundSubmit m) org) cs s = (ms, s') \<longrightarrow>
      map (incentivized_number (rl_abi L) (fee_converter K) (message_log L)) ms =
      map (\<lambda>k. Some (iin_nonce (rt_incentivized_in s) + of_nat k)) [1..<Suc (length ms)] \<and>
    iin_nonce (rt_incentivized_in s') = iin_nonce (rt_incentivized_in s) + of_nat (length ms) \<and>
    (length ms < 2 ^ 64 \<longrightarrow> distinct ms))"
  using basic_messages_in_order [of L K cs s ms s'] incentivized_messages_in_order [of L K cs s ms s'] by blast

section \<open>Outbound messages\<close>

lemma out_views [simp]:
  "sget (bout_st (basic_out_cfg L K)) s = rt_basic_out s" "sget (iout_st (incentivized_out_cfg L K)) s = rt_incentivized_out s"
  by (simp_all add: cfg_defs st_defs)

lemma basic_commits_complete:
  assumes "rt_reachable L K s"
    and "queue_run (basic_out_submit (basic_out_cfg L K))
      (\<lambda>s. snd (basic_commit (basic_out_cfg L K) s :: (dispatch_error, u64) result \<times> _)) (\<lambda>s. bout_queue (rt_basic_out s)) ops s = (ms, s')"
  shows "map (\<lambda>m. unat (bm_nonce m)) (ms @ bout_queue (rt_basic_out s')) =
      [Suc (unat (bout_nonce (rt_basic_out s))) - length (bout_queue (rt_basic_out s))..<Suc (unat (bout_nonce (rt_basic_out s')))] \<and>
    basic_queue_wf (rt_basic_out s')"
proof -
  have "basic_queue_wf (rt_basic_out s)"
    using rt_reachable_rt_inv [OF assms(1)] by (simp add: rt_inv_def)
  then show ?thesis
    using rt_basic_out.out.run_complete [of L K ops s ms s'] assms(2)
    unfolding out_views basic_queue_ok_iff [unfolded out_views] by blast
qed

lemma incentivized_commits_complete:
  assumes "rt_reachable L K s"
    and "queue_run (incentivized_out_submit (incentivized_out_cfg L K))
      (\<lambda>s. snd (incentivized_commit (incentivized_out_cfg L K) s :: (dispatch_error, u64) result \<times> _))
      (\<lambda>s. iout_queue (rt_incentivized_out s)) ops s = (ms, s')"
  shows "map (\<lambda>m. unat (im_nonce m)) (ms @ iout_queue (rt_incentivized_out s')) =
      [Suc (unat (iout_nonce (rt_incentivized_out s))) - length (iout_queue (rt_incentivized_out s))..<
        Suc (unat (iout_nonce (rt_incentivized_out s')))] \<and>
    incentivized_queue_wf (rt_incentivized_out s')"
proof -
  have "incentivized_queue_wf (rt_incentivized_out s)"
    using rt_reachable_rt_inv [OF assms(1)] by (simp add: rt_inv_def)
  then show ?thesis
    using rt_incentivized_out.out.run_complete [of L K ops s ms s'] assms(2)
    unfolding out_views incentivized_queue_ok_iff [unfolded out_views] by blast
qed

text \<open>
  C7. Over any sequence of submissions and commits on the basic or on the incentivized
  outbound channel, the committed messages followed by those still queued carry every nonce
  from the oldest queued one to the current one, once and in order.
\<close>

theorem outbound_commits_complete:
  assumes "rt_reachable L K s"
  shows "(queue_run (basic_out_submit (basic_out_cfg L K))
      (\<lambda>s. snd (basic_commit (basic_out_cfg L K) s :: (dispatch_error, u64) result \<times> _)) (\<lambda>s. bout_queue (rt_basic_out s)) ops s = (ms, s') \<longrightarrow>
      map (\<lambda>m. unat (bm_nonce m)) (ms @ bout_queue (rt_basic_out s')) =
      [Suc (unat (bout_nonce (rt_basic_out s))) - length (bout_queue (rt_basic_out s))..<Suc (unat (bout_nonce (rt_basic_out s')))] \<and>
    basic_queue_wf (rt_basic_out s')) \<and>
    (queue_run (incentivized_out_submit (incentivized_out_cfg L K))
      (\<lambda>s. snd (incentivized_commit (incentivized_out_cfg L K) s :: (dispatch_error, u64) result \<times> _))
      (\<lambda>s. iout_queue (rt_incentivized_out s)) ops s = (ns, s') \<longrightarrow>
      map (\<lambda>m. unat (im_nonce m)) (ns @ iout_queue (rt_incentivized_out s')) =
      [Suc (unat (iout_nonce (rt_incentivized_out s))) - length (iout_queue (rt_incentivized_out s))..<
        Suc (unat (iout_nonce (rt_incentivized_out s')))] \<and>
    incentivized_queue_wf (rt_incentivized_out s'))"
  using basic_commits_complete [OF assms] incentivized_commits_complete [OF assms] by blast

section \<open>Nested dispatch\<close>

text \<open>
  C24. The nesting of message dispatch ends: two levels give the same calls as any greater
  number, so the dispatch of the runtime is a fixed point of the calls.
\<close>

theorem two_levels_suffice:
  "dispatch_level L K (n + 2) = runtime_dispatch L K \<and> runtime_dispatch L K = run_call L K (runtime_dispatch L K)"
  using dispatch_level_more [of L K n] runtime_dispatch_fix [of L K] by (simp add: runtime_dispatch_def)

section \<open>Hooks\<close>

lemma reachable_intervals:
  "rt_reachable L K s \<Longrightarrow> bout_interval (rt_basic_out s) \<noteq> 0 \<and> iout_interval (rt_incentivized_out s) \<noteq> 0"
proof (induction rule: rt_reachable.induct)
  case (start g b s)
  then show ?case using genesis_run [OF start(1)] by (simp add: genesis_ok_def)
next
  case (step s s')
  then show ?case using rt_config_step [OF step(2)] by (simp add: rt_config_def)
qed

lemma unit_hook: "linear_hook unit_weights"
  by (simp add: linear_hook_def unit_weights_def)

text \<open>
  C23. On reachable states of the three runtimes the hooks of both outbound channels always
  return, and their weights together are at most half a percent of a block.
\<close>

theorem hooks_stay_light:
  assumes "rt_reachable L K s" "K \<in> {snowbridge, rococo, local_runtime}"
  shows "\<exists>w v. fst (basic_on_initialize (basic_out_cfg L K) now s) = (Ok w :: (dispatch_error, u64) result) \<and>
    fst (incentivized_on_initialize (incentivized_out_cfg L K) now s) = (Ok v :: (dispatch_error, u64) result) \<and>
    unat w + unat v \<le> unat MAXIMUM_BLOCK_WEIGHT div 200"
proof -
  have W: "linear_hook (rc_basic_weights K)" "linear_hook (rc_incentivized_weights K)"
    using assms(2) by (auto simp: snowbridge_def rococo_def local_runtime_def snowbridge_hooks rococo_hooks unit_hook)
  have q: "basic_queue_wf (rt_basic_out s)" "incentivized_queue_wf (rt_incentivized_out s)"
    using rt_reachable_rt_inv [OF assms(1)] by (simp_all add: rt_inv_def)
  note iv = reachable_intervals [OF assms(1)]
  have "\<exists>w. fst (basic_on_initialize (basic_out_cfg L K) now s) = (Ok w :: (dispatch_error, u64) result) \<and> unat w \<le> 1056000000"
    by (rule basic_hook_bound) (use W q iv in \<open>auto simp: cfg_defs st_defs basic_queue_wf_def queue_wf_def list_all_iff
      MaxMessagesPerCommit_def MaxMessagePayloadSize_def\<close>)
  moreover have "\<exists>v. fst (incentivized_on_initialize (incentivized_out_cfg L K) now s) = (Ok v :: (dispatch_error, u64) result) \<and> unat v \<le> 1056000000"
    by (rule incentivized_hook_bound) (use W q iv in \<open>auto simp: cfg_defs st_defs incentivized_queue_wf_def queue_wf_def list_all_iff
      MaxMessagesPerCommit_def MaxMessagePayloadSize_def\<close>)
  moreover have "unat MAXIMUM_BLOCK_WEIGHT div 200 = 2500000000" by (simp add: MAXIMUM_BLOCK_WEIGHT_def unat_div_distrib)
  ultimately show ?thesis by fastforce
qed


section \<open>An interval contains a block in which it is due\<close>

lemma due_within_interval:
  assumes "iv \<noteq> 0" "unat now + unat iv < 2 ^ 32"
  shows "\<exists>d < unat iv. interval_due (now + of_nat d) iv = Ok True"
proof -
  let ?d = "(unat iv - unat now mod unat iv) mod unat iv"
  have iv: "unat iv > 0" using assms(1) by (simp add: unat_gt_0)
  then have d: "?d < unat iv" by simp
  then have n: "unat (now + of_nat ?d) = unat now + ?d"
    using assms(2) by (simp add: unat_word_ariths unat_of_nat)
  have "(unat now + ?d) mod unat iv = (unat now mod unat iv + (unat iv - unat now mod unat iv)) mod unat iv"
    by (simp add: mod_simps)
  also have "\<dots> = 0" using mod_less_divisor [OF iv, of "unat now"] by simp
  finally have "(now + of_nat ?d) mod iv = 0" by (simp add: word_unat_eq_iff unat_mod_distrib n)
  then have "interval_due (now + of_nat ?d) iv = Ok True" using assms(1) by (simp only: interval_due_def) simp
  then show ?thesis using d by blast
qed

section \<open>Funds\<close>

definition message_fee :: "channel_id \<Rightarrow> 'b runtime \<Rightarrow> u256" where
  "message_fee c s = (case c of Basic \<Rightarrow> 0 | Incentivized \<Rightarrow> iout_fee (rt_incentivized_out s))"

text \<open>Exactly one message was queued, on the given channel.\<close>

definition sent :: "channel_id \<Rightarrow> h160 \<Rightarrow> bytes \<Rightarrow> 'b runtime \<Rightarrow> 'b runtime \<Rightarrow> bool" where
  "sent c target p s s' \<longleftrightarrow> (case c of
       Basic \<Rightarrow> rt_incentivized_out s' = rt_incentivized_out s \<and> bout_queue (rt_basic_out s') = bout_queue (rt_basic_out s) @
         [\<lparr>bm_target = target, bm_nonce = bout_nonce (rt_basic_out s) + 1, bm_payload = p\<rparr>]
     | Incentivized \<Rightarrow> rt_basic_out s' = rt_basic_out s \<and> iout_queue (rt_incentivized_out s') = iout_queue (rt_incentivized_out s) @
         [\<lparr>im_target = target, im_nonce = iout_nonce (rt_incentivized_out s) + 1, im_fee = message_fee c s, im_payload = p\<rparr>])"

lemma router_exact:
  assumes "rt_router L K c w target p s = (Ok (), s')"
  shows "sent c target p s s' \<and> withdraw ETH w (message_fee c s) (rt_assets s) = (Ok (), rt_assets s')"
proof (cases c)
  case Basic
  then show ?thesis
    using assms by (auto simp: rt_router_def basic_out_submit_Ok Let_def cfg_defs st_defs rt_sys_def bout_nonce_item_def
        bout_update_def sent_def message_fee_def withdraw_run checked_add_def split: if_splits)
next
  case Incentivized
  then show ?thesis
    using assms by (auto simp: rt_router_def incentivized_out_submit_Ok Let_def cfg_defs st_defs rt_sys_def iout_nonce_item_def
        iout_update_def sent_def message_fee_def single_asset_adaptor_def rt_multi_asset_def zoom_multi_def ok_simps
        assets_multi_def Ether_def checked_add_def split: if_splits)
qed


lemma withdraw_effect:
  assumes "assets_inv A" "withdraw a w x A = (Ok (), A')"
  shows "assets_inv A' \<and> (\<forall>b v. unat (balances A b v) = unat (balances A' b v) + (if v = w \<and> b = a then unat x else 0) \<and>
    unat (total_issuance A b) = unat (total_issuance A' b) + (if b = a then unat x else 0))"
  using assets_laws.withdraw_ok [OF assms(1), of a w x A'] assms(2) by (auto simp: assets_multi_def others_kept_def)

definition burned :: "asset_id \<Rightarrow> account_id \<Rightarrow> nat \<Rightarrow> nat \<Rightarrow> assets \<Rightarrow> assets \<Rightarrow> bool" where
  "burned a w x fee A A' \<longleftrightarrow> (\<forall>b v.
     unat (balances A b v) = unat (balances A' b v) + (if v = w \<and> b = a then x else 0) + (if v = w \<and> b = ETH then fee else 0) \<and>
     unat (total_issuance A b) = unat (total_issuance A' b) + (if b = a then x else 0) + (if b = ETH then fee else 0))"

lemma two_withdrawals:
  assumes "assets_inv A" "withdraw a w x A = (Ok (), A1)" "withdraw ETH w fee A1 = (Ok (), A')"
  shows "burned a w (unat x) (unat fee) A A'"
  using withdraw_effect [OF assms(1,2)] withdraw_effect [OF _ assms(3)] by (simp add: burned_def)

lemma sent_event: "sent c target p s (deposit_event rt_sys e s') = sent c target p s s'"
  by (simp add: sent_def rt_sys_def split: channel_id.splits)

lemma sent_assets: "sent c target p (s\<lparr>rt_assets := A\<rparr>) s' = sent c target p s s'" "message_fee c (s\<lparr>rt_assets := A\<rparr>) = message_fee c s"
  by (simp_all add: sent_def message_fee_def split: channel_id.splits)

lemma eth_burn_exact:
  assumes "rt_reachable L K s" "runtime_dispatch L K (EthBurn c recipient x) (Signed w) s = (Ok (), s')"
  shows "burned ETH w (unat x) (unat (message_fee c s)) (rt_assets s) (rt_assets s') \<and>
    sent c (rt_eth_address s) (eth_payload_encode (rl_abi L) \<lparr>ep_sender = w, ep_recipient = recipient, ep_amount = x\<rparr>) s s'"
proof -
  obtain A u where A: "withdraw ETH w x (rt_assets s) = (Ok (), A)"
      and u: "rt_router L K c w (rt_eth_address s) (eth_payload_encode (rl_abi L) \<lparr>ep_sender = w, ep_recipient = recipient, ep_amount = x\<rparr>)
        (s\<lparr>rt_assets := A\<rparr>) = (Ok (), u)"
      and s': "s' = deposit_event rt_sys (EthBurned w recipient x) u"
    using assms(2) unfolding runtime_calls eth_burn_def
    by (auto simp: ok_simps Let_def eth_cfg_def single_asset_adaptor_def rt_asset_simps)
  have "assets_inv (rt_assets s)" using rt_reachable_rt_inv [OF assms(1)] by (simp add: rt_inv_def)
  then show ?thesis
    using router_exact [OF u] two_withdrawals [OF _ A, of "message_fee c s" "rt_assets u"] s'
    by (simp add: sent_event sent_assets) (simp add: rt_sys_def)
qed

lemma erc20_burn_exact:
  assumes "rt_reachable L K s" "runtime_dispatch L K (Erc20Burn c t recipient x) (Signed w) s = (Ok (), s')"
  shows "burned (Token t) w (unat x) (unat (message_fee c s)) (rt_assets s) (rt_assets s') \<and>
    sent c (rt_erc20_address s) (erc20_payload_encode (rl_abi L)
      \<lparr>e20p_token = t, e20p_sender = w, e20p_recipient = recipient, e20p_amount = x\<rparr>) s s'"
proof -
  obtain A u where A: "withdraw (Token t) w x (rt_assets s) = (Ok (), A)"
      and u: "rt_router L K c w (rt_erc20_address s) (erc20_payload_encode (rl_abi L)
        \<lparr>e20p_token = t, e20p_sender = w, e20p_recipient = recipient, e20p_amount = x\<rparr>) (s\<lparr>rt_assets := A\<rparr>) = (Ok (), u)"
      and s': "s' = deposit_event rt_sys (Erc20Burned t w recipient x) u"
    using assms(2) unfolding runtime_calls erc20_burn_def
    by (auto simp: ok_simps Let_def erc20_cfg_def rt_asset_simps)
  have "assets_inv (rt_assets s)" using rt_reachable_rt_inv [OF assms(1)] by (simp add: rt_inv_def)
  then show ?thesis
    using router_exact [OF u] two_withdrawals [OF _ A, of "message_fee c s" "rt_assets u"] s'
    by (simp add: sent_event sent_assets) (simp add: rt_sys_def)
qed

text \<open>
  C14. A burn of ether or of ERC20 tokens that succeeds takes the amount from the caller and
  from the issuance of that asset, the fee of the channel in ether from the caller, changes
  no other balance, and queues exactly one message, to the app contract with the encoded
  sender, recipient and amount.
\<close>

theorem app_burns_exact:
  assumes "rt_reachable L K s"
  shows "(runtime_dispatch L K (EthBurn c recipient x) (Signed w) s = (Ok (), s') \<longrightarrow>
      burned ETH w (unat x) (unat (message_fee c s)) (rt_assets s) (rt_assets s') \<and>
    sent c (rt_eth_address s) (eth_payload_encode (rl_abi L) \<lparr>ep_sender = w, ep_recipient = recipient, ep_amount = x\<rparr>) s s') \<and>
    (runtime_dispatch L K (Erc20Burn c t recipient x) (Signed w) s = (Ok (), s') \<longrightarrow>
      burned (Token t) w (unat x) (unat (message_fee c s)) (rt_assets s) (rt_assets s') \<and>
    sent c (rt_erc20_address s) (erc20_payload_encode (rl_abi L)
      \<lparr>e20p_token = t, e20p_sender = w, e20p_recipient = recipient, e20p_amount = x\<rparr>) s s')"
  using eth_burn_exact [OF assms] erc20_burn_exact [OF assms] by blast

lemma rt_transfer_law:
  assumes C: "transfer_law (rl_currency L)"
  shows "transfer_law (rt_currency L :: 'b runtime currency)"
  unfolding transfer_law_def
proof (intro allI impI)
  fix w v x k r and s s' :: "'b runtime"
  assume "cur_transfer (rt_currency L) w v x k s = (r, s')"
  then obtain t where t: "cur_transfer (rl_currency L) w v x k (rt_foreign s) = (r, t)" "s' = s\<lparr>rt_foreign := t\<rparr>"
    by (auto simp: rt_currency_def zoom_currency_def zoom_def st_defs split: prod.splits)
  note C [unfolded transfer_law_def, rule_format, OF t(1)]
  then show "case r of
        Ok _ \<Rightarrow> unmoved (rt_currency L) {w, v} s s' \<and>
          (if w = v then cur_free (rt_currency L) w s' = cur_free (rt_currency L) w s \<and>
             cur_issuance (rt_currency L) s' = cur_issuance (rt_currency L) s
           else unat (cur_free (rt_currency L) v s') = unat (cur_free (rt_currency L) v s) + unat x \<and>
             (\<exists>dust. unat (cur_free (rt_currency L) w s) = unat (cur_free (rt_currency L) w s') + unat x + unat dust \<and>
                cur_issuance (rt_currency L) s' = cur_issuance (rt_currency L) s - dust \<and>
                (dust = 0 \<or> k = AllowDeath \<and> dust < cur_minimum_balance (rt_currency L) \<and> cur_free (rt_currency L) w s' = 0)))
      | Err _ \<Rightarrow> s' = s
      | _ \<Rightarrow> False"
    using t(2) by (cases r) (auto simp: rt_currency_def zoom_currency_def st_defs unmoved_def)
qed

lemma rt_free [simp]: "cur_free (rt_currency L) w s = cur_free (rl_currency L) w (rt_foreign s)"
  "cur_minimum_balance (rt_currency L) = cur_minimum_balance (rl_currency L)"
  by (simp_all add: rt_currency_def zoom_currency_def st_defs)

text \<open>
  C15. A lock of native tokens that succeeds moves the amount from the caller to the account
  of the pallet, moves no other balance (when it empties the account of the caller, at most
  dust below the minimum balance is lost), and queues exactly one message with the amount
  scaled to 18 decimals.
\<close>

theorem dot_lock_exact:
  assumes "transfer_law (rl_currency L)" "unat (rc_decimals K) \<le> 18" "who \<noteq> rl_into_account L DotPalletId"
    and "runtime_dispatch L K (DotLock c recipient x) (Signed who) s = (Ok (), s')"
  shows "(\<exists>dust. unat (cur_free (rl_currency L) who (rt_foreign s)) =
        unat (cur_free (rl_currency L) who (rt_foreign s')) + unat x + unat dust \<and>
      (dust = 0 \<or> dust < cur_minimum_balance (rl_currency L) \<and> cur_free (rl_currency L) who (rt_foreign s') = 0)) \<and>
    unat (cur_free (rl_currency L) (rl_into_account L DotPalletId) (rt_foreign s')) =
      unat (cur_free (rl_currency L) (rl_into_account L DotPalletId) (rt_foreign s)) + unat x \<and>
    unmoved (rl_currency L) {who, rl_into_account L DotPalletId} (rt_foreign s) (rt_foreign s') \<and>
    (\<exists>wrapped. unat wrapped = unat x * 10 ^ (18 - unat (rc_decimals K)) \<and>
      sent c (rt_dot_address s) (dot_payload_encode (rl_abi L) \<lparr>dp_sender = who, dp_recipient = recipient, dp_amount = wrapped\<rparr>) s s')"
proof -
  have run: "lock (dot_cfg L K) (Signed who) c recipient x s = (Ok (), s')" using assms(4) by (simp add: runtime_calls)
  have fields: "dot_currency (dot_cfg L K) = rt_currency L" "dot_account_id (dot_cfg L K) = rl_into_account L DotPalletId"
    by (simp_all add: dot_cfg_def)
  note moves = rt_dot.lock_moves [of L K who c recipient x s s', unfolded fields, OF rt_transfer_law [OF assms(1)] run assms(3)]
  obtain w b u where w: "wrap_dot x (rc_decimals K) = Some w"
      and u: "rt_router L K c who (rt_dot_address s) (dot_payload_encode (rl_abi L) \<lparr>dp_sender = who, dp_recipient = recipient, dp_amount = w\<rparr>)
        (s\<lparr>rt_foreign := b\<rparr>) = (Ok (), u)"
      and s': "s' = deposit_event rt_sys (Locked who recipient x) u"
    using run unfolding lock_Ok by (auto simp: dot_cfg_def rt_currency_def zoom_currency_def ok_simps st_defs)
  have "unat w = unat x * 10 ^ (18 - unat (rc_decimals K))"
    using wrap_value [OF assms(2), of x] w by (metis option.inject)
  moreover have "sent c (rt_dot_address s) (dot_payload_encode (rl_abi L) \<lparr>dp_sender = who, dp_recipient = recipient, dp_amount = w\<rparr>) s s'"
    using router_exact [OF u] s' by (simp add: sent_event) (simp add: sent_def message_fee_def split: channel_id.splits)
  ultimately show ?thesis using moves by (auto simp: unmoved_def)
qed

text \<open>
  C16. An unlock that succeeds came from the configured DOT contract and moves the amount,
  scaled down from 18 decimals, from the account of the pallet to the recipient, and no
  other balance, provided the scaled amount fits into 128 bits.
\<close>

theorem dot_unlock_exact:
  assumes "transfer_law (rl_currency L)" "unat (rc_decimals K) \<le> 18" "rl_lookup L d = Some w" "w \<noteq> rl_into_account L DotPalletId"
    and "unat v div 10 ^ (18 - unat (rc_decimals K)) < 2 ^ 128"
    and "runtime_dispatch L K (DotUnlock sender d v) org s = (Ok (), s')"
  shows "org = DispatchOrigin (rt_dot_address s) \<and>
    unat (cur_free (rl_currency L) w (rt_foreign s')) =
      unat (cur_free (rl_currency L) w (rt_foreign s)) + unat v div 10 ^ (18 - unat (rc_decimals K)) \<and>
    unat (cur_free (rl_currency L) (rl_into_account L DotPalletId) (rt_foreign s)) =
      unat (cur_free (rl_currency L) (rl_into_account L DotPalletId) (rt_foreign s')) + unat v div 10 ^ (18 - unat (rc_decimals K)) \<and>
    unmoved (rl_currency L) {w, rl_into_account L DotPalletId} (rt_foreign s) (rt_foreign s')"
proof -
  have run: "unlock (dot_cfg L K) org sender d v s = (Ok (), s')" using assms(6) by (simp add: runtime_calls)
  have fields: "dot_currency (dot_cfg L K) = rt_currency L" "dot_account_id (dot_cfg L K) = rl_into_account L DotPalletId"
      "dot_lookup (dot_cfg L K) = rl_lookup L" "dot_decimals (dot_cfg L K) = rc_decimals K"
    by (simp_all add: dot_cfg_def)
  note moves = rt_dot.unlock_moves [of L K org sender d v s s' w, unfolded fields, OF rt_transfer_law [OF assms(1)] run assms(3,4,2,5)]
  have "org = DispatchOrigin (rt_dot_address s)"
    using only_peer_unlocks [OF run] by (simp add: dot_cfg_def st_defs ensure_ethereum_account_Ok)
  then show ?thesis using moves by (auto simp: unmoved_def)
qed

section \<open>Relayer fees\<close>

lemma rt_withdraw_law:
  assumes C: "withdraw_law (rl_currency L)"
  shows "withdraw_law (rt_currency L :: 'b runtime currency)"
  unfolding withdraw_law_def
proof (intro allI impI)
  fix w x r and s s' :: "'b runtime"
  assume "cur_withdraw (rt_currency L) w x KeepAlive s = (r, s')"
  then obtain t where t: "cur_withdraw (rl_currency L) w x KeepAlive (rt_foreign s) = (r, t)" "s' = s\<lparr>rt_foreign := t\<rparr>"
    by (auto simp: rt_currency_def zoom_currency_def zoom_def st_defs split: prod.splits)
  note C [unfolded withdraw_law_def, rule_format, OF t(1)]
  then show "case r of
        Ok imb \<Rightarrow> imb = x \<and> cur_issuance (rt_currency L) s' = cur_issuance (rt_currency L) s \<and> unmoved (rt_currency L) {w} s s' \<and>
          unat (cur_free (rt_currency L) w s) = unat (cur_free (rt_currency L) w s') + unat x
      | Err _ \<Rightarrow> s' = s
      | _ \<Rightarrow> False"
    using t(2) by (cases r) (auto simp: rt_currency_def zoom_currency_def st_defs unmoved_def)
qed

lemma rt_deposit_law:
  assumes C: "deposit_law (rl_currency L)"
  shows "deposit_law (rt_currency L :: 'b runtime currency)"
  unfolding deposit_law_def
proof (intro allI impI)
  fix w x r and s s' :: "'b runtime"
  assume "cur_deposit_into_existing (rt_currency L) w x s = (r, s')"
  then obtain t where t: "cur_deposit_into_existing (rl_currency L) w x (rt_foreign s) = (r, t)" "s' = s\<lparr>rt_foreign := t\<rparr>"
    by (auto simp: rt_currency_def zoom_currency_def zoom_def st_defs split: prod.splits)
  note C [unfolded deposit_law_def, rule_format, OF t(1)]
  then show "case r of
        Ok imb \<Rightarrow> imb = x \<and> cur_issuance (rt_currency L) s' = cur_issuance (rt_currency L) s \<and> unmoved (rt_currency L) {w} s s' \<and>
          unat (cur_free (rt_currency L) w s') = unat (cur_free (rt_currency L) w s) + unat x
      | Err _ \<Rightarrow> s' = s
      | _ \<Rightarrow> False"
    using t(2) by (cases r) (auto simp: rt_currency_def zoom_currency_def st_defs unmoved_def)
qed

lemma rt_currency_laws: "currency_laws (rl_currency L) \<Longrightarrow> currency_laws (rt_currency L :: 'b runtime currency)"
  unfolding currency_laws_def
  using rt_transfer_law [of L] rt_withdraw_law [of L] rt_deposit_law [of L]
  by (auto simp: resolve_law_def rt_currency_def zoom_currency_def st_defs unmoved_def Let_def)

lemma rt_currency_views [simp]:
  "cur_issuance (rt_currency L) s = cur_issuance (rl_currency L) (rt_foreign s)"
  "free_sum (rt_currency L) s = free_sum (rl_currency L) (rt_foreign s)"
  by (simp_all add: rt_currency_def zoom_currency_def st_defs free_sum_def)

text \<open>
  C17. The handling of a message fee always succeeds; it moves native tokens among accounts
  without changing their sum and issuance, or burns at most the fee from both.
\<close>

theorem relayer_fee_conserves:
  assumes "currency_laws (rl_currency L)" "perbill_law (rl_mul_ceil L)" "unat (iin_reward_fraction (rt_incentivized_in s)) \<le> 10 ^ 9"
    and "handle_fee (rt_incentivized_in_cfg L K) x relayer s = (r, s')"
  shows "r = Ok () \<and>
    (cur_issuance (rl_currency L) (rt_foreign s') = cur_issuance (rl_currency L) (rt_foreign s) \<and>
       free_sum (rl_currency L) (rt_foreign s') = free_sum (rl_currency L) (rt_foreign s) \<or>
     (\<exists>burned. burned \<le> x \<and> cur_issuance (rl_currency L) (rt_foreign s') = cur_issuance (rl_currency L) (rt_foreign s) - burned \<and>
       free_sum (rl_currency L) (rt_foreign s) = free_sum (rl_currency L) (rt_foreign s') + unat burned))"
proof -
  have fields: "iin_currency (rt_incentivized_in_cfg L K) = rt_currency L" "iin_mul_ceil (rt_incentivized_in_cfg L K) = rl_mul_ceil L"
      "iin_st (rt_incentivized_in_cfg L K) = incentivized_in_st"
    by (simp_all add: incentivized_in_cfg_def)
  have fraction: "unat (iin_reward_fraction (sget incentivized_in_st s)) \<le> 10 ^ 9" using assms(3) by (simp add: st_defs)
  from handle_fee_conserves [of "rt_incentivized_in_cfg L K", unfolded fields, OF rt_currency_laws [OF assms(1)]
      rt_incentivized_inbound.fee_frame [of L K, unfolded fields] assms(2) fraction assms(4)]
  show ?thesis by simp
qed

section \<open>Tokens and assets\<close>

text \<open>
  C26. Whatever the XCM adapter withdraws from an account it can deposit to the same
  location again, and all balances are then as before.
\<close>

theorem xcm_round_trip:
  assumes "rt_reachable L K s" "withdraw_asset (rl_xcm L) rt_multi_asset a location s = (Ok y, s')"
  shows "\<exists>s''. deposit_asset (rl_xcm L) rt_multi_asset y location s' = (Ok (), s'') \<and>
    (\<forall>b v. balances (rt_assets s'') b v = balances (rt_assets s) b v)"
proof -
  have "assets_inv (rt_assets s)" using rt_reachable_rt_inv [OF assms(1)] by (simp add: rt_inv_def)
  from rt_fee.xcm_withdraw_deposit [OF this assms(2)] show ?thesis by (simp add: rt_asset_simps)
qed

end
