(* ===== verification/Runtime_Blocks.thy ===== *)
theory Runtime_Blocks
  imports Runtime_Flows
begin

text \<open>
  Blocks: the start, the hooks of the two outbound channels once each, in either order, and
  whatever else happens before, between and after them.  A queued message is committed within one
  interval of blocks, whatever else these blocks do.
\<close>

section \<open>Blocks\<close>

definition basic_hook :: "('b, 'd, 'f) runtime_lib \<Rightarrow> runtime_constants \<Rightarrow> u32 \<Rightarrow> 'b runtime \<Rightarrow> 'b runtime \<Rightarrow> bool" where
  "basic_hook L K now s t \<longleftrightarrow> (\<exists>w. basic_on_initialize (basic_out_cfg L K) now s = (Ok w :: (dispatch_error, u64) result, t))"

definition incentivized_hook :: "('b, 'd, 'f) runtime_lib \<Rightarrow> runtime_constants \<Rightarrow> u32 \<Rightarrow> 'b runtime \<Rightarrow> 'b runtime \<Rightarrow> bool" where
  "incentivized_hook L K now s t \<longleftrightarrow>
     (\<exists>w. incentivized_on_initialize (incentivized_out_cfg L K) now s = (Ok w :: (dispatch_error, u64) result, t))"

inductive rt_block :: "('b, 'd, 'f) runtime_lib \<Rightarrow> runtime_constants \<Rightarrow> u32 \<Rightarrow> 'b runtime \<Rightarrow> 'b runtime \<Rightarrow> bool" for L K now where
  basic_first: "(rt_body L K)\<^sup>*\<^sup>* (initialize s) s1 \<Longrightarrow> basic_hook L K now s1 s2 \<Longrightarrow> (rt_body L K)\<^sup>*\<^sup>* s2 s3 \<Longrightarrow>
    incentivized_hook L K now s3 s4 \<Longrightarrow> (rt_body L K)\<^sup>*\<^sup>* s4 s' \<Longrightarrow> rt_block L K now s s'"
| incentivized_first: "(rt_body L K)\<^sup>*\<^sup>* (initialize s) s1 \<Longrightarrow> incentivized_hook L K now s1 s2 \<Longrightarrow> (rt_body L K)\<^sup>*\<^sup>* s2 s3 \<Longrightarrow>
    basic_hook L K now s3 s4 \<Longrightarrow> (rt_body L K)\<^sup>*\<^sup>* s4 s' \<Longrightarrow> rt_block L K now s s'"

text \<open>Consecutive blocks from \<open>now\<close> on, with the state after each.\<close>

primrec block_run :: "(u32 \<Rightarrow> 's \<Rightarrow> 's \<Rightarrow> bool) \<Rightarrow> u32 \<Rightarrow> 's \<Rightarrow> 's list \<Rightarrow> bool" where
  "block_run block now s [] \<longleftrightarrow> True"
| "block_run block now s (t # ts) \<longleftrightarrow> block now s t \<and> block_run block (now + 1) t ts"

lemma hook_steps: "basic_hook L K now s t \<Longrightarrow> rt_step L K s t" "incentivized_hook L K now s t \<Longrightarrow> rt_step L K s t"
  by (auto simp: basic_hook_def incentivized_hook_def intro: rt_step.intros)

text \<open>A block from the point of view of either hook.\<close>

lemma block_around:
  assumes "rt_block L K now s s'"
  shows "\<exists>s1 s2. (sup (rt_body L K) (incentivized_hook L K now))\<^sup>*\<^sup>* (initialize s) s1 \<and> basic_hook L K now s1 s2 \<and>
      (sup (rt_body L K) (incentivized_hook L K now))\<^sup>*\<^sup>* s2 s'"
    and "\<exists>s1 s2. (sup (rt_body L K) (basic_hook L K now))\<^sup>*\<^sup>* (initialize s) s1 \<and> incentivized_hook L K now s1 s2 \<and>
      (sup (rt_body L K) (basic_hook L K now))\<^sup>*\<^sup>* s2 s'"
proof -
  have body: "(sup (rt_body L K) r)\<^sup>*\<^sup>* a b" if "(rt_body L K)\<^sup>*\<^sup>* a b" for r a b
    using that by (rule rtranclp_mono [THEN predicate2D, rotated]) simp
  have three: "(sup (rt_body L K) r)\<^sup>*\<^sup>* a d" if "(rt_body L K)\<^sup>*\<^sup>* a b" "r b c" "(rt_body L K)\<^sup>*\<^sup>* c d" for r a b c d
  proof -
    have "(sup (rt_body L K) r)\<^sup>*\<^sup>* b c" using that(2) by auto
    then show ?thesis using body [OF that(1)] body [OF that(3)] by (meson rtranclp_trans)
  qed
  show "\<exists>s1 s2. (sup (rt_body L K) (incentivized_hook L K now))\<^sup>*\<^sup>* (initialize s) s1 \<and> basic_hook L K now s1 s2 \<and>
      (sup (rt_body L K) (incentivized_hook L K now))\<^sup>*\<^sup>* s2 s'"
    using assms by cases (blast intro: body three)+
  show "\<exists>s1 s2. (sup (rt_body L K) (basic_hook L K now))\<^sup>*\<^sup>* (initialize s) s1 \<and> incentivized_hook L K now s1 s2 \<and>
      (sup (rt_body L K) (basic_hook L K now))\<^sup>*\<^sup>* s2 s'"
    using assms by cases (blast intro: body three)+
qed

lemma block_steps:
  assumes "rt_block L K now s s'"
  shows "(rt_step L K)\<^sup>*\<^sup>* s s'"
proof -
  have others: "(rt_step L K)\<^sup>*\<^sup>* a b" if "(sup (rt_body L K) (incentivized_hook L K now))\<^sup>*\<^sup>* a b" for a b
    using that by (rule rtranclp_mono [THEN predicate2D, rotated]) (auto intro: rt_step.body hook_steps)
  obtain s1 s2 where "(rt_step L K)\<^sup>*\<^sup>* (initialize s) s1" "rt_step L K s1 s2" "(rt_step L K)\<^sup>*\<^sup>* s2 s'"
    using block_around(1) [OF assms] by (blast intro: others hook_steps)
  then show ?thesis using rt_step.initialize [of L K s] by (meson converse_rtranclp_into_rtranclp rtranclp_trans)
qed

lemma steps_reachable: "(rt_step L K)\<^sup>*\<^sup>* s s' \<Longrightarrow> rt_reachable L K s \<Longrightarrow> rt_reachable L K s'"
  by (induction rule: rtranclp_induct) (auto intro: rt_reachable.step)

text \<open>The hooks always return, so there is always a next block.\<close>

lemma hooks_return:
  assumes "rt_reachable L K s"
  shows "\<exists>t. basic_hook L K now s t" "\<exists>t. incentivized_hook L K now s t"
  using reachable_intervals [OF assms]
  by (auto simp: basic_hook_def incentivized_hook_def basic_on_initialize_def incentivized_on_initialize_def ext_simps interval_due_def
      basic_commit_run incentivized_commit_run Let_def)

lemma block_exists:
  assumes "rt_reachable L K s"
  shows "\<exists>s'. rt_block L K now s s'"
proof -
  have r: "rt_reachable L K (initialize s)" using assms by (rule rt_reachable.step) (rule rt_step.initialize)
  then obtain t where t: "basic_hook L K now (initialize s) t" using hooks_return by blast
  then have "rt_reachable L K t" using r hook_steps rt_reachable.step by blast
  then obtain u where "incentivized_hook L K now t u" using hooks_return by blast
  with t show ?thesis by (blast intro: rt_block.basic_first)
qed

lemma block_run_exists: "rt_reachable L K s \<Longrightarrow> \<exists>ss. length ss = n \<and> block_run (rt_block L K) now s ss"
proof (induction n arbitrary: now s)
  case (Suc n)
  obtain t where t: "rt_block L K now s t" using block_exists [OF Suc.prems] by blast
  then have "rt_reachable L K t" using block_steps steps_reachable Suc.prems by blast
  with Suc.IH obtain ss where "length ss = n" "block_run (rt_block L K) (now + 1) t ss" by blast
  with t show ?case by (intro exI [of _ "t # ss"]) simp
qed simp

section \<open>A queue under blocks\<close>

text \<open>
  \<open>Q\<close> says that the queue still begins with given messages, \<open>D\<close> that a commit of the block has them.
  A block in which the interval is due commits.
\<close>

locale timely_queue =
  fixes block :: "u32 \<Rightarrow> 's \<Rightarrow> 's \<Rightarrow> bool" and Q D :: "'s \<Rightarrow> bool" and iv :: u32
  assumes one_block: "block now s s' \<Longrightarrow> Q s \<Longrightarrow> D s' \<or> (Q s' \<and> interval_due now iv \<noteq> (Ok True :: (dispatch_error, bool) result))"
begin

lemma committed_by:
  "block_run block now s ss \<Longrightarrow> Q s \<Longrightarrow> d < length ss \<Longrightarrow> interval_due (now + of_nat d) iv = (Ok True :: (dispatch_error, bool) result) \<Longrightarrow>
     \<exists>d' \<le> d. D (ss ! d')"
proof (induction ss arbitrary: now s d)
  case (Cons t ts)
  then consider "D t" | "Q t" "interval_due now iv \<noteq> (Ok True :: (dispatch_error, bool) result)"
    using one_block [of now s t] by auto
  then show ?case
  proof cases
    case 2
    with Cons.prems(4) obtain e where e: "d = Suc e" by (cases d) auto
    have "interval_due (now + 1 + of_nat e) iv = (Ok True :: (dispatch_error, bool) result)"
      using Cons.prems(4) by (simp add: e add.assoc)
    with Cons.IH [of "now + 1" t e] Cons.prems 2 e obtain d' where "d' \<le> e" "D (ts ! d')" by auto
    then show ?thesis using e by (intro exI [of _ "Suc d'"]) simp
  qed (auto intro!: exI [of _ 0])
qed simp

lemma committed_in_time:
  assumes "block_run block now s ss" "Q s" "length ss = unat iv" "iv \<noteq> 0" "unat now + unat iv < 2 ^ 32"
  shows "\<exists>d < unat iv. D (ss ! d)"
proof -
  obtain d where "d < unat iv" "interval_due (now + of_nat d) iv = (Ok True :: (dispatch_error, bool) result)"
    using due_within_interval [OF assms(4,5)] by blast
  with committed_by [OF assms(1,2)] assms(3) show ?thesis by (metis le_less_trans)
qed

end

section \<open>What stays within a block\<close>

text \<open>A digest item and an offchain entry, once there, are there at the end of the block.\<close>

definition recorded :: "auxiliary_digest_item \<Rightarrow> bytes \<times> bytes \<Rightarrow> 'b runtime \<Rightarrow> bool" where
  "recorded x y s \<longleftrightarrow> x \<in> set (rt_digest s) \<and> y \<in> set (rt_offchain s)"

interpretation rt_recorded: runtime_invariant L K "recorded x y :: 'b runtime \<Rightarrow> bool" for L :: "('b, 'd, 'f) runtime_lib" and K x y
  by unfold_locales (auto simp: recorded_def rt_sys_def elim!: router_effect erc721_burn_router)

lemma hooks_keep_recorded:
  "recorded x y s \<Longrightarrow> basic_hook L K now s t \<Longrightarrow> recorded x y t"
  "recorded x y s \<Longrightarrow> incentivized_hook L K now s t \<Longrightarrow> recorded x y t"
  by (auto simp: recorded_def basic_hook_def incentivized_hook_def basic_on_initialize_def incentivized_on_initialize_def basic_commit_run incentivized_commit_run
      ext_simps ok_simps Let_def cfg_defs st_defs rt_sys_def bout_update_def iout_update_def split: if_splits)

definition basic_holds :: "basic_message list \<Rightarrow> u32 \<Rightarrow> 'b runtime \<Rightarrow> bool" where
  "basic_holds q i s \<longleftrightarrow> (\<exists>more. bout_queue (rt_basic_out s) = q @ more) \<and> bout_interval (rt_basic_out s) = i"

definition incentivized_holds :: "incentivized_message list \<Rightarrow> u32 \<Rightarrow> 'b runtime \<Rightarrow> bool" where
  "incentivized_holds q i s \<longleftrightarrow> (\<exists>more. iout_queue (rt_incentivized_out s) = q @ more) \<and> iout_interval (rt_incentivized_out s) = i"

lemma hooks_keep_holds:
  "basic_holds q i s \<Longrightarrow> incentivized_hook L K now s t \<Longrightarrow> basic_holds q i t"
  "incentivized_holds r j s \<Longrightarrow> basic_hook L K now s t \<Longrightarrow> incentivized_holds r j t"
  by (auto simp: basic_holds_def incentivized_holds_def basic_hook_def incentivized_hook_def elim!: basic_hook_effect incentivized_hook_effect)

lemma router_holds:
  assumes "rt_router L K c w target p s = (Ok (), s')"
  shows "basic_holds q i s \<Longrightarrow> basic_holds q i s'" "incentivized_holds r j s \<Longrightarrow> incentivized_holds r j s'"
  using router_exact [OF assms] router_config [OF assms]
  by (cases c; auto simp: basic_holds_def incentivized_holds_def sent_def rt_config_def)+

lemma burn_holds:
  assumes "erc721_burn (erc721_cfg L K) org c t recipient s = (Ok (), s')"
  shows "basic_holds q i s \<Longrightarrow> basic_holds q i s'" "incentivized_holds r j s \<Longrightarrow> incentivized_holds r j s'"
proof -
  obtain who p ev tgt N m u where s': "s' = deposit_event rt_sys ev u"
      and u: "rt_router L K c who tgt p (s\<lparr>rt_nft := N, rt_erc721 := (rt_erc721 s)\<lparr>tokens_by_erc721_id := m\<rparr>\<rparr>) = (Ok (), u)"
    using assms by (rule erc721_burn_router)
  show "basic_holds q i s \<Longrightarrow> basic_holds q i s'" using router_holds(1) [OF u, of q i] s' by (simp add: basic_holds_def rt_sys_def)
  show "incentivized_holds r j s \<Longrightarrow> incentivized_holds r j s'"
    using router_holds(2) [OF u, of r j] s' by (simp add: incentivized_holds_def rt_sys_def)
qed

interpretation rt_basic_holds: runtime_invariant L K "basic_holds q i :: 'b runtime \<Rightarrow> bool" for L :: "('b, 'd, 'f) runtime_lib" and K q i
  by unfold_locales (auto intro: router_holds burn_holds, auto simp: basic_holds_def)

interpretation rt_incentivized_holds: runtime_invariant L K "incentivized_holds q i :: 'b runtime \<Rightarrow> bool"
  for L :: "('b, 'd, 'f) runtime_lib" and K q i
  by unfold_locales (auto intro: router_holds burn_holds, auto simp: incentivized_holds_def)

text \<open>
  One block: up to the hook the queue is kept, the hook leaves it or records a commit, and what
  it recorded stays.
\<close>

lemma others_keep:
  assumes "(sup r r')\<^sup>*\<^sup>* s s'" "I s" "\<And>s t. I s \<Longrightarrow> r s t \<Longrightarrow> I t" "\<And>s t. I s \<Longrightarrow> r' s t \<Longrightarrow> I t"
  shows "I s'"
  using assms(1,2) by (induction rule: rtranclp_induct) (auto intro: assms(3,4))

lemma hook_in_block:
  assumes around: "\<exists>s1 s2. (sup r r')\<^sup>*\<^sup>* (initialize s) s1 \<and> hook s1 s2 \<and> (sup r r')\<^sup>*\<^sup>* s2 s'"
    and init: "Q (initialize s)" and Q: "\<And>s t. Q s \<Longrightarrow> r s t \<Longrightarrow> Q t" "\<And>s t. Q s \<Longrightarrow> r' s t \<Longrightarrow> Q t"
    and R: "\<And>x s t. R x s \<Longrightarrow> r s t \<Longrightarrow> R x t" "\<And>x s t. R x s \<Longrightarrow> r' s t \<Longrightarrow> R x t"
    and hook: "\<And>s t. Q s \<Longrightarrow> hook s t \<Longrightarrow> t = s \<and> \<not> due \<or> (\<exists>x. R x t)"
  shows "(\<exists>x. R x s') \<or> Q s' \<and> \<not> due"
proof -
  obtain s1 s2 where st: "(sup r r')\<^sup>*\<^sup>* (initialize s) s1" "hook s1 s2" "(sup r r')\<^sup>*\<^sup>* s2 s'" using around by blast
  have "Q s1" using others_keep [OF st(1), of Q] init Q by blast
  from hook [OF this st(2)] show ?thesis
  proof
    assume "s2 = s1 \<and> \<not> due"
    with others_keep [OF st(3), of Q] \<open>Q s1\<close> Q show ?thesis by blast
  next
    assume "\<exists>x. R x s2"
    then obtain x where "R x s2" ..
    with others_keep [OF st(3), of "R x"] R show ?thesis by blast
  qed
qed

section \<open>The channels under blocks\<close>

text \<open>A commit of the given messages, and of any that were queued after them, in the digest and offchain.\<close>

definition basic_record :: "('b, 'd, 'f) runtime_lib \<Rightarrow> runtime_constants \<Rightarrow> basic_message list \<Rightarrow> 'b runtime \<Rightarrow> bool" where
  "basic_record L K ms s \<longleftrightarrow> (let hash = basic_commitment_hash (basic_out_cfg L K) ms in
     recorded (Commitment Basic hash) (basic_offchain_key (basic_out_cfg L K) hash, rl_encode_basic L ms) s)"

definition incentivized_record :: "('b, 'd, 'f) runtime_lib \<Rightarrow> runtime_constants \<Rightarrow> incentivized_message list \<Rightarrow> 'b runtime \<Rightarrow> bool" where
  "incentivized_record L K ms s \<longleftrightarrow> (let hash = incentivized_commitment_hash (incentivized_out_cfg L K) ms in
     recorded (Commitment Incentivized hash) (incentivized_offchain_key (incentivized_out_cfg L K) hash, rl_encode_incentivized L ms) s)"

lemma basic_hook_cases:
  assumes "basic_holds q i s \<and> q \<noteq> []" "basic_hook L K now s t"
  shows "t = s \<and> interval_due now i \<noteq> (Ok True :: (dispatch_error, bool) result) \<or> (\<exists>more. basic_record L K (q @ more) t)"
proof -
  obtain more where more: "bout_queue (rt_basic_out s) = q @ more" "bout_interval (rt_basic_out s) = i"
    using assms(1) by (auto simp: basic_holds_def)
  obtain w where w: "basic_on_initialize (basic_out_cfg L K) now s = (Ok w :: (dispatch_error, u64) result, t)"
    using assms(2) by (auto simp: basic_hook_def)
  have "\<exists>w. basic_commit (basic_out_cfg L K) s = (Ok w :: (dispatch_error, u64) result, t)"
    if "interval_due now i = (Ok True :: (dispatch_error, bool) result)"
    using that w more by (auto simp: basic_on_initialize_def ext_simps)
  moreover have "basic_record L K (q @ more) t" if "basic_commit (basic_out_cfg L K) s = (Ok w :: (dispatch_error, u64) result, t)" for w
    using that more assms(1)
    by (auto simp: basic_record_def recorded_def basic_commit_run Let_def, simp_all add: basic_out_cfg_def st_defs rt_sys_def)
  moreover have "t = s" if "interval_due now i \<noteq> (Ok True :: (dispatch_error, bool) result)"
    using that w more by (auto simp: basic_on_initialize_def ext_simps ok_simps interval_due_def split: if_splits)
  ultimately show ?thesis by blast
qed

lemma incentivized_hook_cases:
  assumes "incentivized_holds q i s \<and> q \<noteq> []" "incentivized_hook L K now s t"
  shows "t = s \<and> interval_due now i \<noteq> (Ok True :: (dispatch_error, bool) result) \<or> (\<exists>more. incentivized_record L K (q @ more) t)"
proof -
  obtain more where more: "iout_queue (rt_incentivized_out s) = q @ more" "iout_interval (rt_incentivized_out s) = i"
    using assms(1) by (auto simp: incentivized_holds_def)
  obtain w where w: "incentivized_on_initialize (incentivized_out_cfg L K) now s = (Ok w :: (dispatch_error, u64) result, t)"
    using assms(2) by (auto simp: incentivized_hook_def)
  have "\<exists>w. incentivized_commit (incentivized_out_cfg L K) s = (Ok w :: (dispatch_error, u64) result, t)"
    if "interval_due now i = (Ok True :: (dispatch_error, bool) result)"
    using that w more by (auto simp: incentivized_on_initialize_def ext_simps)
  moreover have "incentivized_record L K (q @ more) t"
    if "incentivized_commit (incentivized_out_cfg L K) s = (Ok w :: (dispatch_error, u64) result, t)" for w
    using that more assms(1)
    by (auto simp: incentivized_record_def recorded_def incentivized_commit_run Let_def, simp_all add: incentivized_out_cfg_def st_defs rt_sys_def)
  moreover have "t = s" if "interval_due now i \<noteq> (Ok True :: (dispatch_error, bool) result)"
    using that w more by (auto simp: incentivized_on_initialize_def ext_simps ok_simps interval_due_def split: if_splits)
  ultimately show ?thesis by blast
qed

lemma holds_initialize:
  "basic_holds q i s \<Longrightarrow> basic_holds q i (initialize s)" "incentivized_holds r j s \<Longrightarrow> incentivized_holds r j (initialize s)"
  by (simp_all add: basic_holds_def incentivized_holds_def initialize_def)

lemma records_stay:
  "basic_record L K ms s \<Longrightarrow> rt_body L' K' s t \<Longrightarrow> basic_record L K ms t"
  "incentivized_record L K ns s \<Longrightarrow> rt_body L' K' s t \<Longrightarrow> incentivized_record L K ns t"
  "basic_record L K ms s \<Longrightarrow> incentivized_hook L' K' now s t \<Longrightarrow> basic_record L K ms t"
  "incentivized_record L K ns s \<Longrightarrow> basic_hook L' K' now s t \<Longrightarrow> incentivized_record L K ns t"
  unfolding basic_record_def incentivized_record_def Let_def by (auto intro: rt_recorded.body_keeps hooks_keep_recorded)

interpretation basic_timely: timely_queue "rt_block L K" "\<lambda>s. basic_holds q i s \<and> q \<noteq> []" "\<lambda>s. \<exists>more. basic_record L K (q @ more) s" i
  for L :: "('b, 'd, 'f) runtime_lib" and K q i
proof unfold_locales
  fix now and s s' :: "'b runtime"
  assume b: "rt_block L K now s s'" and Q: "basic_holds q i s \<and> q \<noteq> []"
  show "(\<exists>more. basic_record L K (q @ more) s') \<or>
      (basic_holds q i s' \<and> q \<noteq> []) \<and> interval_due now i \<noteq> (Ok True :: (dispatch_error, bool) result)"
    by (rule hook_in_block [where Q = "\<lambda>s. basic_holds q i s \<and> q \<noteq> []" and R = "\<lambda>more. basic_record L K (q @ more)",
          OF block_around(1) [OF b] _ _ _ records_stay(1,3) basic_hook_cases])
      (use Q in \<open>auto intro: holds_initialize rt_basic_holds.body_keeps hooks_keep_holds\<close>)
qed

interpretation incentivized_timely: timely_queue "rt_block L K" "\<lambda>s. incentivized_holds q i s \<and> q \<noteq> []"
    "\<lambda>s. \<exists>more. incentivized_record L K (q @ more) s" i
  for L :: "('b, 'd, 'f) runtime_lib" and K q i
proof unfold_locales
  fix now and s s' :: "'b runtime"
  assume b: "rt_block L K now s s'" and Q: "incentivized_holds q i s \<and> q \<noteq> []"
  show "(\<exists>more. incentivized_record L K (q @ more) s') \<or>
      (incentivized_holds q i s' \<and> q \<noteq> []) \<and> interval_due now i \<noteq> (Ok True :: (dispatch_error, bool) result)"
    by (rule hook_in_block [where Q = "\<lambda>s. incentivized_holds q i s \<and> q \<noteq> []" and R = "\<lambda>more. incentivized_record L K (q @ more)",
          OF block_around(2) [OF b] _ _ _ records_stay(2,4) incentivized_hook_cases])
      (use Q in \<open>auto intro: holds_initialize rt_incentivized_holds.body_keeps hooks_keep_holds\<close>)
qed

text \<open>
  C8. On either outbound channel, over any run of as many consecutive blocks as its
  interval, whatever else these blocks do, one of the blocks commits the messages that were
  queued at the start, together with those queued after them up to the commit: the digest of
  the block has the hash of exactly these messages, and their encoding is stored offchain
  under the key of that hash.
\<close>

theorem queues_get_committed:
  assumes "rt_reachable L K s" "block_run (rt_block L K) now s ss"
  shows "(bout_queue (rt_basic_out s) \<noteq> [] \<and> length ss = unat (bout_interval (rt_basic_out s)) \<and>
      unat now + unat (bout_interval (rt_basic_out s)) < 2 ^ 32 \<longrightarrow>
      (\<exists>d < length ss. \<exists>more. basic_record L K (bout_queue (rt_basic_out s) @ more) (ss ! d))) \<and>
    (iout_queue (rt_incentivized_out s) \<noteq> [] \<and> length ss = unat (iout_interval (rt_incentivized_out s)) \<and>
      unat now + unat (iout_interval (rt_incentivized_out s)) < 2 ^ 32 \<longrightarrow>
      (\<exists>d < length ss. \<exists>more. incentivized_record L K (iout_queue (rt_incentivized_out s) @ more) (ss ! d)))"
  using basic_timely.committed_in_time [OF assms(2), of "bout_queue (rt_basic_out s)" "bout_interval (rt_basic_out s)"]
    incentivized_timely.committed_in_time [OF assms(2), of "iout_queue (rt_incentivized_out s)" "iout_interval (rt_incentivized_out s)"]
    reachable_intervals [OF assms(1)]
  by (auto simp: basic_holds_def incentivized_holds_def)

end
