(* ===== verification/Runtime_Witnesses.thy ===== *)
theory Runtime_Witnesses
  imports Runtime_Blocks
begin

text \<open>
  Runs of the sample chain: each property of the runtime that has hypotheses is applied here to
  a state and a call for which they hold.
\<close>

section \<open>Submissions to the outbound channels\<close>

lemma sample_fields [simp]:
  "rt_assets sample_rt = sample_rt_assets" "rt_eth_address sample_rt = 77" "rt_erc20_address sample_rt = 78"
  "rt_dot_address sample_rt = 76" "rt_foreign sample_rt = sample_ledger"
  "rt_basic_out sample_rt = \<lparr>bout_interval = 5, bout_queue = [], bout_principal = 1, bout_nonce = 0\<rparr>"
  "rt_incentivized_out sample_rt = \<lparr>iout_interval = 5, iout_queue = [], iout_nonce = 0, iout_fee = 3\<rparr>"
  "rt_incentivized_in sample_rt = \<lparr>iin_source_channel = 0, iin_nonce = 0, iin_reward_fraction = 800000000\<rparr>"
  "rt_nft sample_rt = empty_nft" "rt_erc721 sample_rt = \<lparr>erc721_address = 79, tokens_by_erc721_id = Map.empty\<rparr>"
  by (simp_all add: sample_rt_def)

lemma sample_asset_values [simp]:
  "balances sample_rt_assets ETH 1 = 100" "balances sample_rt_assets (Token 9) 1 = 50"
  "total_issuance sample_rt_assets ETH = 100" "total_issuance sample_rt_assets (Token 9) = 50"
  by (simp_all add: sample_rt_assets_def)

lemma basic_router_run:
  assumes "bout_principal (rt_basic_out s) = w" "length (bout_queue (rt_basic_out s)) < MaxMessagesPerCommit"
    and "length p \<le> MaxMessagePayloadSize" "checked_add (bout_nonce (rt_basic_out s)) 1 = Some v"
  shows "basic_out_submit (basic_out_cfg L K) w target p s = (Ok (), s\<lparr>rt_basic_out := (rt_basic_out s)\<lparr>bout_queue :=
      bout_queue (rt_basic_out s) @ [\<lparr>bm_target = target, bm_nonce = v, bm_payload = p\<rparr>], bout_nonce := v\<rparr>,
    rt_events := rt_events s @ [MessageAccepted Basic v]\<rparr>)"
  unfolding basic_out_submit_Ok Let_def using assms
  by (auto simp: cfg_defs st_defs rt_sys_def bout_nonce_item_def bout_update_def intro!: runtime.equality)

lemma incentivized_router_run:
  assumes "length (iout_queue (rt_incentivized_out s)) < MaxMessagesPerCommit"
    and "length p \<le> MaxMessagePayloadSize" "checked_add (iout_nonce (rt_incentivized_out s)) 1 = Some v"
    and "withdraw ETH w (iout_fee (rt_incentivized_out s)) (rt_assets s) = (Ok (), A)"
  shows "incentivized_out_submit (incentivized_out_cfg L K) w target p s = (Ok (), s\<lparr>rt_incentivized_out := (rt_incentivized_out s)\<lparr>iout_queue :=
      iout_queue (rt_incentivized_out s) @ [\<lparr>im_target = target, im_nonce = v, im_fee = iout_fee (rt_incentivized_out s), im_payload = p\<rparr>],
      iout_nonce := v\<rparr>, rt_assets := A, rt_events := rt_events s @ [MessageAccepted Incentivized v]\<rparr>)"
  unfolding incentivized_out_submit_Ok Let_def using assms
  by (auto simp: cfg_defs st_defs rt_sys_def iout_nonce_item_def iout_update_def single_asset_adaptor_def rt_asset_simps
      zoom_def Ether_def intro!: runtime.equality)

lemma out_fields [simp]:
  "bout_sys (basic_out_cfg L K) = rt_sys" "sput (bout_st (basic_out_cfg L K)) v s = s\<lparr>rt_basic_out := v\<rparr>"
  "iout_sys (incentivized_out_cfg L K) = rt_sys" "sput (iout_st (incentivized_out_cfg L K)) u s = s\<lparr>rt_incentivized_out := u\<rparr>"
  "deposit_log rt_sys i s = s\<lparr>rt_digest := rt_digest s @ [i]\<rparr>" "offchain_set rt_sys k b s = s\<lparr>rt_offchain := rt_offchain s @ [(k, b)]\<rparr>"
  by (simp_all add: cfg_defs st_defs rt_sys_def)

theorem outbound_commits_complete_witness:
  "(\<exists>ms s'. queue_run (basic_out_submit (basic_out_cfg sample_rl snowbridge))
      (\<lambda>s. snd (basic_commit (basic_out_cfg sample_rl snowbridge) s :: (dispatch_error, u64) result \<times> _))
      (\<lambda>s. bout_queue (rt_basic_out s)) [Some (1, 77, [4]), None, Some (1, 77, [5])] sample_rt = (ms, s') \<and>
    length ms = 1 \<and> map (\<lambda>m. unat (bm_nonce m)) (ms @ bout_queue (rt_basic_out s')) = [1, 2]) \<and>
   (\<exists>ms s'. queue_run (incentivized_out_submit (incentivized_out_cfg sample_rl snowbridge))
      (\<lambda>s. snd (incentivized_commit (incentivized_out_cfg sample_rl snowbridge) s :: (dispatch_error, u64) result \<times> _))
      (\<lambda>s. iout_queue (rt_incentivized_out s)) [Some (1, 77, [4]), None] sample_rt = (ms, s') \<and>
    map (\<lambda>m. unat (im_nonce m)) (ms @ iout_queue (rt_incentivized_out s')) = [1])"
proof
  show "\<exists>ms s'. queue_run (basic_out_submit (basic_out_cfg sample_rl snowbridge))
      (\<lambda>s. snd (basic_commit (basic_out_cfg sample_rl snowbridge) s :: (dispatch_error, u64) result \<times> _))
      (\<lambda>s. bout_queue (rt_basic_out s)) [Some (1, 77, [4]), None, Some (1, 77, [5])] sample_rt = (ms, s') \<and>
    length ms = 1 \<and> map (\<lambda>m. unat (bm_nonce m)) (ms @ bout_queue (rt_basic_out s')) = [1, 2]"
  proof -
    let ?run = "queue_run (basic_out_submit (basic_out_cfg sample_rl snowbridge))
        (\<lambda>s. snd (basic_commit (basic_out_cfg sample_rl snowbridge) s :: (dispatch_error, u64) result \<times> _))
        (\<lambda>s. bout_queue (rt_basic_out s)) [Some (1, 77, [4]), None, Some (1, 77, [5])] sample_rt"
    obtain ms s' where run: "?run = (ms, s')" by (cases ?run)
    then have "length ms = 1" "bout_nonce (rt_basic_out s') = 2"
      by (auto simp: basic_router_run MaxMessagesPerCommit_def MaxMessagePayloadSize_def checked_add_def basic_commit_run Let_def
          bout_update_def)
    then show ?thesis using run outbound_commits_complete [OF sample_reachable, THEN conjunct1, rule_format, OF run] by (auto simp: upt_conv_Cons)
  qed
next
  show "\<exists>ms s'. queue_run (incentivized_out_submit (incentivized_out_cfg sample_rl snowbridge))
      (\<lambda>s. snd (incentivized_commit (incentivized_out_cfg sample_rl snowbridge) s :: (dispatch_error, u64) result \<times> _))
      (\<lambda>s. iout_queue (rt_incentivized_out s)) [Some (1, 77, [4]), None] sample_rt = (ms, s') \<and>
    map (\<lambda>m. unat (im_nonce m)) (ms @ iout_queue (rt_incentivized_out s')) = [1]"
  proof -
    let ?run = "queue_run (incentivized_out_submit (incentivized_out_cfg sample_rl snowbridge))
        (\<lambda>s. snd (incentivized_commit (incentivized_out_cfg sample_rl snowbridge) s :: (dispatch_error, u64) result \<times> _))
        (\<lambda>s. iout_queue (rt_incentivized_out s)) [Some (1, 77, [4]), None] sample_rt"
    obtain ms s' where run: "?run = (ms, s')" by (cases ?run)
    obtain A where "withdraw ETH 1 3 sample_rt_assets = (Ok (), A)" by (simp add: withdraw_run checked_sub_def)
    then have "iout_nonce (rt_incentivized_out s') = 1"
      using run by (auto simp: incentivized_router_run MaxMessagesPerCommit_def MaxMessagePayloadSize_def checked_add_def
          incentivized_commit_run Let_def iout_update_def)
    then show ?thesis using run outbound_commits_complete [OF sample_reachable, THEN conjunct2, rule_format, OF run] by (auto simp: upt_conv_Cons)
  qed
qed

theorem hooks_stay_light_witness:
  "\<exists>w v. fst (basic_on_initialize (basic_out_cfg sample_rl snowbridge) 10 sample_rt) = (Ok w :: (dispatch_error, u64) result) \<and>
    fst (incentivized_on_initialize (incentivized_out_cfg sample_rl snowbridge) 10 sample_rt) = (Ok v :: (dispatch_error, u64) result) \<and>
    unat w + unat v \<le> unat MAXIMUM_BLOCK_WEIGHT div 200"
  using hooks_stay_light [OF sample_reachable] by simp

section \<open>Burning, locking and unlocking\<close>

lemma sample_payloads: "length (eth_payload_encode sample_abi e) \<le> MaxMessagePayloadSize"
  "length (erc20_payload_encode sample_abi f) \<le> MaxMessagePayloadSize" "length (dot_payload_encode sample_abi g) \<le> MaxMessagePayloadSize"
  by (simp_all add: eth_payload_encode_def erc20_payload_encode_def dot_payload_encode_def sample_abi_def MaxMessagePayloadSize_def)

lemmas sample_calls = runtime_calls rt_router_def basic_router_run sample_payloads MaxMessagesPerCommit_def checked_add_def checked_sub_def
  ext_simps transactional_def Let_def zoom_def withdraw_run

lemma sample_eth_burn:
  "\<exists>s'. runtime_dispatch sample_rl snowbridge (EthBurn Basic 5 10) (Signed 1) sample_rt = (Ok (), s') \<and>
     length (bout_queue (rt_basic_out s')) = 1 \<and> bout_interval (rt_basic_out s') = 5"
  by (simp add: sample_calls eth_burn_def eth_cfg_def single_asset_adaptor_def rt_asset_simps, simp add: rt_sys_def)

lemma burned_balance:
  "burned a w x fee A A' \<Longrightarrow> unat (balances A a w) = unat (balances A' a w) + x + (if a = ETH then fee else 0)"
  by (simp add: burned_def)

theorem app_burns_exact_witness:
  "(\<exists>s'. runtime_dispatch sample_rl snowbridge (EthBurn Basic 5 10) (Signed 1) sample_rt = (Ok (), s') \<and>
     balances (rt_assets s') ETH 1 = 90) \<and>
   (\<exists>s'. runtime_dispatch sample_rl snowbridge (Erc20Burn Basic 9 5 20) (Signed 1) sample_rt = (Ok (), s') \<and>
     balances (rt_assets s') (Token 9) 1 = 30)"
proof
  show "\<exists>s'. runtime_dispatch sample_rl snowbridge (EthBurn Basic 5 10) (Signed 1) sample_rt = (Ok (), s') \<and>
     balances (rt_assets s') ETH 1 = 90"
  proof -
    obtain s' where run: "runtime_dispatch sample_rl snowbridge (EthBurn Basic 5 10) (Signed 1) sample_rt = (Ok (), s')"
      using sample_eth_burn by blast
    have "burned ETH 1 10 0 sample_rt_assets (rt_assets s')"
      using app_burns_exact [OF sample_reachable, THEN conjunct1, rule_format, OF run] by (simp add: message_fee_def)
    from burned_balance [OF this] have "unat (balances (rt_assets s') ETH 1) = 90" by simp
    then show ?thesis using run by (simp add: word_unat_eq_iff)
  qed
next
  show "\<exists>s'. runtime_dispatch sample_rl snowbridge (Erc20Burn Basic 9 5 20) (Signed 1) sample_rt = (Ok (), s') \<and>
     balances (rt_assets s') (Token 9) 1 = 30"
  proof -
    obtain s' where run: "runtime_dispatch sample_rl snowbridge (Erc20Burn Basic 9 5 20) (Signed 1) sample_rt = (Ok (), s')"
      by (simp add: sample_calls erc20_burn_def erc20_cfg_def rt_asset_simps)
    have "burned (Token 9) 1 20 0 sample_rt_assets (rt_assets s')"
      using app_burns_exact [OF sample_reachable, THEN conjunct2, rule_format, OF run] by (simp add: message_fee_def)
    from burned_balance [OF this] have "unat (balances (rt_assets s') (Token 9) 1) = 30" by simp
    then show ?thesis using run by (simp add: word_unat_eq_iff)
  qed
qed

theorem queues_get_committed_witness:
  "\<exists>s ss d more. rt_reachable sample_rl snowbridge s \<and> length (bout_queue (rt_basic_out s)) = 1 \<and>
     block_run (rt_block sample_rl snowbridge) 7 s ss \<and> length ss = 5 \<and> d < 5 \<and>
     basic_record sample_rl snowbridge (bout_queue (rt_basic_out s) @ more) (ss ! d)"
proof -
  obtain s where s: "runtime_dispatch sample_rl snowbridge (EthBurn Basic 5 10) (Signed 1) sample_rt = (Ok (), s)"
      "length (bout_queue (rt_basic_out s)) = 1" "bout_interval (rt_basic_out s) = 5"
    using sample_eth_burn by blast
  have "rt_step sample_rl snowbridge sample_rt s"
    by (rule rt_step.body, rule rt_body.extrinsic [where c = "EthBurn Basic 5 10" and org = "NSigned 1" and r = "Ok ()"]) (simp_all add: s(1))
  with sample_reachable have r: "rt_reachable sample_rl snowbridge s" by (rule rt_reachable.step)
  then obtain ss where ss: "length ss = 5" "block_run (rt_block sample_rl snowbridge) 7 s ss" using block_run_exists by blast
  have "bout_queue (rt_basic_out s) \<noteq> []" using s(2) by auto
  with queues_get_committed [OF r ss(2)] ss(1) s(3)
  obtain d more where "d < 5" "basic_record sample_rl snowbridge (bout_queue (rt_basic_out s) @ more) (ss ! d)" by auto
  with r s(2) ss show ?thesis by blast
qed

theorem dot_lock_exact_witness:
  "\<exists>s'. runtime_dispatch sample_rl snowbridge (DotLock Basic 5 30) (Signed 1) sample_rt = (Ok (), s') \<and>
     ledger_free (rt_foreign s') 1 = 970 \<and> ledger_free (rt_foreign s') 50 = 530"
proof -
  have w: "wrap_dot 30 10 = Some 3000000000" by (simp add: wrap_dot_def granularity_def checked_pow_def checked_mul_def)
  have t: "cur_transfer ledger_currency 1 50 30 AllowDeath sample_ledger =
      (Ok (), sample_ledger\<lparr>ledger_free := (ledger_free sample_ledger)(1 := 970, 50 := 530)\<rparr>)"
    by (simp add: ledger_currency_def sample_ledger_def checked_sub_def checked_add_def)
  obtain s' where run: "runtime_dispatch sample_rl snowbridge (DotLock Basic 5 30) (Signed 1) sample_rt = (Ok (), s')"
    by (simp add: sample_calls lock_def dot_cfg_def rt_currency_def zoom_currency_def st_defs t w snowbridge_def)
  have "transfer_law (rl_currency sample_rl)" "unat (rc_decimals snowbridge) \<le> 18"
    using ledger_laws by (simp_all add: currency_laws_def snowbridge_def)
  moreover have "1 \<noteq> rl_into_account sample_rl DotPalletId" by simp
  ultimately obtain dust where "unat (cur_free (rl_currency sample_rl) 1 (rt_foreign sample_rt)) =
        unat (cur_free (rl_currency sample_rl) 1 (rt_foreign s')) + unat (30 :: u128) + unat dust"
      "dust = 0 \<or> dust < cur_minimum_balance (rl_currency sample_rl) \<and> cur_free (rl_currency sample_rl) 1 (rt_foreign s') = 0"
      "unat (cur_free (rl_currency sample_rl) (rl_into_account sample_rl DotPalletId) (rt_foreign s')) =
        unat (cur_free (rl_currency sample_rl) (rl_into_account sample_rl DotPalletId) (rt_foreign sample_rt)) + unat (30 :: u128)"
    using dot_lock_exact [OF _ _ _ run] by blast
  then have d: "unat (ledger_free sample_ledger 1) = unat (ledger_free (rt_foreign s') 1) + 30 + unat dust"
      "dust = 0 \<or> dust < 10 \<and> ledger_free (rt_foreign s') 1 = 0"
      "unat (ledger_free (rt_foreign s') 50) = unat (ledger_free sample_ledger 50) + 30"
    by (simp_all add: ledger_currency_def)
  then have "dust = 0" by (auto simp: sample_ledger_def word_less_nat_alt)
  then have "unat (ledger_free (rt_foreign s') 1) = 970" "unat (ledger_free (rt_foreign s') 50) = 530"
    using d by (simp_all add: sample_ledger_def)
  then show ?thesis using run by (simp add: word_unat_eq_iff)
qed

theorem dot_unlock_exact_witness:
  "\<exists>s'. runtime_dispatch sample_rl snowbridge (DotUnlock 5 2 7000000000) (DispatchOrigin 76) sample_rt = (Ok (), s') \<and>
     ledger_free (rt_foreign s') 2 = 70"
proof -
  have w: "unwrap_dot 7000000000 10 = Some 70" by (simp add: unwrap_dot_def granularity_def checked_pow_def checked_div_def)
  have t: "cur_transfer ledger_currency 50 2 70 KeepAlive sample_ledger =
      (Ok (), sample_ledger\<lparr>ledger_free := (ledger_free sample_ledger)(50 := 430, 2 := 70)\<rparr>)"
    by (simp add: ledger_currency_def sample_ledger_def checked_sub_def checked_add_def)
  obtain s' where run: "runtime_dispatch sample_rl snowbridge (DotUnlock 5 2 7000000000) (DispatchOrigin 76) sample_rt = (Ok (), s')"
    by (simp add: sample_calls unlock_def dot_cfg_def rt_currency_def zoom_currency_def st_defs t w snowbridge_def)
  have l: "transfer_law (rl_currency sample_rl)" "unat (rc_decimals snowbridge) \<le> 18" "rl_lookup sample_rl 2 = Some 2"
      "2 \<noteq> rl_into_account sample_rl DotPalletId" "unat (7000000000 :: u256) div 10 ^ (18 - unat (rc_decimals snowbridge)) < 2 ^ 128"
    using ledger_laws by (simp_all add: currency_laws_def snowbridge_def)
  from dot_unlock_exact [OF l run] have "unat (ledger_free (rt_foreign s') 2) = unat (ledger_free sample_ledger 2) + 70"
    by (simp add: ledger_currency_def snowbridge_def)
  then have "unat (ledger_free (rt_foreign s') 2) = 70" by (simp add: sample_ledger_def)
  then show ?thesis using run by (simp add: word_unat_eq_iff)
qed

theorem xcm_round_trip_witness:
  "\<exists>y s' s''. withdraw_asset (rl_xcm sample_rl) rt_multi_asset (ConcreteFungible [GeneralKey [1]] 30) [] sample_rt = (Ok y, s') \<and>
     deposit_asset (rl_xcm sample_rl) rt_multi_asset y [] s' = (Ok (), s'') \<and> balances (rt_assets s'') ETH 1 = 100"
proof -
  have m: "match_assets (rl_xcm sample_rl) (ConcreteFungible [GeneralKey [1]] 30) = Ok (ETH, 30)"
    by (simp add: match_assets_def last_junction_def sample_rl_def)
  obtain y s' where run: "withdraw_asset (rl_xcm sample_rl) rt_multi_asset (ConcreteFungible [GeneralKey [1]] 30) [] sample_rt = (Ok y, s')"
    using m by (simp add: withdraw_asset_def rt_asset_simps zoom_def ext_simps withdraw_run checked_sub_def map_err_ext_def sample_rl_def)
  from xcm_round_trip [OF sample_reachable run] show ?thesis using run by (auto; metis sample_asset_values(1))
qed

theorem chain_specs_start_witness:
  "\<exists>g s. cs_genesis (snowbridge_get_chain_spec sample_seeds 1000) = Ok g \<and>
     rt_genesis sample_rl snowbridge (sg_bridge g) (blank_runtime sample_ledger) = (Ok (), s) \<and>
     ma_total_issuance rt_multi_asset ETH s = 10 ^ 18"
proof -
  have "(snowbridge, snowbridge_get_chain_spec) \<in> set runtime_specs" by (simp add: runtime_specs_def)
  moreover have "wasm_binary sample_seeds = Some [0]" "seeds_valid sample_seeds"
    by (simp_all add: sample_seeds_def seeds_valid_def list_all_iff)
  moreover have "compute_hash (rl_eth sample_rl) header_default \<noteq> 0"
    by (simp add: compute_hash_def header_rlp_def header_default_def Let_def sample_lib_def of_be_bytes_def numeral_eq_Suc)
  ultimately show ?thesis
    using chain_specs_start [of snowbridge snowbridge_get_chain_spec sample_seeds "[0]" sample_rl 1000 sample_ledger] by blast
qed


section \<open>A message on the incentivized channel\<close>

definition sample_paid :: ledger where
  "sample_paid = sample_ledger\<lparr>ledger_free := (ledger_free sample_ledger)(50 := 490, 3 := 5, 60 := 5)\<rparr>"

lemma sample_perbill: "perbill_law (rl_mul_ceil sample_rl)"
  by (simp add: perbill_law_def sample_rl_def word_le_nat_alt unat_div_distrib)

text \<open>The fee of ten units goes to the relayer and the treasury in halves.\<close>

lemma sample_payments:
  "cur_withdraw ledger_currency 50 10 KeepAlive sample_ledger =
     (Ok 10, sample_ledger\<lparr>ledger_free := (ledger_free sample_ledger)(50 := 490)\<rparr>)"
  "cur_deposit_into_existing ledger_currency 3 5 (sample_ledger\<lparr>ledger_free := (ledger_free sample_ledger)(50 := 490)\<rparr>) =
     (Ok 5, sample_ledger\<lparr>ledger_free := (ledger_free sample_ledger)(50 := 490, 3 := 5)\<rparr>)"
  "cur_resolve_creating ledger_currency 60 5 (sample_ledger\<lparr>ledger_free := (ledger_free sample_ledger)(50 := 490, 3 := 5)\<rparr>) = sample_paid"
  by (simp_all add: ledger_currency_def sample_ledger_def sample_paid_def checked_sub_def checked_add_def)

lemma sample_cfg_fields:
  "iin_currency (rt_incentivized_in_cfg sample_rl K) = zoom_currency foreign_st ledger_currency"
  "iin_source_account (rt_incentivized_in_cfg sample_rl K) = 50" "iin_treasury_account (rt_incentivized_in_cfg sample_rl K) = 60"
  "iin_st (rt_incentivized_in_cfg sample_rl K) = incentivized_in_st" "iin_mul_ceil (rt_incentivized_in_cfg sample_rl K) = rl_mul_ceil sample_rl"
  by (simp_all add: incentivized_in_cfg_def rt_currency_def)

lemma sample_fee:
  assumes "rt_foreign s = sample_ledger" "iin_reward_fraction (rt_incentivized_in s) = 800000000"
  shows "handle_fee (rt_incentivized_in_cfg sample_rl K) 10 3 s = (Ok (), s\<lparr>rt_foreign := sample_paid\<rparr>)"
proof -
  have "rl_mul_ceil sample_rl 800000000 10 = 5" by (simp add: sample_rl_def)
  then show ?thesis
    using handle_fee_run [of 10 "rt_incentivized_in_cfg sample_rl K" s 10
        "s\<lparr>rt_foreign := sample_ledger\<lparr>ledger_free := (ledger_free sample_ledger)(50 := 490)\<rparr>\<rparr>" 3 "Ok 5"
        "s\<lparr>rt_foreign := sample_ledger\<lparr>ledger_free := (ledger_free sample_ledger)(50 := 490, 3 := 5)\<rparr>\<rparr>" 5] assms
    by (simp add: sample_cfg_fields zoom_currency_def zoom_def st_defs sample_payments)
qed

theorem relayer_fee_conserves_witness:
  "\<exists>s'. handle_fee (rt_incentivized_in_cfg sample_rl snowbridge) 10 3 sample_rt = (Ok (), s') \<and>
     (cur_issuance ledger_currency (rt_foreign s') = cur_issuance ledger_currency sample_ledger \<and>
        free_sum ledger_currency (rt_foreign s') = free_sum ledger_currency sample_ledger \<or>
      (\<exists>burned. burned \<le> 10 \<and> cur_issuance ledger_currency (rt_foreign s') = cur_issuance ledger_currency sample_ledger - burned \<and>
        free_sum ledger_currency sample_ledger = free_sum ledger_currency (rt_foreign s') + unat burned))"
proof -
  have "handle_fee (rt_incentivized_in_cfg sample_rl snowbridge) 10 3 sample_rt = (Ok (), sample_rt\<lparr>rt_foreign := sample_paid\<rparr>)"
    by (rule sample_fee) simp_all
  with relayer_fee_conserves [OF _ sample_perbill _ this] ledger_laws show ?thesis by simp
qed

lemma sample_token_run:
  "\<exists>s'. runtime_dispatch sample_rl snowbridge (IncentivizedInboundSubmit sample_mint) (Signed 3) sample_rt = (Ok (), s') \<and>
     tokens (rt_nft s') 0 = Some \<lparr>owner = 2, metadata = [], token_data = \<lparr>token_contract = 88, eth_token_id = 6\<rparr>\<rparr>"
proof -
  have fc: "fee_converter snowbridge 1000000000 = Some 10"
    by (simp add: fee_converter_def snowbridge_def unwrap_dot_def granularity_def checked_pow_def checked_div_def)
  have env: "incentivized_envelope_try_from sample_abi (fee_converter snowbridge) \<lparr>log_address = 0, log_topics = [], log_data = [30]\<rparr> =
      Ok \<lparr>ienv_channel = 0, ienv_source = 79, ienv_nonce = 1, ienv_fee = 10, ienv_payload = [8]\<rparr>"
    using fc by (simp add: incentivized_envelope_try_from_def sample_abi_def low_u64_def incentivized_event_abi_def basic_event_abi_def)
  have call: "rl_decode_call sample_rl [8] = Some (Erc721Mint 5 2 88 6 [])" by (simp add: sample_rl_def)
  let ?i = "\<lparr>iin_source_channel = 0, iin_nonce = 1, iin_reward_fraction = 800000000\<rparr>"
  let ?s = "sample_rt\<lparr>rt_incentivized_in := ?i, rt_foreign := sample_paid\<rparr>"
  have "\<exists>s'. erc721_mint (erc721_cfg sample_rl snowbridge) (DispatchOrigin 79) 5 2 88 6 [] ?s = (Ok (), s') \<and>
      tokens (rt_nft s') 0 = Some \<lparr>owner = 2, metadata = [], token_data = \<lparr>token_contract = 88, eth_token_id = 6\<rparr>\<rparr>"
    by (simp add: erc721_mint_def transactional_def erc721_cfg_def rt_nft_ops_def zoom_nft_def nft_pallet_def zoom_def st_defs ext_simps
        mint_run checked_add_def empty_nft_def erc721_put_def rt_sys_def)
  then obtain s' where s': "erc721_mint (erc721_cfg sample_rl snowbridge) (DispatchOrigin 79) 5 2 88 6 [] ?s = (Ok (), s')"
      "tokens (rt_nft s') 0 = Some \<lparr>owner = 2, metadata = [], token_data = \<lparr>token_contract = 88, eth_token_id = 6\<rparr>\<rparr>" by blast
  have m: "runtime_dispatch sample_rl snowbridge (Erc721Mint 5 2 88 6 []) = (\<lambda>org. erc721_mint (erc721_cfg sample_rl snowbridge) org 5 2 88 6 [])"
    by (subst runtime_dispatch_fix) simp
  let ?e = "MessageDispatched \<lparr>channel_id = Incentivized, mid_nonce = 1\<rparr> (Ok ())"
  have d: "dispatch (dispatch_cfg sample_rl (runtime_dispatch sample_rl snowbridge)) 79 \<lparr>channel_id = Incentivized, mid_nonce = 1\<rparr> [8] ?s =
      (Ok (), deposit_event rt_sys ?e s')"
    using call s'(1) by (simp add: dispatch_def dispatch_cfg_def call_filter_all_def m)
  have fee: "handle_fee (rt_incentivized_in_cfg sample_rl snowbridge) 10 3 (sample_rt\<lparr>rt_incentivized_in := ?i\<rparr>) = (Ok (), ?s)"
    by (subst sample_fee) simp_all
  have "runtime_dispatch sample_rl snowbridge (IncentivizedInboundSubmit sample_mint) (Signed 3) sample_rt = (Ok (), deposit_event rt_sys ?e s')"
    unfolding runtime_calls incentivized_submit_def
    using env d fee by (simp add: incentivized_in_cfg_def rt_verifier_run sample_mint_verified st_defs ext_simps iin_nonce_item_def try_mutate_def)
  then show ?thesis using s' by (simp add: rt_sys_def)
qed

theorem inbound_messages_in_order_witness:
  "(\<exists>s'. submit_all (\<lambda>org m. runtime_dispatch sample_rl snowbridge (BasicInboundSubmit m) org) [(Signed 3, sample_mint)] sample_rt =
     ([sample_mint], s') \<and> bin_nonce (rt_basic_in s') = 1) \<and>
   (\<exists>s'. submit_all (\<lambda>org m. runtime_dispatch sample_rl snowbridge (IncentivizedInboundSubmit m) org) [(Signed 3, sample_mint)] sample_rt =
     ([sample_mint], s') \<and> iin_nonce (rt_incentivized_in s') = 1)"
proof
  show "\<exists>s'. submit_all (\<lambda>org m. runtime_dispatch sample_rl snowbridge (BasicInboundSubmit m) org) [(Signed 3, sample_mint)] sample_rt =
     ([sample_mint], s') \<and> bin_nonce (rt_basic_in s') = 1"
  proof -
    obtain s' where run: "submit_all (\<lambda>org m. runtime_dispatch sample_rl snowbridge (BasicInboundSubmit m) org)
        [(Signed 3, sample_mint)] sample_rt = ([sample_mint], s')"
      using sample_mint_run by auto
    from inbound_messages_in_order [THEN conjunct1, rule_format, OF run] show ?thesis using run by (simp add: sample_rt_def)
  qed
next
  show "\<exists>s'. submit_all (\<lambda>org m. runtime_dispatch sample_rl snowbridge (IncentivizedInboundSubmit m) org) [(Signed 3, sample_mint)] sample_rt =
     ([sample_mint], s') \<and> iin_nonce (rt_incentivized_in s') = 1"
  proof -
    obtain s' where run: "submit_all (\<lambda>org m. runtime_dispatch sample_rl snowbridge (IncentivizedInboundSubmit m) org)
        [(Signed 3, sample_mint)] sample_rt = ([sample_mint], s')"
      using sample_token_run by auto
    from inbound_messages_in_order [THEN conjunct2, rule_format, OF run] show ?thesis using run by simp
  qed
qed

end
