(* ===== verification/Runtime_Config.thy ===== *)
theory Runtime_Config
  imports Runtime
begin

text \<open>
  The rest of the runtimes' configuration that the bridge depends on: the pallets that
  \<open>construct_runtime!\<close> puts together with their indices, from which the first bytes of an encoded call
  follow, and the constants for time and weight.
\<close>

section \<open>Pallets\<close>

datatype pallet_part = PartPallet | PartCall | PartConfig | PartStorage | PartEvent | PartOrigin | PartInherent

record pallet_decl =
  pd_name :: string
  pd_parts :: "pallet_part list"
  pd_index :: u8

abbreviation pallet :: "string \<Rightarrow> pallet_part list \<Rightarrow> u8 \<Rightarrow> pallet_decl" where
  "pallet n ps i \<equiv> \<lparr>pd_name = n, pd_parts = ps, pd_index = i\<rparr>"

definition snowbridge_pallets :: "pallet_decl list" where
  "snowbridge_pallets = [
     pallet ''System'' [PartPallet, PartCall, PartConfig, PartStorage, PartEvent] 0,
     pallet ''Timestamp'' [PartPallet, PartCall, PartStorage, PartInherent] 1,
     pallet ''Balances'' [PartPallet, PartCall, PartStorage, PartConfig, PartEvent] 2,
     pallet ''TransactionPayment'' [PartPallet, PartStorage] 3,
     pallet ''RandomnessCollectiveFlip'' [PartPallet, PartStorage] 4,
     pallet ''Utility'' [PartPallet, PartCall, PartEvent] 5,
     pallet ''ParachainInfo'' [PartPallet, PartStorage, PartConfig] 6,
     pallet ''ParachainSystem'' [PartPallet, PartCall, PartStorage, PartInherent, PartEvent] 7,
     pallet ''LocalCouncil'' [PartPallet, PartCall, PartStorage, PartOrigin, PartEvent, PartConfig] 8,
     pallet ''LocalCouncilMembership'' [PartPallet, PartCall, PartStorage, PartEvent, PartConfig] 9,
     pallet ''BasicInboundChannel'' [PartPallet, PartCall, PartConfig, PartStorage, PartEvent] 10,
     pallet ''BasicOutboundChannel'' [PartPallet, PartConfig, PartStorage, PartEvent] 11,
     pallet ''IncentivizedInboundChannel'' [PartPallet, PartCall, PartConfig, PartStorage, PartEvent] 12,
     pallet ''IncentivizedOutboundChannel'' [PartPallet, PartConfig, PartStorage, PartEvent] 13,
     pallet ''Dispatch'' [PartPallet, PartCall, PartStorage, PartEvent, PartOrigin] 14,
     pallet ''EthereumLightClient'' [PartPallet, PartCall, PartStorage, PartEvent, PartConfig] 15,
     pallet ''Assets'' [PartPallet, PartCall, PartConfig, PartStorage, PartEvent] 16,
     pallet ''NFT'' [PartPallet, PartCall, PartConfig, PartStorage] 24,
     pallet ''XcmpQueue'' [PartPallet, PartCall, PartStorage, PartEvent] 17,
     pallet ''DmpQueue'' [PartPallet, PartCall, PartStorage, PartEvent] 18,
     pallet ''PolkadotXcm'' [PartPallet, PartCall, PartEvent, PartOrigin] 19,
     pallet ''CumulusXcm'' [PartPallet, PartEvent, PartOrigin] 20,
     pallet ''Aura'' [PartPallet, PartConfig] 21,
     pallet ''AuraExt'' [PartPallet, PartConfig] 22,
     pallet ''Sudo'' [PartPallet, PartCall, PartConfig, PartStorage, PartEvent] 23,
     pallet ''DotApp'' [PartPallet, PartCall, PartConfig, PartStorage, PartEvent] 64,
     pallet ''EthApp'' [PartPallet, PartCall, PartConfig, PartStorage, PartEvent] 65,
     pallet ''Erc20App'' [PartPallet, PartCall, PartConfig, PartStorage, PartEvent] 66,
     pallet ''Erc721App'' [PartPallet, PartCall, PartConfig, PartStorage, PartEvent] 67]"

definition rococo_pallets :: "pallet_decl list" where
  "rococo_pallets = [
     pallet ''System'' [PartPallet, PartCall, PartConfig, PartStorage, PartEvent] 0,
     pallet ''Timestamp'' [PartPallet, PartCall, PartStorage, PartInherent] 1,
     pallet ''Balances'' [PartPallet, PartCall, PartStorage, PartConfig, PartEvent] 2,
     pallet ''TransactionPayment'' [PartPallet, PartStorage] 3,
     pallet ''RandomnessCollectiveFlip'' [PartPallet, PartStorage] 4,
     pallet ''Utility'' [PartPallet, PartCall, PartEvent, PartStorage] 5,
     pallet ''ParachainInfo'' [PartPallet, PartStorage, PartConfig] 6,
     pallet ''ParachainSystem'' [PartPallet, PartCall, PartStorage, PartInherent, PartEvent] 7,
     pallet ''LocalCouncil'' [PartPallet, PartCall, PartStorage, PartOrigin, PartEvent, PartConfig] 8,
     pallet ''LocalCouncilMembership'' [PartPallet, PartCall, PartStorage, PartEvent, PartConfig] 9,
     pallet ''BasicInboundChannel'' [PartPallet, PartCall, PartConfig, PartStorage, PartEvent] 10,
     pallet ''BasicOutboundChannel'' [PartPallet, PartConfig, PartStorage, PartEvent] 11,
     pallet ''IncentivizedInboundChannel'' [PartPallet, PartCall, PartConfig, PartStorage, PartEvent] 12,
     pallet ''IncentivizedOutboundChannel'' [PartPallet, PartConfig, PartStorage, PartEvent] 13,
     pallet ''Dispatch'' [PartPallet, PartCall, PartStorage, PartEvent, PartOrigin] 14,
     pallet ''EthereumLightClient'' [PartPallet, PartCall, PartStorage, PartEvent, PartConfig] 15,
     pallet ''Assets'' [PartPallet, PartCall, PartConfig, PartStorage, PartEvent] 16,
     pallet ''NFT'' [PartPallet, PartCall, PartConfig, PartStorage] 24,
     pallet ''XcmpQueue'' [PartPallet, PartCall, PartStorage, PartEvent] 17,
     pallet ''DmpQueue'' [PartPallet, PartCall, PartStorage, PartEvent] 18,
     pallet ''PolkadotXcm'' [PartPallet, PartCall, PartEvent, PartOrigin] 19,
     pallet ''CumulusXcm'' [PartPallet, PartEvent, PartOrigin] 20,
     pallet ''Aura'' [PartPallet, PartConfig] 21,
     pallet ''AuraExt'' [PartPallet, PartConfig] 22,
     pallet ''Sudo'' [PartPallet, PartCall, PartConfig, PartStorage, PartEvent] 23,
     pallet ''DotApp'' [PartPallet, PartCall, PartConfig, PartStorage, PartEvent] 64,
     pallet ''EthApp'' [PartPallet, PartCall, PartConfig, PartStorage, PartEvent] 65,
     pallet ''Erc20App'' [PartPallet, PartCall, PartConfig, PartStorage, PartEvent] 66,
     pallet ''Erc721App'' [PartPallet, PartCall, PartConfig, PartStorage, PartEvent] 67]"

definition local_pallets :: "pallet_decl list" where
  "local_pallets = [
     pallet ''System'' [PartPallet, PartCall, PartConfig, PartStorage, PartEvent] 0,
     pallet ''Timestamp'' [PartPallet, PartCall, PartStorage, PartInherent] 1,
     pallet ''Balances'' [PartPallet, PartCall, PartStorage, PartConfig, PartEvent] 2,
     pallet ''TransactionPayment'' [PartPallet, PartStorage] 3,
     pallet ''RandomnessCollectiveFlip'' [PartPallet, PartStorage] 4,
     pallet ''Utility'' [PartPallet, PartCall, PartEvent, PartStorage] 5,
     pallet ''ParachainInfo'' [PartPallet, PartStorage, PartConfig] 6,
     pallet ''ParachainSystem'' [PartPallet, PartCall, PartStorage, PartInherent, PartEvent] 7,
     pallet ''LocalCouncil'' [PartPallet, PartCall, PartStorage, PartOrigin, PartEvent, PartConfig] 8,
     pallet ''LocalCouncilMembership'' [PartPallet, PartCall, PartStorage, PartEvent, PartConfig] 9,
     pallet ''BasicInboundChannel'' [PartPallet, PartCall, PartConfig, PartStorage, PartEvent] 10,
     pallet ''BasicOutboundChannel'' [PartPallet, PartConfig, PartStorage, PartEvent] 11,
     pallet ''IncentivizedInboundChannel'' [PartPallet, PartCall, PartConfig, PartStorage, PartEvent] 12,
     pallet ''IncentivizedOutboundChannel'' [PartPallet, PartConfig, PartStorage, PartEvent] 13,
     pallet ''Dispatch'' [PartPallet, PartCall, PartStorage, PartEvent, PartOrigin] 14,
     pallet ''EthereumLightClient'' [PartPallet, PartCall, PartStorage, PartEvent, PartConfig] 15,
     pallet ''Assets'' [PartPallet, PartCall, PartConfig, PartStorage, PartEvent] 16,
     pallet ''NFT'' [PartPallet, PartCall, PartConfig, PartStorage] 24,
     pallet ''XcmpQueue'' [PartPallet, PartCall, PartStorage, PartEvent] 17,
     pallet ''DmpQueue'' [PartPallet, PartCall, PartStorage, PartEvent] 18,
     pallet ''PolkadotXcm'' [PartPallet, PartCall, PartEvent, PartOrigin] 19,
     pallet ''CumulusXcm'' [PartPallet, PartEvent, PartOrigin] 20,
     pallet ''Aura'' [PartPallet, PartConfig] 21,
     pallet ''AuraExt'' [PartPallet, PartConfig] 22,
     pallet ''Sudo'' [PartPallet, PartCall, PartConfig, PartStorage, PartEvent] 23,
     pallet ''DotApp'' [PartPallet, PartCall, PartConfig, PartStorage, PartEvent] 64,
     pallet ''EthApp'' [PartPallet, PartCall, PartConfig, PartStorage, PartEvent] 65,
     pallet ''Erc20App'' [PartPallet, PartCall, PartConfig, PartStorage, PartEvent] 66,
     pallet ''Erc721App'' [PartPallet, PartCall, PartConfig, PartStorage, PartEvent] 67]"

section \<open>Indices of calls\<close>

text \<open>
  The pallet of each call and its position among the dispatchable functions of that pallet.
\<close>

fun call_position :: "('d, 'f) call \<Rightarrow> (string \<times> u8) option" where
  "call_position (BasicInboundSubmit _) = Some (''BasicInboundChannel'', 0)"
| "call_position (IncentivizedInboundSubmit _) = Some (''IncentivizedInboundChannel'', 0)"
| "call_position (SetRewardFraction _) = Some (''IncentivizedInboundChannel'', 1)"
| "call_position (ImportHeader _ _) = Some (''EthereumLightClient'', 0)"
| "call_position (AssetsTransfer _ _ _) = Some (''Assets'', 0)"
| "call_position (DotLock _ _ _) = Some (''DotApp'', 0)"
| "call_position (DotUnlock _ _ _) = Some (''DotApp'', 1)"
| "call_position (EthBurn _ _ _) = Some (''EthApp'', 0)"
| "call_position (EthMint _ _ _) = Some (''EthApp'', 1)"
| "call_position (Erc20Burn _ _ _ _) = Some (''Erc20App'', 0)"
| "call_position (Erc20Mint _ _ _ _) = Some (''Erc20App'', 1)"
| "call_position (Erc721Burn _ _ _) = Some (''Erc721App'', 0)"
| "call_position (Erc721Mint _ _ _ _ _) = Some (''Erc721App'', 1)"
| "call_position (ForeignCall _ _) = None"

definition find_pallet :: "pallet_decl list \<Rightarrow> string \<Rightarrow> pallet_decl option" where
  "find_pallet ps n = find (\<lambda>p. pd_name p = n) ps"

text \<open>The first two bytes of an encoded call: the index of the pallet and that of the function.\<close>

definition call_prefix :: "pallet_decl list \<Rightarrow> ('d, 'f) call \<Rightarrow> bytes option" where
  "call_prefix ps c = Option.bind (call_position c) (\<lambda>(n, i). map_option (\<lambda>p. [pd_index p, i]) (find_pallet ps n))"

definition runtime_pallets :: "pallet_decl list list" where
  "runtime_pallets = [snowbridge_pallets, rococo_pallets, local_pallets]"

lemmas pallet_defs = snowbridge_pallets_def rococo_pallets_def local_pallets_def

lemma pallets_distinct: "ps \<in> set runtime_pallets \<Longrightarrow> distinct (map pd_name ps) \<and> distinct (map pd_index ps)"
  by (auto simp: runtime_pallets_def pallet_defs)

text \<open>
  Every call of the bridge belongs to a pallet that is listed with its calls; the outbound channels
  are not, so that their functions have no encoding.
\<close>

theorem bridge_calls_listed:
  assumes "ps \<in> set runtime_pallets" "call_position c = Some (n, i)"
  shows "\<exists>p. find_pallet ps n = Some p \<and> PartCall \<in> set (pd_parts p)"
  using assms by (cases c) (auto simp: runtime_pallets_def pallet_defs find_pallet_def)

theorem outbound_calls_unlisted:
  assumes "ps \<in> set runtime_pallets" "n \<in> {''BasicOutboundChannel'', ''IncentivizedOutboundChannel''}"
  shows "\<exists>p. find_pallet ps n = Some p \<and> PartCall \<notin> set (pd_parts p)"
  using assms by (auto simp: runtime_pallets_def pallet_defs find_pallet_def)

theorem app_call_prefixes:
  assumes "ps \<in> set runtime_pallets"
  shows "call_prefix ps (DotUnlock sender d x) = Some [0x40, 1] \<and> call_prefix ps (EthMint sender d x) = Some [0x41, 1] \<and>
    call_prefix ps (Erc20Mint t sender d x) = Some [0x42, 1] \<and> call_prefix ps (Erc721Mint sender d t' n uri) = Some [0x43, 1]"
  using assms by (auto simp: runtime_pallets_def pallet_defs find_pallet_def call_prefix_def)

section \<open>Time and weight\<close>

definition MILLISECS_PER_BLOCK :: u64 where
  "MILLISECS_PER_BLOCK = 12000"

definition SLOT_DURATION :: u64 where
  "SLOT_DURATION = MILLISECS_PER_BLOCK"

definition MINUTES :: u32 where
  "MINUTES = 60000 div ucast MILLISECS_PER_BLOCK"

definition HOURS :: u32 where
  "HOURS = MINUTES * 60"

definition DAYS :: u32 where
  "DAYS = HOURS * 24"

definition MinimumPeriod :: u64 where
  "MinimumPeriod = SLOT_DURATION div 2"

definition LocalCouncilMotionDuration :: u32 where
  "LocalCouncilMotionDuration = 7 * DAYS"

definition ReservedXcmpWeight :: u64 where
  "ReservedXcmpWeight = MAXIMUM_BLOCK_WEIGHT div 4"

definition ReservedDmpWeight :: u64 where
  "ReservedDmpWeight = MAXIMUM_BLOCK_WEIGHT div 4"

definition MaxDownwardMessageWeight :: u64 where
  "MaxDownwardMessageWeight = MAXIMUM_BLOCK_WEIGHT div 10"

definition ExistentialDeposit :: u128 where
  "ExistentialDeposit = 500"

text \<open>A motion of the council stays open for a week of blocks.\<close>

theorem motion_lasts_a_week:
  "unat LocalCouncilMotionDuration * unat MILLISECS_PER_BLOCK = 7 * 24 * 60 * 60 * 1000"
  by (simp add: LocalCouncilMotionDuration_def DAYS_def HOURS_def MINUTES_def MILLISECS_PER_BLOCK_def unat_div_distrib unat_word_ariths)

end
