(* ===== verification/Node_Service.thy ===== *)
theory Node_Service
  imports Chain_Spec Runtime_Config Complex_Main
begin

text \<open>
  \<open>src/service.rs\<close>: how a collator or a full node is put together.  Every part (client, database,
  keystore, transaction pool, import queue, network, relay chain node, consensus) belongs to the
  client libraries: what they make are handles of one open type, and their constructors are the
  fields of \<open>service_lib\<close>, which act on the state of the process and may fail.  The set-up itself
  is what the code does: in which order it calls them, with what, and what it does when one fails.
\<close>

section \<open>Configuration and libraries\<close>

datatype role = Full | Light | Authority

definition is_authority :: "role \<Rightarrow> bool" where
  "is_authority r \<longleftrightarrow> r = Authority"

record ('k, 'h) configuration =
  cfg_chain_spec :: "'k chain_spec"
  cfg_base_path :: "string option"
  cfg_role :: role
  cfg_telemetry_endpoints :: "string list option"
  cfg_transaction_pool :: 'h
  cfg_prometheus_registry :: "'h option"
  cfg_force_authoring :: bool
  cfg_network :: 'h
  cfg_database :: 'h

text \<open>\<open>polkadot_service::Error\<close>: an error of \<open>sc_service\<close>, or another with the text it displays.\<close>

datatype polkadot_error = Sub string | OtherPolkadotError string

record 'h aura_params =
  ap_task_manager :: 'h
  ap_client :: 'h
  ap_transaction_pool :: 'h
  ap_prometheus_registry :: "'h option"
  ap_telemetry :: "'h option"
  ap_relay_chain_node :: 'h
  ap_sync_oracle :: 'h
  ap_keystore :: 'h
  ap_force_authoring :: bool
  ap_slot_duration :: u64
  ap_inherents :: "u64 \<Rightarrow> 'h \<times> 'h \<Rightarrow> (string, u64 \<times> u64 \<times> 'h) result"
  ap_proposal_slot_portion :: rat
  ap_max_proposal_slot_portion :: "rat option"

record ('s, 'k, 'h, 'c) service_lib =
  telemetry_worker_new :: "nat \<Rightarrow> ('s, string, 'h) ext"
  worker_handle :: "'h \<Rightarrow> 'h"
  new_telemetry :: "'h \<Rightarrow> string list \<Rightarrow> 's \<Rightarrow> 'h \<times> 's"
  telemetry_handle :: "'h \<Rightarrow> 'h"
  new_full_parts :: "('k, 'h) configuration \<Rightarrow> 'h option \<Rightarrow> ('s, string, 'h \<times> 'h \<times> 'h \<times> 'h) ext"
  spawn :: "'h \<Rightarrow> string \<Rightarrow> 'h \<Rightarrow> 's \<Rightarrow> 's"
  new_full_pool :: "'h \<Rightarrow> bool \<Rightarrow> 'h option \<Rightarrow> 'h \<Rightarrow> 'h \<Rightarrow> 's \<Rightarrow> 'h \<times> 's"
  slot_duration :: "'h \<Rightarrow> ('s, string, u64) ext"
  slot_from_timestamp :: "u64 \<Rightarrow> u64 \<Rightarrow> u64"
  aura_import_queue :: "'h \<Rightarrow> (u64 \<Rightarrow> u64 \<times> u64) \<Rightarrow> 'h option \<Rightarrow> 'h \<Rightarrow> 'h option \<Rightarrow> ('s, string, 'h) ext"
  prepare_node_config :: "('k, 'h) configuration \<Rightarrow> ('k, 'h) configuration"
  build_polkadot_full_node :: "'c \<Rightarrow> 'h option \<Rightarrow> ('s, polkadot_error, 'h) ext"
  build_block_announce_validator :: "'h \<Rightarrow> u32 \<Rightarrow> 'h"
  shared_import_queue :: "'h \<Rightarrow> 'h"
  build_network :: "('k, 'h) configuration \<Rightarrow> 'h \<Rightarrow> 'h \<Rightarrow> 'h \<Rightarrow> 'h \<Rightarrow> 'h \<Rightarrow> ('s, string, 'h \<times> 'h \<times> 'h) ext"
  spawn_tasks :: "('k, 'h) configuration \<Rightarrow> 'h \<Rightarrow> 'h \<Rightarrow> 'h \<Rightarrow> 'h \<Rightarrow> 'h \<Rightarrow> 'h \<Rightarrow> 'h \<Rightarrow> 'h option \<Rightarrow> ('s, string, unit) ext"
  create_parachain_inherent :: "'h \<Rightarrow> 'h \<Rightarrow> 'h \<Rightarrow> u32 \<Rightarrow> 'h option"
  build_aura_consensus :: "'h aura_params \<Rightarrow> 's \<Rightarrow> 'h \<times> 's"
  start_collator :: "u32 \<Rightarrow> 'h \<Rightarrow> 'h \<Rightarrow> 'h \<Rightarrow> 'h \<Rightarrow> 'h \<Rightarrow> 'h \<Rightarrow> ('s, string, unit) ext"
  start_full_node :: "'h \<Rightarrow> 'h \<Rightarrow> 'h \<Rightarrow> u32 \<Rightarrow> 'h \<Rightarrow> ('s, string, unit) ext"
  start_network :: "'h \<Rightarrow> 's \<Rightarrow> 's"

definition run_io :: "('s \<Rightarrow> 'a \<times> 's) \<Rightarrow> ('s, 'e, 'a) ext" where
  "run_io f s = (case f s of (a, s') \<Rightarrow> (Ok a, s'))"

section \<open>Parts of a node\<close>

record 'h partial_components =
  pc_backend :: 'h
  pc_client :: 'h
  pc_import_queue :: 'h
  pc_keystore :: 'h
  pc_task_manager :: 'h
  pc_transaction_pool :: 'h
  pc_telemetry :: "'h option"
  pc_telemetry_worker_handle :: "'h option"

text \<open>Telemetry is set up when endpoints are given: the worker and the telemetry it makes.\<close>

definition start_telemetry :: "('s, 'k, 'h, 'c) service_lib \<Rightarrow> string list option \<Rightarrow> ('s, string, ('h \<times> 'h) option) ext" where
  "start_telemetry V endpoints = (case endpoints of
       None \<Rightarrow> ret None
     | Some es \<Rightarrow>
         if es = [] then ret None
         else
           bind_ext (telemetry_worker_new V 16) (\<lambda>worker.
           bind_ext (run_io (new_telemetry V (worker_handle V worker) es)) (\<lambda>telemetry.
           ret (Some (worker, telemetry)))))"

definition spawn_telemetry :: "('s, 'k, 'h, 'c) service_lib \<Rightarrow> 'h \<Rightarrow> ('h \<times> 'h) option \<Rightarrow> ('s, string, 'h option) ext" where
  "spawn_telemetry V task_manager telemetry = (case telemetry of
       None \<Rightarrow> ret None
     | Some (worker, t) \<Rightarrow> bind_ext (modify (spawn V task_manager ''telemetry'' worker)) (\<lambda>_. ret (Some t)))"

definition new_partial ::
  "('s, 'k, 'h, 'c) service_lib \<Rightarrow> ('k, 'h) configuration \<Rightarrow>
     ('h \<Rightarrow> ('k, 'h) configuration \<Rightarrow> 'h option \<Rightarrow> 'h \<Rightarrow> ('s, string, 'h) ext) \<Rightarrow> ('s, string, 'h partial_components) ext" where
  "new_partial V config build_import_queue =
     bind_ext (start_telemetry V (cfg_telemetry_endpoints config)) (\<lambda>telemetry.
     bind_ext (new_full_parts V config (map_option (\<lambda>(_, t). telemetry_handle V t) telemetry))
       (\<lambda>(client, backend, keystore_container, task_manager).
     let telemetry_worker_handle = map_option (\<lambda>(worker, _). worker_handle V worker) telemetry in
     bind_ext (spawn_telemetry V task_manager telemetry) (\<lambda>telemetry.
     bind_ext (run_io (new_full_pool V (cfg_transaction_pool config) (is_authority (cfg_role config))
       (cfg_prometheus_registry config) task_manager client)) (\<lambda>transaction_pool.
     bind_ext (build_import_queue client config (map_option (telemetry_handle V) telemetry) task_manager) (\<lambda>import_queue.
     ret \<lparr>pc_backend = backend, pc_client = client, pc_import_queue = import_queue, pc_keystore = keystore_container,
       pc_task_manager = task_manager, pc_transaction_pool = transaction_pool, pc_telemetry = telemetry,
       pc_telemetry_worker_handle = telemetry_worker_handle\<rparr>)))))"

text \<open>
  What a block's inherents are made of: the time and the slot it falls into, and, for an author, the
  data of the relay chain.
\<close>

definition import_inherents :: "('s, 'k, 'h, 'c) service_lib \<Rightarrow> u64 \<Rightarrow> u64 \<Rightarrow> u64 \<times> u64" where
  "import_inherents V duration time = (time, slot_from_timestamp V time duration)"

definition build_import_queue ::
  "('s, 'k, 'h, 'c) service_lib \<Rightarrow> 'h \<Rightarrow> ('k, 'h) configuration \<Rightarrow> 'h option \<Rightarrow> 'h \<Rightarrow> ('s, string, 'h) ext" where
  "build_import_queue V client config telemetry task_manager =
     bind_ext (slot_duration V client) (\<lambda>duration.
     aura_import_queue V client (import_inherents V duration) (cfg_prometheus_registry config) task_manager telemetry)"

definition author_inherents ::
  "('s, 'k, 'h, 'c) service_lib \<Rightarrow> u64 \<Rightarrow> 'h \<Rightarrow> u32 \<Rightarrow> u64 \<Rightarrow> 'h \<times> 'h \<Rightarrow> (string, u64 \<times> u64 \<times> 'h) result" where
  "author_inherents V duration relay_chain_node para_id time parents = (case parents of (relay_parent, validation_data) \<Rightarrow>
     bind_res (ok_or ''Failed to create parachain inherent''
       (create_parachain_inherent V relay_parent relay_chain_node validation_data para_id)) (\<lambda>parachain_inherent.
     Ok (time, slot_from_timestamp V time duration, parachain_inherent)))"

text \<open>The shares of a slot for proposing are \<open>f32\<close> values in the code.\<close>

definition block_proposal_slot_portion :: rat where
  "block_proposal_slot_portion = 1 / 24"

definition max_block_proposal_slot_portion :: "rat option" where
  "max_block_proposal_slot_portion = Some (1 / 16)"

definition build_consensus ::
  "('s, 'k, 'h, 'c) service_lib \<Rightarrow> u32 \<Rightarrow> 'h \<Rightarrow> 'h option \<Rightarrow> 'h option \<Rightarrow> 'h \<Rightarrow> 'h \<Rightarrow> 'h \<Rightarrow> 'h \<Rightarrow> 'h \<Rightarrow> bool \<Rightarrow>
     ('s, string, 'h) ext" where
  "build_consensus V para_id client prometheus_registry telemetry task_manager relay_chain_node transaction_pool sync_oracle
       keystore force_authoring =
     bind_ext (slot_duration V client) (\<lambda>duration.
     run_io (build_aura_consensus V \<lparr>ap_task_manager = task_manager, ap_client = client, ap_transaction_pool = transaction_pool,
       ap_prometheus_registry = prometheus_registry, ap_telemetry = telemetry, ap_relay_chain_node = relay_chain_node,
       ap_sync_oracle = sync_oracle, ap_keystore = keystore, ap_force_authoring = force_authoring, ap_slot_duration = duration,
       ap_inherents = author_inherents V duration relay_chain_node para_id,
       ap_proposal_slot_portion = block_proposal_slot_portion, ap_max_proposal_slot_portion = max_block_proposal_slot_portion\<rparr>))"

section \<open>A node\<close>

fun relay_node_error :: "polkadot_error \<Rightarrow> string" where
  "relay_node_error (Sub x) = x"
| "relay_node_error (OtherPolkadotError text) = text"

text \<open>The set-up up to the last step of \<open>start_node_impl\<close>, which starts the network.\<close>

definition assemble_node ::
  "('s, 'k, 'h, 'c) service_lib \<Rightarrow> ('k, 'h) configuration \<Rightarrow> 'c \<Rightarrow> u32 \<Rightarrow>
     ('h \<Rightarrow> ('k, 'h) configuration \<Rightarrow> 'h option \<Rightarrow> 'h \<Rightarrow> ('s, string, 'h) ext) \<Rightarrow>
     ('h \<Rightarrow> 'h option \<Rightarrow> 'h option \<Rightarrow> 'h \<Rightarrow> 'h \<Rightarrow> 'h \<Rightarrow> 'h \<Rightarrow> 'h \<Rightarrow> bool \<Rightarrow> ('s, string, 'h) ext) \<Rightarrow>
     ('s, string, 'h \<times> 'h \<times> 'h) ext" where
  "assemble_node V parachain_config polkadot_config para_id import_queue_builder consensus_builder =
     (if cfg_role parachain_config = Light then lift_res (Err ''Light client not supported!'')
      else
        let config = prepare_node_config V parachain_config in
        bind_ext (new_partial V config import_queue_builder) (\<lambda>params.
        bind_ext (map_err_ext relay_node_error (build_polkadot_full_node V polkadot_config (pc_telemetry_worker_handle params)))
          (\<lambda>relay_chain_full_node.
        let client = pc_client params; task_manager = pc_task_manager params; transaction_pool = pc_transaction_pool params;
            validator = build_block_announce_validator V relay_chain_full_node para_id;
            import_queue = shared_import_queue V (pc_import_queue params) in
        bind_ext (build_network V config client transaction_pool task_manager import_queue validator)
          (\<lambda>(network, system_rpc_tx, network_starter).
        bind_ext (spawn_tasks V config client transaction_pool task_manager (pc_keystore params) (pc_backend params) network
          system_rpc_tx (pc_telemetry params)) (\<lambda>_.
        bind_ext
          (if is_authority (cfg_role config) then
             bind_ext (consensus_builder client (cfg_prometheus_registry config) (map_option (telemetry_handle V) (pc_telemetry params))
               task_manager relay_chain_full_node transaction_pool network (pc_keystore params) (cfg_force_authoring config)) (\<lambda>consensus.
             start_collator V para_id client network task_manager relay_chain_full_node consensus import_queue)
           else start_full_node V client network task_manager para_id relay_chain_full_node) (\<lambda>_.
        ret (network_starter, task_manager, client)))))))"

definition start_node_impl ::
  "('s, 'k, 'h, 'c) service_lib \<Rightarrow> ('k, 'h) configuration \<Rightarrow> 'c \<Rightarrow> u32 \<Rightarrow>
     ('h \<Rightarrow> ('k, 'h) configuration \<Rightarrow> 'h option \<Rightarrow> 'h \<Rightarrow> ('s, string, 'h) ext) \<Rightarrow>
     ('h \<Rightarrow> 'h option \<Rightarrow> 'h option \<Rightarrow> 'h \<Rightarrow> 'h \<Rightarrow> 'h \<Rightarrow> 'h \<Rightarrow> 'h \<Rightarrow> bool \<Rightarrow> ('s, string, 'h) ext) \<Rightarrow>
     ('s, string, 'h \<times> 'h) ext" where
  "start_node_impl V parachain_config polkadot_config para_id import_queue_builder consensus_builder =
     bind_ext (assemble_node V parachain_config polkadot_config para_id import_queue_builder consensus_builder)
       (\<lambda>(network_starter, task_manager, client).
     bind_ext (modify (start_network V network_starter)) (\<lambda>_.
     ret (task_manager, client)))"

definition start_parachain_node ::
  "('s, 'k, 'h, 'c) service_lib \<Rightarrow> ('k, 'h) configuration \<Rightarrow> 'c \<Rightarrow> u32 \<Rightarrow> ('s, string, 'h \<times> 'h) ext" where
  "start_parachain_node V parachain_config polkadot_config para_id =
     start_node_impl V parachain_config polkadot_config para_id (build_import_queue V) (build_consensus V para_id)"

section \<open>What the set-up guarantees\<close>

text \<open>Which of the libraries' functions a node of a given role does not call.\<close>

lemmas service_defs = start_parachain_node_def start_node_impl_def assemble_node_def new_partial_def start_telemetry_def
  spawn_telemetry_def build_import_queue_def [abs_def] import_inherents_def [abs_def]
  build_consensus_def [abs_def] author_inherents_def [abs_def] Let_def

text \<open>Putting the parts of a node together does not depend on how the network is started, which is the last step.\<close>

lemma assemble_before_network:
  "assemble_node (V\<lparr>start_network := f\<rparr>) config pc i (build_import_queue (V\<lparr>start_network := f\<rparr>)) (build_consensus (V\<lparr>start_network := f\<rparr>) i) =
   assemble_node V config pc i (build_import_queue V) (build_consensus V i)"
  by (simp add: service_defs cong: if_cong option.case_cong)

lemma network_starts_last:
  "\<exists>h. start_parachain_node V config pc i s = (case start_parachain_node (V\<lparr>start_network := \<lambda>_ s. s\<rparr>) config pc i s of
     (Ok x, t) \<Rightarrow> (Ok x, start_network V h t) | r \<Rightarrow> r)"
proof -
  obtain r t where "assemble_node V config pc i (build_import_queue V) (build_consensus V i) s = (r, t)" by fastforce
  then show ?thesis
    by (cases r) (auto simp: start_parachain_node_def start_node_impl_def assemble_before_network bind_ext_def modify_def ret_def)
qed

theorem node_by_role:
  "(cfg_role config = Light \<longrightarrow> start_parachain_node V config pc i s = (Err ''Light client not supported!'', s)) \<and>
   (\<not> is_authority (cfg_role (prepare_node_config V config)) \<longrightarrow>
     start_parachain_node (V\<lparr>start_collator := f, build_aura_consensus := g\<rparr>) config pc i = start_parachain_node V config pc i) \<and>
   (is_authority (cfg_role (prepare_node_config V config)) \<longrightarrow>
     start_parachain_node (V\<lparr>start_full_node := h\<rparr>) config pc i = start_parachain_node V config pc i)"
proof (intro conjI impI)
  show "start_parachain_node V config pc i s = (Err ''Light client not supported!'', s)" if "cfg_role config = Light"
    using that by (simp add: start_parachain_node_def start_node_impl_def assemble_node_def ext_simps)
  show "start_parachain_node (V\<lparr>start_collator := f, build_aura_consensus := g\<rparr>) config pc i = start_parachain_node V config pc i"
    if "\<not> is_authority (cfg_role (prepare_node_config V config))"
    using that by (simp add: service_defs cong: if_cong option.case_cong)
  show "start_parachain_node (V\<lparr>start_full_node := h\<rparr>) config pc i = start_parachain_node V config pc i"
    if "is_authority (cfg_role (prepare_node_config V config))"
    using that by (simp add: service_defs cong: if_cong option.case_cong)
qed

theorem no_telemetry_without_endpoints:
  assumes "cfg_telemetry_endpoints config \<in> {None, Some []}"
  shows "new_partial (V\<lparr>telemetry_worker_new := f, new_telemetry := g, spawn := h\<rparr>) config (build_import_queue V) =
    new_partial V config (build_import_queue V)"
  using assms by (auto simp: service_defs ret_def bind_ext_def)

theorem same_slots:
  "author_inherents V d relay i time parents = Ok (time', slot, p) \<Longrightarrow> (time', slot) = import_inherents V d time"
  by (auto simp: author_inherents_def import_inherents_def ok_simps split: prod.splits)

text \<open>
  The time for proposing, in milliseconds: what the comments say, and in the usual case exactly the
  computation that the weight limit of a block allows.
\<close>

theorem proposal_time:
  "of_nat (unat SLOT_DURATION) * block_proposal_slot_portion = 500 \<and>
   map_option (\<lambda>q. of_nat (unat SLOT_DURATION) * q) max_block_proposal_slot_portion = Some 750 \<and>
   500 * WEIGHT_PER_MILLIS = MAXIMUM_BLOCK_WEIGHT"
  by (simp add: SLOT_DURATION_def MILLISECS_PER_BLOCK_def block_proposal_slot_portion_def max_block_proposal_slot_portion_def
      MAXIMUM_BLOCK_WEIGHT_def word_unat_eq_iff unat_div_distrib)

end
