(* ===== verification/Node_Command.thy ===== *)
theory Node_Command
  imports Node_Service Runtime_Samples
begin

text \<open>
  \<open>src/command.rs\<close> and \<open>src/cli.rs\<close>: the collator's command line.  The parsers, the chain
  specification files, the genesis block of a specification, the runner and the commands of the client
  libraries are the fields of \<open>node_lib\<close>; the parts of a node that the commands work on are those of
  \<open>Node_Service\<close>.
\<close>

section \<open>Command line\<close>

record export_genesis_state_command =
  egs_output :: "string option"
  egs_parachain_id :: u32
  egs_raw :: bool
  egs_chain :: "string option"

record export_genesis_wasm_command =
  egw_output :: "string option"
  egw_raw :: bool
  egw_chain :: "string option"

datatype 'x subcommand =
    ExportGenesisState export_genesis_state_command
  | ExportGenesisWasm export_genesis_wasm_command
  | BuildSpec 'x
  | CheckBlock 'x
  | ExportBlocks 'x
  | ExportState 'x
  | ImportBlocks 'x
  | PurgeChain 'x
  | Revert 'x
  | Benchmark 'x

record 'x run_cmd =
  run_base :: 'x
  run_parachain_id :: "u32 option"

record 'x cli =
  cli_subcommand :: "'x subcommand option"
  cli_run :: "'x run_cmd"
  cli_collator :: bool
  relaychain_args :: "string list"

text \<open>The command as the parser makes it from no arguments.\<close>

definition export_genesis_state_default :: export_genesis_state_command where
  "export_genesis_state_default = \<lparr>egs_output = None, egs_parachain_id = 100, egs_raw = False, egs_chain = None\<rparr>"

text \<open>\<open>Extensions\<close> of a specification.\<close>

record extensions =
  ext_relay_chain :: string
  ext_para_id :: u32

record 'x relay_chain_cli =
  rcc_base :: 'x
  rcc_chain_id :: "string option"
  rcc_base_path :: "string option"

text \<open>
  The methods of \<open>CliConfiguration\<close> that the relay chain's command line forwards; the parameters they return
  are handles.
\<close>

record ('k, 'h) cli_configuration =
  shared_params :: 'h
  import_params :: "'h option"
  network_params :: "'h option"
  keystore_params :: "'h option"
  base_path :: "(string, string option) result"
  rpc_http :: "u16 \<Rightarrow> (string, 'h option) result"
  rpc_ipc :: "(string, string option) result"
  rpc_ws :: "u16 \<Rightarrow> (string, 'h option) result"
  prometheus_config :: "u16 \<Rightarrow> (string, 'h option) result"
  init_logging :: "(string, unit) result"
  chain_id :: "bool \<Rightarrow> (string, string) result"
  node_role :: "bool \<Rightarrow> (string, role) result"
  transaction_pool :: "(string, 'h) result"
  state_cache_child_ratio :: "(string, nat option) result"
  rpc_methods :: "(string, 'h) result"
  rpc_ws_max_connections :: "(string, nat option) result"
  rpc_cors :: "bool \<Rightarrow> (string, string list option) result"
  telemetry_external_transport :: "(string, 'h option) result"
  default_heap_pages :: "(string, u64 option) result"
  force_authoring :: "(string, bool) result"
  disable_grandpa :: "(string, bool) result"
  max_runtime_instances :: "(string, nat option) result"
  announce_block :: "(string, bool) result"
  telemetry_endpoints :: "'k chain_spec \<Rightarrow> (string, string list option) result"

text \<open>\<open>DefaultConfigurationValues\<close>\<close>

record default_ports =
  p2p_listen_port :: u16
  rpc_ws_listen_port :: u16
  rpc_http_listen_port :: u16
  prometheus_listen_port :: u16

record ('s, 'k, 'x, 'c, 'h) node_lib =
  built_in_spec :: "u32 \<Rightarrow> 'k chain_spec"
  from_json_file :: "string \<Rightarrow> (string, 'k chain_spec) result"
  get_extension :: "'k chain_spec \<Rightarrow> extensions option"
  genesis_header :: "'k chain_spec \<Rightarrow> (string, bytes) result"
  build_storage :: "'k chain_spec \<Rightarrow> (string, bytes \<rightharpoonup> bytes) result"
  hex_display :: "bytes \<Rightarrow> string"
  debug_string :: "string \<Rightarrow> string"
  write_output :: "string option \<Rightarrow> bytes \<Rightarrow> ('s, string, unit) ext"
  executable_name :: string
  path_join :: "string \<Rightarrow> string \<Rightarrow> string"
  parse_relay_args :: "string list \<Rightarrow> 'x"
  base_configuration :: "'x \<Rightarrow> ('k, 'h) cli_configuration"
  shared_base_path :: "'h \<Rightarrow> string option"
  create_configuration :: "('k, 'h) cli_configuration \<Rightarrow> default_ports \<Rightarrow> (string, 'c) result"
  create_runner :: "'x cli \<Rightarrow> 'x \<Rightarrow> ('s, string, ('k, 'h) configuration) ext"
  run_until_exit :: "'h \<Rightarrow> ('s, string, unit) ext"
  build_spec_run :: "'x \<Rightarrow> 'k chain_spec \<Rightarrow> 'h \<Rightarrow> ('s, string, unit) ext"
  check_block_run :: "'x \<Rightarrow> 'h \<Rightarrow> 'h \<Rightarrow> ('s, string, unit) ext"
  export_blocks_run :: "'x \<Rightarrow> 'h \<Rightarrow> 'h \<Rightarrow> ('s, string, unit) ext"
  export_state_run :: "'x \<Rightarrow> 'h \<Rightarrow> 'k chain_spec \<Rightarrow> ('s, string, unit) ext"
  import_blocks_run :: "'x \<Rightarrow> 'h \<Rightarrow> 'h \<Rightarrow> ('s, string, unit) ext"
  purge_chain_run :: "'x \<Rightarrow> ('k, 'h) configuration \<Rightarrow> 'c \<Rightarrow> ('s, string, unit) ext"
  revert_run :: "'x \<Rightarrow> 'h \<Rightarrow> 'h \<Rightarrow> ('s, string, unit) ext"
  benchmark_run :: "'x \<Rightarrow> ('k, 'h) configuration \<Rightarrow> ('s, string, unit) ext"
  service :: "('s, 'k, 'h, 'c) service_lib"
  runtime_benchmarks :: bool

section \<open>Commands\<close>

definition DEFAULT_PARA_ID :: u32 where
  "DEFAULT_PARA_ID = 1000"

definition load_spec :: "('s, 'k, 'x, 'c, 'h) node_lib \<Rightarrow> string \<Rightarrow> u32 \<Rightarrow> (string, 'k chain_spec) result" where
  "load_spec N i para_id = (if i = [] then Ok (built_in_spec N para_id) else from_json_file N i)"

definition cli_load_spec :: "('s, 'k, 'x, 'c, 'h) node_lib \<Rightarrow> 'x cli \<Rightarrow> string \<Rightarrow> (string, 'k chain_spec) result" where
  "cli_load_spec N c i =
     load_spec N i (case run_parachain_id (cli_run c) of Some p \<Rightarrow> p | None \<Rightarrow> DEFAULT_PARA_ID)"

text \<open>\<open>well_known_keys::CODE\<close>\<close>

definition CODE :: bytes where
  "CODE = map (\<lambda>c. of_nat (of_char c)) '':code''"

definition extract_genesis_wasm :: "('s, 'k, 'x, 'c, 'h) node_lib \<Rightarrow> 'k chain_spec \<Rightarrow> (string, bytes) result" where
  "extract_genesis_wasm N spec =
     bind_res (build_storage N spec) (\<lambda>top.
     ok_or ''Could not find wasm file in genesis state!'' (top CODE))"

definition output_buf :: "('s, 'k, 'x, 'c, 'h) node_lib \<Rightarrow> bool \<Rightarrow> bytes \<Rightarrow> bytes" where
  "output_buf N raw b = (if raw then b else map (\<lambda>c. of_nat (of_char c)) (''0x'' @ hex_display N b))"

primrec unwrap_or_default :: "string option \<Rightarrow> string" where
  "unwrap_or_default None = []"
| "unwrap_or_default (Some x) = x"

definition export_genesis_state ::
  "('s, 'k, 'x, 'c, 'h) node_lib \<Rightarrow> export_genesis_state_command \<Rightarrow> ('s, string, unit) ext" where
  "export_genesis_state N params =
     bind_ext (lift_res (load_spec N (unwrap_or_default (egs_chain params)) (egs_parachain_id params))) (\<lambda>spec.
     bind_ext (lift_res (genesis_header N spec)) (\<lambda>raw_header.
     write_output N (egs_output params) (output_buf N (egs_raw params) raw_header)))"

definition export_genesis_wasm ::
  "('s, 'k, 'x, 'c, 'h) node_lib \<Rightarrow> 'x cli \<Rightarrow> export_genesis_wasm_command \<Rightarrow> ('s, string, unit) ext" where
  "export_genesis_wasm N c params =
     bind_ext (lift_res (cli_load_spec N c (unwrap_or_default (egw_chain params)))) (\<lambda>spec.
     bind_ext (lift_res (extract_genesis_wasm N spec)) (\<lambda>raw_wasm_blob.
     write_output N (egw_output params) (output_buf N (egw_raw params) raw_wasm_blob)))"

definition relay_chain_cli_new ::
  "('s, 'k, 'x, 'c, 'h) node_lib \<Rightarrow> ('k, 'h) configuration \<Rightarrow> string list \<Rightarrow> 'x relay_chain_cli" where
  "relay_chain_cli_new N para_config args =
     (let extension = get_extension N (cfg_chain_spec para_config) in
      \<lparr>rcc_base = parse_relay_args N args,
        rcc_chain_id = map_option ext_relay_chain extension,
        rcc_base_path = map_option (\<lambda>x. path_join N x ''polkadot'') (cfg_base_path para_config)\<rparr>)"

text \<open>\<open>RelayChainCli::chain_id\<close> and \<open>base_path\<close>, where the arguments for the relay chain come first.\<close>

definition relay_chain_id :: "'x relay_chain_cli \<Rightarrow> (string, string) result \<Rightarrow> (string, string) result" where
  "relay_chain_id rc base_chain_id =
     bind_res base_chain_id (\<lambda>i. Ok (if i = [] then unwrap_or_default (rcc_chain_id rc) else i))"

definition relay_base_path :: "'x relay_chain_cli \<Rightarrow> string option \<Rightarrow> (string, string option) result" where
  "relay_base_path rc path = Ok (case path of Some p \<Rightarrow> Some p | None \<Rightarrow> rcc_base_path rc)"

text \<open>\<open>CliConfiguration\<close> of the relay chain's command line; \<open>init\<close> is unreachable.\<close>

definition relay_cli_configuration :: "('s, 'k, 'x, 'c, 'h) node_lib \<Rightarrow> 'x relay_chain_cli \<Rightarrow> ('k, 'h) cli_configuration" where
  "relay_cli_configuration N rc =
     (let base = base_configuration N (rcc_base rc) in
      \<lparr>shared_params = shared_params base, import_params = import_params base, network_params = network_params base,
        keystore_params = keystore_params base, base_path = relay_base_path rc (shared_base_path N (shared_params base)),
        rpc_http = rpc_http base, rpc_ipc = rpc_ipc base, rpc_ws = rpc_ws base, prometheus_config = prometheus_config base,
        init_logging = Panic, chain_id = (\<lambda>is_dev. relay_chain_id rc (chain_id base is_dev)), node_role = node_role base,
        transaction_pool = transaction_pool base, state_cache_child_ratio = state_cache_child_ratio base,
        rpc_methods = rpc_methods base, rpc_ws_max_connections = rpc_ws_max_connections base, rpc_cors = rpc_cors base,
        telemetry_external_transport = telemetry_external_transport base, default_heap_pages = default_heap_pages base,
        force_authoring = force_authoring base, disable_grandpa = disable_grandpa base,
        max_runtime_instances = max_runtime_instances base, announce_block = announce_block base,
        telemetry_endpoints = telemetry_endpoints base\<rparr>)"

definition relay_default_ports :: default_ports where
  "relay_default_ports = \<lparr>p2p_listen_port = 30334, rpc_ws_listen_port = 9945, rpc_http_listen_port = 9934,
     prometheus_listen_port = 9616\<rparr>"

definition relay_configuration :: "('s, 'k, 'x, 'c, 'h) node_lib \<Rightarrow> 'x cli \<Rightarrow> ('k, 'h) configuration \<Rightarrow> (string, 'c) result" where
  "relay_configuration N c config =
     (let polkadot_cli = relay_chain_cli_new N config (executable_name N # relaychain_args c) in
      map_err (\<lambda>e. ''Relay chain argument error: '' @ e)
        (create_configuration N (relay_cli_configuration N polkadot_cli) relay_default_ports))"

text \<open>The number of the parachain that the node collates for.\<close>

definition node_para_id :: "'x cli \<Rightarrow> extensions option \<Rightarrow> u32" where
  "node_para_id c extension =
     (case run_parachain_id (cli_run c) of Some p \<Rightarrow> p
      | None \<Rightarrow> (case extension of Some e \<Rightarrow> ext_para_id e | None \<Rightarrow> 100))"

definition run_node :: "('s, 'k, 'x, 'c, 'h) node_lib \<Rightarrow> 'x cli \<Rightarrow> ('k, 'h) configuration \<Rightarrow> ('s, string, 'h) ext" where
  "run_node N c config =
     (let i = node_para_id c (get_extension N (cfg_chain_spec config)) in
      bind_ext (lift_res (map_err (debug_string N) (genesis_header N (cfg_chain_spec config)))) (\<lambda>_.
      bind_ext (lift_res (relay_configuration N c config)) (\<lambda>polkadot_config.
      bind_ext (start_parachain_node (service N) config polkadot_config i) (\<lambda>(task_manager, _).
      ret task_manager))))"

text \<open>The parts of a node that a command on its database works with.\<close>

definition node_parts :: "('s, 'k, 'x, 'c, 'h) node_lib \<Rightarrow> ('k, 'h) configuration \<Rightarrow> ('s, string, 'h partial_components) ext" where
  "node_parts N config = new_partial (service N) config (build_import_queue (service N))"

definition run :: "('s, 'k, 'x, 'c, 'h) node_lib \<Rightarrow> 'x cli \<Rightarrow> ('s, string, unit) ext" where
  "run N c = (case cli_subcommand c of
       Some (BuildSpec cmd) \<Rightarrow>
         bind_ext (create_runner N c cmd) (\<lambda>config. build_spec_run N cmd (cfg_chain_spec config) (cfg_network config))
     | Some (CheckBlock cmd) \<Rightarrow>
         bind_ext (create_runner N c cmd) (\<lambda>config.
         bind_ext (node_parts N config) (\<lambda>parts. check_block_run N cmd (pc_client parts) (pc_import_queue parts)))
     | Some (ExportBlocks cmd) \<Rightarrow>
         bind_ext (create_runner N c cmd) (\<lambda>config.
         bind_ext (node_parts N config) (\<lambda>parts. export_blocks_run N cmd (pc_client parts) (cfg_database config)))
     | Some (ExportState cmd) \<Rightarrow>
         bind_ext (create_runner N c cmd) (\<lambda>config.
         bind_ext (node_parts N config) (\<lambda>parts. export_state_run N cmd (pc_client parts) (cfg_chain_spec config)))
     | Some (ImportBlocks cmd) \<Rightarrow>
         bind_ext (create_runner N c cmd) (\<lambda>config.
         bind_ext (node_parts N config) (\<lambda>parts. import_blocks_run N cmd (pc_client parts) (pc_import_queue parts)))
     | Some (PurgeChain cmd) \<Rightarrow>
         bind_ext (create_runner N c cmd) (\<lambda>config.
         bind_ext (lift_res (relay_configuration N c config)) (\<lambda>polkadot_config. purge_chain_run N cmd config polkadot_config))
     | Some (Revert cmd) \<Rightarrow>
         bind_ext (create_runner N c cmd) (\<lambda>config.
         bind_ext (node_parts N config) (\<lambda>parts. revert_run N cmd (pc_client parts) (pc_backend parts)))
     | Some (ExportGenesisState params) \<Rightarrow> export_genesis_state N params
     | Some (ExportGenesisWasm params) \<Rightarrow> export_genesis_wasm N c params
     | Some (Benchmark cmd) \<Rightarrow>
         if runtime_benchmarks N then bind_ext (create_runner N c cmd) (benchmark_run N cmd)
         else lift_res (Err (''Benchmarking wasn'' @ [CHR 0x27] @ ''t enabled when building the node. You can enable it with `--features runtime-benchmarks`.''))
     | None \<Rightarrow>
         bind_ext (create_runner N c (run_base (cli_run c))) (\<lambda>config.
         bind_ext (run_node N c config) (run_until_exit N)))"

section \<open>The exported genesis and the genesis of the node\<close>

text \<open>
  The specification that the node is built with, for its runtime, and the file of the running
  node: \<open>get_extension\<close> finds the extensions that the specification was made with.
\<close>

definition built_for :: "('s, 'k, 'x, 'c, 'h) node_lib \<Rightarrow> ('p, 'k) seed_lib \<Rightarrow> bool" where
  "built_for N S \<longleftrightarrow> built_in_spec N \<in> set (map (\<lambda>(K, spec). spec S) runtime_specs) \<and>
     (\<forall>spec. get_extension N spec = Some \<lparr>ext_relay_chain = cs_relay_chain spec, ext_para_id = cs_para_id spec\<rparr>)"

lemma built_para_id: "built_for N S \<Longrightarrow> cs_para_id (built_in_spec N p) = p"
  by (auto simp: built_for_def runtime_specs_def spec_defs)

text \<open>
  What the command exports and what the node starts from, without a specification file: the
  built-in specification, each for its own number of the parachain.
\<close>

text \<open>
  C31. Without a specification file the node starts from the built-in specification for the
  number of the parachain it collates for, and the exported genesis is that of the same
  specification exactly when the export is given that number; with neither number given they
  differ, since the export assumes 100 and the node 1000.
\<close>

theorem exported_genesis_matches:
  assumes "built_for N S" "egs_chain params = None" "cli_load_spec N c [] = Ok spec" "cfg_chain_spec config = spec"
  shows "load_spec N (unwrap_or_default (egs_chain params)) (egs_parachain_id params) = Ok (built_in_spec N (egs_parachain_id params)) \<and>
    spec = built_in_spec N (node_para_id c (get_extension N spec)) \<and>
    (built_in_spec N (egs_parachain_id params) = spec \<longleftrightarrow> egs_parachain_id params = node_para_id c (get_extension N spec)) \<and>
    (run_parachain_id (cli_run c) = None \<longrightarrow> node_para_id c (get_extension N spec) = 1000 \<and>
      built_in_spec N (egs_parachain_id export_genesis_state_default) \<noteq> spec)"
proof -
  have e: "get_extension N spec = Some \<lparr>ext_relay_chain = cs_relay_chain spec, ext_para_id = cs_para_id spec\<rparr>"
    using assms(1) by (simp add: built_for_def)
  have s: "spec = built_in_spec N (case run_parachain_id (cli_run c) of Some p \<Rightarrow> p | None \<Rightarrow> 1000)"
    using assms(3) by (auto simp: cli_load_spec_def load_spec_def DEFAULT_PARA_ID_def split: option.splits)
  then have i: "node_para_id c (get_extension N spec) = (case run_parachain_id (cli_run c) of Some p \<Rightarrow> p | None \<Rightarrow> 1000)"
    using e built_para_id [OF assms(1)] by (auto simp: node_para_id_def split: option.splits)
  have inj: "built_in_spec N p = built_in_spec N q \<longleftrightarrow> p = q" for p q
    using built_para_id [OF assms(1)] by metis
  show ?thesis
    using s i inj assms(2) by (auto simp: load_spec_def export_genesis_state_default_def)
qed

theorem relay_chain_of_spec:
  assumes "built_for N S"
  shows "relay_chain_id (relay_chain_cli_new N config args) (Ok []) = Ok (cs_relay_chain (cfg_chain_spec config)) \<and>
    (i \<noteq> [] \<longrightarrow> relay_chain_id (relay_chain_cli_new N config args) (Ok i) = Ok i)"
  using assms by (simp add: built_for_def relay_chain_id_def relay_chain_cli_new_def Let_def)

section \<open>Only the node goes online\<close>

lemmas command_defs = load_spec_def cli_load_spec_def extract_genesis_wasm_def output_buf_def relay_chain_cli_new_def relay_cli_configuration_def
  relay_configuration_def Let_def

text \<open>A subcommand works on the parts that need no network.\<close>

lemma parts_without_network:
  "node_parts (N\<lparr>service := (service N)\<lparr>build_polkadot_full_node := f1, build_network := f2, spawn_tasks := f3, build_aura_consensus := f4,
      start_collator := f5, start_full_node := f6, start_network := f7\<rparr>\<rparr>) config = node_parts N config"
  by (simp add: node_parts_def service_defs cong: if_cong option.case_cong)

text \<open>
  C32. A subcommand never puts the node online: its outcome does not depend on the functions
  of the libraries that build the relay chain node and the network, spawn the tasks of the
  node, build the consensus, start the collator or the full node and start the network, as
  it calls none of them. And the start of a node starts the network of the parachain exactly
  once, as its last step after everything else has been set up, or not at all when a step
  fails (the relay chain node inside it, which is set up before, has a network of its own).
\<close>

theorem online_last:
  "(cli_subcommand c \<noteq> None \<longrightarrow>
     run (N\<lparr>service := (service N)\<lparr>build_polkadot_full_node := f1, build_network := f2, spawn_tasks := f3, build_aura_consensus := f4,
       start_collator := f5, start_full_node := f6, start_network := f7\<rparr>\<rparr>) c = run N c) \<and>
   (\<exists>h. start_parachain_node V config pc i s = (case start_parachain_node (V\<lparr>start_network := \<lambda>_ s. s\<rparr>) config pc i s of
     (Ok x, t) \<Rightarrow> (Ok x, start_network V h t) | r \<Rightarrow> r))"
proof (intro conjI impI)
  assume "cli_subcommand c \<noteq> None"
  then obtain cmd where cmd: "cli_subcommand c = Some cmd" by blast
  show "run (N\<lparr>service := (service N)\<lparr>build_polkadot_full_node := f1, build_network := f2, spawn_tasks := f3, build_aura_consensus := f4,
      start_collator := f5, start_full_node := f6, start_network := f7\<rparr>\<rparr>) c = run N c"
    unfolding run_def cmd
    by (cases cmd) (simp_all add: parts_without_network export_genesis_state_def export_genesis_wasm_def command_defs cong: if_cong)
qed (rule network_starts_last)

section \<open>A node\<close>

text \<open>
  A node built for the runtime \<open>snowbridge\<close> that records what its libraries do: what is written and started,
  and the number of the parachain.
\<close>

type_synonym trace = "(string \<times> u32) list"

definition sample_service :: "(trace, nat, unit, unit) service_lib" where
  "sample_service = \<lparr>telemetry_worker_new = (\<lambda>_. ret ()), worker_handle = id, new_telemetry = (\<lambda>_ _ s. ((), s)),
     telemetry_handle = id, new_full_parts = (\<lambda>_ _ s. (Ok ((), (), (), ()), s @ [(''database'', 0)])), spawn = (\<lambda>_ _ _ s. s),
     new_full_pool = (\<lambda>_ _ _ _ _ s. ((), s)), slot_duration = (\<lambda>_. ret 12000), slot_from_timestamp = (\<lambda>t d. t div d),
     aura_import_queue = (\<lambda>_ _ _ _ _. ret ()), prepare_node_config = id, build_polkadot_full_node = (\<lambda>_ _. ret ()),
     build_block_announce_validator = (\<lambda>_ _. ()), shared_import_queue = id, build_network = (\<lambda>_ _ _ _ _ _. ret ((), (), ())),
     spawn_tasks = (\<lambda>_ _ _ _ _ _ _ _ _. ret ()), create_parachain_inherent = (\<lambda>_ _ _ _. Some ()),
     build_aura_consensus = (\<lambda>_ s. ((), s)), start_collator = (\<lambda>i _ _ _ _ _ _ s. (Ok (), s @ [(''collator'', i)])),
     start_full_node = (\<lambda>_ _ _ i _ s. (Ok (), s @ [(''full node'', i)])), start_network = (\<lambda>_ s. s @ [(''network'', 0)])\<rparr>"

definition sample_config :: "(nat, unit) configuration" where
  "sample_config = \<lparr>cfg_chain_spec = snowbridge_get_chain_spec sample_seeds 1000, cfg_base_path = None, cfg_role = Authority,
     cfg_telemetry_endpoints = Some [''wss://telemetry''], cfg_transaction_pool = (), cfg_prometheus_registry = None,
     cfg_force_authoring = False, cfg_network = (), cfg_database = ()\<rparr>"

definition sample_base :: "unit \<Rightarrow> (nat, unit) cli_configuration" where
  "sample_base _ = \<lparr>shared_params = (), import_params = None, network_params = None, keystore_params = None, base_path = Ok None,
     rpc_http = (\<lambda>_. Ok None), rpc_ipc = Ok None, rpc_ws = (\<lambda>_. Ok None), prometheus_config = (\<lambda>_. Ok None), init_logging = Ok (),
     chain_id = (\<lambda>_. Ok []), node_role = (\<lambda>_. Ok Full), transaction_pool = Ok (), state_cache_child_ratio = Ok None,
     rpc_methods = Ok (), rpc_ws_max_connections = Ok None, rpc_cors = (\<lambda>_. Ok None), telemetry_external_transport = Ok None,
     default_heap_pages = Ok None, force_authoring = Ok False, disable_grandpa = Ok False, max_runtime_instances = Ok None,
     announce_block = Ok True, telemetry_endpoints = (\<lambda>_. Ok None)\<rparr>"

definition sample_node :: "(trace, nat, unit, unit, unit) node_lib" where
  "sample_node = \<lparr>built_in_spec = snowbridge_get_chain_spec sample_seeds, from_json_file = (\<lambda>_. Err ''no file''),
     get_extension = (\<lambda>spec. Some \<lparr>ext_relay_chain = cs_relay_chain spec, ext_para_id = cs_para_id spec\<rparr>),
     genesis_header = (\<lambda>spec. Ok [ucast (cs_para_id spec)]), build_storage = (\<lambda>_. Ok [CODE \<mapsto> [0]]),
     hex_display = (\<lambda>_. ''00''), debug_string = id, write_output = (\<lambda>_ _ s. (Ok (), s @ [(''output'', 0)])),
     executable_name = ''node'', path_join = (\<lambda>p q. p @ q), parse_relay_args = (\<lambda>_. ()), base_configuration = sample_base,
     shared_base_path = (\<lambda>_. None), create_configuration = (\<lambda>_ _. Ok ()), create_runner = (\<lambda>_ _. ret sample_config),
     run_until_exit = (\<lambda>_. ret ()), build_spec_run = (\<lambda>_ _ _. ret ()), check_block_run = (\<lambda>_ _ _. ret ()),
     export_blocks_run = (\<lambda>_ _ _. ret ()), export_state_run = (\<lambda>_ _ _. ret ()), import_blocks_run = (\<lambda>_ _ _. ret ()),
     purge_chain_run = (\<lambda>_ _ _. ret ()), revert_run = (\<lambda>_ _ _. ret ()), benchmark_run = (\<lambda>_ _. ret ()),
     service = sample_service, runtime_benchmarks = False\<rparr>"

definition sample_cli :: "unit cli" where
  "sample_cli = \<lparr>cli_subcommand = None, cli_run = \<lparr>run_base = (), run_parachain_id = None\<rparr>, cli_collator = False, relaychain_args = []\<rparr>"

lemma sample_built: "built_for sample_node sample_seeds"
  by (simp add: built_for_def sample_node_def runtime_specs_def)

lemma sample_start:
  "start_parachain_node sample_service sample_config () i s = (Ok ((), ()), s @ [(''database'', 0), (''collator'', i), (''network'', 0)])"
  by (simp add: service_defs sample_service_def sample_config_def is_authority_def bind_ext_def ret_def run_io_def modify_def
      map_err_ext_def)

lemma sample_run: "run sample_node sample_cli [] = (Ok (), [(''database'', 0), (''collator'', 1000), (''network'', 0)])"
proof -
  have "service sample_node = sample_service" "create_runner sample_node c x = ret sample_config" "run_until_exit sample_node h = ret ()"
    "genesis_header sample_node spec = Ok [ucast (cs_para_id spec)]" "relay_configuration sample_node c' config' = Ok ()"
    "node_para_id sample_cli (get_extension sample_node (cfg_chain_spec sample_config)) = 1000" for c x h spec c' config'
    by (simp_all add: sample_node_def relay_configuration_def Let_def node_para_id_def sample_cli_def sample_config_def
        snowbridge_get_chain_spec_def)
  then show ?thesis
    by (simp add: run_def sample_cli_def [THEN arg_cong [where f = cli_subcommand]] run_node_def Let_def sample_start bind_ext_def ret_def
        lift_res_def)
qed

theorem exported_genesis_matches_witness:
  "built_in_spec sample_node 100 \<noteq> built_in_spec sample_node 1000 \<and>
   run sample_node sample_cli [] = (Ok (), [(''database'', 0), (''collator'', 1000), (''network'', 0)])"
proof -
  have spec: "cli_load_spec sample_node sample_cli [] = Ok (built_in_spec sample_node 1000)"
    by (simp add: cli_load_spec_def load_spec_def sample_cli_def DEFAULT_PARA_ID_def)
  have "cfg_chain_spec sample_config = built_in_spec sample_node 1000" by (simp add: sample_config_def sample_node_def)
  from exported_genesis_matches [OF sample_built _ spec this, of export_genesis_state_default]
  have "built_in_spec sample_node 100 \<noteq> built_in_spec sample_node 1000"
    by (simp add: export_genesis_state_default_def sample_cli_def)
  then show ?thesis using sample_run by blast
qed

theorem online_last_witness:
  "run (sample_node\<lparr>service := (service sample_node)\<lparr>build_polkadot_full_node := \<lambda>_ _. lift_res Panic, build_network := \<lambda>_ _ _ _ _ _. lift_res Panic,
     spawn_tasks := \<lambda>_ _ _ _ _ _ _ _ _. lift_res Panic, build_aura_consensus := \<lambda>_ s. ((), s), start_collator := \<lambda>_ _ _ _ _ _ _. lift_res Panic,
     start_full_node := \<lambda>_ _ _ _ _. lift_res Panic, start_network := \<lambda>_ s. []\<rparr>\<rparr>) (sample_cli\<lparr>cli_subcommand := Some (CheckBlock ())\<rparr>) [] =
   (Ok (), [(''database'', 0)])"
proof -
  have "run sample_node (sample_cli\<lparr>cli_subcommand := Some (CheckBlock ())\<rparr>) [] = (Ok (), [(''database'', 0)])"
    by (simp add: run_def node_parts_def service_defs sample_cli_def sample_node_def sample_service_def sample_config_def is_authority_def
        bind_ext_def ret_def run_io_def modify_def)
  then show ?thesis by (subst online_last [THEN conjunct1, rule_format]) simp_all
qed

theorem node_by_role_witness:
  "start_parachain_node sample_service (sample_config\<lparr>cfg_role := Light\<rparr>) () 1000 [] = (Err ''Light client not supported!'', [])"
  using node_by_role by (metis sample_config_def configuration.select_convs(3) configuration.update_convs(3))

theorem no_telemetry_without_endpoints_witness:
  "new_partial (sample_service\<lparr>telemetry_worker_new := (\<lambda>_. lift_res Panic), new_telemetry := (\<lambda>_ _ s. ((), s)), spawn := (\<lambda>_ _ _ s. s)\<rparr>)
     (sample_config\<lparr>cfg_telemetry_endpoints := None\<rparr>) (build_import_queue sample_service) =
   new_partial sample_service (sample_config\<lparr>cfg_telemetry_endpoints := None\<rparr>) (build_import_queue sample_service)"
  by (rule no_telemetry_without_endpoints) simp

end
