(* ===== verification/Bench_Headers.thy ===== *)
theory Bench_Headers
  imports Light_Client
begin

text \<open>
  \<open>pallets/ethereum-light-client/src/benchmarking/data.rs\<close>: the headers that the benchmarks of the
  light client run on, blocks 11963025 to 11963069 of the Ethereum mainnet with two siblings at
  11963032.  The seal and the extra data are byte strings, the bloom filter one of 256 bytes.
\<close>

definition header_11963025 :: header where
  "header_11963025 = \<lparr>
     parent_hash = 0x4d156bbb33b76a536bbb7023e27ec88a573425becf8d11bdc4c07ecf2dffe9d7,
     timestamp = 1614744232,
     number = 11963025,
     author = 0x5a0b54d5dc17e0aadc383d2db43b0a0d3e029c4c,
     transactions_root = 0x74969b4005aad0f3c984a6db46d3d1af2741d82f042ff36dfc9953dd80792bbe,
     ommers_hash = 0x1dcc4de8dec75d7aab85b567b6ccd41ad312451b948a7413f0a142fd40d49347,
     extra_data = be_bytes 16 (0x6574682d70726f2d687a6f2d74303035 :: u256),
     state_root = 0x1a14cf538c76cba8e21baaeb5953a5c3711169c0ff4f56d68c591a40ceda6ee6,
     receipts_root = 0xd1bce498374df31d6d96d2e2360bd6cb08b9fb443aea09e19cff3fed3a6ab7cb,
     logs_bloom = be_bytes 256 (0x8aa705902590e48291e9bee2b30b99321c944282009c2b1cf0518dd82ce093a6c4045301bd03080004bad20b3e02519b1f2546824fa6b9c72252622c08a15405196963808a8e45e3d972a2b9d02660a1dc94108237c0a10083802fe097902b8957825186c68ca68709414c04140b2cc17a482aa0bc0c4680644c85b392e17045709276008e41dd609e705348b082f3c2808817d373b0d77d632307f20c781f1b23f005faf04761e23030e1c45b7c99cc8e4291a24832a820121f62a9f1b449571715807ab4ec70006b1cf8b6d8ff8d0ecb6f0222d7d6429e846f1903c327257203b6bc3e89a1be08384505843270e6a50d2f2354028690c908771120c4a539c1 :: 2048 word),
     gas_used = 12479764,
     gas_limit = 12493709,
     difficulty = 5219954228644718,
     seal = [be_bytes 33 (0xa00493edb354d4cc04df763c35505e8bb926b9c90b362dc494531f9c2c1e345158 :: 264 word), be_bytes 9 (0x88134848c0981f496b :: 72 word)],
     base_fee = None\<rparr>"

definition header_11963026 :: header where
  "header_11963026 = \<lparr>
     parent_hash = 0x2e4e57427eef98a6698b63542afa8e0a04dd32ff3520a3062e38195f27de89ad,
     timestamp = 1614744245,
     number = 11963026,
     author = 0x1ad91ee08f21be3de0ba2ba6918e714da6b45836,
     transactions_root = 0x915f3e586fbb25912d75071b0a163b751ff0875d498f765955310976ca89b8f0,
     ommers_hash = 0x1dcc4de8dec75d7aab85b567b6ccd41ad312451b948a7413f0a142fd40d49347,
     extra_data = be_bytes 24 (0x307834383639373636353666366532303530366636663663 :: u256),
     state_root = 0x6d41bc17afa8a2bf4348c29d210f27bddb70c23739b6a5cdd52a0da5d25c3ba5,
     receipts_root = 0xc06607d3b403f75090d2cd986cb599a2270284c79973a2270d4cba2e8d2d6b87,
     logs_bloom = be_bytes 256 (0x1266e34e0960b945c1a2033ea9291b6355009240968e3cd184211cd64771b124e24595b3428103df0090414887d2c5f08ae8dc183b1f244ea3b34240ff3d293f20092091436235edd9828c2e0f487868166ec0e930e41d346e551418905d5c91df8368f0021c9520b194979cef3a8ac00911932182499d8bb4b838d5d03ef539a2b09723925622035ece11688e0c261171f1a949f731c80ac6f10c674496b2c0768b23d4009a63d223fbceb30b1403e078432273acf6a95633eaef61b20869cf330188460396f025212822359d3b0495a28d5b462ceb6218427258023a43e1f2a05a2a1e6dabde22c91ca46010370a24801972337887a470be1e09c09eb59624 :: 2048 word),
     gas_used = 12495768,
     gas_limit = 12499790,
     difficulty = 5219954362862446,
     seal = [be_bytes 33 (0xa0364356452fce82aa420127cfe9d685b80876a1e0dc57c03f9364f11a5711de16 :: 264 word), be_bytes 9 (0x88090fa2fbf919199a :: 72 word)],
     base_fee = None\<rparr>"

definition header_11963027 :: header where
  "header_11963027 = \<lparr>
     parent_hash = 0x8159a08cea34176d001664e11604994fdf636cee2e3a98b8592ca0012e1d3d94,
     timestamp = 1614744247,
     number = 11963027,
     author = 0x5a0b54d5dc17e0aadc383d2db43b0a0d3e029c4c,
     transactions_root = 0xdf49a31198e3643a4ef3986dd768bd4c7498cf801cecf7e2cd8bfb1f81b496d2,
     ommers_hash = 0x1dcc4de8dec75d7aab85b567b6ccd41ad312451b948a7413f0a142fd40d49347,
     extra_data = be_bytes 16 (0x6574682d70726f2d687a6f2d74303035 :: u256),
     state_root = 0x8273443fb8dbb3937884d83cee813e489cf7659320b2c8b5a2fefcc2a47b6aaf,
     receipts_root = 0x40e056f5f6e7134c53137ed724e2a7213a71f42b350ae9709b7542eb59c7a0f8,
     logs_bloom = be_bytes 256 (0x75b6eaab0bdfa83191adae49b81d7701cf8fbc48a0d962c6440dc41a1888ebd47014b3878a44189c07925bee3f7109b28aa2a2001c1d8bbee2d5db8d70f82983584968d5ed1af5f2e9832abc7f203ee49f306b1689c135bcd016c789d6197eedd95283c1124e454e2284c9008c199a49db228becf4288cd536e415bc56a22ed0e098a109a763330a93e9606c8b00d01209494b5fe3eaf81843aa7f4682984dadcb95527d11bc622616d1fb94d89e268080509ad460b06100d0084ca75815cde58453200e389a560872d785f10b3e10be5548ca6f47fe5b14e958314363f221c1817c225a292b4d8afa84c12ec09121bc54231075e8c60173522c9da8f6ba1282 :: 2048 word),
     gas_used = 12495280,
     gas_limit = 12505889,
     difficulty = 5222503302921415,
     seal = [be_bytes 33 (0xa06a5e77aab5c3e3e4c345596f8b7717ff0d310541d109b34c2b25fe4411bb1c1b :: 264 word), be_bytes 9 (0x885aa89ddaa1c0e8b9 :: 72 word)],
     base_fee = None\<rparr>"

definition header_11963028 :: header where
  "header_11963028 = \<lparr>
     parent_hash = 0x42b64f536239a8a4c870496ba6aa1387c833e28be1bebbb3bd15c57921e62d98,
     timestamp = 1614744265,
     number = 11963028,
     author = 0x5a0b54d5dc17e0aadc383d2db43b0a0d3e029c4c,
     transactions_root = 0x4017ca665b3d4ff5a8dedb6071946ae21f7145ec4420d40d4204ee55810af888,
     ommers_hash = 0x1dcc4de8dec75d7aab85b567b6ccd41ad312451b948a7413f0a142fd40d49347,
     extra_data = be_bytes 16 (0x6574682d70726f2d687a6f2d74303035 :: u256),
     state_root = 0xd01933ec4c08659894d0f1eade89864103257f691eca2e8281de663e65ea86db,
     receipts_root = 0x643ccafba5d333135eb402451229ddf646ae3bdfa362115d7ab3adf20f390e0b,
     logs_bloom = be_bytes 256 (0x40286dfa7c42b5a1afef1cc1a30b73715e852e30a255306d2801592011d28f66643c324cc4c83331e16bc72b3203e7d00209b4984d53a1a1b39396641d69278e114865e6a62f51fcc9d9162e79706160bc404a6413e087d816d2d7618ecc16b9df47a193c2ce32179524d48bc287e8d84a0e1b30371dd4a0f628e9b79b2618a0f8a4eed308c5fa96d3d229042af9d16644259dd3d5919808032044c2221c023887890209923d72f7209bc7d457dc9282483ca8ff94168946b16747a6588c49ff051903a749acd4256278ebb68313061c093c3a3d5febea1c7751c9ca7163e2ed61b0710a98788024c430857292ba658495e9c2102cc76860cf371ae014a6753d :: 2048 word),
     gas_used = 12510018,
     gas_limit = 12511981,
     difficulty = 5219953386698264,
     seal = [be_bytes 33 (0xa089f32957b76783e7304270e744a628ab18c42a9f46879485c7192463a64e3258 :: 264 word), be_bytes 9 (0x88ad78ac610e9c67ab :: 72 word)],
     base_fee = None\<rparr>"

definition header_11963029 :: header where
  "header_11963029 = \<lparr>
     parent_hash = 0x8cac2817c880241eee79614bb388ddfa2c0ff56883b1d11224f62bdf429f0615,
     timestamp = 1614744283,
     number = 11963029,
     author = 0x5a0b54d5dc17e0aadc383d2db43b0a0d3e029c4c,
     transactions_root = 0xec8285f21edb11770853382a9346fcb7b9e0279a63529d91722cce52d653181e,
     ommers_hash = 0x1dcc4de8dec75d7aab85b567b6ccd41ad312451b948a7413f0a142fd40d49347,
     extra_data = be_bytes 16 (0x6574682d70726f2d687a6f2d74303035 :: u256),
     state_root = 0xb0b164708a06bf737548946abc053e8962cf5d5fb286adf5f6ddccd051b224f5,
     receipts_root = 0x48f63be36911bfc66e3158df22b18712aada404c37f5689f7225557b1021f203,
     logs_bloom = be_bytes 256 (0xf374c4366d44ada2a5bd3feaa21553a38c54954852fa8b50948dcba576a20b2af88dc6a491811601d8faab8038e957322a72660c4ad3b660a7189722a476128c188824c2c3b6d4e5e941462fb90466e5ee92bac44ede9f7418f2d7c9c452da213b04d197a22cfec4ed8dc295a02ad89c66f69a3d351a05052c0c1817108ecaaca8109f20020cf62e15e60d4884a3e8c32d4a85958960881c2060bdf65239efb22fcb09830e7f24d608b4c5a39df88bae4a06535101df9a789d7f522d189d5da9d25c846b28ef9d40005004a652dcc42c8641db20dd56665c17df8ce6402d6849479874592ab7f01ec51196020594f2e40c2db1c1a8b5bb70956f1919efb2a526 :: 2048 word),
     gas_used = 12503595,
     gas_limit = 12518089,
     difficulty = 5217404715551394,
     seal = [be_bytes 33 (0xa0719704220d7c3736d6c0abcd723b8ce7973384788f5be9ee3eae80c55424f163 :: 264 word), be_bytes 9 (0x88ab2cfa05081aa98e :: 72 word)],
     base_fee = None\<rparr>"

definition header_11963030 :: header where
  "header_11963030 = \<lparr>
     parent_hash = 0xea7beb7237eb15ce4900d56acee5160ad771de67ef1ef2d02e20db71d52180cf,
     timestamp = 1614744288,
     number = 11963030,
     author = 0x52bc44d5378309ee2abf1539bf71de1b7d7be3b5,
     transactions_root = 0x395966f762f4674c9ffcf966a07efba96f62f3ac76b993da932887a9166ccbed,
     ommers_hash = 0x1dcc4de8dec75d7aab85b567b6ccd41ad312451b948a7413f0a142fd40d49347,
     extra_data = be_bytes 12 (0x6e616e6f706f6f6c2e6f7267 :: u256),
     state_root = 0x7832b7121c11069a495b514208bf47ed6582e47997a917c2b68600d99c2ddc6f,
     receipts_root = 0xf6c5d203da9aaba99f08a1c8b26ee965ee396efaf35f1c8ecc9ab3c6ca1f062d,
     logs_bloom = be_bytes 256 (0x7030ec8831a14840d1880e18a0114a2fcc80900071104448823125004092914004100650c4ab95034042012802a20d98e32682851987b04609750031242e206f10086ae4622a806a9ac00a1ef41044e0f4ba0900cf7608821812926984c210111a9850854a482dc63184421002601aca401c9c818c4c5626306018161604c521bca18258e9808e024de1016384410c808824a7d16b6084bfa50007c78250888426c3e140209128de1e0ae1814925153a80008900958d432b2006602108c3c1c902108282231b481c222006a0925e030804310221058a769a270661032c2023021018201eb021000084a4c504859229e484217187385409d035291d05e820a324 :: 2048 word),
     gas_used = 12523668,
     gas_limit = 12530312,
     difficulty = 5219952410665387,
     seal = [be_bytes 33 (0xa03406db2bb79ef96c22cb323978a775b05c8ded28e71107751e5432764a097c84 :: 264 word), be_bytes 9 (0x8866f3b76ad77c0090 :: 72 word)],
     base_fee = None\<rparr>"

definition header_11963031 :: header where
  "header_11963031 = \<lparr>
     parent_hash = 0xc0f9dd572ad893a84624cb6a7ad6e7bd9165ed1ab42ba87501f6ba4302fadfb9,
     timestamp = 1614744291,
     number = 11963031,
     author = 0x5a0b54d5dc17e0aadc383d2db43b0a0d3e029c4c,
     transactions_root = 0x0ab56016cd0b5e832b4c0ce71c56cab807db7bd6713d6b83bdff4ed4947c8a54,
     ommers_hash = 0x1dcc4de8dec75d7aab85b567b6ccd41ad312451b948a7413f0a142fd40d49347,
     extra_data = be_bytes 16 (0x6574682d70726f2d687a6f2d74303035 :: u256),
     state_root = 0xae9eb81eae401e19ffd6cb41d2c6eacc170c42825d32e8e42c6c472e5b232b32,
     receipts_root = 0xf497ac2ddc2bec1a03312ddc2edb7c90589233423fb8b26a21aa0fa5f82922f2,
     logs_bloom = be_bytes 256 (0x9666d6c804d22050c38928c18501da250d0881319610f2d05429b11290c1d3021825c100600149c888c0407e423ec1d80b81a0031b18b1328930c4229021a155499000a3830107244a84883da94b5060f60620e6ea4880250e8b965d81360450389b002206d88210220c61028900b8ac18000b06104d34b4082a499202884002c080216e0fa82b20524031280324490284daa8c1610818282121906408b810a2b6514408800320ba3a100b92f985fa040a40604303b60d62046502a43400592409408052008748f028650081907700148801d2056e0b62184801a81666742cac061c620088bd1821003e4005813aa0800033c47460de427241a13dcc0e3b0211 :: 2048 word),
     gas_used = 12475949,
     gas_limit = 12536422,
     difficulty = 5222501349771135,
     seal = [be_bytes 33 (0xa04f79dc7c3a1b5ec47c4b4c15fc9a6e501d30d5d4f906e8285d827cbb7be8482f :: 264 word), be_bytes 9 (0x88b586c601719e8236 :: 72 word)],
     base_fee = None\<rparr>"

definition header_11963032 :: header where
  "header_11963032 = \<lparr>
     parent_hash = 0xad3b0ecb70b320885eea9f50c25c1882312caa22d50a8da3be8c2c75b3d63b38,
     timestamp = 1614744297,
     number = 11963032,
     author = 0x829bd824b016326a401d083b33d092293333a830,
     transactions_root = 0x430bc4e28db3c658ec9591f94118329874acb290288fa2cbdbb1f33fb82ad9ac,
     ommers_hash = 0x1dcc4de8dec75d7aab85b567b6ccd41ad312451b948a7413f0a142fd40d49347,
     extra_data = be_bytes 23 (0x7070796520e4b883e5bda9e7a59ee4bb99e9b1bc010921 :: u256),
     state_root = 0xfb976c1842e62d31dd0e424f2ac1806929815daf753414267f8a64cdb22179e0,
     receipts_root = 0x14bedac6d709732069711165d60f5b31ee7d2a6f985591500506c970cb467358,
     logs_bloom = be_bytes 256 (0x14a9c808013208089020643281801724011210800c8201501001890410049100c8529100540808300182950002204580ca1101600e82ea050070e25848346400344000062302616048020caa410220620000500e8058220006172520d950f01308100e865ac20008010c8424809238468686032610ca048000e208d2022040cca18481846040090040c0020053410cd12000815101024488a022404210d3018403055881383264422274db8c1a122020011821b384884042103b45aa3024685d02804e4241800204562010204012240e900c2706e208221100458002a040a120043d60068b0ec29000a21000800023141624a41040a4404110a1086104003140 :: 2048 word),
     gas_used = 12517333,
     gas_limit = 12524181,
     difficulty = 5225051533476055,
     seal = [be_bytes 33 (0xa0de468c313e9171cd596d7b09abc73d1db940b7191134b8e861090eaf16d6e8b7 :: 264 word), be_bytes 9 (0x88edf2b64e262ad62a :: 72 word)],
     base_fee = None\<rparr>"

definition header_11963032_sibling :: header where
  "header_11963032_sibling = \<lparr>
     parent_hash = 0xad3b0ecb70b320885eea9f50c25c1882312caa22d50a8da3be8c2c75b3d63b38,
     timestamp = 1614744298,
     number = 11963032,
     author = 0x3ecef08d0e2dad803847e052249bb4f8bff2d5bb,
     transactions_root = 0x9b46538a3b5ddfc628a25dcd54093857bfd2f290c37c8def71b79252ac235d48,
     ommers_hash = 0x1dcc4de8dec75d7aab85b567b6ccd41ad312451b948a7413f0a142fd40d49347,
     extra_data = be_bytes 4 (0x73656f35 :: u256),
     state_root = 0xaf6dc224aebd43ef761a2615dc6b5334dbb3531332ccece3398de51fc7cfb3f0,
     receipts_root = 0x7aac94f0b8ee067613faa6bb418fbf2026dbe046a9906fd440d74947170ebc80,
     logs_bloom = be_bytes 256 (0x14a9e808453008099020663aa581972c499210802c9a05d0100189041084b100c852d1005418083001829500062045c0ca1181600e822a0501716258483565103550000e230a61e04a028caa400262e204a8534a8058220016172520d95cf81308100e875ec2086d014c84a480963846c6a6032634ca56a482e208d2176050dca18481946840090060c0024052418cd12000c5d141c2d48ae02a414210d3818407055889383264422274d98c1a1a6020891821b3848860c2103b45aa3025695d02824e62698402045e20102cc01a240f944c2326e27c221501458022a012e1300c3f60068b0ee28124a21001c010231e5e24a63040a4414510af086904003940 :: 2048 word),
     gas_used = 12504376,
     gas_limit = 12524181,
     difficulty = 5225051533476055,
     seal = [be_bytes 33 (0xa0bc43dd3cef81ae20d709413d6a7bc00f8f958df600dd927e233be9e65c339424 :: 264 word), be_bytes 9 (0x88fe00de9b66c3a0b6 :: 72 word)],
     base_fee = None\<rparr>"

definition header_11963033 :: header where
  "header_11963033 = \<lparr>
     parent_hash = 0xed45b4ecaa7193e9279603a8266f2b51b39aa9c1f55d88cef46902e030724ab9,
     timestamp = 1614744304,
     number = 11963033,
     author = 0x6ebaf477f83e055589c1188bcc6ddccd8c9b131a,
     transactions_root = 0xda57df71fa6bcf88c4221c5a143f275d84c04e48c97d9d6f03857fe825205e5e,
     ommers_hash = 0xafa0d8c6e074b0ef4016a21f6f6e2b18c553093f076944f9ff64303c5c6a95cd,
     extra_data = be_bytes 25 (0xd883010919846765746888676f312e31352e36856c696e7578 :: u256),
     state_root = 0x4795053646d920389064e2b29a4c023e6bee7c220b0566a6cc8adc6b1afd7561,
     receipts_root = 0x9226a7ae403c10de7dfd472b5b464a249152a459a57a0589a3fa56d010a0132d,
     logs_bloom = be_bytes 256 (0x16a82410451824b9b8342718a609926a5c809844223875800183108078a0a52cb494512000108c01b04192274e1049f0c252c144490229f101d1730c21e1633a9950111d031921a35a93c008170053ac14ffc36c605010041a529500c10c78171a829193ae080a650d4001a0ca9718c4c22511842708573fa32a0cb317c4965038008a1489440ab178ee0b42a6098592aba1ddb173f8902ae128397e2418a99327220729263c67612439e38447884482c80600211c2c31800052723cd831c91d47d20c66e8050b221d2770bf860a105d85440aa813fd0a1c2303b022401261500eb2e45ccb123c81b570a025da9c90ca4c70a223019c014538cf0ac9c4a7faf0 :: 2048 word),
     gas_used = 12506371,
     gas_limit = 12511952,
     difficulty = 5227602962387863,
     seal = [be_bytes 33 (0xa07da20b43f1a245aca044b6a99873eb81ff6f301deb8a1e0e722fd9ee6214ebee :: 264 word), be_bytes 9 (0x8831f2a39de5daa24a :: 72 word)],
     base_fee = None\<rparr>"

definition header_11963034 :: header where
  "header_11963034 = \<lparr>
     parent_hash = 0x933298480ef002d1993bba547a382ce5c844adbebc8bfc33e05c3fb44fd62d32,
     timestamp = 1614744311,
     number = 11963034,
     author = 0xeea5b82b61424df8020f5fedd81767f2d0d25bfb,
     transactions_root = 0x529a4f4c2330b722b13d6eb82449657cec1cc7d05f1778ecc384f9a97dafa34d,
     ommers_hash = 0x1dcc4de8dec75d7aab85b567b6ccd41ad312451b948a7413f0a142fd40d49347,
     extra_data = be_bytes 18 (0x5a4a4b30322f4254432e636f6d2f00065efb :: u256),
     state_root = 0x1677eaa114128a6ec42c304176f1d2e5525c8f6f715cb6559c9704f651961193,
     receipts_root = 0x578373d8ba8612d62b9819a3b6b15b6430f0f5f6eb217b9cd62a024649355436,
     logs_bloom = be_bytes 256 (0x42270002205008601090200a82492025006080408413004400a12002828041048c1084254000bcd0892b4a0b140f05601aa080100983c8144311009680202290081000028004052888127a08060d02204a80001015c85824000085a3c0210700181016d2066801110130010020002840026c0044000906c2442014b04890610843a0031585218110564918000812745241a2115121610019230800c220143810034b0024200160a0082450c4013080011201848384420241008e002810111183c3120c22001200272044d2290016040e800382029c0a221024690902300226002092283581039804140e1300a20a2e80043020036874964c01010888060310c4 :: 2048 word),
     gas_used = 12498365,
     gas_limit = 12499735,
     difficulty = 5232708177623547,
     seal = [be_bytes 33 (0xa0a64278268f8f5295398b6030e4d679a21278084c9b05a715cc8ae74553367a0d :: 264 word), be_bytes 9 (0x88065efb0b205efac2 :: 72 word)],
     base_fee = None\<rparr>"

definition header_11963035 :: header where
  "header_11963035 = \<lparr>
     parent_hash = 0xc84b3b486f033e97f91a434787e25142c9b25bb278b3c5cb9ec8cd3872fd864b,
     timestamp = 1614744336,
     number = 11963035,
     author = 0xea674fdde714fd979de3edf0f56aa9716b898ec8,
     transactions_root = 0x163ffb741ffc65a9cb1c0a0c9f6387d537f007233347f8ed19a4791620bf1e26,
     ommers_hash = 0x1dcc4de8dec75d7aab85b567b6ccd41ad312451b948a7413f0a142fd40d49347,
     extra_data = be_bytes 18 (0x65746865726d696e652d75732d7765737431 :: u256),
     state_root = 0x8459d87ba283d5444bb5b90c14f1e230490543d403cb7c9a1986f5861e6d7ccc,
     receipts_root = 0xf5063a2377ae83b020e1c07ba026b7ced48e44b2cfc1acdb018a7b76c7c2e8e6,
     logs_bloom = be_bytes 256 (0x54ee5508518a241bc19826b0a9011a274e00d624025c3086d515485761821508c01514c2869b19ba80454a4216af19d0aa7970064d0aaf7952d0d6761ee80061b3680cb0ab1f02f2eca8922863e84220d721e94509d6a1a304166718bf9ab4959e11c506420ac242716e6450d8044844424090e866028cd0aa2a963912277922683003028e7133145243001a05b24946809c29b1f1e57439612a435a889445906bd233181195eaf4a410d3821db691a0289308cf2cb78d0b34f99b39d878ca5e0f78074621d2660062a5d0840475263e4d0902670baf4816a743562a406c2d6840d2200a18ae0409cc50bc15a4b1ffa594200159c89282518855121378701dfd :: 2048 word),
     gas_used = 12467673,
     gas_limit = 12487530,
     difficulty = 5230153278551420,
     seal = [be_bytes 33 (0xa0a34fc4fbb7e5096c12c13af97aaa5beae78996f5b3699b3e2930e4869fca46e9 :: 264 word), be_bytes 9 (0x886a2f28ca06302d48 :: 72 word)],
     base_fee = None\<rparr>"

definition header_11963036 :: header where
  "header_11963036 = \<lparr>
     parent_hash = 0xd9b1938b61813fde7cfe2cd957fd031655a527186140f3f2328e74afdb3cd598,
     timestamp = 1614744350,
     number = 11963036,
     author = 0x04668ec2f57cc15c381b461b9fedab5d451c8f7f,
     transactions_root = 0xe0b78add723cc2b813c1ab388a52ff98005dd736ad2615eaa6244c7ee5dccdb4,
     ommers_hash = 0x1dcc4de8dec75d7aab85b567b6ccd41ad312451b948a7413f0a142fd40d49347,
     extra_data = be_bytes 12 (0x73706964657230381538ee39 :: u256),
     state_root = 0x0186f2d15d775e999ef7c77bb04f2d23c0288e05a6b19de7ba556b03e274bc3c,
     receipts_root = 0x058945140825bcf80b43ba90e46e81cc36cc369ad4c2cc88ba000d7ada38d62c,
     logs_bloom = be_bytes 256 (0x1bac30d00ddab756f7e16eb38921503b83b314303d5f32f84687dd1d0082330562b45b45e6220bafcd6453ab9f4c1dc66f82d83a49324abb5d51c0a060687138730a78eaea2b877aef4ab46ec6497468dc19a86caac840f42ad2c7dc894c53315e257647064825ae324c43902a47ed7346989ce887cd46943cb23ddf580bfcb8da3090264374fe0b92480e4fa66e4c0f808d5fcbf5e4603942ee1ece05d2090326efaba83c9223e90e39cbe43e9d2a94aa2e53bbc7729ad152cca1b21ab8217d7d42644641b45ba520c6d288cf1a647c9b1c82cec5cfea10b228c07ecbe6aaf12a38f8882080fc07aca63480a09373c05545a169e1b681d7b09c9a08b62ab691 :: 2048 word),
     gas_used = 12468400,
     gas_limit = 12493600,
     difficulty = 5230153412769148,
     seal = [be_bytes 33 (0xa09dcab7f66fb206bb075c8c8375c894f47c74a40cb4d8511c954d1627eb9e8a49 :: 264 word), be_bytes 9 (0x88334aa43541401a6e :: 72 word)],
     base_fee = None\<rparr>"

definition header_11963037 :: header where
  "header_11963037 = \<lparr>
     parent_hash = 0x3ed36d8242ac3bff178ed1c76a9c7fc95c78a626b90b52dc60af218850a2af01,
     timestamp = 1614744357,
     number = 11963037,
     author = 0xea674fdde714fd979de3edf0f56aa9716b898ec8,
     transactions_root = 0xd71594d02e9defac08ac344a18439d9255af7026a5bd958466e61536441cff68,
     ommers_hash = 0x1dcc4de8dec75d7aab85b567b6ccd41ad312451b948a7413f0a142fd40d49347,
     extra_data = be_bytes 23 (0x65746865726d696e652d6575726f70652d6e6f72746831 :: u256),
     state_root = 0x7c6d1427d06f73e532dd294c6c84b66adc72576668b6423f2efc1497cc8b6839,
     receipts_root = 0x3852df3bffa4fe2f0b1180901039eb5a3b0201e886d7e846d7e0a873ffbb34a5,
     logs_bloom = be_bytes 256 (0x72641898cd442d80b9211bf080093ab08809c50088b9e7220711a52652920daf60031e4d40f00baad41a19227d6401e15204ac405c07091a9fc159aa306f202c830021f043039361c1d05c2fccc110b3bc00e04946cd1044246dd2c082619c11530c80c632588386182a561060040ed888410b60c73c8700a040b2df5038ba00a892e9a303c6080a11c8196ab83dce19008c540dac20443cc0671f691015068e3ed60e090a4040520431c08218b0f0500a871dab9351687455a300981812127e75404b0221b111640256008ccb4b0014264392011b98621901784063dcc06940e9586a4b491f5d4c8c20ac02b415acc4002d815280d1a0e03c35aa949e027460 :: 2048 word),
     gas_used = 12490603,
     gas_limit = 12500000,
     difficulty = 5232707332832954,
     seal = [be_bytes 33 (0xa064ad7c20c808ce9c9ac2acb30bd6a8e25960b7d39ad3459aea3c7a308e0b27dd :: 264 word), be_bytes 9 (0x88e8e612226d8e2f5a :: 72 word)],
     base_fee = None\<rparr>"

definition header_11963038 :: header where
  "header_11963038 = \<lparr>
     parent_hash = 0x230a05feb320c33dbe4a4e4f894d0d65e51b606912f0246cfab8a9270ae2e764,
     timestamp = 1614744361,
     number = 11963038,
     author = 0x5a0b54d5dc17e0aadc383d2db43b0a0d3e029c4c,
     transactions_root = 0xca4826e63e8aef5bae92847ab8fbb46b87e8bd6045de89ae65edad17014f20af,
     ommers_hash = 0x1dcc4de8dec75d7aab85b567b6ccd41ad312451b948a7413f0a142fd40d49347,
     extra_data = be_bytes 16 (0x737061726b706f6f6c2d6574682d7477 :: u256),
     state_root = 0xc6530870de0751680f4c565986083289470f4c93c9e17e1149933abfa25b4dca,
     receipts_root = 0xade6ee9ab381206e6bc188886736d8e6eeaf2254bc573f5a01e8c91021505f06,
     logs_bloom = be_bytes 256 (0x167c401c4db65583f5e0668fa701b2cd49891da1dd90d65ac0393bc26081a1c4fb045c00a8019e9cf5a84a4205c00b909b36ddf84f4b302625ffdc32742f70253989c45b9225dd0b6ac12f9d1d7420eb9752f01609f528a1b94a574dd4d688795a9024f5469bfa0fb4ad0d8dd0ba1bfa52868dec448e9ec440e03cf054356b686a20ab27c3e5ea3544c223c8c7c08c3ed9a09fd77162d308050d2bf430daafb1f3310587159166f22c3c87c5663aa0e0623a308354e5fd00050669aa19c0494d8fd18052a84f02b7ece51526843b81ada11cae2a37ae6a7d8a98a28332fa6d08f098762a818bb01024c75566d1a708c2ad6a205968ad2d71315d88c114f3c4b1 :: 2048 word),
     gas_used = 12489978,
     gas_limit = 12506090,
     difficulty = 5235262499928041,
     seal = [be_bytes 33 (0xa006978ad9ca5e748ee27bd51a62a2fd3dad4f46206389bd7584e44df3f8dbbfd3 :: 264 word), be_bytes 9 (0x884c74ebaa4bf55701 :: 72 word)],
     base_fee = None\<rparr>"

definition header_11963039 :: header where
  "header_11963039 = \<lparr>
     parent_hash = 0x432effc9d0be4c5ffcda25e3a256515ae54ee591f66772771ad7fa8b50240db3,
     timestamp = 1614744368,
     number = 11963039,
     author = 0xea674fdde714fd979de3edf0f56aa9716b898ec8,
     transactions_root = 0xf33694177d9a5346155ce4fc6d210759e0e45b21de9dd9789d615e48491c8446,
     ommers_hash = 0x1dcc4de8dec75d7aab85b567b6ccd41ad312451b948a7413f0a142fd40d49347,
     extra_data = be_bytes 22 (0x65746865726d696e652d6575726f70652d7765737433 :: u256),
     state_root = 0xb69755f123a06ce72fcb708acb19d287f3c1129797eb7648d809570965bbd99f,
     receipts_root = 0x1319e1c2a12e51e277ce0db3885a9a784e7cf3e2114672ba9b5880a278c56103,
     logs_bloom = be_bytes 256 (0x8c2cc8596100891eb5d836fab2131b33cdf8ea520f5c826eb38f438e2380c1166e9ccae8de083a24f204451c026417302f99e77c4b12ec1d8eb0d6341074600730000cb59315c5204c60038a5260067674b1690c817416201cdf46d293c07710d84cd4821a5f0e8701eadd802eba9ce1d61a13fc060aa4c26e449d9e182b93677e88816ca343a48cffc41704a22026f40890eedf2da04c28714614ec345cfac6a783a298dd1a3150c5a949ecd3c60b2006dcb8475168425a296381ea508932f14600414661c385c42c230288705a143d45655a062d2e62582200a64625a16cc911567a9dd2261e06c007ac60201c648ab671205622c3aa5a9c7f7f3bc2024419 :: 2048 word),
     gas_used = 12479027,
     gas_limit = 12493879,
     difficulty = 5237818914663311,
     seal = [be_bytes 33 (0xa07c96dd6e810f56c03063893ebde02900993dd0ae9e1c00a16d7c6468b0fd4866 :: 264 word), be_bytes 9 (0x8811bb8e25725d1999 :: 72 word)],
     base_fee = None\<rparr>"

definition header_11963040 :: header where
  "header_11963040 = \<lparr>
     parent_hash = 0xd742e6aef732cdcdc93c7eb6879e11633fac58b5bc4ac9097cbc0a7bc0907954,
     timestamp = 1614744378,
     number = 11963040,
     author = 0x04668ec2f57cc15c381b461b9fedab5d451c8f7f,
     transactions_root = 0x11978c48fa393996d19c3340c63ce5fff6869e691c570f2d92c61fbf7acd16ed,
     ommers_hash = 0x1dcc4de8dec75d7aab85b567b6ccd41ad312451b948a7413f0a142fd40d49347,
     extra_data = be_bytes 12 (0x737069646572313303b487f7 :: u256),
     state_root = 0x6c608dd2254576b4cbca4829cc26d2f5beca1c0be2dddd675cacc2d0e11cbddd,
     receipts_root = 0x13b09df35a3541a364dce3f771ba350610baf20db86cbf0fd66acccdc6bb78f8,
     logs_bloom = be_bytes 256 (0x312253aa4102811c9688f6d2aa85989219d82f1f4e5c4050b68b3d92a096412049dd5edee0322934d0d16613324f0dd10bf410e3490783f350e0c2f33261018879a256aaaa13e474ca55094d11e643e16430326c83c0b2280cd3c26990e1b211d8801a5e0ec18257230dc211e488eccb444ed6a805ca4d6908bbfe35963546225890d70df14146ec124c0f3d0546194290920feb7522ca2c900aed47281a04da8ea940c61411616224b1d3831531b0952e42e0062427812052ae163cd204f2f51562074ead9742610e944a8b5a4f080e95d42a0537c3b0dc8ad641c21c66a630b89f665e1aa374200771243da840278414a80843f06f286108a891c63c67163a :: 2048 word),
     gas_used = 12490863,
     gas_limit = 12499958,
     difficulty = 5237819048881039,
     seal = [be_bytes 33 (0xa0a8191438fc26f2996cb567f100c47dca67ed0c7842a6b39ea394f6aeac371c7d :: 264 word), be_bytes 9 (0x8812fb89bdcf2e21d1 :: 72 word)],
     base_fee = None\<rparr>"

definition header_11963041 :: header where
  "header_11963041 = \<lparr>
     parent_hash = 0xcf244e1a6ed18235f7289e75795e06bc409870962d2cffd60ecfb6dc5eafdf6f,
     timestamp = 1614744415,
     number = 11963041,
     author = 0x5a0b54d5dc17e0aadc383d2db43b0a0d3e029c4c,
     transactions_root = 0x20c6040bc40faf4cf6e4095d2892fb8b82ecb340e75dc78b41af56aee9ece7a0,
     ommers_hash = 0x1dcc4de8dec75d7aab85b567b6ccd41ad312451b948a7413f0a142fd40d49347,
     extra_data = be_bytes 16 (0x6574682d70726f2d687a6f2d74303035 :: u256),
     state_root = 0xe91a18dbedb5da9f9ca3ae81b7d0db2c38e4593b1defc07eebcc53122b5a5314,
     receipts_root = 0xfeefc3be13979c3514ad9be19bf5794bad5ba2241be759c7df25d17670644b5b,
     logs_bloom = be_bytes 256 (0xf8e6421c66f1069619b574f4c6351a29508c83b07a164ce9ab1915946c9471c8508c4341362ad320d829da9a78ce194a6ec48972493a59960e51465bec61614b594830502f4f95e24bc2b35e86a3f4f5732e4f7b9b51ab801e74bd429addb1d5d2809900e6ca8e3563ece750fc86994b4e501725266acf8f48ec05d716404da8d89a8622f764cc0c9ac848e8ae071506e5c73f87b7f0a67944e2715e00961854a34ba18bbc1d67c2261feea85d541c500f1838322521b57b123b92785f8f51559e3e81c6e3e43b242ad880b49e7a254e314a5b4627ca77562aeab20200b6e276067bad1c19828122b076e546ca8167aad72029d16867e4d0379dde0d968a9bab :: 2048 word),
     gas_used = 12499731,
     gas_limit = 12506050,
     difficulty = 5230146596601384,
     seal = [be_bytes 33 (0xa0585d796080e23bf0fcd62e2089a8dfd2510bbde31eb0b50562e8b3d77fec8d6a :: 264 word), be_bytes 9 (0x88ac795446443f4ad4 :: 72 word)],
     base_fee = None\<rparr>"

definition header_11963042 :: header where
  "header_11963042 = \<lparr>
     parent_hash = 0xe31ed997216d155a4afb12493298440d59bbe0564393339d3bef2358cf5a5e19,
     timestamp = 1614744423,
     number = 11963042,
     author = 0xb3b7874f13387d44a3398d298b075b7a3505d8d4,
     transactions_root = 0x7e104a432c1f6d7ebb5d2f7ccbddfded336ac61cf2423f8e25640702715b16f9,
     ommers_hash = 0x1dcc4de8dec75d7aab85b567b6ccd41ad312451b948a7413f0a142fd40d49347,
     extra_data = be_bytes 9 (0x426162656c20687a38 :: u256),
     state_root = 0xf0da77425df2f8679f6c92742c47f3ea817195ad3999c880687632afd14c371e,
     receipts_root = 0x41179648aee1067d47873078ba0a2fcd1f2ebb8a5eed765bb373c9b35bf79811,
     logs_bloom = be_bytes 256 (0x3aaa507ebd66210a92f8099480149a60c1088090405e83def10ba1f613901600c43c11c56621dc4c02199a4249414b50ce7a156e4983cfc10271cca410ea486819200c912b63a36a4db2840bb16442f10e87520cf3c880270752f650879c55315f00c19b2e04a4e623a7615c5a96284c5c559a24351acc1786ec1535533254c2690c98559664676214c245448306524280e58da121d311590c65694a23702fd606b5a1167101a5e62eb0e6b581b788e92d5801d965c16e1273a182aaf8a8a375f18000d7698c0d8001a86aca1e9bb31d374c52137d495a166b00d1ea8d44f41d51fd649e3e2b3522ece43a8763a366e0b7804b76e55e8dc387a4964234b7d482 :: 2048 word),
     gas_used = 12497506,
     gas_limit = 12512149,
     difficulty = 5232700513336983,
     seal = [be_bytes 33 (0xa0722dda48509810e980a37f62e0b8acd3f207fab58f807874b73036d8ce7f797d :: 264 word), be_bytes 9 (0x888e60b0097c11caae :: 72 word)],
     base_fee = None\<rparr>"

definition header_11963043 :: header where
  "header_11963043 = \<lparr>
     parent_hash = 0xcbf378a79c856bdff0e3f23c71a191b77ca72b15aa877a19a60f64603db49962,
     timestamp = 1614744449,
     number = 11963043,
     author = 0x5a0b54d5dc17e0aadc383d2db43b0a0d3e029c4c,
     transactions_root = 0x0ba8588529c1a2f5edfaf307d10249a48520c8fb9dbf8b481111802233cd54f7,
     ommers_hash = 0x1dcc4de8dec75d7aab85b567b6ccd41ad312451b948a7413f0a142fd40d49347,
     extra_data = be_bytes 16 (0x6574682d70726f2d687a6f2d74303036 :: u256),
     state_root = 0xa6fe25282cf1ea75c8e4bc2c46bfa47a11f5b4b7f7d9f198cac4a60b858b6527,
     receipts_root = 0xf543220428456ff2037aa69baa27936470e53fdc9e0a8120004552da9e9613e0,
     logs_bloom = be_bytes 256 (0x8827da2bd3f2218885cc06b6a2a7b20580a90018961e510a490981c320b21756edcc04606dde3b44521843d878425fd04296b5724912a90f0173ccf420e162695c05e0c1e30ec57aeb9192ae5e60e5a95612210480cdb91916cbf36f92d575b15b448b99ae35803021ec5614f300e978663416b2e48a1e86206f443d1044f4b1f8068ec08445203132c20a6c8a83070289e00f9509c6d85b9a6e35df24178eb887c1029cd0a1218468918692911bab86ee1427299401c27a10b34232181a6f5409146452699c9e6026f681a9065f8c5e075202020f0f4ad64b4440068165b97921b27185f800a525eab535200be2e4e5d7a838f0ad56925142a97bef76a715a9 :: 2048 word),
     gas_used = 12508921,
     gas_limit = 12518238,
     difficulty = 5230145618007184,
     seal = [be_bytes 33 (0xa0fddb3803d75b91f2960e524069d7177d459b9ae76c157edc3e76b1111d63d0e6 :: 264 word), be_bytes 9 (0x88ead5273150eb2262 :: 72 word)],
     base_fee = None\<rparr>"

definition header_11963044 :: header where
  "header_11963044 = \<lparr>
     parent_hash = 0x84b31d182372d5bd320c3a4c76faf722d9278a41296f59b3e8286bf696312925,
     timestamp = 1614744500,
     number = 11963044,
     author = 0xea674fdde714fd979de3edf0f56aa9716b898ec8,
     transactions_root = 0xc47b7aa75b737e0375a5637e990b698220b5a8dc3a2c610c92eb11be127e1996,
     ommers_hash = 0x1dcc4de8dec75d7aab85b567b6ccd41ad312451b948a7413f0a142fd40d49347,
     extra_data = be_bytes 23 (0x65746865726d696e652d6575726f70652d6e6f72746831 :: u256),
     state_root = 0x1a9a3c8b93b2a441a6d68dd825bc2aa671e860db4266fcdcc7f3dc43792d6ccd,
     receipts_root = 0xed537e46a7166217a60877bbc3c4c570c7c22210e721058a70da5fbff8e7eac3,
     logs_bloom = be_bytes 256 (0x00a60e796ce2e0539161a3bca19d92e341488632d1ce03504819305129d083e74194dd29c02498c2d821d323d24445912afa04247ba23b0900690b20d4252004b1a10301870780e55c52384d0fa21429366065084b45b01c7ac695e1c07350177b0946abda0086682303490453020ac8c218052e249a56a398232dd91244722088019235a741a5a2754b53498e928204089aafc9d5f0451c48b34d6f21996cb4a7d209c39011a31808f0cc8a1510a00c263012530e2a0e5e31aa00685886c7cd868a1883380e38a950205cb587cf919c07c92e0699dc67382a2026a630c5e20448b57e4a080f98a00105050181133941e5adb0808c87905dba6d194d44a75140 :: 2048 word),
     gas_used = 12490181,
     gas_limit = 12506015,
     difficulty = 5219930624064744,
     seal = [be_bytes 33 (0xa053ec13111b50d38b4e92634c2ad50ef2296c2f225382ff62af5f8a0432c8ea47 :: 264 word), be_bytes 9 (0x88ecfabd6a7bcf1bd2 :: 72 word)],
     base_fee = None\<rparr>"

definition header_11963045 :: header where
  "header_11963045 = \<lparr>
     parent_hash = 0x0a6f9b430097f1c85cdc261c5e322183cb609d752700e65a55be69fb123c8a6a,
     timestamp = 1614744501,
     number = 11963045,
     author = 0xea674fdde714fd979de3edf0f56aa9716b898ec8,
     transactions_root = 0x0383a7a0f23c4cbf4832b13206f8dba0b2077038291aeae04776b010032d567d,
     ommers_hash = 0x1dcc4de8dec75d7aab85b567b6ccd41ad312451b948a7413f0a142fd40d49347,
     extra_data = be_bytes 18 (0x65746865726d696e652d75732d6561737431 :: u256),
     state_root = 0x91b8b077663e1983d66d352ec86c098ec691bebaf8e15552fb40ae1f163849e6,
     receipts_root = 0x669b92059c93d2257ef571d3392f20db81ec0fcb757454b29f4afd9e0a5ed1d1,
     logs_bloom = be_bytes 256 (0xdf6670ad6a7da3eed18484e7a2059f61821c9796455c565c703959a47ec2d95ecd1781e2e5a39d23fa54d7ca264dd5c67afc3e096b0e2fb302f20460a06567155d8835e04f92d6744876243900247df1567a42db85ee42b592e995c1b3468495bc2110158a09f1842330c023588218d14294796db66bd796c56f793511b64b9a0805d819a950ba66d844a07588034fc238028fd367e3992a45a20ddacb9dcdac43938f4e190172724c73e5aa5bfb86b01c5e309a86b1baea56181621191140692c801266a08c120e09654081547ac70d27dd4a429d3c465e10453707d7a0eb28c0bd7424cca7e08199279415bd20a098e4be39f2c7dea9d43b8898cd36af313d :: 2048 word),
     gas_used = 12484771,
     gas_limit = 12493804,
     difficulty = 5222479552532503,
     seal = [be_bytes 33 (0xa06811bcf8d148f07ba897438d12d60345c0769d6c8756974ddf45f150a765dfe0 :: 264 word), be_bytes 9 (0x88b0802727bd3589aa :: 72 word)],
     base_fee = None\<rparr>"

definition header_11963046 :: header where
  "header_11963046 = \<lparr>
     parent_hash = 0x1ee875128465acf88d5650ed428da5b2143be88a44e84e3fc2ec426cf1004cd4,
     timestamp = 1614744522,
     number = 11963046,
     author = 0xea674fdde714fd979de3edf0f56aa9716b898ec8,
     transactions_root = 0x057f60c506542b01bbbbae4044ee543f2ab0998f68f5b2fae9de8b15995129e1,
     ommers_hash = 0x1dcc4de8dec75d7aab85b567b6ccd41ad312451b948a7413f0a142fd40d49347,
     extra_data = be_bytes 23 (0x65746865726d696e652d6575726f70652d6e6f72746831 :: u256),
     state_root = 0xc0d4ee4df264fae56c16d0bae555cbb122bfe67b469fd7293523f7c507b431b0,
     receipts_root = 0x0470af5a8f1bae5b8f23ac08c20d52c424930a0328e5865e8746ca68b03fd7e4,
     logs_bloom = be_bytes 256 (0x1534714608a6a792d7f88f84ac05da87d8450d168b5724b3d43111d351b122b040c605c950490102d008c8367a0e0ddc6b28238e6b82c9535c8092be402941adb05480f22b4a15e64d1947a9550262e75c063276a1d13300dcc693c2c2cef759794085480a8edf82b7abc2d824a88cc7465b9a01a67c9625c52c853c7a467d80d8208422a961687b19610b6c00128c01bd0b0c97c7c0fd5941e015cb04988b73a2f93efb2c44efa36031c984159ab6019e747ac52cca09403450d24c11fee0b142c89486e8dd4a5a884a40a5d30e41cd26d89f6f0747531acaa05e723f826a38a819fc310c88600518463c3139b126ce1b02a0008ee28055afb192577ca3c922 :: 2048 word),
     gas_used = 12481541,
     gas_limit = 12500000,
     difficulty = 5219929647906221,
     seal = [be_bytes 33 (0xa031c35842579e39a2220a9eea88c2d556edc9ccb4c4d2cb56b818f3c32cbc6307 :: 264 word), be_bytes 9 (0x880d79c510c9c83524 :: 72 word)],
     base_fee = None\<rparr>"

definition header_11963047 :: header where
  "header_11963047 = \<lparr>
     parent_hash = 0x642502c878bdc3ee0aba902f29b5a34e3e521a3815d0519377803399e9d2771c,
     timestamp = 1614744539,
     number = 11963047,
     author = 0x829bd824b016326a401d083b33d092293333a830,
     transactions_root = 0x34eb4ff81a6b8edd5fe407839cf2bdb91bf9b2f7b6d80e08822ebe846bad3ae5,
     ommers_hash = 0x1dcc4de8dec75d7aab85b567b6ccd41ad312451b948a7413f0a142fd40d49347,
     extra_data = be_bytes 22 (0x7070796520e4b883e5bda9e7a59ee4bb99e9b1bc0804 :: u256),
     state_root = 0x785463baf11b10471931b04b9690a1f93246b93e9140ffbc2541526176941862,
     receipts_root = 0x6fa6967bff31e8982fe27bf1dece8e7ca35f3fe0027adf30bef477583c43b44e,
     logs_bloom = be_bytes 256 (0x10a67d80a40a288bc04066a1b004160600d021c03d1960108001654004e2116948045254c4082090e0c2c94a508ca5810a22d450992a112105d09a000cf1702d5a446c50f04715654c44003a81a094a2268d095601e1298422866040d250b01334c4820aaa80002a03544510c18699d0ca8818491c680588080b14b916025800982082600a0a6434d04a41011706056184501ea3b502416c6280175a81100db4075c0201190576582a3bca92987282203a26519904a300e45274002bd9191a1ec5d0b45684002080b020d034ae920c9c81ee20086861b81936426822024ce4604951e60866202400901106008916a6004520d07208c691546094100064c22721 :: 2048 word),
     gas_used = 12471249,
     gas_limit = 12487794,
     difficulty = 5219929782123949,
     seal = [be_bytes 33 (0xa0c143319b1c4bb39a6026326ba11ce89ba7d0c3dde28294340f33516ec7e0e27b :: 264 word), be_bytes 9 (0x88f1d5a58cf281f879 :: 72 word)],
     base_fee = None\<rparr>"

definition header_11963048 :: header where
  "header_11963048 = \<lparr>
     parent_hash = 0x5a26df0710857df184fdfc43b26aa8b7c72e0f1aa154e6d4eb7d22d0532c0a7b,
     timestamp = 1614744562,
     number = 11963048,
     author = 0x3ecef08d0e2dad803847e052249bb4f8bff2d5bb,
     transactions_root = 0x97254b889664705922dc371965415d85deedbbbd9000b8d107cef0c6f7f4088a,
     ommers_hash = 0x1dcc4de8dec75d7aab85b567b6ccd41ad312451b948a7413f0a142fd40d49347,
     extra_data = be_bytes 4 (0x76697231 :: u256),
     state_root = 0x76e24f441b42189503d315a7986e91942963eff0b24f04c62f9719e747e751cf,
     receipts_root = 0x9f55a8db54c16c6daf17f1a8da172674f61cf0c300b898476f5ea02baa6ee123,
     logs_bloom = be_bytes 256 (0x142760d56457028f8121224ca9bbbeb764c1c60a7c285aa0fd2932d55e34cf2e423c089f09075e06f31bca2a0b1b59ba3fb5a4b25b1fad55259db466d26cf70b441e4d44871a454b6c583f5e8c6506e8f26b82636a4c3d3b10115b58c64f54199261c91c33328888760070a11861b81fcb50467810ad17b40fe682fb46382bb8f8ed83672a652e7156d0644b0ec30ec7658489cdb1d9902c99920def9498b584cb5fcd9db299227a7a5ca3d557bfdc24e0fd08d4add24b4017c7b068d86141a0363623e769eca0313a11d6b5a4da540c43a46fb9b15ec21c6aa16a5acc8266940618e53ef12ed59b8044c436e89697c03f39a46ae8ed5450876feb80ae98c849 :: 2048 word),
     gas_used = 12448064,
     gas_limit = 12475600,
     difficulty = 5217381122502750,
     seal = [be_bytes 33 (0xa09b4fb0109ab486458037dbd46c378f7753c3cbff8521795df75a0ae9466f1f87 :: 264 word), be_bytes 9 (0x88282efa78e18bdf7c :: 72 word)],
     base_fee = None\<rparr>"

definition header_11963049 :: header where
  "header_11963049 = \<lparr>
     parent_hash = 0x371518116084507561c76b56a7cec7de52dca79556668f2d59c8da86c4e231d2,
     timestamp = 1614744564,
     number = 11963049,
     author = 0x45a36a8e118c37e4c47ef4ab827a7c9e579e11e2,
     transactions_root = 0x6dfe5bd0773ae1b2eba94680aacd745780141f2866b41a8eb958d619e2f0f169,
     ommers_hash = 0x1dcc4de8dec75d7aab85b567b6ccd41ad312451b948a7413f0a142fd40d49347,
     extra_data = be_bytes 20 (0x4d696e656420427920416e74506f6f6c20303036 :: u256),
     state_root = 0xf36ce9b0493373b5cdbbf76e60d28411c3ab87f4fd3b279b073757af0df07391,
     receipts_root = 0x209d868c8fa30f1c2dd34585f2fa7c65ab2e588ea8071a6f1e1cccec23a44181,
     logs_bloom = be_bytes 256 (0x1de4d08ddcf7a931c3bbd58681917ba2e18902125d8a57fcb281c4155ca28174904c3040444a8a9c1672c0a882302d89ba428e985b13b0694e228020b47d25c45269f9356f0ab3e7ec769e2fcfa842e8c473c20f29e474b0ccc28856d65d7c1876960db5220982a4a509c7086d128958d033924c9e380ca064c26c9952d2d8b494b0350cb64aaa206c70a0d8b32b848f30099ff1e5629bec59d86dcf989887b6073f86e159af22721c437ea5dc36806be0a211132887dd1212e216eadc73e854a657b926a11e16c90d676221ebcf030fadc23a30d4fe171a0960b153097262558098639c7c2a402e94363643619be7d4cf283201e08511511a4e381dfe859671 :: 2048 word),
     gas_used = 12433352,
     gas_limit = 12463418,
     difficulty = 5219928806096700,
     seal = [be_bytes 33 (0xa034e6eed2bd0cc02e17fb3827654c416acac5811e7c1c2d2a0c6b349c1d386ab5 :: 264 word), be_bytes 9 (0x881b26a80008e81333 :: 72 word)],
     base_fee = None\<rparr>"

definition header_11963050 :: header where
  "header_11963050 = \<lparr>
     parent_hash = 0x549326f7d85dc6f1a4ff0fa3a355acd312e65808ef611039c9364d1783c72119,
     timestamp = 1614744576,
     number = 11963050,
     author = 0x1ad91ee08f21be3de0ba2ba6918e714da6b45836,
     transactions_root = 0x0fcf9353d95ba36b39626b6e2e96a7a1f7a79dfe32865b90c281a7489515d8d6,
     ommers_hash = 0x1dcc4de8dec75d7aab85b567b6ccd41ad312451b948a7413f0a142fd40d49347,
     extra_data = be_bytes 24 (0x307834383639373636353666366532303530366636663663 :: u256),
     state_root = 0x73f6696560f1f95b009ed94928680facbcfb9c83c85bb7ee941356e0f927c84b,
     receipts_root = 0x8dfb297b4104bfa16f7ffb7c17fe884a8e080ee5ad1ca061f07ddcd04fde5470,
     logs_bloom = be_bytes 256 (0x28a6c111106a274f808c378c9180779f413d3348bc1d31e1e1694d6261a7b2a608bc514cca506a77f4584a5a908809412f34f5e1f9dbe8816b50cba40c6bc0fc33ed48f0c942f32bd9d293bc6ebc6c2c4413c5e603613963035692d8b1545236da9111ba6785141eb544d255e18bcc0debe501ac94a33d95332707fd5383f2e8dc6097352f6fa112b7cb6940ca0681badda41bf59db970cd41c0a8d33e1f9afc874f2f1c347c6a30ac1d22d359bc22eca5995198356480f181fba0982914bac1fcc085b781ac2c89202b31bf3853153eb55c0b33dc1820b08f77c66abd43203b025e6f71823e7c64201105a6b3b028c6eda106ec08978c5d7138160e7cd06272 :: 2048 word),
     gas_used = 12459320,
     gas_limit = 12469460,
     difficulty = 5219928940314428,
     seal = [be_bytes 33 (0xa0340b4ad5e51a36da029991f4dd8d777aa33cb8279fe56fb65b6e8b887ab769ed :: 264 word), be_bytes 9 (0x88f32e0e8b201c797e :: 72 word)],
     base_fee = None\<rparr>"

definition header_11963051 :: header where
  "header_11963051 = \<lparr>
     parent_hash = 0x97cf9f215c00eb4e5d8f08280ad888d3a1a6866fef4cfb56ca5ed57c0c84cf80,
     timestamp = 1614744595,
     number = 11963051,
     author = 0x5a0b54d5dc17e0aadc383d2db43b0a0d3e029c4c,
     transactions_root = 0xc0b8bc27c1e798ea2dbaf5cc0e9aec956b9c005787f3e47f9f7f274af47932a0,
     ommers_hash = 0x1dcc4de8dec75d7aab85b567b6ccd41ad312451b948a7413f0a142fd40d49347,
     extra_data = be_bytes 16 (0x6574682d70726f2d687a6f2d74303035 :: u256),
     state_root = 0xbb8c38b4edae2d47cd806a436cd971de4cc0fe2d5556083c45e40445e834afae,
     receipts_root = 0x13889a4165eb2c7dc19cfde887ef20f19fe647849f255d809a6797bda2351126,
     logs_bloom = be_bytes 256 (0x1c2fe33c9eb5039c1e7f2ae6ee1112883a902ce2f4d6e158b1895d00e4a3957794009d244dc8726847ce82290be64bd5cbe03ca86907e1a3eafcfff6932f3504f24421b19b0259664bd0121b537dc8eac2de3c85235666102584a250f7dc773efc40c1903edbdbd51136ea45e0ea281b5654d86527354f845b18083c1accf389e8138d0a927842bb5c7366bc8008d1b32d119cc3b320314ae924276b80112e542b90e2c67ba6b72a2a790f94552e37833b3600c98924e90291f74ba1998ca93d82192946819f244d723e2ca146da9d4d834c1f0777cc3655c0a259d22c60ef2249d4797651b4422483a62c10d0d5661e05657175e3cd36d95a16df79b2a61a45 :: 2048 word),
     gas_used = 12474090,
     gas_limit = 12481636,
     difficulty = 5217380281104269,
     seal = [be_bytes 33 (0xa08246e389652279ddb4dfb9d28ec2f955d1fb1334ce296f4aa774a47903a84971 :: 264 word), be_bytes 9 (0x88e94e9e973caaf4a0 :: 72 word)],
     base_fee = None\<rparr>"

definition header_11963052 :: header where
  "header_11963052 = \<lparr>
     parent_hash = 0x25a52a565cad9b1c896027565e6771b8e42e3beac8b3f6441a92479df4528a1a,
     timestamp = 1614744626,
     number = 11963052,
     author = 0x829bd824b016326a401d083b33d092293333a830,
     transactions_root = 0x5329d3c96c753b8612614644470ba5ccba3979e20981fc8c31bfe9931053dd6a,
     ommers_hash = 0x1dcc4de8dec75d7aab85b567b6ccd41ad312451b948a7413f0a142fd40d49347,
     extra_data = be_bytes 23 (0x7070796520e4b883e5bda9e7a59ee4bb99e9b1bc000821 :: u256),
     state_root = 0xd4d88fc5e29c785220682543a7fc9c1cf471b1a99c80a2eec3e50561fe1bdcbb,
     receipts_root = 0x16a0ca57d0e512a02700c42aa4498baf8e7715c4a73cff063a5b50c35be0236f,
     logs_bloom = be_bytes 256 (0x53662e087acc814d168e3038c01b7a8348c3145382f003ca8081154542801233008d01e2e59009584009588c092005aad736c2c31828a8a9a35a52124020204c1cbbe208e312c126d892312ec8a31de18020e415c97224a243063f4eda5a243112981802020096904d081e50c00adac85240dc40cd15f68c012591b55428fed40d11d22113e2b4488ac28d711814a409d810815b65d28009427039e6c0331ec0e71942403c70707686f349973828a2e50e10e001640ec15096368c885819223060cd09c200bfa833291d5604ee409c4f00206a461ebef03012019a4283c02d38c874a31a8404e0021096b502101910ad0c206018a5e92049a714be1dd4739aea :: 2048 word),
     gas_used = 12455986,
     gas_limit = 12469448,
     difficulty = 5212285317391233,
     seal = [be_bytes 33 (0xa04b3de464dea0cef2bc9b0ce9cf0f15453064eed55d81049b6d89343639917a8a :: 264 word), be_bytes 9 (0x8885b28aee85e0a589 :: 72 word)],
     base_fee = None\<rparr>"

definition header_11963053 :: header where
  "header_11963053 = \<lparr>
     parent_hash = 0x54d15c1e6fc49d8267dd1449918c67af2bf6417f64dd085858d3841b1f3bd3d3,
     timestamp = 1614744632,
     number = 11963053,
     author = 0x5a0b54d5dc17e0aadc383d2db43b0a0d3e029c4c,
     transactions_root = 0xfc2760756c9cbbe7adb5e502d02110808a5eb5de949ca04019546b6dc531aa56,
     ommers_hash = 0x1dcc4de8dec75d7aab85b567b6ccd41ad312451b948a7413f0a142fd40d49347,
     extra_data = be_bytes 16 (0x6574682d70726f2d687a6f2d74303035 :: u256),
     state_root = 0x56342bd92ab036fc28cf201017a65fa91ba39a6cee11ef9f6a838b2e6e6803d8,
     receipts_root = 0xbbc5efdfb0b3c4cea95f8f0f2281eabb62b94204fc6c3bc66fc16587379e45f4,
     logs_bloom = be_bytes 256 (0xf4a545886198ec2f559127abc067187041092fa4859ec4589919e45266d71773caac4750b486a116174e40a9330a05d05a7faabf5b279807e3c5d2b52064282c11d87694b36a9145c988962a6092e2f45c943c0713ed243102c3adc0d08812383e0dc1825bcc99c2c3c4d1c08100aa737262104d068a3dc4a4d43cb1d02eda0cac5599142441a43d3ac00485ae0c8490a0341dc96128183cc33057e986d38d9d9fafa84a0fdee5b3223549e83e089ca4028a1a0368eee9590277e3889973c08f44f0ad63000e957023189029c4ca961d04209205bcad60727dc72012f5866760005ea4aae90f10bc140d2922cc58e03470a42af0e0d4a9506cfbf8e59b278266 :: 2048 word),
     gas_used = 12475023,
     gas_limit = 12481624,
     difficulty = 5214830512799093,
     seal = [be_bytes 33 (0xa0dfd9e57db5a8f53c1376301483571e7c4271eeae0a060c8e28a388c000ac0b0a :: 264 word), be_bytes 9 (0x885a6d84c664f423d0 :: 72 word)],
     base_fee = None\<rparr>"

definition header_11963054 :: header where
  "header_11963054 = \<lparr>
     parent_hash = 0x85c4b5c75416618ca71ff4df951d7b93035db0e0cf03e6cc1686bafdd0e420ac,
     timestamp = 1614744639,
     number = 11963054,
     author = 0x829bd824b016326a401d083b33d092293333a830,
     transactions_root = 0xa9304bc960edda6edf2484ac24e6f87f99660c1e86384c2085ed2f7d32751137,
     ommers_hash = 0x1dcc4de8dec75d7aab85b567b6ccd41ad312451b948a7413f0a142fd40d49347,
     extra_data = be_bytes 23 (0x7070796520e4b883e5bda9e7a59ee4bb99e9b1bc010421 :: u256),
     state_root = 0x7857136d106545bc0ed0d36b893fdceca19f4969a82d07e6ad41cd5b6b9798ef,
     receipts_root = 0x0a9dfa4a50ba59d7931ff3dfa127b84683d051ad6781d1b38ce4e61eee39a1b4,
     logs_bloom = be_bytes 256 (0x542a5a713d39a4bcdb28242680915a010079872c0434b15990d114c28ed0a840e08e955dd6180502c02151aa014c0d91632084800ba6dc699a70628a5a23264b380526d4c9d8e5eec943a528da0200f62431303484c58fe20be38fc3f2451351da90c4d6262e1000fd174c11e4387bc3d21334810c1804d2c8e071ba74fed7e27b599600b96128505ed80fef89708859cd002dc78946315be733504f81b107d2275f29506c8dada78039c2fd013870f2d41180a58de402c05a8290a438268494cce090e6500b409822d530060a1c040d874a7a17648ecc3bad01248a19286608023c205a312c3434c12604311bb226be8461bb1a39e302c9d730fe4ca8a87528 :: 2048 word),
     gas_used = 12464433,
     gas_limit = 12469436,
     difficulty = 5217376950978148,
     seal = [be_bytes 33 (0xa0b4e6eea5d5495c645ca167e2506aa8075cb65acddec574b824c2cffec3fd5174 :: 264 word), be_bytes 9 (0x880373badbe8d497af :: 72 word)],
     base_fee = None\<rparr>"

definition header_11963055 :: header where
  "header_11963055 = \<lparr>
     parent_hash = 0x520f5be9e9d80ebf079c48b580a6314782523575572f54b5f34160ddd62049b8,
     timestamp = 1614744648,
     number = 11963055,
     author = 0xea674fdde714fd979de3edf0f56aa9716b898ec8,
     transactions_root = 0x3db3a27aa584bb8c8e0f5b8ef58a33fde308bc52f65ebcfc1e6aad604c99031a,
     ommers_hash = 0x1dcc4de8dec75d7aab85b567b6ccd41ad312451b948a7413f0a142fd40d49347,
     extra_data = be_bytes 22 (0x65746865726d696e652d6575726f70652d7765737433 :: u256),
     state_root = 0x40dc1a9df762decee999b8c7967e343f6b914d6f38d776759b46c2bbcdc652d8,
     receipts_root = 0xccebfdbd8fa3ec413aecd22ce66321328a82b93a7645f6e9fe3f89e9ae1869cb,
     logs_bloom = be_bytes 256 (0x5fa2e08c4826000102a8a106a2099e256350a050841016402001254400d2510244000050800a1812c4800009990e09cc0b40d8024a000e83c351a0140020283000414457222411434b102f080e00cce4100000044271380c91137b74e6d00189b218c3470204b02c08188351093898124312960e480c368c082614b2202ce1024862e020224202058548436082699098760032930162f0cd2544155231110b1a434a4611b21221622a14a29812187005100d6fa20880fe6352360a88323bc01f021004c3382100a420188324884a400514008ad673ca20b0431020020ac02021881c2caadb806211a05684728280039008200809523400c110440e0d46218094 :: 2048 word),
     gas_used = 12465251,
     gas_limit = 12481612,
     difficulty = 5217377085195876,
     seal = [be_bytes 33 (0xa0cbdee1b99e9cc64b337b029487850941c03e6448b64a636c86ad35039b5f4013 :: 264 word), be_bytes 9 (0x88a53151fe8259c93a :: 72 word)],
     base_fee = None\<rparr>"

definition header_11963056 :: header where
  "header_11963056 = \<lparr>
     parent_hash = 0x965aa8d2b06ca66fefebf8ad3e082c80a377d351d8710544b8541d4237315a57,
     timestamp = 1614744651,
     number = 11963056,
     author = 0xea674fdde714fd979de3edf0f56aa9716b898ec8,
     transactions_root = 0x382b995eeb05dc11c67280d65f687e707ccb39b0b2d9a4e18e70ce2308a3f14e,
     ommers_hash = 0x1dcc4de8dec75d7aab85b567b6ccd41ad312451b948a7413f0a142fd40d49347,
     extra_data = be_bytes 23 (0x65746865726d696e652d6575726f70652d6e6f72746831 :: u256),
     state_root = 0xfff0acf10a6673397c8d25ce86d2096a2b8738d09a247e5760197f36cc7d7165,
     receipts_root = 0xa36d7e2657ad02cd8cc25c3eeea341f69478a60f92648cb7221298c0b88ac518,
     logs_bloom = be_bytes 256 (0x422ec14c4523028836444692b0ba15574c0b98904c06955423c9198200c0952489b22d2151600c604b12b4bb1a20c1250a2616120b22a80f8d509033782430411889000013127761ca52056d476000e985b7440405441c421a076405c15d0411111670af0f42d331020d4014c0eb5841d20012cb742b1f071c26113b582ec866a88884d4c74dc00d436050c001848cdacdc89df1e3c0942ca130535f8058283c2305408f583a24461e945b8a1870ba000703091001c202c1800a40a09c36434550741282610d09202431267084fab60d26da8228508e431c6909301202c066d1943024a2568758003000f6218004a28024247080014840559b8abb4a40311408 :: 2048 word),
     gas_used = 12487887,
     gas_limit = 12493800,
     difficulty = 5219924766818484,
     seal = [be_bytes 33 (0xa06f70f7dfd41c24e5b853e3b503bb5bc51c003094fae0b651386e0ff52aa3c6a3 :: 264 word), be_bytes 9 (0x88f341585809607edb :: 72 word)],
     base_fee = None\<rparr>"

definition header_11963057 :: header where
  "header_11963057 = \<lparr>
     parent_hash = 0x8297e9e79eb4ddc13740bc33cc9a2161313e561e21584702119f20d804f39d1d,
     timestamp = 1614744660,
     number = 11963057,
     author = 0x002e08000acbbae2155fab7ac01929564949070d,
     transactions_root = 0xd059189dd8daa379ebe89279a8fd9f7064272cc8806e7b0ec669a5b5af880bdc,
     ommers_hash = 0x1dcc4de8dec75d7aab85b567b6ccd41ad312451b948a7413f0a142fd40d49347,
     extra_data = be_bytes 23 (0x457468657265756d534f4c4f2f326d696e6572735f4555 :: u256),
     state_root = 0x20c90d7665aa38b871714135e21e1191d6a46e79e708dfaf7cddea2a06595a40,
     receipts_root = 0x1ebdcf3a98d6312c4eb2101d1a527d9a09ebde8a71d15f1d70a79747a564f053,
     logs_bloom = be_bytes 256 (0x976644004d92280de0b12768841101868900c084e480c4108331400240c405a551869a1515010a00c110c02220042dfe1a2450400a4282a583dae022c425300430845a82e38f01635cb40828052060f420b1643428481280560ef749d3dc0401b28080801219819240008440008e0802c214a7508c18868cc05c143f14ae7100aa0483431145a82004441160c9c21eb1b90215817172923c018219e050330383271c0c0f420170b22030ab995b35a8400a04011369b9401511b71031192a5125ff8200ca390f0c0401551025845f1598812e0f022dac611420200183d0442c24801829ce091489848482dc86808ac624062c2810c48980412d612921d0934020 :: 2048 word),
     gas_used = 12465674,
     gas_limit = 12481601,
     difficulty = 5219924901036212,
     seal = [be_bytes 33 (0xa063d4033ac33e642aabb77d6754e5608c41ff79508e839355d7f1eb42cbda3531 :: 264 word), be_bytes 9 (0x88c32074994bf07ea8 :: 72 word)],
     base_fee = None\<rparr>"

definition header_11963058 :: header where
  "header_11963058 = \<lparr>
     parent_hash = 0x9dc016a06bbe8941e5a2ea406d47cae77974204a79402019d48acdae165b5cab,
     timestamp = 1614744662,
     number = 11963058,
     author = 0xd224ca0c819e8e97ba0136b3b95ceff503b79f53,
     transactions_root = 0x3c12455f7ac34c557883dc88ed30b956c2396fb971d73a3d4e4774ae9d4ae4f1,
     ommers_hash = 0x1dcc4de8dec75d7aab85b567b6ccd41ad312451b948a7413f0a142fd40d49347,
     extra_data = be_bytes 12 (0x7575706f6f6c2e636e2d3335 :: u256),
     state_root = 0x99c6ee82fc7fc77e3116217c4019df47143a104d9c3047c10ca53efe45322930,
     receipts_root = 0x71ab7c3355a4bda49a6ed790482da5ca2d01cceb7ad8ff065f184fed6924a2fc,
     logs_bloom = be_bytes 256 (0x0d72c10c1d440101848d0c88895970fb00281428ac41616cc00dab8280e9832401241500004a000e94180a30012805180a882c119c969023b324813d822332041c1910e14120b541fa000839d60884a68c51304548d21e141d920059d1465f01181400950a2c264421080388e0001d8440d93e1e071c2c402200601794ac2924e07123060a40a00f0bdd110c9863ca90290c4ccdf321453ce1a16cf4b0102b97228bd58d0478a0e00134049513018040aa246a422d2204d040020028992c30bcb3084322a04a89602004000443ce960c80409242d64c363d42486002c8c02a61801964f72013a08380160803000782ebb029a81cf0a121555d46fd8dc4251c46 :: 2048 word),
     gas_used = 12468263,
     gas_limit = 12469413,
     difficulty = 5222473826709524,
     seal = [be_bytes 33 (0xa03eb8d5069ea4277f41c74c60de8e28a380991d5db22af20737285b16ab717369 :: 264 word), be_bytes 9 (0x882516e0ad51973b22 :: 72 word)],
     base_fee = None\<rparr>"

definition header_11963059 :: header where
  "header_11963059 = \<lparr>
     parent_hash = 0x76e3c12af5779626352ad5ce4f58df30b42ae92c08e8a89d2065ae241065b069,
     timestamp = 1614744664,
     number = 11963059,
     author = 0x5a0b54d5dc17e0aadc383d2db43b0a0d3e029c4c,
     transactions_root = 0xa721168a0638b41ae083ca6ea53f9f61273d69ba52005b9b3a736a9b3c75e5f1,
     ommers_hash = 0x1dcc4de8dec75d7aab85b567b6ccd41ad312451b948a7413f0a142fd40d49347,
     extra_data = be_bytes 16 (0x6574682d70726f2d687a6f2d74303035 :: u256),
     state_root = 0xc4c4941ded05d597baeb44485ad4fd5b59ec8d9c2775c8acc388ca936e711018,
     receipts_root = 0xeff77c5e3f13e5f79fa14442ecd20e9e417b36a3744ea46dba0b7015be66326a,
     logs_bloom = be_bytes 256 (0x3df6f9a0491068b90831e7aea09b7ba9784d85200bb8e0dc1925950e9ad289667c050482a4920200c0b163ae69f9c99bf281965d5c9688a2e76d9b7ec3610124f8592884ff07752b7fc0530c3c40ab615035506184d97c31139cb95fb4f530157ac480e76f8ab23e19084d61a76a18d2d2a71eecefccce9dc434539ff032b9b2294b9336b74ce741c2488918a64b8e91ed1095d53382403ca6b17efed416ab98871841443b3960f39470cada5127a02b307082e10c7746604762e08fc12710c5dea1722e28ae192b6617d491d5cea6fdb5287252cd94a51e45eba362ad63f046133e764e1e252a330ca4a6d794f8a1a12431c8d5c2e4a14fccff8507a6e80568 :: 2048 word),
     gas_used = 12466111,
     gas_limit = 12481589,
     difficulty = 5225023996975450,
     seal = [be_bytes 33 (0xa0da373ca8c50eb9778673531c2eec46eee99c39b548994eb3847812ffe03a7921 :: 264 word), be_bytes 9 (0x88ed86c0be625e235d :: 72 word)],
     base_fee = None\<rparr>"

definition header_11963060 :: header where
  "header_11963060 = \<lparr>
     parent_hash = 0xed6543cf39bd24440fa0eb8dae94ebd2f08bac370a5496e816e7ec244cec5037,
     timestamp = 1614744674,
     number = 11963060,
     author = 0xea674fdde714fd979de3edf0f56aa9716b898ec8,
     transactions_root = 0x504bfce965afe304e14866f293eda40281a53f8c342e931c0a2f8e5231856295,
     ommers_hash = 0x1dcc4de8dec75d7aab85b567b6ccd41ad312451b948a7413f0a142fd40d49347,
     extra_data = be_bytes 22 (0x65746865726d696e652d6575726f70652d7765737433 :: u256),
     state_root = 0x0a1c6be272c3ad278e134e21342f41c467cfb4917b8d020eb8ef3dd54a9a30bb,
     receipts_root = 0x7279c0139f70c595714aeaefd44ece14619dd4da1b6ea911113feb18771da15b,
     logs_bloom = be_bytes 256 (0x65265799488e3bfdb9a801f490b5bda1648806681e134a64a01b0560c0ea9783407613e4c44a582b2b7e1303224231df0ac0b3360922c9352739f09220f029ab444c215b4f48d57dcec50a7fc4a2fe70f60326646bce3258b857f47dd8c6563333d985af36c4cbcd61ac6a643699fe78ded8a0f89cac86a67c221f928c3e9ce0f0702f07846c30a4c0e00e5423c2565709608d93c7f7d09ac19cddf6021c6187c34fe349b3aaa0612cb98e929eb1a85222688f38d01aef3315935228d02487f9ff1bad5aa715f961609004a4ae5f0e04865403ee159fca92b974898743c2b9c4e894230eaca3a31ff4f7912c8bb0d0fe9420a958ac5cd1d02f544b0cd6830270 :: 2048 word),
     gas_used = 12420820,
     gas_limit = 12493777,
     difficulty = 5225024131193178,
     seal = [be_bytes 33 (0xa0d69a1c589f0b11482b23a262c63b4591c20e285377ae056e85c0f4f3dd19f66c :: 264 word), be_bytes 9 (0x88ef90964851d9c041 :: 72 word)],
     base_fee = None\<rparr>"

definition header_11963061 :: header where
  "header_11963061 = \<lparr>
     parent_hash = 0x97bd00436f72fdc633b4a450150173a08747eb250c21b91b89210c0dd2ef198a,
     timestamp = 1614744697,
     number = 11963061,
     author = 0x5a0b54d5dc17e0aadc383d2db43b0a0d3e029c4c,
     transactions_root = 0x20eadd15b8f790518e6400d0283d2e21d453dc7ee23c2357ab035bb4affb48fd,
     ommers_hash = 0x1dcc4de8dec75d7aab85b567b6ccd41ad312451b948a7413f0a142fd40d49347,
     extra_data = be_bytes 16 (0x6574682d70726f2d687a6f2d74303036 :: u256),
     state_root = 0xf48208999b3b2b131d0c6a0da37db0025b954305dca336acbaa67c62c79e3b05,
     receipts_root = 0x76d662e874e9b99899210717558148e5e13d205c182faea3971bfadebd2ed194,
     logs_bloom = be_bytes 256 (0x396669240daa0084dfa8656e840dda01e8a794a0ce889610d03330d01aa20302c22400488280116fe10de5a9dc363d95cb32ea1d09a2972d17d196305030353d1039632dc56b844bc88487ee34b24ce014b6282401d25e6403061858b94d4010fb96803e1e7924fe7a8d4763925adcb2d2d2983aa4385e03247c04b6103416b4f8d8843fee2ec697cf710b24095c0ee94cb4bb71f921444c00eaeed680d1e9b8e73c978112bba672042ceae349a90200463ca9d0281612b253a66030c0fa6bdf469b2a4a25af5862352d62ad8ede871e1f8e6286446c681809b090420bc0a8519f38245430b792018402fe285480380486202811e94c2847317ed82f4ef19bc0 :: 2048 word),
     gas_used = 12486108,
     gas_limit = 12500000,
     difficulty = 5222472984096847,
     seal = [be_bytes 33 (0xa0f169abbaa1d59989658a60e11f4de5b8ba7429c8bd4ef60d86e5fb386e35b82e :: 264 word), be_bytes 9 (0x881084e8b9733a9f1a :: 72 word)],
     base_fee = None\<rparr>"

definition header_11963062 :: header where
  "header_11963062 = \<lparr>
     parent_hash = 0x4ff0af67830df538e102a61b23a3b2a7fda5ff1545538b6e71e90dcb9f0de0b7,
     timestamp = 1614744704,
     number = 11963062,
     author = 0x52bc44d5378309ee2abf1539bf71de1b7d7be3b5,
     transactions_root = 0x88058f656b9b565f4c29908af33f6df2433f56af595c3614d5f3059e2c471a11,
     ommers_hash = 0x01afdbf501426a44c23c3a8b8bad58171ed35598cca9a704ea624d670061afc4,
     extra_data = be_bytes 12 (0x6e616e6f706f6f6c2e6f7267 :: u256),
     state_root = 0x02088ad7e52e98e39eea5abcd301e70e75e3d24b6ee47e02a6626bd1fe1cfe58,
     receipts_root = 0x4823a67c60b1bdda2b00c65419b6977b0495325a6ca8837d2e7d059d08932e90,
     logs_bloom = be_bytes 256 (0x51e4c559658720aad4f5fb8286a1de6fc0930c25c856e46029458fc047c509629da435738c08510be368b2229346b5b0c718a6524ba23d278b27dc3ad033721098197e2083ba8135ec83312c995065e4d45be4dd2ed23e169797d562c3ec90115e55d11506afb2e127fd8e5ad06cbb4840b50888ecfb56432f3a1a9376ad6062ba78bb67b9d5c954effa18eda9e64c22911eed932933343e2468757ae1f1bdb0038e309b481b6fd33221fef1c88286a90b36db239f022e230ea767e2891c2a2c125430c3211514d00f6810a40eca8e0d9455ba0f578e0e948bc388820dcdf84f3239650a99a63ed8e812c6034a88c40c45210c1ada75d2611576abefdc2f9664 :: 2048 word),
     gas_used = 12501943,
     gas_limit = 12512206,
     difficulty = 5225023153951341,
     seal = [be_bytes 33 (0xa0bbbcd47c6aca74ba35365543decf355ebee4ca60c7ec0f072c357a7b63022cf9 :: 264 word), be_bytes 9 (0x88309aaaddf64e01da :: 72 word)],
     base_fee = None\<rparr>"

definition header_11963063 :: header where
  "header_11963063 = \<lparr>
     parent_hash = 0xb25a9e5010443f97b7d5d208f9cf4ea8b0014f60ddbe964ab182eb5049671874,
     timestamp = 1614744712,
     number = 11963063,
     author = 0x99c85bb64564d9ef9a99621301f22c9993cb89e3,
     transactions_root = 0xb99f9c2fe8919b35e596389523d463d23a0284b15a287eb6deca4948e23dd35e,
     ommers_hash = 0x1dcc4de8dec75d7aab85b567b6ccd41ad312451b948a7413f0a142fd40d49347,
     extra_data = be_bytes 15 (0x626565706f6f6c2e6f72675f3662c0 :: u256),
     state_root = 0x8c4593c8cbb96f28971aa5cc0f73755bb5b87acb81f65442feba524ba2cfd2c3,
     receipts_root = 0x7a1567bd02c65191c4d0ac73e41faba485f120c84cfc21da4acb71dd57bb7635,
     logs_bloom = be_bytes 256 (0x9a7e41e10588bc25fbb82064a09119e3780fd212ed3c9502a28134885cd1417f80561b33f1c1536361581252f0ce3b5aab84446059627a4620ff4089e8f7221e154a4382b71361ab4f17637abcb3d27594a3621407665f16440fbdf396cd62c17886948713c944840c46e4c300340ad04ad597d447198c500ed41597922f4b0badc29d01934b28f01c4367f9aec0bec3f52f06933524683da16350ea4293bb0f875729eb069b7c728bd549983d3bb415c6244949042350490925c26dc81dcb0536b006e711ca07720c10962b81167059136649af8d0b2f1d020625430ad2f83d80beaeb62124b00fa4408c220984a66644689810ccf404dbb77b5a89aca2feb7 :: 2048 word),
     gas_used = 12509308,
     gas_limit = 12524423,
     difficulty = 5230125849842849,
     seal = [be_bytes 33 (0xa0cade140e9d732b7af9c43b18fc7e9a1fdb7dd2ee7e2429a34dcdde5e3a74a13c :: 264 word), be_bytes 9 (0x881d8565ea7603633f :: 72 word)],
     base_fee = None\<rparr>"

definition header_11963064 :: header where
  "header_11963064 = \<lparr>
     parent_hash = 0x574c69c2e76ff8b0ab5d9aac5b0de7d09b3f83f40abfff8ba0eb4eb7222d4ca5,
     timestamp = 1614744718,
     number = 11963064,
     author = 0x52bc44d5378309ee2abf1539bf71de1b7d7be3b5,
     transactions_root = 0x53b2f8ace2ddac91cce3504f13bb3e0307ab756d5055a5ae08843a9c72e878d2,
     ommers_hash = 0x1dcc4de8dec75d7aab85b567b6ccd41ad312451b948a7413f0a142fd40d49347,
     extra_data = be_bytes 12 (0x6e616e6f706f6f6c2e6f7267 :: u256),
     state_root = 0x30bd8d008b7e35a4cdc87bf140e925007b963baeb4a1d51195d4513dc07d11c7,
     receipts_root = 0xd0a48d3ba5a5c8f066fd75a4bf0a11630d60ac03e77555ccc3f9f76ab2afebcd,
     logs_bloom = be_bytes 256 (0xb6fef051291a30608c886a5cb8d03ecd481db8729c1e81ccc323c021c0e10d73fab41c4d133f0db458d7cf23315b111faa7fa6fecbd7c6a98b06f697242129a69639e67f850fd359d820856b91e839e4454d253e55c27a44dd369d74c2c4d193fb18b4804eceaa41696ce13339096f925f3c9a7fc5492c8d2c8c38f11036d2f62c11d7290368fb0c4bf4352e89ec90dbd49eadc17be7f41ead8a7df2d8112102a7c526675fcd241788f4f7ca0f34888642198aef492fd34699bdf47958b94afd5f0894623d7b9081061491758ad735df87bbf6871d1e6218d2275006206b74c338dca8903131c450e05077a1990ac7f465247ac9d9a530d824468a739db39e75 :: 2048 word),
     gas_used = 12535753,
     gas_limit = 12536652,
     difficulty = 5232679756448195,
     seal = [be_bytes 33 (0xa0b8f34a89bb57894c773a7509d5fd10e99c0f7cf23c90c56ca3b32729f5600c55 :: 264 word), be_bytes 9 (0x88ce2d6ca1f9551b5b :: 72 word)],
     base_fee = None\<rparr>"

definition header_11963065 :: header where
  "header_11963065 = \<lparr>
     parent_hash = 0xa97c39743387374647bcfa8372f3d2849a13282e1a93ab26c5183481cadb21fc,
     timestamp = 1614744730,
     number = 11963065,
     author = 0x829bd824b016326a401d083b33d092293333a830,
     transactions_root = 0x5bd3fcf8fe0bbe68791c6e16d2359e8e25c5b2ae3d6cc5584cf197b0dd6bd602,
     ommers_hash = 0x1dcc4de8dec75d7aab85b567b6ccd41ad312451b948a7413f0a142fd40d49347,
     extra_data = be_bytes 23 (0x7070796520e4b883e5bda9e7a59ee4bb99e9b1bc000a21 :: u256),
     state_root = 0x26adbdb1847658847dea0f2a66bd791a8f11e0b71a2273d97dbe041bee09f267,
     receipts_root = 0x7d36dd32f6a442a3ed7a8e4860e55d243f17528d7dad7cebdbcd47c9243f4937,
     logs_bloom = be_bytes 256 (0x16a04a4a6df4290591eb669a829b11e8004c3084885fa47b5945159250a1970c548e504bc40b9804409b8fe2b32623dc1b36a292eb6bb520a8f05221aa72232058094012a2a3ad744911e48a140042e07ec76126c7d1b88239d291e3c24c12517a5480870ebec0481514343480a1fb9f663ab03f176d4414084d32be5a21b8b228088d84c3e44207c27c4557a1421c670cc8cdd17561c618e4102b5460d20117c35c30c1aa1f3563acfec9f89d320045483c8b00506205241332426ef0a1986b5a4106e26a36404224e55661a0dbd80e14724b270fbb429c3920881283a4b3089c18fb125d9c48c0f0c73d128dd5c866156034d147fe0153b14c081bb660a322 :: 2048 word),
     gas_used = 12508672,
     gas_limit = 12524411,
     difficulty = 5232679890665923,
     seal = [be_bytes 33 (0xa0a6f987b81ac4bc80e0208e0d79adb7c10892ad1505d7b01dbe464a7cb6ee59f7 :: 264 word), be_bytes 9 (0x88d462d5f28cae8874 :: 72 word)],
     base_fee = None\<rparr>"

definition header_11963066 :: header where
  "header_11963066 = \<lparr>
     parent_hash = 0xcfe04358c0b502fef357cffa33029a4fbe49090075aca91bd2d9b1db1715f7ab,
     timestamp = 1614744739,
     number = 11963066,
     author = 0x00192fb10df37c9fb26829eb2cc623cd1bf599e8,
     transactions_root = 0x4d3e338a81dbd32317832378d4a7b2993c4d59c2a85dee29e33f34da637cacd8,
     ommers_hash = 0x1dcc4de8dec75d7aab85b567b6ccd41ad312451b948a7413f0a142fd40d49347,
     extra_data = be_bytes 25 (0x457468657265756d50504c4e532f326d696e6572735f455532 :: u256),
     state_root = 0x3f44e851aa8dc8dbaccd07d866c353f611198c4fa90dd5b708634016dcaa6620,
     receipts_root = 0x6cff617714a81cc3ded79d75e087ca07157a554e2f086c2d90e1bf7a8c1f9779,
     logs_bloom = be_bytes 256 (0x122a60a82c025038000104008408006a0808082404180000191130688080418120480880008a2000260850c8204101932a0054140909608149008b2a3261010108127120282201306901000c100050694010450560ca15834046081c82b0801258842007128cc000008485c00210086c2275016691088610080a05988000802000200300000800000c4100000004a9000008488111040408420210600012834043843100a1006046011b4bd9602800188205204d8420240000610208428110180c080082000140000108c4004c12018653004208140612b62200a3822c60a0000418aa0408089490a02400582888c0100420c200440520400144800844124216 :: 2048 word),
     gas_used = 12493946,
     gas_limit = 12512182,
     difficulty = 5232680024883651,
     seal = [be_bytes 33 (0xa0dc7d0b7f5b46528365e22be22fa7a21400f96f2fdbf7f23fc334d6f138fbfa9f :: 264 word), be_bytes 9 (0x88bbf115f36577756f :: 72 word)],
     base_fee = None\<rparr>"

definition header_11963067 :: header where
  "header_11963067 = \<lparr>
     parent_hash = 0xb515c77bc8be467a58cf38b5938c054d5754aca68e5cd85db8958a5296d11e61,
     timestamp = 1614744744,
     number = 11963067,
     author = 0xb3b7874f13387d44a3398d298b075b7a3505d8d4,
     transactions_root = 0x86297e523f48f0890743b3d8f8dcdb5e3d6a6950f24b12a354722cf755578707,
     ommers_hash = 0x1dcc4de8dec75d7aab85b567b6ccd41ad312451b948a7413f0a142fd40d49347,
     extra_data = be_bytes 9 (0x426162656c20687a38 :: u256),
     state_root = 0x46f3916f3d93ff56a485d01b46fe101279f5ea36dff38a82ad0d370a4af6bd57,
     receipts_root = 0x80fe235aaf76f4599b7fc066352a90076a862b7eb1c862cbb027becac248a69c,
     logs_bloom = be_bytes 256 (0x383441fda0923837119846c4e001d24d4251870251dce04c3859b3901ac02068451c254e0042ab00c50bd252954c1b501b6002c2d9e4cb2003d8f43150e0a08356866557835a277a4852f02ceb6c6061500c420cefd0142007df55e582d4d75953ccca000bc806ee992c1201eabfac76c458166c05ca56120829cdbd90857ea29d83869d6779a024c0600217e5208adaa0002f2191a6c268483235478b9024c4c2cc38087139e32a0f3ce2c6d8533a0c485c8b3c1410a16672b10bb81a98396f4b2805d20b5690334283d28d8d37067c87425a22c71bcbbe0740290a0a79b6a0167c68883da28731e050043cd79876b08525094410ce4bd122c8ab40e60938a5 :: 2048 word),
     gas_used = 12505552,
     gas_limit = 12518266,
     difficulty = 5235235178644779,
     seal = [be_bytes 33 (0xa00fde8786e11b5f45c7f74da62659a8adfbd82737665f1a0724ceb5f062f3a690 :: 264 word), be_bytes 9 (0x88ba39432d7dc67087 :: 72 word)],
     base_fee = None\<rparr>"

definition header_11963068 :: header where
  "header_11963068 = \<lparr>
     parent_hash = 0xc142d8cda7dc1508e0138f9b94328fb8192e46d198251921e06e84ca787d4d4f,
     timestamp = 1614744768,
     number = 11963068,
     author = 0x5a0b54d5dc17e0aadc383d2db43b0a0d3e029c4c,
     transactions_root = 0x273717a01bfb4b93ab58b903173e128b348116efab52bce6a4d2b3e02764e2a4,
     ommers_hash = 0x1dcc4de8dec75d7aab85b567b6ccd41ad312451b948a7413f0a142fd40d49347,
     extra_data = be_bytes 16 (0x6574682d70726f2d687a6f2d74303035 :: u256),
     state_root = 0x9f4a65c2a1252245a27d61b9f4eb5861be5cb887d5f64bb887b803f3833630d8,
     receipts_root = 0xd65696e6e71e1129c0f59411d3603adaea5603f3feff5fa66a1ec943e48f990c,
     logs_bloom = be_bytes 256 (0x346052b06942b0009a8816978701198020802054b09f24aec08100aa08204a80884c28e860109930c00acb721380035113212a212fb0a89ac5d8d9028068090c108078e483440262ea04906c950c44652c0975069ac000a10946cee0ac715c149d43840213dca2c3810045c4629ccec2947d322cd1985d5c2a2a869de4aa62c5480181ad4159240e1262812f8104829a081129b36300101b0186654a06111612c6910940008aba221ca0c2819c8719800b468b90a047472da0a702114a04804584415c16c3821263806240c607530004934a82022469183a59309d520ae02ac4c418651da822706a2411bc30c92028861d064c226066845202d8116424c16234 :: 2048 word),
     gas_used = 12520265,
     gas_limit = 12524361,
     difficulty = 5232679045685435,
     seal = [be_bytes 33 (0xa0b8ce8965cebf4695e01f297614d9ecf588e25db134aa367bc9f43b1af1486296 :: 264 word), be_bytes 9 (0x882e25053378908528 :: 72 word)],
     base_fee = None\<rparr>"

definition header_11963069 :: header where
  "header_11963069 = \<lparr>
     parent_hash = 0xaf5769ee462436625da558d4997d581190cb99b562f791cd04bfd6c4223c4b5b,
     timestamp = 1614744826,
     number = 11963069,
     author = 0x5a0b54d5dc17e0aadc383d2db43b0a0d3e029c4c,
     transactions_root = 0x29515d5aad8397d35b19e28fc14f21e74b9e15bc3f9c1ee8845d60a5aeb0534e,
     ommers_hash = 0x1dcc4de8dec75d7aab85b567b6ccd41ad312451b948a7413f0a142fd40d49347,
     extra_data = be_bytes 16 (0x6574682d70726f2d687a6f2d74303035 :: u256),
     state_root = 0xdd653d55621a6aed0c2c089f6de1605e9d2e4d678a57e205ae8b7bf0ce16f84b,
     receipts_root = 0xd3aa4f7d0b7e550303531cc0081474ef34dfb1ce43736223be2062bb279adcac,
     logs_bloom = be_bytes 256 (0x9069c7d390927902c541bed0b2e37f892b7949505086ae848d878651d0c1360be43e71642052aa52480642a6e60429d04adcb71a49b775811557cc201829012450044060b16383e16c90ce1bb0b060a9b66122dc8bc3a3984fdb91f6cecc61115b0cdb3b7ed42a15a76ac28be0a3b8d2c219ae53a68ca422288b559714c86da0b9a9930402e0b6282060075aa6a042b2a0180d9f4536c4c8300452d49410cb31a7c803d1f22224e03470fc8e3d7730844a992c5346600b1333ab5fbe50296f091a1ca562496d81001a80d0e88a58455c04d42e66332f533c16942b270751a4cd109d71ca98020a7fa6daa4851590fe8ccf292a3928eeb85320dc3a8447f38034 :: 2048 word),
     gas_used = 12513737,
     gas_limit = 12530472,
     difficulty = 5219904084576783,
     seal = [be_bytes 33 (0xa0e89dc02ea00e8753760a704c3e942f1dc814141b5762af8eaa2e13b5db1b065e :: 264 word), be_bytes 9 (0x88b0867985a2a493d5 :: 72 word)],
     base_fee = None\<rparr>"

lemmas bench_header_defs =
  header_11963025_def header_11963026_def header_11963027_def header_11963028_def
  header_11963029_def header_11963030_def header_11963031_def header_11963032_def
  header_11963032_sibling_def header_11963033_def header_11963034_def header_11963035_def
  header_11963036_def header_11963037_def header_11963038_def header_11963039_def
  header_11963040_def header_11963041_def header_11963042_def header_11963043_def
  header_11963044_def header_11963045_def header_11963046_def header_11963047_def
  header_11963048_def header_11963049_def header_11963050_def header_11963051_def
  header_11963052_def header_11963053_def header_11963054_def header_11963055_def
  header_11963056_def header_11963057_def header_11963058_def header_11963059_def
  header_11963060_def header_11963061_def header_11963062_def header_11963063_def
  header_11963064_def header_11963065_def header_11963066_def header_11963067_def
  header_11963068_def header_11963069_def

definition headers_11963025_to_11963069 :: "header list" where
  "headers_11963025_to_11963069 = [
     header_11963025, header_11963026, header_11963027, header_11963028,
     header_11963029, header_11963030, header_11963031, header_11963032,
     header_11963032_sibling, header_11963033, header_11963034, header_11963035,
     header_11963036, header_11963037, header_11963038, header_11963039,
     header_11963040, header_11963041, header_11963042, header_11963043,
     header_11963044, header_11963045, header_11963046, header_11963047,
     header_11963048, header_11963049, header_11963050, header_11963051,
     header_11963052, header_11963053, header_11963054, header_11963055,
     header_11963056, header_11963057, header_11963058, header_11963059,
     header_11963060, header_11963061, header_11963062, header_11963063,
     header_11963064, header_11963065, header_11963066, header_11963067,
     header_11963068, header_11963069]"

end
