(* ===== verification/Light_Client_Bench.thy ===== *)
theory Light_Client_Bench
  imports Bench_Headers Light_Client_Inv
begin

text \<open>
  \<open>pallets/ethereum-light-client/src/benchmarking/mod.rs\<close>: the benchmarks of \<open>import_header\<close>, each with
  its set-up, the call and the assertions of its \<open>verify\<close> block, on the headers of \<open>Bench_Headers\<close>.
  The raw Ethash proofs are SCALE-encoded; what they decode to is the argument \<open>decode\<close>.
\<close>

section \<open>Set-up\<close>

definition RESERVED_FOR_PRUNING :: nat where
  "RESERVED_FOR_PRUNING = unat HEADERS_TO_PRUNE_IN_SINGLE_IMPORT"

datatype raw_proof = RAW_PROOF_11963035 | RAW_PROOF_11963036 | RAW_PROOF_11963043 | RAW_PROOF_11963069

definition header_proof :: "(raw_proof \<Rightarrow> double_node list option) \<Rightarrow> h256 \<Rightarrow> double_node list option" where
  "header_proof decode hash =
     (if hash = 0xd9b1938b61813fde7cfe2cd957fd031655a527186140f3f2328e74afdb3cd598 then decode RAW_PROOF_11963035
      else if hash = 0x3ed36d8242ac3bff178ed1c76a9c7fc95c78a626b90b52dc60af218850a2af01 then decode RAW_PROOF_11963036
      else if hash = 0x84b31d182372d5bd320c3a4c76faf722d9278a41296f59b3e8286bf696312925 then decode RAW_PROOF_11963043
      else if hash = 0xf65cce2b6380b2e7e651bac8f2b982a9e05aa63c77aa07df6b6b203af5e1fa87 then decode RAW_PROOF_11963069
      else None)"

text \<open>An index or a slice past the end and a failed \<open>assert!\<close> are panics.\<close>

definition index_vec :: "'a list \<Rightarrow> nat \<Rightarrow> ('e, 'a) result" where
  "index_vec xs i = (if i < length xs then Ok (xs ! i) else Panic)"

definition slice_to :: "'a list \<Rightarrow> nat \<Rightarrow> ('e, 'a list) result" where
  "slice_to xs n = (if n \<le> length xs then Ok (take n xs) else Panic)"

definition assert_ext :: "('s \<Rightarrow> bool) \<Rightarrow> ('s, 'e, unit) ext" where
  "assert_ext b s = (if b s then Ok () else Panic, s)"

definition set_blocks_to_prune :: "u64 \<Rightarrow> u64 \<Rightarrow> (light_client, 'e, unit) ext" where
  "set_blocks_to_prune oldest_unpruned oldest_to_keep = modify (\<lambda>s. s\<lparr>blocks_to_prune :=
     \<lparr>oldest_unpruned_block = oldest_unpruned, oldest_block_to_keep = oldest_to_keep\<rparr>\<rparr>)"

definition header_pruned :: "h256 \<Rightarrow> u64 \<Rightarrow> light_client \<Rightarrow> bool" where
  "header_pruned hash n s \<longleftrightarrow> headers s hash = None \<and>
     (case headers_by_number s n of None \<Rightarrow> True | Some hashes \<Rightarrow> hash \<notin> set hashes)"

abbreviation bench_headers :: "header list" where
  "bench_headers \<equiv> headers_11963025_to_11963069"

section \<open>The benchmarks\<close>

text \<open>
  The index of the header that is imported: headers for pruning, the next finalized header, and the
  descendants that make it final.
\<close>

definition next_finalized_idx :: nat where
  "next_finalized_idx = RESERVED_FOR_PRUNING + 1"

definition next_tip_idx :: "lc_config \<Rightarrow> nat" where
  "next_tip_idx cfg = next_finalized_idx + unat (descendants_until_finalized cfg)"

text \<open>\<open>header_sibling.difficulty -= 1\<close>\<close>

definition sibling_of :: "header \<Rightarrow> ('e, header) result" where
  "sibling_of h = bind_res (u256_sub (difficulty h) 1) (\<lambda>d. Ok (h\<lparr>difficulty := d\<rparr>))"

definition assert_best :: "lc_config \<Rightarrow> (light_client, dispatch_error, unit) ext" where
  "assert_best cfg =
     bind_ext (lift_res (index_vec bench_headers (next_tip_idx cfg))) (\<lambda>best.
     assert_ext (\<lambda>s. fst (best_block s) = \<lparr>id_number = number best, id_hash = hash_of cfg best\<rparr>))"

definition assert_pruned :: "lc_config \<Rightarrow> header list \<Rightarrow> u64 \<Rightarrow> (light_client, dispatch_error, unit) ext" where
  "assert_pruned cfg pruned oldest =
     bind_ext (assert_ext (\<lambda>s. list_all (\<lambda>h. header_pruned (hash_of cfg h) (number h) s) pruned)) (\<lambda>_.
     assert_ext (\<lambda>s. oldest_unpruned_block (blocks_to_prune s) = oldest))"

definition bench_import_header ::
  "lc_config \<Rightarrow> (raw_proof \<Rightarrow> double_node list option) \<Rightarrow> account_id \<Rightarrow> (light_client, dispatch_error, unit) ext" where
  "bench_import_header cfg decode caller =
     bind_ext (lift_res (index_vec bench_headers (next_tip_idx cfg))) (\<lambda>h.
     bind_ext (lift_res (unwrap (header_proof decode (hash_of cfg h)))) (\<lambda>proof.
     bind_ext (lift_res (slice_to bench_headers (next_tip_idx cfg))) (\<lambda>init_headers.
     bind_ext (map_err_ext Other (initialize_storage cfg init_headers 0 (descendants_until_finalized cfg))) (\<lambda>_.
     bind_ext (set_blocks_to_prune (number (bench_headers ! 0)) (number (bench_headers ! next_finalized_idx))) (\<lambda>_.
     bind_ext (import_header cfg (Signed caller) h proof) (\<lambda>_.
     bind_ext (assert_best cfg) (\<lambda>_.
     assert_pruned cfg (take RESERVED_FOR_PRUNING bench_headers) (number (bench_headers ! RESERVED_FOR_PRUNING)))))))))"

definition bench_not_new_finalized_with_max_prune ::
  "lc_config \<Rightarrow> (raw_proof \<Rightarrow> double_node list option) \<Rightarrow> account_id \<Rightarrow> (light_client, dispatch_error, unit) ext" where
  "bench_not_new_finalized_with_max_prune cfg decode caller =
     bind_ext (lift_res (index_vec bench_headers (next_tip_idx cfg))) (\<lambda>h.
     bind_ext (lift_res (unwrap (header_proof decode (hash_of cfg h)))) (\<lambda>proof.
     bind_ext (lift_res (sibling_of h)) (\<lambda>header_sibling.
     bind_ext (lift_res (slice_to bench_headers (next_tip_idx cfg))) (\<lambda>init_headers.
     bind_ext (map_err_ext Other (initialize_storage cfg (init_headers @ [header_sibling]) 0 (descendants_until_finalized cfg))) (\<lambda>_.
     bind_ext (set_blocks_to_prune (number (bench_headers ! 0)) (number (bench_headers ! next_finalized_idx))) (\<lambda>_.
     bind_ext (import_header cfg (Signed caller) h proof) (\<lambda>_.
     bind_ext (assert_best cfg) (\<lambda>_.
     assert_pruned cfg (take RESERVED_FOR_PRUNING bench_headers) (number (bench_headers ! RESERVED_FOR_PRUNING))))))))))"

definition bench_new_finalized_with_single_prune ::
  "lc_config \<Rightarrow> (raw_proof \<Rightarrow> double_node list option) \<Rightarrow> account_id \<Rightarrow> (light_client, dispatch_error, unit) ext" where
  "bench_new_finalized_with_single_prune cfg decode caller =
     bind_ext (lift_res (index_vec bench_headers (next_tip_idx cfg))) (\<lambda>h.
     bind_ext (lift_res (unwrap (header_proof decode (hash_of cfg h)))) (\<lambda>proof.
     bind_ext (lift_res (slice_to bench_headers (next_tip_idx cfg))) (\<lambda>init_headers.
     bind_ext (map_err_ext Other (initialize_storage cfg init_headers 0 (descendants_until_finalized cfg))) (\<lambda>_.
     bind_ext (set_blocks_to_prune (number (bench_headers ! 0)) (number (bench_headers ! 0) + 1)) (\<lambda>_.
     bind_ext (import_header cfg (Signed caller) h proof) (\<lambda>_.
     bind_ext (assert_best cfg) (\<lambda>_.
     assert_pruned cfg [bench_headers ! 0] (number (bench_headers ! 0) + 1))))))))"

definition bench_not_new_finalized_with_single_prune ::
  "lc_config \<Rightarrow> (raw_proof \<Rightarrow> double_node list option) \<Rightarrow> account_id \<Rightarrow> (light_client, dispatch_error, unit) ext" where
  "bench_not_new_finalized_with_single_prune cfg decode caller =
     bind_ext (lift_res (index_vec bench_headers (next_tip_idx cfg))) (\<lambda>h.
     bind_ext (lift_res (unwrap (header_proof decode (hash_of cfg h)))) (\<lambda>proof.
     bind_ext (lift_res (sibling_of h)) (\<lambda>header_sibling.
     bind_ext (lift_res (slice_to bench_headers (next_tip_idx cfg))) (\<lambda>init_headers.
     bind_ext (map_err_ext Other (initialize_storage cfg (init_headers @ [header_sibling]) 0 (descendants_until_finalized cfg))) (\<lambda>_.
     bind_ext (set_blocks_to_prune (number (bench_headers ! 0)) (number (bench_headers ! 0) + 1)) (\<lambda>_.
     bind_ext (import_header cfg (Signed caller) h proof) (\<lambda>_.
     bind_ext (assert_best cfg) (\<lambda>_.
     assert_pruned cfg [bench_headers ! 0] (number (bench_headers ! 0) + 1)))))))))"

section \<open>The hashes of the headers\<close>

text \<open>
  The hash of the first header's parent, those of the first thirteen headers, and that of the sibling
  which two of the benchmarks make of the thirteenth.  The hash function belongs to a library:
  that it has these values is the hypothesis \<open>bench_hashes\<close>.
\<close>

definition bench_hash :: "nat \<Rightarrow> h256" where
  "bench_hash i = [
     0x4d156bbb33b76a536bbb7023e27ec88a573425becf8d11bdc4c07ecf2dffe9d7,
     0x2e4e57427eef98a6698b63542afa8e0a04dd32ff3520a3062e38195f27de89ad,
     0x8159a08cea34176d001664e11604994fdf636cee2e3a98b8592ca0012e1d3d94,
     0x42b64f536239a8a4c870496ba6aa1387c833e28be1bebbb3bd15c57921e62d98,
     0x8cac2817c880241eee79614bb388ddfa2c0ff56883b1d11224f62bdf429f0615,
     0xea7beb7237eb15ce4900d56acee5160ad771de67ef1ef2d02e20db71d52180cf,
     0xc0f9dd572ad893a84624cb6a7ad6e7bd9165ed1ab42ba87501f6ba4302fadfb9,
     0xad3b0ecb70b320885eea9f50c25c1882312caa22d50a8da3be8c2c75b3d63b38,
     0xed45b4ecaa7193e9279603a8266f2b51b39aa9c1f55d88cef46902e030724ab9,
     0xcf28d1fc17eb568e13d1cdd8a9812e2b155a7ca86d50f524e79a67cd483754de,
     0x933298480ef002d1993bba547a382ce5c844adbebc8bfc33e05c3fb44fd62d32,
     0xc84b3b486f033e97f91a434787e25142c9b25bb278b3c5cb9ec8cd3872fd864b,
     0xd9b1938b61813fde7cfe2cd957fd031655a527186140f3f2328e74afdb3cd598,
     0x3ed36d8242ac3bff178ed1c76a9c7fc95c78a626b90b52dc60af218850a2af01,
     0x244908e0b3870c9eb902c0c1d34de5d9927638b9a7069023a2fdab57792ccef8] ! i"

definition bench_sibling :: header where
  "bench_sibling = header_11963036\<lparr>difficulty := difficulty header_11963036 - 1\<rparr>"

definition bench_hashes :: "eth_lib \<Rightarrow> bool" where
  "bench_hashes L \<longleftrightarrow> list_all2 (\<lambda>i h. compute_hash L h = bench_hash i)
     [1, 2, 3, 4, 5, 6, 7, 8, 9, 10, 11, 12, 13, 14] (take 13 bench_headers @ [bench_sibling])"

text \<open>The storage that the set-up starts from has none of these headers.\<close>

definition clear_of_bench :: "light_client \<Rightarrow> bool" where
  "clear_of_bench s \<longleftrightarrow> (\<forall>i < 15. headers s (bench_hash i) = None) \<and>
     list_all (\<lambda>h. headers_by_number s (number h) = None) (take 13 bench_headers)"

lemma distinct_of_nat:
  "list_all (\<lambda>n. n < 2 ^ LENGTH('a)) ns \<Longrightarrow> distinct ns \<Longrightarrow> distinct (map (of_nat :: nat \<Rightarrow> 'a::len word) ns)"
  by (auto simp: distinct_map list_all_iff inj_on_def of_nat_inverse intro: inj_onI)
    (metis of_nat_inverse)

lemma bench_hash_inj: "i < 15 \<Longrightarrow> j < 15 \<Longrightarrow> bench_hash i = bench_hash j \<longleftrightarrow> i = j"
proof -
  let ?ns = "[
     0x4d156bbb33b76a536bbb7023e27ec88a573425becf8d11bdc4c07ecf2dffe9d7,
     0x2e4e57427eef98a6698b63542afa8e0a04dd32ff3520a3062e38195f27de89ad,
     0x8159a08cea34176d001664e11604994fdf636cee2e3a98b8592ca0012e1d3d94,
     0x42b64f536239a8a4c870496ba6aa1387c833e28be1bebbb3bd15c57921e62d98,
     0x8cac2817c880241eee79614bb388ddfa2c0ff56883b1d11224f62bdf429f0615,
     0xea7beb7237eb15ce4900d56acee5160ad771de67ef1ef2d02e20db71d52180cf,
     0xc0f9dd572ad893a84624cb6a7ad6e7bd9165ed1ab42ba87501f6ba4302fadfb9,
     0xad3b0ecb70b320885eea9f50c25c1882312caa22d50a8da3be8c2c75b3d63b38,
     0xed45b4ecaa7193e9279603a8266f2b51b39aa9c1f55d88cef46902e030724ab9,
     0xcf28d1fc17eb568e13d1cdd8a9812e2b155a7ca86d50f524e79a67cd483754de,
     0x933298480ef002d1993bba547a382ce5c844adbebc8bfc33e05c3fb44fd62d32,
     0xc84b3b486f033e97f91a434787e25142c9b25bb278b3c5cb9ec8cd3872fd864b,
     0xd9b1938b61813fde7cfe2cd957fd031655a527186140f3f2328e74afdb3cd598,
     0x3ed36d8242ac3bff178ed1c76a9c7fc95c78a626b90b52dc60af218850a2af01,
     0x244908e0b3870c9eb902c0c1d34de5d9927638b9a7069023a2fdab57792ccef8] :: nat list"
  assume ij: "i < 15" "j < 15"
  have "distinct (map (of_nat :: nat \<Rightarrow> h256) ?ns)" by (rule distinct_of_nat) simp_all
  moreover have "bench_hash k = map (of_nat :: nat \<Rightarrow> h256) ?ns ! k" for k
    unfolding bench_hash_def by (simp only: list.map of_nat_numeral)
  ultimately show ?thesis using ij by (simp only: nth_eq_iff_index_eq length_map list.size)
qed

lemma bench_values:
  "parent_hash header_11963025 = bench_hash 0" "number header_11963025 = 11963025" "difficulty header_11963025 = 5219954228644718"
  "parent_hash header_11963026 = bench_hash 1" "number header_11963026 = 11963026" "difficulty header_11963026 = 5219954362862446"
  "parent_hash header_11963027 = bench_hash 2" "number header_11963027 = 11963027" "difficulty header_11963027 = 5222503302921415"
  "parent_hash header_11963028 = bench_hash 3" "number header_11963028 = 11963028" "difficulty header_11963028 = 5219953386698264"
  "parent_hash header_11963029 = bench_hash 4" "number header_11963029 = 11963029" "difficulty header_11963029 = 5217404715551394"
  "parent_hash header_11963030 = bench_hash 5" "number header_11963030 = 11963030" "difficulty header_11963030 = 5219952410665387"
  "parent_hash header_11963031 = bench_hash 6" "number header_11963031 = 11963031" "difficulty header_11963031 = 5222501349771135"
  "parent_hash header_11963032 = bench_hash 7" "number header_11963032 = 11963032" "difficulty header_11963032 = 5225051533476055"
  "parent_hash header_11963032_sibling = bench_hash 7" "number header_11963032_sibling = 11963032" "difficulty header_11963032_sibling = 5225051533476055"
  "parent_hash header_11963033 = bench_hash 8" "number header_11963033 = 11963033" "difficulty header_11963033 = 5227602962387863"
  "parent_hash header_11963034 = bench_hash 10" "number header_11963034 = 11963034" "difficulty header_11963034 = 5232708177623547"
  "parent_hash header_11963035 = bench_hash 11" "number header_11963035 = 11963035" "difficulty header_11963035 = 5230153278551420"
  "parent_hash header_11963036 = bench_hash 12" "number header_11963036 = 11963036" "difficulty header_11963036 = 5230153412769148"
  by (simp_all add: bench_header_defs bench_hash_def)


section \<open>Running the set-up\<close>

lemma bench_hashesD:
  assumes "bench_hashes L"
  shows "compute_hash L header_11963025 = bench_hash 1"
    "compute_hash L header_11963026 = bench_hash 2"
    "compute_hash L header_11963027 = bench_hash 3"
    "compute_hash L header_11963028 = bench_hash 4"
    "compute_hash L header_11963029 = bench_hash 5"
    "compute_hash L header_11963030 = bench_hash 6"
    "compute_hash L header_11963031 = bench_hash 7"
    "compute_hash L header_11963032 = bench_hash 8"
    "compute_hash L header_11963032_sibling = bench_hash 9"
    "compute_hash L header_11963033 = bench_hash 10"
    "compute_hash L header_11963034 = bench_hash 11"
    "compute_hash L header_11963035 = bench_hash 12"
    "compute_hash L header_11963036 = bench_hash 13"
    "compute_hash L bench_sibling = bench_hash 14"
  using assms by (simp_all add: bench_hashes_def headers_11963025_to_11963069_def)

lemma bench_sibling_values:
  "parent_hash bench_sibling = bench_hash 12" "number bench_sibling = 11963036" "difficulty bench_sibling = 5230153412769147"
  by (simp_all add: bench_sibling_def bench_values)

lemma clear_of_benchD:
  assumes "clear_of_bench s"
  shows "i < 15 \<Longrightarrow> headers s (bench_hash i) = None"
    and "list_all (\<lambda>n. headers_by_number s n = None) [11963025, 11963026, 11963027, 11963028, 11963029, 11963030, 11963031, 11963032, 11963033, 11963034, 11963035, 11963036]"
  using assms by (simp_all add: clear_of_bench_def headers_11963025_to_11963069_def bench_values)

lemma headers_insert [simp]:
  "headers (insert_header_fn cfg h td s) = (headers s)(hash_of cfg h \<mapsto>
    \<lparr>submitter = None, sh_header = h, total_difficulty = td, finalized = False\<rparr>)"
  by (simp add: insert_header_fn_def push_hash_def Let_def)

lemma by_number_insert [simp]:
  "headers_by_number (insert_header_fn cfg h td s) = (headers_by_number s)(number h \<mapsto>
    (case headers_by_number s (number h) of Some hashes \<Rightarrow> hashes @ [hash_of cfg h] | None \<Rightarrow> [hash_of cfg h]))"
  by (simp add: insert_header_fn_def push_hash_def Let_def)

lemma initialize_step:
  assumes "headers s (parent_hash h) = Some p" "number h = prev \<or> number h = prev + 1"
    "checked_add (total_difficulty p) (difficulty h) = Some td"
  shows "initialize_rest cfg prev (h # hs) (b, btd) s =
    initialize_rest cfg (number h) hs (if td > btd then (\<lparr>id_number = number h, id_hash = hash_of cfg h\<rparr>, td) else (b, btd))
      (insert_header_fn cfg h td s)"
  using assms by (simp add: ext_simps ensure_def u256_add_def)

text \<open>The headers that the set-up stores, each with its total difficulty.\<close>

definition bench_entries :: "(header \<times> u256) list" where
  "bench_entries = [
     (header_11963025, 0),
     (header_11963026, 5219954362862446),
     (header_11963027, 10442457665783861),
     (header_11963028, 15662411052482125),
     (header_11963029, 20879815768033519),
     (header_11963030, 26099768178698906),
     (header_11963031, 31322269528470041),
     (header_11963032, 36547321061946096),
     (header_11963032_sibling, 36547321061946096),
     (header_11963033, 41774924024333959),
     (header_11963034, 47007632201957506),
     (header_11963035, 52237785480508926)]"

definition insert_all :: "lc_config \<Rightarrow> (header \<times> u256) list \<Rightarrow> light_client \<Rightarrow> light_client" where
  "insert_all cfg = fold (\<lambda>(h, td). insert_header_fn cfg h td)"

lemma insert_all_simps [simp]: "insert_all cfg [] s = s"
  "insert_all cfg ((h, td) # xs) s = insert_all cfg xs (insert_header_fn cfg h td s)"
  by (simp_all add: insert_all_def)

lemma init_rest:
  assumes "bench_hashes (lc_lib cfg)" "clear_of_bench s"
  shows "initialize_rest cfg (number header_11963025) (tl (take 12 bench_headers)) (b, 0) (insert_header_fn cfg header_11963025 0 s) =
    (Ok (\<lparr>id_number = 11963035, id_hash = bench_hash 12\<rparr>, 52237785480508926), insert_all cfg bench_entries s)"
  using clear_of_benchD(2) [OF assms(2)]
  by (simp add: headers_11963025_to_11963069_def bench_entries_def initialize_step bench_hashesD [OF assms(1)]
    clear_of_benchD(1) [OF assms(2)] bench_hash_inj bench_values checked_add_def ret_def del: initialize_rest.simps(2))

lemma init_rest_sibling:
  assumes "bench_hashes (lc_lib cfg)" "clear_of_bench s"
  shows "initialize_rest cfg (number header_11963025) (tl (take 12 bench_headers @ [bench_sibling])) (b, 0) (insert_header_fn cfg header_11963025 0 s) =
    (Ok (\<lparr>id_number = 11963036, id_hash = bench_hash 14\<rparr>, 57467938893278073), insert_all cfg (bench_entries @ [(bench_sibling, 57467938893278073)]) s)"
  using clear_of_benchD(2) [OF assms(2)]
  by (simp add: headers_11963025_to_11963069_def bench_entries_def initialize_step bench_hashesD [OF assms(1)]
    clear_of_benchD(1) [OF assms(2)] bench_hash_inj bench_values bench_sibling_values checked_add_def ret_def del: initialize_rest.simps(2))

text \<open>The loop that marks ancestors stops at the end of the chain and changes nothing but the marks.\<close>

definition with_marks :: "(h256 \<Rightarrow> bool) \<Rightarrow> header_store \<Rightarrow> header_store" where
  "with_marks F H = (\<lambda>x. map_option (\<lambda>sh. sh\<lparr>finalized := F x\<rparr>) (H x))"

lemma ancestry_nth_marks: "ancestry_nth (with_marks F H) k h = ancestry_nth H k h"
  by (induction k arbitrary: h) (auto simp: with_marks_def option.map_comp comp_def split: option.splits)

lemma with_marks_self: "with_marks (\<lambda>x. case H x of Some sh \<Rightarrow> finalized sh | None \<Rightarrow> False) H = H"
  by (auto simp: with_marks_def fun_eq_iff split: option.splits)

lemma with_marks_mark:
  "H h = Some sh \<Longrightarrow> \<exists>F. H(h \<mapsto> sh\<lparr>finalized := b\<rparr>) = with_marks F H"
  by (rule exI [of _ "\<lambda>x. if x = h then b else (case H x of Some sh \<Rightarrow> finalized sh | None \<Rightarrow> False)"])
    (auto simp: with_marks_def fun_eq_iff split: option.splits)

lemma with_marks_twice: "with_marks F (with_marks G H) = with_marks F H"
  by (auto simp: with_marks_def fun_eq_iff option.map_comp comp_def)

lemma finalize_ancestors_marks:
  "ancestry_nth H k h = None \<Longrightarrow> \<exists>F. finalize_ancestors H h = Some (with_marks F H)"
proof (induction k arbitrary: H h)
  case 0
  then show ?case by (subst finalize_ancestors.simps) (auto intro: with_marks_self [symmetric])
next
  case (Suc k)
  show ?case
  proof (cases "H h")
    case None
    then show ?thesis by (subst finalize_ancestors.simps) (auto intro: with_marks_self [symmetric])
  next
    case (Some sh)
    obtain G where G: "H(h \<mapsto> sh\<lparr>finalized := True\<rparr>) = with_marks G H" using with_marks_mark [of H h sh True, OF Some] by blast
    have "ancestry_nth (with_marks G H) k (parent_hash (sh_header sh)) = None"
      using Suc.prems Some by (simp add: ancestry_nth_marks)
    then obtain F where "finalize_ancestors (with_marks G H) (parent_hash (sh_header sh)) = Some (with_marks F (with_marks G H))"
      using Suc.IH by blast
    then show ?thesis using Some G by (subst finalize_ancestors.simps) (auto simp: with_marks_twice)
  qed
qed

lemma initialize_storage_run:
  assumes "initialize_rest cfg (number oldest) rest (\<lparr>id_number = number oldest, id_hash = hash_of cfg oldest\<rparr>, d0)
      (insert_header_fn cfg oldest d0 s) = (Ok best, t)"
    and "ancestry_nth (headers t) (unat d) (id_hash (fst best)) = Some (hash, h)" "ancestry_nth (headers t) k hash = None"
  shows "\<exists>F. initialize_storage cfg (oldest # rest) d0 d s = (Ok (), t\<lparr>best_block := best,
    finalized_block := \<lparr>id_number = number h, id_hash = hash\<rparr>, headers := with_marks F (headers t)\<rparr>)"
  using finalize_ancestors_marks [OF assms(3)] assms(1,2) by (auto simp: initialize_storage_def ext_simps)

lemma init_ancestry:
  assumes "bench_hashes (lc_lib cfg)" "clear_of_bench s"
  shows "ancestry_nth (headers (insert_all cfg bench_entries s)) 3 (bench_hash 12) = Some (bench_hash 8, header_11963032)"
    and "ancestry_nth (headers (insert_all cfg bench_entries s)) (Suc (Suc (Suc (Suc (Suc (Suc (Suc (Suc 0)))))))) (bench_hash 8) = None"
    and "ancestry_nth (headers (insert_all cfg (bench_entries @ [(bench_sibling, 57467938893278073)]) s)) 3 (bench_hash 14) = Some (bench_hash 10, header_11963033)"
    and "ancestry_nth (headers (insert_all cfg (bench_entries @ [(bench_sibling, 57467938893278073)]) s))
      (Suc (Suc (Suc (Suc (Suc (Suc (Suc (Suc (Suc 0))))))))) (bench_hash 10) = None"
  by (simp_all add: bench_entries_def numeral_3_eq_3 bench_hashesD [OF assms(1)] bench_values bench_sibling_values bench_hash_inj
    clear_of_benchD(1) [OF assms(2)])

text \<open>The state after the set-up.\<close>

definition set_up ::
  "lc_config \<Rightarrow> (header \<times> u256) list \<Rightarrow> header_id \<times> u256 \<Rightarrow> header_id \<Rightarrow> (h256 \<Rightarrow> bool) \<Rightarrow> light_client \<Rightarrow> light_client" where
  "set_up cfg es best fin F s = (insert_all cfg es s)\<lparr>best_block := best, finalized_block := fin,
     headers := with_marks F (headers (insert_all cfg es s))\<rparr>"

definition set_up_chain :: "lc_config \<Rightarrow> (h256 \<Rightarrow> bool) \<Rightarrow> light_client \<Rightarrow> light_client" where
  "set_up_chain cfg = set_up cfg bench_entries (\<lparr>id_number = 11963035, id_hash = bench_hash 12\<rparr>, 52237785480508926)
     \<lparr>id_number = 11963032, id_hash = bench_hash 8\<rparr>"

definition set_up_fork :: "lc_config \<Rightarrow> (h256 \<Rightarrow> bool) \<Rightarrow> light_client \<Rightarrow> light_client" where
  "set_up_fork cfg = set_up cfg (bench_entries @ [(bench_sibling, 57467938893278073)])
     (\<lparr>id_number = 11963036, id_hash = bench_hash 14\<rparr>, 57467938893278073) \<lparr>id_number = 11963033, id_hash = bench_hash 10\<rparr>"

lemmas set_up_defs = set_up_chain_def set_up_fork_def set_up_def with_marks_def bench_entries_def

lemma bench_initialize:
  assumes "bench_hashes (lc_lib cfg)" "clear_of_bench s"
  shows "\<exists>F. initialize_storage cfg (take 12 bench_headers) 0 3 s = (Ok (), set_up_chain cfg F s)"
    and "\<exists>F. initialize_storage cfg (take 12 bench_headers @ [bench_sibling]) 0 3 s = (Ok (), set_up_fork cfg F s)"
proof -
  have l: "take 12 bench_headers = header_11963025 # tl (take 12 bench_headers)"
      "take 12 bench_headers @ [bench_sibling] = header_11963025 # tl (take 12 bench_headers @ [bench_sibling])"
    by (simp_all add: headers_11963025_to_11963069_def)
  note a = init_ancestry [OF assms]
  show "\<exists>F. initialize_storage cfg (take 12 bench_headers) 0 3 s = (Ok (), set_up_chain cfg F s)"
    using initialize_storage_run [OF init_rest [OF assms], where d = 3, simplified, OF a(1,2)]
    by (subst l(1)) (simp add: set_up_chain_def set_up_def bench_values)
  show "\<exists>F. initialize_storage cfg (take 12 bench_headers @ [bench_sibling]) 0 3 s = (Ok (), set_up_fork cfg F s)"
    using initialize_storage_run [OF init_rest_sibling [OF assms], where d = 3, simplified, OF a(3,4)]
    by (subst l(2)) (simp add: set_up_fork_def set_up_def bench_values)
qed

section \<open>Running the import\<close>

text \<open>What is left to check of the header once it is known to extend the finalized chain.\<close>

definition seal_ok :: "lc_config \<Rightarrow> double_node list \<Rightarrow> bool" where
  "seal_ok cfg proof \<longleftrightarrow> verify_pow cfg \<longrightarrow> validate_pow cfg header_11963036 proof = Ok ()"

lemmas difficulty_rules = calc_difficulty_def bomb_delay_def mainnet_def ropsten_def checked_sub_def i64_try_from_def
  i64_max_def i64_abs_def DIFFICULTY_BOUND_DIVISOR_def EXP_DIFFICULTY_PERIOD_def
  MINIMUM_DIFFICULTY_def u256_mul_def u256_add_def u256_sub_def u256_pow_def checked_mul_def checked_add_def
  checked_pow_def saturating_sub_def Let_def

lemma tip_checks:
  "basic_checks header_11963035 header_11963036 = Ok True"
  "calc_difficulty mainnet (timestamp header_11963036) header_11963035 = Ok (difficulty header_11963036)"
  "\<exists>d. calc_difficulty ropsten (timestamp header_11963036) header_11963035 = Ok d \<and> d \<noteq> difficulty header_11963036"
  by (simp_all add: header_11963035_def header_11963036_def basic_checks_def and_then_def
    difficulty_rules has_ommers_def EMPTY_OMMERS_HASH_def)

lemma bench_find:
  assumes "bench_hashes (lc_lib cfg)" "clear_of_bench s"
  shows "ancestry_find (headers (set_up_chain cfg F s)) (\<lambda>a. number a = 11963032) (bench_hash 12) =
      Some (Some (bench_hash 8, header_11963032))"
    and "ancestry_find (headers (set_up_fork cfg F s)) (\<lambda>a. number a = 11963033) (bench_hash 12) =
      Some (Some (bench_hash 10, header_11963033))"
  by (simp_all add: set_up_defs ancestry_find.simps bench_hashesD [OF assms(1)] bench_values bench_sibling_values bench_hash_inj)

lemma bench_validate:
  assumes "bench_hashes (lc_lib cfg)" "clear_of_bench s" and s': "s' \<in> {set_up_chain cfg F s, set_up_fork cfg F s}"
  shows "lc_difficulty cfg = mainnet \<Longrightarrow> seal_ok cfg proof \<Longrightarrow>
      validate_header_to_import cfg header_11963036 proof (s'\<lparr>blocks_to_prune := pr\<rparr>) = Ok ()"
    and "lc_difficulty cfg = ropsten \<Longrightarrow> verify_pow cfg \<Longrightarrow>
      validate_header_to_import cfg header_11963036 proof (s'\<lparr>blocks_to_prune := pr\<rparr>) = Err (lc_error InvalidHeader)"
proof -
  let ?s = "s'\<lparr>blocks_to_prune := pr\<rparr>"
  have new: "headers ?s (hash_of cfg header_11963036) = None"
    using s' clear_of_benchD(1) [OF assms(2)]
    by (auto simp: set_up_defs bench_hashesD [OF assms(1)] bench_hash_inj)
  obtain p where p: "headers ?s (parent_hash header_11963036) = Some p" "sh_header p = header_11963035"
    using s' by (auto simp: set_up_defs bench_hashesD [OF assms(1)] bench_values bench_hash_inj)
  have n: "id_number (finalized_block ?s) < number header_11963036"
    using s' by (auto simp: set_up_defs bench_values)
  have f: "\<exists>h. ancestry_find (headers ?s) (\<lambda>a. number a = id_number (finalized_block ?s)) (parent_hash header_11963036) =
      Some (Some (id_hash (finalized_block ?s), h))"
    using s' bench_find [OF assms(1,2)] by (auto simp: bench_values set_up_chain_def set_up_fork_def set_up_def)
  note rules = validate_header_to_import_def Let_def ensure_def
  show "lc_difficulty cfg = mainnet \<Longrightarrow> seal_ok cfg proof \<Longrightarrow> validate_header_to_import cfg header_11963036 proof ?s = Ok ()"
    using new p n f by (auto simp: rules seal_ok_def tip_checks(1,2))
  show "lc_difficulty cfg = ropsten \<Longrightarrow> verify_pow cfg \<Longrightarrow>
      validate_header_to_import cfg header_11963036 proof ?s = Err (lc_error InvalidHeader)"
    using new p n f tip_checks(3) by (auto simp: rules tip_checks(1))
qed

text \<open>The import of a header that becomes the best block, up to pruning.\<close>

lemma finalized_block_same: "finalized_block t = i \<Longrightarrow> t\<lparr>best_block := b, finalized_block := i, headers := headers t\<rparr> = t\<lparr>best_block := b\<rparr>"
  by (cases t) simp

lemma import_best:
  assumes "headers t (parent_hash h) = Some p" "checked_add (total_difficulty p) (difficulty h) = Some td"
    and "snd (best_block t) < td" "descendants_until_finalized cfg = 3"
    and "ancestry_nth (headers (stored_import cfg caller h td t)) 3 (hash_of cfg h) = Some (g, gh)"
    and "if g = id_hash (finalized_block t) then number gh = id_number (finalized_block t) else id_number (finalized_block t) < number gh"
  shows "\<exists>H. import_validated_header cfg caller h t = (Ok (), prune_step (number gh) ((stored_import cfg caller h td t)\<lparr>
    best_block := (\<lparr>id_number = number h, id_hash = hash_of cfg h\<rparr>, td),
    finalized_block := \<lparr>id_number = number gh, id_hash = g\<rparr>, headers := H\<rparr>))"
proof -
  obtain sh where "headers (stored_import cfg caller h td t) g = Some sh" using ancestry_nth_stored [OF assms(5)] by blast
  moreover have "get_best_finalized_header cfg \<lparr>id_number = number h, id_hash = hash_of cfg h\<rparr> (finalized_block t)
      ((stored_import cfg caller h td t)\<lparr>best_block := b\<rparr>) = Ok \<lparr>id_number = number gh, id_hash = g\<rparr>" for b
    using assms(4,5,6) by (auto simp: get_best_finalized_header_def split: if_splits)
  ultimately have run: "import_validated_header cfg caller h t = (Ok (), prune_step (number gh)
      (let u = (stored_import cfg caller h td t)\<lparr>best_block := (\<lparr>id_number = number h, id_hash = hash_of cfg h\<rparr>, td)\<rparr> in
       if finalized_block t = \<lparr>id_number = number gh, id_hash = g\<rparr> then u
       else u\<lparr>finalized_block := \<lparr>id_number = number gh, id_hash = g\<rparr>, headers := (headers u)(g \<mapsto> sh\<lparr>finalized := True\<rparr>)\<rparr>))"
    using assms(1-3) by (cases "\<lparr>id_number = number gh, id_hash = g\<rparr> = finalized_block t")
      (simp_all add: import_validated_header_run advance_best_run Let_def eq_commute [of _ "finalized_block t"] del: stored_import_simps(3))
  show ?thesis
  proof (cases "finalized_block t = \<lparr>id_number = number gh, id_hash = g\<rparr>")
    case True
    then have e: "(stored_import cfg caller h td t)\<lparr>best_block := b, finalized_block := \<lparr>id_number = number gh, id_hash = g\<rparr>,
        headers := headers (stored_import cfg caller h td t)\<rparr> = (stored_import cfg caller h td t)\<lparr>best_block := b\<rparr>" for b
      by (intro finalized_block_same) simp
    show ?thesis by (rule exI [of _ "headers (stored_import cfg caller h td t)"], simp only: e) (simp add: run True Let_def)
  next
    case False
    then show ?thesis using run by (auto simp: Let_def intro!: exI)
  qed
qed

lemmas prune_run = prune_step_def prune_header_range_def HEADERS_TO_PRUNE_IN_SINGLE_IMPORT_def
  FINALIZED_HEADERS_TO_KEEP_def saturating_sub_def

text \<open>The two ways the benchmarks prune.\<close>

definition forget :: "u64 \<Rightarrow> h256 \<Rightarrow> light_client \<Rightarrow> light_client" where
  "forget n a t = t\<lparr>headers := (headers t)(a := None), headers_by_number := (headers_by_number t)(n := None)\<rparr>"

lemma forget_simps [simp]:
  "headers (forget n a t) = (headers t)(a := None)" "headers_by_number (forget n a t) = (headers_by_number t)(n := None)"
  "best_block (forget n a t) = best_block t" "finalized_block (forget n a t) = finalized_block t"
  "blocks_to_prune (forget n a t) = blocks_to_prune t"
  by (simp_all add: forget_def)

lemma forget_None: "headers (forget n a t) x = None \<longleftrightarrow> x = a \<or> headers t x = None"
  by simp

lemma prune_loop_forget:
  assumes "n < stop" "pruned \<noteq> mx" "headers_by_number t n = Some [a]"
  shows "prune_loop mx stop n pruned oldest t = prune_loop mx stop (n + 1) (pruned + 1) (n + 1) (forget n a t)"
  using assms by (subst prune_loop.simps) (simp add: forget_def)

lemma prune_loop_last:
  assumes "n < stop" "pruned + 1 = mx" "pruned \<noteq> mx" "headers_by_number t n = Some [a, b]"
  shows "prune_loop mx stop n pruned oldest t = (oldest, t\<lparr>headers := (headers t)(a := None),
    headers_by_number := (headers_by_number t)(n \<mapsto> [b])\<rparr>)"
  using assms by (subst prune_loop.simps) (simp add: prune_loop.simps)

lemma prune_loop_end: "\<not> n < stop \<Longrightarrow> prune_loop mx stop n pruned oldest t = (oldest, t)"
  by (subst prune_loop.simps) simp

text \<open>What pruning leaves alone.\<close>

abbreviation frame :: "light_client \<Rightarrow> (header_id \<times> u256) \<times> header_id" where
  "frame t \<equiv> (best_block t, finalized_block t)"

lemma prune_max:
  assumes "blocks_to_prune t = \<lparr>oldest_unpruned_block = 11963025, oldest_block_to_keep = 11963033\<rparr>"
    and "map (headers_by_number t) [11963025, 11963026, 11963027, 11963028, 11963029, 11963030, 11963031, 11963032] =
      map Some [[a1], [a2], [a3], [a4], [a5], [a6], [a7], [a8, a9]]" and "a8 \<noteq> a9"
  shows "frame (prune_step 11963033 t) = frame t \<and> oldest_unpruned_block (blocks_to_prune (prune_step 11963033 t)) = 11963032 \<and>
    list_all2 (\<lambda>a n. header_pruned a n (prune_step 11963033 t)) [a1, a2, a3, a4, a5, a6, a7, a8]
      [11963025, 11963026, 11963027, 11963028, 11963029, 11963030, 11963031, 11963032]"
proof -
  define u where "u = forget 11963031 a7 (forget 11963030 a6 (forget 11963029 a5 (forget 11963028 a4
      (forget 11963027 a3 (forget 11963026 a2 (forget 11963025 a1 t))))))"
  have p: "prune_step 11963033 t = u\<lparr>headers := (headers u)(a8 := None), headers_by_number := (headers_by_number u)(11963032 \<mapsto> [a9]),
      blocks_to_prune := \<lparr>oldest_unpruned_block = 11963032, oldest_block_to_keep = 11963033\<rparr>\<rparr>"
    using assms(1,2) by (simp add: prune_run prune_loop_forget prune_loop_last Let_def u_def)
  have "list_all (\<lambda>a. headers u a = None) [a1, a2, a3, a4, a5, a6, a7]"
      "list_all (\<lambda>n. headers_by_number u n = None) [11963025, 11963026, 11963027, 11963028, 11963029, 11963030, 11963031]"
      "frame u = frame t"
    by (simp_all add: u_def forget_None del: forget_simps(1))
  then show ?thesis using assms(3) unfolding p by (simp add: header_pruned_def)
qed

lemma prune_single:
  assumes "blocks_to_prune t = \<lparr>oldest_unpruned_block = 11963025, oldest_block_to_keep = 11963026\<rparr>"
    and "headers_by_number t 11963025 = Some [a1]"
  shows "frame (prune_step 11963033 t) = frame t \<and> oldest_unpruned_block (blocks_to_prune (prune_step 11963033 t)) = 11963026 \<and>
    header_pruned a1 11963025 (prune_step 11963033 t)"
  using assms by (simp add: prune_run prune_loop_forget prune_loop_end header_pruned_def)

text \<open>The header that is imported, after either set-up.\<close>

lemma import_after_set_up:
  assumes "bench_hashes (lc_lib cfg)" "clear_of_bench s" "descendants_until_finalized cfg = 3"
    and "t \<in> {set_up_chain cfg F s, set_up_fork cfg F s}"
  shows "\<exists>H. import_validated_header cfg caller header_11963036 (t\<lparr>blocks_to_prune := pr\<rparr>) =
    (Ok (), prune_step 11963033 ((stored_import cfg caller header_11963036 57467938893278074 (t\<lparr>blocks_to_prune := pr\<rparr>))\<lparr>
      best_block := (\<lparr>id_number = 11963036, id_hash = bench_hash 13\<rparr>, 57467938893278074),
      finalized_block := \<lparr>id_number = 11963033, id_hash = bench_hash 10\<rparr>, headers := H\<rparr>))"
proof -
  let ?t = "t\<lparr>blocks_to_prune := pr\<rparr>"
  obtain p where p: "headers ?t (parent_hash header_11963036) = Some p"
      "checked_add (total_difficulty p) (difficulty header_11963036) = Some 57467938893278074"
    using assms(4) by (auto simp: set_up_defs bench_hashesD [OF assms(1)] bench_values bench_hash_inj checked_add_def)
  have b: "snd (best_block ?t) < 57467938893278074" using assms(4) by (auto simp: set_up_defs)
  have a: "ancestry_nth (headers (stored_import cfg caller header_11963036 57467938893278074 ?t)) 3 (hash_of cfg header_11963036) =
      Some (bench_hash 10, header_11963033)"
    using assms(4) by (auto simp: set_up_defs numeral_3_eq_3 bench_hashesD [OF assms(1)] bench_values bench_hash_inj)
  have f: "if bench_hash 10 = id_hash (finalized_block ?t) then number header_11963033 = id_number (finalized_block ?t)
      else id_number (finalized_block ?t) < number header_11963033"
    using assms(4) by (auto simp: set_up_defs bench_values bench_hash_inj)
  show ?thesis
    using import_best [OF p b assms(3) a f] by (simp add: bench_values bench_hashesD [OF assms(1)])
qed

lemma by_number_simps:
  "headers_by_number (set_up cfg es best fin F s) = headers_by_number (insert_all cfg es s)"
  "headers_by_number (stored_import cfg caller h td t) = (headers_by_number t)(number h \<mapsto>
    (case headers_by_number t (number h) of Some hashes \<Rightarrow> hashes @ [hash_of cfg h] | None \<Rightarrow> [hash_of cfg h]))"
  "blocks_to_prune (stored_import cfg caller h td t) = blocks_to_prune t"
  by (simp_all add: set_up_def stored_import_def push_hash_def)

lemma index_after_import:
  assumes "bench_hashes (lc_lib cfg)" "clear_of_bench s" "t \<in> {set_up_chain cfg F s, set_up_fork cfg F s}"
  shows "map (headers_by_number (stored_import cfg caller header_11963036 td (t\<lparr>blocks_to_prune := pr\<rparr>)))
      [11963025, 11963026, 11963027, 11963028, 11963029, 11963030, 11963031, 11963032] =
    map Some [[bench_hash 1], [bench_hash 2], [bench_hash 3], [bench_hash 4], [bench_hash 5], [bench_hash 6], [bench_hash 7],
      [bench_hash 8, bench_hash 9]]"
proof -
  have "map (headers_by_number t) [11963025, 11963026, 11963027, 11963028, 11963029, 11963030, 11963031, 11963032] =
      map Some [[bench_hash 1], [bench_hash 2], [bench_hash 3], [bench_hash 4], [bench_hash 5], [bench_hash 6], [bench_hash 7],
        [bench_hash 8, bench_hash 9]]"
    using assms(3) clear_of_benchD(2) [OF assms(2)] unfolding set_up_chain_def set_up_fork_def bench_entries_def
    by (elim insertE emptyE; hypsubst) (simp_all add: by_number_simps bench_hashesD [OF assms(1)] bench_values bench_sibling_values)
  then show ?thesis by (simp add: by_number_simps bench_values)
qed

section \<open>The outcome of the benchmarks\<close>

lemma header_proof_values:
  "header_proof decode (bench_hash 13) = decode RAW_PROOF_11963036" "header_proof decode (bench_hash 11) = None"
  by (simp_all add: header_proof_def bench_hash_def)

lemma tip_of_bench:
  "RESERVED_FOR_PRUNING = 8" "next_finalized_idx = 9" "length bench_headers = 46" "bench_headers ! 0 = header_11963025"
  "bench_headers ! 8 = header_11963032_sibling" "bench_headers ! 9 = header_11963033" "bench_headers ! 10 = header_11963034"
  "bench_headers ! 12 = header_11963036"
  by (simp_all add: RESERVED_FOR_PRUNING_def HEADERS_TO_PRUNE_IN_SINGLE_IMPORT_def next_finalized_idx_def
    headers_11963025_to_11963069_def)

lemma pruned_headers: "take 8 bench_headers = [header_11963025, header_11963026, header_11963027, header_11963028,
    header_11963029, header_11963030, header_11963031, header_11963032]"
  by (simp add: headers_11963025_to_11963069_def)

lemma sibling_of_tip: "sibling_of header_11963036 = Ok bench_sibling"
  by (simp add: sibling_of_def bench_sibling_def bench_values u256_sub_def checked_sub_def)

text \<open>From the set-up to the assertions, for either set-up and either pruning range.\<close>

definition call_block ::
  "lc_config \<Rightarrow> account_id \<Rightarrow> double_node list \<Rightarrow> u64 \<Rightarrow> header list \<Rightarrow> u64 \<Rightarrow> (light_client, dispatch_error, unit) ext" where
  "call_block cfg caller proof keep pruned oldest =
     bind_ext (set_blocks_to_prune 11963025 keep) (\<lambda>_.
     bind_ext (import_header cfg (Signed caller) header_11963036 proof) (\<lambda>_.
     bind_ext (assert_best cfg) (\<lambda>_. assert_pruned cfg pruned oldest)))"

lemma call_and_verify:
  assumes "bench_hashes (lc_lib cfg)" "clear_of_bench s" "descendants_until_finalized cfg = 3" "lc_difficulty cfg = mainnet"
    and "seal_ok cfg proof" "t \<in> {set_up_chain cfg F s, set_up_fork cfg F s}"
  shows "\<exists>t'. call_block cfg caller proof 11963033 (take 8 bench_headers) 11963032 t = (Ok (), t') \<and>
      finalized_block t' = \<lparr>id_number = 11963033, id_hash = bench_hash 10\<rparr>"
    and "\<exists>t'. call_block cfg caller proof 11963026 [header_11963025] 11963026 t = (Ok (), t') \<and>
      finalized_block t' = \<lparr>id_number = 11963033, id_hash = bench_hash 10\<rparr>"
proof -
  let ?pr = "\<lambda>keep. \<lparr>oldest_unpruned_block = 11963025, oldest_block_to_keep = keep\<rparr>"
  have imp: "\<exists>H. import_header cfg (Signed caller) header_11963036 proof (t\<lparr>blocks_to_prune := ?pr keep\<rparr>) =
      (Ok (), prune_step 11963033 ((stored_import cfg caller header_11963036 57467938893278074 (t\<lparr>blocks_to_prune := ?pr keep\<rparr>))\<lparr>
        best_block := (\<lparr>id_number = 11963036, id_hash = bench_hash 13\<rparr>, 57467938893278074),
        finalized_block := \<lparr>id_number = 11963033, id_hash = bench_hash 10\<rparr>, headers := H\<rparr>))" for keep
    using import_after_set_up [OF assms(1-3,6)] bench_validate(1) [OF assms(1,2,6,4,5)]
    by (simp add: import_header_def ext_simps)
  obtain H1 where H1: "import_header cfg (Signed caller) header_11963036 proof (t\<lparr>blocks_to_prune := ?pr 11963033\<rparr>) =
      (Ok (), prune_step 11963033 ((stored_import cfg caller header_11963036 57467938893278074 (t\<lparr>blocks_to_prune := ?pr 11963033\<rparr>))\<lparr>
        best_block := (\<lparr>id_number = 11963036, id_hash = bench_hash 13\<rparr>, 57467938893278074),
        finalized_block := \<lparr>id_number = 11963033, id_hash = bench_hash 10\<rparr>, headers := H1\<rparr>))" using imp by blast
  obtain H2 where H2: "import_header cfg (Signed caller) header_11963036 proof (t\<lparr>blocks_to_prune := ?pr 11963026\<rparr>) =
      (Ok (), prune_step 11963033 ((stored_import cfg caller header_11963036 57467938893278074 (t\<lparr>blocks_to_prune := ?pr 11963026\<rparr>))\<lparr>
        best_block := (\<lparr>id_number = 11963036, id_hash = bench_hash 13\<rparr>, 57467938893278074),
        finalized_block := \<lparr>id_number = 11963033, id_hash = bench_hash 10\<rparr>, headers := H2\<rparr>))" using imp by blast
  note idx = index_after_import [OF assms(1,2,6), of caller "57467938893278074"]
  let ?u = "\<lambda>keep H. (stored_import cfg caller header_11963036 57467938893278074 (t\<lparr>blocks_to_prune := ?pr keep\<rparr>))\<lparr>
    best_block := (\<lparr>id_number = 11963036, id_hash = bench_hash 13\<rparr>, 57467938893278074),
    finalized_block := \<lparr>id_number = 11963033, id_hash = bench_hash 10\<rparr>, headers := H\<rparr>"
  have n: "headers_by_number (?u keep H) = headers_by_number (stored_import cfg caller header_11963036 57467938893278074 (t\<lparr>blocks_to_prune := ?pr keep\<rparr>))" for keep H
    by simp
  have i1: "map (headers_by_number (?u keep H)) [11963025, 11963026, 11963027, 11963028, 11963029, 11963030, 11963031, 11963032] =
      map Some [[bench_hash 1], [bench_hash 2], [bench_hash 3], [bench_hash 4], [bench_hash 5], [bench_hash 6], [bench_hash 7],
        [bench_hash 8, bench_hash 9]]" for keep H
    unfolding n by (rule idx)
  have i2: "headers_by_number (?u keep H) 11963025 = Some [bench_hash 1]" for keep H
    using i1 [where keep = keep and H = H] by (simp only: list.map list.inject)
  have u: "blocks_to_prune (?u keep H) = ?pr keep" for keep H by (simp add: by_number_simps)
  have "bench_hash 8 \<noteq> bench_hash 9" by (simp add: bench_hash_inj)
  note prune = prune_max [OF u i1 this] prune_single [OF u i2]
  have tip: "next_tip_idx cfg = 12" by (simp add: next_tip_idx_def tip_of_bench assms(3))
  note rules = call_block_def H1 H2 set_blocks_to_prune_def assert_best_def assert_pruned_def assert_ext_def tip index_vec_def tip_of_bench
    ext_simps bench_values bench_hashesD [OF assms(1)] Let_def
  show "\<exists>t'. call_block cfg caller proof 11963033 (take 8 bench_headers) 11963032 t = (Ok (), t') \<and>
      finalized_block t' = \<lparr>id_number = 11963033, id_hash = bench_hash 10\<rparr>"
    using prune(1) [of H1] by (subst pruned_headers) (simp add: rules)
  show "\<exists>t'. call_block cfg caller proof 11963026 [header_11963025] 11963026 t = (Ok (), t') \<and>
      finalized_block t' = \<lparr>id_number = 11963033, id_hash = bench_hash 10\<rparr>"
    using prune(2) [of H2] by (simp add: rules)
qed

definition bench_ready :: "lc_config \<Rightarrow> light_client \<Rightarrow> bool" where
  "bench_ready cfg s \<longleftrightarrow> bench_hashes (lc_lib cfg) \<and> clear_of_bench s \<and> descendants_until_finalized cfg = 3"

lemmas bench_defs = bench_import_header_def bench_not_new_finalized_with_max_prune_def
  bench_new_finalized_with_single_prune_def bench_not_new_finalized_with_single_prune_def

text \<open>The part before the call, for the two set-ups.\<close>

lemma bench_up_to_call:
  assumes "bench_ready cfg s" "decode RAW_PROOF_11963036 = Some proof"
  obtains F G where
    "bench_import_header cfg decode caller s = call_block cfg caller proof 11963033 (take 8 bench_headers) 11963032 (set_up_chain cfg F s)"
    "bench_not_new_finalized_with_max_prune cfg decode caller s = call_block cfg caller proof 11963033 (take 8 bench_headers) 11963032 (set_up_fork cfg G s)"
    "bench_new_finalized_with_single_prune cfg decode caller s = call_block cfg caller proof 11963026 [header_11963025] 11963026 (set_up_chain cfg F s)"
    "bench_not_new_finalized_with_single_prune cfg decode caller s = call_block cfg caller proof 11963026 [header_11963025] 11963026 (set_up_fork cfg G s)"
proof -
  have h: "bench_hashes (lc_lib cfg)" "clear_of_bench s" "descendants_until_finalized cfg = 3"
    using assms(1) by (auto simp: bench_ready_def)
  have tip: "next_tip_idx cfg = 12" by (simp add: next_tip_idx_def tip_of_bench h(3))
  obtain F G where i: "initialize_storage cfg (take 12 bench_headers) 0 3 s = (Ok (), set_up_chain cfg F s)"
      "initialize_storage cfg (take 12 bench_headers @ [bench_sibling]) 0 3 s = (Ok (), set_up_fork cfg G s)"
    using bench_initialize [OF h(1,2)] by blast
  show thesis
    by (rule that [of F G]) (simp_all add: bench_defs call_block_def tip index_vec_def slice_to_def tip_of_bench bench_hashesD [OF h(1)]
      header_proof_values assms(2) ext_simps h(3) i sibling_of_tip bench_values map_err_ext_def)
qed

text \<open>
  C33. With the mainnet difficulty rules, three descendants until finality and a valid seal
  of the measured header, the four benchmarks of the light client run to the end, their
  assertions hold, and the finalized block is as their comments say: new in two of them, and
  left as set up in the two others.
\<close>

theorem import_benchmarks_pass:
  assumes ready: "bench_ready cfg s" and "lc_difficulty cfg = mainnet"
    and pr: "decode RAW_PROOF_11963036 = Some proof" and "validate_pow cfg header_11963036 proof = Ok ()"
  shows "finalized_block (snd (initialize_storage cfg (take 12 bench_headers) 0 3 s)) = \<lparr>id_number = 11963032, id_hash = bench_hash 8\<rparr> \<and>
    finalized_block (snd (initialize_storage cfg (take 12 bench_headers @ [bench_sibling]) 0 3 s)) =
      \<lparr>id_number = 11963033, id_hash = bench_hash 10\<rparr> \<and>
    list_all (\<lambda>bench. \<exists>s'. bench cfg decode caller s = (Ok (), s') \<and> finalized_block s' = \<lparr>id_number = 11963033, id_hash = bench_hash 10\<rparr>)
      [bench_import_header, bench_not_new_finalized_with_max_prune, bench_new_finalized_with_single_prune,
       bench_not_new_finalized_with_single_prune]"
proof -
  have h: "bench_hashes (lc_lib cfg)" "clear_of_bench s" "descendants_until_finalized cfg = 3"
    using ready by (auto simp: bench_ready_def)
  have ok: "seal_ok cfg proof" using assms(4) by (simp add: seal_ok_def)
  obtain F G where i: "initialize_storage cfg (take 12 bench_headers) 0 3 s = (Ok (), set_up_chain cfg F s)"
      "initialize_storage cfg (take 12 bench_headers @ [bench_sibling]) 0 3 s = (Ok (), set_up_fork cfg G s)"
    using bench_initialize [OF h(1,2)] by blast
  obtain F' G' where run: "bench_import_header cfg decode caller s = call_block cfg caller proof 11963033 (take 8 bench_headers) 11963032 (set_up_chain cfg F' s)"
    "bench_not_new_finalized_with_max_prune cfg decode caller s = call_block cfg caller proof 11963033 (take 8 bench_headers) 11963032 (set_up_fork cfg G' s)"
    "bench_new_finalized_with_single_prune cfg decode caller s = call_block cfg caller proof 11963026 [header_11963025] 11963026 (set_up_chain cfg F' s)"
    "bench_not_new_finalized_with_single_prune cfg decode caller s = call_block cfg caller proof 11963026 [header_11963025] 11963026 (set_up_fork cfg G' s)"
    by (rule bench_up_to_call [of cfg s decode "proof" caller, OF ready pr])
  note chain = call_and_verify [OF h assms(2) ok, of "set_up_chain cfg F' s" F', simplified]
  note fork = call_and_verify [OF h assms(2) ok, of "set_up_fork cfg G' s" G', simplified]
  have "finalized_block (set_up_chain cfg F s) = \<lparr>id_number = 11963032, id_hash = bench_hash 8\<rparr>"
      "finalized_block (set_up_fork cfg G s) = \<lparr>id_number = 11963033, id_hash = bench_hash 10\<rparr>"
    by (simp_all add: set_up_chain_def set_up_fork_def set_up_def)
  then show ?thesis using chain fork by (simp add: i run)
qed

lemma call_invalid:
  assumes "bench_ready cfg s" "lc_difficulty cfg = ropsten" "verify_pow cfg" "t \<in> {set_up_chain cfg F s, set_up_fork cfg F s}"
  shows "\<exists>t'. call_block cfg caller proof keep pruned oldest t = (Err (lc_error InvalidHeader), t')"
proof -
  have "bench_hashes (lc_lib cfg)" "clear_of_bench s" using assms(1) by (auto simp: bench_ready_def)
  note bad = bench_validate(2) [OF this assms(4,2,3)]
  show ?thesis by (simp add: call_block_def set_blocks_to_prune_def import_header_def ext_simps bad)
qed

text \<open>
  C34. With the Ropsten difficulty rules, proof-of-work checked and three descendants until
  finality, as in the rococo runtime, all four benchmarks of the light client end with
  InvalidHeader, on a store without their headers and with the hashes that the headers name
  each other by: the measured header passes the basic checks against its parent, but the
  rules give it another difficulty than it has.
\<close>

theorem ropsten_import_benchmarks_fail:
  assumes ready: "bench_ready cfg s" and "lc_difficulty cfg = ropsten" "verify_pow cfg"
    and pr: "decode RAW_PROOF_11963036 = Some proof"
  shows "list_all (\<lambda>bench. \<exists>s'. bench cfg decode caller s = (Err (lc_error InvalidHeader), s'))
      [bench_import_header, bench_not_new_finalized_with_max_prune, bench_new_finalized_with_single_prune,
       bench_not_new_finalized_with_single_prune] \<and>
    basic_checks header_11963035 header_11963036 = (Ok True :: (dispatch_error, bool) result) \<and>
    (\<exists>d. calc_difficulty (lc_difficulty cfg) (timestamp header_11963036) header_11963035 = Ok d \<and> d \<noteq> difficulty header_11963036)"
proof (rule bench_up_to_call [of cfg s decode "proof" caller, OF ready pr])
  fix F G
  note bad = call_invalid [OF ready assms(2,3), of "set_up_chain cfg F s" F, simplified]
    call_invalid [OF ready assms(2,3), of "set_up_fork cfg G s" G, simplified]
  assume "bench_import_header cfg decode caller s = call_block cfg caller proof 11963033 (take 8 bench_headers) 11963032 (set_up_chain cfg F s)"
    "bench_not_new_finalized_with_max_prune cfg decode caller s =
      call_block cfg caller proof 11963033 (take 8 bench_headers) 11963032 (set_up_fork cfg G s)"
    "bench_new_finalized_with_single_prune cfg decode caller s =
      call_block cfg caller proof 11963026 [header_11963025] 11963026 (set_up_chain cfg F s)"
    "bench_not_new_finalized_with_single_prune cfg decode caller s =
      call_block cfg caller proof 11963026 [header_11963025] 11963026 (set_up_fork cfg G s)"
  then show ?thesis using bad tip_checks(1,3) assms(2) by simp
qed

lemma one_descendant_panics:
  assumes "bench_hashes (lc_lib cfg)" "descendants_until_finalized cfg = 1"
  shows "list_all (\<lambda>bench. bench cfg decode caller s = (Panic, s))
      [bench_import_header, bench_not_new_finalized_with_max_prune, bench_new_finalized_with_single_prune,
       bench_not_new_finalized_with_single_prune]"
proof -
  have "next_tip_idx cfg = 10" by (simp add: next_tip_idx_def tip_of_bench assms(2))
  then show ?thesis
    by (simp add: bench_defs index_vec_def tip_of_bench bench_hashesD [OF assms(1)] header_proof_values ext_simps)
qed

section \<open>The headers are a chain of the mainnet\<close>

text \<open>Every header after the first with its parent.\<close>

definition bench_links :: "(header \<times> header) list" where
  "bench_links = zip (take 7 bench_headers @ header_11963031 # header_11963032 # butlast (drop 9 bench_headers)) (tl bench_headers)"

definition follows :: "difficulty_config \<Rightarrow> header \<times> header \<Rightarrow> bool" where
  "follows cfg l = (case l of (parent, h) \<Rightarrow> basic_checks parent h = (Ok True :: (dispatch_error, bool) result) \<and>
     calc_difficulty cfg (timestamp h) parent = Ok (difficulty h))"

text \<open>The fields that the rules read.\<close>

definition core :: "header \<Rightarrow> u64 \<times> u64 \<times> bool \<times> nat \<times> u256 \<times> u256 \<times> u256" where
  "core h = (timestamp h, number h, has_ommers h, length (extra_data h), gas_used h, gas_limit h, difficulty h)"

lemma bench_cores:
  "core header_11963025 = (1614744232, 11963025, False, 16, 12479764, 12493709, 5219954228644718)"
  "core header_11963026 = (1614744245, 11963026, False, 24, 12495768, 12499790, 5219954362862446)"
  "core header_11963027 = (1614744247, 11963027, False, 16, 12495280, 12505889, 5222503302921415)"
  "core header_11963028 = (1614744265, 11963028, False, 16, 12510018, 12511981, 5219953386698264)"
  "core header_11963029 = (1614744283, 11963029, False, 16, 12503595, 12518089, 5217404715551394)"
  "core header_11963030 = (1614744288, 11963030, False, 12, 12523668, 12530312, 5219952410665387)"
  "core header_11963031 = (1614744291, 11963031, False, 16, 12475949, 12536422, 5222501349771135)"
  "core header_11963032 = (1614744297, 11963032, False, 23, 12517333, 12524181, 5225051533476055)"
  "core header_11963032_sibling = (1614744298, 11963032, False, 4, 12504376, 12524181, 5225051533476055)"
  "core header_11963033 = (1614744304, 11963033, True, 25, 12506371, 12511952, 5227602962387863)"
  "core header_11963034 = (1614744311, 11963034, False, 18, 12498365, 12499735, 5232708177623547)"
  "core header_11963035 = (1614744336, 11963035, False, 18, 12467673, 12487530, 5230153278551420)"
  "core header_11963036 = (1614744350, 11963036, False, 12, 12468400, 12493600, 5230153412769148)"
  "core header_11963037 = (1614744357, 11963037, False, 23, 12490603, 12500000, 5232707332832954)"
  "core header_11963038 = (1614744361, 11963038, False, 16, 12489978, 12506090, 5235262499928041)"
  "core header_11963039 = (1614744368, 11963039, False, 22, 12479027, 12493879, 5237818914663311)"
  "core header_11963040 = (1614744378, 11963040, False, 12, 12490863, 12499958, 5237819048881039)"
  "core header_11963041 = (1614744415, 11963041, False, 16, 12499731, 12506050, 5230146596601384)"
  "core header_11963042 = (1614744423, 11963042, False, 9, 12497506, 12512149, 5232700513336983)"
  "core header_11963043 = (1614744449, 11963043, False, 16, 12508921, 12518238, 5230145618007184)"
  "core header_11963044 = (1614744500, 11963044, False, 23, 12490181, 12506015, 5219930624064744)"
  "core header_11963045 = (1614744501, 11963045, False, 18, 12484771, 12493804, 5222479552532503)"
  "core header_11963046 = (1614744522, 11963046, False, 23, 12481541, 12500000, 5219929647906221)"
  "core header_11963047 = (1614744539, 11963047, False, 22, 12471249, 12487794, 5219929782123949)"
  "core header_11963048 = (1614744562, 11963048, False, 4, 12448064, 12475600, 5217381122502750)"
  "core header_11963049 = (1614744564, 11963049, False, 20, 12433352, 12463418, 5219928806096700)"
  "core header_11963050 = (1614744576, 11963050, False, 24, 12459320, 12469460, 5219928940314428)"
  "core header_11963051 = (1614744595, 11963051, False, 16, 12474090, 12481636, 5217380281104269)"
  "core header_11963052 = (1614744626, 11963052, False, 23, 12455986, 12469448, 5212285317391233)"
  "core header_11963053 = (1614744632, 11963053, False, 16, 12475023, 12481624, 5214830512799093)"
  "core header_11963054 = (1614744639, 11963054, False, 23, 12464433, 12469436, 5217376950978148)"
  "core header_11963055 = (1614744648, 11963055, False, 22, 12465251, 12481612, 5217377085195876)"
  "core header_11963056 = (1614744651, 11963056, False, 23, 12487887, 12493800, 5219924766818484)"
  "core header_11963057 = (1614744660, 11963057, False, 23, 12465674, 12481601, 5219924901036212)"
  "core header_11963058 = (1614744662, 11963058, False, 12, 12468263, 12469413, 5222473826709524)"
  "core header_11963059 = (1614744664, 11963059, False, 16, 12466111, 12481589, 5225023996975450)"
  "core header_11963060 = (1614744674, 11963060, False, 22, 12420820, 12493777, 5225024131193178)"
  "core header_11963061 = (1614744697, 11963061, False, 16, 12486108, 12500000, 5222472984096847)"
  "core header_11963062 = (1614744704, 11963062, True, 12, 12501943, 12512206, 5225023153951341)"
  "core header_11963063 = (1614744712, 11963063, False, 15, 12509308, 12524423, 5230125849842849)"
  "core header_11963064 = (1614744718, 11963064, False, 12, 12535753, 12536652, 5232679756448195)"
  "core header_11963065 = (1614744730, 11963065, False, 23, 12508672, 12524411, 5232679890665923)"
  "core header_11963066 = (1614744739, 11963066, False, 25, 12493946, 12512182, 5232680024883651)"
  "core header_11963067 = (1614744744, 11963067, False, 9, 12505552, 12518266, 5235235178644779)"
  "core header_11963068 = (1614744768, 11963068, False, 16, 12520265, 12524361, 5232679045685435)"
  "core header_11963069 = (1614744826, 11963069, False, 16, 12513737, 12530472, 5219904084576783)"
  by (simp_all only: core_def bench_header_defs header.select_convs has_ommers_def EMPTY_OMMERS_HASH_def length_be_bytes
    list.size prod.inject simp_thms) simp_all

lemma coreD:
  "core h = (t, n, om, len, used, limit, d) \<Longrightarrow> timestamp h = t \<and> number h = n \<and> has_ommers h = om \<and>
     length (extra_data h) = len \<and> gas_used h = used \<and> gas_limit h = limit \<and> difficulty h = d"
  by (simp add: core_def)

lemmas bench_difficulty = bench_cores [THEN coreD] calc_difficulty_eq bomb_delay_def difficulty_spec_def base_difficulty_def
  adjustment_factor_def ice_age_def bomb_delay_blocks_def mainnet_def ropsten_def Let_def

lemma bench_links_mainnet: "list_all (\<lambda>(p, h). calc_difficulty mainnet (timestamp h) p = Ok (difficulty h)) bench_links"
  unfolding bench_links_def headers_11963025_to_11963069_def by (simp add: bench_difficulty)

lemma bench_links_ropsten: "list_all (\<lambda>(p, h). calc_difficulty ropsten (timestamp h) p \<noteq> Ok (difficulty h)) bench_links"
  unfolding bench_links_def headers_11963025_to_11963069_def by (simp add: bench_difficulty)

lemma bench_links_basic: "list_all (\<lambda>(p, h). (basic_checks p h :: (dispatch_error, bool) result) = Ok True) bench_links"
  unfolding bench_links_def headers_11963025_to_11963069_def
  by (simp add: bench_cores [THEN coreD] basic_checks_def and_then_def u256_mul_def checked_mul_def)

theorem bench_headers_valid:
  "length bench_links = 45 \<and> list_all (\<lambda>l. follows mainnet l \<and> \<not> follows ropsten l) bench_links"
proof
  show "length bench_links = 45" by (simp add: bench_links_def headers_11963025_to_11963069_def)
  show "list_all (\<lambda>l. follows mainnet l \<and> \<not> follows ropsten l) bench_links"
    using bench_links_mainnet bench_links_ropsten bench_links_basic unfolding follows_def list_all_iff by blast
qed

section \<open>A library with these hashes\<close>

text \<open>An encoding that keeps the timestamp and the difficulty, which tell the headers apart, and an Ethash that agrees.\<close>

definition bench_table :: "((u64 \<times> u256) \<times> nat) list" where
  "bench_table = zip (map (\<lambda>h. (timestamp h, difficulty h)) (take 13 bench_headers @ [bench_sibling]))
     [1, 2, 3, 4, 5, 6, 7, 8, 9, 10, 11, 12, 13, 14]"

definition bench_rlp_out :: "rlp_op list \<Rightarrow> bytes" where
  "bench_rlp_out ops = (case (ops ! 8, ops ! 12) of
       (AppendU256 d, AppendU64 t) \<Rightarrow> (case map_of bench_table (t, d) of Some i \<Rightarrow> [of_nat i] | None \<Rightarrow> [])
     | _ \<Rightarrow> [])"

definition bench_lib :: eth_lib where
  "bench_lib = sample_lib\<lparr>rlp_as_bytes := \<lambda>b. Ok (tl b), rlp_out := bench_rlp_out,
     keccak_256 := \<lambda>b. case b of [i] \<Rightarrow> bench_hash (unat i) | _ \<Rightarrow> 0\<rparr>"

definition bench_ethash :: ethash_lib where
  "bench_ethash = linear_ethash\<lparr>hashimoto_with_hasher :=
     \<lambda>_ _ _ _ _ _ x. Some ((of_be_bytes (tl (seal header_11963036 ! 0)), 0), x)\<rparr>"

definition bench_cfg :: "difficulty_config \<Rightarrow> lc_config" where
  "bench_cfg d = \<lparr>lc_lib = bench_lib, lc_ethash = bench_ethash, descendants_until_finalized = 3, lc_difficulty = d,
     verify_pow = True\<rparr>"

lemma bench_sibling_core: "timestamp bench_sibling = timestamp header_11963036"
  by (simp add: bench_sibling_def)

lemma bench_lib_hashes: "bench_hashes bench_lib"
  by (simp add: bench_hashes_def headers_11963025_to_11963069_def compute_hash_def header_rlp_def Let_def bench_lib_def
    bench_rlp_out_def bench_table_def bench_cores [THEN coreD] bench_sibling_values bench_sibling_core)

lemma bench_cfg_ready: "bench_ready (bench_cfg d) empty_light_client"
  by (simp add: bench_ready_def bench_cfg_def bench_lib_hashes clear_of_bench_def empty_light_client_def list_all_iff)

lemma bench_libs: "rlp_as_bytes bench_lib = (\<lambda>b. Ok (tl b))" "cross_boundary bench_ethash d = - 1"
  by (simp_all add: bench_lib_def bench_ethash_def linear_ethash_def)

lemma bench_cfg_pow: "validate_pow (bench_cfg d) header_11963036 zero_nodes = Ok ()"
proof -
  have "dag_merkle_root (number header_11963036 div EPOCH_LENGTH) \<noteq> None"
    by (simp add: dag_merkle_root_def DAGS_START_EPOCH_def EPOCH_LENGTH_def Let_def bench_values)
  then have "hashimoto_merkle bench_lib bench_ethash hh nc (number header_11963036) zero_nodes = Ok (of_be_bytes (tl (seal header_11963036 ! 0)), 0)" for hh nc
    by (auto simp: hashimoto_merkle_def bench_ethash_def zero_nodes_def MIX_BYTES_def HASH_BYTES_def ACCESSES_def Let_def)
  moreover have "length (seal header_11963036 ! 0) = 33" "length (seal header_11963036 ! 1) = 9" "length (seal header_11963036) = 2"
    by (simp_all only: header_11963036_def header.select_convs nth_Cons_0 One_nat_def nth_Cons_Suc length_be_bytes list.size)
  ultimately show ?thesis
    by (simp add: validate_pow_def bench_cfg_def mix_hash_def nonce_def decoded_seal_field_def bench_libs
      copy_right_aligned ensure_def word_gt_0)
qed

theorem import_benchmarks_pass_witness:
  "\<exists>s'. bench_import_header (bench_cfg mainnet) (\<lambda>_. Some zero_nodes) 5 empty_light_client = (Ok (), s')"
  using import_benchmarks_pass [OF bench_cfg_ready, of mainnet "\<lambda>_. Some zero_nodes" zero_nodes 5] bench_cfg_pow
  by (auto simp: bench_cfg_def)

theorem ropsten_import_benchmarks_fail_witness:
  "\<exists>s'. bench_import_header (bench_cfg ropsten) (\<lambda>_. Some zero_nodes) 5 empty_light_client = (Err (lc_error InvalidHeader), s')"
  using ropsten_import_benchmarks_fail [OF bench_cfg_ready, of ropsten "\<lambda>_. Some zero_nodes" zero_nodes 5]
  by (auto simp: bench_cfg_def)

end
