(* ===== verification/Bench_Messages.thy ===== *)
theory Bench_Messages
  imports Bridge_Core
begin

text \<open>
  The messages that the benchmarks of the inbound channels submit, with the header that proves
  them (\<open>benchmarking.rs\<close> of \<open>pallets/basic-channel/src/inbound\<close> and
  \<open>pallets/incentivized-channel/src/inbound\<close>).  A byte string is written as
  the words of 32 bytes it consists of and the bytes that remain.
\<close>

definition words_bytes :: "u256 list \<Rightarrow> bytes" where
  "words_bytes ws = concat (map (be_bytes 32) ws)"

definition basic_eth_mint_data :: "header \<times> message" where
  "basic_eth_mint_data = (
     \<lparr>parent_hash = 0x0db25049c0e7fe65be6d70d8901a1d285b403013063dab4462dc09da4c114729,
      timestamp = 1619679041,
      number = 92,
      author = 0x0000000000000000000000000000000000000000,
      transactions_root = 0x82ac39ca8d4fef5f60db628aabf1273fca954afd36205ff7fbf48a9c12ad4ea4,
      ommers_hash = 0x1dcc4de8dec75d7aab85b567b6ccd41ad312451b948a7413f0a142fd40d49347,
      extra_data = [],
      state_root = 0x5430db6edfe87449f6082bf6804815b60b78636faa076e3f56c977eec519f012,
      receipts_root = 0xad6f0b524225ce38a94f27a411633d9acd647e3905aae783cd2f3e82b2035f77,
      logs_bloom = words_bytes [
        0x0000000800000000000000000000000000000000000040000000000001000000,
        0x0000000000000000000000000000000000000000000000000000000000000080,
        0x0000000000000000000000000000000000000000000000000000000000000000,
        0x0000000000000000000000000000000000000000000000000000000000000000,
        0x0000000000000000000000000000000000100000000000000000000000008000,
        0x0000000000000000000000000000000000200000000000000000000000000800,
        0x0000000000000400000002000000000000000000000000000000000000080000,
        0x2000000000000000000000000000000000000000000000000000000000000000],
      gas_used = 63853,
      gas_limit = 6721975,
      difficulty = 0,
      seal = [be_bytes 33 (0xa00000000000000000000000000000000000000000000000000000000000000000 :: 264 word), be_bytes 9 (0x880000000000000000 :: u256)],
      base_fee = None\<rparr>,
     \<lparr>msg_data = words_bytes [
        0xf90119942ffa5ecdbe006d30397c7636d3e015eee251369fe1a0779b38144a38,
        0xcfc4351816442048b17fe24ba2b0e0c63446b576e8281160b15bb8e000000000,
        0x0000000000000000774667629726ec1fabebcec0d9139bd1c8f72a2300000000,
        0x0000000000000000000000000000000000000000000000000000000300000000,
        0x0000000000000000000000000000000000000000000000000000006000000000,
        0x00000000000000000000000000000000000000000000000000000057410189b4,
        0xab1ef20763630df9743acf155865600daff200d43593c715fdd31c61141abd04,
        0xa99fd6822c8558854ccde39a5684e7a56da27d0000c16ff28623000000000000] @ be_bytes 28 (0x00000000000000000000000000000000000000000000000000000000 :: u256),
      msg_proof = \<lparr>
        block_hash = 0x9cd97b10d2087810a0ebeab0f5dcec166a50ab6923a1b21e64f65f4c6deee65d,
        tx_index = 0,
        proof_data = (
          [be_bytes 32 (0xad6f0b524225ce38a94f27a411633d9acd647e3905aae783cd2f3e82b2035f77 :: u256)],
          [words_bytes [
        0xf902ca822080b902c4f902c10182f96db9010000000008000000000000000000,
        0x0000000000000000004000000000000100000000000000000000000000000000,
        0x0000000000000000000000000000000000008000000000000000000000000000,
        0x0000000000000000000000000000000000000000000000000000000000000000,
        0x0000000000000000000000000000000000000000000000000000000000000000,
        0x0000000010000000000000000000000000800000000000000000000000000000,
        0x0000000020000000000000000000000000080000000000000004000000020000,
        0x0000000000000000000000000000000008000020000000000000000000000000,
        0x00000000000000000000000000000000000000f901b7f89994774667629726ec,
        0x1fabebcec0d9139bd1c8f72a23e1a0caae0f5e72020d428da73a237d1f9bf162,
        0xe158dda6d4908769b8b60c095b01f4b86000000000000000000000000089b4ab,
        0x1ef20763630df9743acf155865600daff2d43593c715fdd31c61141abd04a99f,
        0xd6822c8558854ccde39a5684e7a56da27d000000000000000000000000000000,
        0x000000000000000000002386f26fc10000f90119942ffa5ecdbe006d30397c76,
        0x36d3e015eee251369fe1a0779b38144a38cfc4351816442048b17fe24ba2b0e0,
        0xc63446b576e8281160b15bb8e0000000000000000000000000774667629726ec,
        0x1fabebcec0d9139bd1c8f72a2300000000000000000000000000000000000000,
        0x0000000000000000000000000300000000000000000000000000000000000000,
        0x0000000000000000000000006000000000000000000000000000000000000000,
        0x00000000000000000000000057410189b4ab1ef20763630df9743acf15586560,
        0x0daff200d43593c715fdd31c61141abd04a99fd6822c8558854ccde39a5684e7,
        0xa56da27d0000c16ff28623000000000000000000000000000000000000000000] @ be_bytes 13 (0x00000000000000000000000000 :: u256)])\<rparr>\<rparr>)"

definition basic_erc20_mint_data :: "header \<times> message" where
  "basic_erc20_mint_data = (
     \<lparr>parent_hash = 0x2c89d0bdd9bd57611ca10ad3a765a8c3698c60c00f2f004b142454ed46d539a4,
      timestamp = 1619678951,
      number = 77,
      author = 0x0000000000000000000000000000000000000000,
      transactions_root = 0x99fd65851a4706d0ca4bdda6638fdb73276643aa440397bef424ab56b77f729d,
      ommers_hash = 0x1dcc4de8dec75d7aab85b567b6ccd41ad312451b948a7413f0a142fd40d49347,
      extra_data = [],
      state_root = 0xa97664779a82ed077bb0a57f3b754c6c0a46124c6af172447ba2b67a08d91647,
      receipts_root = 0x3f7a9cb9d4b9db18280e882d1ddfef469bcb1097b2d8b1f9f9a0b2abeebbae7a,
      logs_bloom = words_bytes [
        0x0000000800000000100000000000000000000000000000000000000000000000,
        0x0000000000000000000000000000000000000000000000000000000000200000,
        0x0000000000000000000004082020000000000000000000000000000000000000,
        0x0000000000000000000000000000000020001000000000000000001000100000,
        0x0000000008000000000000000000000000100000000000000000840000008000,
        0x0200000000000000010000000000000000000000000000010000000002000000,
        0x00000002000004000000020000000000000000000008000000800000280c0000,
        0x0010000000000000000020000000000220000000000000000000000000000000],
      gas_used = 230365,
      gas_limit = 6721975,
      difficulty = 0,
      seal = [be_bytes 33 (0xa00000000000000000000000000000000000000000000000000000000000000000 :: 264 word), be_bytes 9 (0x880000000000000000 :: u256)],
      base_fee = None\<rparr>,
     \<lparr>msg_data = words_bytes [
        0xf9013a942ffa5ecdbe006d30397c7636d3e015eee251369fe1a0779b38144a38,
        0xcfc4351816442048b17fe24ba2b0e0c63446b576e8281160b15bb90100000000,
        0x00000000000000000083428c7db9815f482a39a1715684dcf755021997000000,
        0x0000000000000000000000000000000000000000000000000000000002000000,
        0x0000000000000000000000000000000000000000000000000000000060000000,
        0x000000000000000000000000000000000000000000000000000000006b4201f8,
        0xf7758fbcefd546eaeff7de24aff666b6228e7389b4ab1ef20763630df9743acf,
        0x155865600daff200d43593c715fdd31c61141abd04a99fd6822c8558854ccde3,
        0x9a5684e7a56da27de80300000000000000000000000000000000000000000000] @ be_bytes 29 (0x0000000000000000000000000000000000000000000000000000000000 :: u256),
      msg_proof = \<lparr>
        block_hash = 0x9db154065a223a7d3a7124cb3fbf8214f8c7715aaa97d2865a5f95dd58344df6,
        tx_index = 0,
        proof_data = (
          [be_bytes 32 (0x3f7a9cb9d4b9db18280e882d1ddfef469bcb1097b2d8b1f9f9a0b2abeebbae7a :: u256), be_bytes 32 (0xf08f9dfb061a36bcc994292013e9c73d5a1e380dfad010a3450029af352ff670 :: u256)],
          [words_bytes [
        0xf851a08e9357a1f77e895cecddf86c2a17aa1027f04aab509e0ae1be640d8190,
        0xf3704780808080808080a0f08f9dfb061a36bcc994292013e9c73d5a1e380dfa] @ be_bytes 19 (0xd010a3450029af352ff6708080808080808080 :: u256),
           words_bytes [
        0xf9044430b90440f9043d0183016555b901000000000800000000000000000000,
        0x0000000000000000000000000000000000000000000000000000000000000000,
        0x0000000000000000000000000000002000000000000000000000000000080020,
        0x0000000000000000000000000000000000000000000000000000000000000000,
        0x0000200010000000000000000010001000000000000008000000000000000000,
        0x0000001000000000000000008400000080000200000000000000010000000000,
        0x0000000000000000000100000000020000000000000200000400000002000000,
        0x0000000000000008000000800000200c00000010000000000000000000000000,
        0x000020000000000000000000000000000000f90332f89b94f8f7758fbcefd546,
        0xeaeff7de24aff666b6228e73f863a0ddf252ad1be2c89b69c2b068fc378daa95,
        0x2ba7f163c4a11628f55a4df523b3efa000000000000000000000000089b4ab1e,
        0xf20763630df9743acf155865600daff2a000000000000000000000000083428c,
        0x7db9815f482a39a1715684dcf755021997a00000000000000000000000000000,
        0x0000000000000000000000000000000003e8f89b94f8f7758fbcefd546eaeff7,
        0xde24aff666b6228e73f863a08c5be1e5ebec7d5bd14f71427d1e84f3dd0314c0,
        0xf7b2291e5b200ac8c7c3b925a000000000000000000000000089b4ab1ef20763,
        0x630df9743acf155865600daff2a000000000000000000000000083428c7db981,
        0x5f482a39a1715684dcf755021997a00000000000000000000000000000000000,
        0x000000000000000000000000000000f8b99483428c7db9815f482a39a1715684,
        0xdcf755021997e1a01e7b27577112ed83d53de87b38aee59ab80d8a9ba4acd90a,
        0xad6cfee917534c79b880000000000000000000000000f8f7758fbcefd546eaef,
        0xf7de24aff666b6228e7300000000000000000000000089b4ab1ef20763630df9,
        0x743acf155865600daff2d43593c715fdd31c61141abd04a99fd6822c8558854c,
        0xcde39a5684e7a56da27d00000000000000000000000000000000000000000000,
        0x000000000000000003e8f9013a942ffa5ecdbe006d30397c7636d3e015eee251,
        0x369fe1a0779b38144a38cfc4351816442048b17fe24ba2b0e0c63446b576e828,
        0x1160b15bb9010000000000000000000000000083428c7db9815f482a39a17156,
        0x84dcf75502199700000000000000000000000000000000000000000000000000,
        0x0000000000000200000000000000000000000000000000000000000000000000,
        0x0000000000006000000000000000000000000000000000000000000000000000,
        0x0000000000006b4201f8f7758fbcefd546eaeff7de24aff666b6228e7389b4ab,
        0x1ef20763630df9743acf155865600daff200d43593c715fdd31c61141abd04a9,
        0x9fd6822c8558854ccde39a5684e7a56da27de803000000000000000000000000,
        0x0000000000000000000000000000000000000000000000000000000000000000] @ be_bytes 7 (0x00000000000000 :: u256)])\<rparr>\<rparr>)"

definition basic_dot_unlock_data :: "header \<times> message" where
  "basic_dot_unlock_data = (
     \<lparr>parent_hash = 0x07966c0314890b0a506ac5e29c934a1a7d77245ce088fb5786eec3a6f1b855c8,
      timestamp = 1619678891,
      number = 67,
      author = 0x0000000000000000000000000000000000000000,
      transactions_root = 0x979b37112184a16bc05f7a6a12eb0b6bd277c1188741315e92aba3517329b091,
      ommers_hash = 0x1dcc4de8dec75d7aab85b567b6ccd41ad312451b948a7413f0a142fd40d49347,
      extra_data = [],
      state_root = 0x4e8278dec2498fd15d8d6d46f42204f4907161adceb6f3a6ad046cb3e939d403,
      receipts_root = 0xd21685ddfe4768946b1a31abe7fba388d90b90245127ced39960061a6b18be9e,
      logs_bloom = words_bytes [
        0x0000000800004000000000000000020000000000000000000000000000008000,
        0x0000000000000000000000000000000000000000000000000000000000000000,
        0x0000000000000004000000080000000000000000000080000000000000000000,
        0x0000000002000000000000000000080000000100040000000000001000000000,
        0x0000000000000000000000000400000000100000000000000000040000008000,
        0x0000000000000000000000000000000000000000000000010000000002000000,
        0x0000000200000400000002000000000000000000000000000000000000082040,
        0x0000000000000000000000000000000000000000000000000000000000000000],
      gas_used = 83009,
      gas_limit = 6721975,
      difficulty = 0,
      seal = [be_bytes 33 (0xa00000000000000000000000000000000000000000000000000000000000000000 :: 264 word), be_bytes 9 (0x880000000000000000 :: u256)],
      base_fee = None\<rparr>,
     \<lparr>msg_data = words_bytes [
        0xf90119942ffa5ecdbe006d30397c7636d3e015eee251369fe1a0779b38144a38,
        0xcfc4351816442048b17fe24ba2b0e0c63446b576e8281160b15bb8e000000000,
        0x0000000000000000b1185ede04202fe62d38f5db72f71e38ff3e830500000000,
        0x0000000000000000000000000000000000000000000000000000000100000000,
        0x0000000000000000000000000000000000000000000000000000006000000000,
        0x00000000000000000000000000000000000000000000000000000057400189b4,
        0xab1ef20763630df9743acf155865600daff200d43593c715fdd31c61141abd04,
        0xa99fd6822c8558854ccde39a5684e7a56da27d000064a7b3b6e00d0000000000] @ be_bytes 28 (0x00000000000000000000000000000000000000000000000000000000 :: u256),
      msg_proof = \<lparr>
        block_hash = 0x465a2577662aca511a2453d102e2f1452ab2598c28ab1a9b81ad2ca5e6350d78,
        tx_index = 0,
        proof_data = (
          [be_bytes 32 (0xd21685ddfe4768946b1a31abe7fba388d90b90245127ced39960061a6b18be9e :: u256)],
          [words_bytes [
        0xf9040c822080b90406f904030183014441b90100000000080000400000000000,
        0x0000020000000000000000000000000000008000000000000000000000000000,
        0x0000000000000000000000000000000000000000000000000000000400000008,
        0x0000000000000000000080000000000000000000000000000200000000000000,
        0x0000080000000100040000000000001000000000000000000000000000000000,
        0x0400000000100000000000000000040000008000000000000000000000000000,
        0x0000000000000000000000010000000002000000000000020000040000000200,
        0x0000000000000000000000000000000000082040000000000000000000000000,
        0x0000000000000000000000000000000000000000f902f8f9013c94672a95c892,
        0x8c8450b594186cf7954ec269626a2df863a0a78a9be3a7b862d26933ad85fb11,
        0xd80ef66b8f972d7cbba06621d583943a4098a0000000000000000000000000b1,
        0x185ede04202fe62d38f5db72f71e38ff3e8305a0000000000000000000000000,
        0x89b4ab1ef20763630df9743acf155865600daff2b8c000000000000000000000,
        0x00000000000000000000000000000de0b6b3a764000000000000000000000000,
        0x0000000000000000000000000000000000000000006000000000000000000000,
        0x000000000000000000000000000000000000000000a000000000000000000000,
        0x00000000000000000000000000000000000000000020d43593c715fdd31c6114,
        0x1abd04a99fd6822c8558854ccde39a5684e7a56da27d00000000000000000000,
        0x00000000000000000000000000000000000000000000f89b94672a95c8928c84,
        0x50b594186cf7954ec269626a2df863a0ddf252ad1be2c89b69c2b068fc378daa,
        0x952ba7f163c4a11628f55a4df523b3efa000000000000000000000000089b4ab,
        0x1ef20763630df9743acf155865600daff2a00000000000000000000000000000,
        0x000000000000000000000000000000000000a000000000000000000000000000,
        0x00000000000000000000000de0b6b3a7640000f90119942ffa5ecdbe006d3039,
        0x7c7636d3e015eee251369fe1a0779b38144a38cfc4351816442048b17fe24ba2,
        0xb0e0c63446b576e8281160b15bb8e0000000000000000000000000b1185ede04,
        0x202fe62d38f5db72f71e38ff3e83050000000000000000000000000000000000,
        0x0000000000000000000000000000010000000000000000000000000000000000,
        0x0000000000000000000000000000600000000000000000000000000000000000,
        0x000000000000000000000000000057400189b4ab1ef20763630df9743acf1558,
        0x65600daff200d43593c715fdd31c61141abd04a99fd6822c8558854ccde39a56,
        0x84e7a56da27d000064a7b3b6e00d000000000000000000000000000000000000] @ be_bytes 15 (0x000000000000000000000000000000 :: u256)])\<rparr>\<rparr>)"

definition incentivized_eth_mint_data :: "header \<times> message" where
  "incentivized_eth_mint_data = (
     \<lparr>parent_hash = 0x616872244fddc35315f7c6e0ad67171d74e200a70ee05f1e1e633f49ab0e2d08,
      timestamp = 1619682198,
      number = 74,
      author = 0x0000000000000000000000000000000000000000,
      transactions_root = 0xdd827279c5f79d0a55b1b014c37277e87e8e329698d71634ed5a9ecb0bad5d69,
      ommers_hash = 0x1dcc4de8dec75d7aab85b567b6ccd41ad312451b948a7413f0a142fd40d49347,
      extra_data = [],
      state_root = 0xbd212b2a344f2a77b2c3097db26687b986939af84a832cb1cf9617a48c5cbed4,
      receipts_root = 0xc22e2e2d74ddd01bbb8298ccbf1c42acc21adafc5fd9f49dfbf8719e75eb9092,
      logs_bloom = words_bytes [
        0x0000000000004000000000000000020000000000000040001000000001008000,
        0x0000000000000000000000001000000010000000000000000000000000000080,
        0x0000000000000004000000080000000000000000000080000000000000000000,
        0x0000000002000000000000000000080000000100040000000000001000000000,
        0x0000020000000000000000000400000000000000000000000000040000000000,
        0x0000000000040000000000000000000002200000000000010000000002000800,
        0x0000000200000000000000000000000000000000000000000000000000002040,
        0x2000000000000000000000000000000000000000000000000000000000000000],
      gas_used = 97210,
      gas_limit = 6721975,
      difficulty = 0,
      seal = [be_bytes 33 (0xa00000000000000000000000000000000000000000000000000000000000000000 :: 264 word), be_bytes 9 (0x880000000000000000 :: u256)],
      base_fee = None\<rparr>,
     \<lparr>msg_data = words_bytes [
        0xf9013a94eda338e4dc46038493b885327842fd3e301cab39e1a05e9ae1d7c484,
        0xf74d554a503aa825e823725531d97e784dd9b1aacdb58d1f7076b90100000000,
        0x000000000000000000774667629726ec1fabebcec0d9139bd1c8f72a23000000,
        0x0000000000000000000000000000000000000000000000000000000003000000,
        0x0000000000000000000000000000000000000000000de0b6b3a7640000000000,
        0x0000000000000000000000000000000000000000000000000000000080000000,
        0x0000000000000000000000000000000000000000000000000000000057410189,
        0xb4ab1ef20763630df9743acf155865600daff200d43593c715fdd31c61141abd,
        0x04a99fd6822c8558854ccde39a5684e7a56da27d0000c16ff286230000000000] @ be_bytes 29 (0x0000000000000000000000000000000000000000000000000000000000 :: u256),
      msg_proof = \<lparr>
        block_hash = 0x0ef7dda5ed1a551590a07bbd51c67c2f8b605e81bc5ae8e7b593603dd1706084,
        tx_index = 0,
        proof_data = (
          [be_bytes 32 (0xc22e2e2d74ddd01bbb8298ccbf1c42acc21adafc5fd9f49dfbf8719e75eb9092 :: u256)],
          [words_bytes [
        0xf904a8822080b904a2f9049f0183017bbab90100000000000000400000000000,
        0x0000020000000000000040001000000001008000000000000000000000000000,
        0x1000000010000000000000000000000000000080000000000000000400000008,
        0x0000000000000000000080000000000000000000000000000200000000000000,
        0x0000080000000100040000000000001000000000000002000000000000000000,
        0x0400000000000000000000000000040000000000000000000004000000000000,
        0x0000000002200000000000010000000002000800000000020000000000000000,
        0x0000000000000000000000000000000000002040200000000000000000000000,
        0x0000000000000000000000000000000000000000f90394f89994774667629726,
        0xec1fabebcec0d9139bd1c8f72a23e1a0caae0f5e72020d428da73a237d1f9bf1,
        0x62e158dda6d4908769b8b60c095b01f4b86000000000000000000000000089b4,
        0xab1ef20763630df9743acf155865600daff2d43593c715fdd31c61141abd04a9,
        0x9fd6822c8558854ccde39a5684e7a56da27d0000000000000000000000000000,
        0x00000000000000000000002386f26fc10000f9011c94672a95c8928c8450b594,
        0x186cf7954ec269626a2df863a0a78a9be3a7b862d26933ad85fb11d80ef66b8f,
        0x972d7cbba06621d583943a4098a0000000000000000000000000b1185ede0420,
        0x2fe62d38f5db72f71e38ff3e8305a000000000000000000000000089b4ab1ef2,
        0x0763630df9743acf155865600daff2b8a0000000000000000000000000000000,
        0x0000000000000000000de0b6b3a7640000000000000000000000000000000000,
        0x0000000000000000000000000000000060000000000000000000000000000000,
        0x0000000000000000000000000000000080000000000000000000000000000000,
        0x0000000000000000000000000000000000000000000000000000000000000000,
        0x0000000000000000000000000000000000f89b94672a95c8928c8450b594186c,
        0xf7954ec269626a2df863a0ddf252ad1be2c89b69c2b068fc378daa952ba7f163,
        0xc4a11628f55a4df523b3efa000000000000000000000000089b4ab1ef2076363,
        0x0df9743acf155865600daff2a000000000000000000000000000000000000000,
        0x00000000000000000000000000a0000000000000000000000000000000000000,
        0x0000000000000de0b6b3a7640000f9013a94eda338e4dc46038493b885327842,
        0xfd3e301cab39e1a05e9ae1d7c484f74d554a503aa825e823725531d97e784dd9,
        0xb1aacdb58d1f7076b90100000000000000000000000000774667629726ec1fab,
        0xebcec0d9139bd1c8f72a23000000000000000000000000000000000000000000,
        0x0000000000000000000003000000000000000000000000000000000000000000,
        0x0000000de0b6b3a7640000000000000000000000000000000000000000000000,
        0x0000000000000000000080000000000000000000000000000000000000000000,
        0x0000000000000000000057410189b4ab1ef20763630df9743acf155865600daf,
        0xf200d43593c715fdd31c61141abd04a99fd6822c8558854ccde39a5684e7a56d,
        0xa27d0000c16ff286230000000000000000000000000000000000000000000000] @ be_bytes 11 (0x0000000000000000000000 :: u256)])\<rparr>\<rparr>)"

definition incentivized_erc20_mint_data :: "header \<times> message" where
  "incentivized_erc20_mint_data = (
     \<lparr>parent_hash = 0x47736d1a371ac88cd54239733e7d597716572724645abf92bbfb640b34efe008,
      timestamp = 1619734472,
      number = 59,
      author = 0x0000000000000000000000000000000000000000,
      transactions_root = 0x63b50c6ecaa5f26f112ad46cb8f159886a7d408b2ca8e6aa3d497f919cf8bbc3,
      ommers_hash = 0x1dcc4de8dec75d7aab85b567b6ccd41ad312451b948a7413f0a142fd40d49347,
      extra_data = [],
      state_root = 0x4b9f175513e4f66ff469da75a69ded8bddca372388ebd92afd86bce77b2f8fb3,
      receipts_root = 0x3b6abad9d222b230dd114b9b1d3355120876488ffdc2febecafb8f564273e238,
      logs_bloom = words_bytes [
        0x0000000000004000000000000000020000000000000000001000000000008000,
        0x0000000000000000000000001000000010000000000000000000000000200000,
        0x0000000000000004000000080020000000000000000080000000000000000000,
        0x0000000002000000000000000000080020001100040000000000001000100000,
        0x0000020008000000000000000400000000000000000000000000840000000000,
        0x0200000000040000010000000000000002000000000000010000000002000000,
        0x0000000200000000000000000000000000000000000800000080000020042040,
        0x0010000000000000000000000000000020000000000000000000000000000000],
      gas_used = 124834,
      gas_limit = 6721975,
      difficulty = 0,
      seal = [be_bytes 33 (0xa00000000000000000000000000000000000000000000000000000000000000000 :: 264 word), be_bytes 9 (0x880000000000000000 :: u256)],
      base_fee = None\<rparr>,
     \<lparr>msg_data = words_bytes [
        0xf9015a94eda338e4dc46038493b885327842fd3e301cab39e1a05e9ae1d7c484,
        0xf74d554a503aa825e823725531d97e784dd9b1aacdb58d1f7076b90120000000,
        0x00000000000000000083428c7db9815f482a39a1715684dcf755021997000000,
        0x0000000000000000000000000000000000000000000000000000000002000000,
        0x0000000000000000000000000000000000000000000de0b6b3a7640000000000,
        0x0000000000000000000000000000000000000000000000000000000080000000,
        0x000000000000000000000000000000000000000000000000000000006b4201f8,
        0xf7758fbcefd546eaeff7de24aff666b6228e7389b4ab1ef20763630df9743acf,
        0x155865600daff200d43593c715fdd31c61141abd04a99fd6822c8558854ccde3,
        0x9a5684e7a56da27de80300000000000000000000000000000000000000000000] @ be_bytes 29 (0x0000000000000000000000000000000000000000000000000000000000 :: u256),
      msg_proof = \<lparr>
        block_hash = 0x175410f9f31245f5cafe7f450df0e0240e084b2284611e51981da9ceaa38e890,
        tx_index = 0,
        proof_data = (
          [be_bytes 32 (0x3b6abad9d222b230dd114b9b1d3355120876488ffdc2febecafb8f564273e238 :: u256)],
          [words_bytes [
        0xf90622822080b9061cf90619018301e7a2b90100000000000000400000000000,
        0x0000020000000000000000001000000000008000000000000000000000000000,
        0x1000000010000000000000000000000000200000000000000000000400000008,
        0x0020000000000000000080000000000000000000000000000200000000000000,
        0x0000080020001100040000000000001000100000000002000800000000000000,
        0x0400000000000000000000000000840000000000020000000004000001000000,
        0x0000000002000000000000010000000002000000000000020000000000000000,
        0x0000000000000000000800000080000020042040001000000000000000000000,
        0x0000000020000000000000000000000000000000f9050ef89b94f8f7758fbcef,
        0xd546eaeff7de24aff666b6228e73f863a0ddf252ad1be2c89b69c2b068fc378d,
        0xaa952ba7f163c4a11628f55a4df523b3efa000000000000000000000000089b4,
        0xab1ef20763630df9743acf155865600daff2a000000000000000000000000083,
        0x428c7db9815f482a39a1715684dcf755021997a0000000000000000000000000,
        0x00000000000000000000000000000000000003e8f89b94f8f7758fbcefd546ea,
        0xeff7de24aff666b6228e73f863a08c5be1e5ebec7d5bd14f71427d1e84f3dd03,
        0x14c0f7b2291e5b200ac8c7c3b925a000000000000000000000000089b4ab1ef2,
        0x0763630df9743acf155865600daff2a000000000000000000000000083428c7d,
        0xb9815f482a39a1715684dcf755021997a0000000000000000000000000000000,
        0x0000000000000000000000000000000000f8b99483428c7db9815f482a39a171,
        0x5684dcf755021997e1a01e7b27577112ed83d53de87b38aee59ab80d8a9ba4ac,
        0xd90aad6cfee917534c79b880000000000000000000000000f8f7758fbcefd546,
        0xeaeff7de24aff666b6228e7300000000000000000000000089b4ab1ef2076363,
        0x0df9743acf155865600daff2d43593c715fdd31c61141abd04a99fd6822c8558,
        0x854ccde39a5684e7a56da27d0000000000000000000000000000000000000000,
        0x0000000000000000000003e8f9011c94672a95c8928c8450b594186cf7954ec2,
        0x69626a2df863a0a78a9be3a7b862d26933ad85fb11d80ef66b8f972d7cbba066,
        0x21d583943a4098a0000000000000000000000000b1185ede04202fe62d38f5db,
        0x72f71e38ff3e8305a000000000000000000000000089b4ab1ef20763630df974,
        0x3acf155865600daff2b8a0000000000000000000000000000000000000000000,
        0x0000000de0b6b3a7640000000000000000000000000000000000000000000000,
        0x0000000000000000000060000000000000000000000000000000000000000000,
        0x0000000000000000000080000000000000000000000000000000000000000000,
        0x0000000000000000000000000000000000000000000000000000000000000000,
        0x0000000000000000000000f89b94672a95c8928c8450b594186cf7954ec26962,
        0x6a2df863a0ddf252ad1be2c89b69c2b068fc378daa952ba7f163c4a11628f55a,
        0x4df523b3efa000000000000000000000000089b4ab1ef20763630df9743acf15,
        0x5865600daff2a000000000000000000000000000000000000000000000000000,
        0x00000000000000a0000000000000000000000000000000000000000000000000,
        0x0de0b6b3a7640000f9015a94eda338e4dc46038493b885327842fd3e301cab39,
        0xe1a05e9ae1d7c484f74d554a503aa825e823725531d97e784dd9b1aacdb58d1f,
        0x7076b9012000000000000000000000000083428c7db9815f482a39a1715684dc,
        0xf755021997000000000000000000000000000000000000000000000000000000,
        0x00000000020000000000000000000000000000000000000000000000000de0b6,
        0xb3a7640000000000000000000000000000000000000000000000000000000000,
        0x0000000080000000000000000000000000000000000000000000000000000000,
        0x000000006b4201f8f7758fbcefd546eaeff7de24aff666b6228e7389b4ab1ef2,
        0x0763630df9743acf155865600daff200d43593c715fdd31c61141abd04a99fd6,
        0x822c8558854ccde39a5684e7a56da27de8030000000000000000000000000000,
        0x0000000000000000000000000000000000000000000000000000000000000000] @ be_bytes 5 (0x0000000000 :: u256)])\<rparr>\<rparr>)"

definition incentivized_dot_unlock_data :: "header \<times> message" where
  "incentivized_dot_unlock_data = (
     \<lparr>parent_hash = 0x1eb95c998f6af053b87e8955d7cecada585b0304dfb5d7283947a5674e6e42f1,
      timestamp = 1619678921,
      number = 72,
      author = 0x0000000000000000000000000000000000000000,
      transactions_root = 0x8f407c85c74ab696364e8ff77bbdcffeb52a118c1a50dd43d848c6e37407d9e5,
      ommers_hash = 0x1dcc4de8dec75d7aab85b567b6ccd41ad312451b948a7413f0a142fd40d49347,
      extra_data = [],
      state_root = 0x2a785e43bdd23e81499a062c1645879e573484a329114c4dacb1762471793116,
      receipts_root = 0xa37efc2c11999db875b5080c244999f8625c165473aa7f9a374b0dfc31f9da85,
      logs_bloom = words_bytes [
        0x0000000000004000000000000000020000000000000000001000000000008000,
        0x0000000000000000000000001000000010000000000000000000000000000000,
        0x0000000000000004000000080000000000000000000080000000000000000000,
        0x0000000002000000000000000000080000000100040000000000001000000000,
        0x0000020000000000000000000400000000000000000000000000040000000000,
        0x0000000000040000000000000000000002000000000000010000000002000000,
        0x0000000200000000000000000000000000000000000000000000000000002040,
        0x0000000000000000000000000000000000000000000000000000000000000000],
      gas_used = 107966,
      gas_limit = 6721975,
      difficulty = 0,
      seal = [be_bytes 33 (0xa00000000000000000000000000000000000000000000000000000000000000000 :: 264 word), be_bytes 9 (0x880000000000000000 :: u256)],
      base_fee = None\<rparr>,
     \<lparr>msg_data = words_bytes [
        0xf9013a94eda338e4dc46038493b885327842fd3e301cab39e1a05e9ae1d7c484,
        0xf74d554a503aa825e823725531d97e784dd9b1aacdb58d1f7076b90100000000,
        0x000000000000000000b1185ede04202fe62d38f5db72f71e38ff3e8305000000,
        0x0000000000000000000000000000000000000000000000000000000001000000,
        0x0000000000000000000000000000000000000000000de0b6b3a7640000000000,
        0x0000000000000000000000000000000000000000000000000000000080000000,
        0x0000000000000000000000000000000000000000000000000000000057400189,
        0xb4ab1ef20763630df9743acf155865600daff200d43593c715fdd31c61141abd,
        0x04a99fd6822c8558854ccde39a5684e7a56da27d000064a7b3b6e00d00000000] @ be_bytes 29 (0x0000000000000000000000000000000000000000000000000000000000 :: u256),
      msg_proof = \<lparr>
        block_hash = 0xba80aac46bc6d7f7fdc3eba2a0643e0b2baad96ca69e2709e159d92143e343b6,
        tx_index = 0,
        proof_data = (
          [be_bytes 32 (0xa37efc2c11999db875b5080c244999f8625c165473aa7f9a374b0dfc31f9da85 :: u256)],
          [words_bytes [
        0xf905e9822080b905e3f905e0018301a5beb90100000000000000400000000000,
        0x0000020000000000000000001000000000008000000000000000000000000000,
        0x1000000010000000000000000000000000000000000000000000000400000008,
        0x0000000000000000000080000000000000000000000000000200000000000000,
        0x0000080000000100040000000000001000000000000002000000000000000000,
        0x0400000000000000000000000000040000000000000000000004000000000000,
        0x0000000002000000000000010000000002000000000000020000000000000000,
        0x0000000000000000000000000000000000002040000000000000000000000000,
        0x0000000000000000000000000000000000000000f904d5f9013c94672a95c892,
        0x8c8450b594186cf7954ec269626a2df863a0a78a9be3a7b862d26933ad85fb11,
        0xd80ef66b8f972d7cbba06621d583943a4098a0000000000000000000000000b1,
        0x185ede04202fe62d38f5db72f71e38ff3e8305a0000000000000000000000000,
        0x89b4ab1ef20763630df9743acf155865600daff2b8c000000000000000000000,
        0x00000000000000000000000000000de0b6b3a764000000000000000000000000,
        0x0000000000000000000000000000000000000000006000000000000000000000,
        0x000000000000000000000000000000000000000000a000000000000000000000,
        0x00000000000000000000000000000000000000000020d43593c715fdd31c6114,
        0x1abd04a99fd6822c8558854ccde39a5684e7a56da27d00000000000000000000,
        0x00000000000000000000000000000000000000000000f89b94672a95c8928c84,
        0x50b594186cf7954ec269626a2df863a0ddf252ad1be2c89b69c2b068fc378daa,
        0x952ba7f163c4a11628f55a4df523b3efa000000000000000000000000089b4ab,
        0x1ef20763630df9743acf155865600daff2a00000000000000000000000000000,
        0x000000000000000000000000000000000000a000000000000000000000000000,
        0x00000000000000000000000de0b6b3a7640000f9011c94672a95c8928c8450b5,
        0x94186cf7954ec269626a2df863a0a78a9be3a7b862d26933ad85fb11d80ef66b,
        0x8f972d7cbba06621d583943a4098a0000000000000000000000000b1185ede04,
        0x202fe62d38f5db72f71e38ff3e8305a000000000000000000000000089b4ab1e,
        0xf20763630df9743acf155865600daff2b8a00000000000000000000000000000,
        0x000000000000000000000de0b6b3a76400000000000000000000000000000000,
        0x0000000000000000000000000000000000600000000000000000000000000000,
        0x0000000000000000000000000000000000800000000000000000000000000000,
        0x0000000000000000000000000000000000000000000000000000000000000000,
        0x000000000000000000000000000000000000f89b94672a95c8928c8450b59418,
        0x6cf7954ec269626a2df863a0ddf252ad1be2c89b69c2b068fc378daa952ba7f1,
        0x63c4a11628f55a4df523b3efa000000000000000000000000089b4ab1ef20763,
        0x630df9743acf155865600daff2a0000000000000000000000000000000000000,
        0x0000000000000000000000000000a00000000000000000000000000000000000,
        0x000000000000000de0b6b3a7640000f9013a94eda338e4dc46038493b8853278,
        0x42fd3e301cab39e1a05e9ae1d7c484f74d554a503aa825e823725531d97e784d,
        0xd9b1aacdb58d1f7076b90100000000000000000000000000b1185ede04202fe6,
        0x2d38f5db72f71e38ff3e83050000000000000000000000000000000000000000,
        0x0000000000000000000000010000000000000000000000000000000000000000,
        0x000000000de0b6b3a76400000000000000000000000000000000000000000000,
        0x0000000000000000000000800000000000000000000000000000000000000000,
        0x000000000000000000000057400189b4ab1ef20763630df9743acf155865600d,
        0xaff200d43593c715fdd31c61141abd04a99fd6822c8558854ccde39a5684e7a5,
        0x6da27d000064a7b3b6e00d000000000000000000000000000000000000000000] @ be_bytes 12 (0x000000000000000000000000 :: u256)])\<rparr>\<rparr>)"

end
