(* ===== verification/Benchmarks.thy ===== *)
theory Benchmarks
  imports Runtime_Flows Light_Client_Bench Bench_Messages
begin

text \<open>
  The \<open>benchmarking.rs\<close> files of the pallets other than the light client: each benchmark with its
  set-up, the measured call and the assertions of its \<open>verify\<close> block, run on the storage of the
  runtime.  The accounts, \<open>make_free_balance_be\<close> and the origin of the governance come from the
  framework and are the fields of \<open>bench_env\<close>.
\<close>

section \<open>Environment\<close>

record ('b, 'd) bench_env =
  whitelisted_caller :: account_id
  bench_account :: "string \<Rightarrow> account_id"
  unlookup :: "account_id \<Rightarrow> 'd"
  make_free_balance_be :: "account_id \<Rightarrow> u128 \<Rightarrow> 'b \<Rightarrow> 'b"
  governance_origin :: origin

text \<open>\<open>H160::repeat_byte\<close>\<close>

definition repeat_byte :: "u8 \<Rightarrow> h160" where
  "repeat_byte b = of_be_bytes (replicate 20 b)"

text \<open>\<open>EnsureEthereumAccount::successful_origin\<close> and \<open>Module::successful_dispatch_event\<close> of \<open>pallets/dispatch\<close>.\<close>

definition successful_origin :: origin where
  "successful_origin = DispatchOrigin (repeat_byte 2)"

definition successful_dispatch_event :: "message_id \<Rightarrow> bridge_event option" where
  "successful_dispatch_event i = Some (MessageDispatched i (Ok ()))"

definition put_free :: "('b, 'd) bench_env \<Rightarrow> account_id \<Rightarrow> u128 \<Rightarrow> ('b runtime, 'e, unit) ext" where
  "put_free E w x = modify (\<lambda>s. s\<lparr>rt_foreign := make_free_balance_be E w x (rt_foreign s)\<rparr>)"

text \<open>The set-up of a message from the peer: the origin of the call becomes the configured contract.\<close>

definition put_peer :: "('b runtime, h160) storage \<Rightarrow> ('b runtime, dispatch_error, unit) ext" where
  "put_peer st = (case ensure_ethereum_account successful_origin of
       Ok caller \<Rightarrow> modify (sput st caller)
     | _ \<Rightarrow> lift_res (Err (Other ''Failed to extract caller address from origin'')))"

text \<open>Only the origins of \<open>frame_system\<close> are raw ones.\<close>

fun raw_origin :: "origin \<Rightarrow> (dispatch_error, origin) result" where
  "raw_origin Root = Ok Root"
| "raw_origin (Signed w) = Ok (Signed w)"
| "raw_origin Unsigned = Ok Unsigned"
| "raw_origin _ = Err (Other ''Failed to get raw origin from origin'')"

section \<open>Assets\<close>

definition bench_set_balance :: "asset_id \<Rightarrow> account_id \<Rightarrow> u256 \<Rightarrow> assets \<Rightarrow> assets" where
  "bench_set_balance a who amount s = set_balance a who amount (put_issuance a amount s)"

definition bench_assets_transfer ::
  "('b, 'd, 'f) runtime_lib \<Rightarrow> runtime_constants \<Rightarrow> ('b, 'd) bench_env \<Rightarrow> ('b runtime, dispatch_error, unit) ext" where
  "bench_assets_transfer L K E =
     (let caller = whitelisted_caller E; initial_amount = 1000000000000000000; transfer_amount = 500000000000000000;
          token = Token 0; dest = bench_account E ''recipient'' in
      bind_ext (modify (\<lambda>s. s\<lparr>rt_assets := bench_set_balance token caller initial_amount (rt_assets s)\<rparr>)) (\<lambda>_.
      bind_ext (runtime_dispatch L K (AssetsTransfer token (unlookup E dest) transfer_amount) (Signed caller)) (\<lambda>_.
      bind_ext (assert_ext (\<lambda>s. balances (rt_assets s) token caller = initial_amount - transfer_amount)) (\<lambda>_.
      assert_ext (\<lambda>s. balances (rt_assets s) token dest = transfer_amount)))))"

section \<open>DOT app\<close>

definition bench_dot_lock_with ::
  "('b, 'd, 'f) runtime_lib \<Rightarrow> runtime_constants \<Rightarrow> ('b, 'd) bench_env \<Rightarrow> u128 \<Rightarrow> u128 \<Rightarrow> u128 \<Rightarrow> ('b runtime, dispatch_error, unit) ext" where
  "bench_dot_lock_with L K E balance amount left =
     (let caller = whitelisted_caller E; lock_account = rl_into_account L DotPalletId in
      bind_ext (put_free E caller balance) (\<lambda>_.
      bind_ext (put_free E lock_account 0) (\<lambda>_.
      bind_ext (runtime_dispatch L K (DotLock Incentivized 0 amount) (Signed caller)) (\<lambda>_.
      bind_ext (assert_ext (\<lambda>_. balance \<noteq> 0 \<and> amount \<noteq> 0)) (\<lambda>_.
      bind_ext (assert_ext (\<lambda>s. cur_free (rt_currency L) caller s = left)) (\<lambda>_.
      assert_ext (\<lambda>s. cur_free (rt_currency L) lock_account s = amount)))))))"

definition bench_dot_lock ::
  "('b, 'd, 'f) runtime_lib \<Rightarrow> runtime_constants \<Rightarrow> ('b, 'd) bench_env \<Rightarrow> ('b runtime, dispatch_error, unit) ext" where
  "bench_dot_lock L K E =
     (let existential_deposit = cur_minimum_balance (rt_currency L) in
      bench_dot_lock_with L K E (existential_deposit * 10) (existential_deposit * 9 + 1) 0)"

definition bench_dot_lock_sender_alive ::
  "('b, 'd, 'f) runtime_lib \<Rightarrow> runtime_constants \<Rightarrow> ('b, 'd) bench_env \<Rightarrow> ('b runtime, dispatch_error, unit) ext" where
  "bench_dot_lock_sender_alive L K E =
     (let existential_deposit = cur_minimum_balance (rt_currency L);
          balance = existential_deposit * 10; amount = existential_deposit * 8 in
      bench_dot_lock_with L K E balance amount (balance - amount))"

definition bench_dot_unlock ::
  "('b, 'd, 'f) runtime_lib \<Rightarrow> runtime_constants \<Rightarrow> ('b, 'd) bench_env \<Rightarrow> ('b runtime, dispatch_error, unit) ext" where
  "bench_dot_unlock L K E =
     (let existential_deposit = cur_minimum_balance (rt_currency L); lock_account = rl_into_account L DotPalletId;
          recipient = bench_account E ''recipient''; balance = existential_deposit * 10; amount = existential_deposit * 8 in
      bind_ext (put_peer dot_address_st) (\<lambda>_.
      bind_ext (lift_res (unwrap (wrap_dot amount (rc_decimals K)))) (\<lambda>amount_wrapped.
      bind_ext (put_free E lock_account balance) (\<lambda>_.
      bind_ext (runtime_dispatch L K (DotUnlock 0 (unlookup E recipient) amount_wrapped) successful_origin) (\<lambda>_.
      bind_ext (assert_ext (\<lambda>_. balance \<noteq> 0 \<and> amount \<noteq> 0)) (\<lambda>_.
      bind_ext (assert_ext (\<lambda>s. cur_free (rt_currency L) lock_account s = balance - amount)) (\<lambda>_.
      assert_ext (\<lambda>s. cur_free (rt_currency L) recipient s = amount))))))))"

section \<open>ETH and ERC20 apps\<close>

definition bench_eth_burn ::
  "('b, 'd, 'f) runtime_lib \<Rightarrow> runtime_constants \<Rightarrow> ('b, 'd) bench_env \<Rightarrow> ('b runtime, dispatch_error, unit) ext" where
  "bench_eth_burn L K E =
     (let caller = whitelisted_caller E; amount = 500 in
      bind_ext (sa_deposit (eth_asset (eth_cfg L K)) caller amount) (\<lambda>_.
      bind_ext (runtime_dispatch L K (EthBurn Incentivized (repeat_byte 2) amount) (Signed caller)) (\<lambda>_.
      assert_ext (\<lambda>s. sa_balance (eth_asset (eth_cfg L K)) caller s = 0))))"

definition bench_eth_mint ::
  "('b, 'd, 'f) runtime_lib \<Rightarrow> runtime_constants \<Rightarrow> ('b, 'd) bench_env \<Rightarrow> ('b runtime, dispatch_error, unit) ext" where
  "bench_eth_mint L K E =
     (let recipient = bench_account E ''recipient''; amount = 500 in
      bind_ext (put_peer eth_address_st) (\<lambda>_.
      bind_ext (runtime_dispatch L K (EthMint 0 (unlookup E recipient) amount) successful_origin) (\<lambda>_.
      assert_ext (\<lambda>s. sa_balance (eth_asset (eth_cfg L K)) recipient s = amount))))"

definition bench_erc20_burn ::
  "('b, 'd, 'f) runtime_lib \<Rightarrow> runtime_constants \<Rightarrow> ('b, 'd) bench_env \<Rightarrow> ('b runtime, dispatch_error, unit) ext" where
  "bench_erc20_burn L K E =
     (let caller = whitelisted_caller E; token = repeat_byte 1; amount = 500 in
      bind_ext (ma_deposit (erc20_assets (erc20_cfg L K)) (Token token) caller amount) (\<lambda>_.
      bind_ext (runtime_dispatch L K (Erc20Burn Incentivized token (repeat_byte 2) amount) (Signed caller)) (\<lambda>_.
      assert_ext (\<lambda>s. ma_balance (erc20_assets (erc20_cfg L K)) (Token token) caller s = 0))))"

definition bench_erc20_mint ::
  "('b, 'd, 'f) runtime_lib \<Rightarrow> runtime_constants \<Rightarrow> ('b, 'd) bench_env \<Rightarrow> ('b runtime, dispatch_error, unit) ext" where
  "bench_erc20_mint L K E =
     (let token = repeat_byte 1; recipient = bench_account E ''recipient''; amount = 500 in
      bind_ext (put_peer erc20_address_st) (\<lambda>_.
      bind_ext (runtime_dispatch L K (Erc20Mint token 0 (unlookup E recipient) amount) successful_origin) (\<lambda>_.
      assert_ext (\<lambda>s. ma_balance (erc20_assets (erc20_cfg L K)) (Token token) recipient s = amount))))"

section \<open>Outbound channels\<close>

text \<open>
  \<open>(0..).take(p)\<close> on bytes, as a release build collects it.  The measured hook returns its weight; it
  is the result here, so that it can be compared with what is measured.
\<close>

definition counting_payload :: "nat \<Rightarrow> bytes" where
  "counting_payload p = map of_nat [0..<p]"

definition bench_basic_message :: "bytes \<Rightarrow> basic_message" where
  "bench_basic_message payload = \<lparr>bm_target = 0, bm_nonce = 0, bm_payload = payload\<rparr>"

definition put_basic_out :: "(basic_outbound \<Rightarrow> basic_outbound) \<Rightarrow> ('b runtime, 'e, unit) ext" where
  "put_basic_out f = modify (\<lambda>s. s\<lparr>rt_basic_out := f (rt_basic_out s)\<rparr>)"

definition bench_basic_on_initialize ::
  "('b, 'd, 'f) runtime_lib \<Rightarrow> runtime_constants \<Rightarrow> nat \<Rightarrow> nat \<Rightarrow> ('b runtime, dispatch_error, u64) ext" where
  "bench_basic_on_initialize L K m p =
     bind_ext (put_basic_out (\<lambda>b. b\<lparr>bout_queue := bout_queue b @ replicate m (bench_basic_message (counting_payload p))\<rparr>)) (\<lambda>_.
     bind_ext (gets (\<lambda>s. bout_interval (rt_basic_out s))) (\<lambda>block_number.
     bind_ext (basic_on_initialize (basic_out_cfg L K) block_number) (\<lambda>weight.
     bind_ext (assert_ext (\<lambda>s. length (bout_queue (rt_basic_out s)) = 0)) (\<lambda>_.
     ret weight))))"

definition bench_basic_on_initialize_non_interval ::
  "('b, 'd, 'f) runtime_lib \<Rightarrow> runtime_constants \<Rightarrow> ('b runtime, dispatch_error, u64) ext" where
  "bench_basic_on_initialize_non_interval L K =
     bind_ext (put_basic_out (\<lambda>b. b\<lparr>bout_queue := bout_queue b @ [bench_basic_message (replicate MaxMessagePayloadSize 1)],
       bout_interval := 10\<rparr>)) (\<lambda>_.
     bind_ext (basic_on_initialize (basic_out_cfg L K) 11) (\<lambda>weight.
     bind_ext (assert_ext (\<lambda>s. length (bout_queue (rt_basic_out s)) = 1)) (\<lambda>_.
     ret weight)))"

definition bench_basic_on_initialize_no_messages ::
  "('b, 'd, 'f) runtime_lib \<Rightarrow> runtime_constants \<Rightarrow> ('b runtime, dispatch_error, u64) ext" where
  "bench_basic_on_initialize_no_messages L K =
     bind_ext (put_basic_out (\<lambda>b. b\<lparr>bout_queue := []\<rparr>)) (\<lambda>_.
     bind_ext (gets (\<lambda>s. bout_interval (rt_basic_out s))) (\<lambda>block_number.
     basic_on_initialize (basic_out_cfg L K) block_number))"

definition bench_set_principal ::
  "('b, 'd, 'f) runtime_lib \<Rightarrow> runtime_constants \<Rightarrow> ('b, 'd) bench_env \<Rightarrow> ('b runtime, dispatch_error, unit) ext" where
  "bench_set_principal L K E =
     bind_ext (lift_res (raw_origin (governance_origin E))) (\<lambda>authorized_origin.
     bind_ext (basic_set_principal (basic_out_cfg L K) (rl_lookup L) authorized_origin (unlookup E (bench_account E ''alice''))) (\<lambda>_.
     assert_ext (\<lambda>s. bout_principal (rt_basic_out s) = bench_account E ''alice'')))"

definition bench_incentivized_message :: "bytes \<Rightarrow> incentivized_message" where
  "bench_incentivized_message payload = \<lparr>im_target = 0, im_nonce = 0, im_fee = 0, im_payload = payload\<rparr>"

definition put_incentivized_out :: "(incentivized_outbound \<Rightarrow> incentivized_outbound) \<Rightarrow> ('b runtime, 'e, unit) ext" where
  "put_incentivized_out f = modify (\<lambda>s. s\<lparr>rt_incentivized_out := f (rt_incentivized_out s)\<rparr>)"

definition bench_incentivized_on_initialize ::
  "('b, 'd, 'f) runtime_lib \<Rightarrow> runtime_constants \<Rightarrow> nat \<Rightarrow> nat \<Rightarrow> ('b runtime, dispatch_error, u64) ext" where
  "bench_incentivized_on_initialize L K m p =
     bind_ext (put_incentivized_out (\<lambda>b. b\<lparr>iout_queue := iout_queue b @ replicate m (bench_incentivized_message (counting_payload p))\<rparr>)) (\<lambda>_.
     bind_ext (gets (\<lambda>s. iout_interval (rt_incentivized_out s))) (\<lambda>block_number.
     bind_ext (incentivized_on_initialize (incentivized_out_cfg L K) block_number) (\<lambda>weight.
     bind_ext (assert_ext (\<lambda>s. length (iout_queue (rt_incentivized_out s)) = 0)) (\<lambda>_.
     ret weight))))"

definition bench_incentivized_on_initialize_non_interval ::
  "('b, 'd, 'f) runtime_lib \<Rightarrow> runtime_constants \<Rightarrow> ('b runtime, dispatch_error, u64) ext" where
  "bench_incentivized_on_initialize_non_interval L K =
     bind_ext (put_incentivized_out (\<lambda>b. b\<lparr>iout_queue := iout_queue b @ [bench_incentivized_message (replicate MaxMessagePayloadSize 1)],
       iout_interval := 10\<rparr>)) (\<lambda>_.
     bind_ext (incentivized_on_initialize (incentivized_out_cfg L K) 11) (\<lambda>weight.
     bind_ext (assert_ext (\<lambda>s. length (iout_queue (rt_incentivized_out s)) = 1)) (\<lambda>_.
     ret weight)))"

definition bench_incentivized_on_initialize_no_messages ::
  "('b, 'd, 'f) runtime_lib \<Rightarrow> runtime_constants \<Rightarrow> ('b runtime, dispatch_error, u64) ext" where
  "bench_incentivized_on_initialize_no_messages L K =
     bind_ext (put_incentivized_out (\<lambda>b. b\<lparr>iout_queue := []\<rparr>)) (\<lambda>_.
     bind_ext (gets (\<lambda>s. iout_interval (rt_incentivized_out s))) (\<lambda>block_number.
     incentivized_on_initialize (incentivized_out_cfg L K) block_number))"

definition bench_set_fee ::
  "('b, 'd, 'f) runtime_lib \<Rightarrow> runtime_constants \<Rightarrow> ('b, 'd) bench_env \<Rightarrow> ('b runtime, dispatch_error, unit) ext" where
  "bench_set_fee L K E =
     bind_ext (lift_res (raw_origin (governance_origin E))) (\<lambda>authorized_origin.
     bind_ext (assert_ext (\<lambda>s. iout_fee (rt_incentivized_out s) \<noteq> 32000000)) (\<lambda>_.
     bind_ext (set_fee (incentivized_out_cfg L K) authorized_origin 32000000) (\<lambda>_.
     assert_ext (\<lambda>s. iout_fee (rt_incentivized_out s) = 32000000))))"

section \<open>Inbound channels\<close>

text \<open>\<open>assert_last_event\<close>, where the lack of any event is a panic as well.\<close>

definition assert_last_event :: "bridge_event \<Rightarrow> ('b runtime, 'e, unit) ext" where
  "assert_last_event e = assert_ext (\<lambda>s. rt_events s \<noteq> [] \<and> last (rt_events s) = e)"

definition assert_dispatched :: "message_id \<Rightarrow> ('b runtime, 'e, unit) ext" where
  "assert_dispatched i = (case successful_dispatch_event i of Some e \<Rightarrow> assert_last_event e | None \<Rightarrow> ret ())"

text \<open>\<open>T::Verifier::initialize_storage\<close> with one header, final at once.\<close>

definition initialize_verifier ::
  "('b, 'd, 'f) runtime_lib \<Rightarrow> runtime_constants \<Rightarrow> header \<Rightarrow> ('b runtime, dispatch_error, unit) ext" where
  "initialize_verifier L K header = zoom light_client_st (map_err_ext Other (initialize_storage (lc_cfg L K) [header] 0 0))"

definition bench_basic_submit ::
  "('b, 'd, 'f) runtime_lib \<Rightarrow> runtime_constants \<Rightarrow> ('b, 'd) bench_env \<Rightarrow> header \<times> message \<Rightarrow> ('b runtime, dispatch_error, unit) ext" where
  "bench_basic_submit L K E data =
     (case data of (header, message) \<Rightarrow>
      bind_ext (lift_res (case log_decode (rl_eth L) (msg_data message) of Ok l \<Rightarrow> Ok l | _ \<Rightarrow> Panic)) (\<lambda>l.
      bind_ext (lift_res (unwrap (basic_envelope_try_from (rl_abi L) l))) (\<lambda>envelope.
      bind_ext (modify (\<lambda>s. s\<lparr>rt_basic_in := \<lparr>bin_source_channel = benv_channel envelope, bin_nonce = benv_nonce envelope - 1\<rparr>\<rparr>)) (\<lambda>_.
      bind_ext (initialize_verifier L K header) (\<lambda>_.
      bind_ext (runtime_dispatch L K (BasicInboundSubmit message) (Signed (whitelisted_caller E))) (\<lambda>_.
      bind_ext (assert_ext (\<lambda>s. benv_nonce envelope = bin_nonce (rt_basic_in s))) (\<lambda>_.
      assert_dispatched \<lparr>channel_id = Basic, mid_nonce = benv_nonce envelope\<rparr>)))))))"

definition bench_incentivized_submit ::
  "('b, 'd, 'f) runtime_lib \<Rightarrow> runtime_constants \<Rightarrow> ('b, 'd) bench_env \<Rightarrow> header \<times> message \<Rightarrow> ('b runtime, dispatch_error, unit) ext" where
  "bench_incentivized_submit L K E data =
     (case data of (header, message) \<Rightarrow>
      bind_ext (lift_res (case log_decode (rl_eth L) (msg_data message) of Ok l \<Rightarrow> Ok l | _ \<Rightarrow> Panic)) (\<lambda>l.
      bind_ext (lift_res (case incentivized_envelope_try_from (rl_abi L) (fee_converter K) l of Ok e \<Rightarrow> Ok e | _ \<Rightarrow> Panic)) (\<lambda>envelope.
      bind_ext (modify (\<lambda>s. s\<lparr>rt_incentivized_in := (rt_incentivized_in s)\<lparr>iin_source_channel := ienv_channel envelope,
        iin_nonce := ienv_nonce envelope - 1\<rparr>\<rparr>)) (\<lambda>_.
      bind_ext (initialize_verifier L K header) (\<lambda>_.
      bind_ext (runtime_dispatch L K (IncentivizedInboundSubmit message) (Signed (whitelisted_caller E))) (\<lambda>_.
      bind_ext (assert_ext (\<lambda>s. ienv_nonce envelope = iin_nonce (rt_incentivized_in s))) (\<lambda>_.
      assert_dispatched \<lparr>channel_id = Incentivized, mid_nonce = ienv_nonce envelope\<rparr>)))))))"

definition bench_set_reward_fraction ::
  "('b, 'd, 'f) runtime_lib \<Rightarrow> runtime_constants \<Rightarrow> ('b, 'd) bench_env \<Rightarrow> ('b runtime, dispatch_error, unit) ext" where
  "bench_set_reward_fraction L K E =
     bind_ext (lift_res (raw_origin (governance_origin E))) (\<lambda>authorized_origin.
     bind_ext (assert_ext (\<lambda>s. iin_reward_fraction (rt_incentivized_in s) \<noteq> from_percent 50)) (\<lambda>_.
     bind_ext (runtime_dispatch L K (SetRewardFraction (from_percent 50)) authorized_origin) (\<lambda>_.
     assert_ext (\<lambda>s. iin_reward_fraction (rt_incentivized_in s) = from_percent 50))))"

end
