(* ===== verification/Benchmark_Props.thy ===== *)
theory Benchmark_Props
  imports Benchmarks
begin

text \<open>
  What the benchmarks of the pallets do: on which states they pass, which weights they stand for,
  and which of them cannot pass on a chain started with a specification of this repository.
\<close>

section \<open>The hooks weigh what their benchmarks measure\<close>

lemma assert_ext_run [ext_simps]: "bind_ext (assert_ext b) f s = (if b s then f () s else (Panic, s))"
  by (simp add: assert_ext_def bind_ext_def)

lemma foldl_plus_sum: "foldl (\<lambda>acc n. acc + n) a ls = a + sum_list (ls :: nat list)"
  by (induction ls arbitrary: a) simp_all

lemma average_of_equal: "0 < m \<Longrightarrow> average_size (replicate m p) = p + 1"
  by (simp add: average_size_def foldl_plus_sum sum_list_replicate)

lemma length_counting_payload [simp]: "length (counting_payload p) = p"
  by (simp add: counting_payload_def)

lemma basic_hook_run:
  "bout_interval (rt_basic_out s) \<noteq> 0 \<Longrightarrow> basic_on_initialize (basic_out_cfg L K) now s =
     (if now mod bout_interval (rt_basic_out s) = 0 then basic_commit (basic_out_cfg L K) s
      else (Ok (w_non_interval (rc_basic_weights K)), s))"
  by (simp add: basic_on_initialize_def interval_due_def ext_simps) (simp add: basic_out_cfg_def)

lemma incentivized_hook_run:
  "iout_interval (rt_incentivized_out s) \<noteq> 0 \<Longrightarrow> incentivized_on_initialize (incentivized_out_cfg L K) now s =
     (if now mod iout_interval (rt_incentivized_out s) = 0 then incentivized_commit (incentivized_out_cfg L K) s
      else (Ok (w_non_interval (rc_incentivized_weights K)), s))"
  by (simp add: incentivized_on_initialize_def interval_due_def ext_simps) (simp add: incentivized_out_cfg_def)

lemmas hook_run = basic_hook_run incentivized_hook_run

lemmas out_commit_simps = bout_update_def iout_update_def rt_sys_def st_defs basic_out_cfg_def incentivized_out_cfg_def
  basic_average_payload_size_def incentivized_average_payload_size_def bench_basic_message_def bench_incentivized_message_def
  average_of_equal

text \<open>
  The benchmark of each outcome of the hooks runs it, and the hook charges the weight of that
  benchmark: for \<open>m\<close> messages of \<open>p\<close> bytes the one measured for \<open>m\<close> and \<open>p + 1\<close>.
\<close>

text \<open>
  C35. The benchmarks of the hooks of both outbound channels run to the end on empty queues,
  and the hook returns the weight of the case that the benchmark measures, for m messages of
  p bytes that of m and p + 1.
\<close>

theorem outbound_benchmarks_pass:
  assumes "bout_queue (rt_basic_out s) = []" "bout_interval (rt_basic_out s) \<noteq> 0"
    and "iout_queue (rt_incentivized_out s) = []" "iout_interval (rt_incentivized_out s) \<noteq> 0" "0 < m"
  shows "fst (bench_basic_on_initialize L K m p s) = Ok (w_on_initialize (rc_basic_weights K) (of_nat m) (of_nat (p + 1))) \<and>
    fst (bench_basic_on_initialize_non_interval L K s) = Ok (w_non_interval (rc_basic_weights K)) \<and>
    fst (bench_basic_on_initialize_no_messages L K s) = Ok (w_no_messages (rc_basic_weights K)) \<and>
    fst (bench_incentivized_on_initialize L K m p s) = Ok (w_on_initialize (rc_incentivized_weights K) (of_nat m) (of_nat (p + 1))) \<and>
    fst (bench_incentivized_on_initialize_non_interval L K s) = Ok (w_non_interval (rc_incentivized_weights K)) \<and>
    fst (bench_incentivized_on_initialize_no_messages L K s) = Ok (w_no_messages (rc_incentivized_weights K))"
proof (intro conjI)
  have "11 mod 10 \<noteq> (0 :: u32)" by (simp add: word_unat_eq_iff unat_mod_distrib)
  note hooks = hook_run this
  show "fst (bench_basic_on_initialize L K m p s) = Ok (w_on_initialize (rc_basic_weights K) (of_nat m) (of_nat (p + 1)))"
    using assms by (simp add: bench_basic_on_initialize_def put_basic_out_def ext_simps bind_ext_def [of "basic_on_initialize _ _"]
        hooks basic_commit_run Let_def del: of_nat_add) (simp add: out_commit_simps assert_ext_run ret_def)
  show "fst (bench_basic_on_initialize_non_interval L K s) = Ok (w_non_interval (rc_basic_weights K))"
    using assms by (simp add: bench_basic_on_initialize_non_interval_def put_basic_out_def ext_simps
        bind_ext_def [of "basic_on_initialize _ _"] hooks)
  show "fst (bench_basic_on_initialize_no_messages L K s) = Ok (w_no_messages (rc_basic_weights K))"
    using assms by (simp add: bench_basic_on_initialize_no_messages_def put_basic_out_def ext_simps hooks basic_commit_run Let_def)
      (simp add: basic_out_cfg_def)
  show "fst (bench_incentivized_on_initialize L K m p s) = Ok (w_on_initialize (rc_incentivized_weights K) (of_nat m) (of_nat (p + 1)))"
    using assms by (simp add: bench_incentivized_on_initialize_def put_incentivized_out_def ext_simps
        bind_ext_def [of "incentivized_on_initialize _ _"] hooks incentivized_commit_run Let_def del: of_nat_add)
      (simp add: out_commit_simps assert_ext_run ret_def)
  show "fst (bench_incentivized_on_initialize_non_interval L K s) = Ok (w_non_interval (rc_incentivized_weights K))"
    using assms by (simp add: bench_incentivized_on_initialize_non_interval_def put_incentivized_out_def ext_simps
        bind_ext_def [of "incentivized_on_initialize _ _"] hooks)
  show "fst (bench_incentivized_on_initialize_no_messages L K s) = Ok (w_no_messages (rc_incentivized_weights K))"
    using assms by (simp add: bench_incentivized_on_initialize_no_messages_def put_incentivized_out_def ext_simps hooks
        incentivized_commit_run Let_def) (simp add: incentivized_out_cfg_def)
qed

section \<open>Governance\<close>

lemma more_runtime_calls:
  "runtime_dispatch L K (SetRewardFraction f) = (\<lambda>org. set_reward_fraction (rt_incentivized_in_cfg L K) org f)"
  "runtime_dispatch L K (AssetsTransfer a d x) = (\<lambda>org. zoom assets_st (transfer_call (rl_lookup L) org a d x))"
  "runtime_dispatch L K (Erc20Mint t sender d x) = (\<lambda>org. erc20_mint (erc20_cfg L K) org t sender d x)"
  by (subst runtime_dispatch_fix; simp)+

theorem governance_benchmarks_pass:
  assumes "raw_origin (governance_origin E) = Ok org" "ensure_root_or_half_local_council org"
    and "rl_lookup L (unlookup E (bench_account E ''alice'')) = Some (bench_account E ''alice'')"
  shows "is_ok (fst (bench_set_principal L K E s)) \<and>
    (is_ok (fst (bench_set_fee L K E s)) \<longleftrightarrow> iout_fee (rt_incentivized_out s) \<noteq> 32000000) \<and>
    (is_ok (fst (bench_set_reward_fraction L K E s)) \<longleftrightarrow> iin_reward_fraction (rt_incentivized_in s) \<noteq> 500000000)"
proof (intro conjI)
  show "is_ok (fst (bench_set_principal L K E s))"
    using assms by (simp add: bench_set_principal_def basic_set_principal_def bind_ext_def lift_res_def modify_def ensure_def basic_out_cfg_def bout_update_def st_defs
        assert_ext_def)
  show "is_ok (fst (bench_set_fee L K E s)) \<longleftrightarrow> iout_fee (rt_incentivized_out s) \<noteq> 32000000"
    using assms by (simp add: bench_set_fee_def set_fee_def bind_ext_def lift_res_def modify_def ensure_def incentivized_out_cfg_def iout_update_def st_defs
        assert_ext_def)
  show "is_ok (fst (bench_set_reward_fraction L K E s)) \<longleftrightarrow> iin_reward_fraction (rt_incentivized_in s) \<noteq> 500000000"
    using assms by (simp add: bench_set_reward_fraction_def more_runtime_calls set_reward_fraction_def bind_ext_def lift_res_def modify_def ensure_def incentivized_in_cfg_def
        st_defs assert_ext_def from_percent_def)
qed

section \<open>Transfers and mints\<close>

lemma is_ok_run: "is_ok (fst (m s)) \<longleftrightarrow> (\<exists>a s'. m s = (Ok a, s'))"
  by (cases "m s") (auto simp: is_ok_def split: result.splits)

lemma put_peer_run: "put_peer st = modify (sput st (repeat_byte 2))"
  by (simp add: put_peer_def successful_origin_def)

theorem mint_benchmarks_pass:
  assumes "\<And>w. rl_lookup L (unlookup E w) = Some w" "whitelisted_caller E \<noteq> bench_account E ''recipient''"
    and "\<And>a. balances (rt_assets s) a (bench_account E ''recipient'') = 0"
    and "\<And>a. unat (total_issuance (rt_assets s) a) + 500 < 2 ^ 256"
  shows "is_ok (fst (bench_assets_transfer L K E s)) \<and> is_ok (fst (bench_eth_mint L K E s)) \<and> is_ok (fst (bench_erc20_mint L K E s))"
proof (intro conjI)
  show "is_ok (fst (bench_assets_transfer L K E s))"
    using assms(1-3) by (simp add: bench_assets_transfer_def Let_def bench_set_balance_def ext_simps more_runtime_calls zoom_def st_defs
        transfer_call_def transfer_run bind_ext_def assert_ext_def checked_sub_def checked_add_def word_le_nat_alt)
  have add: "checked_add (total_issuance (rt_assets s) a) 500 = Some (total_issuance (rt_assets s) a + 500)" for a
    using assms(4) [of a] by (simp add: checked_add_def)
  have zero: "checked_add 0 500 = Some (500 :: u256)" by (simp add: checked_add_def)
  note simps = zero Let_def put_peer_run ext_simps runtime_calls more_runtime_calls eth_mint_def erc20_mint_def transactional_def cfg_defs
      single_asset_adaptor_def rt_asset_simps zoom_def successful_origin_def assms(1,3) deposit_run add bind_ext_def
      assert_ext_def rt_sys_def
  show "is_ok (fst (bench_eth_mint L K E s))"
    unfolding bench_eth_mint_def using assms(3) by (simp add: simps modify_def)
  show "is_ok (fst (bench_erc20_mint L K E s))"
    unfolding bench_erc20_mint_def using assms(3) by (simp add: simps modify_def)
qed


section \<open>Fees\<close>

text \<open>The benchmarks of the calls that send a message do so on the incentivized channel.\<close>

lemma router_needs_fee:
  assumes "rt_router L K Incentivized w target p s = (Ok (), s')"
  shows "iout_fee (rt_incentivized_out s) \<le> balances (rt_assets s) ETH w"
  using router_exact [OF assms]
  by (auto simp: withdraw_run message_fee_def checked_simps word_le_nat_alt split: option.splits if_splits)

lemma assert_ext_Ok [ok_simps]: "assert_ext b s = (Ok u, s') \<longleftrightarrow> b s \<and> s' = s"
  by (auto simp: assert_ext_def)

lemma dot_lock_bench_fee:
  assumes "bench_dot_lock_with L K E balance amount left s = (Ok u, s')"
  shows "iout_fee (rt_incentivized_out s) \<le> balances (rt_assets s) ETH (whitelisted_caller E)"
  using assms unfolding bench_dot_lock_with_def runtime_calls lock_def
  by (auto simp: ok_simps Let_def put_free_def dot_cfg_def rt_currency_def zoom_currency_def st_defs dest!: router_needs_fee)

lemma eth_burn_bench_fee:
  assumes "bench_eth_burn L K E s = (Ok u, s')"
  shows "iout_fee (rt_incentivized_out s) \<le> balances (rt_assets s) ETH (whitelisted_caller E)"
  using assms unfolding bench_eth_burn_def runtime_calls eth_burn_def
  by (auto simp: ok_simps Let_def eth_cfg_def single_asset_adaptor_def rt_asset_simps deposit_run withdraw_run checked_simps
      word_le_nat_alt split: option.splits dest!: router_needs_fee)

lemma erc20_burn_bench_fee:
  assumes "bench_erc20_burn L K E s = (Ok u, s')"
  shows "iout_fee (rt_incentivized_out s) \<le> balances (rt_assets s) ETH (whitelisted_caller E)"
  using assms unfolding bench_erc20_burn_def runtime_calls erc20_burn_def
  by (auto simp: ok_simps Let_def erc20_cfg_def rt_asset_simps deposit_run withdraw_run checked_simps
      word_le_nat_alt split: option.splits dest!: router_needs_fee)

text \<open>The outbound queue can take one more message.\<close>

definition queue_room :: "'b runtime \<Rightarrow> bool" where
  "queue_room s \<longleftrightarrow> length (iout_queue (rt_incentivized_out s)) < MaxMessagesPerCommit \<and> iout_nonce (rt_incentivized_out s) \<noteq> - 1"

lemma router_sends:
  assumes "queue_room s" "length p \<le> MaxMessagePayloadSize"
    and "withdraw ETH w (iout_fee (rt_incentivized_out s)) (rt_assets s) = (Ok (), A)"
  shows "\<exists>s'. rt_router L K Incentivized w target p s = (Ok (), s') \<and> rt_assets s' = A"
proof -
  have "\<exists>v. checked_add (iout_nonce (rt_incentivized_out s)) 1 = Some v"
    using assms(1) unsigned_less [of "iout_nonce (rt_incentivized_out s)", where ?'a = nat]
    by (auto simp: queue_room_def checked_add_def word_unat_eq_iff unat_max_word)
  then show ?thesis using assms
    by (auto simp: rt_router_def incentivized_out_submit_Ok Let_def incentivized_out_cfg_def st_defs queue_room_def
        single_asset_adaptor_def rt_asset_simps zoom_def Ether_def iout_nonce_item_def iout_update_def rt_sys_def)
qed


lemma checked_add_sub: "checked_add a b = Some c \<Longrightarrow> checked_sub c b = Some a"
  by (simp add: checked_simps)

lemma deposit_then_withdrawn:
  assumes "deposit a w x A = (Ok (), A1)"
  shows "withdraw a w x A1 = (Ok (), A)"
  using assms by (auto simp: deposit_run withdraw_run checked_add_sub balance_item_def put_issuance_def split: option.splits if_splits)

theorem eth_burn_benchmark_iff:
  assumes "assets_inv (rt_assets s)" "unat (total_issuance (rt_assets s) ETH) + 500 < 2 ^ 256" "queue_room s"
    and "length (eth_payload_encode (rl_abi L) \<lparr>ep_sender = whitelisted_caller E, ep_recipient = repeat_byte 2, ep_amount = 500\<rparr>) \<le> MaxMessagePayloadSize"
  shows "is_ok (fst (bench_eth_burn L K E s)) \<longleftrightarrow>
    balances (rt_assets s) ETH (whitelisted_caller E) = iout_fee (rt_incentivized_out s)"
proof -
  let ?w = "whitelisted_caller E" and ?fee = "iout_fee (rt_incentivized_out s)"
  let ?p = "eth_payload_encode (rl_abi L) \<lparr>ep_sender = ?w, ep_recipient = repeat_byte 2, ep_amount = 500\<rparr>"
  have le: "unat (balances (rt_assets s) ETH ?w) \<le> unat (total_issuance (rt_assets s) ETH)" by (rule balance_le [OF assms(1)])
  then obtain A1 where A1: "deposit ETH ?w 500 (rt_assets s) = (Ok (), A1)"
    using assms(2) by (simp add: deposit_run checked_add_def)
  have undo: "withdraw ETH ?w 500 A1 = (Ok (), rt_assets s)" by (rule deposit_then_withdrawn [OF A1])
  have run: "is_ok (fst (bench_eth_burn L K E s)) \<longleftrightarrow>
      (\<exists>s'. rt_router L K Incentivized ?w (rt_eth_address s) ?p s = (Ok (), s') \<and> balances (rt_assets s') ETH ?w = 0)"
    unfolding is_ok_run bench_eth_burn_def Let_def runtime_calls eth_burn_def
    by (auto simp: ok_simps Let_def eth_cfg_def single_asset_adaptor_def rt_asset_simps A1 undo zoom_def rt_sys_def)
  show ?thesis
  proof
    assume "is_ok (fst (bench_eth_burn L K E s))"
    then obtain s' where s': "rt_router L K Incentivized ?w (rt_eth_address s) ?p s = (Ok (), s')" "balances (rt_assets s') ETH ?w = 0"
      using run by blast
    then have "unat (balances (rt_assets s) ETH ?w) = unat ?fee"
      using router_exact [OF s'(1)] withdraw_effect [OF assms(1), of ETH ?w ?fee "rt_assets s'"] by (simp add: message_fee_def)
    then show "balances (rt_assets s) ETH ?w = ?fee" by (simp only: word_unat_eq_iff)
  next
    assume fee: "balances (rt_assets s) ETH ?w = ?fee"
    have "\<exists>A. withdraw ETH ?w ?fee (rt_assets s) = (Ok (), A) \<and> balances A ETH ?w = 0"
      using le fee by (auto simp: withdraw_run checked_sub_def word_le_nat_alt)
    then obtain A where A: "withdraw ETH ?w ?fee (rt_assets s) = (Ok (), A)" "balances A ETH ?w = 0" by blast
    from router_sends [OF assms(3,4) A(1), of L K "rt_eth_address s"] A(2) show "is_ok (fst (bench_eth_burn L K E s))"
      unfolding run by blast
  qed
qed


section \<open>Locks and unlocks\<close>

text \<open>
  What the benchmarks of the DOT app expect of the native currency, beyond the laws: balances can be
  set, an amount that is there and above the minimum can be transferred, and no account is left
  below the minimum balance.
\<close>

definition bench_currency :: "'b currency \<Rightarrow> (account_id \<Rightarrow> u128 \<Rightarrow> 'b \<Rightarrow> 'b) \<Rightarrow> bool" where
  "bench_currency C put \<longleftrightarrow> transfer_law C \<and>
     (\<forall>w x b. x = 0 \<or> cur_minimum_balance C \<le> x \<longrightarrow> cur_free C w (put w x b) = x \<and> unmoved C {w} b (put w x b)) \<and>
     (\<forall>w v x k b. w \<noteq> v \<longrightarrow> x \<le> cur_free C w b \<longrightarrow> cur_minimum_balance C \<le> x \<longrightarrow> cur_free C v b = 0 \<longrightarrow>
        (k = KeepAlive \<longrightarrow> cur_minimum_balance C \<le> cur_free C w b - x) \<longrightarrow>
        (\<exists>b'. cur_transfer C w v x k b = (Ok (), b') \<and> (cur_free C w b' = 0 \<or> cur_minimum_balance C \<le> cur_free C w b')))"

lemma bench_transfer:
  assumes "bench_currency C put" "w \<noteq> v" "cur_free C w b = m" "cur_free C v b = 0" "x \<le> m" "cur_minimum_balance C \<le> x"
    and "k = KeepAlive \<longrightarrow> cur_minimum_balance C \<le> m - x"
  shows "\<exists>b'. cur_transfer C w v x k b = (Ok (), b') \<and> cur_free C v b' = x \<and>
    cur_free C w b' = (if m - x < cur_minimum_balance C then 0 else m - x)"
proof -
  obtain b' where b': "cur_transfer C w v x k b = (Ok (), b')" "cur_free C w b' = 0 \<or> cur_minimum_balance C \<le> cur_free C w b'"
    using assms unfolding bench_currency_def by blast
  have "transfer_law C" using assms(1) by (simp add: bench_currency_def)
  note law = this [unfolded transfer_law_def, rule_format, OF b'(1)]
  then have v: "cur_free C v b' = x" using assms(2,4) by (simp add: word_unat_eq_iff)
  obtain dust where d: "unat m = unat (cur_free C w b') + unat x + unat dust"
      "dust = 0 \<or> dust < cur_minimum_balance C \<and> cur_free C w b' = 0"
    using law assms(2,3) by auto
  have "unat (m - x) = unat m - unat x" using assms(5) by (simp add: unat_sub)
  then have "cur_free C w b' = (if m - x < cur_minimum_balance C then 0 else m - x)"
    using d b'(2) by (auto simp: word_unat_eq_iff word_less_nat_alt word_le_nat_alt)
  then show ?thesis using b'(1) v by blast
qed


lemma rt_transfer_run:
  "cur_transfer (rl_currency L) w v x k (rt_foreign s) = (Ok (), b) \<Longrightarrow> cur_transfer (rt_currency L) w v x k s = (Ok (), s\<lparr>rt_foreign := b\<rparr>)"
  by (simp add: rt_currency_def zoom_currency_def zoom_def st_defs)

lemma router_keeps_foreign: "rt_router L K c w target p s = (Ok (), s') \<Longrightarrow> rt_foreign s' = rt_foreign s"
  by (cases c) (auto simp: rt_router_def basic_out_submit_Ok incentivized_out_submit_Ok Let_def cfg_defs st_defs rt_sys_def
      bout_nonce_item_def bout_update_def iout_nonce_item_def iout_update_def single_asset_adaptor_def rt_asset_simps ok_simps)

text \<open>The fee of the channel can be paid and the message fits.\<close>

definition can_send :: "('b, 'd, 'f) runtime_lib \<Rightarrow> account_id \<Rightarrow> 'b runtime \<Rightarrow> bool" where
  "can_send L w s \<longleftrightarrow> queue_room s \<and> (\<forall>p. length (dot_payload_encode (rl_abi L) p) \<le> MaxMessagePayloadSize) \<and>
     assets_inv (rt_assets s) \<and> iout_fee (rt_incentivized_out s) \<le> balances (rt_assets s) ETH w"

lemma can_send_router:
  assumes "can_send L w s"
  shows "\<exists>s'. rt_router L K Incentivized w target (dot_payload_encode (rl_abi L) p) s = (Ok (), s')"
proof -
  have "unat (balances (rt_assets s) ETH w) \<le> unat (total_issuance (rt_assets s) ETH)"
    using assms by (intro balance_le) (simp add: can_send_def)
  then have "\<exists>A. withdraw ETH w (iout_fee (rt_incentivized_out s)) (rt_assets s) = (Ok (), A)"
    using assms by (simp add: can_send_def withdraw_run checked_sub_def word_le_nat_alt)
  then show ?thesis using assms router_sends [of s "dot_payload_encode (rl_abi L) p"] unfolding can_send_def by blast
qed

lemma dot_lock_bench_passes:
  assumes C: "bench_currency (rl_currency L) (make_free_balance_be E)" and ne: "whitelisted_caller E \<noteq> rl_into_account L DotPalletId"
    and d: "unat (rc_decimals K) \<le> 18" and send: "can_send L (whitelisted_caller E) s"
    and x: "cur_minimum_balance (rl_currency L) \<le> balance" "amount \<le> balance" "cur_minimum_balance (rl_currency L) \<le> amount" "amount \<noteq> 0"
    and left: "left = (if balance - amount < cur_minimum_balance (rl_currency L) then 0 else balance - amount)"
  shows "is_ok (fst (bench_dot_lock_with L K E balance amount left s))"
proof -
  let ?w = "whitelisted_caller E" and ?v = "rl_into_account L DotPalletId" and ?put = "make_free_balance_be E"
  let ?b = "?put ?v 0 (?put ?w balance (rt_foreign s))"
  have law: "y = 0 \<or> cur_minimum_balance (rl_currency L) \<le> y \<Longrightarrow>
      cur_free (rl_currency L) u (?put u y b) = y \<and> (\<forall>u'. u' \<noteq> u \<longrightarrow> cur_free (rl_currency L) u' (?put u y b) = cur_free (rl_currency L) u' b)" for u y b
    using C unfolding bench_currency_def unmoved_def by auto
  have "cur_free (rl_currency L) ?w ?b = balance" "cur_free (rl_currency L) ?v ?b = 0"
    using law [of balance] law [of 0] x(1) ne by auto
  from bench_transfer [OF C ne this x(2,3), of AllowDeath] obtain b' where
    b': "cur_transfer (rl_currency L) ?w ?v amount AllowDeath ?b = (Ok (), b')" "cur_free (rl_currency L) ?v b' = amount"
      "cur_free (rl_currency L) ?w b' = left" using left by auto
  obtain wrapped where w: "wrap_dot amount (rc_decimals K) = Some wrapped" by (rule wrap_value [OF d])
  have "can_send L ?w (s\<lparr>rt_foreign := b'\<rparr>)" using send by (simp add: can_send_def queue_room_def)
  from can_send_router [OF this, of K "rt_dot_address s" "\<lparr>dp_sender = ?w, dp_recipient = 0, dp_amount = wrapped\<rparr>"]
  obtain s' where s': "rt_router L K Incentivized ?w (rt_dot_address s)
      (dot_payload_encode (rl_abi L) \<lparr>dp_sender = ?w, dp_recipient = 0, dp_amount = wrapped\<rparr>) (s\<lparr>rt_foreign := b'\<rparr>) = (Ok (), s')" by blast
  have "lock (dot_cfg L K) (Signed ?w) Incentivized 0 amount (s\<lparr>rt_foreign := ?b\<rparr>) = (Ok (), deposit_event rt_sys (Locked ?w 0 amount) s')"
    using rt_transfer_run [of L ?w ?v amount AllowDeath "s\<lparr>rt_foreign := ?b\<rparr>" b'] b'(1) s'
    by (simp add: lock_def ok_simps Let_def dot_cfg_def w st_defs)
  then show ?thesis
    using router_keeps_foreign [OF s'] b'(2,3) x
    unfolding is_ok_run bench_dot_lock_with_def Let_def put_free_def runtime_calls by (auto simp: ok_simps rt_sys_def)
qed


theorem dot_benchmarks_pass:
  assumes C: "bench_currency (rl_currency L) (make_free_balance_be E)" and ne: "whitelisted_caller E \<noteq> rl_into_account L DotPalletId"
    and r: "bench_account E ''recipient'' \<noteq> rl_into_account L DotPalletId" "cur_free (rl_currency L) (bench_account E ''recipient'') (rt_foreign s) = 0"
      "rl_lookup L (unlookup E (bench_account E ''recipient'')) = Some (bench_account E ''recipient'')"
    and d: "unat (rc_decimals K) \<le> 18" and send: "can_send L (whitelisted_caller E) s"
    and e: "1 < unat (cur_minimum_balance (rl_currency L))" "unat (cur_minimum_balance (rl_currency L)) * 10 < 2 ^ 128"
  shows "is_ok (fst (bench_dot_lock L K E s)) \<and> is_ok (fst (bench_dot_lock_sender_alive L K E s)) \<and> is_ok (fst (bench_dot_unlock L K E s))"
proof -
  let ?e = "cur_minimum_balance (rl_currency L)" and ?v = "rl_into_account L DotPalletId" and ?r = "bench_account E ''recipient''"
  have n: "unat (?e * 10) = unat ?e * 10" "unat (?e * 8) = unat ?e * 8" "unat (?e * 9 + 1) = unat ?e * 9 + 1"
    using e by (simp_all add: unat_word_ariths)
  have le: "?e \<le> ?e * 10" "?e * 8 \<le> ?e * 10" "?e * 9 + 1 \<le> ?e * 10" "?e \<le> ?e * 8" "?e \<le> ?e * 9 + 1"
    using n e(1) by (simp_all add: word_le_nat_alt)
  have sub: "unat (?e * 10 - ?e * 8) = unat ?e * 2" "unat (?e * 10 - (?e * 9 + 1)) = unat ?e - 1"
    using unat_sub [OF le(2)] unat_sub [OF le(3)] n by linarith+
  have nz: "?e * 8 \<noteq> 0" "?e * 9 + 1 \<noteq> 0" "?e * 10 \<noteq> 0" using n e(1) by (auto simp: word_unat_eq_iff)
  have lt: "?e * 10 - (?e * 9 + 1) < ?e" "\<not> ?e * 10 - ?e * 8 < ?e" using sub e(1) by (simp_all only: word_less_nat_alt)
  have locks: "is_ok (fst (bench_dot_lock L K E s))" "is_ok (fst (bench_dot_lock_sender_alive L K E s))"
    unfolding bench_dot_lock_def bench_dot_lock_sender_alive_def Let_def rt_free
    by (rule dot_lock_bench_passes [OF C ne d send le(1) le(3) le(5) nz(2)], simp only: lt if_True)
      (rule dot_lock_bench_passes [OF C ne d send le(1) le(2) le(4) nz(1)], simp only: lt if_False)
  let ?b = "make_free_balance_be E ?v (?e * 10) (rt_foreign s)"
  have b: "cur_free (rl_currency L) ?v ?b = ?e * 10" "cur_free (rl_currency L) ?r ?b = 0"
    using C le(1) r(1,2) unfolding bench_currency_def unmoved_def by auto
  have ne': "?v \<noteq> ?r" and keep: "KeepAlive = KeepAlive \<longrightarrow> ?e \<le> ?e * 10 - ?e * 8"
    using r(1) lt(2) by (simp_all only: not_less) auto
  from bench_transfer [OF C ne' b le(2) le(4) keep] obtain b' where b': "cur_transfer (rl_currency L) ?v ?r (?e * 8) KeepAlive ?b = (Ok (), b')"
      "cur_free (rl_currency L) ?r b' = ?e * 8" "cur_free (rl_currency L) ?v b' = ?e * 10 - ?e * 8"
    using lt(2) by (simp only: if_False) blast
  obtain wrapped where w: "wrap_dot (?e * 8) (rc_decimals K) = Some wrapped" "unwrap_dot wrapped (rc_decimals K) = Some (?e * 8)"
    by (rule wrap_then_unwrap [OF d])
  have "unlock (dot_cfg L K) successful_origin 0 (unlookup E ?r) wrapped (s\<lparr>rt_dot_address := repeat_byte 2, rt_foreign := ?b\<rparr>) =
      (Ok (), deposit_event rt_sys (Unlocked 0 ?r (?e * 8)) (s\<lparr>rt_dot_address := repeat_byte 2, rt_foreign := b'\<rparr>))"
    using rt_transfer_run [of L ?v ?r "?e * 8" KeepAlive "s\<lparr>rt_dot_address := repeat_byte 2, rt_foreign := ?b\<rparr>" b'] b'(1)
    by (simp add: unlock_def ok_simps Let_def dot_cfg_def w st_defs r(3) successful_origin_def)
  then have "is_ok (fst (bench_dot_unlock L K E s))"
    using b'(2,3) nz unfolding is_ok_run bench_dot_unlock_def Let_def put_free_def runtime_calls put_peer_run
    by (auto simp: ok_simps rt_sys_def w st_defs)
  then show ?thesis using locks by blast
qed

section \<open>The built-in specifications\<close>

lemma genesis_config:
  assumes "rt_genesis L K g (blank_runtime b) = (Ok (), s)"
  shows "rt_config s = ([g_basic_source g, g_incentivized_source g, g_dot_address g, g_eth_address g, g_erc20_address g, g_erc721_address g],
    g_principal g, g_fee g, g_basic_interval g, g_incentivized_interval g)"
  using assms unfolding rt_genesis_def
  by (auto simp: ok_simps st_defs blank_runtime_def erc721_genesis_def erc721_put_def erc20_genesis_def eth_genesis_def
      dot_genesis_def cfg_defs ret_def rt_config_def)

lemma spec_balances: "assets_genesis [(ETH, w, x)] empty_assets = (Ok (), A) \<Longrightarrow> v \<noteq> w \<Longrightarrow> balances A ETH v = 0"
  by (auto simp: empty_assets_def ok_simps balance_item_def put_issuance_def ret_def)

lemma not_okI: "(\<And>u s'. m s = (Ok u, s') \<Longrightarrow> False) \<Longrightarrow> \<not> is_ok (fst (m s))"
  by (cases "m s") (auto simp: is_ok_def split: result.splits)

text \<open>The first state of a chain that is started with one of the built-in specifications.\<close>

definition spec_start ::
  "('b, 'd, 'f) runtime_lib \<Rightarrow> runtime_constants \<Rightarrow> (('p, 'k) seed_lib \<Rightarrow> u32 \<Rightarrow> 'k chain_spec) \<Rightarrow> ('p, 'k) seed_lib \<Rightarrow> u32 \<Rightarrow> 'b runtime \<Rightarrow> bool" where
  "spec_start L K spec S para_id s \<longleftrightarrow> (K, spec) \<in> set runtime_specs \<and> wasm_binary S \<noteq> None \<and> seeds_valid S \<and>
     (\<exists>g b. cs_genesis (spec S para_id) = Ok g \<and> rt_genesis L K (sg_bridge g) (blank_runtime b) = (Ok (), s))"

lemma spec_start_state:
  assumes "spec_start L K spec S para_id s"
  obtains ferdie g where "get_account_id_from_seed S ''Ferdie'' = Ok ferdie" "spec_ok ferdie g"
    "rt_config s = ([g_basic_source g, g_incentivized_source g, g_dot_address g, g_eth_address g, g_erc20_address g, g_erc721_address g],
      g_principal g, g_fee g, g_basic_interval g, g_incentivized_interval g)"
    "\<And>w. w \<noteq> ferdie \<Longrightarrow> balances (rt_assets s) ETH w = 0"
proof -
  obtain g b where g: "(K, spec) \<in> set runtime_specs" "seeds_valid S" "cs_genesis (spec S para_id) = Ok g"
      "rt_genesis L K (sg_bridge g) (blank_runtime b) = (Ok (), s)" and "wasm_binary S \<noteq> None"
    using assms unfolding spec_start_def by blast
  then obtain ferdie where f: "get_account_id_from_seed S ''Ferdie'' = Ok ferdie" "spec_ok ferdie (sg_bridge g)"
    using runtime_specs_ok [OF g(1) _ g(2), of _ para_id] g(3) by auto
  then have "balances (rt_assets s) ETH w = 0" if "w \<noteq> ferdie" for w
    using genesis_run [OF g(4)] spec_balances [OF _ that] unfolding spec_ok_def by metis
  then show thesis using that [OF f genesis_config [OF g(4)]] by blast
qed

lemma fee_benchmarks_fail:
  assumes "spec_start L K spec S para_id s" "get_account_id_from_seed S ''Ferdie'' \<noteq> Ok (whitelisted_caller E)"
  shows "\<not> is_ok (fst (bench_dot_lock L K E s)) \<and> \<not> is_ok (fst (bench_dot_lock_sender_alive L K E s)) \<and>
    \<not> is_ok (fst (bench_eth_burn L K E s)) \<and> \<not> is_ok (fst (bench_erc20_burn L K E s))"
proof -
  have "\<not> iout_fee (rt_incentivized_out s) \<le> balances (rt_assets s) ETH (whitelisted_caller E)"
    using assms(2) by (rule_tac spec_start_state [OF assms(1)]) (auto simp: rt_config_def spec_ok_def word_le_nat_alt)
  then show ?thesis
    unfolding bench_dot_lock_def bench_dot_lock_sender_alive_def Let_def
    by (intro conjI not_okI) (auto dest: dot_lock_bench_fee eth_burn_bench_fee erc20_burn_bench_fee)
qed

section \<open>Messages from contracts that are not configured\<close>

text \<open>
  The calls that the messages of the benchmarks carry and the contracts they come from, as the
  comments on the data say.
\<close>

datatype bench_call = UnlocksDot | MintsEth | MintsErc20

fun carries :: "bench_call \<Rightarrow> ('d, 'f) call \<Rightarrow> bool" where
  "carries UnlocksDot (DotUnlock _ _ _) = True"
| "carries MintsEth (EthMint _ _ _) = True"
| "carries MintsErc20 (Erc20Mint _ _ _ _) = True"
| "carries _ _ = False"

fun app_address :: "bench_call \<Rightarrow> 'b runtime \<Rightarrow> h160" where
  "app_address UnlocksDot s = rt_dot_address s"
| "app_address MintsEth s = rt_eth_address s"
| "app_address MintsErc20 s = rt_erc20_address s"

fun bench_source :: "bench_call \<Rightarrow> h160" where
  "bench_source UnlocksDot = 0xb1185ede04202fe62d38f5db72f71e38ff3e8305"
| "bench_source MintsEth = 0x774667629726ec1fabebcec0d9139bd1c8f72a23"
| "bench_source MintsErc20 = 0x83428c7db9815f482a39a1715684dcf755021997"

fun basic_data :: "bench_call \<Rightarrow> header \<times> message" where
  "basic_data UnlocksDot = basic_dot_unlock_data"
| "basic_data MintsEth = basic_eth_mint_data"
| "basic_data MintsErc20 = basic_erc20_mint_data"

fun incentivized_data :: "bench_call \<Rightarrow> header \<times> message" where
  "incentivized_data UnlocksDot = incentivized_dot_unlock_data"
| "incentivized_data MintsEth = incentivized_eth_mint_data"
| "incentivized_data MintsErc20 = incentivized_erc20_mint_data"

definition data_decodes :: "('b, 'd, 'f) runtime_lib \<Rightarrow> runtime_constants \<Rightarrow> bench_call \<Rightarrow> bool" where
  "data_decodes L K a \<longleftrightarrow>
     (\<exists>l env c. log_decode (rl_eth L) (msg_data (snd (basic_data a))) = Ok l \<and> basic_envelope_try_from (rl_abi L) l = Some env \<and>
        benv_source env = bench_source a \<and> rl_decode_call L (benv_payload env) = Some c \<and> carries a c) \<and>
     (\<exists>l env c. log_decode (rl_eth L) (msg_data (snd (incentivized_data a))) = Ok l \<and>
        incentivized_envelope_try_from (rl_abi L) (fee_converter K) l = Ok env \<and>
        ienv_source env = bench_source a \<and> rl_decode_call L (ienv_payload env) = Some c \<and> carries a c)"

lemma stranger_refused:
  assumes "carries a c" "source \<noteq> app_address a s"
  shows "runtime_dispatch L K c (DispatchOrigin source) s = (Err BadOrigin, s)"
  using assms
  by (cases a; cases c)
    (auto simp: runtime_calls more_runtime_calls unlock_def eth_mint_def erc20_mint_def transactional_def ext_simps cfg_defs st_defs)

lemma refused_last_event:
  assumes "dispatch (dispatch_cfg L (runtime_dispatch L K)) source i payload s = (Ok (), s')"
    and "rl_decode_call L payload = Some c" "carries a c" "source \<noteq> app_address a s"
  shows "last (rt_events s') = MessageDispatched i (Err BadOrigin)"
  using assms(1,2) stranger_refused [OF assms(3,4), of L K]
  by (auto simp: dispatch_reports dispatch_cfg_def call_filter_all_def rt_sys_def)

lemma verified_data: "verify (lc_cfg L K) m c = (Ok l, c') \<Longrightarrow> log_decode (rl_eth L) (msg_data m) = Ok l"
  by (auto simp: verify_def lc_cfg_def ok_simps split: if_splits)

lemma app_address_frame [simp]:
  "app_address a (s\<lparr>rt_basic_in := v\<rparr>) = app_address a s" "app_address a (s\<lparr>rt_incentivized_in := w\<rparr>) = app_address a s"
  "app_address a (s\<lparr>rt_foreign := b\<rparr>) = app_address a s" "app_address a (s\<lparr>rt_light_client := c\<rparr>) = app_address a s"
  by (cases a; simp)+

lemma initialize_verifier_frame: "initialize_verifier L K h s = (Ok u, s') \<Longrightarrow> \<exists>c. s' = s\<lparr>rt_light_client := c\<rparr>"
  by (auto simp: initialize_verifier_def ok_simps st_defs)

lemma assert_dispatched_Ok: "assert_dispatched i s = (Ok u, s') \<Longrightarrow> last (rt_events s) = MessageDispatched i (Ok ())"
  by (auto simp: assert_dispatched_def successful_dispatch_event_def assert_last_event_def ok_simps)

lemma basic_submit_bench_fails:
  assumes "data_decodes L K a" "bench_source a \<noteq> app_address a s"
  shows "\<not> is_ok (fst (bench_basic_submit L K E (basic_data a) s))"
proof (rule not_okI)
  fix u s'
  assume run: "bench_basic_submit L K E (basic_data a) s = (Ok u, s')"
  obtain h m where data: "basic_data a = (h, m)" by fastforce
  obtain l env c where d: "log_decode (rl_eth L) (msg_data m) = Ok l" "basic_envelope_try_from (rl_abi L) l = Some env"
      "benv_source env = bench_source a" "rl_decode_call L (benv_payload env) = Some c" "carries a c"
    using assms(1) data unfolding data_decodes_def by auto
  obtain v t t' where t: "initialize_verifier L K h (s\<lparr>rt_basic_in := v\<rparr>) = (Ok (), t)"
      "runtime_dispatch L K (BasicInboundSubmit m) (Signed (whitelisted_caller E)) t = (Ok (), t')"
      "last (rt_events t') = MessageDispatched \<lparr>channel_id = Basic, mid_nonce = benv_nonce env\<rparr> (Ok ())"
    using run unfolding bench_basic_submit_def data by (auto simp: ok_simps d dest!: assert_dispatched_Ok)
  have a: "app_address a t = app_address a s" using initialize_verifier_frame [OF t(1)] by auto
  from t(2) show False
  proof (cases rule: basic_accepted)
    case (1 who l' env')
    then have "env' = env" using verified_data [OF 1(2)] d by auto
    then show False using refused_last_event [OF 1(6), of c a] a d t(3) assms(2) by auto
  qed
qed

lemma incentivized_submit_bench_fails:
  assumes "data_decodes L K a" "bench_source a \<noteq> app_address a s"
  shows "\<not> is_ok (fst (bench_incentivized_submit L K E (incentivized_data a) s))"
proof (rule not_okI)
  fix u s'
  assume run: "bench_incentivized_submit L K E (incentivized_data a) s = (Ok u, s')"
  obtain h m where data: "incentivized_data a = (h, m)" by fastforce
  obtain l env c where d: "log_decode (rl_eth L) (msg_data m) = Ok l"
      "incentivized_envelope_try_from (rl_abi L) (fee_converter K) l = Ok env"
      "ienv_source env = bench_source a" "rl_decode_call L (ienv_payload env) = Some c" "carries a c"
    using assms(1) data unfolding data_decodes_def by auto
  obtain v t t' where t: "initialize_verifier L K h (s\<lparr>rt_incentivized_in := v\<rparr>) = (Ok (), t)"
      "runtime_dispatch L K (IncentivizedInboundSubmit m) (Signed (whitelisted_caller E)) t = (Ok (), t')"
      "last (rt_events t') = MessageDispatched \<lparr>channel_id = Incentivized, mid_nonce = ienv_nonce env\<rparr> (Ok ())"
    using run unfolding bench_incentivized_submit_def data by (auto simp: ok_simps d dest!: assert_dispatched_Ok)
  have a: "app_address a t = app_address a s" using initialize_verifier_frame [OF t(1)] by auto
  from t(2) show False
  proof (cases rule: incentivized_accepted)
    case (1 l' env' b)
    then have "env' = env" using verified_data [OF 1(1)] d by auto
    then show False using refused_last_event [OF 1(5), of c a] a d t(3) assms(2) by auto
  qed
qed

lemma submit_benchmarks_fail:
  assumes "spec_start L K spec S para_id s" "data_decodes L K a"
  shows "\<not> is_ok (fst (bench_basic_submit L K E (basic_data a) s)) \<and>
    \<not> is_ok (fst (bench_incentivized_submit L K E (incentivized_data a) s))"
proof -
  have "bench_source a \<noteq> app_address a s"
    by (rule spec_start_state [OF assms(1)]) (cases a; auto simp: rt_config_def spec_ok_def)
  then show ?thesis using basic_submit_bench_fails incentivized_submit_bench_fails assms(2) by blast
qed

text \<open>
  C36. On the genesis of every built-in specification the benchmarks of the DOT lock, the
  ETH burn and the ERC20 burn fail unless the caller is the account that holds all ether,
  and the submit benchmarks of both inbound channels fail on each of their three messages,
  given that these decode as their comments say.
\<close>

theorem spec_benchmarks_fail:
  assumes "spec_start L K spec S para_id s"
  shows "(get_account_id_from_seed S ''Ferdie'' \<noteq> Ok (whitelisted_caller E) \<longrightarrow>
      \<not> is_ok (fst (bench_dot_lock L K E s)) \<and> \<not> is_ok (fst (bench_dot_lock_sender_alive L K E s)) \<and>
      \<not> is_ok (fst (bench_eth_burn L K E s)) \<and> \<not> is_ok (fst (bench_erc20_burn L K E s))) \<and>
    (data_decodes L K a \<longrightarrow> \<not> is_ok (fst (bench_basic_submit L K E (basic_data a) s)) \<and>
      \<not> is_ok (fst (bench_incentivized_submit L K E (incentivized_data a) s)))"
  using fee_benchmarks_fail [OF assms] submit_benchmarks_fail [OF assms] by blast

end
