(* ===== verification/Benchmark_Witnesses.thy ===== *)
theory Benchmark_Witnesses
  imports Benchmark_Props
begin

text \<open>
  The properties of the benchmarks on the small instance of \<open>Runtime_Samples\<close>, and on a chain of the
  runtime \<open>snowbridge\<close> whose libraries decode every message as the comments on the data say.
\<close>

definition sample_env :: "account_id \<Rightarrow> (ledger, account_id) bench_env" where
  "sample_env caller = \<lparr>whitelisted_caller = caller, bench_account = (\<lambda>_. 7), unlookup = id,
     make_free_balance_be = (\<lambda>w x b. b\<lparr>ledger_free := (ledger_free b)(w := x)\<rparr>), governance_origin = Root\<rparr>"

theorem outbound_benchmarks_pass_witness:
  "fst (bench_basic_on_initialize sample_rl snowbridge 2 3 sample_rt) = Ok (w_on_initialize snowbridge_basic_weights 2 4)"
  using outbound_benchmarks_pass [of sample_rt 2 sample_rl snowbridge 3] by (simp add: sample_rt_def snowbridge_def)

theorem governance_benchmarks_pass_witness:
  "is_ok (fst (bench_set_principal sample_rl snowbridge (sample_env 1) sample_rt))"
  using governance_benchmarks_pass [of "sample_env 1" Root sample_rl snowbridge sample_rt] by (simp add: sample_env_def sample_rl_def)

theorem mint_benchmarks_pass_witness:
  "is_ok (fst (bench_eth_mint sample_rl snowbridge (sample_env 1) sample_rt))"
proof -
  have "unat (total_issuance (rt_assets sample_rt) a) + 500 < 2 ^ 256" for a
    by (cases a) (simp_all add: sample_rt_def sample_rt_assets_def empty_assets_def)
  then show ?thesis
    using mint_benchmarks_pass [of sample_rl "sample_env 1" sample_rt snowbridge]
    by (simp add: sample_env_def sample_rl_def) (simp add: sample_rt_def sample_rt_assets_def empty_assets_def)
qed

lemma sample_room: "queue_room sample_rt"
  by (simp add: queue_room_def sample_rt_def MaxMessagesPerCommit_def)

theorem eth_burn_benchmark_iff_witness:
  "\<not> is_ok (fst (bench_eth_burn sample_rl snowbridge (sample_env 1) sample_rt))"
  using eth_burn_benchmark_iff [OF _ _ sample_room, of sample_rl "sample_env 1" snowbridge] sample_rt_inv
  by (simp add: rt_inv_def sample_env_def)
    (simp add: sample_rt_def sample_rt_assets_def sample_rl_def sample_abi_def eth_payload_encode_def MaxMessagePayloadSize_def)

text \<open>The ledger does what the benchmarks of the DOT app expect.\<close>

lemma sample_bench_currency: "bench_currency ledger_currency (make_free_balance_be (sample_env w))"
  unfolding bench_currency_def
proof (intro conjI allI impI)
  show "transfer_law ledger_currency" using ledger_laws by (simp add: currency_laws_def)
next
  fix w v x k and b :: ledger
  assume "w \<noteq> v" "x \<le> cur_free ledger_currency w b" "cur_free ledger_currency v b = 0"
    "k = KeepAlive \<longrightarrow> cur_minimum_balance ledger_currency \<le> cur_free ledger_currency w b - x"
  then show "\<exists>b'. cur_transfer ledger_currency w v x k b = (Ok (), b') \<and>
      (cur_free ledger_currency w b' = 0 \<or> cur_minimum_balance ledger_currency \<le> cur_free ledger_currency w b')"
    using unsigned_less [of x, where ?'a = nat] by (cases k) (auto simp: ledger_currency_def checked_sub_def checked_add_def)
qed (auto simp: ledger_currency_def sample_env_def unmoved_def)

theorem dot_benchmarks_pass_witness:
  "is_ok (fst (bench_dot_lock sample_rl snowbridge (sample_env 1) sample_rt))"
proof -
  have "can_send sample_rl 1 sample_rt"
    using sample_room sample_rt_inv
    by (simp add: can_send_def rt_inv_def) (simp add: sample_rt_def sample_rt_assets_def sample_rl_def sample_abi_def
        dot_payload_encode_def MaxMessagePayloadSize_def word_le_nat_alt)
  moreover have "rl_currency sample_rl = ledger_currency" "rl_into_account sample_rl DotPalletId = 50" "rl_lookup sample_rl = Some"
    by (simp_all add: sample_rl_def)
  moreover have "cur_minimum_balance ledger_currency = 10" "cur_free ledger_currency 7 (rt_foreign sample_rt) = 0"
    by (simp_all add: ledger_currency_def sample_rt_def sample_ledger_def)
  ultimately show ?thesis
    using dot_benchmarks_pass [of sample_rl "sample_env 1" sample_rt snowbridge] sample_bench_currency [of 1]
    by (simp add: sample_env_def snowbridge_def)
qed

section \<open>A chain of the built-in specification\<close>

definition decoding_lib :: eth_lib where
  "decoding_lib = sample_lib\<lparr>rlp_iter := (\<lambda>_. [[], [], []]), rlp_as_h160 := (\<lambda>_. Ok 5), rlp_as_h256 := (\<lambda>_. Ok 0),
     rlp_data := Ok, keccak_256 := (\<lambda>_. 1)\<rparr>"

definition decoding_rl :: "(ledger, account_id, unit) runtime_lib" where
  "decoding_rl = sample_rl\<lparr>rl_eth := decoding_lib,
     rl_abi := sample_abi\<lparr>abi_decode_event := (\<lambda>e _ _. if e = basic_event_abi
       then Some [TAddress (bench_source UnlocksDot), TUint 1, TBytes []]
       else Some [TAddress (bench_source UnlocksDot), TUint 1, TUint 10000000000, TBytes []])\<rparr>,
     rl_decode_call := (\<lambda>_. Some (DotUnlock 0 7 1000000000000000000))\<rparr>"

lemma decoding_start: "\<exists>s. spec_start decoding_rl snowbridge snowbridge_get_chain_spec sample_seeds 1000 s"
proof -
  have "compute_hash (rl_eth decoding_rl) header_default \<noteq> 0"
    by (simp add: decoding_rl_def decoding_lib_def compute_hash_def)
  moreover have "seeds_valid sample_seeds" by (simp add: seeds_valid_def sample_seeds_def dev_seeds_def)
  moreover have "(snowbridge, snowbridge_get_chain_spec) \<in> set runtime_specs" by (simp add: runtime_specs_def)
  moreover have "wasm_binary sample_seeds = Some [0]" by (simp add: sample_seeds_def)
  ultimately show ?thesis
    using spec_genesis [of snowbridge snowbridge_get_chain_spec sample_seeds "[0]" decoding_rl 1000 sample_ledger]
    unfolding spec_start_def by (metis option.distinct(1))
qed

lemma decoding_data: "data_decodes decoding_rl snowbridge UnlocksDot"
proof -
  have "unat (rc_decimals snowbridge) \<le> 18" by (simp add: snowbridge_def)
  then obtain fee where "fee_converter snowbridge 10000000000 = Some fee"
    unfolding fee_converter_def by (rule unwrap_value)
  then show ?thesis
    unfolding data_decodes_def
    by (simp add: decoding_rl_def decoding_lib_def log_decode_def next_item_def rlp_as_list_def basic_envelope_try_from_def
        incentivized_envelope_try_from_def basic_event_abi_def incentivized_event_abi_def)
qed

theorem spec_benchmarks_fail_witness:
  "\<exists>s. spec_start decoding_rl snowbridge snowbridge_get_chain_spec sample_seeds 1000 s \<and>
     \<not> is_ok (fst (bench_dot_lock decoding_rl snowbridge (sample_env 1) s)) \<and>
     \<not> is_ok (fst (bench_basic_submit decoding_rl snowbridge (sample_env 1) basic_dot_unlock_data s))"
proof -
  obtain s where s: "spec_start decoding_rl snowbridge snowbridge_get_chain_spec sample_seeds 1000 s" using decoding_start by blast
  moreover have "get_account_id_from_seed sample_seeds ''Ferdie'' \<noteq> Ok (whitelisted_caller (sample_env 1))"
    by (simp add: sample_seeds_def sample_env_def get_account_id_from_seed_def get_from_seed_def)
  ultimately show ?thesis using spec_benchmarks_fail [OF s, of "sample_env 1" UnlocksDot] decoding_data by auto
qed

end
