(* ===== verification/Scale_Codec.thy ===== *)
theory Scale_Codec
  imports Bridge_Prelude
begin

unbundle bit_operations_syntax

text \<open>
  \<open>src/ethereum/contracts/ScaleCodec.sol\<close>: how the contracts on Ethereum write integers for the
  parachain, in little-endian byte order, and how they read them.  The contracts are compiled with
  Solidity 0.8, where an overflow reverts.  A revert is an \<open>Err\<close>.
\<close>

section \<open>The library\<close>

text \<open>A loop from \<open>i = data.length\<close> down to 1.\<close>

fun decodeUint256_loop :: "bytes \<Rightarrow> nat \<Rightarrow> u256 \<Rightarrow> (string, u256) result" where
  "decodeUint256_loop data 0 number = Ok number"
| "decodeUint256_loop data (Suc i) number =
     bind_res (ok_or ''overflow'' (checked_pow 2 (8 * i))) (\<lambda>p.
     bind_res (ok_or ''overflow'' (checked_mul (ucast (data ! i)) p)) (\<lambda>x.
     bind_res (ok_or ''overflow'' (checked_add number x)) (decodeUint256_loop data i)))"

definition decodeUint256 :: "bytes \<Rightarrow> (string, u256) result" where
  "decodeUint256 data = decodeUint256_loop data (length data) 0"

definition readByteAtIndex :: "bytes \<Rightarrow> u8 \<Rightarrow> (string, u8) result" where
  "readByteAtIndex data index = (if unat index < length data then Ok (data ! unat index) else Err ''index out of bounds'')"

text \<open>In the last case the function ends without setting its result.\<close>

definition decodeUintCompact :: "bytes \<Rightarrow> (string, u256) result" where
  "decodeUintCompact data =
     bind_res (readByteAtIndex data 0) (\<lambda>b.
     let mode = b AND 3 in
     if mode = 0 then Ok (ucast (drop_bit 2 b))
     else if mode = 1 then
       bind_res (readByteAtIndex data 1) (\<lambda>bb.
       Ok (ucast (push_bit 6 (ucast bb :: u64) + ucast (drop_bit 2 b))))
     else if mode = 2 then
       bind_res (readByteAtIndex data 1) (\<lambda>b2.
       bind_res (readByteAtIndex data 2) (\<lambda>b3.
       bind_res (readByteAtIndex data 3) (\<lambda>b4.
       let x1 = (ucast b :: u32) OR push_bit 8 (ucast b2);
           x2 = x1 OR push_bit 16 (ucast b3);
           x3 = x2 OR push_bit 24 (ucast b4) in
       Ok (ucast (drop_bit 2 x3)))))
     else if mode = 3 then
       bind_res (ensure (drop_bit 2 b > 32) ''Not supported: number cannot be greater than 32 bytes'') (\<lambda>_. Ok 0)
     else Err ''Code should be unreachable'')"

definition reverse256 :: "u256 \<Rightarrow> u256" where
  "reverse256 input =
     (let v = input;
          v = drop_bit 8 (v AND 0xFF00FF00FF00FF00FF00FF00FF00FF00FF00FF00FF00FF00FF00FF00FF00FF00) OR
              push_bit 8 (v AND 0x00FF00FF00FF00FF00FF00FF00FF00FF00FF00FF00FF00FF00FF00FF00FF00FF);
          v = drop_bit 16 (v AND 0xFFFF0000FFFF0000FFFF0000FFFF0000FFFF0000FFFF0000FFFF0000FFFF0000) OR
              push_bit 16 (v AND 0x0000FFFF0000FFFF0000FFFF0000FFFF0000FFFF0000FFFF0000FFFF0000FFFF);
          v = drop_bit 32 (v AND 0xFFFFFFFF00000000FFFFFFFF00000000FFFFFFFF00000000FFFFFFFF00000000) OR
              push_bit 32 (v AND 0x00000000FFFFFFFF00000000FFFFFFFF00000000FFFFFFFF00000000FFFFFFFF);
          v = drop_bit 64 (v AND 0xFFFFFFFFFFFFFFFF0000000000000000FFFFFFFFFFFFFFFF0000000000000000) OR
              push_bit 64 (v AND 0x0000000000000000FFFFFFFFFFFFFFFF0000000000000000FFFFFFFFFFFFFFFF) in
      drop_bit 128 v OR push_bit 128 v)"

definition reverse128 :: "u128 \<Rightarrow> u128" where
  "reverse128 input =
     (let v = input;
          v = drop_bit 8 (v AND 0xFF00FF00FF00FF00FF00FF00FF00FF00) OR push_bit 8 (v AND 0x00FF00FF00FF00FF00FF00FF00FF00FF);
          v = drop_bit 16 (v AND 0xFFFF0000FFFF0000FFFF0000FFFF0000) OR push_bit 16 (v AND 0x0000FFFF0000FFFF0000FFFF0000FFFF);
          v = drop_bit 32 (v AND 0xFFFFFFFF00000000FFFFFFFF00000000) OR push_bit 32 (v AND 0x00000000FFFFFFFF00000000FFFFFFFF) in
      drop_bit 64 v OR push_bit 64 v)"

definition reverse64 :: "u64 \<Rightarrow> u64" where
  "reverse64 input =
     (let v = input;
          v = drop_bit 8 (v AND 0xFF00FF00FF00FF00) OR push_bit 8 (v AND 0x00FF00FF00FF00FF);
          v = drop_bit 16 (v AND 0xFFFF0000FFFF0000) OR push_bit 16 (v AND 0x0000FFFF0000FFFF) in
      drop_bit 32 v OR push_bit 32 v)"

definition reverse32 :: "u32 \<Rightarrow> u32" where
  "reverse32 input =
     (let v = input;
          v = drop_bit 8 (v AND 0xFF00FF00) OR push_bit 8 (v AND 0x00FF00FF) in
      drop_bit 16 v OR push_bit 16 v)"

definition reverse16 :: "u16 \<Rightarrow> u16" where
  "reverse16 input = (let v = input in drop_bit 8 v OR push_bit 8 v)"

definition encode256 :: "u256 \<Rightarrow> bytes" where
  "encode256 input = be_bytes 32 (reverse256 input)"

definition encode128 :: "u128 \<Rightarrow> bytes" where
  "encode128 input = be_bytes 16 (reverse128 input)"

definition encode64 :: "u64 \<Rightarrow> bytes" where
  "encode64 input = be_bytes 8 (reverse64 input)"

definition encode32 :: "u32 \<Rightarrow> bytes" where
  "encode32 input = be_bytes 4 (reverse32 input)"

definition encode16 :: "u16 \<Rightarrow> bytes" where
  "encode16 input = be_bytes 2 (reverse16 input)"

definition encode8 :: "u8 \<Rightarrow> bytes" where
  "encode8 input = be_bytes 1 input"

section \<open>Byte order\<close>

text \<open>The reference: the bytes of a number, the lowest first.\<close>

definition le_bytes :: "nat \<Rightarrow> 'a::len word \<Rightarrow> bytes" where
  "le_bytes n w = map (\<lambda>i. ucast (drop_bit (8 * i) w)) [0..<n]"

lemma length_le_bytes [simp]: "length (le_bytes n w) = n"
  by (simp add: le_bytes_def)

lemma le_bytes_rev: "le_bytes n w = rev (be_bytes n w)"
  by (simp add: le_bytes_def be_bytes_def rev_map)

text \<open>Each step swaps the neighbouring groups of \<open>k\<close> bits.\<close>

definition partner :: "nat \<Rightarrow> nat \<Rightarrow> nat" where
  "partner k n = (if even (n div k) then n + k else n - k)"

definition groups :: "nat \<Rightarrow> 'a::len word \<Rightarrow> 'a word \<Rightarrow> bool" where
  "groups k hi lo \<longleftrightarrow> list_all (\<lambda>n. bit hi n = odd (n div k) \<and> bit lo n = even (n div k)) [0..<LENGTH('a)]"

lemma partner_less:
  assumes "0 < k" "2 * k dvd m" "n < m"
  shows "partner k n < m"
proof (cases "even (n div k)")
  case True
  then obtain q where q: "n div k = 2 * q" by blast
  obtain c where m: "m = 2 * k * c" using assms(2) by blast
  have "n div (2 * k) < c" using assms(1,3) m by (simp add: less_mult_imp_div_less mult.commute)
  moreover have "n div (2 * k) = q" using q by (simp add: div_mult2_eq mult.commute)
  ultimately have "2 * k * (q + 1) \<le> m" using m mult_le_mono2 [of "q + 1" c "2 * k"] by simp
  moreover have "n < k * (2 * q + 1)" using q assms(1) by (metis Suc_eq_plus1 dividend_less_div_times mult.commute mult_Suc_right add.commute)
  ultimately show ?thesis using True by (simp add: partner_def algebra_simps)
qed (use assms in \<open>simp add: partner_def\<close>)

lemma swap_bits:
  fixes v :: "'a::len word"
  assumes "groups k hi lo" "0 < k" "2 * k dvd LENGTH('a)" "n < LENGTH('a)"
  shows "bit (drop_bit k (v AND hi) OR push_bit k (v AND lo)) n = bit v (partner k n)"
proof -
  have g: "bit hi m = odd (m div k)" "bit lo m = even (m div k)" if "m < LENGTH('a)" for m
    using assms(1) that by (auto simp: groups_def list_all_iff)
  show ?thesis
  proof (cases "even (n div k)")
    case True
    have "n + k < LENGTH('a)" using partner_less [OF assms(2-4)] True by (simp add: partner_def)
    moreover have "odd ((n + k) div k)" using True assms(2) by (simp add: div_add_self2)
    moreover have "\<not> bit lo (n - k)" if "k \<le> n"
      using that True assms(2,4) g(2) [of "n - k"] by (simp add: le_div_geq)
    ultimately show ?thesis using True assms(4) g by (auto simp: bit_simps partner_def add.commute)
  next
    case False
    then have k: "k \<le> n" using assms(2) by (metis div_less even_zero not_le_imp_less)
    then have "even ((n - k) div k)" using False assms(2) by (simp add: le_div_geq)
    moreover have "\<not> bit hi (n + k)"
      using False assms(2) g(1) [of "n + k"] bit_imp_le_length [of hi "n + k"] by (auto simp: div_add_self2)
    ultimately show ?thesis using False k assms(4) g by (auto simp: bit_simps partner_def add.commute)
  qed
qed

lemma swap_halves:
  fixes v :: "'a::len word"
  assumes "LENGTH('a) = 2 * k" "n < LENGTH('a)"
  shows "bit (drop_bit k v OR push_bit k v) n = bit v (partner k n)"
proof -
  have "even (n div k) \<longleftrightarrow> n < k"
    using assms div_nat_eqI [of k 1 n] by (cases "n < k") simp_all
  then show ?thesis using assms bit_imp_le_length [of v "n + k"] by (auto simp: bit_simps partner_def add.commute)
qed

text \<open>The masks are checked bit by bit against alternating groups.\<close>

fun bits_match :: "bool list \<Rightarrow> int \<Rightarrow> bool" where
  "bits_match [] v = True"
| "bits_match (b # bs) v = (odd v = b \<and> bits_match bs (v div 2))"

definition alternating :: "bool \<Rightarrow> nat \<Rightarrow> nat \<Rightarrow> bool list" where
  "alternating b k n = concat (replicate n (replicate k b @ replicate k (\<not> b)))"

lemma bits_match_nth: "bits_match bs v \<Longrightarrow> i < length bs \<Longrightarrow> bit v i = bs ! i"
  by (induction bs v arbitrary: i rule: bits_match.induct) (auto simp: bit_0 bit_Suc nth_Cons split: nat.splits)

lemma length_alternating: "length (alternating b k n) = 2 * k * n"
  by (simp add: alternating_def length_concat sum_list_replicate)

lemma alternating_nth: "0 < k \<Longrightarrow> i < 2 * k * n \<Longrightarrow> alternating b k n ! i = (even (i div k) = b)"
proof (induction n arbitrary: i)
  case (Suc n)
  have "alternating b k (Suc n) = (replicate k b @ replicate k (\<not> b)) @ alternating b k n"
    by (simp add: alternating_def)
  moreover have "even (i div k) = even ((i - 2 * k) div k)" if "2 * k \<le> i"
    using that Suc.prems(1) by (simp add: le_div_geq [of k i] le_div_geq [of k "i - k"] mult_2)
  moreover have "i div k = 1" if "\<not> i < k" "i < 2 * k" using that div_nat_eqI [of k 1 i] by simp
  ultimately show ?case using Suc by (auto simp: nth_append mult_2)
qed simp

lemma groupsI:
  assumes "bits_match (alternating False k n) (uint hi)" "bits_match (alternating True k n) (uint lo)"
    and "0 < k" "LENGTH('a) = 2 * k * n"
  shows "groups k hi (lo :: 'a::len word)"
  using assms bits_match_nth [OF assms(1)] bits_match_nth [OF assms(2)]
  by (auto simp: groups_def list_all_iff length_alternating alternating_nth bit_uint_iff)

lemma masks256:
  "groups 8 (0xFF00FF00FF00FF00FF00FF00FF00FF00FF00FF00FF00FF00FF00FF00FF00FF00 :: u256)
    0x00FF00FF00FF00FF00FF00FF00FF00FF00FF00FF00FF00FF00FF00FF00FF00FF"
  "groups 16 (0xFFFF0000FFFF0000FFFF0000FFFF0000FFFF0000FFFF0000FFFF0000FFFF0000 :: u256)
    0x0000FFFF0000FFFF0000FFFF0000FFFF0000FFFF0000FFFF0000FFFF0000FFFF"
  "groups 32 (0xFFFFFFFF00000000FFFFFFFF00000000FFFFFFFF00000000FFFFFFFF00000000 :: u256)
    0x00000000FFFFFFFF00000000FFFFFFFF00000000FFFFFFFF00000000FFFFFFFF"
  "groups 64 (0xFFFFFFFFFFFFFFFF0000000000000000FFFFFFFFFFFFFFFF0000000000000000 :: u256)
    0x0000000000000000FFFFFFFFFFFFFFFF0000000000000000FFFFFFFFFFFFFFFF"
proof -
  show "groups 8 (0xFF00FF00FF00FF00FF00FF00FF00FF00FF00FF00FF00FF00FF00FF00FF00FF00 :: u256)
    0x00FF00FF00FF00FF00FF00FF00FF00FF00FF00FF00FF00FF00FF00FF00FF00FF"
    by (rule groupsI [where n = 16]; (simp; fail)?; code_simp)
  show "groups 16 (0xFFFF0000FFFF0000FFFF0000FFFF0000FFFF0000FFFF0000FFFF0000FFFF0000 :: u256)
    0x0000FFFF0000FFFF0000FFFF0000FFFF0000FFFF0000FFFF0000FFFF0000FFFF"
    by (rule groupsI [where n = 8]; (simp; fail)?; code_simp)
  show "groups 32 (0xFFFFFFFF00000000FFFFFFFF00000000FFFFFFFF00000000FFFFFFFF00000000 :: u256)
    0x00000000FFFFFFFF00000000FFFFFFFF00000000FFFFFFFF00000000FFFFFFFF"
    by (rule groupsI [where n = 4]; (simp; fail)?; code_simp)
  show "groups 64 (0xFFFFFFFFFFFFFFFF0000000000000000FFFFFFFFFFFFFFFF0000000000000000 :: u256)
    0x0000000000000000FFFFFFFFFFFFFFFF0000000000000000FFFFFFFFFFFFFFFF"
    by (rule groupsI [where n = 2]; (simp; fail)?; code_simp)
qed

lemma masks128:
  "groups 8 (0xFF00FF00FF00FF00FF00FF00FF00FF00 :: u128)
    0x00FF00FF00FF00FF00FF00FF00FF00FF"
  "groups 16 (0xFFFF0000FFFF0000FFFF0000FFFF0000 :: u128)
    0x0000FFFF0000FFFF0000FFFF0000FFFF"
  "groups 32 (0xFFFFFFFF00000000FFFFFFFF00000000 :: u128)
    0x00000000FFFFFFFF00000000FFFFFFFF"
proof -
  show "groups 8 (0xFF00FF00FF00FF00FF00FF00FF00FF00 :: u128)
    0x00FF00FF00FF00FF00FF00FF00FF00FF"
    by (rule groupsI [where n = 8]; (simp; fail)?; code_simp)
  show "groups 16 (0xFFFF0000FFFF0000FFFF0000FFFF0000 :: u128)
    0x0000FFFF0000FFFF0000FFFF0000FFFF"
    by (rule groupsI [where n = 4]; (simp; fail)?; code_simp)
  show "groups 32 (0xFFFFFFFF00000000FFFFFFFF00000000 :: u128)
    0x00000000FFFFFFFF00000000FFFFFFFF"
    by (rule groupsI [where n = 2]; (simp; fail)?; code_simp)
qed

lemma masks64:
  "groups 8 (0xFF00FF00FF00FF00 :: u64)
    0x00FF00FF00FF00FF"
  "groups 16 (0xFFFF0000FFFF0000 :: u64)
    0x0000FFFF0000FFFF"
proof -
  show "groups 8 (0xFF00FF00FF00FF00 :: u64)
    0x00FF00FF00FF00FF"
    by (rule groupsI [where n = 4]; (simp; fail)?; code_simp)
  show "groups 16 (0xFFFF0000FFFF0000 :: u64)
    0x0000FFFF0000FFFF"
    by (rule groupsI [where n = 2]; (simp; fail)?; code_simp)
qed

lemma masks32:
  "groups 8 (0xFF00FF00 :: u32)
    0x00FF00FF"
  by (rule groupsI [where n = 2]; (simp; fail)?; code_simp)

text \<open>On the level of bytes, a swap of groups of \<open>8 * k\<close> bits is one of groups of \<open>k\<close> bytes.\<close>

lemma partner_byte: "0 < k \<Longrightarrow> j < 8 \<Longrightarrow> partner (8 * k) (8 * i + j) = 8 * partner k i + j"
proof -
  assume "0 < k" "j < 8"
  then have "(8 * i + j) div (8 * k) = i div k" by (simp add: div_mult2_eq)
  moreover have "k \<le> i" if "odd (i div k)" using that by (metis div_less even_zero not_le_imp_less)
  ultimately show ?thesis by (auto simp: partner_def right_diff_distrib')
qed

lemma le_bytesI:
  assumes "\<And>i j. i < n \<Longrightarrow> j < 8 \<Longrightarrow> bit w (8 * i + j) = bit v (8 * (n - 1 - i) + j)"
  shows "be_bytes n w = le_bytes n v"
proof (rule nth_equalityI)
  show "length (be_bytes n w) = length (le_bytes n v)" by (simp add: le_bytes_def)
  fix k assume k: "k < length (be_bytes n w)"
  then have "be_bytes n w ! k = ucast (drop_bit (8 * (n - 1 - k)) w)" "le_bytes n v ! k = ucast (drop_bit (8 * k) v)"
    by (simp_all add: be_bytes_def le_bytes_def rev_nth)
  moreover have "(ucast (drop_bit (8 * (n - 1 - k)) w) :: u8) = ucast (drop_bit (8 * k) v)"
    using assms [of "n - 1 - k"] k by (intro bit_word_eqI) (simp add: bit_simps)
  ultimately show "be_bytes n w ! k = le_bytes n v ! k" by simp
qed

lemma partner_bytes:
  assumes "j < 8"
  shows "partner 8 (8 * i + j) = 8 * partner 1 i + j" "partner 16 (8 * i + j) = 8 * partner 2 i + j"
    "partner 32 (8 * i + j) = 8 * partner 4 i + j" "partner 64 (8 * i + j) = 8 * partner 8 i + j"
    "partner 128 (8 * i + j) = 8 * partner 16 i + j"
  using partner_byte [of 1 j i] partner_byte [of 2 j i] partner_byte [of 4 j i] partner_byte [of 8 j i] partner_byte [of 16 j i] assms
  by simp_all

lemma partners_reverse:
  "list_all (\<lambda>i. partner 1 (partner 2 (partner 4 (partner 8 (partner 16 i)))) = 31 - i) [0..<32]"
  "list_all (\<lambda>i. partner 1 (partner 2 (partner 4 (partner 8 i))) = 15 - i) [0..<16]"
  "list_all (\<lambda>i. partner 1 (partner 2 (partner 4 i)) = 7 - i) [0..<8]"
  "list_all (\<lambda>i. partner 1 (partner 2 i) = 3 - i) [0..<4]"
  "list_all (\<lambda>i. partner 1 i = 1 - i) [0..<2]"
  by (simp_all add: upt_rec partner_def)

lemma reverse256_bytes: "be_bytes 32 (reverse256 x) = le_bytes 32 x"
proof (rule le_bytesI)
  fix i j :: nat
  assume ij: "i < 32" "j < 8"
  define v1 where "v1 = drop_bit 8 (x AND 0xFF00FF00FF00FF00FF00FF00FF00FF00FF00FF00FF00FF00FF00FF00FF00FF00) OR
    push_bit 8 (x AND 0x00FF00FF00FF00FF00FF00FF00FF00FF00FF00FF00FF00FF00FF00FF00FF00FF)"
  define v2 where "v2 = drop_bit 16 (v1 AND 0xFFFF0000FFFF0000FFFF0000FFFF0000FFFF0000FFFF0000FFFF0000FFFF0000) OR
    push_bit 16 (v1 AND 0x0000FFFF0000FFFF0000FFFF0000FFFF0000FFFF0000FFFF0000FFFF0000FFFF)"
  define v3 where "v3 = drop_bit 32 (v2 AND 0xFFFFFFFF00000000FFFFFFFF00000000FFFFFFFF00000000FFFFFFFF00000000) OR
    push_bit 32 (v2 AND 0x00000000FFFFFFFF00000000FFFFFFFF00000000FFFFFFFF00000000FFFFFFFF)"
  define v4 where "v4 = drop_bit 64 (v3 AND 0xFFFFFFFFFFFFFFFF0000000000000000FFFFFFFFFFFFFFFF0000000000000000) OR
    push_bit 64 (v3 AND 0x0000000000000000FFFFFFFFFFFFFFFF0000000000000000FFFFFFFFFFFFFFFF)"
  have r: "reverse256 x = drop_bit 128 v4 OR push_bit 128 v4"
    unfolding v1_def v2_def v3_def v4_def reverse256_def Let_def ..
  have b1: "bit v1 n = bit x (partner 8 n)" if "n < 256" for n
    using swap_bits [OF masks256(1), of n x] that unfolding v1_def by simp
  have b2: "bit v2 n = bit v1 (partner 16 n)" if "n < 256" for n
    using swap_bits [OF masks256(2), of n v1] that unfolding v2_def by simp
  have b3: "bit v3 n = bit v2 (partner 32 n)" if "n < 256" for n
    using swap_bits [OF masks256(3), of n v2] that unfolding v3_def by simp
  have b4: "bit v4 n = bit v3 (partner 64 n)" if "n < 256" for n
    using swap_bits [OF masks256(4), of n v3] that unfolding v4_def by simp
  have "bit (reverse256 x) (8 * i + j) = bit v4 (partner 128 (8 * i + j))"
    using swap_halves [of 128 "8 * i + j" v4] ij unfolding r by simp
  also have "\<dots> = bit x (partner 8 (partner 16 (partner 32 (partner 64 (partner 128 (8 * i + j))))))"
    using ij by (simp add: b1 b2 b3 b4 partner_less)
  also have "\<dots> = bit x (8 * (partner 1 (partner 2 (partner 4 (partner 8 (partner 16 i))))) + j)"
    using ij by (simp add: partner_bytes)
  finally show "bit (reverse256 x) (8 * i + j) = bit x (8 * (32 - 1 - i) + j)"
    using partners_reverse(1) ij by (simp add: list_all_iff)
qed

lemma reverse128_bytes: "be_bytes 16 (reverse128 x) = le_bytes 16 x"
proof (rule le_bytesI)
  fix i j :: nat
  assume ij: "i < 16" "j < 8"
  define v1 where "v1 = drop_bit 8 (x AND 0xFF00FF00FF00FF00FF00FF00FF00FF00) OR
    push_bit 8 (x AND 0x00FF00FF00FF00FF00FF00FF00FF00FF)"
  define v2 where "v2 = drop_bit 16 (v1 AND 0xFFFF0000FFFF0000FFFF0000FFFF0000) OR
    push_bit 16 (v1 AND 0x0000FFFF0000FFFF0000FFFF0000FFFF)"
  define v3 where "v3 = drop_bit 32 (v2 AND 0xFFFFFFFF00000000FFFFFFFF00000000) OR
    push_bit 32 (v2 AND 0x00000000FFFFFFFF00000000FFFFFFFF)"
  have r: "reverse128 x = drop_bit 64 v3 OR push_bit 64 v3"
    unfolding v1_def v2_def v3_def reverse128_def Let_def ..
  have b1: "bit v1 n = bit x (partner 8 n)" if "n < 128" for n
    using swap_bits [OF masks128(1), of n x] that unfolding v1_def by simp
  have b2: "bit v2 n = bit v1 (partner 16 n)" if "n < 128" for n
    using swap_bits [OF masks128(2), of n v1] that unfolding v2_def by simp
  have b3: "bit v3 n = bit v2 (partner 32 n)" if "n < 128" for n
    using swap_bits [OF masks128(3), of n v2] that unfolding v3_def by simp
  have "bit (reverse128 x) (8 * i + j) = bit v3 (partner 64 (8 * i + j))"
    using swap_halves [of 64 "8 * i + j" v3] ij unfolding r by simp
  also have "\<dots> = bit x (partner 8 (partner 16 (partner 32 (partner 64 (8 * i + j)))))"
    using ij by (simp add: b1 b2 b3 partner_less)
  also have "\<dots> = bit x (8 * (partner 1 (partner 2 (partner 4 (partner 8 i)))) + j)"
    using ij by (simp add: partner_bytes)
  finally show "bit (reverse128 x) (8 * i + j) = bit x (8 * (16 - 1 - i) + j)"
    using partners_reverse(2) ij by (simp add: list_all_iff)
qed

lemma reverse64_bytes: "be_bytes 8 (reverse64 x) = le_bytes 8 x"
proof (rule le_bytesI)
  fix i j :: nat
  assume ij: "i < 8" "j < 8"
  define v1 where "v1 = drop_bit 8 (x AND 0xFF00FF00FF00FF00) OR
    push_bit 8 (x AND 0x00FF00FF00FF00FF)"
  define v2 where "v2 = drop_bit 16 (v1 AND 0xFFFF0000FFFF0000) OR
    push_bit 16 (v1 AND 0x0000FFFF0000FFFF)"
  have r: "reverse64 x = drop_bit 32 v2 OR push_bit 32 v2"
    unfolding v1_def v2_def reverse64_def Let_def ..
  have b1: "bit v1 n = bit x (partner 8 n)" if "n < 64" for n
    using swap_bits [OF masks64(1), of n x] that unfolding v1_def by simp
  have b2: "bit v2 n = bit v1 (partner 16 n)" if "n < 64" for n
    using swap_bits [OF masks64(2), of n v1] that unfolding v2_def by simp
  have "bit (reverse64 x) (8 * i + j) = bit v2 (partner 32 (8 * i + j))"
    using swap_halves [of 32 "8 * i + j" v2] ij unfolding r by simp
  also have "\<dots> = bit x (partner 8 (partner 16 (partner 32 (8 * i + j))))"
    using ij by (simp add: b1 b2 partner_less)
  also have "\<dots> = bit x (8 * (partner 1 (partner 2 (partner 4 i))) + j)"
    using ij by (simp add: partner_bytes)
  finally show "bit (reverse64 x) (8 * i + j) = bit x (8 * (8 - 1 - i) + j)"
    using partners_reverse(3) ij by (simp add: list_all_iff)
qed

lemma reverse32_bytes: "be_bytes 4 (reverse32 x) = le_bytes 4 x"
proof (rule le_bytesI)
  fix i j :: nat
  assume ij: "i < 4" "j < 8"
  define v1 where "v1 = drop_bit 8 (x AND 0xFF00FF00) OR
    push_bit 8 (x AND 0x00FF00FF)"
  have r: "reverse32 x = drop_bit 16 v1 OR push_bit 16 v1"
    unfolding v1_def reverse32_def Let_def ..
  have b1: "bit v1 n = bit x (partner 8 n)" if "n < 32" for n
    using swap_bits [OF masks32, of n x] that unfolding v1_def by simp
  have "bit (reverse32 x) (8 * i + j) = bit v1 (partner 16 (8 * i + j))"
    using swap_halves [of 16 "8 * i + j" v1] ij unfolding r by simp
  also have "\<dots> = bit x (partner 8 (partner 16 (8 * i + j)))"
    using ij by (simp add: b1 partner_less)
  also have "\<dots> = bit x (8 * (partner 1 (partner 2 i)) + j)"
    using ij by (simp add: partner_bytes)
  finally show "bit (reverse32 x) (8 * i + j) = bit x (8 * (4 - 1 - i) + j)"
    using partners_reverse(4) ij by (simp add: list_all_iff)
qed

lemma reverse16_bytes: "be_bytes 2 (reverse16 x) = le_bytes 2 x"
proof (rule le_bytesI)
  fix i j :: nat
  assume ij: "i < 2" "j < 8"
  have "bit (reverse16 x) (8 * i + j) = bit x (partner 8 (8 * i + j))"
    using swap_halves [of 8 "8 * i + j" x] ij unfolding reverse16_def Let_def by simp
  also have "\<dots> = bit x (8 * (partner 1 i) + j)"
    using ij by (simp add: partner_bytes)
  finally show "bit (reverse16 x) (8 * i + j) = bit x (8 * (2 - 1 - i) + j)"
    using partners_reverse(5) ij by (simp add: list_all_iff)
qed

text \<open>The encodings are the little-endian ones.\<close>

lemma encodings_little_endian:
  "encode256 a = le_bytes 32 a \<and> encode128 b = le_bytes 16 b \<and> encode64 c = le_bytes 8 c \<and> encode32 d = le_bytes 4 d \<and>
   encode16 e = le_bytes 2 e \<and> encode8 f = [f]"
  by (simp add: encode256_def encode128_def encode64_def encode32_def encode16_def encode8_def reverse256_bytes reverse128_bytes
      reverse64_bytes reverse32_bytes reverse16_bytes be_bytes_Suc)

section \<open>Decoding\<close>

lemma checked_pow_256: "checked_pow (2 :: u256) n = (if n < 256 then Some (2 ^ n) else None)"
proof -
  have "(2 :: nat) ^ n < 2 ^ 256 \<longleftrightarrow> n < 256" by (rule power_strict_increasing_iff) simp
  then show ?thesis by (simp add: checked_pow_def)
qed

lemma decode_loop:
  assumes "n \<le> 32" "n \<le> length data"
    and "unat number + unat (of_be_bytes (rev (take n data)) :: u256) < 2 ^ 256"
  shows "decodeUint256_loop data n number = Ok (number + of_be_bytes (rev (take n data)))"
  using assms
proof (induction n arbitrary: number)
  case (Suc i)
  let ?low = "of_be_bytes (rev (take i data)) :: u256"
  let ?b = "data ! i"
  have t: "rev (take (Suc i) data) = ?b # rev (take i data)" using Suc.prems(2) by (simp add: take_Suc_conv_app_nth)
  have len: "length (rev (take i data)) = i" using Suc.prems(2) by simp
  have "unat ?low < 256 ^ i" using unat_of_be_bytes_bound [of "rev (take i data)", where 'a = 256] Suc.prems(1) len by simp
  then have v: "unat (of_be_bytes (?b # rev (take i data)) :: u256) = unat ?b * 256 ^ i + unat ?low"
    using unat_of_be_bytes_Cons(1) [of "rev (take i data)", where 'a = 256] Suc.prems(1) len by simp
  have w: "(of_be_bytes (?b # rev (take i data)) :: u256) = ucast ?b * 2 ^ (8 * i) + ?low"
    unfolding of_be_bytes_Cons len by (simp add: power_mult)
  have ip: "(256 :: nat) ^ i = 2 ^ (8 * i)" by (simp add: power_mult)
  have pw: "unat (2 ^ (8 * i) :: u256) = 2 ^ (8 * i)"
  proof -
    have "(2 :: nat) ^ (8 * i) < 2 ^ 256" using Suc.prems(1) by (intro power_strict_increasing) simp_all
    then show ?thesis using unat_of_nat [of "2 ^ (8 * i)", where 'a = 256] by simp
  qed
  have ub: "unat (ucast ?b :: u256) = unat ?b" using unsigned_less [of ?b, where 'a = nat] by (simp add: unat_ucast_mod)
  have sum: "unat number + (unat ?b * 2 ^ (8 * i) + unat ?low) < 2 ^ 256" using Suc.prems(3) unfolding t v ip .
  then have "unat (ucast ?b :: u256) * unat (2 ^ (8 * i) :: u256) < 2 ^ 256" by (simp add: pw ub)
  then have m: "checked_mul (ucast ?b) (2 ^ (8 * i) :: u256) = Some (ucast ?b * 2 ^ (8 * i))"
      "unat (ucast ?b * 2 ^ (8 * i) :: u256) = unat ?b * 2 ^ (8 * i)"
    by (simp_all add: checked_mul_def unat_mult_lem [THEN iffD1] pw ub)
  then have ad: "checked_add number (ucast ?b * 2 ^ (8 * i)) = Some (number + ucast ?b * 2 ^ (8 * i))"
      "unat (number + ucast ?b * 2 ^ (8 * i)) = unat number + unat ?b * 2 ^ (8 * i)"
    using sum by (simp_all add: checked_add_def unat_add_lem [THEN iffD1])
  show ?case
    using Suc.IH [of "number + ucast ?b * 2 ^ (8 * i)"] Suc.prems sum m ad unfolding t w
    by (simp add: checked_pow_256 ok_or_def add.assoc)
qed simp

text \<open>Any byte string of at most 32 bytes is read in little-endian order; a longer one reverts.\<close>

lemma decodeUint256_correct:
  "decodeUint256 data = (if length data \<le> 32 then Ok (of_be_bytes (rev data)) else Err ''overflow'')"
proof (cases "length data \<le> 32")
  case True
  then show ?thesis
    using decode_loop [of "length data" data 0] unsigned_less [of "of_be_bytes (rev data) :: u256", where 'a = nat] by (simp add: decodeUint256_def)
next
  case False
  then obtain i where i: "length data = Suc i" "32 \<le> i" by (cases "length data") auto
  then show ?thesis by (simp add: decodeUint256_def checked_pow_256 ok_or_def)
qed

lemma decode_encode256: "decodeUint256 (encode256 x) = Ok x"
  using of_be_bytes_id [of 32 x] encodings_little_endian
  by (simp add: decodeUint256_correct le_bytes_rev)

text \<open>
  The compact integers of SCALE: up to 30 bits the two lowest bits tell whether 1, 2 or 4 bytes
  follow; above, the first byte tells how many more than 4 bytes follow.
\<close>

definition compact_encode :: "nat \<Rightarrow> bytes" where
  "compact_encode n =
     (if n < 2 ^ 6 then le_bytes 1 (of_nat (4 * n) :: u8)
      else if n < 2 ^ 14 then le_bytes 2 (of_nat (4 * n + 1) :: u16)
      else le_bytes 4 (of_nat (4 * n + 2) :: u32))"

definition compact_big_prefix :: "nat \<Rightarrow> u8" where
  "compact_big_prefix k = of_nat (4 * (k - 4) + 3)"

lemma le_bytes_words:
  "le_bytes 1 w = [ucast w]" "le_bytes 2 w = [ucast w, ucast (drop_bit 8 w)]"
  "le_bytes 4 w = [ucast w, ucast (drop_bit 8 w), ucast (drop_bit 16 w), ucast (drop_bit 24 w)]"
  by (simp_all add: le_bytes_def numeral_eq_Suc)

lemma mode_of: "(b :: u8) AND 3 = of_nat (unat b mod 4)"
proof -
  have m: "(3 :: u8) = mask 2" by (simp add: mask_eq_exp_minus_1)
  have "b AND 3 = take_bit 2 b" unfolding m take_bit_eq_mask ..
  also have "\<dots> = of_nat (take_bit 2 (unat b))" by (simp add: of_nat_take_bit)
  finally show ?thesis by (simp add: take_bit_eq_mod)
qed

lemma bytes_of_u32: "((ucast (ucast w :: u8) OR push_bit 8 (ucast (ucast (drop_bit 8 w) :: u8))) OR
    push_bit 16 (ucast (ucast (drop_bit 16 w) :: u8))) OR push_bit 24 (ucast (ucast (drop_bit 24 w) :: u8)) = (w :: u32)" (is "?l = w")
proof (rule bit_word_eqI)
  fix n :: nat
  assume "n < LENGTH(32)"
  then consider "n < 8" | "8 \<le> n" "n < 16" | "16 \<le> n" "n < 24" | "24 \<le> n" "n < 32" by fastforce
  then show "bit ?l n = bit w n" by cases (auto simp: bit_simps)
qed

text \<open>How the bytes of a word relate to its value.\<close>

lemma unat_drop_bit: "unat (drop_bit k (w :: 'a::len word)) = unat w div 2 ^ k"
  unfolding unsigned_drop_bit_eq using unsigned_less [of w, where 'a = nat] by (simp add: take_bit_nat_eq_self drop_bit_eq_div)

lemma unat_byte: "unat (ucast (drop_bit k w) :: u8) = unat w div 2 ^ k mod 256"
  unfolding unat_ucast_mod unat_drop_bit by simp

lemma unat_of_nat_lt: "m < 2 ^ LENGTH('a) \<Longrightarrow> unat (of_nat m :: 'a::len word) = m"
  by (simp add: unat_of_nat)

lemma ucast_of_unat: "unat w = n \<Longrightarrow> ucast w = (of_nat n :: 'b::len word)"
  by auto

lemma compact_decoding:
  assumes "n < 2 ^ 30"
  shows "decodeUintCompact (compact_encode n @ rest) = Ok (of_nat n)"
proof -
  consider (one) "n < 2 ^ 6" | (two) "2 ^ 6 \<le> n" "n < 2 ^ 14" | (four) "2 ^ 14 \<le> n" using not_le_imp_less by blast
  then show ?thesis
  proof cases
    case one
    define w :: u8 where "w = of_nat (4 * n)"
    have v: "unat w = 4 * n" unfolding w_def by (rule unat_of_nat_lt) (use one in simp)
    then have "(ucast (drop_bit 2 w) :: u256) = of_nat n" by (intro ucast_of_unat) (simp add: unat_drop_bit)
    moreover have "compact_encode n = [w]" using one le_bytes_words(1) [of w] by (simp add: compact_encode_def w_def)
    ultimately show ?thesis using v by (simp add: decodeUintCompact_def readByteAtIndex_def mode_of)
  next
    case two
    define w :: u16 where "w = of_nat (4 * n + 1)"
    have v: "unat w = 4 * n + 1" unfolding w_def by (rule unat_of_nat_lt) (use two in simp)
    define b c where "b = (ucast w :: u8)" and "c = (ucast (drop_bit 8 w) :: u8)"
    have bc: "unat b = (4 * n + 1) mod 256" "unat c = (4 * n + 1) div 256"
      using unat_byte [of 0 w] unat_byte [of 8 w] two v by (simp_all add: b_def c_def)
    have "unat b mod 4 = 1" unfolding bc by (simp add: mod_mod_cancel)
    then have "b AND 3 = 1" by (simp add: mode_of)
    have cb: "push_bit 6 (ucast c) = (of_nat (unat c * 64) :: u64)" "ucast (drop_bit 2 b) = (of_nat (unat b div 4) :: u64)"
      using ucast_of_unat [OF refl, of c, where 'b = 64] ucast_of_unat [OF unat_drop_bit [of 2 b], where 'b = 64]
      by (simp_all add: push_bit_eq_mult)
    have "push_bit 6 (ucast c) + ucast (drop_bit 2 b) = (of_nat (unat c * 64 + unat b div 4) :: u64)"
      unfolding cb by simp
    moreover have "4 * n + 1 = 256 * unat c + unat b" unfolding bc by (simp add: mult_div_mod_eq)
    then have "unat c * 64 + unat b div 4 = n" by linarith
    ultimately have "(ucast (push_bit 6 (ucast c) + ucast (drop_bit 2 b) :: u64) :: u256) = of_nat n"
      using two unat_of_nat_lt [of n, where 'a = 64] ucast_of_unat [of "of_nat n :: u64" n] by simp
    moreover have "compact_encode n = [b, c]"
      using two le_bytes_words(2) [of w] by (simp add: compact_encode_def w_def b_def c_def)
    ultimately show ?thesis using \<open>b AND 3 = 1\<close> by (simp add: decodeUintCompact_def readByteAtIndex_def)
  next
    case four
    define w :: u32 where "w = of_nat (4 * n + 2)"
    have v: "unat w = 4 * n + 2" unfolding w_def by (rule unat_of_nat_lt) (use assms in simp)
    have "unat (ucast w :: u8) mod 4 = 2" using unat_byte [of 0 w] v by (simp add: mod_mod_cancel) presburger
    then have "(ucast w :: u8) AND 3 = 2" by (simp add: mode_of)
    moreover have "(ucast (drop_bit 2 w) :: u256) = of_nat n" using v by (intro ucast_of_unat) (simp add: unat_drop_bit)
    moreover have "compact_encode n = [ucast w, ucast (drop_bit 8 w), ucast (drop_bit 16 w), ucast (drop_bit 24 w)]"
      using four by (simp add: compact_encode_def le_bytes_words w_def)
    ultimately show ?thesis
      by (simp add: decodeUintCompact_def readByteAtIndex_def Let_def bytes_of_u32 del: drop_bit_or)
  qed
qed

lemma big_compact_decoding:
  assumes "4 \<le> k" "k \<le> 67"
  shows "decodeUintCompact (compact_big_prefix k # bs) =
    (if k \<le> 36 then Err ''Not supported: number cannot be greater than 32 bytes'' else Ok 0)"
proof -
  have v: "unat (compact_big_prefix k) = 4 * (k - 4) + 3"
    unfolding compact_big_prefix_def by (rule unat_of_nat_lt) (use assms in simp)
  then have "unat (compact_big_prefix k) mod 4 = 3" by simp
  then have "compact_big_prefix k AND 3 = 3" by (simp add: mode_of)
  moreover have "32 < drop_bit 2 (compact_big_prefix k) \<longleftrightarrow> 36 < k"
    using assms v by (simp add: word_less_nat_alt unat_drop_bit) presburger
  ultimately show ?thesis by (auto simp: decodeUintCompact_def readByteAtIndex_def ensure_def)
qed

end
