(* ===== verification/Bridge_Contracts.thy ===== *)
theory Bridge_Contracts
  imports Scale_Codec Bridge_Core
begin

text \<open>
  \<open>src/ethereum/contracts\<close>: the peers of the parachain on Ethereum.  The apps take ether and tokens
  into custody and hand them out again; the outbound channels emit the events that the parachain's
  inbound channels read, and the inbound channels deliver the messages of the parachain.  The storage of
  all contracts is one record; a function of a contract acts on it and reverts with an \<open>Err\<close>.
  Token contracts and the ABI decoder are libraries, the fields of \<open>evm_lib\<close>: they work on storage of their own and do not
  call back.  Gas is not counted, and the roles of \<open>AccessControl\<close> are those that the constructors give, as no
  contract keeps an administrator.  Ether that is sent along with \<open>ERC721App.lock\<close> is a transfer of its own.  The proofs that a message is in a commitment of the parachain
  (\<open>ParachainLightClient\<close>, \<open>BeefyLightClient\<close>) are not modelled.
\<close>

section \<open>State\<close>

text \<open>Addresses fixed by the constructors.\<close>

record deployment =
  eth_app :: h160
  dot_app :: h160
  erc20_app :: h160
  erc721_app :: h160
  basic_out :: h160
  incentivized_out :: h160
  basic_in :: h160
  incentivized_in :: h160

record channel_access =
  defaultOperators :: "h160 \<Rightarrow> bool"
  operators :: "h160 \<Rightarrow> h160 \<Rightarrow> bool"

record basic_channel =
  bc_access :: channel_access
  bc_nonce :: u64
  bc_principal :: h160
  bc_config_updater :: h160

record incentivized_channel =
  ic_access :: channel_access
  ic_nonce :: u64
  ic_fee :: u256
  ic_config_updater :: h160

text \<open>The events \<open>Message\<close> of the two channels, with the fields that the events have.\<close>

record basic_event =
  be_source :: h160
  be_nonce :: u64
  be_payload :: bytes

record incentivized_event =
  ie_source :: h160
  ie_nonce :: u64
  ie_fee :: u256
  ie_payload :: bytes

record 't evm =
  ev_basic_out :: basic_channel
  ev_incentivized_out :: incentivized_channel
  ev_basic_in_nonce :: u64
  ev_incentivized_in_nonce :: u64
  ev_balance :: u256
  ev_balances :: "h160 \<Rightarrow> u256"
  ev_ether :: "h160 \<Rightarrow> u256"
  ev_tokens :: 't
  ev_basic_events :: "basic_event list"
  ev_incentivized_events :: "incentivized_event list"

text \<open>What a payload asks of an app.\<close>

datatype app_call =
    EthUnlock h256 h160 u256
  | EthReward h160 u256
  | Erc20Unlock h160 h256 h160 u256
  | DotMint h256 h160 u256
  | Erc721Unlock h160 u256 h256 h160

record 't evm_lib =
  decode_app_call :: "bytes \<Rightarrow> app_call option"
  accepts_ether :: "h160 \<Rightarrow> 't \<Rightarrow> bool"
  erc20_balance :: "h160 \<Rightarrow> h160 \<Rightarrow> 't \<Rightarrow> u256"
  erc20_transfer :: "h160 \<Rightarrow> h160 \<Rightarrow> h160 \<Rightarrow> u256 \<Rightarrow> ('t, string, bool) ext"
  erc20_transfer_from :: "h160 \<Rightarrow> h160 \<Rightarrow> h160 \<Rightarrow> u256 \<Rightarrow> ('t, string, bool) ext"
  wrapped_burn :: "h160 \<Rightarrow> u256 \<Rightarrow> bytes \<Rightarrow> ('t, string, unit) ext"
  wrapped_mint :: "h160 \<Rightarrow> u256 \<Rightarrow> bytes \<Rightarrow> ('t, string, unit) ext"
  erc721_token_uri :: "h160 \<Rightarrow> u256 \<Rightarrow> ('t, string, string) ext"
  erc721_transfer_from :: "h160 \<Rightarrow> h160 \<Rightarrow> h160 \<Rightarrow> u256 \<Rightarrow> ('t, string, unit) ext"
  call_contract :: "h160 \<Rightarrow> bytes \<Rightarrow> ('t, string, unit) ext"

definition tokens_st :: "('t evm, 't) storage" where
  "tokens_st = \<lparr>sget = ev_tokens, sput = (\<lambda>t e. e\<lparr>ev_tokens := t\<rparr>)\<rparr>"

definition require :: "bool \<Rightarrow> string \<Rightarrow> ('s, string, unit) ext" where
  "require b msg = lift_res (ensure b msg)"

definition checked :: "'a option \<Rightarrow> ('s, string, 'a) ext" where
  "checked v = lift_res (ok_or ''overflow'' v)"

text \<open>There is less ether than \<open>2 ^ 256\<close> units, so that the sum does not overflow.\<close>

definition send_ether :: "h160 \<Rightarrow> h160 \<Rightarrow> u256 \<Rightarrow> ('t evm, string, unit) ext" where
  "send_ether src dest amount =
     bind_ext (gets ev_ether) (\<lambda>ether.
     bind_ext (require (amount \<le> ether src) ''insufficient ether'') (\<lambda>_.
     let rest = ether(src := ether src - amount) in
     bind_ext (checked (checked_add (rest dest) amount)) (\<lambda>v.
     modify (\<lambda>e. e\<lparr>ev_ether := rest(dest := v)\<rparr>))))"

text \<open>\<open>payable.transfer\<close>: fails when the recipient does not take the ether.\<close>

definition pay :: "'t evm_lib \<Rightarrow> h160 \<Rightarrow> h160 \<Rightarrow> u256 \<Rightarrow> ('t evm, string, unit) ext" where
  "pay T src dest amount =
     bind_ext (gets (accepts_ether T dest \<circ> ev_tokens)) (\<lambda>b.
     bind_ext (require b ''transfer failed'') (\<lambda>_.
     send_ether src dest amount))"

section \<open>Access to channels\<close>

definition isOperatorFor :: "channel_access \<Rightarrow> h160 \<Rightarrow> h160 \<Rightarrow> bool" where
  "isOperatorFor acc operator org \<longleftrightarrow> operator = org \<or> defaultOperators acc operator \<or> operators acc org operator"

definition authorizeDefaultOperator :: "h160 \<Rightarrow> channel_access \<Rightarrow> channel_access" where
  "authorizeDefaultOperator operator acc = acc\<lparr>defaultOperators := (defaultOperators acc)(operator := True)\<rparr>"

definition revokeDefaultOperator :: "h160 \<Rightarrow> h160 \<Rightarrow> (channel_access, string, unit) ext" where
  "revokeDefaultOperator msg_sender operator =
     bind_ext (require (msg_sender \<noteq> operator) ''Revoking self as operator'') (\<lambda>_.
     modify (\<lambda>acc. acc\<lparr>defaultOperators := (defaultOperators acc)(operator := False)\<rparr>))"

definition authorizeOperator :: "h160 \<Rightarrow> h160 \<Rightarrow> (channel_access, string, unit) ext" where
  "authorizeOperator msg_sender operator =
     bind_ext (require (msg_sender \<noteq> operator) ''Authorizing self as operator'') (\<lambda>_.
     modify (\<lambda>acc. acc\<lparr>operators := (operators acc)(msg_sender := (operators acc msg_sender)(operator := True))\<rparr>))"

definition revokeOperator :: "h160 \<Rightarrow> h160 \<Rightarrow> (channel_access, string, unit) ext" where
  "revokeOperator msg_sender operator =
     bind_ext (require (msg_sender \<noteq> operator) ''Revoking self as operator'') (\<lambda>_.
     modify (\<lambda>acc. acc\<lparr>operators := (operators acc)(msg_sender := (operators acc msg_sender)(operator := False))\<rparr>))"

section \<open>Outbound channels\<close>

definition BasicOutboundChannel_setPrincipal :: "h160 \<Rightarrow> h160 \<Rightarrow> ('t evm, string, unit) ext" where
  "BasicOutboundChannel_setPrincipal msg_sender new_principal =
     bind_ext (gets (bc_config_updater \<circ> ev_basic_out)) (\<lambda>updater.
     bind_ext (require (msg_sender = updater) ''AccessControl'') (\<lambda>_.
     modify (\<lambda>e. e\<lparr>ev_basic_out := (ev_basic_out e)\<lparr>bc_principal := new_principal\<rparr>\<rparr>)))"

definition BasicOutboundChannel_submit :: "h160 \<Rightarrow> h160 \<Rightarrow> bytes \<Rightarrow> ('t evm, string, unit) ext" where
  "BasicOutboundChannel_submit msg_sender org payload =
     bind_ext (gets ev_basic_out) (\<lambda>ch.
     bind_ext (require (isOperatorFor (bc_access ch) msg_sender org) ''Caller is unauthorized'') (\<lambda>_.
     bind_ext (if bc_principal ch \<noteq> 0x42 then require (org = bc_principal ch) ''Origin is not an authorized principal'' else ret ()) (\<lambda>_.
     bind_ext (checked (checked_add (bc_nonce ch) 1)) (\<lambda>nonce.
     modify (\<lambda>e. e\<lparr>ev_basic_out := (ev_basic_out e)\<lparr>bc_nonce := nonce\<rparr>,
       ev_basic_events := ev_basic_events e @ [\<lparr>be_source = msg_sender, be_nonce = nonce, be_payload = payload\<rparr>]\<rparr>)))))"

text \<open>\<open>FeeSource\<close> is the DOT app, where the incentivized channel has the role of the fee burner.\<close>

definition DOTApp_burnFee :: "deployment \<Rightarrow> 't evm_lib \<Rightarrow> h160 \<Rightarrow> h160 \<Rightarrow> u256 \<Rightarrow> ('t evm, string, unit) ext" where
  "DOTApp_burnFee D T msg_sender feePayer amount =
     bind_ext (require (msg_sender = incentivized_out D) ''AccessControl'') (\<lambda>_.
     zoom tokens_st (wrapped_burn T feePayer amount []))"

definition IncentivizedOutboundChannel_setFee :: "h160 \<Rightarrow> u256 \<Rightarrow> ('t evm, string, unit) ext" where
  "IncentivizedOutboundChannel_setFee msg_sender amount =
     bind_ext (gets (ic_config_updater \<circ> ev_incentivized_out)) (\<lambda>updater.
     bind_ext (require (msg_sender = updater) ''AccessControl'') (\<lambda>_.
     modify (\<lambda>e. e\<lparr>ev_incentivized_out := (ev_incentivized_out e)\<lparr>ic_fee := amount\<rparr>\<rparr>)))"

definition IncentivizedOutboundChannel_submit ::
  "deployment \<Rightarrow> 't evm_lib \<Rightarrow> h160 \<Rightarrow> h160 \<Rightarrow> bytes \<Rightarrow> ('t evm, string, unit) ext" where
  "IncentivizedOutboundChannel_submit D T msg_sender feePayer payload =
     bind_ext (gets ev_incentivized_out) (\<lambda>ch.
     bind_ext (require (isOperatorFor (ic_access ch) msg_sender feePayer) ''Caller is not an operator for fee payer'') (\<lambda>_.
     bind_ext (DOTApp_burnFee D T (incentivized_out D) feePayer (ic_fee ch)) (\<lambda>_.
     bind_ext (checked (checked_add (ic_nonce ch) 1)) (\<lambda>nonce.
     modify (\<lambda>e. e\<lparr>ev_incentivized_out := (ev_incentivized_out e)\<lparr>ic_nonce := nonce\<rparr>,
       ev_incentivized_events := ev_incentivized_events e @
         [\<lparr>ie_source = msg_sender, ie_nonce = nonce, ie_fee = ic_fee ch, ie_payload = payload\<rparr>]\<rparr>)))))"

text \<open>\<open>OutboundChannel(channels[_channelId].outbound).submit\<close>\<close>

definition channel_submit ::
  "deployment \<Rightarrow> 't evm_lib \<Rightarrow> channel_id \<Rightarrow> h160 \<Rightarrow> h160 \<Rightarrow> bytes \<Rightarrow> ('t evm, string, unit) ext" where
  "channel_submit D T c msg_sender org payload = (case c of
       Basic \<Rightarrow> BasicOutboundChannel_submit msg_sender org payload
     | Incentivized \<Rightarrow> IncentivizedOutboundChannel_submit D T msg_sender org payload)"

section \<open>Apps\<close>

text \<open>\<open>onlyRole(INBOUND_CHANNEL_ROLE)\<close>\<close>

definition only_inbound :: "deployment \<Rightarrow> h160 \<Rightarrow> ('s, string, unit) ext" where
  "only_inbound D msg_sender = require (msg_sender = basic_in D \<or> msg_sender = incentivized_in D) ''AccessControl''"

definition ETHApp_encodeCall :: "h160 \<Rightarrow> h256 \<Rightarrow> u256 \<Rightarrow> bytes" where
  "ETHApp_encodeCall sender recipient amount =
     [0x41, 0x01] @ be_bytes 20 sender @ [0x00] @ be_bytes 32 recipient @ encode256 amount"

definition ETHApp_lock :: "deployment \<Rightarrow> 't evm_lib \<Rightarrow> h160 \<Rightarrow> u256 \<Rightarrow> h256 \<Rightarrow> channel_id \<Rightarrow> ('t evm, string, unit) ext" where
  "ETHApp_lock D T msg_sender msg_value recipient channelId =
     bind_ext (send_ether msg_sender (eth_app D) msg_value) (\<lambda>_.
     bind_ext (require (msg_value > 0) ''Value of transaction must be positive'') (\<lambda>_.
     bind_ext (gets ev_balance) (\<lambda>b.
     bind_ext (checked (checked_add b msg_value)) (\<lambda>balance.
     bind_ext (modify (\<lambda>e. e\<lparr>ev_balance := balance\<rparr>)) (\<lambda>_.
     channel_submit D T channelId (eth_app D) msg_sender (ETHApp_encodeCall msg_sender recipient msg_value))))))"

definition ETHApp_unlock :: "deployment \<Rightarrow> 't evm_lib \<Rightarrow> h160 \<Rightarrow> h256 \<Rightarrow> h160 \<Rightarrow> u256 \<Rightarrow> ('t evm, string, unit) ext" where
  "ETHApp_unlock D T msg_sender sender recipient amount =
     bind_ext (only_inbound D msg_sender) (\<lambda>_.
     bind_ext (require (amount > 0) ''Must unlock a positive amount'') (\<lambda>_.
     bind_ext (gets ev_balance) (\<lambda>b.
     bind_ext (require (b \<ge> amount) ''ETH token balances insufficient to fulfill the unlock request'') (\<lambda>_.
     bind_ext (modify (\<lambda>e. e\<lparr>ev_balance := b - amount\<rparr>)) (\<lambda>_.
     pay T (eth_app D) recipient amount)))))"

text \<open>The role of the rewarder is with the incentivized inbound channel.\<close>

definition ETHApp_reward :: "deployment \<Rightarrow> 't evm_lib \<Rightarrow> h160 \<Rightarrow> h160 \<Rightarrow> u256 \<Rightarrow> ('t evm, string, unit) ext" where
  "ETHApp_reward D T msg_sender recipient amount =
     bind_ext (require (msg_sender = incentivized_in D) ''AccessControl'') (\<lambda>_.
     pay T (eth_app D) recipient amount)"

definition ERC20App_encodeCall :: "h160 \<Rightarrow> h160 \<Rightarrow> h256 \<Rightarrow> u256 \<Rightarrow> bytes" where
  "ERC20App_encodeCall token sender recipient amount =
     [0x42, 0x01] @ be_bytes 20 token @ be_bytes 20 sender @ [0x00] @ be_bytes 32 recipient @ encode256 amount"

definition ERC20App_lock :: "deployment \<Rightarrow> 't evm_lib \<Rightarrow> h160 \<Rightarrow> h160 \<Rightarrow> h256 \<Rightarrow> u256 \<Rightarrow> channel_id \<Rightarrow> ('t evm, string, unit) ext" where
  "ERC20App_lock D T msg_sender token recipient amount channelId =
     bind_ext (gets (\<lambda>e. ev_balances e token)) (\<lambda>b.
     bind_ext (checked (checked_add b amount)) (\<lambda>balance.
     bind_ext (modify (\<lambda>e. e\<lparr>ev_balances := (ev_balances e)(token := balance)\<rparr>)) (\<lambda>_.
     bind_ext (channel_submit D T channelId (erc20_app D) msg_sender (ERC20App_encodeCall token msg_sender recipient amount)) (\<lambda>_.
     bind_ext (zoom tokens_st (erc20_transfer_from T token msg_sender (erc20_app D) amount)) (\<lambda>ok.
     require ok ''Contract token allowances insufficient to complete this lock request'')))))"

definition ERC20App_unlock :: "deployment \<Rightarrow> 't evm_lib \<Rightarrow> h160 \<Rightarrow> h160 \<Rightarrow> h256 \<Rightarrow> h160 \<Rightarrow> u256 \<Rightarrow> ('t evm, string, unit) ext" where
  "ERC20App_unlock D T msg_sender token sender recipient amount =
     bind_ext (only_inbound D msg_sender) (\<lambda>_.
     bind_ext (require (amount > 0) ''Must unlock a positive amount'') (\<lambda>_.
     bind_ext (gets (\<lambda>e. ev_balances e token)) (\<lambda>b.
     bind_ext (require (amount \<le> b) ''ERC20 token balances insufficient to fulfill the unlock request'') (\<lambda>_.
     bind_ext (modify (\<lambda>e. e\<lparr>ev_balances := (ev_balances e)(token := b - amount)\<rparr>)) (\<lambda>_.
     bind_ext (zoom tokens_st (erc20_transfer T token (erc20_app D) recipient amount)) (\<lambda>ok.
     require ok ''ERC20 token transfer failed''))))))"

definition DOTApp_encodeCall :: "h160 \<Rightarrow> h256 \<Rightarrow> u256 \<Rightarrow> bytes" where
  "DOTApp_encodeCall sender recipient amount =
     [0x40, 0x01] @ be_bytes 20 sender @ [0x00] @ be_bytes 32 recipient @ encode256 amount"

definition DOTApp_burn :: "deployment \<Rightarrow> 't evm_lib \<Rightarrow> h160 \<Rightarrow> h256 \<Rightarrow> u256 \<Rightarrow> channel_id \<Rightarrow> ('t evm, string, unit) ext" where
  "DOTApp_burn D T msg_sender recipient amount channelId =
     bind_ext (zoom tokens_st (wrapped_burn T msg_sender amount (be_bytes 32 recipient))) (\<lambda>_.
     channel_submit D T channelId (dot_app D) msg_sender (DOTApp_encodeCall msg_sender recipient amount))"

definition DOTApp_mint :: "deployment \<Rightarrow> 't evm_lib \<Rightarrow> h160 \<Rightarrow> h256 \<Rightarrow> h160 \<Rightarrow> u256 \<Rightarrow> ('t evm, string, unit) ext" where
  "DOTApp_mint D T msg_sender sender recipient amount =
     bind_ext (only_inbound D msg_sender) (\<lambda>_.
     zoom tokens_st (wrapped_mint T recipient amount (be_bytes 32 sender)))"

text \<open>The last byte is the length of an empty token URI.\<close>

definition ERC721App_encodeCall :: "h160 \<Rightarrow> u256 \<Rightarrow> h160 \<Rightarrow> h256 \<Rightarrow> string \<Rightarrow> bytes" where
  "ERC721App_encodeCall tokenContract tokenId sender recipient uri =
     [0x43, 0x01] @ be_bytes 20 sender @ [0x00] @ be_bytes 32 recipient @ be_bytes 20 tokenContract @ encode256 tokenId @ [0x00]"

definition ERC721App_lock :: "deployment \<Rightarrow> 't evm_lib \<Rightarrow> h160 \<Rightarrow> h160 \<Rightarrow> u256 \<Rightarrow> h256 \<Rightarrow> channel_id \<Rightarrow> ('t evm, string, unit) ext" where
  "ERC721App_lock D T msg_sender tokenContract tokenId recipient channelId =
     bind_ext (zoom tokens_st (erc721_token_uri T tokenContract tokenId)) (\<lambda>uri.
     bind_ext (channel_submit D T channelId (erc721_app D) msg_sender
       (ERC721App_encodeCall tokenContract tokenId msg_sender recipient uri)) (\<lambda>_.
     zoom tokens_st (erc721_transfer_from T tokenContract msg_sender (erc721_app D) tokenId)))"

definition ERC721App_unlock :: "deployment \<Rightarrow> 't evm_lib \<Rightarrow> h160 \<Rightarrow> h160 \<Rightarrow> u256 \<Rightarrow> h256 \<Rightarrow> h160 \<Rightarrow> ('t evm, string, unit) ext" where
  "ERC721App_unlock D T msg_sender tokenContract tokenId sender recipient =
     bind_ext (only_inbound D msg_sender) (\<lambda>_.
     zoom tokens_st (erc721_transfer_from T tokenContract (erc721_app D) recipient tokenId))"

section \<open>Inbound channels\<close>

text \<open>
  \<open>target.call(payload)\<close> by an inbound channel: one of the apps, each with the functions that the
  payload may name, or some other contract.
\<close>

definition call_target :: "deployment \<Rightarrow> 't evm_lib \<Rightarrow> h160 \<Rightarrow> h160 \<Rightarrow> bytes \<Rightarrow> ('t evm, string, unit) ext" where
  "call_target D T msg_sender target payload =
     (if target \<in> {eth_app D, erc20_app D, dot_app D, erc721_app D} then
        (case decode_app_call T payload of
           Some (EthUnlock sender recipient amount) \<Rightarrow>
             if target = eth_app D then ETHApp_unlock D T msg_sender sender recipient amount else lift_res (Err ''revert'')
         | Some (EthReward recipient amount) \<Rightarrow>
             if target = eth_app D then ETHApp_reward D T msg_sender recipient amount else lift_res (Err ''revert'')
         | Some (Erc20Unlock token sender recipient amount) \<Rightarrow>
             if target = erc20_app D then ERC20App_unlock D T msg_sender token sender recipient amount else lift_res (Err ''revert'')
         | Some (DotMint sender recipient amount) \<Rightarrow>
             if target = dot_app D then DOTApp_mint D T msg_sender sender recipient amount else lift_res (Err ''revert'')
         | Some (Erc721Unlock tokenContract tokenId sender recipient) \<Rightarrow>
             if target = erc721_app D then ERC721App_unlock D T msg_sender tokenContract tokenId sender recipient
             else lift_res (Err ''revert'')
         | None \<Rightarrow> lift_res (Err ''revert''))
      else zoom tokens_st (call_contract T target payload))"

text \<open>A low-level call reports failure instead of reverting; its own writes are undone.\<close>

definition low_level_call :: "('s, string, unit) ext \<Rightarrow> ('s, string, bool) ext" where
  "low_level_call m s = (case transactional m s of (Ok _, s') \<Rightarrow> (Ok True, s') | (Err _, s') \<Rightarrow> (Ok False, s')
     | (Panic, s') \<Rightarrow> (Panic, s') | (Loop, s') \<Rightarrow> (Loop, s'))"

text \<open>The struct \<open>Message\<close> of the inbound channels has the fields of the parachain's messages.\<close>

type_synonym basic_delivery = "h160 \<times> u64 \<times> bytes"

type_synonym incentivized_delivery = "h160 \<times> u64 \<times> u256 \<times> bytes"

primrec BasicInboundChannel_processMessages ::
  "deployment \<Rightarrow> 't evm_lib \<Rightarrow> basic_delivery list \<Rightarrow> ('t evm, string, unit) ext" where
  "BasicInboundChannel_processMessages D T [] = ret ()"
| "BasicInboundChannel_processMessages D T (m # ms) = (case m of (target, mnonce, payload) \<Rightarrow>
     bind_ext (gets ev_basic_in_nonce) (\<lambda>n.
     bind_ext (checked (checked_add n 1)) (\<lambda>v.
     bind_ext (require (mnonce = v) ''invalid nonce'') (\<lambda>_.
     bind_ext (modify (\<lambda>e. e\<lparr>ev_basic_in_nonce := v\<rparr>)) (\<lambda>_.
     bind_ext (low_level_call (call_target D T (basic_in D) target payload)) (\<lambda>success.
     BasicInboundChannel_processMessages D T ms))))))"

primrec IncentivizedInboundChannel_deliver ::
  "deployment \<Rightarrow> 't evm_lib \<Rightarrow> u256 \<Rightarrow> incentivized_delivery list \<Rightarrow> ('t evm, string, u256) ext" where
  "IncentivizedInboundChannel_deliver D T rewardAmount [] = ret rewardAmount"
| "IncentivizedInboundChannel_deliver D T rewardAmount (m # ms) = (case m of (target, mnonce, fee, payload) \<Rightarrow>
     bind_ext (gets ev_incentivized_in_nonce) (\<lambda>n.
     bind_ext (checked (checked_add n 1)) (\<lambda>v.
     bind_ext (require (mnonce = v) ''invalid nonce'') (\<lambda>_.
     bind_ext (modify (\<lambda>e. e\<lparr>ev_incentivized_in_nonce := v\<rparr>)) (\<lambda>_.
     bind_ext (low_level_call (call_target D T (incentivized_in D) target payload)) (\<lambda>success.
     bind_ext (checked (checked_add rewardAmount fee)) (\<lambda>rewardAmount'.
     IncentivizedInboundChannel_deliver D T rewardAmount' ms)))))))"

definition IncentivizedInboundChannel_processMessages ::
  "deployment \<Rightarrow> 't evm_lib \<Rightarrow> h160 \<Rightarrow> incentivized_delivery list \<Rightarrow> ('t evm, string, unit) ext" where
  "IncentivizedInboundChannel_processMessages D T relayer ms =
     bind_ext (IncentivizedInboundChannel_deliver D T 0 ms) (\<lambda>rewardAmount.
     ETHApp_reward D T (incentivized_in D) relayer rewardAmount)"

end
