(* ===== verification/Bridge_Transfers.thy ===== *)
theory Bridge_Transfers
  imports Bridge_Contracts Runtime_Config Runtime_Flows
begin

text \<open>
  What the two sides of the bridge make of each other's messages, and what the calls of the parachain do to
  the amounts under way: every call keeps the sum of the issuance of an asset, of the amounts in
  messages from Ethereum that have not arrived yet, and of those in messages to Ethereum that
  are still in the queues.
\<close>

section \<open>The calls in messages of the contracts\<close>

text \<open>
  SCALE decoding of calls, as documented: the indices of pallet and function, then the arguments; an account is
  given as \<open>MultiAddress::Id\<close>, a zero byte before the identifier, and \<open>mk\<close> is that constructor.
\<close>

definition decodes_calls :: "pallet_decl list \<Rightarrow> (account_id \<Rightarrow> 'd) \<Rightarrow> ('b, 'd, 'f) runtime_lib \<Rightarrow> bool" where
  "decodes_calls ps mk L \<longleftrightarrow> (\<forall>sender r v t.
     (let c = EthMint sender (mk r) v in
        rl_decode_call L (the (call_prefix ps c) @ be_bytes 20 sender @ 0 # be_bytes 32 r @ le_bytes 32 v) = Some c) \<and>
     (let c = DotUnlock sender (mk r) v in
        rl_decode_call L (the (call_prefix ps c) @ be_bytes 20 sender @ 0 # be_bytes 32 r @ le_bytes 32 v) = Some c) \<and>
     (let c = Erc20Mint t sender (mk r) v in
        rl_decode_call L (the (call_prefix ps c) @ be_bytes 20 t @ be_bytes 20 sender @ 0 # be_bytes 32 r @ le_bytes 32 v) = Some c) \<and>
     (let c = Erc721Mint sender (mk r) t v [] in
        rl_decode_call L (the (call_prefix ps c) @ be_bytes 20 sender @ 0 # be_bytes 32 r @ be_bytes 20 t @ le_bytes 32 v @ [0]) = Some c))"

lemma encoded_calls:
  assumes "ps \<in> set runtime_pallets" "decodes_calls ps mk L"
  shows "rl_decode_call L (ETHApp_encodeCall sender r v) = Some (EthMint sender (mk r) v) \<and>
    rl_decode_call L (DOTApp_encodeCall sender r v) = Some (DotUnlock sender (mk r) v) \<and>
    rl_decode_call L (ERC20App_encodeCall t sender r v) = Some (Erc20Mint t sender (mk r) v) \<and>
    rl_decode_call L (ERC721App_encodeCall t v sender r uri) = Some (Erc721Mint sender (mk r) t v [])"
proof -
  note p = app_call_prefixes [OF assms(1)]
  have e: "encode256 v = le_bytes 32 v" using encodings_little_endian by blast
  show ?thesis
    using assms(2)
    unfolding decodes_calls_def ETHApp_encodeCall_def DOTApp_encodeCall_def ERC20App_encodeCall_def ERC721App_encodeCall_def e Let_def
    by (simp add: p)
qed

text \<open>
  C25. The bytes that the four app contracts put together by hand decode, by the pallet list
  of every runtime, to the call they are meant to be: mint of the ETH, ERC20 and ERC721 apps
  and unlock of the DOT app, with the same sender, recipient, amount and token.
\<close>

theorem contract_calls_decode:
  assumes "ps \<in> set runtime_pallets" "decodes_calls ps mk L"
  shows "rl_decode_call L (ETHApp_encodeCall sender r v) = Some (EthMint sender (mk r) v) \<and>
    rl_decode_call L (DOTApp_encodeCall sender r v) = Some (DotUnlock sender (mk r) v) \<and>
    rl_decode_call L (ERC20App_encodeCall t sender r v) = Some (Erc20Mint t sender (mk r) v) \<and>
    rl_decode_call L (ERC721App_encodeCall t v sender r uri) = Some (Erc721Mint sender (mk r) t v [])"
  using encoded_calls [OF assms] .

text \<open>The payloads of the parachain, as the contracts decode them.\<close>

definition decodes_payloads :: "('b, 'd, 'f) runtime_lib \<Rightarrow> 't evm_lib \<Rightarrow> bool" where
  "decodes_payloads L T \<longleftrightarrow>
     (\<forall>p. decode_app_call T (eth_payload_encode (rl_abi L) p) = Some (EthUnlock (ep_sender p) (ep_recipient p) (ep_amount p))) \<and>
     (\<forall>p. decode_app_call T (erc20_payload_encode (rl_abi L) p) =
        Some (Erc20Unlock (e20p_token p) (e20p_sender p) (e20p_recipient p) (e20p_amount p)))"

section \<open>Amounts\<close>

text \<open>What a message of a contract may mint of an asset.\<close>

definition minted :: "('b, 'd, 'f) runtime_lib \<Rightarrow> deployment \<Rightarrow> asset_id \<Rightarrow> h160 \<Rightarrow> bytes \<Rightarrow> nat" where
  "minted L D a source payload = (case rl_decode_call L payload of
       Some (EthMint _ _ v) \<Rightarrow> if source = eth_app D \<and> a = ETH then unat v else 0
     | Some (Erc20Mint t _ _ v) \<Rightarrow> if source = erc20_app D \<and> a = Token t then unat v else 0
     | _ \<Rightarrow> 0)"

text \<open>What a message to a contract may take out of its custody.\<close>

definition released :: "'t evm_lib \<Rightarrow> deployment \<Rightarrow> asset_id \<Rightarrow> h160 \<Rightarrow> bytes \<Rightarrow> nat" where
  "released T D a target payload = (case decode_app_call T payload of
       Some (EthUnlock _ _ v) \<Rightarrow> if target = eth_app D \<and> a = ETH then unat v else 0
     | Some (EthReward _ v) \<Rightarrow> if target = eth_app D \<and> a = ETH then unat v else 0
     | Some (Erc20Unlock t _ _ v) \<Rightarrow> if target = erc20_app D \<and> a = Token t then unat v else 0
     | _ \<Rightarrow> 0)"

text \<open>The reward for a message on the incentivized channel is paid in ether, out of the custody of the ETH app.\<close>

definition basic_release :: "'t evm_lib \<Rightarrow> deployment \<Rightarrow> asset_id \<Rightarrow> basic_message \<Rightarrow> nat" where
  "basic_release T D a m = released T D a (bm_target m) (bm_payload m)"

definition incentivized_release :: "'t evm_lib \<Rightarrow> deployment \<Rightarrow> asset_id \<Rightarrow> incentivized_message \<Rightarrow> nat" where
  "incentivized_release T D a m = released T D a (im_target m) (im_payload m) + (if a = ETH then unat (im_fee m) else 0)"

definition queued :: "'t evm_lib \<Rightarrow> deployment \<Rightarrow> 'b runtime \<Rightarrow> asset_id \<Rightarrow> nat" where
  "queued T D s a = sum_list (map (basic_release T D a) (bout_queue (rt_basic_out s))) +
     sum_list (map (incentivized_release T D a) (iout_queue (rt_incentivized_out s)))"

definition arriving :: "('b, 'd, 'f) runtime_lib \<Rightarrow> deployment \<Rightarrow> 't evm \<Rightarrow> 'b runtime \<Rightarrow> asset_id \<Rightarrow> nat" where
  "arriving L D e s a =
     sum_list (map (\<lambda>v. minted L D a (be_source v) (be_payload v)) (drop (unat (bin_nonce (rt_basic_in s))) (ev_basic_events e))) +
     sum_list (map (\<lambda>v. minted L D a (ie_source v) (ie_payload v)) (drop (unat (iin_nonce (rt_incentivized_in s))) (ev_incentivized_events e)))"

definition issued :: "'b runtime \<Rightarrow> asset_id \<Rightarrow> nat" where
  "issued s a = unat (total_issuance (rt_assets s) a)"

section \<open>Sending\<close>

text \<open>The router adds the amount of the message: the fee it takes goes into the message.\<close>

lemma router_amounts:
  assumes r: "rt_router L K c w target q s = (Ok (), s')" and i: "assets_inv (rt_assets s)"
  shows "issued s' a + queued T D s' a = issued s a + queued T D s a + released T D a target q"
proof -
  note x = router_exact [OF r]
  have "unat (total_issuance (rt_assets s) a) = unat (total_issuance (rt_assets s') a) + (if a = ETH then unat (message_fee c s) else 0)"
    using withdraw_effect [OF i, of ETH w "message_fee c s" "rt_assets s'"] x by blast
  moreover have "queued T D s' a = queued T D s a + released T D a target q + (if a = ETH then unat (message_fee c s) else 0)"
    using x by (cases c) (auto simp: sent_def queued_def basic_release_def incentivized_release_def message_fee_def)
  ultimately show ?thesis by (simp add: issued_def)
qed

text \<open>What sending leaves alone.\<close>

definition inbound_view :: "'b runtime \<Rightarrow> basic_inbound \<times> u64 \<times> light_client" where
  "inbound_view s = (rt_basic_in s, iin_nonce (rt_incentivized_in s), rt_light_client s)"

text \<open>All messages but the given numbers of committed ones are in the queues.\<close>

definition in_queue_after :: "nat \<Rightarrow> nat \<Rightarrow> 'b runtime \<Rightarrow> bool" where
  "in_queue_after k l s \<longleftrightarrow> unat (bout_nonce (rt_basic_out s)) = k + length (bout_queue (rt_basic_out s)) \<and>
     unat (iout_nonce (rt_incentivized_out s)) = l + length (iout_queue (rt_incentivized_out s))"

lemma router_views:
  assumes "rt_router L K c w target q s = (Ok (), s')"
  shows "inbound_view s' = inbound_view s \<and> (in_queue_after k l s \<longrightarrow> in_queue_after k l s')"
proof (cases c)
  case Basic
  then show ?thesis
    using assms by (auto simp: rt_router_def basic_out_submit_Ok Let_def cfg_defs st_defs rt_sys_def bout_nonce_item_def
        bout_update_def inbound_view_def in_queue_after_def checked_add_Some_iff)
next
  case Incentivized
  then show ?thesis
    using assms by (auto simp: rt_router_def incentivized_out_submit_Ok Let_def cfg_defs st_defs rt_sys_def iout_nonce_item_def
        iout_update_def inbound_view_def in_queue_after_def checked_add_Some_iff single_asset_adaptor_def rt_multi_asset_def
        zoom_multi_def ok_simps)
qed

section \<open>Receiving\<close>

text \<open>
  A log on a channel contract is genuine when the contract has emitted the event; the light client is genuine when
  it verifies no other logs of the channels.
\<close>

definition emitted :: "('b, 'd, 'f) runtime_lib \<Rightarrow> runtime_constants \<Rightarrow> deployment \<Rightarrow> 't evm \<Rightarrow> log \<Rightarrow> bool" where
  "emitted L K D e l \<longleftrightarrow>
     (\<forall>env. basic_envelope_try_from (rl_abi L) l = Some env \<longrightarrow> benv_channel env = basic_out D \<longrightarrow>
        \<lparr>be_source = benv_source env, be_nonce = benv_nonce env, be_payload = benv_payload env\<rparr> \<in> set (ev_basic_events e)) \<and>
     (\<forall>env. incentivized_envelope_try_from (rl_abi L) (fee_converter K) l = Ok env \<longrightarrow> ienv_channel env = incentivized_out D \<longrightarrow>
        (\<exists>v \<in> set (ev_incentivized_events e). ie_source v = ienv_source env \<and> ie_nonce v = ienv_nonce env \<and> ie_payload v = ienv_payload env))"

definition genuine :: "('b, 'd, 'f) runtime_lib \<Rightarrow> runtime_constants \<Rightarrow> deployment \<Rightarrow> 't evm \<Rightarrow> light_client \<Rightarrow> bool" where
  "genuine L K D e C \<longleftrightarrow> (\<forall>m l. fst (verify (lc_cfg L K) m C) = Ok l \<longrightarrow> emitted L K D e l)"

text \<open>
  The events of the contracts: numbered from one on, and a message of the ETH or ERC20 app carries a call that mints.
\<close>

definition app_message :: "deployment \<Rightarrow> h160 \<Rightarrow> bytes \<Rightarrow> bool" where
  "app_message D source payload \<longleftrightarrow>
     (source = eth_app D \<longrightarrow> (\<exists>sender r v. payload = ETHApp_encodeCall sender r v)) \<and>
     (source = erc20_app D \<longrightarrow> (\<exists>t sender r v. payload = ERC20App_encodeCall t sender r v))"

definition events_wf :: "deployment \<Rightarrow> 't evm \<Rightarrow> bool" where
  "events_wf D e \<longleftrightarrow>
     map (unat \<circ> be_nonce) (ev_basic_events e) = [1..<Suc (length (ev_basic_events e))] \<and>
     unat (bc_nonce (ev_basic_out e)) = length (ev_basic_events e) \<and>
     list_all (\<lambda>v. app_message D (be_source v) (be_payload v)) (ev_basic_events e) \<and>
     map (unat \<circ> ie_nonce) (ev_incentivized_events e) = [1..<Suc (length (ev_incentivized_events e))] \<and>
     unat (ic_nonce (ev_incentivized_out e)) = length (ev_incentivized_events e) \<and>
     list_all (\<lambda>v. app_message D (ie_source v) (ie_payload v)) (ev_incentivized_events e)"

text \<open>The contracts that the parachain is configured with.\<close>

definition peered :: "deployment \<Rightarrow> 'b runtime \<Rightarrow> bool" where
  "peered D s \<longleftrightarrow> fst (rt_config s) = [basic_out D, incentivized_out D, dot_app D, eth_app D, erc20_app D, erc721_app D]"

definition outbound_view :: "'b runtime \<Rightarrow> basic_outbound \<times> incentivized_outbound" where
  "outbound_view s = (rt_basic_out s, rt_incentivized_out s)"

interpretation eth_views: ethereum_invariant a "\<lambda>s :: 'b runtime. inbound_view s = v \<and> outbound_view s = w" for a v w
  by unfold_locales (simp_all add: inbound_view_def outbound_view_def)

text \<open>Only the two apps mint, each its own assets.\<close>

interpretation eth_issuance: ethereum_invariant a
  "\<lambda>s :: 'b runtime. rt_eth_address s = ea \<and> rt_erc20_address s = ta \<and> total_issuance (rt_assets s) b = x \<and> a \<noteq> ea \<and> a \<noteq> ta" for a ea ta b x
  by unfold_locales auto

lemma deposit_issuance:
  "deposit b w x A = (Ok (), A') \<Longrightarrow> unat (total_issuance A' a) = unat (total_issuance A a) + (if a = b then unat x else 0)"
  by (auto simp: deposit_run checked_add_Some_iff put_issuance_def balance_item_def split: if_splits option.splits)

lemma dispatched_call_issues:
  assumes d: "dispatch (dispatch_cfg L (runtime_dispatch L K)) source i payload s = (Ok (), s')"
    and c: "rl_decode_call L payload = Some c" and err: "err_unchanged (runtime_dispatch L K c (DispatchOrigin source))"
    and ok: "\<And>t. runtime_dispatch L K c (DispatchOrigin source) s = (Ok (), t) \<Longrightarrow> issued t a \<le> issued s a + x"
  shows "issued s' a \<le> issued s a + x"
  using d
proof (cases rule: dispatch_cases)
  case (dropped e)
  then show ?thesis by (simp add: issued_def dispatch_cfg_def rt_sys_def)
next
  case (called call res t)
  then have t: "runtime_dispatch L K c (DispatchOrigin source) s = (res, t)" using c by (simp add: dispatch_cfg_def)
  have "issued t a \<le> issued s a + x"
  proof (cases res)
    case (Err e)
    then show ?thesis using t err unfolding err_unchanged_def by fastforce
  qed (use t ok called(4) in auto)
  then show ?thesis using called(5) by (simp add: issued_def dispatch_cfg_def rt_sys_def)
qed

lemma message_mints:
  assumes d: "dispatch (dispatch_cfg L (runtime_dispatch L K)) source i payload s = (Ok (), s')"
    and peers: "rt_eth_address s = eth_app D" "rt_erc20_address s = erc20_app D"
    and calls: "ps \<in> set runtime_pallets" "decodes_calls ps mk L" and m: "app_message D source payload"
  shows "issued s' a \<le> issued s a + minted L D a source payload"
proof -
  consider (eth) "source = eth_app D" | (erc20) "source = erc20_app D" | (other) "source \<noteq> eth_app D" "source \<noteq> erc20_app D" by blast
  then show ?thesis
  proof cases
    case eth
    then obtain sender r v where "payload = ETHApp_encodeCall sender r v" using m by (auto simp: app_message_def)
    then have c: "rl_decode_call L payload = Some (EthMint sender (mk r) v)" using encoded_calls [OF calls] by blast
    show ?thesis
    proof (rule dispatched_call_issues [OF d c])
      show "err_unchanged (runtime_dispatch L K (EthMint sender (mk r) v) (DispatchOrigin source))"
        by (simp add: runtime_calls app_calls_unchanged)
      show "issued t a \<le> issued s a + minted L D a source payload"
        if "runtime_dispatch L K (EthMint sender (mk r) v) (DispatchOrigin source) s = (Ok (), t)" for t
        using that eth c unfolding runtime_calls
        by (elim eth_mint_effect) (auto simp: issued_def minted_def dest!: deposit_issuance [where a = a])
    qed
  next
    case erc20
    then obtain tk sender r v where "payload = ERC20App_encodeCall tk sender r v" using m by (auto simp: app_message_def)
    then have c: "rl_decode_call L payload = Some (Erc20Mint tk sender (mk r) v)" using encoded_calls [OF calls] by blast
    have call: "runtime_dispatch L K (Erc20Mint tk sender (mk r) v) = (\<lambda>org. erc20_mint (erc20_cfg L K) org tk sender (mk r) v)"
      by (subst runtime_dispatch_fix) simp
    show ?thesis
    proof (rule dispatched_call_issues [OF d c])
      show "err_unchanged (runtime_dispatch L K (Erc20Mint tk sender (mk r) v) (DispatchOrigin source))"
        by (simp add: call app_calls_unchanged)
      show "issued t a \<le> issued s a + minted L D a source payload"
        if "runtime_dispatch L K (Erc20Mint tk sender (mk r) v) (DispatchOrigin source) s = (Ok (), t)" for t
        using that erc20 c unfolding call
        by (elim erc20_mint_effect) (auto simp: issued_def minted_def dest!: deposit_issuance [where a = a])
    qed
  next
    case other
    then have "total_issuance (rt_assets s') a = total_issuance (rt_assets s) a"
      using dispatch_Ok_keeps [OF eth_issuance.message_keeps _ d, of "eth_app D" "erc20_app D" a "total_issuance (rt_assets s) a"] peers by simp
    then show ?thesis by (simp add: issued_def)
  qed
qed

section \<open>Calls of the parachain\<close>

text \<open>What the two sides have to agree on, once and for all.\<close>

definition no_bridged_xcm :: "xcm_lib \<Rightarrow> bool" where
  "no_bridged_xcm X \<longleftrightarrow> (\<forall>bs. xcm_decode_asset_id X bs = None)"

definition compatible :: "('b, 'd, 'f) runtime_lib \<Rightarrow> deployment \<Rightarrow> 't evm_lib \<Rightarrow> bool" where
  "compatible L D T \<longleftrightarrow> (\<exists>ps mk. ps \<in> set runtime_pallets \<and> decodes_calls ps mk L) \<and> decodes_payloads L T \<and>
     no_bridged_xcm (rl_xcm L) \<and> distinct [eth_app D, erc20_app D, dot_app D, erc721_app D]"

text \<open>
  The header can be trusted: its import makes the light client verify no log that the contracts have not emitted.
\<close>

definition honest :: "('b, 'd, 'f) runtime_lib \<Rightarrow> runtime_constants \<Rightarrow> deployment \<Rightarrow> 't evm \<Rightarrow> header \<Rightarrow> bool" where
  "honest L K D e h \<longleftrightarrow> (\<forall>org p C r C'. genuine L K D e C \<longrightarrow> import_header (lc_cfg L K) org h p C = (r, C') \<longrightarrow> returns r \<longrightarrow>
     genuine L K D e C')"

primrec imports_only :: "(header \<Rightarrow> bool) \<Rightarrow> ('d, 'f) call \<Rightarrow> bool" where
  "imports_only P (BasicInboundSubmit m) \<longleftrightarrow> True"
| "imports_only P (IncentivizedInboundSubmit m) \<longleftrightarrow> True"
| "imports_only P (SetRewardFraction f) \<longleftrightarrow> True"
| "imports_only P (ImportHeader h p) \<longleftrightarrow> P h"
| "imports_only P (AssetsTransfer a d x) \<longleftrightarrow> True"
| "imports_only P (DotLock c recipient y) \<longleftrightarrow> True"
| "imports_only P (DotUnlock sender d x) \<longleftrightarrow> True"
| "imports_only P (EthBurn c recipient x) \<longleftrightarrow> True"
| "imports_only P (EthMint sender d x) \<longleftrightarrow> True"
| "imports_only P (Erc20Burn c t recipient x) \<longleftrightarrow> True"
| "imports_only P (Erc20Mint t sender d x) \<longleftrightarrow> True"
| "imports_only P (Erc721Burn c n recipient) \<longleftrightarrow> True"
| "imports_only P (Erc721Mint sender d ct i uri) \<longleftrightarrow> True"
| "imports_only P (ForeignCall f cs) \<longleftrightarrow> list_all id (map (imports_only P) cs)"

text \<open>
  The parachain's share of the invariant of the bridge: what is issued, arriving and queued stays below a bound.
\<close>

definition settled :: "('b, 'd, 'f) runtime_lib \<Rightarrow> runtime_constants \<Rightarrow> deployment \<Rightarrow> 't evm_lib \<Rightarrow> 't evm \<Rightarrow> nat \<Rightarrow> nat \<Rightarrow>
    (asset_id \<Rightarrow> nat) \<Rightarrow> 'b runtime \<Rightarrow> bool" where
  "settled L K D T e k l B s \<longleftrightarrow> genuine L K D e (rt_light_client s) \<and>
     unat (bin_nonce (rt_basic_in s)) \<le> length (ev_basic_events e) \<and>
     unat (iin_nonce (rt_incentivized_in s)) \<le> length (ev_incentivized_events e) \<and> in_queue_after k l s \<and>
     (\<forall>a. issued s a + arriving L D e s a + queued T D s a \<le> B a)"

definition covered :: "('b, 'd, 'f) runtime_lib \<Rightarrow> runtime_constants \<Rightarrow> deployment \<Rightarrow> 't evm_lib \<Rightarrow> 't evm \<Rightarrow> nat \<Rightarrow> nat \<Rightarrow>
    (asset_id \<Rightarrow> nat) \<Rightarrow> 'b runtime \<Rightarrow> bool" where
  "covered L K D T e k l B s \<longleftrightarrow> compatible L D T \<and> events_wf D e \<and> rt_inv s \<and> peered D s \<and> settled L K D T e k l B s"

lemma arriving_view: "inbound_view s' = inbound_view s \<Longrightarrow> arriving L D e s' a = arriving L D e s a"
  by (simp add: arriving_def inbound_view_def)

lemma settled_view:
  assumes "settled L K D T e k l B s" "inbound_view s' = inbound_view s" "outbound_view s' = outbound_view s"
    and "\<And>a. issued s' a \<le> issued s a"
  shows "settled L K D T e k l B s'"
proof -
  have "queued T D s' a = queued T D s a" "in_queue_after k l s' = in_queue_after k l s" for a
    using assms(3) by (simp_all add: queued_def in_queue_after_def outbound_view_def)
  moreover have "issued s' a + arriving L D e s a + queued T D s a \<le> B a" for a
    using assms(1) assms(4) [of a] unfolding settled_def by (meson add_le_mono1 le_trans)
  ultimately show ?thesis
    using assms(1,2) arriving_view [OF assms(2), of L D e] by (simp add: settled_def inbound_view_def)
qed

lemma settled_router:
  assumes s: "settled L K D T e k l B s" and v: "inbound_view s1 = inbound_view s" "outbound_view s1 = outbound_view s"
    and i: "assets_inv (rt_assets s1)" "\<And>a. issued s1 a + released T D a target q \<le> issued s a"
    and r: "rt_router L K c w target q s1 = (Ok (), u)"
  shows "settled L K D T e k l B (deposit_event rt_sys ev u)"
proof (rule settled_view)
  have s1: "settled L K D T e k l (\<lambda>a. B a - released T D a target q) s1"
  proof -
    have "settled L K D T e k l B s1" by (rule settled_view [OF s v]) (meson add_leE i(2))
    moreover have "issued s1 a + arriving L D e s1 a + queued T D s1 a \<le> B a - released T D a target q" for a
    proof -
      have "issued s a + arriving L D e s1 a + queued T D s1 a \<le> B a"
        using s arriving_view [OF v(1), of L D e a] v(2) by (simp add: settled_def queued_def outbound_view_def)
      then show ?thesis using i(2) [of a] by linarith
    qed
    ultimately show ?thesis by (simp add: settled_def)
  qed
  have "issued u a + arriving L D e u a + queued T D u a \<le> B a" for a
  proof -
    have "issued s1 a + arriving L D e s1 a + queued T D s1 a + released T D a target q \<le> B a"
    proof -
      have "released T D a target q \<le> B a"
        using i(2) [of a] s unfolding settled_def by (meson add_leE le_trans)
      then show ?thesis using s1 unfolding settled_def by (metis le_diff_conv2)
    qed
    then show ?thesis
      using router_amounts [OF r i(1), of a T D] router_views [OF r, of k l] arriving_view [of u s1 L D e a] by simp
  qed
  then show "settled L K D T e k l B u"
    using s1 router_views [OF r, of k l] by (simp add: settled_def inbound_view_def)
qed (simp_all add: inbound_view_def outbound_view_def issued_def rt_sys_def)

lemma released_elsewhere:
  assumes "compatible L D T"
  shows "released T D a (dot_app D) q = 0" "released T D a (erc721_app D) q = 0"
  using assms by (auto simp: released_def compatible_def split: option.splits app_call.splits)

end
