(* ===== verification/Bridge_Coverage.thy ===== *)
theory Bridge_Coverage
  imports Bridge_Transfers
begin

text \<open>
  Every call of the parachain, with any native origin, keeps what it owes covered: a message is taken once and mints
  what its event says, and what is burned goes into the queues.
\<close>

section \<open>Messages from Ethereum\<close>

lemma nth_event:
  fixes n :: u64
  assumes "map (unat \<circ> f) vs = [1..<Suc (length vs)]" "v \<in> set vs" "f v = n + 1"
  shows "unat (n + 1) = Suc (unat n) \<and> unat n < length vs \<and> drop (unat n) vs = v # drop (Suc (unat n)) vs"
proof -
  obtain i where i: "i < length vs" "v = vs ! i" using assms(2) by (metis in_set_conv_nth)
  have "unat (f v) = Suc i" using arg_cong [OF assms(1), of "\<lambda>xs. xs ! i"] i by (simp del: upt_Suc)
  then have "n + 1 \<noteq> 0" "unat (n + 1) = Suc i" using assms(3) by auto
  then have "unat (n + 1) = Suc (unat n)" by (metis add.commute unatSuc)
  then have "unat n = i" using \<open>unat (n + 1) = Suc i\<close> by simp
  then show ?thesis using i \<open>unat (n + 1) = Suc (unat n)\<close> by (simp add: Cons_nth_drop_Suc)
qed

lemma peered_addresses:
  "peered D s \<Longrightarrow> rt_eth_address s = eth_app D \<and> rt_erc20_address s = erc20_app D \<and> rt_dot_address s = dot_app D \<and>
     erc721_address (rt_erc721 s) = erc721_app D \<and> bin_source_channel (rt_basic_in s) = basic_out D \<and>
     iin_source_channel (rt_incentivized_in s) = incentivized_out D"
  by (simp add: peered_def rt_config_def)

lemma compatible_mints:
  assumes "compatible L D T" "dispatch (dispatch_cfg L (runtime_dispatch L K)) source i payload s = (Ok (), s')"
    and "peered D s" "app_message D source payload"
  shows "issued s' a \<le> issued s a + minted L D a source payload"
  using assms message_mints peered_addresses [OF assms(3)] unfolding compatible_def by blast

lemma message_views:
  assumes "dispatch (dispatch_cfg L (runtime_dispatch L K)) source i payload s = (Ok (), s')"
  shows "inbound_view s' = inbound_view s \<and> outbound_view s' = outbound_view s"
  using dispatch_Ok_keeps [OF eth_views.message_keeps _ assms, of "inbound_view s" "outbound_view s"] by simp

lemma basic_submit_settled:
  assumes c: "covered L K D T e k l B s" and run: "runtime_dispatch L K (BasicInboundSubmit m) org s = (Ok (), s')"
  shows "settled L K D T e k l B s'"
  using run
proof (rule basic_accepted)
  fix who lg env
  assume lg: "verify (lc_cfg L K) m (rt_light_client s) = (Ok lg, rt_light_client s)" "basic_envelope_try_from (rl_abi L) lg = Some env"
      "benv_channel env = bin_source_channel (rt_basic_in s)" and n: "benv_nonce env = bin_nonce (rt_basic_in s) + 1"
    and d: "dispatch (dispatch_cfg L (runtime_dispatch L K)) (benv_source env) \<lparr>channel_id = Basic, mid_nonce = benv_nonce env\<rparr>
      (benv_payload env) (s\<lparr>rt_basic_in := (rt_basic_in s)\<lparr>bin_nonce := benv_nonce env\<rparr>\<rparr>) = (Ok (), s')"
  let ?t = "s\<lparr>rt_basic_in := (rt_basic_in s)\<lparr>bin_nonce := benv_nonce env\<rparr>\<rparr>"
  let ?v = "\<lparr>be_source = benv_source env, be_nonce = benv_nonce env, be_payload = benv_payload env\<rparr>"
  have st: "settled L K D T e k l B s" "compatible L D T" "peered D s" "events_wf D e" using c by (simp_all add: covered_def)
  have "emitted L K D e lg" using st(1) lg(1) by (metis settled_def genuine_def fst_conv)
  then have v: "?v \<in> set (ev_basic_events e)"
    using lg(2,3) peered_addresses [OF st(3)] by (simp add: emitted_def)
  have next_event: "unat (benv_nonce env) = Suc (unat (bin_nonce (rt_basic_in s)))"
      "unat (bin_nonce (rt_basic_in s)) < length (ev_basic_events e)"
      "drop (unat (bin_nonce (rt_basic_in s))) (ev_basic_events e) = ?v # drop (Suc (unat (bin_nonce (rt_basic_in s)))) (ev_basic_events e)"
    using nth_event [of be_nonce "ev_basic_events e" ?v "bin_nonce (rt_basic_in s)"] v n st(4) by (simp_all add: events_wf_def)
  have "app_message D (benv_source env) (benv_payload env)" using v st(4) by (auto simp: events_wf_def list_all_iff)
  then have mint: "issued s' a \<le> issued s a + minted L D a (benv_source env) (benv_payload env)" for a
    using compatible_mints [OF st(2) d, of a] st(3) by (simp add: peered_def rt_config_def issued_def)
  have arr: "arriving L D e s a = arriving L D e ?t a + minted L D a (benv_source env) (benv_payload env)" for a
    by (simp add: arriving_def next_event)
  note w = message_views [OF d]
  have "issued s' a + arriving L D e s' a + queued T D s' a \<le> B a" for a
  proof -
    have "queued T D s' a = queued T D s a" using w by (simp add: queued_def outbound_view_def)
    moreover have "issued s a + arriving L D e s a + queued T D s a \<le> B a" using st(1) by (simp add: settled_def)
    ultimately show ?thesis using mint [of a] arr [of a] arriving_view [of s' ?t L D e a] w by linarith
  qed
  then show ?thesis
    using st(1) w next_event(1,2) by (simp add: settled_def inbound_view_def outbound_view_def in_queue_after_def)
qed

lemma incentivized_submit_settled:
  assumes c: "covered L K D T e k l B s" and run: "runtime_dispatch L K (IncentivizedInboundSubmit m) org s = (Ok (), s')"
  shows "settled L K D T e k l B s'"
  using run
proof (rule incentivized_accepted)
  fix lg env b
  assume lg: "verify (lc_cfg L K) m (rt_light_client s) = (Ok lg, rt_light_client s)"
      "incentivized_envelope_try_from (rl_abi L) (fee_converter K) lg = Ok env" "ienv_channel env = iin_source_channel (rt_incentivized_in s)"
    and n: "ienv_nonce env = iin_nonce (rt_incentivized_in s) + 1"
    and d: "dispatch (dispatch_cfg L (runtime_dispatch L K)) (ienv_source env) \<lparr>channel_id = Incentivized, mid_nonce = ienv_nonce env\<rparr>
      (ienv_payload env) (s\<lparr>rt_incentivized_in := (rt_incentivized_in s)\<lparr>iin_nonce := ienv_nonce env\<rparr>, rt_foreign := b\<rparr>) = (Ok (), s')"
  let ?t = "s\<lparr>rt_incentivized_in := (rt_incentivized_in s)\<lparr>iin_nonce := ienv_nonce env\<rparr>, rt_foreign := b\<rparr>"
  have st: "settled L K D T e k l B s" "compatible L D T" "peered D s" "events_wf D e" using c by (simp_all add: covered_def)
  have "emitted L K D e lg" using st(1) lg(1) by (metis settled_def genuine_def fst_conv)
  then obtain v where v: "v \<in> set (ev_incentivized_events e)" "ie_source v = ienv_source env" "ie_nonce v = ienv_nonce env"
      "ie_payload v = ienv_payload env"
    using lg(2,3) peered_addresses [OF st(3)] by (auto simp: emitted_def)
  have next_event: "unat (ienv_nonce env) = Suc (unat (iin_nonce (rt_incentivized_in s)))"
      "unat (iin_nonce (rt_incentivized_in s)) < length (ev_incentivized_events e)"
      "drop (unat (iin_nonce (rt_incentivized_in s))) (ev_incentivized_events e) =
        v # drop (Suc (unat (iin_nonce (rt_incentivized_in s)))) (ev_incentivized_events e)"
    using nth_event [of ie_nonce "ev_incentivized_events e" v "iin_nonce (rt_incentivized_in s)"] v n st(4) by (simp_all add: events_wf_def)
  have "app_message D (ienv_source env) (ienv_payload env)" using v st(4) by (auto simp: events_wf_def list_all_iff)
  then have mint: "issued s' a \<le> issued s a + minted L D a (ienv_source env) (ienv_payload env)" for a
    using compatible_mints [OF st(2) d, of a] st(3) by (simp add: peered_def rt_config_def issued_def)
  have arr: "arriving L D e s a = arriving L D e ?t a + minted L D a (ienv_source env) (ienv_payload env)" for a
    by (simp add: arriving_def next_event v)
  note w = message_views [OF d]
  have "issued s' a + arriving L D e s' a + queued T D s' a \<le> B a" for a
  proof -
    have "queued T D s' a = queued T D s a" using w by (simp add: queued_def outbound_view_def)
    moreover have "issued s a + arriving L D e s a + queued T D s a \<le> B a" using st(1) by (simp add: settled_def)
    ultimately show ?thesis using mint [of a] arr [of a] arriving_view [of s' ?t L D e a] w by linarith
  qed
  then show ?thesis
    using st(1) w next_event(1,2) by (simp add: settled_def inbound_view_def outbound_view_def in_queue_after_def)
qed

section \<open>Messages to Ethereum\<close>

lemma dot_lock_settled:
  assumes c: "covered L K D T e k l B s" and run: "lock (dot_cfg L K) org ch recipient x s = (Ok (), s')"
  shows "settled L K D T e k l B s'"
  using run
proof (rule lock_effect)
  fix who b q u ev
  assume r: "rt_router L K ch who (rt_dot_address s) q (s\<lparr>rt_foreign := b\<rparr>) = (Ok (), u)" and s': "s' = deposit_event rt_sys ev u"
  have st: "settled L K D T e k l B s" "compatible L D T" "peered D s" "rt_inv s" using c by (simp_all add: covered_def)
  show ?thesis unfolding s'
    by (rule settled_router [OF st(1) _ _ _ _ r])
      (use st(4) released_elsewhere [OF st(2)] peered_addresses [OF st(3)] in
        \<open>simp_all add: inbound_view_def outbound_view_def issued_def rt_inv_def\<close>)
qed

lemma erc721_burn_settled:
  assumes c: "covered L K D T e k l B s" and run: "erc721_burn (erc721_cfg L K) org ch t recipient s = (Ok (), s')"
  shows "settled L K D T e k l B s'"
proof -
  have st: "settled L K D T e k l B s" "compatible L D T" "peered D s" "rt_inv s" using c by (simp_all add: covered_def)
  obtain who q ev N E u where r: "rt_router L K ch who (erc721_address (rt_erc721 s)) q (s\<lparr>rt_nft := N, rt_erc721 := E\<rparr>) = (Ok (), u)"
      and s': "s' = deposit_event rt_sys ev u"
    using run unfolding erc721_burn_Ok
    by (auto simp: Let_def erc721_cfg_def rt_nft_ops_def zoom_nft_def ok_simps st_defs erc721_put_def)
  show ?thesis unfolding s'
    by (rule settled_router [OF st(1) _ _ _ _ r])
      (use st(4) released_elsewhere [OF st(2)] peered_addresses [OF st(3)] in
        \<open>simp_all add: inbound_view_def outbound_view_def issued_def rt_inv_def\<close>)
qed

text \<open>What is burned is what the message releases.\<close>

lemma withdrawn_settled:
  assumes c: "covered L K D T e k l B s" and A: "withdraw b w x (rt_assets s) = (Ok (), A)"
    and q: "\<And>a. released T D a target q \<le> (if a = b then unat x else 0)"
    and r: "rt_router L K ch w target q (s\<lparr>rt_assets := A\<rparr>) = (Ok (), u)"
  shows "settled L K D T e k l B (deposit_event rt_sys ev u)"
proof -
  have st: "settled L K D T e k l B s" "assets_inv (rt_assets s)" using c by (simp_all add: covered_def rt_inv_def)
  note w = withdraw_effect [OF st(2) A]
  have "issued (s\<lparr>rt_assets := A\<rparr>) a + released T D a target q \<le> issued s a" for a
    using w q [of a] by (simp add: issued_def)
  then show ?thesis
    using settled_router [OF st(1) _ _ _ _ r] w by (simp add: inbound_view_def outbound_view_def)
qed

lemma eth_burn_settled:
  assumes c: "covered L K D T e k l B s" and run: "eth_burn (eth_cfg L K) org ch recipient x s = (Ok (), s')"
  shows "settled L K D T e k l B s'"
proof -
  obtain w A u where A: "withdraw ETH w x (rt_assets s) = (Ok (), A)"
      and u: "rt_router L K ch w (rt_eth_address s) (eth_payload_encode (rl_abi L) \<lparr>ep_sender = w, ep_recipient = recipient, ep_amount = x\<rparr>)
        (s\<lparr>rt_assets := A\<rparr>) = (Ok (), u)"
      and s': "s' = deposit_event rt_sys (EthBurned w recipient x) u"
    using run unfolding eth_burn_def by (auto simp: ok_simps Let_def eth_cfg_def single_asset_adaptor_def rt_asset_simps)
  show ?thesis unfolding s'
    by (rule withdrawn_settled [OF c A _ u])
      (use c in \<open>simp add: covered_def compatible_def decodes_payloads_def released_def\<close>)
qed

lemma erc20_burn_settled:
  assumes c: "covered L K D T e k l B s" and run: "erc20_burn (erc20_cfg L K) org ch t recipient x s = (Ok (), s')"
  shows "settled L K D T e k l B s'"
proof -
  obtain w A u where A: "withdraw (Token t) w x (rt_assets s) = (Ok (), A)"
      and u: "rt_router L K ch w (rt_erc20_address s) (erc20_payload_encode (rl_abi L)
        \<lparr>e20p_token = t, e20p_sender = w, e20p_recipient = recipient, e20p_amount = x\<rparr>) (s\<lparr>rt_assets := A\<rparr>) = (Ok (), u)"
      and s': "s' = deposit_event rt_sys (Erc20Burned t w recipient x) u"
    using run unfolding erc20_burn_def by (auto simp: ok_simps Let_def erc20_cfg_def rt_asset_simps)
  show ?thesis unfolding s'
    by (rule withdrawn_settled [OF c A _ u])
      (use c in \<open>simp add: covered_def compatible_def decodes_payloads_def released_def\<close>)
qed

section \<open>All calls\<close>

lemma no_xcm_match:
  assumes "no_bridged_xcm X"
  shows "match_assets X a \<noteq> Ok y"
  using assms match_assets_Ok [of X a "fst y" "snd y"] by (auto simp: no_bridged_xcm_def)

lemma no_xcm_moves:
  assumes "no_bridged_xcm X"
  shows "snd (deposit_asset X M x l s) = s" "snd (withdraw_asset X M x l s) = s"
  using no_xcm_match [OF assms] by (cases "match_assets X x"; simp add: deposit_asset_def withdraw_asset_def bind_ext_def lift_res_def)+

lemma no_xcm_keeps:
  assumes "\<And>s. I s \<Longrightarrow> no_bridged_xcm X"
  shows "keeps I (deposit_asset X M x l)" "keeps I (withdraw_asset X M x l)"
  by (rule keepsI, metis assms no_xcm_moves snd_conv)+

lemma transfer_no_growth: "transfer a w v x A = (Ok (), A') \<Longrightarrow> unat (total_issuance A' b) \<le> unat (total_issuance A b)"
  by (simp add: transfer_issuance)

lemma settled_covered:
  assumes "covered L K D T e k l B s" "run_call L K (runtime_dispatch L K) c org s = (r, s')" "returns r" "settled L K D T e k l B s'"
  shows "covered L K D T e k l B s'"
  using keepsD [OF rt_inv.call_keeps _ assms(2,3)] keepsD [OF rt_fixed.call_keeps _ assms(2,3), of "rt_config s"] assms(1,4)
  by (simp add: covered_def peered_def)

lemma settled_keeps:
  assumes "\<And>s r s'. covered L K D T e k l B s \<Longrightarrow> run_call L K (runtime_dispatch L K) c org s = (r, s') \<Longrightarrow> returns r \<Longrightarrow> settled L K D T e k l B s'"
  shows "keeps (covered L K D T e k l B) (run_call L K (runtime_dispatch L K) c org)"
  by (rule keepsI) (blast intro: settled_covered assms)

lemma settled_OkI:
  assumes "err_unchanged (run_call L K (runtime_dispatch L K) c org)"
    and "\<And>s s'. covered L K D T e k l B s \<Longrightarrow> run_call L K (runtime_dispatch L K) c org s = (Ok (), s') \<Longrightarrow> settled L K D T e k l B s'"
  shows "keeps (covered L K D T e k l B) (run_call L K (runtime_dispatch L K) c org)"
  by (rule keeps_OkI [OF assms(1)]) (auto intro: settled_covered assms(2))

lemma settled_light_client:
  assumes "settled L K D T e k l B s" "genuine L K D e C"
  shows "settled L K D T e k l B (s\<lparr>rt_light_client := C\<rparr>)"
  using assms by (simp add: settled_def in_queue_after_def issued_def arriving_def queued_def)

lemma submits_unchanged:
  "err_unchanged (runtime_dispatch L K (BasicInboundSubmit m) org)" "err_unchanged (runtime_dispatch L K (IncentivizedInboundSubmit m) org)"
  using rt_basic_inbound.nonces.refused rt_incentivized_inbound.nonces.refused by (auto simp: err_unchanged_def runtime_calls)

lemma covered_settled: "covered L K D T e k l B s \<Longrightarrow> settled L K D T e k l B s"
  by (simp add: covered_def)

lemma call_covered:
  "imports_only (honest L K D e) c \<Longrightarrow> keeps (covered L K D T e k l B) (run_call L K (runtime_dispatch L K) c (of_native org))"
proof (induction c arbitrary: org)
  case (BasicInboundSubmit m)
  show ?case by (rule settled_OkI) (use submits_unchanged basic_submit_settled in \<open>auto simp: runtime_calls\<close>)
next
  case (IncentivizedInboundSubmit m)
  show ?case by (rule settled_OkI) (use submits_unchanged incentivized_submit_settled in \<open>auto simp: runtime_calls\<close>)
next
  case (SetRewardFraction f)
  show ?case
    by (rule settled_keeps, drule covered_settled, erule settled_view)
      (auto simp: set_reward_fraction_def incentivized_in_cfg_def ensure_def ext_simps st_defs inbound_view_def outbound_view_def issued_def
        split: if_splits)
next
  case (ImportHeader h p)
  then have h: "honest L K D e h" by simp
  show ?case
    by (rule settled_keeps)
      (use h in \<open>auto simp: zoom_def st_defs honest_def settled_def covered_def intro!: settled_light_client [unfolded settled_def] split: prod.splits\<close>)
next
  case (AssetsTransfer a d x)
  show ?case
    by (rule settled_OkI, simp add: assets_item.zoom_err_unchanged [OF transfer_call_err], drule covered_settled, erule settled_view)
      (auto simp: ok_simps transfer_call_Ok st_defs inbound_view_def outbound_view_def issued_def intro: transfer_no_growth)
next
  case (DotLock c recipient x)
  show ?case by (rule settled_OkI) (auto simp: app_calls_unchanged intro: dot_lock_settled)
next
  case (DotUnlock sender d x)
  show ?case
    by (rule settled_OkI, simp add: app_calls_unchanged, drule covered_settled, erule settled_view)
      (auto simp: inbound_view_def outbound_view_def issued_def elim!: unlock_effect)
next
  case (EthBurn c recipient x)
  show ?case by (rule settled_OkI) (auto simp: app_calls_unchanged intro: eth_burn_settled)
next
  case (Erc20Burn c t recipient x)
  show ?case by (rule settled_OkI) (auto simp: app_calls_unchanged intro: erc20_burn_settled)
next
  case (Erc721Burn c t recipient)
  show ?case by (rule settled_OkI) (auto simp: app_calls_unchanged intro: erc721_burn_settled)
next
  case (ForeignCall f cs)
  have I: "covered L K D T e k l B (s\<lparr>rt_foreign := b\<rparr>)" if "covered L K D T e k l B s" for s b
    using that by (simp add: covered_def rt_inv_def peered_def rt_config_def settled_def in_queue_after_def issued_def arriving_def queued_def)
  have h: "keeps (covered L K D T e k l B) (h (of_native o1))" if "h \<in> set (map (run_call L K (runtime_dispatch L K)) cs)" for h o1
    using that ForeignCall by (auto simp: list_all_iff)
  have X: "no_bridged_xcm (rl_xcm L)" if "covered L K D T e k l B s" for s
    using that by (simp add: covered_def compatible_def)
  have p: "keeps (covered L K D T e k l B) (run_plan (rl_xcm L) (map (run_call L K (runtime_dispatch L K)) cs) p)" for p
    by (rule native_plan_keeps) (fact I h | rule no_xcm_keeps, erule X)+
  have n: "to_native (of_native org) = Inl org" by (cases org) simp_all
  show ?case by (rule keepsI) (auto simp: run_foreign_def n elim: keepsD [OF p])
qed (auto intro!: keepsI dest: native_mint_fails)

end
