(* ===== verification/Contract_Custody.thy ===== *)
theory Contract_Custody
  imports Bridge_Coverage
begin

text \<open>
  The contracts' side: what the apps hold grows by what the events announce, and falls by at most what the
  delivered messages release.
\<close>

section \<open>Custody\<close>

text \<open>
  What the documentation of ERC20 promises of a token, as far as the ERC20 app can tell, which approves nobody:
  \<open>transferFrom\<close> moves the amount to the app, \<open>transfer\<close> takes no more than the amount from it and succeeds when the app has the amount,
  and no other operation takes tokens of the app.
\<close>

definition no_loss :: "'t evm_lib \<Rightarrow> deployment \<Rightarrow> h160 \<Rightarrow> ('t, string, 'a) ext \<Rightarrow> bool" where
  "no_loss T D t op \<longleftrightarrow> (\<forall>x v x'. op x = (Ok v, x') \<longrightarrow> erc20_balance T t (erc20_app D) x \<le> erc20_balance T t (erc20_app D) x')"

definition left_alone :: "'t evm_lib \<Rightarrow> deployment \<Rightarrow> h160 \<Rightarrow> bool" where
  "left_alone T D t \<longleftrightarrow>
     (\<forall>u src dest v. u \<noteq> t \<longrightarrow> no_loss T D t (erc20_transfer T u src dest v) \<and> no_loss T D t (erc20_transfer_from T u src dest v)) \<and>
     (\<forall>h v d. no_loss T D t (wrapped_burn T h v d) \<and> no_loss T D t (wrapped_mint T h v d)) \<and>
     (\<forall>u i. no_loss T D t (erc721_token_uri T u i)) \<and> (\<forall>u src dest i. no_loss T D t (erc721_transfer_from T u src dest i)) \<and>
     (\<forall>u bs. no_loss T D t (call_contract T u bs))"

definition standard_token :: "'t evm_lib \<Rightarrow> deployment \<Rightarrow> h160 \<Rightarrow> bool" where
  "standard_token T D t \<longleftrightarrow> left_alone T D t \<and>
     (\<forall>src v x x'. src \<noteq> erc20_app D \<and> erc20_transfer_from T t src (erc20_app D) v x = (Ok True, x') \<longrightarrow>
        unat (erc20_balance T t (erc20_app D) x') = unat (erc20_balance T t (erc20_app D) x) + unat v) \<and>
     (\<forall>r v x x'. erc20_transfer T t (erc20_app D) r v x = (Ok True, x') \<longrightarrow>
        unat (erc20_balance T t (erc20_app D) x) \<le> unat (erc20_balance T t (erc20_app D) x') + unat v) \<and>
     (\<forall>r v x. r \<noteq> 0 \<and> r \<noteq> erc20_app D \<and> v \<le> erc20_balance T t (erc20_app D) x \<and> unat (erc20_balance T t r x) + unat v < 2 ^ 256 \<longrightarrow>
        (\<exists>x'. erc20_transfer T t (erc20_app D) r v x = (Ok True, x') \<and> erc20_balance T t r x' = erc20_balance T t r x + v))"

definition sound_asset :: "'t evm_lib \<Rightarrow> deployment \<Rightarrow> asset_id \<Rightarrow> bool" where
  "sound_asset T D a = (case a of ETH \<Rightarrow> True | Token t \<Rightarrow> standard_token T D t)"

text \<open>
  The apps keep count of what they have locked, but rewards are paid without being counted, and tokens are held by their own contract:
  what is counted and what is held have both to suffice.
\<close>

definition custody :: "'t evm_lib \<Rightarrow> deployment \<Rightarrow> 't evm \<Rightarrow> asset_id \<Rightarrow> nat" where
  "custody T D e a = (case a of
       ETH \<Rightarrow> min (unat (ev_balance e)) (unat (ev_ether e (eth_app D)))
     | Token t \<Rightarrow> min (unat (ev_balances e t)) (unat (erc20_balance T t (erc20_app D) (ev_tokens e))))"

lemma custody_simps:
  "custody T D e ETH = min (unat (ev_balance e)) (unat (ev_ether e (eth_app D)))"
  "custody T D e (Token t) = min (unat (ev_balances e t)) (unat (erc20_balance T t (erc20_app D) (ev_tokens e)))"
  "sound_asset T D ETH" "sound_asset T D (Token t) = standard_token T D t"
  by (simp_all add: custody_def sound_asset_def)

lemma custody_view:
  "custody T D (e\<lparr>ev_basic_out := b\<rparr>) a = custody T D e a" "custody T D (e\<lparr>ev_incentivized_out := i\<rparr>) a = custody T D e a"
  "custody T D (e\<lparr>ev_basic_in_nonce := n\<rparr>) a = custody T D e a" "custody T D (e\<lparr>ev_incentivized_in_nonce := n\<rparr>) a = custody T D e a"
  by (cases a; simp add: custody_simps)+

text \<open>Between two states of the token contracts the app has lost no tokens.\<close>

definition tokens_safe :: "'t evm_lib \<Rightarrow> deployment \<Rightarrow> 't \<Rightarrow> 't \<Rightarrow> bool" where
  "tokens_safe T D x x' \<longleftrightarrow> (\<forall>t. standard_token T D t \<longrightarrow> erc20_balance T t (erc20_app D) x \<le> erc20_balance T t (erc20_app D) x')"

lemma tokens_safe_refl [simp]: "tokens_safe T D x x"
  by (simp add: tokens_safe_def)

lemma tokens_safe_trans: "tokens_safe T D x y \<Longrightarrow> tokens_safe T D y z \<Longrightarrow> tokens_safe T D x z"
  unfolding tokens_safe_def using order_trans by blast

lemma no_loss_safe: "(\<And>t. left_alone T D t \<Longrightarrow> no_loss T D t op) \<Longrightarrow> op x = (Ok v, x') \<Longrightarrow> tokens_safe T D x x'"
  by (auto simp: tokens_safe_def no_loss_def standard_token_def)

lemma operations_safe:
  "wrapped_burn T h v d x = (Ok r, x') \<Longrightarrow> tokens_safe T D x x'" "wrapped_mint T h v d x = (Ok r, x') \<Longrightarrow> tokens_safe T D x x'"
  "erc721_token_uri T u i x = (Ok s, x') \<Longrightarrow> tokens_safe T D x x'" "erc721_transfer_from T u src dest i x = (Ok r, x') \<Longrightarrow> tokens_safe T D x x'"
  "call_contract T u bs x = (Ok r, x') \<Longrightarrow> tokens_safe T D x x'"
  by (erule no_loss_safe [rotated], simp add: left_alone_def)+

lemma standard_tokenD:
  assumes "standard_token T D t"
  shows "src \<noteq> erc20_app D \<Longrightarrow> erc20_transfer_from T u src (erc20_app D) v x = (Ok True, x') \<Longrightarrow>
      unat (erc20_balance T t (erc20_app D) x) + (if t = u then unat v else 0) \<le> unat (erc20_balance T t (erc20_app D) x')"
    and "erc20_transfer T u (erc20_app D) r v x = (Ok True, x') \<Longrightarrow>
      unat (erc20_balance T t (erc20_app D) x) \<le> unat (erc20_balance T t (erc20_app D) x') + (if t = u then unat v else 0)"
proof -
  have other: "unat (erc20_balance T t (erc20_app D) x) \<le> unat (erc20_balance T t (erc20_app D) x')"
    if "t \<noteq> u" "erc20_transfer_from T u src (erc20_app D) v x = (Ok True, x') \<or> erc20_transfer T u (erc20_app D) r v x = (Ok True, x')" for src r
  proof -
    have "no_loss T D t (erc20_transfer_from T u src (erc20_app D) v)" "no_loss T D t (erc20_transfer T u (erc20_app D) r v)"
      using assms that(1) by (simp_all add: standard_token_def left_alone_def)
    then show ?thesis using that(2) by (auto simp: no_loss_def word_le_nat_alt)
  qed
  show "unat (erc20_balance T t (erc20_app D) x) + (if t = u then unat v else 0) \<le> unat (erc20_balance T t (erc20_app D) x')"
    if "src \<noteq> erc20_app D" "erc20_transfer_from T u src (erc20_app D) v x = (Ok True, x')"
    using assms that other [of src] by (cases "t = u") (simp_all add: standard_token_def)
  show "unat (erc20_balance T t (erc20_app D) x) \<le> unat (erc20_balance T t (erc20_app D) x') + (if t = u then unat v else 0)"
    if "erc20_transfer T u (erc20_app D) r v x = (Ok True, x')"
    using assms that other [of _ r] by (cases "t = u") (simp_all add: standard_token_def)
qed

lemma standard_transfer:
  assumes "standard_token T D t" "r \<noteq> 0" "r \<noteq> erc20_app D" "v \<le> erc20_balance T t (erc20_app D) x" "unat (erc20_balance T t r x) + unat v < 2 ^ 256"
  obtains x' where "erc20_transfer T t (erc20_app D) r v x = (Ok True, x')" "erc20_balance T t r x' = erc20_balance T t r x + v"
  using assms unfolding standard_token_def by blast

definition minted_by :: "('b, 'd, 'f) runtime_lib \<Rightarrow> deployment \<Rightarrow> asset_id \<Rightarrow> 't evm \<Rightarrow> nat" where
  "minted_by L D a e = sum_list (map (\<lambda>v. minted L D a (be_source v) (be_payload v)) (ev_basic_events e)) +
     sum_list (map (\<lambda>v. minted L D a (ie_source v) (ie_payload v)) (ev_incentivized_events e))"

lemmas evm_simps = require_def checked_def ok_simps tokens_st_def Let_def

section \<open>Events\<close>

text \<open>Events are only added, and with them what they may mint.\<close>

definition posted :: "('b, 'd, 'f) runtime_lib \<Rightarrow> deployment \<Rightarrow> (asset_id \<Rightarrow> nat) \<Rightarrow> 't evm \<Rightarrow> 't evm \<Rightarrow> bool" where
  "posted L D x e e' \<longleftrightarrow> (events_wf D e \<longrightarrow> events_wf D e') \<and>
     (\<exists>vs ws. ev_basic_events e' = ev_basic_events e @ vs \<and> ev_incentivized_events e' = ev_incentivized_events e @ ws) \<and>
     (\<forall>a. minted_by L D a e' \<le> minted_by L D a e + x a)"

definition held :: "'t evm \<Rightarrow> u256 \<times> (h160 \<Rightarrow> u256) \<times> (h160 \<Rightarrow> u256) \<times> u64 \<times> u64" where
  "held e = (ev_balance e, ev_balances e, ev_ether e, ev_basic_in_nonce e, ev_incentivized_in_nonce e)"

lemma events_wf_cong:
  assumes "ev_basic_events e' = ev_basic_events e" "ev_incentivized_events e' = ev_incentivized_events e"
    and "bc_nonce (ev_basic_out e') = bc_nonce (ev_basic_out e)" "ic_nonce (ev_incentivized_out e') = ic_nonce (ev_incentivized_out e)"
  shows "events_wf D e' = events_wf D e" "posted L D x e e'"
  using assms by (simp_all add: posted_def events_wf_def minted_by_def)

lemma submit_posts:
  assumes run: "channel_submit D T c src org payload e = (Ok (), e')" and m: "app_message D src payload"
  shows "posted L D (\<lambda>a. minted L D a src payload) e e' \<and> held e' = held e \<and> tokens_safe T D (ev_tokens e) (ev_tokens e')"
proof (cases c)
  case Basic
  then obtain n where n: "checked_add (bc_nonce (ev_basic_out e)) 1 = Some n"
      and e': "e' = e\<lparr>ev_basic_out := (ev_basic_out e)\<lparr>bc_nonce := n\<rparr>,
        ev_basic_events := ev_basic_events e @ [\<lparr>be_source = src, be_nonce = n, be_payload = payload\<rparr>]\<rparr>"
    using run by (auto simp: channel_submit_def BasicOutboundChannel_submit_def evm_simps split: if_splits)
  have "unat n = Suc (unat (bc_nonce (ev_basic_out e)))" using n by (simp add: checked_add_Some_iff)
  then show ?thesis using m by (auto simp: e' posted_def held_def events_wf_def minted_by_def)
next
  case Incentivized
  then obtain n t where n: "checked_add (ic_nonce (ev_incentivized_out e)) 1 = Some n" "tokens_safe T D (ev_tokens e) t"
      and e': "e' = e\<lparr>ev_tokens := t, ev_incentivized_out := (ev_incentivized_out e)\<lparr>ic_nonce := n\<rparr>,
        ev_incentivized_events := ev_incentivized_events e @
          [\<lparr>ie_source = src, ie_nonce = n, ie_fee = ic_fee (ev_incentivized_out e), ie_payload = payload\<rparr>]\<rparr>"
    using run by (auto simp: channel_submit_def IncentivizedOutboundChannel_submit_def DOTApp_burnFee_def evm_simps dest: operations_safe(1) [where D = D])
  have "unat n = Suc (unat (ic_nonce (ev_incentivized_out e)))" using n by (simp add: checked_add_Some_iff)
  then show ?thesis using m n(2) by (auto simp: e' posted_def held_def events_wf_def minted_by_def)
qed

section \<open>Transactions of users\<close>

text \<open>
  What anyone may do on Ethereum.  A sender is none of the contracts.  Everything else that happens there may take nothing from the
  ETH app, and no standard token from the ERC20 app.
\<close>

definition contracts :: "deployment \<Rightarrow> h160 set" where
  "contracts D = {eth_app D, dot_app D, erc20_app D, erc721_app D, basic_out D, incentivized_out D, basic_in D, incentivized_in D}"

definition access_change :: "h160 \<Rightarrow> channel_access \<Rightarrow> channel_access \<Rightarrow> bool" where
  "access_change updater acc acc' \<longleftrightarrow> (\<exists>msg_sender operator.
     authorizeOperator msg_sender operator acc = (Ok (), acc') \<or> revokeOperator msg_sender operator acc = (Ok (), acc') \<or>
     acc' = authorizeDefaultOperator operator acc \<or> revokeDefaultOperator updater operator acc = (Ok (), acc'))"

inductive evm_step :: "deployment \<Rightarrow> 't evm_lib \<Rightarrow> 't evm \<Rightarrow> 't evm \<Rightarrow> bool" for D T where
  eth_lock: "msg_sender \<notin> contracts D \<Longrightarrow> ETHApp_lock D T msg_sender v recipient c e = (Ok (), e') \<Longrightarrow> evm_step D T e e'"
| erc20_lock: "msg_sender \<notin> contracts D \<Longrightarrow> ERC20App_lock D T msg_sender token recipient v c e = (Ok (), e') \<Longrightarrow> evm_step D T e e'"
| dot_burn: "msg_sender \<notin> contracts D \<Longrightarrow> DOTApp_burn D T msg_sender recipient v c e = (Ok (), e') \<Longrightarrow> evm_step D T e e'"
| erc721_lock: "msg_sender \<notin> contracts D \<Longrightarrow> ERC721App_lock D T msg_sender token i recipient c e = (Ok (), e') \<Longrightarrow> evm_step D T e e'"
| submit: "msg_sender \<notin> contracts D \<Longrightarrow> channel_submit D T c msg_sender org payload e = (Ok (), e') \<Longrightarrow> evm_step D T e e'"
| basic_access: "access_change (bc_config_updater (ev_basic_out e)) (bc_access (ev_basic_out e)) acc \<Longrightarrow>
    evm_step D T e (e\<lparr>ev_basic_out := (ev_basic_out e)\<lparr>bc_access := acc\<rparr>\<rparr>)"
| incentivized_access: "access_change (ic_config_updater (ev_incentivized_out e)) (ic_access (ev_incentivized_out e)) acc \<Longrightarrow>
    evm_step D T e (e\<lparr>ev_incentivized_out := (ev_incentivized_out e)\<lparr>ic_access := acc\<rparr>\<rparr>)"
| set_principal: "BasicOutboundChannel_setPrincipal msg_sender p e = (Ok (), e') \<Longrightarrow> evm_step D T e e'"
| set_fee: "IncentivizedOutboundChannel_setFee msg_sender v e = (Ok (), e') \<Longrightarrow> evm_step D T e e'"
| outside: "ev_ether e (eth_app D) \<le> ether (eth_app D) \<Longrightarrow> tokens_safe T D (ev_tokens e) t \<Longrightarrow> evm_step D T e (e\<lparr>ev_ether := ether, ev_tokens := t\<rparr>)"

text \<open>A transaction that announces \<open>x\<close> has taken at least \<open>x\<close> into custody.\<close>

definition announced :: "('b, 'd, 'f) runtime_lib \<Rightarrow> deployment \<Rightarrow> 't evm_lib \<Rightarrow> 't evm \<Rightarrow> 't evm \<Rightarrow> bool" where
  "announced L D T e e' \<longleftrightarrow> (\<exists>x. posted L D x e e' \<and> (\<forall>a. sound_asset T D a \<longrightarrow> custody T D e a + x a \<le> custody T D e' a)) \<and>
     ev_basic_in_nonce e' = ev_basic_in_nonce e \<and> ev_incentivized_in_nonce e' = ev_incentivized_in_nonce e"

lemma held_custody:
  assumes "held e' = held e" "tokens_safe T D (ev_tokens e) (ev_tokens e')" "sound_asset T D a"
  shows "custody T D e a \<le> custody T D e' a"
  using assms by (cases a) (auto simp: held_def custody_simps tokens_safe_def word_le_nat_alt min_def)

lemma posted_trans:
  assumes "posted L D x e1 e2" "ev_basic_events e1 = ev_basic_events e" "ev_incentivized_events e1 = ev_incentivized_events e"
    "bc_nonce (ev_basic_out e1) = bc_nonce (ev_basic_out e)" "ic_nonce (ev_incentivized_out e1) = ic_nonce (ev_incentivized_out e)"
  shows "posted L D x e e2"
  using assms by (simp add: posted_def minted_by_def events_wf_cong(1) [OF assms(2-5)])

lemma app_mints:
  assumes "compatible L D T"
  shows "minted L D a (eth_app D) (ETHApp_encodeCall sender r v) = (if a = ETH then unat v else 0)"
    and "minted L D a (erc20_app D) (ERC20App_encodeCall t sender r v) = (if a = Token t then unat v else 0)"
proof -
  obtain ps mk where c: "ps \<in> set runtime_pallets" "decodes_calls ps mk L" using assms by (auto simp: compatible_def)
  show "minted L D a (eth_app D) (ETHApp_encodeCall sender r v) = (if a = ETH then unat v else 0)"
    and "minted L D a (erc20_app D) (ERC20App_encodeCall t sender r v) = (if a = Token t then unat v else 0)"
    using encoded_calls [OF c, of sender r v t] by (simp_all add: minted_def)
qed

lemma eth_lock_announced:
  assumes "compatible L D T" "msg_sender \<notin> contracts D" "ETHApp_lock D T msg_sender v recipient c e = (Ok (), e')"
  shows "announced L D T e e'"
proof -
  let ?p = "ETHApp_encodeCall msg_sender recipient v"
  obtain y b where y: "v \<le> ev_ether e msg_sender" "checked_add (ev_ether e (eth_app D)) v = Some y" "checked_add (ev_balance e) v = Some b"
      and s: "channel_submit D T c (eth_app D) msg_sender ?p
        (e\<lparr>ev_ether := (ev_ether e)(msg_sender := ev_ether e msg_sender - v, eth_app D := y), ev_balance := b\<rparr>) = (Ok (), e')"
    using assms(2,3) by (auto simp: ETHApp_lock_def send_ether_def evm_simps contracts_def)
  let ?e1 = "e\<lparr>ev_ether := (ev_ether e)(msg_sender := ev_ether e msg_sender - v, eth_app D := y), ev_balance := b\<rparr>"
  have m: "app_message D (eth_app D) ?p" using assms(1) by (auto simp: app_message_def compatible_def)
  note p = submit_posts [OF s m, of L]
  have "custody T D e a + minted L D a (eth_app D) ?p \<le> custody T D ?e1 a" for a
    unfolding app_mints(1) [OF assms(1)] using y by (cases a) (simp_all add: custody_simps checked_add_Some_iff)
  then have "custody T D e a + minted L D a (eth_app D) ?p \<le> custody T D e' a" if "sound_asset T D a" for a
    using held_custody [of e' ?e1 T D a] p that le_trans by blast
  moreover have "posted L D (\<lambda>a. minted L D a (eth_app D) ?p) e e'" using p by (auto intro: posted_trans)
  ultimately show ?thesis using p unfolding announced_def by (auto simp: held_def)
qed

lemma erc20_lock_announced:
  assumes "compatible L D T" "msg_sender \<notin> contracts D" "ERC20App_lock D T msg_sender token recipient v c e = (Ok (), e')"
  shows "announced L D T e e'"
proof -
  let ?p = "ERC20App_encodeCall token msg_sender recipient v"
  obtain b e2 t where b: "checked_add (ev_balances e token) v = Some b"
      and s: "channel_submit D T c (erc20_app D) msg_sender ?p (e\<lparr>ev_balances := (ev_balances e)(token := b)\<rparr>) = (Ok (), e2)"
      and t: "erc20_transfer_from T token msg_sender (erc20_app D) v (ev_tokens e2) = (Ok True, t)" and e': "e' = e2\<lparr>ev_tokens := t\<rparr>"
    using assms(3) by (auto simp: ERC20App_lock_def evm_simps)
  let ?e1 = "e\<lparr>ev_balances := (ev_balances e)(token := b)\<rparr>"
  have m: "app_message D (erc20_app D) ?p" using assms(1) by (auto simp: app_message_def compatible_def)
  note p = submit_posts [OF s m, of L]
  have "custody T D e a + minted L D a (erc20_app D) ?p \<le> custody T D e' a" if "sound_asset T D a" for a
  proof (cases a)
    case ETH
    then show ?thesis unfolding app_mints(2) [OF assms(1)] using p by (simp add: custody_simps e' held_def)
  next
    case (Token u)
    then have u: "standard_token T D u" using that by (simp add: custody_simps)
    have "unat (erc20_balance T u (erc20_app D) (ev_tokens e)) \<le> unat (erc20_balance T u (erc20_app D) (ev_tokens e2))"
      using p u by (simp add: tokens_safe_def word_le_nat_alt)
    then have "unat (erc20_balance T u (erc20_app D) (ev_tokens e)) + (if u = token then unat v else 0) \<le> unat (erc20_balance T u (erc20_app D) t)"
      using standard_tokenD(1) [OF u _ t] assms(2) by (simp add: contracts_def)
    then show ?thesis unfolding app_mints(2) [OF assms(1)] using p b by (auto simp: Token custody_simps e' held_def checked_add_Some_iff)
  qed
  moreover have "posted L D (\<lambda>a. minted L D a (erc20_app D) ?p) e e'"
  proof -
    have "posted L D (\<lambda>a. minted L D a (erc20_app D) ?p) e e2" using p by (auto intro: posted_trans)
    then show ?thesis by (simp add: e' posted_def minted_by_def events_wf_def)
  qed
  ultimately show ?thesis using p unfolding announced_def by (auto simp: held_def e')
qed

text \<open>The messages of other senders mint nothing.\<close>

lemma other_message:
  assumes "src \<noteq> eth_app D" "src \<noteq> erc20_app D"
  shows "app_message D src payload" "minted L D a src payload = 0"
  using assms by (auto simp: app_message_def minted_def split: option.splits call.splits)

lemma other_submit_announced:
  assumes "channel_submit D T c src org payload e1 = (Ok (), e2)" "src \<noteq> eth_app D" "src \<noteq> erc20_app D"
    and "e1 = e\<lparr>ev_tokens := t\<rparr>" "e' = e2\<lparr>ev_tokens := u\<rparr>" "tokens_safe T D (ev_tokens e) t" "tokens_safe T D (ev_tokens e2) u"
  shows "announced L D T e e'"
proof -
  note o = other_message [OF assms(2,3)]
  have p: "posted L D (\<lambda>a. 0) e1 e2" "held e2 = held e1" "tokens_safe T D (ev_tokens e1) (ev_tokens e2)"
    using submit_posts [OF assms(1) o(1), of L] by (simp_all add: o(2))
  then have "posted L D (\<lambda>a. 0) e e'" by (simp add: assms(4,5) posted_def minted_by_def events_wf_def)
  moreover have "held e' = held e" using p(2) by (simp add: assms(4,5) held_def)
  moreover have "tokens_safe T D (ev_tokens e) (ev_tokens e')"
    using p(3) assms(6,7) by (auto simp: assms(4,5) intro: tokens_safe_trans)
  ultimately show ?thesis using held_custody [of e' e T D] by (auto simp: announced_def held_def intro!: exI [of _ "\<lambda>a. 0"])
qed

lemma quiet_announced:
  assumes "ev_basic_events e' = ev_basic_events e" "ev_incentivized_events e' = ev_incentivized_events e"
    and "bc_nonce (ev_basic_out e') = bc_nonce (ev_basic_out e)" "ic_nonce (ev_incentivized_out e') = ic_nonce (ev_incentivized_out e)"
    and "\<And>a. sound_asset T D a \<Longrightarrow> custody T D e a \<le> custody T D e' a" "ev_basic_in_nonce e' = ev_basic_in_nonce e" "ev_incentivized_in_nonce e' = ev_incentivized_in_nonce e"
  shows "announced L D T e e'"
  unfolding announced_def using events_wf_cong(2) [OF assms(1-4), of L D "\<lambda>a. 0"] assms(5-7) by fastforce

lemma evm_step_announced:
  assumes "evm_step D T e e'" "compatible L D T"
  shows "announced L D T e e'"
  using assms(1)
proof cases
  case (dot_burn msg_sender recipient v c)
  obtain t where t: "tokens_safe T D (ev_tokens e) t"
      and s: "channel_submit D T c (dot_app D) msg_sender (DOTApp_encodeCall msg_sender recipient v) (e\<lparr>ev_tokens := t\<rparr>) = (Ok (), e')"
    using dot_burn by (auto simp: DOTApp_burn_def evm_simps dest: operations_safe(1) [where D = D])
  from s show ?thesis by (rule other_submit_announced [where u = "ev_tokens e'"]) (use assms(2) t in \<open>auto simp: compatible_def\<close>)
next
  case (erc721_lock msg_sender token i recipient c)
  obtain t uri e2 u where s: "channel_submit D T c (erc721_app D) msg_sender (ERC721App_encodeCall token i msg_sender recipient uri)
      (e\<lparr>ev_tokens := t\<rparr>) = (Ok (), e2)" "e' = e2\<lparr>ev_tokens := u\<rparr>" "tokens_safe T D (ev_tokens e) t" "tokens_safe T D (ev_tokens e2) u"
    using erc721_lock by (auto simp: ERC721App_lock_def evm_simps dest!: operations_safe(3,4) [where D = D])
  from s(1) show ?thesis by (rule other_submit_announced [where u = u]) (use assms(2) s in \<open>auto simp: compatible_def\<close>)
next
  case (submit msg_sender c org payload)
  from submit(2) show ?thesis
    by (rule other_submit_announced [where t = "ev_tokens e" and u = "ev_tokens e'"]) (use submit in \<open>auto simp: contracts_def\<close>)
next
  case (outside ether t)
  then show ?thesis
    by (intro quiet_announced) (auto simp: custody_def sound_asset_def tokens_safe_def word_le_nat_alt min_def split: asset_id.splits)
next
  case (set_principal msg_sender p)
  then show ?thesis by (intro quiet_announced) (auto simp: BasicOutboundChannel_setPrincipal_def evm_simps custody_view)
next
  case (set_fee msg_sender v)
  then show ?thesis by (intro quiet_announced) (auto simp: IncentivizedOutboundChannel_setFee_def evm_simps custody_view)
next
  case (basic_access acc)
  then show ?thesis by (intro quiet_announced) (simp_all add: custody_view)
next
  case (incentivized_access acc)
  then show ?thesis by (intro quiet_announced) (simp_all add: custody_view)
qed (auto intro: eth_lock_announced [OF assms(2)] erc20_lock_announced [OF assms(2)])

section \<open>Deliveries\<close>

text \<open>The messages as the contracts take them.\<close>

definition to_basic_delivery :: "basic_message \<Rightarrow> basic_delivery" where
  "to_basic_delivery m = (bm_target m, bm_nonce m, bm_payload m)"

definition to_incentivized_delivery :: "incentivized_message \<Rightarrow> incentivized_delivery" where
  "to_incentivized_delivery m = (im_target m, im_nonce m, im_fee m, im_payload m)"

definition sending :: "'t evm \<Rightarrow> basic_channel \<times> incentivized_channel \<times> basic_event list \<times> incentivized_event list" where
  "sending e = (ev_basic_out e, ev_incentivized_out e, ev_basic_events e, ev_incentivized_events e)"

definition in_nonces :: "'t evm \<Rightarrow> u64 \<times> u64" where
  "in_nonces e = (ev_basic_in_nonce e, ev_incentivized_in_nonce e)"

definition paid :: "'t evm_lib \<Rightarrow> deployment \<Rightarrow> (asset_id \<Rightarrow> nat) \<Rightarrow> 't evm \<Rightarrow> 't evm \<Rightarrow> bool" where
  "paid T D x e e' \<longleftrightarrow> (\<forall>a. sound_asset T D a \<longrightarrow> custody T D e a \<le> custody T D e' a + x a) \<and> sending e' = sending e \<and> in_nonces e' = in_nonces e"

lemma paid_refl: "paid T D x e e"
  by (simp add: paid_def)

lemma pay_out:
  assumes "pay T (eth_app D) dest v e = (Ok (), e')"
  shows "\<exists>f. e' = e\<lparr>ev_ether := f\<rparr> \<and> unat (ev_ether e (eth_app D)) \<le> unat (f (eth_app D)) + unat v"
  using assms
  by (auto simp: pay_def send_ether_def evm_simps checked_add_Some_iff word_le_nat_alt unat_sub intro!: exI [of _ "ev_ether e'"])

lemma reward_paid:
  assumes "ETHApp_reward D T msg_sender relayer v e = (Ok (), e')"
  shows "paid T D (\<lambda>a. if a = ETH then unat v else 0) e e'"
proof -
  obtain f where f: "e' = e\<lparr>ev_ether := f\<rparr>" "unat (ev_ether e (eth_app D)) \<le> unat (f (eth_app D)) + unat v"
    using assms pay_out [of T D relayer v e e'] by (auto simp: ETHApp_reward_def evm_simps)
  have "custody T D e a \<le> custody T D e' a + (if a = ETH then unat v else 0)" for a
    using f by (cases a) (auto simp: custody_simps min_def)
  then show ?thesis by (simp add: paid_def sending_def in_nonces_def f(1))
qed

lemma unlock_paid:
  assumes "ETHApp_unlock D T msg_sender sender recipient v e = (Ok (), e')"
  shows "paid T D (\<lambda>a. if a = ETH then unat v else 0) e e'"
proof -
  obtain f where f: "e' = e\<lparr>ev_balance := ev_balance e - v, ev_ether := f\<rparr>" "v \<le> ev_balance e"
      "unat (ev_ether e (eth_app D)) \<le> unat (f (eth_app D)) + unat v"
    using assms pay_out [of T D recipient v "e\<lparr>ev_balance := ev_balance e - v\<rparr>" e']
    by (auto simp: ETHApp_unlock_def only_inbound_def evm_simps)
  have "custody T D e a \<le> custody T D e' a + (if a = ETH then unat v else 0)" for a
    using f by (cases a) (auto simp: custody_simps min_def unat_sub word_le_nat_alt)
  then show ?thesis by (simp add: paid_def sending_def in_nonces_def f(1))
qed

lemma erc20_unlock_paid:
  assumes "ERC20App_unlock D T msg_sender token sender recipient v e = (Ok (), e')"
  shows "paid T D (\<lambda>a. if a = Token token then unat v else 0) e e'"
proof -
  obtain t where f: "e' = e\<lparr>ev_balances := (ev_balances e)(token := ev_balances e token - v), ev_tokens := t\<rparr>" "v \<le> ev_balances e token"
      "erc20_transfer T token (erc20_app D) recipient v (ev_tokens e) = (Ok True, t)"
    using assms by (auto simp: ERC20App_unlock_def only_inbound_def evm_simps)
  have "custody T D e a \<le> custody T D e' a + (if a = Token token then unat v else 0)" if "sound_asset T D a" for a
    using f(1,2) that standard_tokenD(2) [OF _ f(3)] by (cases a) (fastforce simp: custody_simps unat_sub word_le_nat_alt min_def)+
  then show ?thesis by (simp add: paid_def sending_def in_nonces_def f(1))
qed

lemma tokens_paid: "tokens_safe T D (ev_tokens e) t \<Longrightarrow> paid T D x e (e\<lparr>ev_tokens := t\<rparr>)"
  using held_custody [of "e\<lparr>ev_tokens := t\<rparr>" e T D] by (auto simp: paid_def sending_def in_nonces_def held_def intro: trans_le_add1)

lemmas tokens_paid_operations = operations_safe [THEN tokens_paid]

lemma call_paid:
  assumes "call_target D T msg_sender target payload e = (Ok (), e')"
  shows "paid T D (\<lambda>a. released T D a target payload) e e'"
proof (cases "target \<in> {eth_app D, erc20_app D, dot_app D, erc721_app D}")
  case False
  then show ?thesis using assms by (auto simp: call_target_def evm_simps intro: tokens_paid_operations)
next
  case True
  then obtain c where c: "decode_app_call T payload = Some c"
    using assms by (cases "decode_app_call T payload") (auto simp: call_target_def evm_simps)
  show ?thesis
  proof (cases c)
    case (EthUnlock sender recipient v)
    with assms c True show ?thesis
      by (auto simp: call_target_def released_def evm_simps dest!: unlock_paid split: if_splits)
  next
    case (EthReward recipient v)
    with assms c True show ?thesis
      by (auto simp: call_target_def released_def evm_simps dest!: reward_paid split: if_splits)
  next
    case (Erc20Unlock token sender recipient v)
    with assms c True show ?thesis
      by (auto simp: call_target_def released_def evm_simps dest!: erc20_unlock_paid split: if_splits)
  next
    case (DotMint sender recipient v)
    with assms c True show ?thesis
      by (auto simp: call_target_def DOTApp_mint_def only_inbound_def evm_simps intro: tokens_paid_operations split: if_splits)
  next
    case (Erc721Unlock token i sender recipient)
    with assms c True show ?thesis
      by (auto simp: call_target_def ERC721App_unlock_def only_inbound_def evm_simps intro: tokens_paid_operations split: if_splits)
  qed
qed

text \<open>A failing call pays nothing.\<close>

lemma low_level_paid:
  assumes "low_level_call (call_target D T msg_sender target payload) e = (Ok success, e')"
  shows "paid T D (\<lambda>a. released T D a target payload) e e'"
proof -
  obtain r e1 where r: "transactional (call_target D T msg_sender target payload) e = (r, e1)"
    by (cases "transactional (call_target D T msg_sender target payload) e")
  have "call_target D T msg_sender target payload e = (Ok (), e1)" if "r = Ok ()" using r that by (simp add: transactional_Ok)
  then show ?thesis
    using assms r call_paid [of D T msg_sender target payload e e1] transactional_not_Ok [OF r]
    by (cases r) (simp_all add: low_level_call_def paid_refl)
qed

definition numbered :: "('m \<Rightarrow> u64) \<Rightarrow> 'm list \<Rightarrow> bool" where
  "numbered f ms \<longleftrightarrow> map (unat \<circ> f) ms = [1..<Suc (length ms)]"

lemma basic_delivers:
  assumes "numbered bm_nonce cs"
  shows "BasicInboundChannel_processMessages D T (map to_basic_delivery ms) e = (Ok (), e') \<Longrightarrow> set ms \<subseteq> set cs \<Longrightarrow>
    unat (ev_basic_in_nonce e) \<le> length cs \<Longrightarrow>
    unat (ev_basic_in_nonce e') \<le> length cs \<and> ev_incentivized_in_nonce e' = ev_incentivized_in_nonce e \<and> sending e' = sending e \<and>
    (\<forall>a. sound_asset T D a \<longrightarrow> custody T D e a + sum_list (map (basic_release T D a) (drop (unat (ev_basic_in_nonce e')) cs)) \<le>
      custody T D e' a + sum_list (map (basic_release T D a) (drop (unat (ev_basic_in_nonce e)) cs)))"
proof (induction ms arbitrary: e)
  case Nil
  then show ?case by (simp add: ok_simps)
next
  case (Cons m ms)
  let ?n = "ev_basic_in_nonce e"
  obtain e1 b where n: "?n + 1 = bm_nonce m"
      and e1: "low_level_call (call_target D T (basic_in D) (bm_target m) (bm_payload m)) (e\<lparr>ev_basic_in_nonce := bm_nonce m\<rparr>) = (Ok b, e1)"
      and rest: "BasicInboundChannel_processMessages D T (map to_basic_delivery ms) e1 = (Ok (), e')"
    using Cons.prems(1) by (auto simp: to_basic_delivery_def [of m] evm_simps checked_add_def split: if_splits)
  have p: "paid T D (\<lambda>a. released T D a (bm_target m) (bm_payload m)) (e\<lparr>ev_basic_in_nonce := bm_nonce m\<rparr>) e1" using e1 by (rule low_level_paid)
  have next_message: "unat (bm_nonce m) = Suc (unat ?n)" "unat ?n < length cs" "drop (unat ?n) cs = m # drop (Suc (unat ?n)) cs"
    using nth_event [of bm_nonce cs m ?n] assms n [symmetric] Cons.prems(2) by (simp_all add: numbered_def)
  have n1: "ev_basic_in_nonce e1 = bm_nonce m" "ev_incentivized_in_nonce e1 = ev_incentivized_in_nonce e" "sending e1 = sending e"
    using p by (simp_all add: paid_def in_nonces_def sending_def)
  have now: "custody T D e a \<le> custody T D e1 a + basic_release T D a m" if "sound_asset T D a" for a
    using p that by (simp add: paid_def basic_release_def custody_view)
  have later: "unat (ev_basic_in_nonce e') \<le> length cs" "ev_incentivized_in_nonce e' = ev_incentivized_in_nonce e" "sending e' = sending e"
    using Cons.IH [OF rest] Cons.prems(2) next_message(1,2) n1 by auto
  have rest_paid: "custody T D e1 a + sum_list (map (basic_release T D a) (drop (unat (ev_basic_in_nonce e')) cs)) \<le>
        custody T D e' a + sum_list (map (basic_release T D a) (drop (Suc (unat ?n)) cs))"
    if "sound_asset T D a" for a
    using that Cons.IH [OF rest] Cons.prems(2) next_message(1,2) n1 by auto
  have "custody T D e a + sum_list (map (basic_release T D a) (drop (unat (ev_basic_in_nonce e')) cs)) \<le>
      custody T D e' a + sum_list (map (basic_release T D a) (drop (unat ?n) cs))"
    if "sound_asset T D a" for a
    unfolding next_message(3) list.map sum_list.Cons using now [OF that] rest_paid [OF that] by linarith
  then show ?case using later by blast
qed

lemma incentivized_delivers:
  assumes "numbered im_nonce cs"
  shows "IncentivizedInboundChannel_deliver D T reward (map to_incentivized_delivery ms) e = (Ok reward', e') \<Longrightarrow> set ms \<subseteq> set cs \<Longrightarrow>
    unat (ev_incentivized_in_nonce e) \<le> length cs \<Longrightarrow>
    unat (ev_incentivized_in_nonce e') \<le> length cs \<and> ev_basic_in_nonce e' = ev_basic_in_nonce e \<and> sending e' = sending e \<and>
    (\<forall>a. sound_asset T D a \<longrightarrow> custody T D e a + (if a = ETH then unat reward' else 0) +
        sum_list (map (incentivized_release T D a) (drop (unat (ev_incentivized_in_nonce e')) cs)) \<le>
      custody T D e' a + (if a = ETH then unat reward else 0) +
        sum_list (map (incentivized_release T D a) (drop (unat (ev_incentivized_in_nonce e)) cs)))"
proof (induction ms arbitrary: reward e)
  case Nil
  then show ?case by (simp add: ok_simps)
next
  case (Cons m ms)
  let ?n = "ev_incentivized_in_nonce e"
  obtain e1 b r1 where n: "?n + 1 = im_nonce m" and r1: "checked_add reward (im_fee m) = Some r1"
      and e1: "low_level_call (call_target D T (incentivized_in D) (im_target m) (im_payload m))
        (e\<lparr>ev_incentivized_in_nonce := im_nonce m\<rparr>) = (Ok b, e1)"
      and rest: "IncentivizedInboundChannel_deliver D T r1 (map to_incentivized_delivery ms) e1 = (Ok reward', e')"
    using Cons.prems(1) by (auto simp: to_incentivized_delivery_def [of m] evm_simps checked_add_def split: if_splits)
  have p: "paid T D (\<lambda>a. released T D a (im_target m) (im_payload m)) (e\<lparr>ev_incentivized_in_nonce := im_nonce m\<rparr>) e1"
    using e1 by (rule low_level_paid)
  have next_message: "unat (im_nonce m) = Suc (unat ?n)" "unat ?n < length cs" "drop (unat ?n) cs = m # drop (Suc (unat ?n)) cs"
    using nth_event [of im_nonce cs m ?n] assms n [symmetric] Cons.prems(2) by (simp_all add: numbered_def)
  have n1: "ev_incentivized_in_nonce e1 = im_nonce m" "ev_basic_in_nonce e1 = ev_basic_in_nonce e" "sending e1 = sending e"
    using p by (simp_all add: paid_def in_nonces_def sending_def)
  have now: "custody T D e a + (if a = ETH then unat r1 else 0) \<le> custody T D e1 a + (if a = ETH then unat reward else 0) + incentivized_release T D a m"
    if "sound_asset T D a" for a
    using p [unfolded paid_def, THEN conjunct1, rule_format, OF that] r1 by (cases "a = ETH") (simp_all add: incentivized_release_def checked_add_Some_iff custody_view)
  have later: "unat (ev_incentivized_in_nonce e') \<le> length cs" "ev_basic_in_nonce e' = ev_basic_in_nonce e" "sending e' = sending e"
    using Cons.IH [OF rest] Cons.prems(2) next_message(1,2) n1 by auto
  have rest_paid: "custody T D e1 a + (if a = ETH then unat reward' else 0) +
          sum_list (map (incentivized_release T D a) (drop (unat (ev_incentivized_in_nonce e')) cs)) \<le>
        custody T D e' a + (if a = ETH then unat r1 else 0) + sum_list (map (incentivized_release T D a) (drop (Suc (unat ?n)) cs))"
    if "sound_asset T D a" for a
    using that Cons.IH [OF rest] Cons.prems(2) next_message(1,2) n1 by auto
  have "custody T D e a + (if a = ETH then unat reward' else 0) +
        sum_list (map (incentivized_release T D a) (drop (unat (ev_incentivized_in_nonce e')) cs)) \<le>
      custody T D e' a + (if a = ETH then unat reward else 0) + sum_list (map (incentivized_release T D a) (drop (unat ?n) cs))"
    if "sound_asset T D a" for a
    unfolding next_message(3) list.map sum_list.Cons using now [OF that] rest_paid [OF that] by linarith
  then show ?case using later by blast
qed

lemma incentivized_processed:
  assumes "numbered im_nonce cs" "IncentivizedInboundChannel_processMessages D T relayer (map to_incentivized_delivery ms) e = (Ok (), e')"
    and "set ms \<subseteq> set cs" "unat (ev_incentivized_in_nonce e) \<le> length cs"
  shows "unat (ev_incentivized_in_nonce e') \<le> length cs \<and> ev_basic_in_nonce e' = ev_basic_in_nonce e \<and> sending e' = sending e \<and>
    (\<forall>a. sound_asset T D a \<longrightarrow> custody T D e a + sum_list (map (incentivized_release T D a) (drop (unat (ev_incentivized_in_nonce e')) cs)) \<le>
      custody T D e' a + sum_list (map (incentivized_release T D a) (drop (unat (ev_incentivized_in_nonce e)) cs)))"
proof -
  obtain v e1 where d: "IncentivizedInboundChannel_deliver D T 0 (map to_incentivized_delivery ms) e = (Ok v, e1)"
      and r: "ETHApp_reward D T (incentivized_in D) relayer v e1 = (Ok (), e')"
    using assms(2) by (auto simp: IncentivizedInboundChannel_processMessages_def ok_simps)
  note i = incentivized_delivers [OF assms(1) d assms(3,4)]
  note p = reward_paid [OF r]
  have n: "ev_incentivized_in_nonce e' = ev_incentivized_in_nonce e1" "ev_basic_in_nonce e' = ev_basic_in_nonce e1" "sending e' = sending e1"
    using p by (simp_all add: paid_def in_nonces_def)
  have "custody T D e a + sum_list (map (incentivized_release T D a) (drop (unat (ev_incentivized_in_nonce e')) cs)) \<le>
      custody T D e' a + sum_list (map (incentivized_release T D a) (drop (unat (ev_incentivized_in_nonce e)) cs))"
    if a: "sound_asset T D a" for a
  proof -
    have "custody T D e1 a \<le> custody T D e' a + (if a = ETH then unat v else 0)"
      using p [unfolded paid_def, THEN conjunct1, rule_format, OF a] .
    moreover have "custody T D e a + (if a = ETH then unat v else 0) +
        sum_list (map (incentivized_release T D a) (drop (unat (ev_incentivized_in_nonce e')) cs)) \<le>
      custody T D e1 a + sum_list (map (incentivized_release T D a) (drop (unat (ev_incentivized_in_nonce e)) cs))"
      using i [THEN conjunct2, THEN conjunct2, THEN conjunct2, rule_format, OF a] n(1) by (cases "a = ETH") simp_all
    ultimately show ?thesis by linarith
  qed
  then show ?thesis using i n by simp
qed

end
