(* ===== verification/Bridge_System.thy ===== *)
theory Bridge_System
  imports Contract_Custody
begin

text \<open>
  Both chains and the messages between them as one system.  Users act on either chain in any order, blocks of the
  parachain commit its queues, and relayers carry logs one way and committed messages the other; what the
  parachain owes stays covered by what the contracts hold.
\<close>

section \<open>The system\<close>




section \<open>What is owed\<close>







section \<open>Steps of the parachain\<close>






section \<open>Commits\<close>




section \<open>Steps of Ethereum\<close>







section \<open>Runs of the bridge\<close>







end
