(* ===== verification/Spec2Isabelle.thy ===== *)
theory Spec2Isabelle
  imports Runtime_Witnesses Node_Command Benchmark_Witnesses Bridge_Witnesses
begin

text \<open>
  A verification library for the Polkadot-Ethereum bridge: its parachain (\<open>src/parachain\<close>) and the contracts on Ethereum it
  exchanges messages with (\<open>src/ethereum/contracts\<close>).

  \<^bold>\<open>The program.\<close>  The parachain follows the Ethereum chain with a light client (the pallet
  \<open>ethereum-light-client\<close>): relayers submit headers, the client checks their proof of work, keeps the
  tree of recent headers, and flags as final the blocks that are deep enough under the best one.
  A message from Ethereum is an event log with a proof that it lies in a receipt of a
  final block.  The inbound channels (\<open>basic-channel\<close>, \<open>incentivized-channel\<close>) take a message once, in the
  order of its nonce, and hand its payload to the pallet \<open>dispatch\<close>, which decodes a call of the
  runtime and dispatches it with the origin of the Ethereum contract that sent it.  The apps
  (\<open>dot-app\<close>, \<open>eth-app\<close>, \<open>erc20-app\<close>, \<open>erc721-app\<close>) mint and unlock on such calls, over the registries
  \<open>assets\<close> and \<open>nft\<close>, and burn and lock on calls of users; then they queue a message on an outbound
  channel, whose hook commits the queue to the block digest at fixed intervals.  The three runtimes
  (\<open>runtime/snowbridge\<close>, \<open>runtime/rococo\<close>, \<open>runtime/local\<close>) put the pallets together, and the chain
  specifications (\<open>src/chain_spec\<close>) give their genesis.  On Ethereum each app has a contract that takes ether or tokens into
  custody and hands them out, and each channel a pair of contracts: one emits the logs, the other delivers
  committed messages.

  \<^bold>\<open>How it is modelled.\<close>  The storage of a pallet is a record; an operation is a function from
  storage to a result and the storage after it, of the type \<open>ext\<close> (\<open>Bridge_Prelude\<close>).  A result is \<open>Ok\<close>,
  \<open>Err\<close>, \<open>Panic\<close> (the runtime aborts the block) or \<open>Loop\<close> (the code does not come to an end, or the
  fuel of the model is used up).  Writes before an error stay, as in the code, unless the call is marked
  transactional.  Integers are words of the width they have in the code, with the checked,
  saturating and wrapping operations of Rust.  A pallet's \<open>Config\<close> trait is a record of
  parameters and a handle (\<open>storage\<close>) to its part of the whole storage, so that the pallets compose in
  \<open>Runtime\<close> as in \<open>construct_runtime!\<close>.

  \<^bold>\<open>Theories, by part of the program.\<close>
  \<^item> \<open>Bridge_Prelude\<close>: widths, checked arithmetic, results, state, storage items; shared lemmas and
    the collections \<open>ext_simps\<close>, \<open>ok_simps\<close> and \<open>keeps_rules\<close>.
  \<^item> \<open>Eth_Primitives\<close>, \<open>Eth_Difficulty\<close>, \<open>Ethash_Data\<close>, \<open>Ethash_Proof\<close> (\<open>primitives/ethereum\<close>): logs,
    receipts, trie nodes and headers; the difficulty formula; the table of DAG roots, Merkle proofs of DAG
    nodes, the cache and the two hashimoto functions.
  \<^item> \<open>Bridge_Core\<close> (\<open>primitives/core\<close>): the shared types and errors; the traits \<open>MultiAsset\<close>, \<open>SingleAsset\<close>
    and \<open>Nft\<close> as records of operations, with the laws of the first two as locales.
  \<^item> \<open>Light_Client\<close>, \<open>Light_Client_Inv\<close>, \<open>Light_Client_Finality\<close>, \<open>Light_Client_Props\<close> (\<open>pallets/ethereum-light-client\<close>): definitions,
    the invariant of the header store, what an import does even without proof of work, and the properties of imports and of verification.
  \<^item> \<open>Assets_Pallet\<close>, \<open>Nft_Pallet\<close>, \<open>Dispatch_Pallet\<close>: the pallets of these names.
  \<^item> \<open>Channel_Core\<close>: what both channels share, with the locales of inbound nonces and outbound
    queues; \<open>Currency\<close>: the native currency as a parameter with its laws, and a ledger that
    satisfies them; \<open>Basic_Channel\<close>, \<open>Incentivized_Channel\<close>: the pallets.
  \<^item> \<open>App_Core\<close>, \<open>Dot_App\<close>, \<open>Eth_App\<close>, \<open>Erc20_App\<close>, \<open>Erc721_App\<close>: the apps, over a contract of the
    outbound router; \<open>Xcm_Support\<close> (\<open>primitives/xcm-support\<close>): the asset transactor.
  \<^item> \<open>Runtime_Weights\<close>, \<open>Framework_Weights\<close>: the weight functions of \<open>runtime/*/src/weights\<close> and
    \<open>build_block_weights\<close>.
  \<^item> \<open>Runtime\<close> (\<open>runtime/common\<close> and the three runtimes): storage, calls, configuration, dispatch.
    \<open>Runtime_Contracts\<close> interprets the locales of the components on it; \<open>Runtime_Invariants\<close> shows
    once, as locales, what suffices for a property to be kept by every call; \<open>Runtime_System\<close> has the genesis, the
    steps \<open>rt_step\<close> and the reachable states \<open>rt_reachable\<close>.
    \<open>Runtime_Config\<close> has the list of pallets of each runtime, with the prefix under which a call is
    encoded, and the constants for time and weight.
  \<^item> \<open>Chain_Spec\<close>: the three chain specifications; \<open>Node_Service\<close> (\<open>src/service.rs\<close>): the set-up of a node,
    step by step, over the client libraries; \<open>Node_Command\<close> (\<open>src/command.rs\<close>, \<open>src/cli.rs\<close>): all
    commands, the loading of specifications, the configuration of the relay chain node and the parachain a node
    collates for.
  \<^item> \<open>Bench_Headers\<close>, \<open>Light_Client_Bench\<close> (\<open>ethereum-light-client/src/benchmarking\<close>), \<open>Bench_Messages\<close>,
    \<open>Benchmarks\<close> (the \<open>benchmarking.rs\<close> of the other pallets): the headers and messages of the benchmarks, and
    each benchmark with its set-up, its call and its assertions; \<open>Benchmark_Props\<close>,
    \<open>Benchmark_Witnesses\<close>: on which states they run to the end.
  \<^item> \<open>Runtime_Props\<close>, \<open>Runtime_Flows\<close>, \<open>Runtime_Blocks\<close>: the properties that span components, the last
    over runs of whole blocks; \<open>Runtime_Samples\<close>, \<open>Runtime_Witnesses\<close>: concrete states, messages and runs to
    which they are applied.
  \<^item> \<open>Scale_Codec\<close>, \<open>Bridge_Contracts\<close> (\<open>src/ethereum/contracts\<close>): the SCALE library of the contracts; the apps, the
    channels and the rules of access to them, one definition per function, over one record of all storage.
    \<open>Bridge_Transfers\<close>: what each side makes of the other's messages, and the amounts they carry; \<open>Bridge_Coverage\<close>: every
    call of the parachain keeps what is issued, arriving and queued below the same bound; \<open>Contract_Custody\<close>: every
    transaction on Ethereum takes into custody what its event announces, counted by the app and held by it, at the token contract for a
    token, and a delivery pays out at most what its messages release; \<open>Bridge_System\<close>: both chains as one system \<open>bridge_step\<close>, with commits and
    deliveries; \<open>Bridge_Witnesses\<close>: decoders that meet the hypotheses, and a run.

  \<^bold>\<open>What is shown.\<close>  For the light client with proof of work (\<open>runtime/snowbridge\<close>, \<open>runtime/rococo\<close>): an invariant of all states that imports reach, that
  finality moves to descendants only and that two final blocks never conflict.  With proof of work or without (\<open>runtime/local\<close>): that the number of
  the finalized block does not fall, that a block it has passed over is never accepted, that verification
  accepts exactly the messages proved to be in a final block, and that imports end.  For the proof of work:
  that the difficulty is the one of the Ethereum improvement proposals and that the Merkle
  hashimoto computes the Ethash value of any DAG the root commits to.  For the registries: conservation of
  issuance and exact owner indices.  For the channels: order and no replay of inbound messages,
  complete and timely commitment of outbound ones.  For the apps: the exact effect of a burn, lock, unlock
  and relayer fee on all balances and on the queue.  For the whole: an invariant of all
  reachable states, that assets are minted only for a message of the configured contract whose log is proved to be in a receipt of a final
  block, that other contracts change nothing, that the client changes by imports only, that
  the configuration is fixed, that hooks stay within their share of a block, and that the genesis of
  every specification is valid.  For the node: when the exported genesis is that of the chain it runs, and that
  a node starts its network as its last step and a command calls nothing that would.  For the benchmarks: that those of
  the light client import under the mainnet rules, finalizing and pruning as their comments say, but fail under those of Ropsten, that the
  hooks charge the weight their benchmark measures, and which benchmarks fail on the built-in
  specifications.  For the contracts: that their hand-written encodings are the little-endian ones and decode to the
  calls they mean.  For both chains together: that what is owed for ether or a standard token, wherever it is, grows by no more
  than what the contracts hold of it, and that a withdrawal is therefore paid.

  \<^bold>\<open>Parameters.\<close>  Code outside the repository is an argument of the definitions: the RLP codec and
  Keccak (\<open>eth_lib\<close>), the Ethash crate (\<open>ethash_lib\<close>), the ABI codec (\<open>abi_lib\<close>), XCM conversions
  (\<open>xcm_lib\<close>), the Balances pallet (\<open>currency\<close>), \<open>Perbill\<close>, SCALE encoding of calls and messages, key
  derivation (\<open>seed_lib\<close>), the client libraries (\<open>service_lib\<close>, \<open>node_lib\<close>), the accounts and origins of
  benchmarks (\<open>bench_env\<close>), the token contracts and the ABI decoder on Ethereum (\<open>evm_lib\<close>), and every other pallet of the framework.  Of such a pallet the model has the
  part the bridge can see, a \<open>plan\<close>: it works on its own storage, may dispatch the calls it
  carries, alone or within a transaction, and may move bridged assets through XCM.  Calls by which root
  overwrites raw storage or code are left out.  Theorems that need more state it as
  hypotheses: \<open>currency_laws\<close>, \<open>perbill_law\<close>, \<open>seeds_valid\<close>; each has a witness in which these hold.  The theorems on both
  chains assume \<open>compatible\<close> (documented SCALE and ABI decoding, distinct addresses, no bridged asset over XCM); a step
  imports only headers that are \<open>honest\<close> and delivers only committed messages.  What they say of a token holds for a \<open>standard_token\<close>, which does what
  the documentation of ERC20 says.  Properties of the light client that need it assume \<open>no_stored_child\<close> of an imported header, which only a
  collision of hashes could violate.

  \<^bold>\<open>Fuel.\<close>  A call in a message may itself be a submission.  \<open>runtime_dispatch\<close> unfolds this twice;
  \<open>two_levels_suffice\<close> shows that more levels make no difference, since a submission needs a
  signed origin, which a message never has.  The walk over ancestors in the light client is a
  partial function; on reachable states it is shown to end, also where block numbers are not checked.

  \<^bold>\<open>Not modelled.\<close>  The runtime APIs and transaction extensions, which forward to the framework, and the
  parameters of the XCM executor, which only name library types; the bytes of the ethash proofs of the benchmarks
  (139 thousand bytes, of which the code only decodes the nodes, here a parameter); mocks and unit tests; the relayer (Go), whose choices are the order of steps; of the contracts (Solidity) the
  verification of commitments (\<open>ParachainLightClient\<close>, \<open>BeefyLightClient\<close>, \<open>MMRVerification\<close>, \<open>ValidatorRegistry\<close>), gas, calls back
  from token contracts, and the once-off initialization.  Offchain entries are kept as a history; events
  and digest items are those of the current block.
\<close>

end
